(* ===== verification/Decimal_Codec.thy ===== *)
theory Decimal_Codec
  imports Prelude
begin

text \<open>
  The contract's decimal codec (\<open>crates/longtrader-contract/src/ext.rs\<close>).  A wire decimal
  is one base-10 string; the decoder enforces a grammar of its own before it hands the
  string to the decimal parser.  The parser and the printer belong to the
  \<open>rust_decimal\<close> crate and are arguments of the definitions.
\<close>

section \<open>Blank strings\<close>

text \<open>
  Strings are byte lists in UTF-8.  \<open>str::trim\<close> strips characters with the Unicode
  property White\_Space; \<open>ws_prefix\<close> is the number of bytes of such a character at the
  front of a string, 0 when there is none.
\<close>

fun ws_prefix :: "string \<Rightarrow> nat" where
  "ws_prefix s = (case map (of_char :: char \<Rightarrow> nat) (take 3 s) of
      [] \<Rightarrow> 0
    | a # r \<Rightarrow>
        if (9 \<le> a \<and> a \<le> 13) \<or> a = 32 then 1
        else if a = 194 \<and> r \<noteq> [] \<and> (hd r = 133 \<or> hd r = 160) then 2
        else if length r < 2 then 0
        else let b = r ! 0; c = r ! 1 in
          if (a = 225 \<and> b = 154 \<and> c = 128)
             \<or> (a = 226 \<and> b = 128 \<and> (128 \<le> c \<and> c \<le> 138 \<or> c = 168 \<or> c = 169 \<or> c = 175))
             \<or> (a = 226 \<and> b = 129 \<and> c = 159)
             \<or> (a = 227 \<and> b = 128 \<and> c = 128) then 3
          else 0)"

function is_blank :: "string \<Rightarrow> bool" where
  "is_blank s = (if s = [] then True
     else if ws_prefix s = 0 then False else is_blank (drop (ws_prefix s) s))"
  by pat_completeness auto
termination
  by (relation "measure length") auto

declare ws_prefix.simps [simp del]
declare is_blank.simps [simp del]

lemma ws_prefix_ascii:
  "ws_prefix (c # s) = 1" if "of_char c = (32::nat) \<or> (9 \<le> (of_char c :: nat) \<and> (of_char c :: nat) \<le> 13)"
  using that by (auto simp: ws_prefix.simps)

lemma ws_prefix_plain:
  assumes "32 < (of_char c :: nat)" and "(of_char c :: nat) < 128"
  shows "ws_prefix (c # s) = 0"
  using assms by (auto simp: ws_prefix.simps Let_def split: list.splits)

lemma is_blank_Nil [simp]: "is_blank []"
  by (simp add: is_blank.simps)

lemma is_blank_plain:
  assumes "32 < (of_char c :: nat)" and "(of_char c :: nat) < 128"
  shows "\<not> is_blank (c # s)"
  by (simp add: is_blank.simps [of "c # s"] ws_prefix_plain [OF assms])

section \<open>The grammar\<close>

definition is_digits :: "string \<Rightarrow> bool" where
  "is_digits s = (s \<noteq> [] \<and> list_all is_ascii_digit s)"

definition max_scale :: nat where "max_scale = 28"

text \<open>\<open>str::split_once('.')\<close>: the parts around the first decimal point.\<close>

definition split_once :: "char \<Rightarrow> string \<Rightarrow> (string \<times> string) option" where
  "split_once c s =
     (if c \<in> set s then Some (takeWhile (\<lambda>x. x \<noteq> c) s, tl (dropWhile (\<lambda>x. x \<noteq> c) s))
      else None)"

definition strip_minus :: "string \<Rightarrow> string" where
  "strip_minus s = (case s of [] \<Rightarrow> [] | c # r \<Rightarrow> if c = CHR ''-'' then r else s)"

definition starts_with :: "char \<Rightarrow> string \<Rightarrow> bool" where
  "starts_with c s = (case s of [] \<Rightarrow> False | d # _ \<Rightarrow> d = c)"

definition grammar_violation :: "string \<Rightarrow> string option" where
  "grammar_violation s =
     (if CHR ''_'' \<in> set s then Some ''digit separators are not accepted''
      else if CHR ''e'' \<in> set s \<or> CHR ''E'' \<in> set s then Some ''exponents are not accepted''
      else if starts_with (CHR ''+'') s then Some ''a leading `+` is not accepted''
      else
        let body = strip_minus s;
            (whole, fraction) = (case split_once (CHR ''.'') body of
                Some (w, f) \<Rightarrow> (w, Some f)
              | None \<Rightarrow> (body, None))
        in if whole = [] then Some ''expected at least one digit before the decimal point''
           else if \<not> is_digits whole then Some ''expected only digits before the decimal point''
           else case fraction of
               None \<Rightarrow> None
             | Some f \<Rightarrow>
                 if f = [] then Some ''expected at least one digit after the decimal point''
                 else if \<not> is_digits f then Some ''expected only digits after the decimal point''
                 else if length f > max_scale
                   then Some ''more fractional digits than a decimal can hold''
                 else None)"

section \<open>The decimal type\<close>

text \<open>
  The \<open>Decimal\<close> of the \<open>rust_decimal\<close> crate as a parameter: its constants, its arithmetic
  (\<open>d_new\<close> is an integer with a scale; addition, subtraction, multiplication and division
  panic on overflow or a zero divisor, which is the answer \<open>None\<close>), its order and its text form.
\<close>

record 'd decimal_api =
  d_zero :: 'd
  d_one :: 'd
  d_of_int :: "int \<Rightarrow> 'd"
  d_neg :: "'d \<Rightarrow> 'd"
  d_abs :: "'d \<Rightarrow> 'd"
  d_new :: "int \<Rightarrow> nat \<Rightarrow> 'd"
  d_add :: "'d \<Rightarrow> 'd \<Rightarrow> 'd option"
  d_sub :: "'d \<Rightarrow> 'd \<Rightarrow> 'd option"
  d_mul :: "'d \<Rightarrow> 'd \<Rightarrow> 'd option"
  d_div :: "'d \<Rightarrow> 'd \<Rightarrow> 'd option"
  d_gt :: "'d \<Rightarrow> 'd \<Rightarrow> bool"
  d_is_zero :: "'d \<Rightarrow> bool"
  d_is_sign_negative :: "'d \<Rightarrow> bool"
  d_show :: "'d \<Rightarrow> string"
  d_parse :: "string \<Rightarrow> string + 'd"

text \<open>Integers as such a type, to evaluate the definitions on.\<close>

definition int_api :: "int decimal_api" where
  "int_api = \<lparr>d_zero = 0, d_one = 1, d_of_int = (\<lambda>i. i), d_neg = uminus, d_abs = abs,
     d_new = (\<lambda>m e. m div 10 ^ e), d_add = (\<lambda>a b. Some (a + b)), d_sub = (\<lambda>a b. Some (a - b)),
     d_mul = (\<lambda>a b. Some (a * b)), d_div = (\<lambda>a b. if b = 0 then None else Some (a div b)),
     d_gt = (\<lambda>a b. a > b), d_is_zero = (\<lambda>a. a = 0), d_is_sign_negative = (\<lambda>a. a < 0), d_show = int_to_string,
     d_parse = (\<lambda>s. case parse_unsigned u64_max s of None \<Rightarrow> Inl ''bad'' | Some n \<Rightarrow> Inr (int n))\<rparr>"

section \<open>Encoding and decoding\<close>

datatype decimal_convert_error =
    Empty
  | NotBase10 string string
  | OutOfRange string string

type_synonym wire_decimal = string

text \<open>
  \<open>show_dec\<close> is the crate's \<open>to_string\<close>, \<open>parse_dec\<close> its \<open>FromStr\<close>; the error side of
  the parser is its message.
\<close>

definition decimal_to_common :: "('d \<Rightarrow> string) \<Rightarrow> 'd \<Rightarrow> wire_decimal" where
  "decimal_to_common show_dec value = show_dec value"

definition common_to_decimal ::
  "(string \<Rightarrow> string + 'd) \<Rightarrow> wire_decimal \<Rightarrow> decimal_convert_error + 'd" where
  "common_to_decimal parse_dec value =
     (if is_blank value then Inl Empty
      else case grammar_violation value of
          Some reason \<Rightarrow> Inl (NotBase10 value reason)
        | None \<Rightarrow> map_err (\<lambda>source. OutOfRange value source) (parse_dec value))"

section \<open>The language of the grammar\<close>

text \<open>
  The documented grammar as a predicate: an optional minus sign, digits, and optionally a
  point followed by one to 28 digits.
\<close>

definition base10 :: "string \<Rightarrow> bool" where
  "base10 s \<longleftrightarrow> (\<exists>w. is_digits w \<and>
     (strip_minus s = w \<or>
      (\<exists>f. is_digits f \<and> length f \<le> 28 \<and> strip_minus s = w @ CHR ''.'' # f)))"

lemma is_digits_no_char:
  assumes "is_digits w" and "\<not> is_ascii_digit c"
  shows "c \<notin> set w"
  using assms by (auto simp: is_digits_def list_all_iff)

lemma non_digits [simp]:
  "\<not> is_ascii_digit (CHR ''.'')" "\<not> is_ascii_digit (CHR ''_'')" "\<not> is_ascii_digit (CHR ''e'')"
  "\<not> is_ascii_digit (CHR ''E'')" "\<not> is_ascii_digit (CHR ''+'')" "\<not> is_ascii_digit (CHR ''-'')"
  by (simp_all add: is_ascii_digit_def)

lemma split_once_append:
  "c \<notin> set w \<Longrightarrow> split_once c (w @ c # f) = Some (w, f)"
  by (induction w) (auto simp: split_once_def)

lemma split_once_Some:
  "split_once c s = Some (w, f) \<Longrightarrow> s = w @ c # f \<and> c \<notin> set w"
  unfolding split_once_def
  by (auto split: if_splits dest: set_takeWhileD)
     (metis (mono_tags, lifting) dropWhile_eq_Nil_conv hd_dropWhile list.collapse
       takeWhile_dropWhile_id)

lemma split_once_None: "split_once c s = None \<longleftrightarrow> c \<notin> set s"
  by (simp add: split_once_def)

lemma strip_minus_cases: "s = strip_minus s \<or> s = CHR ''-'' # strip_minus s"
  by (cases s) (auto simp: strip_minus_def)

lemma set_strip_minus: "c \<noteq> CHR ''-'' \<Longrightarrow> c \<in> set s \<longleftrightarrow> c \<in> set (strip_minus s)"
  by (cases s) (auto simp: strip_minus_def)

lemma starts_plus_strip: "starts_with (CHR ''+'') s \<Longrightarrow> strip_minus s = s"
  by (cases s) (auto simp: strip_minus_def starts_with_def)

lemma base10_chars:
  assumes "base10 s" and "c \<noteq> CHR ''-''" and "c \<noteq> CHR ''.''" and "\<not> is_ascii_digit c"
  shows "c \<notin> set s"
proof -
  have "c \<notin> set (strip_minus s)"
    using assms is_digits_no_char [of _ c] by (auto simp: base10_def)
  with assms(2) show ?thesis by (simp add: set_strip_minus [symmetric])
qed

lemma base10_no_plus: "base10 s \<Longrightarrow> \<not> starts_with (CHR ''+'') s"
  using base10_chars [of s "CHR ''+''"] by (cases s) (auto simp: starts_with_def)

lemma grammar_violation_None_base10: "grammar_violation s = None \<Longrightarrow> base10 s"
  unfolding grammar_violation_def base10_def
  by (auto simp: Let_def max_scale_def not_less split: if_splits option.splits prod.splits
      dest!: split_once_Some)

lemma base10_grammar_violation_None:
  assumes "base10 s"
  shows "grammar_violation s = None"
proof -
  have free: "CHR ''_'' \<notin> set s" "CHR ''e'' \<notin> set s" "CHR ''E'' \<notin> set s"
    by (rule base10_chars [OF assms], simp, simp, simp)+
  from assms obtain w where w: "is_digits w"
    and cases: "strip_minus s = w \<or>
      (\<exists>f. is_digits f \<and> length f \<le> 28 \<and> strip_minus s = w @ CHR ''.'' # f)"
    by (auto simp: base10_def)
  have dot: "CHR ''.'' \<notin> set w" using w by (rule is_digits_no_char) simp
  have ne: "w \<noteq> []" using w by (simp add: is_digits_def)
  from cases show ?thesis
  proof
    assume "strip_minus s = w"
    then show ?thesis
      using free base10_no_plus [OF assms] w dot ne
      by (simp add: grammar_violation_def split_once_None [THEN iffD2])
  next
    assume "\<exists>f. is_digits f \<and> length f \<le> 28 \<and> strip_minus s = w @ CHR ''.'' # f"
    then obtain f where f: "is_digits f" "length f \<le> 28" "strip_minus s = w @ CHR ''.'' # f"
      by blast
    then have "f \<noteq> []" by (simp add: is_digits_def)
    with f show ?thesis
      using free base10_no_plus [OF assms] w ne
      by (simp add: grammar_violation_def split_once_append [OF dot] max_scale_def)
  qed
qed

text \<open>
  C10: the decoder's grammar check accepts exactly the documented grammar: no separator,
  exponent, leading plus sign or bare point passes, and nothing inside the grammar is
  refused.
\<close>

theorem grammar_violation_iff: "grammar_violation s = None \<longleftrightarrow> base10 s"
  using grammar_violation_None_base10 base10_grammar_violation_None by blast

lemma base10_not_blank:
  assumes "base10 s"
  shows "\<not> is_blank s"
proof -
  have digit_range: "32 < (of_char c :: nat) \<and> (of_char c :: nat) < 128" if "is_ascii_digit c" for c
    using that by (auto simp: is_ascii_digit_def)
  from assms obtain w r where "is_digits w" "strip_minus s = w @ r"
    by (auto simp: base10_def)
  then obtain d ds where "strip_minus s = d # ds" "is_ascii_digit d"
    by (cases w) (auto simp: is_digits_def)
  with strip_minus_cases [of s] obtain c cs
    where "s = c # cs" "32 < (of_char c :: nat) \<and> (of_char c :: nat) < 128"
    using digit_range [of d] by force
  then show ?thesis by (auto dest: is_blank_plain)
qed

end
