(* ===== verification/Ports.thy ===== *)
theory Ports
  imports Prelude Decimal_Codec
begin

unbundle bit_operations_syntax

text \<open>
  The strategy-facing ports (\<open>bin/longtrader-worker/src/ports.rs\<close>) and the contract data
  they exchange (\<open>proto/longtrader\<close>).  A backend is a record of functions over a venue
  state, the way the code holds an \<open>Arc<dyn TradingGateway>\<close>: every component that talks
  to a venue takes such a record as an argument.
\<close>

section \<open>Contract data\<close>

text \<open>
  The messages of the contract, with the fields the worker reads or writes; an order and an
  order request carry further optional fields that no operation here looks at.
\<close>

datatype 'a enum_value = Known 'a | Unknown int

record exchange_id =
  ex_id :: string
  ex_label :: string

definition mk_exchange_id :: "string \<Rightarrow> string \<Rightarrow> exchange_id" where
  "mk_exchange_id i l = \<lparr>ex_id = i, ex_label = l\<rparr>"

definition default_exchange_id :: exchange_id where
  "default_exchange_id = mk_exchange_id '''' ''''"

record timestamp =
  ts_seconds :: int
  ts_nanos :: int

record event_header =
  hdr_trace_id :: string
  hdr_sequence :: u64

definition default_header :: event_header where
  "default_header = \<lparr>hdr_trace_id = '''', hdr_sequence = 0\<rparr>"

datatype order_type = OrderTypeUnspecified | Market | Limit | Stop | StopLimit
datatype order_side = OrderSideUnspecified | Buy | Sell
datatype order_status = OrderStatusUnspecified | Open | Filled | Canceled | Rejected
datatype time_in_force = TifUnspecified | Gtc | Ioc | Fok | Gtd
datatype stream_channel = ChannelUnspecified | Ticker | Orderbook | Trades | Ohlcv

record order_request =
  or_client_order_id :: string
  or_symbol :: string
  or_type :: "order_type enum_value"
  or_side :: "order_side enum_value"
  or_amount :: "wire_decimal option"
  or_price :: "wire_decimal option"
  or_time_in_force :: "time_in_force enum_value"
  or_post_only :: bool
  or_reduce_only :: bool

record order =
  o_id :: string
  o_client_order_id :: string
  o_symbol :: string
  o_type :: "order_type enum_value"
  o_side :: "order_side enum_value"
  o_status :: "order_status enum_value"
  o_amount :: "wire_decimal option"
  o_price :: "wire_decimal option"
  o_filled :: "wire_decimal option"
  o_remaining :: "wire_decimal option"
  o_cost :: "wire_decimal option"
  o_time_in_force :: "time_in_force enum_value"
  o_timestamp :: "timestamp option"
  o_last_trade_timestamp :: "timestamp option"
  o_post_only :: bool
  o_reduce_only :: bool

record create_order_request =
  cor_exchange_id :: "exchange_id option"
  cor_order :: "order_request option"
  cor_session_id :: string

record create_orders_request =
  cosr_exchange_id :: "exchange_id option"
  cosr_orders :: "order_request list"
  cosr_session_id :: string

record cancel_order_request =
  can_exchange_id :: "exchange_id option"
  can_order_id :: string
  can_symbol :: string

record cancel_all_orders_request =
  caa_exchange_id :: "exchange_id option"
  caa_symbol :: string

record fetch_open_orders_request =
  foo_exchange_id :: "exchange_id option"
  foo_symbol :: string

text \<open>
  The account, history and position calls carry messages no component here looks into:
  their remaining fields and their responses are a type parameter.
\<close>

datatype account_method =
    GetAccount | GetPositions | GetOrderHistory | GetClosedPositions
  | ClosePosition | CloseAllPositions | ModifyPosition

record 'm account_request =
  ar_exchange_id :: "exchange_id option"
  ar_position_id :: string
  ar_fields :: 'm

record 'm snapshot =
  sn_sequence :: u64
  sn_time :: "timestamp option"
  sn_balances :: "'m list"
  sn_positions :: "'m list"
  sn_open_orders :: "order list"

section \<open>Port errors\<close>

datatype port_error =
    Transport string
  | Rpc u32 string
  | Unsupported string
  | MissingField string
  | InvalidArgument string
  | NotFound string
  | DecimalError decimal_convert_error

text \<open>The \<open>Display\<close> text of an error, as the \<open>error\<close> attributes of the enums spell it.\<close>

fun decimal_error_to_string :: "decimal_convert_error \<Rightarrow> string" where
  "decimal_error_to_string Empty =
     ''decimal payload is empty: a value is carried by the containing field's presence''"
| "decimal_error_to_string (NotBase10 value reason) =
     ''`'' @ value @ ''` is not a base-10 decimal: '' @ reason"
| "decimal_error_to_string (OutOfRange value source) =
     ''`'' @ value @ ''` is out of range for a decimal: '' @ source"

fun port_error_to_string :: "port_error \<Rightarrow> string" where
  "port_error_to_string (Transport m) = ''transport error: '' @ m"
| "port_error_to_string (Rpc code message) =
     ''rpc error ('' @ nat_to_string (unat code) @ ''): '' @ message"
| "port_error_to_string (Unsupported m) = ''operation unsupported by this backend: '' @ m"
| "port_error_to_string (MissingField m) = ''missing required field: '' @ m"
| "port_error_to_string (InvalidArgument m) = ''invalid argument: '' @ m"
| "port_error_to_string (NotFound m) = ''not found: '' @ m"
| "port_error_to_string (DecimalError e) = decimal_error_to_string e"

section \<open>Sequence gaps\<close>

definition is_sequence_gap :: "u64 \<Rightarrow> u64 \<Rightarrow> bool" where
  "is_sequence_gap prev next = (next \<noteq> prev + 1)"

definition has_sequence_gap :: "u64 option \<Rightarrow> u64 \<Rightarrow> bool" where
  "has_sequence_gap prev sequence =
     (if sequence = 0 then False
      else case prev of None \<Rightarrow> False | Some p \<Rightarrow> is_sequence_gap p sequence)"

section \<open>Overflow policies and page sizes\<close>

datatype overflow_policy = DropOldest | Coalesce | Block

definition overflow_ticker :: overflow_policy where "overflow_ticker = DropOldest"
definition overflow_orderbook :: overflow_policy where "overflow_orderbook = Coalesce"
definition overflow_orders :: overflow_policy where "overflow_orders = Block"

definition overflow_policy_for_channel :: "stream_channel \<Rightarrow> overflow_policy" where
  "overflow_policy_for_channel channel = (case channel of
       Orderbook \<Rightarrow> overflow_orderbook
     | Ticker \<Rightarrow> overflow_ticker
     | Trades \<Rightarrow> overflow_ticker
     | Ohlcv \<Rightarrow> overflow_ticker
     | _ \<Rightarrow> overflow_orders)"

definition default_page_limit :: u32 where "default_page_limit = 100"
definition max_page_limit :: u32 where "max_page_limit = 1000"

definition page_limit_or_default :: "u32 \<Rightarrow> u32" where
  "page_limit_or_default limit =
     (if limit = 0 then default_page_limit else min limit max_page_limit)"

lemma page_limit_bounds:
  "1 \<le> page_limit_or_default limit \<and> page_limit_or_default limit \<le> 1000"
proof (cases "limit = 0")
  case True
  then show ?thesis by (simp add: page_limit_or_default_def default_page_limit_def)
next
  case False
  then have "1 \<le> limit" by (simp add: word_le_nat_alt Suc_le_eq unat_gt_0)
  then show ?thesis using False
    by (simp add: page_limit_or_default_def max_page_limit_def min_def)
qed

section \<open>The trading gateway\<close>

text \<open>
  The trait \<open>TradingGateway\<close> over a venue state \<open>'v\<close>.  Every call answers a result and
  the venue state after it.  The two delays are how long a cancel and a snapshot take, in
  nanoseconds: the control plane puts a time budget on these two calls.
\<close>

record ('v, 'm) trading_gateway =
  gw_create_order :: "'v \<Rightarrow> create_order_request \<Rightarrow> (port_error + order) \<times> 'v"
  gw_batch_create_orders :: "'v \<Rightarrow> create_orders_request \<Rightarrow> (port_error + order list) \<times> 'v"
  gw_cancel_order :: "'v \<Rightarrow> cancel_order_request \<Rightarrow> (port_error + order) \<times> 'v"
  gw_cancel_all_orders ::
    "'v \<Rightarrow> cancel_all_orders_request \<Rightarrow> (port_error + order list) \<times> 'v"
  gw_fetch_open_orders ::
    "'v \<Rightarrow> fetch_open_orders_request \<Rightarrow> (port_error + order list) \<times> 'v"
  gw_account_call ::
    "'v \<Rightarrow> account_method \<Rightarrow> 'm account_request \<Rightarrow> (port_error + 'm) \<times> 'v"
  gw_sync_state :: "'v \<Rightarrow> exchange_id \<Rightarrow> (port_error + 'm snapshot) \<times> 'v"
  gw_cancel_delay :: "'v \<Rightarrow> cancel_order_request \<Rightarrow> duration"
  gw_sync_delay :: "'v \<Rightarrow> exchange_id \<Rightarrow> duration"

text \<open>
  What a client may rely on when it unwinds orders: \<open>resting v i\<close> says that the venue in
  state \<open>v\<close> holds an open order with id \<open>i\<close>, \<open>vok\<close> is the venue's own invariant.  An
  accepted cancel leaves that order not resting, an accepted cancel of everything leaves
  nothing resting, and neither they nor a read bring an order to life.
\<close>

locale venue_contract =
  fixes gw :: "('v, 'm) trading_gateway" and resting :: "'v \<Rightarrow> string \<Rightarrow> bool" and vok :: "'v \<Rightarrow> bool"
  assumes cancel_accepted:
      "vok v \<Longrightarrow> gw_cancel_order gw v req = (Inr ord, v') \<Longrightarrow> \<not> resting v' (can_order_id req)"
    and cancel_no_birth:
      "vok v \<Longrightarrow> gw_cancel_order gw v req = (res, v') \<Longrightarrow> resting v' i \<Longrightarrow> resting v i"
    and cancel_ok: "vok v \<Longrightarrow> gw_cancel_order gw v req = (res, v') \<Longrightarrow> vok v'"
    and cancel_all_accepted:
      "vok v \<Longrightarrow> gw_cancel_all_orders gw v areq = (Inr ords, v') \<Longrightarrow> caa_symbol areq = [] \<Longrightarrow>
       \<not> resting v' i"
    and cancel_all_no_birth:
      "vok v \<Longrightarrow> gw_cancel_all_orders gw v areq = (ares, v') \<Longrightarrow> resting v' i \<Longrightarrow> resting v i"
    and cancel_all_ok: "vok v \<Longrightarrow> gw_cancel_all_orders gw v areq = (ares, v') \<Longrightarrow> vok v'"

end
