(* ===== verification/Lease_Time.thy ===== *)
theory Lease_Time
  imports Ports
begin

text \<open>
  Lease bounds (\<open>session/lease.rs\<close>) and wall-clock conversions (\<open>session/time.rs\<close>).  A
  protobuf \<open>Duration\<close> is a pair of a 64-bit and a 32-bit signed integer; a system time is
  the number of nanoseconds since the Unix epoch, negative before it.
\<close>

section \<open>Leases\<close>

definition min_lease :: duration where "min_lease = from_millis 500"
definition max_lease :: duration where "max_lease = 3600 * 1000000000"

record proto_duration =
  pd_seconds :: int
  pd_nanos :: int

definition lease_timeout_from_proto :: "proto_duration \<Rightarrow> port_error + duration" where
  "lease_timeout_from_proto timeout =
     (case Option.bind (checked_i64 (pd_seconds timeout * 1000))
             (\<lambda>s. checked_i64 (s + trunc_div (pd_nanos timeout) 1000000)) of
        None \<Rightarrow> Inl (InvalidArgument (''lease_timeout overflow: '' @ int_to_string (pd_seconds timeout)
                  @ ''s '' @ int_to_string (pd_nanos timeout) @ ''ns''))
      | Some millis \<Rightarrow>
          if millis < 0
          then Inl (InvalidArgument (''lease_timeout must be >= 0, got '' @ int_to_string millis @ ''ms''))
          else let dur = from_millis (nat millis)
               in if dur < min_lease \<or> dur > max_lease
                  then Inl (InvalidArgument (''lease_timeout '' @ nat_to_string (as_millis dur)
                         @ ''ms out of bounds [500ms, 3600s]''))
                  else Inr dur)"

definition default_lease :: "nat \<Rightarrow> duration" where
  "default_lease heartbeat_ms =
     max min_lease (min max_lease (from_millis (min (heartbeat_ms * 3) u64_max)))"

lemma lease_bounds_def: "min_lease = 500000000" "max_lease = 3600000000000"
  by (simp_all add: min_lease_def max_lease_def from_millis_def)

lemma lease_timeout_bounds:
  "lease_timeout_from_proto t = Inr d \<Longrightarrow> min_lease \<le> d \<and> d \<le> max_lease"
  by (auto simp: lease_timeout_from_proto_def Let_def split: option.splits if_splits)

lemma default_lease_bounds: "min_lease \<le> default_lease h \<and> default_lease h \<le> max_lease"
  by (auto simp: default_lease_def lease_bounds_def)

lemma lease_timeout_error_is_invalid_argument:
  "lease_timeout_from_proto t = Inl e \<Longrightarrow> \<exists>m. e = InvalidArgument m"
  by (auto simp: lease_timeout_from_proto_def Let_def split: option.splits if_splits)

text \<open>
  A lease duration is accepted exactly when its value in whole milliseconds, the
  nanoseconds truncated towards zero, lies within 500 ms and 3600 s, and then it is
  that value; overflow and negative values are never turned into a lease.
\<close>

theorem lease_timeout_accepts_iff:
  "lease_timeout_from_proto t = Inr d \<longleftrightarrow>
     (let ms = pd_seconds t * 1000 + trunc_div (pd_nanos t) 1000000
      in i64_min \<le> pd_seconds t * 1000 \<and> pd_seconds t * 1000 \<le> i64_max \<and>
         500 \<le> ms \<and> ms \<le> 3600000 \<and> d = from_millis (nat ms))"
proof -
  define s1 where "s1 = pd_seconds t * 1000"
  define ms where "ms = s1 + trunc_div (pd_nanos t) 1000000"
  have millis: "Option.bind (checked_i64 s1) (\<lambda>s. checked_i64 (s + trunc_div (pd_nanos t) 1000000)) =
      (if i64_min \<le> s1 \<and> s1 \<le> i64_max \<and> i64_min \<le> ms \<and> ms \<le> i64_max then Some ms else None)"
    by (auto simp: checked_i64_def ms_def)
  have bounds: "from_millis (nat ms) < min_lease \<longleftrightarrow> ms < 500"
    "max_lease < from_millis (nat ms) \<longleftrightarrow> 3600000 < ms" if "0 \<le> ms"
    using that by (auto simp: lease_bounds_def from_millis_def nat_less_iff)
  have range: "500 \<le> ms \<Longrightarrow> ms \<le> 3600000 \<Longrightarrow> i64_min \<le> ms \<and> ms \<le> i64_max"
    by (simp add: i64_min_def i64_max_def)
  show ?thesis
    unfolding lease_timeout_from_proto_def s1_def [symmetric] ms_def [symmetric] millis
    using bounds range by (auto simp: Let_def)
qed

section \<open>Wall clock\<close>

definition now_ms :: "int \<Rightarrow> int" where
  "now_ms sys = (if sys < 0 then 0
     else case checked_i64 (sys div 1000000) of Some v \<Rightarrow> v | None \<Rightarrow> i64_max)"

definition now_ns :: "int \<Rightarrow> int" where
  "now_ns sys = (if sys < 0 then 0
     else case checked_i64 sys of Some v \<Rightarrow> v | None \<Rightarrow> i64_max)"

definition timestamp_from_ms :: "int \<Rightarrow> timestamp" where
  "timestamp_from_ms ms =
     \<lparr>ts_seconds = ms div 1000,
      ts_nanos = (let n = (ms mod 1000) * 1000000 in if - (2 ^ 31) \<le> n \<and> n < 2 ^ 31 then n else 0)\<rparr>"

definition now_ts :: "int \<Rightarrow> timestamp" where
  "now_ts sys = timestamp_from_ms (now_ms sys)"

text \<open>
  The protobuf timestamp built from Unix milliseconds denotes exactly that instant, with
  nanoseconds in the canonical range, before the epoch as well.
\<close>

lemma timestamp_from_ms_exact:
  "ts_seconds (timestamp_from_ms ms) * 1000 + ts_nanos (timestamp_from_ms ms) div 1000000 = ms \<and>
   0 \<le> ts_nanos (timestamp_from_ms ms) \<and> ts_nanos (timestamp_from_ms ms) < 1000000000 \<and>
   ts_nanos (timestamp_from_ms ms) mod 1000000 = 0"
proof -
  have "0 \<le> ms mod 1000" "ms mod 1000 < 1000" by simp_all
  then have "ts_nanos (timestamp_from_ms ms) = (ms mod 1000) * 1000000"
    by (auto simp: timestamp_from_ms_def Let_def)
  moreover have "ts_seconds (timestamp_from_ms ms) = ms div 1000"
    by (simp add: timestamp_from_ms_def)
  ultimately show ?thesis
    using \<open>0 \<le> ms mod 1000\<close> \<open>ms mod 1000 < 1000\<close> by simp
qed

lemma now_ms_range: "0 \<le> now_ms sys \<and> now_ms sys \<le> i64_max"
  by (auto simp: now_ms_def i64_max_def split: option.splits)

end
