(* ===== verification/Session_Handle.thy ===== *)
theory Session_Handle
  imports Lease_Time
begin

text \<open>
  One session: the lifecycle states (\<open>session/state.rs\<close>), the kill-switch policy, the
  handle with its lease, tracked orders, counters and replay ring, and the errors of the
  control plane (\<open>session/mod.rs\<close>).  The atomics and mutex-protected fields of the handle
  are the fields of a record; a method that mutates them returns the new record.
\<close>

section \<open>Lifecycle states\<close>

datatype session_state = Attached | Syncing | Active | KillSwitchTripped | GracefulShutdown

datatype proto_session_state =
    ProtoUnspecified | ProtoAttached | ProtoSyncing | ProtoActive
  | ProtoKillSwitchTripped | ProtoGracefulShutdown

fun state_to_u8 :: "session_state \<Rightarrow> u8" where
  "state_to_u8 Attached = 1"
| "state_to_u8 Syncing = 2"
| "state_to_u8 Active = 3"
| "state_to_u8 KillSwitchTripped = 4"
| "state_to_u8 GracefulShutdown = 5"

definition state_from_u8 :: "u8 \<Rightarrow> session_state option" where
  "state_from_u8 v =
     (if v = 1 then Some Attached
      else if v = 2 then Some Syncing
      else if v = 3 then Some Active
      else if v = 4 then Some KillSwitchTripped
      else if v = 5 then Some GracefulShutdown
      else None)"

fun state_to_proto :: "session_state \<Rightarrow> proto_session_state" where
  "state_to_proto Attached = ProtoAttached"
| "state_to_proto Syncing = ProtoSyncing"
| "state_to_proto Active = ProtoActive"
| "state_to_proto KillSwitchTripped = ProtoKillSwitchTripped"
| "state_to_proto GracefulShutdown = ProtoGracefulShutdown"

fun is_terminal :: "session_state \<Rightarrow> bool" where
  "is_terminal KillSwitchTripped = True"
| "is_terminal GracefulShutdown = True"
| "is_terminal _ = False"

lemma state_from_to_u8 [simp]: "state_from_u8 (state_to_u8 s) = Some s"
  by (cases s) (simp_all add: state_from_u8_def)

declare state_to_u8.simps [simp del]

lemma state_from_u8_Some: "state_from_u8 v = Some s \<longleftrightarrow> v = state_to_u8 s"
  by (cases s) (auto simp: state_from_u8_def state_to_u8.simps split: if_splits)

lemma state_to_u8_inject [simp]: "state_to_u8 s = state_to_u8 t \<longleftrightarrow> s = t"
  by (metis option.inject state_from_to_u8)

section \<open>Kill-switch policy and errors\<close>

datatype scope = ScopeUnspecified | SessionOrders | AllOrders | ScopeNone

record session_policy =
  lease_timeout :: duration
  policy_scope :: scope

definition DEFAULT_HEARTBEAT_MS :: u32 where "DEFAULT_HEARTBEAT_MS = 10000"
definition EVENT_RING_CAPACITY :: nat where "EVENT_RING_CAPACITY = 1024"

definition default_policy :: session_policy where
  "default_policy = \<lparr>lease_timeout = default_lease (unat DEFAULT_HEARTBEAT_MS), policy_scope = SessionOrders\<rparr>"

text \<open>The wire message \<open>worker.v1.KillSwitchPolicy\<close>.\<close>

record kill_switch_policy =
  ksp_lease_timeout :: "proto_duration option"
  ksp_scope :: "scope enum_value"

text \<open>
  The reasons behind \<open>ManagerError::InvalidArgument\<close>, one per place that builds its text.
\<close>

datatype invalid_reason =
    TerminalReconnect string
  | InvalidState string
  | ReconcileTerminal string session_state
  | ReconcileNotSyncing string session_state
  | ClientMismatch string string string string
  | BadLease string
  | UnknownScope int

datatype manager_error =
    SessionNotFound string
  | Unauthenticated
  | BadArgument invalid_reason
  | SyncInProgress string "session_state option"
  | CancelsFailed string "session_state option" "string list"
  | PortFailure port_error

text \<open>
  The policy is updated in place: the lease is written before the scope is looked at, so
  the state after a refusal is part of the result.
\<close>

definition apply_policy ::
  "session_policy \<Rightarrow> kill_switch_policy \<Rightarrow> (manager_error + unit) \<times> session_policy" where
  "apply_policy current policy =
     (case (case ksp_lease_timeout policy of
              None \<Rightarrow> Inr current
            | Some timeout \<Rightarrow> (case lease_timeout_from_proto timeout of
                  Inl e \<Rightarrow> Inl (BadArgument (BadLease (port_error_to_string e)))
                | Inr d \<Rightarrow> Inr (current\<lparr>lease_timeout := d\<rparr>))) of
        Inl e \<Rightarrow> (Inl e, current)
      | Inr current \<Rightarrow> (case ksp_scope policy of
            Known s \<Rightarrow>
              (if s = ScopeUnspecified then (Inr (), current)
               else (Inr (), current\<lparr>policy_scope := s\<rparr>))
          | Unknown v \<Rightarrow> (Inl (BadArgument (UnknownScope v)), current)))"

definition policy_ok :: "session_policy \<Rightarrow> bool" where
  "policy_ok p \<longleftrightarrow> min_lease \<le> lease_timeout p \<and> lease_timeout p \<le> max_lease
     \<and> policy_scope p \<noteq> ScopeUnspecified"

lemma default_policy_ok: "policy_ok default_policy"
  using default_lease_bounds by (simp add: policy_ok_def default_policy_def)

lemma apply_policy_ok:
  "policy_ok current \<Longrightarrow> policy_ok (snd (apply_policy current policy))"
  using lease_timeout_bounds
  by (auto simp: apply_policy_def policy_ok_def split: option.splits sum.splits enum_value.splits)

section \<open>Events\<close>

datatype log_level = LevelUnspecified | Debug | Info | Warn | Error

record log_event =
  le_session_id :: string
  le_level :: "log_level enum_value"
  le_message :: string
  le_timestamp :: "timestamp option"
  le_fields :: "(string \<times> string) list"

record state_change =
  sc_from :: "proto_session_state enum_value"
  sc_to :: "proto_session_state enum_value"
  sc_reason :: string

text \<open>The two variants of the event oneof that this host builds.\<close>

datatype event_body = Log log_event | StateChange state_change

record strategy_event =
  se_header :: "event_header option"
  se_event :: event_body
  se_resume_token :: string

definition event_sequence :: "strategy_event \<Rightarrow> u64" where
  "event_sequence e = (case se_header e of None \<Rightarrow> 0 | Some h \<Rightarrow> hdr_sequence h)"

section \<open>The handle\<close>

record client_identity =
  ci_name :: string
  ci_version :: string

record strategy_info =
  si_id :: string
  si_name :: string
  si_started_at_ms :: int
  si_orders_submitted :: u64
  si_log_events :: u64

text \<open>
  \<open>sh_events_tx\<close> is everything sent to the broadcast channel, in order; the hash set of
  tracked order ids is a duplicate-free list in its iteration order.
\<close>

record session_handle =
  sh_id :: string
  sh_state :: u8
  sh_policy :: session_policy
  sh_last_seen :: instant
  sh_heartbeat_interval_ms :: u32
  sh_client :: client_identity
  sh_events_tx :: "strategy_event list"
  sh_ring :: "strategy_event list"
  sh_tracked_coids :: "string list"
  sh_strategy :: "strategy_info option"
  sh_orders_submitted :: u64
  sh_log_events :: u64
  sh_seq :: u64
  sh_snapshot_seq :: u64
  sh_terminal_at :: "instant option"

definition handle_state :: "session_handle \<Rightarrow> session_state option" where
  "handle_state h = state_from_u8 (sh_state h)"

definition transition ::
  "session_handle \<Rightarrow> session_state \<Rightarrow> session_state \<Rightarrow> session_state option \<times> session_handle" where
  "transition h expected next =
     (if sh_state h = state_to_u8 expected
      then (state_from_u8 (sh_state h), h\<lparr>sh_state := state_to_u8 next\<rparr>)
      else (None, h))"

definition touch :: "instant \<Rightarrow> session_handle \<Rightarrow> session_handle" where
  "touch now h = h\<lparr>sh_last_seen := now\<rparr>"

definition last_seen_elapsed_ms :: "instant \<Rightarrow> session_handle \<Rightarrow> nat" where
  "last_seen_elapsed_ms now h =
     (let ms = as_millis (saturating_duration_since now (sh_last_seen h))
      in if ms \<le> u64_max then ms else u64_max)"

definition update_policy ::
  "(session_policy \<Rightarrow> (manager_error + unit) \<times> session_policy) \<Rightarrow> session_handle
   \<Rightarrow> (manager_error + unit) \<times> session_handle" where
  "update_policy f h = (case f (sh_policy h) of (r, p) \<Rightarrow> (r, h\<lparr>sh_policy := p\<rparr>))"

definition identity_clash :: "string \<Rightarrow> string \<Rightarrow> bool" where
  "identity_clash recorded offered = (recorded \<noteq> [] \<and> offered \<noteq> [] \<and> recorded \<noteq> offered)"

definition assert_reconnect_client :: "session_handle \<Rightarrow> client_identity \<Rightarrow> manager_error + unit" where
  "assert_reconnect_client h client =
     (if identity_clash (ci_name (sh_client h)) (ci_name client)
      then Inl (BadArgument (ClientMismatch (sh_id h) ''client_name''
             (ci_name (sh_client h)) (ci_name client)))
      else if identity_clash (ci_version (sh_client h)) (ci_version client)
      then Inl (BadArgument (ClientMismatch (sh_id h) ''client_version''
             (ci_version (sh_client h)) (ci_version client)))
      else Inr ())"

definition strategy_info_of :: "session_handle \<Rightarrow> strategy_info option" where
  "strategy_info_of h = map_option (\<lambda>info. info\<lparr>si_orders_submitted := sh_orders_submitted h,
      si_log_events := sh_log_events h\<rparr>) (sh_strategy h)"

definition set_strategy :: "strategy_info \<Rightarrow> session_handle \<Rightarrow> session_handle" where
  "set_strategy info h = h\<lparr>sh_strategy := Some info\<rparr>"

definition stamp :: "u64 \<Rightarrow> strategy_event \<Rightarrow> strategy_event" where
  "stamp seq event =
     (let header = (case se_header event of None \<Rightarrow> default_header | Some hdr \<Rightarrow> hdr)
      in event\<lparr>se_header := Some (header\<lparr>hdr_sequence := seq\<rparr>),
               se_resume_token := nat_to_string (unat seq)\<rparr>)"

definition ring_push :: "strategy_event list \<Rightarrow> strategy_event \<Rightarrow> strategy_event list" where
  "ring_push ring event =
     (let ring = (if length ring \<ge> EVENT_RING_CAPACITY then tl ring else ring)
      in ring @ [event])"

definition publish :: "strategy_event \<Rightarrow> session_handle \<Rightarrow> strategy_event \<times> session_handle" where
  "publish event h =
     (let seq = sh_seq h + 1;
          shared = stamp seq event
      in (shared, h\<lparr>sh_seq := seq, sh_ring := ring_push (sh_ring h) shared,
                    sh_events_tx := sh_events_tx h @ [shared]\<rparr>))"

definition replay_after :: "u64 \<Rightarrow> session_handle \<Rightarrow> strategy_event list" where
  "replay_after after_seq h = filter (\<lambda>e. event_sequence e > after_seq) (sh_ring h)"

definition current_seq :: "session_handle \<Rightarrow> u64" where
  "current_seq h = sh_seq h"

definition is_gap :: "u64 \<Rightarrow> u64 \<Rightarrow> bool" where
  "is_gap prev_seq next_seq = is_sequence_gap prev_seq next_seq"

definition tracked_orders :: "session_handle \<Rightarrow> string list" where
  "tracked_orders h = sh_tracked_coids h"

definition mark_terminal :: "instant \<Rightarrow> session_handle \<Rightarrow> session_handle" where
  "mark_terminal now h =
     (case sh_terminal_at h of
        None \<Rightarrow> h\<lparr>sh_terminal_at := Some now\<rparr>
      | Some _ \<Rightarrow> h)"

text \<open>\<open>busy\<close> is the outcome of \<open>try_lock\<close>: a lost race answers nothing.\<close>

definition try_terminal_age :: "bool \<Rightarrow> instant \<Rightarrow> session_handle \<Rightarrow> duration option" where
  "try_terminal_age busy now h =
     (if busy then None
      else map_option (\<lambda>at. saturating_duration_since now at) (sh_terminal_at h))"

definition orders_submitted_count :: "session_handle \<Rightarrow> u64" where
  "orders_submitted_count h = sh_orders_submitted h"

definition log_events_count :: "session_handle \<Rightarrow> u64" where
  "log_events_count h = sh_log_events h"

lemma transition_Some:
  "transition h expected next = (Some prev, h') \<longleftrightarrow>
     handle_state h = Some expected \<and> prev = expected \<and> h' = h\<lparr>sh_state := state_to_u8 next\<rparr>"
  by (auto simp: transition_def handle_state_def state_from_u8_Some)

lemma transition_None:
  "transition h expected next = (None, h') \<longleftrightarrow> handle_state h \<noteq> Some expected \<and> h' = h"
  by (auto simp: transition_def handle_state_def state_from_u8_Some)

lemma transition_match [simp]:
  "handle_state h = Some expected \<Longrightarrow>
   transition h expected next = (Some expected, h\<lparr>sh_state := state_to_u8 next\<rparr>)"
  by (simp add: transition_Some)

lemma handle_state_update [simp]: "handle_state (h\<lparr>sh_state := state_to_u8 s\<rparr>) = Some s"
  by (simp add: handle_state_def)

end
