(* ===== verification/Event_Log.thy ===== *)
theory Event_Log
  imports Session_Handle
begin

text \<open>
  The replay ring of a session against its specification, an unbounded log of every event
  published: the ring is the end of the log, sequence numbers count from one, and a replay
  is the tail of the log after the client's cursor or, when the ring has dropped events the
  client still needs, a tail whose first sequence is a gap.
\<close>

section \<open>The log a handle represents\<close>

definition log_repr :: "strategy_event list \<Rightarrow> session_handle \<Rightarrow> bool" where
  "log_repr log h \<longleftrightarrow>
     length log < 2 ^ 64 \<and> sh_seq h = of_nat (length log)
     \<and> sh_ring h = drop (length log - EVENT_RING_CAPACITY) log
     \<and> (\<forall>i < length log. event_sequence (log ! i) = of_nat (Suc i))"

text \<open>The first position of the log still in the ring.\<close>

definition ring_start :: "strategy_event list \<Rightarrow> nat" where
  "ring_start log = length log - EVENT_RING_CAPACITY"

lemma event_sequence_stamp [simp]: "event_sequence (stamp seq ev) = seq"
  by (simp add: event_sequence_def stamp_def Let_def)

lemma resume_token_stamp [simp]: "se_resume_token (stamp seq ev) = nat_to_string (unat seq)"
  by (simp add: stamp_def Let_def)

lemma unat_of_nat_64: "n < 2 ^ 64 \<Longrightarrow> unat (of_nat n :: u64) = n"
  by (simp add: unat_of_nat take_bit_eq_mod)

lemma unat_less_64: "unat (w :: u64) < 2 ^ 64"
  by (rule order_less_le_trans [OF unsigned_less]) simp

lemma unat_minus_1_64: "unat (- 1 :: u64) = 2 ^ 64 - 1"
  by (simp add: unsigned_minus_1_eq_mask mask_eq_exp_minus_1)

lemma log_repr_seq: "log_repr log h \<Longrightarrow> unat (sh_seq h) = length log"
  by (simp add: log_repr_def unat_of_nat_64)

lemma ring_push_drop:
  "ring_push (drop (n - EVENT_RING_CAPACITY) log) e = drop (Suc n - EVENT_RING_CAPACITY) (log @ [e])"
  if "n = length log"
proof (cases "EVENT_RING_CAPACITY \<le> n")
  case True
  moreover have "0 < EVENT_RING_CAPACITY" by (simp add: EVENT_RING_CAPACITY_def)
  ultimately show ?thesis
    using that by (simp add: ring_push_def Suc_diff_le tl_drop drop_Suc)
next
  case False
  with that show ?thesis by (simp add: ring_push_def)
qed

lemma publish_log:
  assumes "log_repr log h" and "Suc (length log) < 2 ^ 64"
  shows "log_repr (log @ [fst (publish ev h)]) (snd (publish ev h))"
proof -
  define e where "e = fst (publish ev h)"
  have seq: "sh_seq h + 1 = of_nat (Suc (length log))"
    using assms(1) by (simp add: log_repr_def add.commute)
  then have e: "event_sequence e = of_nat (Suc (length log))"
    by (simp add: e_def publish_def Let_def)
  have "sh_ring (snd (publish ev h)) = drop (Suc (length log) - EVENT_RING_CAPACITY) (log @ [e])"
    using assms(1) ring_push_drop [of "length log" log e]
    by (simp add: log_repr_def publish_def Let_def e_def)
  moreover have "sh_seq (snd (publish ev h)) = of_nat (Suc (length log))"
    using seq by (simp add: publish_def Let_def)
  ultimately show ?thesis
    using assms e unfolding e_def [symmetric] log_repr_def
    by (auto simp: nth_append less_Suc_eq)
qed

text \<open>
  The same representation by the events already sent, without a bound on their number: this
  is what every operation keeps.
\<close>

definition stream_ok :: "session_handle \<Rightarrow> bool" where
  "stream_ok h \<longleftrightarrow> (let tx = sh_events_tx h in
     sh_seq h = of_nat (length tx) \<and> sh_ring h = drop (length tx - EVENT_RING_CAPACITY) tx
     \<and> (\<forall>i < length tx. event_sequence (tx ! i) = of_nat (Suc i)
          \<and> se_resume_token (tx ! i) = nat_to_string (unat (event_sequence (tx ! i)))))"

lemma stream_ok_log: "stream_ok h \<Longrightarrow> length (sh_events_tx h) < 2 ^ 64 \<Longrightarrow> log_repr (sh_events_tx h) h"
  by (simp add: stream_ok_def log_repr_def Let_def)

lemma stream_ok_ring: "stream_ok h \<Longrightarrow> length (sh_ring h) \<le> EVENT_RING_CAPACITY"
  by (simp add: stream_ok_def Let_def)

lemma stream_ok_publish:
  assumes "stream_ok h"
  shows "stream_ok (snd (publish ev h))"
proof -
  let ?tx = "sh_events_tx h"
  define e where "e = stamp (sh_seq h + 1) ev"
  have h: "sh_seq h = of_nat (length ?tx)" "sh_ring h = drop (length ?tx - EVENT_RING_CAPACITY) ?tx"
    "\<And>i. i < length ?tx \<Longrightarrow> event_sequence (?tx ! i) = of_nat (Suc i)
       \<and> se_resume_token (?tx ! i) = nat_to_string (unat (event_sequence (?tx ! i)))"
    using assms by (simp_all add: stream_ok_def Let_def)
  have "ring_push (sh_ring h) e = drop (Suc (length ?tx) - EVENT_RING_CAPACITY) (?tx @ [e])"
    unfolding h(2) by (rule ring_push_drop) simp
  moreover have "sh_seq h + 1 = of_nat (Suc (length ?tx))" using h(1) by (simp add: add.commute)
  moreover have "event_sequence ((?tx @ [e]) ! i) = of_nat (Suc i)
      \<and> se_resume_token ((?tx @ [e]) ! i) = nat_to_string (unat (event_sequence ((?tx @ [e]) ! i)))"
    if "i < Suc (length ?tx)" for i
    using that h(3) calculation(2) by (cases "i < length ?tx") (auto simp: e_def nth_append less_Suc_eq)
  moreover have "sh_seq (snd (publish ev h)) = sh_seq h + 1"
    "sh_ring (snd (publish ev h)) = ring_push (sh_ring h) e" "sh_events_tx (snd (publish ev h)) = ?tx @ [e]"
    by (simp_all add: publish_def Let_def e_def)
  ultimately show ?thesis unfolding stream_ok_def Let_def by simp
qed

lemma filter_numbered_drop:
  assumes "\<And>i. i < length xs \<Longrightarrow> f (xs ! i) = k + Suc i"
  shows "filter (\<lambda>e. f e > a) xs = drop (a - k) xs"
  using assms
proof (induction xs arbitrary: k)
  case Nil
  then show ?case by simp
next
  case (Cons x xs)
  have x: "f x = Suc k" using Cons.prems [of 0] by simp
  have "f (xs ! i) = Suc k + Suc i" if "i < length xs" for i
    using Cons.prems [of "Suc i"] that by simp
  then have IH: "filter (\<lambda>e. f e > a) xs = drop (a - Suc k) xs"
    by (rule Cons.IH)
  show ?case
  proof (cases "a \<le> k")
    case True
    then show ?thesis using IH x by simp
  next
    case False
    then have "a - k = Suc (a - Suc k)" by simp
    then show ?thesis using IH x False by simp
  qed
qed

lemma log_sequence_nat:
  assumes "log_repr log h" and "i < length log"
  shows "unat (event_sequence (log ! i)) = Suc i"
proof -
  have "Suc i < 2 ^ 64" using assms by (simp add: log_repr_def)
  moreover have "event_sequence (log ! i) = of_nat (Suc i)"
    using assms by (simp add: log_repr_def)
  ultimately show ?thesis by (simp only: unat_of_nat_64)
qed

lemma replay_log:
  assumes "log_repr log h"
  shows "replay_after a h = drop (max (unat a) (ring_start log)) log"
proof -
  define s where "s = ring_start log"
  have "filter (\<lambda>e. unat (event_sequence e) > unat a) (drop s log) = drop (unat a - s) (drop s log)"
  proof (rule filter_numbered_drop)
    fix i assume "i < length (drop s log)"
    then show "unat (event_sequence (drop s log ! i)) = s + Suc i"
      using log_sequence_nat [OF assms, of "s + i"] by simp
  qed
  moreover have "sh_ring h = drop s log"
    using assms by (simp add: log_repr_def s_def ring_start_def)
  ultimately show ?thesis
    by (simp add: replay_after_def word_less_nat_alt s_def [symmetric] max_def)
qed

section \<open>The interface a subscriber relies on\<close>

text \<open>
  An event log as a subscriber sees it: publishing extends the represented log by one
  event whose number is the length of the log, a replay is a tail of the log, and the
  watermark is its length.  The client lemma is that a replay followed by the events
  published later is the complete tail after the cursor.
\<close>

locale event_log =
  fixes repr :: "'e list \<Rightarrow> 'h \<Rightarrow> bool"
    and pub :: "'i \<Rightarrow> 'h \<Rightarrow> 'e \<times> 'h"
    and replay :: "u64 \<Rightarrow> 'h \<Rightarrow> 'e list"
    and watermark :: "'h \<Rightarrow> u64"
    and number :: "'e \<Rightarrow> u64"
    and start :: "'e list \<Rightarrow> nat"
  assumes pub_repr:
      "repr log h \<Longrightarrow> Suc (length log) < 2 ^ 64 \<Longrightarrow> repr (log @ [fst (pub ev h)]) (snd (pub ev h))"
    and replay_repr: "repr log h \<Longrightarrow> replay a h = drop (max (unat a) (start log)) log"
    and watermark_repr: "repr log h \<Longrightarrow> unat (watermark h) = length log"
    and number_repr: "repr log h \<Longrightarrow> i < length log \<Longrightarrow> unat (number (log ! i)) = Suc i"
begin

text \<open>Nothing is lost and nothing repeated, as long as the cursor is still in the ring.\<close>

lemma resume_complete:
  assumes "repr log h" and "start log \<le> unat a" and "unat a \<le> length log"
  shows "replay a h @ later = drop (unat a) (log @ later)"
  using assms by (simp add: replay_repr max_def)

text \<open>A cursor the ring has moved past is visible as a gap in the first replayed number.\<close>

lemma resume_gap:
  assumes "repr log h" and "unat a < start log" and "start log < length log"
  shows "replay a h \<noteq> [] \<and> number (hd (replay a h)) \<noteq> a + 1"
proof -
  have r: "replay a h = drop (start log) log"
    using assms by (simp add: replay_repr max_def)
  then have ne: "replay a h \<noteq> []" using assms(3) by simp
  have "hd (replay a h) = log ! start log" using r assms(3) by (simp add: hd_drop_conv_nth)
  then have n: "unat (number (hd (replay a h))) = Suc (start log)"
    using number_repr [OF assms(1,3)] by simp
  have "a \<noteq> - 1"
  proof
    assume "a = - 1"
    moreover have "length log < 2 ^ 64"
      using watermark_repr [OF assms(1)] unat_less_64 [of "watermark h"] by simp
    ultimately show False using assms(2,3) by (simp add: unat_minus_1_64)
  qed
  then have "unat (a + 1) = Suc (unat a)" by (rule unat_Suc_word)
  with n assms(2) ne show ?thesis by auto
qed

end

interpretation ring: event_log log_repr publish replay_after current_seq event_sequence ring_start
  by unfold_locales
     (use publish_log replay_log log_repr_seq log_sequence_nat in \<open>auto simp: current_seq_def\<close>)

section \<open>Publishing a batch of events\<close>

fun publish_all :: "strategy_event list \<Rightarrow> session_handle \<Rightarrow> session_handle" where
  "publish_all [] h = h"
| "publish_all (ev # evs) h = publish_all evs (snd (publish ev h))"

lemma publish_all_log:
  assumes "log_repr log h" and "length log + length evs < 2 ^ 64"
  shows "\<exists>es. length es = length evs \<and> log_repr (log @ es) (publish_all evs h)"
  using assms
proof (induction evs arbitrary: log h)
  case Nil
  then show ?case by simp
next
  case (Cons ev evs)
  have "log_repr (log @ [fst (publish ev h)]) (snd (publish ev h))"
    using ring.pub_repr [OF Cons.prems(1)] Cons.prems(2) by simp
  from Cons.IH [OF this] Cons.prems(2) obtain es where
    "length es = length evs \<and>
     log_repr ((log @ [fst (publish ev h)]) @ es) (publish_all evs (snd (publish ev h)))"
    by auto
  then show ?case by (intro exI [of _ "fst (publish ev h) # es"]) simp
qed

text \<open>
  C8: refinement of the replay ring: after any number of events the handle represents the
  unbounded log, the sequence counter is the length of the log, and a replay from a cursor
  returns exactly the events of the log after it that are among the last 1024; a cursor
  that is still covered gets the whole tail.
\<close>

theorem replay_ring_refines_log:
  assumes "log_repr log h" and "length log + length evs < 2 ^ 64"
  shows "\<exists>es. length es = length evs \<and> log_repr (log @ es) (publish_all evs h)
     \<and> unat (current_seq (publish_all evs h)) = length log + length evs
     \<and> (\<forall>a. replay_after a (publish_all evs h)
            = drop (max (unat a) (length log + length evs - 1024)) (log @ es))"
proof -
  from publish_all_log [OF assms] obtain es where
    es: "length es = length evs" "log_repr (log @ es) (publish_all evs h)" by blast
  then show ?thesis
    using ring.watermark_repr [OF es(2)] ring.replay_repr [OF es(2)]
    by (auto simp: ring_start_def EVENT_RING_CAPACITY_def)
qed

theorem replay_ring_refines_log_witness:
  "\<exists>h ev. log_repr [] h \<and> unat (current_seq (publish_all [ev] h)) = 1"
proof -
  define h :: session_handle where "h = \<lparr>sh_id = ''s'', sh_state = 1, sh_policy = default_policy,
    sh_last_seen = 0, sh_heartbeat_interval_ms = DEFAULT_HEARTBEAT_MS,
    sh_client = \<lparr>ci_name = [], ci_version = []\<rparr>, sh_events_tx = [], sh_ring = [],
    sh_tracked_coids = [], sh_strategy = None, sh_orders_submitted = 0, sh_log_events = 0,
    sh_seq = 0, sh_snapshot_seq = 0, sh_terminal_at = None\<rparr>"
  define ev :: strategy_event where "ev = \<lparr>se_header = None, se_event = Log \<lparr>le_session_id = ''s'',
    le_level = Known Info, le_message = ''x'', le_timestamp = None, le_fields = []\<rparr>, se_resume_token = []\<rparr>"
  have "log_repr [] h" by (simp add: log_repr_def h_def)
  with replay_ring_refines_log [OF this, of "[ev]"] show ?thesis by auto
qed

end
