(* ===== verification/Session_Manager.thy ===== *)
theory Session_Manager
  imports Event_Log
begin

text \<open>
  The session registry and its operations: attach and reconnect, reconcile, stop
  (\<open>session/lifecycle.rs\<close>), the order gate and the cancel paths (\<open>session/gate.rs\<close>), the
  event publishers (\<open>session/events.rs\<close>), and the lease watchdog with the kill switch
  (\<open>session/health.rs\<close>).  An operation maps the manager to its result and the manager
  after it.  The clock, the generated ids, the backend and the constant-time comparison of
  the \<open>subtle\<close> crate are arguments.
\<close>

section \<open>The registry\<close>

text \<open>
  The hash map of sessions is an association list; \<open>m_venue\<close> is the state of the backend
  behind the gateway, \<open>m_cod_provider\<close> whether a configured provider supports
  cancel-on-disconnect, and \<open>m_self_weak\<close> whether \<open>install_self\<close> has run.
\<close>

record 'v session_manager =
  m_expected_token :: "string option"
  m_default_exchange :: exchange_id
  m_sessions :: "(string \<times> session_handle) list"
  m_watchdog_started :: bool
  m_health_failures :: u32
  m_self_weak :: bool
  m_cod_provider :: "bool option"
  m_venue :: 'v

definition manager_new :: "string option \<Rightarrow> exchange_id \<Rightarrow> 'v \<Rightarrow> 'v session_manager" where
  "manager_new expected_token default_exchange v =
     \<lparr>m_expected_token = expected_token, m_default_exchange = default_exchange, m_sessions = [],
      m_watchdog_started = False, m_health_failures = 0, m_self_weak = False,
      m_cod_provider = Some False, m_venue = v\<rparr>"

definition with_cod_provider :: "bool \<Rightarrow> 'v session_manager \<Rightarrow> 'v session_manager" where
  "with_cod_provider supports m = m\<lparr>m_cod_provider := Some supports\<rparr>"

definition install_self :: "'v session_manager \<Rightarrow> 'v session_manager" where
  "install_self m = m\<lparr>m_self_weak := True\<rparr>"

definition get :: "'v session_manager \<Rightarrow> string \<Rightarrow> manager_error + session_handle" where
  "get m session_id = (case map_of (m_sessions m) session_id of
       None \<Rightarrow> Inl (SessionNotFound session_id)
     | Some h \<Rightarrow> Inr h)"

text \<open>Writing through the shared handle of a registered session.\<close>

definition put_handle :: "string \<Rightarrow> session_handle \<Rightarrow> 'v session_manager \<Rightarrow> 'v session_manager" where
  "put_handle session_id h m =
     m\<lparr>m_sessions := AList.map_entry session_id (\<lambda>_. h) (m_sessions m)\<rparr>"

definition retire_terminal_sessions ::
  "(string \<Rightarrow> bool) \<Rightarrow> instant \<Rightarrow> duration \<Rightarrow> 'v session_manager \<Rightarrow> 'v session_manager" where
  "retire_terminal_sessions busy now retention m =
     m\<lparr>m_sessions := filter (\<lambda>(i, h). case try_terminal_age (busy i) now h of
          Some age \<Rightarrow> age < retention
        | None \<Rightarrow> True) (m_sessions m)\<rparr>"

section \<open>Events\<close>

definition blank_event :: "event_body \<Rightarrow> strategy_event" where
  "blank_event body = \<lparr>se_header = Some default_header, se_event = body, se_resume_token = ''''\<rparr>"

definition publish_state_change ::
  "session_state \<Rightarrow> session_state \<Rightarrow> string \<Rightarrow> session_handle \<Rightarrow> session_handle" where
  "publish_state_change from to reason h =
     snd (publish (blank_event (StateChange
       \<lparr>sc_from = Known (state_to_proto from), sc_to = Known (state_to_proto to), sc_reason = reason\<rparr>)) h)"

definition report_log ::
  "int \<Rightarrow> string \<Rightarrow> log_level \<Rightarrow> string \<Rightarrow> (string \<times> string) list \<Rightarrow> 'v session_manager
   \<Rightarrow> (manager_error + unit) \<times> 'v session_manager" where
  "report_log sys session_id level message log_fields m =
     (case get m session_id of
        Inl e \<Rightarrow> (Inl e, m)
      | Inr handle \<Rightarrow>
          let event = \<lparr>le_session_id = session_id, le_level = Known level, le_message = message,
                le_timestamp = Some (timestamp_from_ms (now_ms sys)), le_fields = log_fields\<rparr>;
              handle = handle\<lparr>sh_log_events := sh_log_events handle + 1\<rparr>;
              handle = snd (publish (blank_event (Log event)) handle)
          in (Inr (), put_handle session_id handle m))"

section \<open>Cancelling\<close>

definition CANCEL_ROUND_TRIP_TIMEOUT :: duration where
  "CANCEL_ROUND_TRIP_TIMEOUT = 10 * 1000000000"

definition cancel_request :: "exchange_id \<Rightarrow> string \<Rightarrow> cancel_order_request" where
  "cancel_request exchange coid =
     \<lparr>can_exchange_id = Some exchange, can_order_id = coid, can_symbol = ''''\<rparr>"

text \<open>
  One cancel with its budget: nothing on success, otherwise the order id and the error
  text.
\<close>

definition cancel_one ::
  "('v, 'm) trading_gateway \<Rightarrow> exchange_id \<Rightarrow> string \<Rightarrow> 'v \<Rightarrow> string option \<times> 'v" where
  "cancel_one gw exchange coid v =
     (let req = cancel_request exchange coid; (res, v') = gw_cancel_order gw v req
      in if gw_cancel_delay gw v req > CANCEL_ROUND_TRIP_TIMEOUT
         then (Some (coid @ '': '' @ ''cancel timed out after 10s''), v')
         else case res of
             Inr _ \<Rightarrow> (None, v')
           | Inl err \<Rightarrow> (Some (coid @ '': '' @ port_error_to_string err), v'))"

fun cancel_coids ::
  "('v, 'm) trading_gateway \<Rightarrow> exchange_id \<Rightarrow> string list \<Rightarrow> 'v \<Rightarrow> string list \<times> 'v" where
  "cancel_coids gw exchange [] v = ([], v)"
| "cancel_coids gw exchange (coid # coids) v =
     (case cancel_one gw exchange coid v of (outcome, v') \<Rightarrow>
        case cancel_coids gw exchange coids v' of (failures, v'') \<Rightarrow>
          ((case outcome of None \<Rightarrow> failures | Some f \<Rightarrow> f # failures), v''))"

definition cancel_session_orders ::
  "('v, 'm) trading_gateway \<Rightarrow> session_handle \<Rightarrow> 'v session_manager
   \<Rightarrow> string list \<times> 'v session_manager" where
  "cancel_session_orders gw h m =
     (case cancel_coids gw (m_default_exchange m) (tracked_orders h) (m_venue m) of
        (failures, v) \<Rightarrow> (failures, m\<lparr>m_venue := v\<rparr>))"

section \<open>Attach and reconnect\<close>

definition ensure_watchdog :: "'v session_manager \<Rightarrow> 'v session_manager" where
  "ensure_watchdog m =
     (if m_watchdog_started m then m
      else if \<not> m_self_weak m then m
      else m\<lparr>m_watchdog_started := True\<rparr>)"

definition new_handle :: "string \<Rightarrow> session_policy \<Rightarrow> instant \<Rightarrow> client_identity \<Rightarrow> session_handle" where
  "new_handle new_id policy now client =
     \<lparr>sh_id = new_id, sh_state = state_to_u8 Attached, sh_policy = policy, sh_last_seen = now,
      sh_heartbeat_interval_ms = DEFAULT_HEARTBEAT_MS, sh_client = client, sh_events_tx = [],
      sh_ring = [], sh_tracked_coids = [], sh_strategy = None, sh_orders_submitted = 0,
      sh_log_events = 0, sh_seq = 0, sh_snapshot_seq = 0, sh_terminal_at = None\<rparr>"

definition token_ok :: "(string \<Rightarrow> string \<Rightarrow> bool) \<Rightarrow> string option \<Rightarrow> string \<Rightarrow> bool" where
  "token_ok ct_eq expected_token token = (case expected_token of
       None \<Rightarrow> True
     | Some expected \<Rightarrow> expected \<noteq> [] \<and> ct_eq expected token)"

definition reconnect ::
  "instant \<Rightarrow> kill_switch_policy option \<Rightarrow> string \<Rightarrow> client_identity \<Rightarrow> session_handle
   \<Rightarrow> 'v session_manager \<Rightarrow> (manager_error + string \<times> u32) \<times> 'v session_manager" where
  "reconnect now policy session_id client handle m =
     (case handle_state handle of
        None \<Rightarrow> (Inl (BadArgument (InvalidState session_id)), m)
      | Some st \<Rightarrow>
          if is_terminal st then (Inl (BadArgument (TerminalReconnect session_id)), m)
          else (case assert_reconnect_client handle client of
              Inl e \<Rightarrow> (Inl e, m)
            | Inr _ \<Rightarrow>
                let handle = touch now handle
                in (case policy of
                    None \<Rightarrow> (Inr (session_id, sh_heartbeat_interval_ms handle), put_handle session_id handle m)
                  | Some policy \<Rightarrow>
                      (case update_policy (\<lambda>current. apply_policy current policy) handle of
                         (Inl e, handle) \<Rightarrow> (Inl e, put_handle session_id handle m)
                       | (Inr _, handle) \<Rightarrow>
                           (Inr (session_id, sh_heartbeat_interval_ms handle),
                            put_handle session_id handle m)))))"

definition attach_fresh ::
  "instant \<Rightarrow> string \<Rightarrow> kill_switch_policy option \<Rightarrow> client_identity
   \<Rightarrow> 'v session_manager \<Rightarrow> (manager_error + string \<times> u32) \<times> 'v session_manager" where
  "attach_fresh now new_id policy client m =
     (case (case policy of
              None \<Rightarrow> (Inr (), default_policy)
            | Some policy \<Rightarrow> apply_policy default_policy policy) of
        (Inl e, _) \<Rightarrow> (Inl e, m)
      | (Inr _, session_policy) \<Rightarrow>
          (Inr (new_id, DEFAULT_HEARTBEAT_MS),
           ensure_watchdog (m\<lparr>m_sessions :=
             AList.update new_id (new_handle new_id session_policy now client) (m_sessions m)\<rparr>)))"

definition attach_with_reconnect ::
  "(string \<Rightarrow> string \<Rightarrow> bool) \<Rightarrow> instant \<Rightarrow> string \<Rightarrow> string \<Rightarrow> kill_switch_policy option
   \<Rightarrow> string \<Rightarrow> client_identity \<Rightarrow> 'v session_manager
   \<Rightarrow> (manager_error + string \<times> u32) \<times> 'v session_manager" where
  "attach_with_reconnect ct_eq now new_id token policy reconnect_session_id client m =
     (if \<not> token_ok ct_eq (m_expected_token m) token then (Inl Unauthenticated, m)
      else case (if reconnect_session_id = [] then None
                 else map_of (m_sessions m) reconnect_session_id) of
          Some handle \<Rightarrow> reconnect now policy reconnect_session_id client handle m
        | None \<Rightarrow> attach_fresh now new_id policy client m)"

section \<open>Reconcile\<close>

definition begin_reconcile ::
  "string \<Rightarrow> 'v session_manager \<Rightarrow> (manager_error + unit) \<times> 'v session_manager" where
  "begin_reconcile session_id m =
     (case get m session_id of
        Inl e \<Rightarrow> (Inl e, m)
      | Inr handle \<Rightarrow> (case handle_state handle of
            Some Attached \<Rightarrow>
              (case transition handle Attached Syncing of
                 (Some prev, handle) \<Rightarrow>
                   (Inr (), put_handle session_id
                      (publish_state_change prev Syncing ''reconcile started'' handle) m)
               | (None, _) \<Rightarrow> (Inr (), m))
          | Some Syncing \<Rightarrow> (Inr (), m)
          | Some Active \<Rightarrow> (Inr (), m)
          | Some terminal \<Rightarrow> (Inl (BadArgument (ReconcileTerminal session_id terminal)), m)
          | None \<Rightarrow> (Inl (BadArgument (InvalidState session_id)), m)))"

definition complete_reconcile ::
  "string \<Rightarrow> u64 \<Rightarrow> 'v session_manager \<Rightarrow> (manager_error + unit) \<times> 'v session_manager" where
  "complete_reconcile session_id snapshot_sequence m =
     (case get m session_id of
        Inl e \<Rightarrow> (Inl e, m)
      | Inr handle \<Rightarrow>
          let handle = handle\<lparr>sh_snapshot_seq := max (sh_snapshot_seq handle) snapshot_sequence\<rparr>;
              m = put_handle session_id handle m
          in (case handle_state handle of
              Some Syncing \<Rightarrow>
                (case transition handle Syncing Active of
                   (Some prev, handle) \<Rightarrow>
                     (Inr (), put_handle session_id
                        (publish_state_change prev Active ''reconcile complete'' handle) m)
                 | (None, _) \<Rightarrow> (Inr (), m))
            | Some Active \<Rightarrow> (Inr (), m)
            | Some other \<Rightarrow> (Inl (BadArgument (ReconcileNotSyncing session_id other)), m)
            | None \<Rightarrow> (Inl (BadArgument (InvalidState session_id)), m)))"

section \<open>Stop\<close>

definition stop_session ::
  "('v, 'm) trading_gateway \<Rightarrow> instant \<Rightarrow> string \<Rightarrow> bool \<Rightarrow> 'v session_manager
   \<Rightarrow> (manager_error + session_state option) \<times> 'v session_manager" where
  "stop_session gw now session_id cancel_open_orders m =
     (case get m session_id of
        Inl e \<Rightarrow> (Inl e, m)
      | Inr handle \<Rightarrow>
          if (case handle_state handle of None \<Rightarrow> False | Some s \<Rightarrow> is_terminal s)
          then (Inr (handle_state handle), m)
          else
            let (failures, m) =
                  (if cancel_open_orders then cancel_session_orders gw handle m else ([], m))
            in (case handle_state handle of
                None \<Rightarrow> (Inl (BadArgument (InvalidState session_id)), m)
              | Some prev \<Rightarrow>
                  if is_terminal prev then (Inr (Some prev), m)
                  else (case transition handle prev GracefulShutdown of
                      (None, handle) \<Rightarrow>
                        (if failures = [] then (Inr (handle_state handle), m)
                         else (Inl (CancelsFailed session_id (handle_state handle) failures), m))
                    | (Some prev, handle) \<Rightarrow>
                        let handle = mark_terminal now handle;
                            handle = publish_state_change prev GracefulShutdown ''stop requested'' handle;
                            m = put_handle session_id handle m
                        in if failures \<noteq> []
                           then (Inl (CancelsFailed session_id (handle_state handle) failures), m)
                           else (Inr (handle_state handle), m))))"

section \<open>The order gate\<close>

definition authorize_order_submission ::
  "string \<Rightarrow> 'v session_manager \<Rightarrow> manager_error + session_handle option" where
  "authorize_order_submission session_id m =
     (if session_id = [] then Inr None
      else case get m session_id of
          Inl e \<Rightarrow> Inl e
        | Inr handle \<Rightarrow>
            if handle_state handle \<noteq> Some Active
            then Inl (SyncInProgress session_id (handle_state handle))
            else Inr (Some handle))"

definition set_insert :: "'a \<Rightarrow> 'a list \<Rightarrow> 'a list" where
  "set_insert x xs = (if x \<in> set xs then xs else xs @ [x])"

fun track_orders :: "order list \<Rightarrow> string list \<Rightarrow> u64 \<Rightarrow> string list \<times> u64" where
  "track_orders [] tracked attributed = (tracked, attributed)"
| "track_orders (ord # orders) tracked attributed =
     (if o_id ord = [] then track_orders orders tracked attributed
      else track_orders orders (set_insert (o_id ord) tracked) (attributed + 1))"

definition record_submitted_orders :: "order list \<Rightarrow> session_handle \<Rightarrow> session_handle" where
  "record_submitted_orders orders h =
     (case track_orders orders (sh_tracked_coids h) 0 of (tracked, attributed) \<Rightarrow>
        h\<lparr>sh_tracked_coids := tracked, sh_orders_submitted := sh_orders_submitted h + attributed\<rparr>)"

definition unwind_late_submissions ::
  "('v, 'm) trading_gateway \<Rightarrow> session_handle \<Rightarrow> order list \<Rightarrow> 'v session_manager
   \<Rightarrow> 'v session_manager" where
  "unwind_late_submissions gw h orders m =
     (if orders = [] \<or> \<not> (case handle_state h of None \<Rightarrow> False | Some s \<Rightarrow> is_terminal s) then m
      else m\<lparr>m_venue := snd (cancel_coids gw (m_default_exchange m)
               (filter (\<lambda>i. i \<noteq> []) (map o_id orders)) (m_venue m))\<rparr>)"

section \<open>Kill switch and watchdog\<close>

definition HEALTH_PROBE_TIMEOUT :: duration where "HEALTH_PROBE_TIMEOUT = 2 * 1000000000"
definition TERMINAL_SESSION_RETENTION :: duration where
  "TERMINAL_SESSION_RETENTION = 300 * 1000000000"
definition HEALTH_PROBE_FAILURE_THRESHOLD :: u32 where "HEALTH_PROBE_FAILURE_THRESHOLD = 2"

definition should_renew_cod :: "session_state option \<Rightarrow> bool option \<Rightarrow> bool" where
  "should_renew_cod state cod = (state = Some Active \<and> cod = Some True)"

definition gateway_health_check ::
  "('v, 'm) trading_gateway \<Rightarrow> 'v session_manager \<Rightarrow> (port_error + unit) \<times> 'v session_manager" where
  "gateway_health_check gw m =
     (let ex = m_default_exchange m; (res, v) = gw_sync_state gw (m_venue m) ex;
          m' = m\<lparr>m_venue := v\<rparr>
      in if gw_sync_delay gw (m_venue m) ex > HEALTH_PROBE_TIMEOUT
         then (Inl (Transport ''gateway health check timeout''), m')
         else case res of Inl e \<Rightarrow> (Inl e, m') | Inr _ \<Rightarrow> (Inr (), m'))"

definition note_health_probe ::
  "port_error + unit \<Rightarrow> 'v session_manager \<Rightarrow> u32 \<times> 'v session_manager" where
  "note_health_probe probe m =
     (if is_ok probe then (0, m\<lparr>m_health_failures := 0\<rparr>)
      else if m_health_failures m = - 1 then (- 1, m)
      else (m_health_failures m + 1, m\<lparr>m_health_failures := m_health_failures m + 1\<rparr>))"

definition run_scope ::
  "('v, 'm) trading_gateway \<Rightarrow> session_handle \<Rightarrow> 'v session_manager \<Rightarrow> 'v session_manager" where
  "run_scope gw h m = (case policy_scope (sh_policy h) of
       SessionOrders \<Rightarrow> snd (cancel_session_orders gw h m)
     | AllOrders \<Rightarrow> m\<lparr>m_venue := snd (gw_cancel_all_orders gw (m_venue m)
           \<lparr>caa_exchange_id = Some (m_default_exchange m), caa_symbol = ''''\<rparr>)\<rparr>
     | _ \<Rightarrow> m)"

definition trip_kill_switch ::
  "('v, 'm) trading_gateway \<Rightarrow> instant \<Rightarrow> string \<Rightarrow> session_handle \<Rightarrow> 'v session_manager
   \<Rightarrow> 'v session_manager" where
  "trip_kill_switch gw now session_id handle m =
     (if handle_state handle \<noteq> Some Active then m
      else case transition handle Active KillSwitchTripped of
          (None, _) \<Rightarrow> m
        | (Some prev, handle) \<Rightarrow>
            let handle = mark_terminal now handle;
                handle = publish_state_change prev KillSwitchTripped ''lease expired'' handle
            in run_scope gw handle (put_handle session_id handle m))"

definition lease_expired :: "instant \<Rightarrow> session_handle \<Rightarrow> bool" where
  "lease_expired now h = (handle_state h = Some Active
     \<and> last_seen_elapsed_ms now h > as_millis (lease_timeout (sh_policy h)))"

definition check_lease_expiry ::
  "('v, 'm) trading_gateway \<Rightarrow> instant \<Rightarrow> string \<Rightarrow> 'v session_manager
   \<Rightarrow> (manager_error + bool) \<times> 'v session_manager" where
  "check_lease_expiry gw now session_id m =
     (case get m session_id of
        Inl e \<Rightarrow> (Inl e, m)
      | Inr handle \<Rightarrow>
          let expired = lease_expired now handle
          in (Inr expired, if expired then trip_kill_switch gw now session_id handle m else m))"

text \<open>
  One pass of the watchdog: sweep, the lease check of every session, then the gateway
  probe, which trips every active session once enough probes in a row have failed.  The
  renewal of venue cancel-on-disconnect changes no state of the worker.
\<close>

definition l1_pass ::
  "('v, 'm) trading_gateway \<Rightarrow> instant \<Rightarrow> string list \<Rightarrow> 'v session_manager \<Rightarrow> 'v session_manager" where
  "l1_pass gw now ids m = fold (\<lambda>i m. snd (check_lease_expiry gw now i m)) ids m"

definition trip_by_id ::
  "('v, 'm) trading_gateway \<Rightarrow> instant \<Rightarrow> string \<Rightarrow> 'v session_manager \<Rightarrow> 'v session_manager" where
  "trip_by_id gw now i m = (case get m i of Inl _ \<Rightarrow> m | Inr h \<Rightarrow> trip_kill_switch gw now i h m)"

definition active_ids :: "'v session_manager \<Rightarrow> string list" where
  "active_ids m = map fst (filter (\<lambda>(i, h). handle_state h = Some Active) (m_sessions m))"

definition l2_pass ::
  "('v, 'm) trading_gateway \<Rightarrow> instant \<Rightarrow> 'v session_manager \<Rightarrow> 'v session_manager" where
  "l2_pass gw now m =
     (let (probe, m) = gateway_health_check gw m;
          (misses, m) = note_health_probe probe m
      in if misses \<ge> HEALTH_PROBE_FAILURE_THRESHOLD
         then fold (trip_by_id gw now) (active_ids m) m else m)"

definition watchdog_tick ::
  "('v, 'm) trading_gateway \<Rightarrow> (string \<Rightarrow> bool) \<Rightarrow> instant \<Rightarrow> 'v session_manager
   \<Rightarrow> 'v session_manager" where
  "watchdog_tick gw busy now m =
     (let m = retire_terminal_sessions busy now TERMINAL_SESSION_RETENTION m;
          m = l1_pass gw now (map fst (m_sessions m)) m
      in l2_pass gw now m)"

text \<open>
  The strategy-side guard: the lease check at every tick, until it fires or the session is
  gone.  The result says whether the guard has ended.
\<close>

fun strategy_lease_guard ::
  "('v, 'm) trading_gateway \<Rightarrow> string \<Rightarrow> instant list \<Rightarrow> 'v session_manager
   \<Rightarrow> bool \<times> 'v session_manager" where
  "strategy_lease_guard gw session_id [] m = (False, m)"
| "strategy_lease_guard gw session_id (now # ticks) m =
     (case check_lease_expiry gw now session_id m of
        (Inr True, m') \<Rightarrow> (True, m')
      | (Inr False, m') \<Rightarrow> strategy_lease_guard gw session_id ticks m'
      | (Inl _, m') \<Rightarrow> (True, m'))"

end
