(* ===== verification/Session_Service.thy ===== *)
theory Session_Service
  imports Session_Manager
begin

text \<open>
  The RPC handlers of \<open>WorkerSessionService\<close> (\<open>session/service.rs\<close>) over the session
  manager, with the mapping of manager errors to Connect codes.  A handler takes the
  clock, the wall clock and, where the code generates one, a fresh id.
\<close>

section \<open>Connect errors\<close>

datatype connect_code =
    CodeCanceled | CodeUnknown | CodeInvalidArgument | CodeDeadlineExceeded | CodeNotFound
  | CodeAlreadyExists | CodePermissionDenied | CodeResourceExhausted | CodeFailedPrecondition
  | CodeAborted | CodeOutOfRange | CodeUnimplemented | CodeInternal | CodeUnavailable
  | CodeDataLoss | CodeUnauthenticated

datatype error_reason = ReasonSyncInProgress

text \<open>A Connect error is its code and the typed reason of its detail; the text is for logs.\<close>

record connect_error =
  ce_code :: connect_code
  ce_reason :: "error_reason option"

definition connect :: "connect_code \<Rightarrow> connect_error" where
  "connect code = \<lparr>ce_code = code, ce_reason = None\<rparr>"

fun manager_to_connect :: "manager_error \<Rightarrow> connect_error" where
  "manager_to_connect (SessionNotFound _) = connect CodeNotFound"
| "manager_to_connect Unauthenticated = connect CodeUnauthenticated"
| "manager_to_connect (BadArgument _) = connect CodeInvalidArgument"
| "manager_to_connect (SyncInProgress _ _) =
     (connect CodeFailedPrecondition)\<lparr>ce_reason := Some ReasonSyncInProgress\<rparr>"
| "manager_to_connect (CancelsFailed _ _ _) = connect CodeInternal"
| "manager_to_connect (PortFailure _) = connect CodeInternal"

section \<open>Attach, keep alive, reconcile\<close>

record attach_session_request =
  asr_token :: string
  asr_client_name :: string
  asr_client_version :: string
  asr_policy :: "kill_switch_policy option"
  asr_session_id :: string

record attach_session_response =
  asp_session_id :: string
  asp_heartbeat_interval_ms :: u32
  asp_server_time :: "timestamp option"
  asp_capabilities :: "string list"

definition attach_session ::
  "(string \<Rightarrow> string \<Rightarrow> bool) \<Rightarrow> instant \<Rightarrow> int \<Rightarrow> string \<Rightarrow> attach_session_request
   \<Rightarrow> 'v session_manager \<Rightarrow> (connect_error + attach_session_response) \<times> 'v session_manager" where
  "attach_session ct_eq now sys new_id req m =
     (case attach_with_reconnect ct_eq now new_id (asr_token req) (asr_policy req) (asr_session_id req)
             \<lparr>ci_name = asr_client_name req, ci_version = asr_client_version req\<rparr> m of
        (Inl e, m) \<Rightarrow> (Inl (manager_to_connect e), m)
      | (Inr (session_id, heartbeat), m) \<Rightarrow>
          (Inr \<lparr>asp_session_id = session_id, asp_heartbeat_interval_ms = heartbeat,
                asp_server_time = Some (now_ts sys),
                asp_capabilities = [''reconcile'', ''kill_switch'', ''event_replay'']\<rparr>, m))"

record keep_alive_response =
  kar_server_time_ns :: int
  kar_heartbeat_interval_ms :: u32

definition keep_alive ::
  "instant \<Rightarrow> int \<Rightarrow> string \<Rightarrow> 'v session_manager
   \<Rightarrow> (connect_error + keep_alive_response) \<times> 'v session_manager" where
  "keep_alive now sys session_id m =
     (case get m session_id of
        Inl e \<Rightarrow> (Inl (manager_to_connect e), m)
      | Inr handle \<Rightarrow>
          let handle = touch now handle
          in (Inr \<lparr>kar_server_time_ns = now_ns sys,
                   kar_heartbeat_interval_ms = sh_heartbeat_interval_ms handle\<rparr>,
              put_handle session_id handle m))"

definition reconcile_state ::
  "('v, 'm) trading_gateway \<Rightarrow> string \<Rightarrow> 'v session_manager
   \<Rightarrow> (connect_error + 'm snapshot) \<times> 'v session_manager" where
  "reconcile_state gw session_id m =
     (case begin_reconcile session_id m of
        (Inl e, m) \<Rightarrow> (Inl (manager_to_connect e), m)
      | (Inr _, m) \<Rightarrow> (case gw_sync_state gw (m_venue m) (m_default_exchange m) of
            (Inl e, v) \<Rightarrow> (Inl (manager_to_connect (PortFailure e)), m\<lparr>m_venue := v\<rparr>)
          | (Inr snap, v) \<Rightarrow>
              (case complete_reconcile session_id (sn_sequence snap) (m\<lparr>m_venue := v\<rparr>) of
                 (Inl e, m) \<Rightarrow> (Inl (manager_to_connect e), m)
               | (Inr _, m) \<Rightarrow> (Inr snap, m))))"

definition set_kill_switch_policy ::
  "string \<Rightarrow> kill_switch_policy option \<Rightarrow> 'v session_manager
   \<Rightarrow> (connect_error + unit) \<times> 'v session_manager" where
  "set_kill_switch_policy session_id policy m =
     (case get m session_id of
        Inl e \<Rightarrow> (Inl (manager_to_connect e), m)
      | Inr handle \<Rightarrow> (case policy of
            None \<Rightarrow> (Inr (), m)
          | Some policy \<Rightarrow>
              (case update_policy (\<lambda>current. apply_policy current policy) handle of (r, handle) \<Rightarrow>
                 (map_err manager_to_connect r, put_handle session_id handle m))))"

section \<open>Strategy registration, status and stop\<close>

definition register_strategy ::
  "int \<Rightarrow> string \<Rightarrow> string \<Rightarrow> string \<Rightarrow> 'v session_manager
   \<Rightarrow> (connect_error + string) \<times> 'v session_manager" where
  "register_strategy sys strategy_id session_id name m =
     (case get m session_id of
        Inl e \<Rightarrow> (Inl (manager_to_connect e), m)
      | Inr handle \<Rightarrow>
          (Inr strategy_id, put_handle session_id
             (set_strategy \<lparr>si_id = strategy_id, si_name = name,
                si_started_at_ms = trunc_div (now_ns sys) 1000000,
                si_orders_submitted = 0, si_log_events = 0\<rparr> handle) m))"

record strategy_status_response =
  ssr_state :: "proto_session_state enum_value"
  ssr_strategy_id :: string
  ssr_name :: string
  ssr_started_at :: "timestamp option"
  ssr_orders_submitted :: u64
  ssr_log_events :: u64

definition strategy_status ::
  "string \<Rightarrow> 'v session_manager \<Rightarrow> connect_error + strategy_status_response" where
  "strategy_status session_id m =
     (case get m session_id of
        Inl e \<Rightarrow> Inl (manager_to_connect e)
      | Inr handle \<Rightarrow>
          let info = strategy_info_of handle
          in Inr \<lparr>ssr_state = Known (case handle_state handle of
                      None \<Rightarrow> ProtoAttached | Some s \<Rightarrow> state_to_proto s),
                  ssr_strategy_id = (case info of None \<Rightarrow> '''' | Some i \<Rightarrow> si_id i),
                  ssr_name = (case info of None \<Rightarrow> '''' | Some i \<Rightarrow> si_name i),
                  ssr_started_at = map_option (\<lambda>i. timestamp_from_ms (si_started_at_ms i)) info,
                  ssr_orders_submitted = orders_submitted_count handle,
                  ssr_log_events = (case info of None \<Rightarrow> 0 | Some i \<Rightarrow> si_log_events i)\<rparr>)"

definition stop_strategy ::
  "('v, 'm) trading_gateway \<Rightarrow> instant \<Rightarrow> string \<Rightarrow> bool \<Rightarrow> 'v session_manager
   \<Rightarrow> (connect_error + proto_session_state enum_value) \<times> 'v session_manager" where
  "stop_strategy gw now session_id cancel_open_orders m =
     (case stop_session gw now session_id cancel_open_orders m of
        (Inl e, m) \<Rightarrow> (Inl (manager_to_connect e), m)
      | (Inr final_state, m) \<Rightarrow>
          (Inr (Known (case final_state of
              None \<Rightarrow> ProtoGracefulShutdown | Some s \<Rightarrow> state_to_proto s)), m))"

section \<open>Logs and the event stream\<close>

text \<open>
  The inbound log stream is the list of its items, an item either a decoded event or the
  error that ends the stream.
\<close>

fun report_log_stream ::
  "int \<Rightarrow> (connect_error + log_event) list \<Rightarrow> u64 \<Rightarrow> 'v session_manager
   \<Rightarrow> (connect_error + u64) \<times> 'v session_manager" where
  "report_log_stream sys [] accepted m = (Inr accepted, m)"
| "report_log_stream sys (Inl e # items) accepted m = (Inl e, m)"
| "report_log_stream sys (Inr event # items) accepted m =
     (let level = (case le_level event of Known level \<Rightarrow> level | Unknown _ \<Rightarrow> LevelUnspecified)
      in case report_log sys (le_session_id event) level (le_message event) (le_fields event) m of
          (Inl e, m) \<Rightarrow> (Inl (manager_to_connect e), m)
        | (Inr _, m) \<Rightarrow> report_log_stream sys items (accepted + 1) m)"

definition parse_resume_token :: "string \<Rightarrow> u64 option" where
  "parse_resume_token token =
     (if token = [] then Some 0 else map_option of_nat (parse_unsigned u64_max token))"

text \<open>The replayed part of a stream: the ring after the cursor, up to the watermark.\<close>

definition replay_upto :: "u64 \<Rightarrow> strategy_event list \<Rightarrow> strategy_event list" where
  "replay_upto watermark replay =
     filter (\<lambda>e. \<not> (case se_header e of None \<Rightarrow> False | Some hdr \<Rightarrow> hdr_sequence hdr > watermark)) replay"

definition stream_strategy_events ::
  "string \<Rightarrow> string \<Rightarrow> 'v session_manager \<Rightarrow> connect_error + u64 \<times> strategy_event list" where
  "stream_strategy_events session_id resume_token m =
     (case get m session_id of
        Inl e \<Rightarrow> Inl (manager_to_connect e)
      | Inr handle \<Rightarrow> (case parse_resume_token resume_token of
            None \<Rightarrow> Inl (connect CodeInvalidArgument)
          | Some after_seq \<Rightarrow>
              let watermark = current_seq handle
              in Inr (watermark, replay_upto watermark (replay_after after_seq handle))))"

end
