(* ===== verification/Session_Invariant.thy ===== *)
theory Session_Invariant
  imports Session_Service
begin

text \<open>
  What every operation of the control plane keeps: the shape of a session (its state byte
  decodes, the terminal instant is set exactly in a terminal state, the policy stays inside
  its bounds, the tracked ids are a set of non-empty ids, the ring is bounded) and how a
  session may change (lifecycle edges only, its identity never, its snapshot sequence,
  event stream and tracked orders only forward).  The last section is the registry as a
  transition system over all operations, with the ids handed out so far.
\<close>

section \<open>Lookup and update of sessions\<close>

definition lookup :: "'v session_manager \<Rightarrow> string \<Rightarrow> session_handle option" where
  "lookup m i = map_of (m_sessions m) i"

lemma get_lookup: "get m i = (case lookup m i of None \<Rightarrow> Inl (SessionNotFound i) | Some h \<Rightarrow> Inr h)"
  by (simp add: get_def lookup_def)

lemma lookup_put [simp]:
  "lookup (put_handle i h m) j = (if j = i then map_option (\<lambda>_. h) (lookup m i) else lookup m j)"
  by (auto simp: lookup_def put_handle_def map_of_map_entry split: option.splits)

lemma map_fst_map_entry [simp]: "map fst (AList.map_entry k f al) = map fst al"
  by (induction al) auto

lemma keys_put [simp]: "map fst (m_sessions (put_handle i h m)) = map fst (m_sessions m)"
  by (simp add: put_handle_def)

lemma m_venue_put [simp]: "m_venue (put_handle i h m) = m_venue m"
  by (simp add: put_handle_def)

section \<open>How a session evolves\<close>

inductive lifecycle_edge :: "session_state \<Rightarrow> session_state \<Rightarrow> bool" where
  edge_sync: "lifecycle_edge Attached Syncing"
| edge_active: "lifecycle_edge Syncing Active"
| edge_trip: "lifecycle_edge Active KillSwitchTripped"
| edge_stop: "\<not> is_terminal s \<Longrightarrow> lifecycle_edge s GracefulShutdown"

inductive_cases edge_from_terminal: "lifecycle_edge KillSwitchTripped t" "lifecycle_edge GracefulShutdown t"

lemma terminal_no_edge: "is_terminal s \<Longrightarrow> \<not> lifecycle_edge s t"
  by (cases s) (auto elim: lifecycle_edge.cases)

lemma terminal_absorbing: "lifecycle_edge\<^sup>*\<^sup>* s t \<Longrightarrow> is_terminal s \<Longrightarrow> t = s"
  by (induction rule: rtranclp_induct) (auto dest: terminal_no_edge)

definition state_evolves :: "session_state option \<Rightarrow> session_state option \<Rightarrow> bool" where
  "state_evolves a b = (case (a, b) of (Some s, Some t) \<Rightarrow> lifecycle_edge\<^sup>*\<^sup>* s t | (None, None) \<Rightarrow> True | _ \<Rightarrow> False)"

definition handle_evolves :: "session_handle \<Rightarrow> session_handle \<Rightarrow> bool" where
  "handle_evolves h h' \<longleftrightarrow>
     sh_id h' = sh_id h \<and> sh_client h' = sh_client h
     \<and> sh_heartbeat_interval_ms h' = sh_heartbeat_interval_ms h
     \<and> state_evolves (handle_state h) (handle_state h')
     \<and> sh_snapshot_seq h \<le> sh_snapshot_seq h'
     \<and> (sh_terminal_at h \<noteq> None \<longrightarrow> sh_terminal_at h' = sh_terminal_at h)
     \<and> set (sh_tracked_coids h) \<subseteq> set (sh_tracked_coids h')
     \<and> (\<exists>evs. sh_events_tx h' = sh_events_tx h @ evs)"

lemma state_evolves_refl [simp]: "state_evolves s s"
  by (cases s) (simp_all add: state_evolves_def)

lemma state_evolves_edge: "lifecycle_edge s t \<Longrightarrow> state_evolves (Some s) (Some t)"
  by (simp add: state_evolves_def)

lemma state_evolves_trans: "state_evolves a b \<Longrightarrow> state_evolves b c \<Longrightarrow> state_evolves a c"
  by (auto simp: state_evolves_def split: option.splits)

lemma handle_evolves_refl [simp, intro]: "handle_evolves h h"
  by (simp add: handle_evolves_def)

lemma handle_evolves_trans:
  "handle_evolves a b \<Longrightarrow> handle_evolves b c \<Longrightarrow> handle_evolves a c"
  unfolding handle_evolves_def using state_evolves_trans by (auto intro: order_trans) 

section \<open>Well-formed handles\<close>

text \<open>
  The state changes a session has announced, and that they lead along lifecycle edges from
  one state to another.
\<close>

definition event_change ::
  "strategy_event \<Rightarrow> (proto_session_state enum_value \<times> proto_session_state enum_value) list" where
  "event_change e = (case se_event e of StateChange sc \<Rightarrow> [(sc_from sc, sc_to sc)] | Log _ \<Rightarrow> [])"

definition state_changes ::
  "strategy_event list \<Rightarrow> (proto_session_state enum_value \<times> proto_session_state enum_value) list" where
  "state_changes evs = concat (map event_change evs)"

fun edge_path ::
  "session_state \<Rightarrow> (proto_session_state enum_value \<times> proto_session_state enum_value) list
   \<Rightarrow> session_state \<Rightarrow> bool" where
  "edge_path s [] t = (s = t)"
| "edge_path s ((a, b) # changes) t =
     (\<exists>u. a = Known (state_to_proto s) \<and> b = Known (state_to_proto u) \<and> lifecycle_edge s u
          \<and> edge_path u changes t)"

lemma edge_path_snoc:
  "edge_path s changes t \<Longrightarrow> lifecycle_edge t u \<Longrightarrow>
   edge_path s (changes @ [(Known (state_to_proto t), Known (state_to_proto u))]) u"
  by (induction s changes t rule: edge_path.induct) auto

lemma state_changes_snoc [simp]: "state_changes (evs @ [e]) = state_changes evs @ event_change e"
  by (simp add: state_changes_def)

definition handle_ok :: "session_handle \<Rightarrow> bool" where
  "handle_ok h \<longleftrightarrow>
     (\<exists>s. handle_state h = Some s \<and> (is_terminal s \<longleftrightarrow> sh_terminal_at h \<noteq> None)
        \<and> edge_path Attached (state_changes (sh_events_tx h)) s)
     \<and> policy_ok (sh_policy h)
     \<and> distinct (sh_tracked_coids h) \<and> [] \<notin> set (sh_tracked_coids h)
     \<and> stream_ok h"

definition manager_ok :: "'v session_manager \<Rightarrow> bool" where
  "manager_ok m \<longleftrightarrow> distinct (map fst (m_sessions m))
     \<and> (\<forall>i h. lookup m i = Some h \<longrightarrow> sh_id h = i \<and> handle_ok h)"

text \<open>One step of a handle keeps it well formed and evolves it.\<close>

definition good_step :: "session_handle \<Rightarrow> session_handle \<Rightarrow> bool" where
  "good_step h h' \<longleftrightarrow> handle_evolves h h' \<and> (handle_ok h \<longrightarrow> handle_ok h')"

lemma good_step_refl [simp, intro]: "good_step h h"
  by (simp add: good_step_def)

lemma good_step_trans: "good_step a b \<Longrightarrow> good_step b c \<Longrightarrow> good_step a c"
  by (auto simp: good_step_def intro: handle_evolves_trans)

text \<open>The well-formedness of the event stream depends on the stream fields only.\<close>

lemma stream_ok_frame:
  "sh_seq h' = sh_seq h \<Longrightarrow> sh_ring h' = sh_ring h \<Longrightarrow> sh_events_tx h' = sh_events_tx h \<Longrightarrow>
   stream_ok h' = stream_ok h"
  by (simp add: stream_ok_def)

lemma stream_ok_updates [simp]:
  "stream_ok (h\<lparr>sh_state := x\<rparr>) = stream_ok h" "stream_ok (h\<lparr>sh_policy := p\<rparr>) = stream_ok h"
  "stream_ok (h\<lparr>sh_last_seen := t\<rparr>) = stream_ok h" "stream_ok (h\<lparr>sh_strategy := st\<rparr>) = stream_ok h"
  "stream_ok (h\<lparr>sh_log_events := n\<rparr>) = stream_ok h" "stream_ok (h\<lparr>sh_snapshot_seq := q\<rparr>) = stream_ok h"
  "stream_ok (h\<lparr>sh_terminal_at := at\<rparr>) = stream_ok h"
  "stream_ok (mark_terminal now h) = stream_ok h" "stream_ok (record_submitted_orders orders h) = stream_ok h"
  by (rule stream_ok_frame; simp add: mark_terminal_def record_submitted_orders_def
      split: option.splits prod.splits)+

lemma publish_fields [simp]:
  "sh_id (snd (publish ev h)) = sh_id h" "sh_client (snd (publish ev h)) = sh_client h"
  "sh_state (snd (publish ev h)) = sh_state h" "handle_state (snd (publish ev h)) = handle_state h"
  "sh_policy (snd (publish ev h)) = sh_policy h"
  "sh_heartbeat_interval_ms (snd (publish ev h)) = sh_heartbeat_interval_ms h"
  "sh_snapshot_seq (snd (publish ev h)) = sh_snapshot_seq h"
  "sh_terminal_at (snd (publish ev h)) = sh_terminal_at h"
  "sh_tracked_coids (snd (publish ev h)) = sh_tracked_coids h"
  "sh_last_seen (snd (publish ev h)) = sh_last_seen h"
  "sh_ring (snd (publish ev h)) = ring_push (sh_ring h) (fst (publish ev h))"
  "sh_events_tx (snd (publish ev h)) = sh_events_tx h @ [fst (publish ev h)]"
  by (simp_all add: publish_def Let_def handle_state_def)

lemma event_change_publish [simp]: "event_change (fst (publish ev h)) = event_change ev"
  by (simp add: publish_def stamp_def event_change_def Let_def)

lemma publish_good: "event_change ev = [] \<Longrightarrow> good_step h (snd (publish ev h))"
  by (auto simp: good_step_def handle_evolves_def handle_ok_def stream_ok_publish)

lemma event_change_blank [simp]:
  "event_change (blank_event (Log l)) = []"
  "event_change (blank_event (StateChange sc)) = [(sc_from sc, sc_to sc)]"
  by (simp_all add: event_change_def blank_event_def)

text \<open>Moving along an edge and announcing it, with or without the terminal instant.\<close>

lemma step_and_publish:
  assumes "handle_state h = Some s" and "lifecycle_edge s t" and "\<not> is_terminal t"
  shows "good_step h (publish_state_change s t r (h\<lparr>sh_state := state_to_u8 t\<rparr>))"
proof -
  have "\<not> is_terminal s" using assms(2) terminal_no_edge by blast
  with assms show ?thesis
    by (auto simp: good_step_def handle_evolves_def handle_ok_def publish_state_change_def
        state_evolves_edge edge_path_snoc stream_ok_publish)
qed

lemma mark_terminal_state [simp]: "handle_state (mark_terminal now h) = handle_state h"
  by (simp add: mark_terminal_def handle_state_def split: option.splits)

lemma handle_state_terminal [simp]:
  "handle_state (h\<lparr>sh_state := x, sh_terminal_at := y\<rparr>) = state_from_u8 x"
  by (simp add: handle_state_def)

lemma end_and_publish:
  assumes "handle_state h = Some s" and "lifecycle_edge s t" and "is_terminal t"
  shows "good_step h (publish_state_change s t r (mark_terminal now (h\<lparr>sh_state := state_to_u8 t\<rparr>)))"
  using assms
  by (auto simp: good_step_def handle_evolves_def handle_ok_def publish_state_change_def
      mark_terminal_def state_evolves_edge edge_path_snoc stream_ok_publish split: option.splits)

lemma touch_good: "good_step h (touch now h)"
  by (simp add: good_step_def handle_evolves_def handle_ok_def touch_def handle_state_def)

lemma update_policy_good: "good_step h (snd (update_policy (\<lambda>c. apply_policy c p) h))"
  using apply_policy_ok [of "sh_policy h" p]
  by (cases "apply_policy (sh_policy h) p")
     (auto simp: good_step_def handle_evolves_def handle_ok_def update_policy_def handle_state_def)

lemma set_strategy_good: "good_step h (set_strategy info h)"
  by (simp add: good_step_def handle_evolves_def handle_ok_def set_strategy_def handle_state_def)

lemma log_counter_good: "good_step h (h\<lparr>sh_log_events := n\<rparr>)"
  by (simp add: good_step_def handle_evolves_def handle_ok_def handle_state_def)

lemma snapshot_good: "good_step h (h\<lparr>sh_snapshot_seq := max (sh_snapshot_seq h) n\<rparr>)"
  by (simp add: good_step_def handle_evolves_def handle_ok_def handle_state_def)

lemma set_set_insert [simp]: "set (set_insert x xs) = insert x (set xs)"
  by (auto simp: set_insert_def)

lemma distinct_set_insert [simp]: "distinct (set_insert x xs) = distinct xs"
  by (simp add: set_insert_def)

lemma track_orders_set:
  "set (fst (track_orders orders tracked n)) = set tracked \<union> (set (map o_id orders) - {[]})"
  by (induction orders tracked n rule: track_orders.induct) auto

lemma track_orders_distinct:
  "distinct (fst (track_orders orders tracked n)) = distinct tracked"
  by (induction orders tracked n rule: track_orders.induct) auto

lemma record_fields [simp]:
  "sh_tracked_coids (record_submitted_orders orders h) = fst (track_orders orders (sh_tracked_coids h) 0)"
  "handle_state (record_submitted_orders orders h) = handle_state h"
  "sh_id (record_submitted_orders orders h) = sh_id h"
  "sh_client (record_submitted_orders orders h) = sh_client h"
  "sh_heartbeat_interval_ms (record_submitted_orders orders h) = sh_heartbeat_interval_ms h"
  "sh_snapshot_seq (record_submitted_orders orders h) = sh_snapshot_seq h"
  "sh_terminal_at (record_submitted_orders orders h) = sh_terminal_at h"
  "sh_events_tx (record_submitted_orders orders h) = sh_events_tx h"
  "sh_ring (record_submitted_orders orders h) = sh_ring h"
  "sh_policy (record_submitted_orders orders h) = sh_policy h"
  by (simp_all add: record_submitted_orders_def handle_state_def split: prod.splits)

lemma record_good: "good_step h (record_submitted_orders orders h)"
  by (auto simp: good_step_def handle_evolves_def handle_ok_def track_orders_set track_orders_distinct)

section \<open>How the registry evolves\<close>

definition registry_step :: "'v session_manager \<Rightarrow> 'v session_manager \<Rightarrow> bool" where
  "registry_step m m' \<longleftrightarrow> map fst (m_sessions m') = map fst (m_sessions m)
     \<and> (\<forall>i h. lookup m i = Some h \<longrightarrow> (\<exists>h'. lookup m' i = Some h' \<and> good_step h h'))"

lemma registry_step_refl [simp, intro]: "registry_step m m"
  by (auto simp: registry_step_def)

lemma registry_step_trans: "registry_step a b \<Longrightarrow> registry_step b c \<Longrightarrow> registry_step a c"
  unfolding registry_step_def by (metis good_step_trans)

lemma registry_put:
  "lookup m i = Some h \<Longrightarrow> good_step h h' \<Longrightarrow> registry_step m (put_handle i h' m)"
  by (auto simp: registry_step_def)

lemma lookup_frame [simp]:
  "lookup (m\<lparr>m_venue := v\<rparr>) i = lookup m i"
  "lookup (m\<lparr>m_health_failures := n\<rparr>) i = lookup m i"
  "lookup (m\<lparr>m_watchdog_started := w\<rparr>) i = lookup m i"
  by (simp_all add: lookup_def)

lemma registry_frame [simp, intro]:
  "registry_step m (m\<lparr>m_venue := v\<rparr>)"
  "registry_step m (m\<lparr>m_health_failures := n\<rparr>)"
  by (auto simp: registry_step_def)

lemma registry_step_ok:
  assumes "registry_step m m'" and "manager_ok m"
  shows "manager_ok m'"
proof -
  have "sh_id h' = i \<and> handle_ok h'" if "lookup m' i = Some h'" for i h'
  proof -
    have "fst ` set (m_sessions m') = fst ` set (m_sessions m)"
      using assms(1) by (metis list.set_map registry_step_def)
    moreover have "i \<in> fst ` set (m_sessions m')"
      using that by (force simp: lookup_def dest: map_of_SomeD)
    ultimately obtain h where h: "lookup m i = Some h"
      by (auto simp: lookup_def dest!: weak_map_of_SomeI)
    then have "sh_id h = i" "handle_ok h" using assms(2) by (auto simp: manager_ok_def)
    moreover have "good_step h h'"
      using assms(1) h that unfolding registry_step_def by (metis option.inject)
    ultimately show ?thesis by (auto simp: good_step_def handle_evolves_def)
  qed
  then show ?thesis using assms by (simp add: registry_step_def manager_ok_def)
qed

lemma registry_fold:
  assumes "\<And>x m. registry_step m (f x m)"
  shows "registry_step m (fold f xs m)"
proof (induction xs arbitrary: m)
  case Nil
  then show ?case by simp
next
  case (Cons x xs)
  show ?case using assms Cons by (simp add: registry_step_trans [where b = "f x m"])
qed

section \<open>Every operation\<close>

lemma begin_reconcile_step: "registry_step m (snd (begin_reconcile i m))"
  by (auto simp: begin_reconcile_def get_lookup split: option.splits session_state.splits
      intro!: registry_put step_and_publish lifecycle_edge.intros)

lemma complete_reconcile_step: "registry_step m (snd (complete_reconcile i n m))"
proof (cases "lookup m i")
  case None
  then show ?thesis by (simp add: complete_reconcile_def get_lookup)
next
  case (Some h)
  define h1 where "h1 = h\<lparr>sh_snapshot_seq := max (sh_snapshot_seq h) n\<rparr>"
  have one: "registry_step m (put_handle i h1 m)"
    using Some by (auto simp: h1_def intro: registry_put snapshot_good)
  have two: "registry_step (put_handle i h1 m) (put_handle i h2 (put_handle i h1 m))"
    if "good_step h1 h2" for h2
    by (rule registry_put [OF _ that]) (simp add: Some)
  have three: "registry_step m (put_handle i (publish_state_change Syncing Active r
      (h1\<lparr>sh_state := state_to_u8 Active\<rparr>)) (put_handle i h1 m))"
    if "handle_state h1 = Some Syncing" for r
    using that by (auto intro!: registry_step_trans [OF one two] step_and_publish lifecycle_edge.intros)
  show ?thesis
    using one three
    by (auto simp: complete_reconcile_def get_lookup Some h1_def [symmetric] Let_def
        split: option.splits session_state.splits)
qed

lemma cancel_session_orders_frame [simp]:
  "snd (cancel_session_orders gw h m) = m\<lparr>m_venue := snd (cancel_coids gw (m_default_exchange m) (tracked_orders h) (m_venue m))\<rparr>"
  by (simp add: cancel_session_orders_def split: prod.splits)

lemma put_venue: "put_handle i h (m\<lparr>m_venue := v\<rparr>) = (put_handle i h m)\<lparr>m_venue := v\<rparr>"
  by (simp add: put_handle_def)

lemma registry_put_venue:
  "lookup m i = Some h \<Longrightarrow> good_step h h' \<Longrightarrow> registry_step m ((put_handle i h' m)\<lparr>m_venue := v\<rparr>)"
  using registry_put registry_frame(1) registry_step_trans by blast

lemma run_scope_frame: "registry_step m (run_scope gw h m)"
  by (auto simp: run_scope_def split: scope.splits)

lemma trip_kill_switch_step:
  assumes "lookup m i = Some h"
  shows "registry_step m (trip_kill_switch gw now i h m)"
proof (cases "handle_state h = Some Active")
  case True
  then have "registry_step m (put_handle i (publish_state_change Active KillSwitchTripped ''lease expired''
      (mark_terminal now (h\<lparr>sh_state := state_to_u8 KillSwitchTripped\<rparr>))) m)"
    using assms by (auto intro!: registry_put end_and_publish lifecycle_edge.intros)
  then show ?thesis
    using True by (auto simp: trip_kill_switch_def Let_def intro: registry_step_trans [OF _ run_scope_frame])
next
  case False
  then show ?thesis by (simp add: trip_kill_switch_def)
qed

lemma check_lease_expiry_step: "registry_step m (snd (check_lease_expiry gw now i m))"
  by (auto simp: check_lease_expiry_def get_lookup Let_def split: option.splits
      intro: trip_kill_switch_step)

lemma stop_session_step: "registry_step m (snd (stop_session gw now i c m))"
proof (cases "lookup m i")
  case None
  then show ?thesis by (simp add: stop_session_def get_lookup)
next
  case (Some h)
  obtain fs v where fv: "(if c then cancel_session_orders gw h m else ([], m)) = (fs, m\<lparr>m_venue := v\<rparr>)"
  proof (cases c)
    case True
    then show ?thesis
      by (cases "cancel_coids gw (m_default_exchange m) (tracked_orders h) (m_venue m)")
         (auto intro!: that simp: cancel_session_orders_def)
  next
    case False
    then show ?thesis by (intro that [of "[]" "m_venue m"]) simp
  qed
  show ?thesis
  proof (cases "handle_state h")
    case None
    then show ?thesis using Some fv by (auto simp: stop_session_def get_lookup Let_def split: prod.splits)
  next
    case (Some s)
    show ?thesis
    proof (cases "is_terminal s")
      case True
      then show ?thesis using Some \<open>lookup m i = Some h\<close> by (simp add: stop_session_def get_lookup)
    next
      case False
      then have "good_step h (publish_state_change s GracefulShutdown ''stop requested''
          (mark_terminal now (h\<lparr>sh_state := state_to_u8 GracefulShutdown\<rparr>)))"
        using Some by (auto intro!: end_and_publish lifecycle_edge.intros)
      then show ?thesis
        using Some \<open>lookup m i = Some h\<close> False fv
        by (auto simp: stop_session_def get_lookup Let_def put_venue intro: registry_put_venue)
    qed
  qed
qed

lemma report_log_step: "registry_step m (snd (report_log sys i l msg fs m))"
  by (auto simp: report_log_def get_lookup Let_def split: option.splits
      intro!: registry_put good_step_trans [OF log_counter_good publish_good])

lemma report_log_stream_step: "registry_step m (snd (report_log_stream sys items n m))"
proof (induction sys items n m rule: report_log_stream.induct)
  case (3 sys event items accepted m)
  show ?case
    using "3" [OF refl] report_log_step [of m sys "le_session_id event"]
    by (auto simp: Let_def split: prod.splits sum.splits)
       (metis registry_step_trans snd_conv)+
qed simp_all

lemma keep_alive_step: "registry_step m (snd (keep_alive now sys i m))"
  by (auto simp: keep_alive_def get_lookup Let_def split: option.splits intro!: registry_put touch_good)

lemma set_policy_step: "registry_step m (snd (set_kill_switch_policy i p m))"
  using update_policy_good
  by (auto simp: set_kill_switch_policy_def get_lookup split: option.splits prod.splits intro!: registry_put)
     (metis snd_conv)

lemma register_strategy_step: "registry_step m (snd (register_strategy sys sid i name m))"
  by (auto simp: register_strategy_def get_lookup split: option.splits intro!: registry_put set_strategy_good)

lemma reconcile_state_step: "registry_step m (snd (reconcile_state gw i m))"
proof -
  have mid: "registry_step m ((snd (begin_reconcile i m))\<lparr>m_venue := v\<rparr>)" for v
    using begin_reconcile_step registry_frame(1) registry_step_trans by blast
  have "registry_step m (snd (complete_reconcile i n ((snd (begin_reconcile i m))\<lparr>m_venue := v\<rparr>)))" for n v
    using mid complete_reconcile_step registry_step_trans by blast
  with mid begin_reconcile_step [of m i] show ?thesis
    by (auto simp: reconcile_state_def split: prod.splits sum.splits) (metis snd_conv)+
qed

section \<open>Attaching, retiring, the watchdog\<close>

text \<open>
  An operation may also drop sessions.  A dropped session had come to a terminal state.
\<close>

definition registry_evolves :: "'v session_manager \<Rightarrow> 'v session_manager \<Rightarrow> bool" where
  "registry_evolves m m' \<longleftrightarrow> (\<forall>i h. lookup m i = Some h \<longrightarrow>
     (case lookup m' i of
        Some h' \<Rightarrow> good_step h h'
      | None \<Rightarrow> \<exists>h'. good_step h h' \<and> sh_terminal_at h' \<noteq> None))"

lemma registry_step_evolves: "registry_step m m' \<Longrightarrow> registry_evolves m m'"
  by (fastforce simp: registry_step_def registry_evolves_def)

lemma registry_evolves_refl [simp, intro]: "registry_evolves m m"
  by (simp add: registry_step_evolves)

lemma lookup_None_keys: "lookup m i = None \<longleftrightarrow> i \<notin> set (map fst (m_sessions m))"
  by (simp add: lookup_def map_of_eq_None_iff)

lemma lookup_step_None: "registry_step m m' \<Longrightarrow> lookup m' i = None \<longleftrightarrow> lookup m i = None"
  by (simp add: lookup_None_keys registry_step_def)

lemma reconnect_step:
  assumes "lookup m i = Some h"
  shows "registry_step m (snd (reconnect now policy i client h m))"
proof -
  have "good_step h (snd (update_policy (\<lambda>c. apply_policy c p) (touch now h)))" for p
    using touch_good update_policy_good good_step_trans by blast
  then have "good_step h h'"
    if "update_policy (\<lambda>c. apply_policy c p) (touch now h) = (r, h')" for p r h'
    using that by (metis snd_conv)
  then show ?thesis
    using assms
    by (auto simp: reconnect_def Let_def split: option.splits sum.splits prod.splits
        intro!: registry_put touch_good)
qed

lemma new_handle_ok: "policy_ok p \<Longrightarrow> handle_ok (new_handle i p now client)"
  by (simp add: handle_ok_def new_handle_def handle_state_def state_changes_def
      stream_ok_def)

lemma attach_fresh_cases:
  obtains "snd (attach_fresh now new_id policy client m) = m"
  | p where "policy_ok p" and "snd (attach_fresh now new_id policy client m) =
      ensure_watchdog (m\<lparr>m_sessions := AList.update new_id (new_handle new_id p now client) (m_sessions m)\<rparr>)"
proof -
  define rp where "rp = (case policy of None \<Rightarrow> (Inr (), default_policy)
      | Some policy \<Rightarrow> apply_policy default_policy policy)"
  have "policy_ok (snd rp)"
    using default_policy_ok apply_policy_ok by (auto simp: rp_def split: option.splits)
  then show ?thesis
    using that by (cases rp; cases "fst rp") (auto simp: attach_fresh_def rp_def [symmetric])
qed

lemma lookup_ensure_watchdog [simp]: "lookup (ensure_watchdog m) i = lookup m i"
  "m_sessions (ensure_watchdog m) = m_sessions m"
  by (simp_all add: ensure_watchdog_def lookup_def)

lemma lookup_update [simp]:
  "lookup (m\<lparr>m_sessions := AList.update k h (m_sessions m)\<rparr>) i = (if i = k then Some h else lookup m i)"
  by (simp add: lookup_def)

text \<open>The effect of an attach on the registry: an existing session evolves, or one new one appears.\<close>

definition attach_effect :: "string \<Rightarrow> 'v session_manager \<Rightarrow> 'v session_manager \<Rightarrow> bool" where
  "attach_effect new_id m m' \<longleftrightarrow> registry_evolves m m' \<and> (manager_ok m \<longrightarrow> manager_ok m')
     \<and> (\<forall>i. i \<noteq> new_id \<longrightarrow> lookup m' i = None \<longleftrightarrow> lookup m i = None)"

lemma attach_effect_step: "registry_step m m' \<Longrightarrow> attach_effect new_id m m'"
  by (auto simp: attach_effect_def registry_step_evolves lookup_step_None intro: registry_step_ok)

lemma attach_fresh_effect:
  assumes "lookup m new_id = None"
  shows "attach_effect new_id m (snd (attach_fresh now new_id policy client m))"
proof (cases rule: attach_fresh_cases [of now new_id policy client m])
  case 1
  then show ?thesis by (simp add: attach_effect_step)
next
  case (2 p)
  have "manager_ok (snd (attach_fresh now new_id policy client m))" if "manager_ok m"
    using that 2 new_handle_ok [OF 2(1)]
    by (auto simp: manager_ok_def distinct_update new_handle_def)
  then show ?thesis
    using assms 2 by (auto simp: attach_effect_def registry_evolves_def split: option.splits)
qed

lemma attach_session_effect:
  assumes "lookup m new_id = None"
  shows "attach_effect new_id m (snd (attach_session ct_eq now sys new_id req m))"
proof -
  have "snd (attach_session ct_eq now sys new_id req m) =
      snd (attach_with_reconnect ct_eq now new_id (asr_token req) (asr_policy req) (asr_session_id req)
             \<lparr>ci_name = asr_client_name req, ci_version = asr_client_version req\<rparr> m)"
    by (auto simp: attach_session_def split: prod.splits sum.splits)
  moreover have "attach_effect new_id m m" by (simp add: attach_effect_step)
  ultimately show ?thesis
    using attach_fresh_effect [OF assms] attach_effect_step [OF reconnect_step]
    by (auto simp: attach_with_reconnect_def lookup_def split: option.splits if_splits)
qed


lemma retire_lookup:
  assumes "distinct (map fst (m_sessions m))"
  shows "lookup (retire_terminal_sessions busy now ret m) i =
    (case lookup m i of
       None \<Rightarrow> None
     | Some h \<Rightarrow> (case try_terminal_age (busy i) now h of
          Some age \<Rightarrow> if age < ret then Some h else None
        | None \<Rightarrow> Some h))"
proof -
  have "map_of (filter (\<lambda>(i, h). P i h) al) k =
      (case map_of al k of None \<Rightarrow> None | Some h \<Rightarrow> if P k h then Some h else None)"
    if "distinct (map fst al)" for P and al :: "(string \<times> session_handle) list" and k
    using that by (induction al) (auto simp: map_of_eq_None_iff split: option.splits)
  from this [OF assms] show ?thesis
    by (simp add: lookup_def retire_terminal_sessions_def split: option.splits)
qed

lemma retire_evolves:
  assumes "manager_ok m"
  shows "registry_evolves m (retire_terminal_sessions busy now ret m)"
    and "manager_ok (retire_terminal_sessions busy now ret m)"
    and "lookup m i = None \<Longrightarrow> lookup (retire_terminal_sessions busy now ret m) i = None"
proof -
  have d: "distinct (map fst (m_sessions m))" using assms by (simp add: manager_ok_def)
  show "registry_evolves m (retire_terminal_sessions busy now ret m)"
    by (auto simp: registry_evolves_def retire_lookup [OF d] try_terminal_age_def split: option.splits)
  have "distinct (map fst (m_sessions (retire_terminal_sessions busy now ret m)))"
    using d by (simp add: retire_terminal_sessions_def distinct_map_filter)
  then show "manager_ok (retire_terminal_sessions busy now ret m)"
    using assms by (auto simp: manager_ok_def retire_lookup [OF d] split: option.splits if_splits)
  show "lookup m i = None \<Longrightarrow> lookup (retire_terminal_sessions busy now ret m) i = None"
    by (simp add: retire_lookup [OF d])
qed

lemma l1_pass_step: "registry_step m (l1_pass gw now ids m)"
  unfolding l1_pass_def by (rule registry_fold) (rule check_lease_expiry_step)

lemma trip_by_id_step: "registry_step m (trip_by_id gw now i m)"
  by (auto simp: trip_by_id_def get_lookup split: option.splits intro: trip_kill_switch_step)

lemma health_check_step: "registry_step m (snd (gateway_health_check gw m))"
  by (auto simp: gateway_health_check_def Let_def split: prod.splits sum.splits)

lemma note_probe_step: "registry_step m (snd (note_health_probe probe m))"
  by (simp add: note_health_probe_def)

lemma l2_pass_step: "registry_step m (l2_pass gw now m)"
proof -
  have "registry_step m (snd (note_health_probe p (snd (gateway_health_check gw m))))" for p
    using health_check_step note_probe_step registry_step_trans by blast
  moreover have "registry_step a (fold (trip_by_id gw now) ids a)" for ids a
    by (rule registry_fold) (rule trip_by_id_step)
  ultimately show ?thesis
    by (auto simp: l2_pass_def split: prod.splits) (metis registry_step_trans snd_conv)+
qed

lemma guard_step: "registry_step m (snd (strategy_lease_guard gw i ticks m))"
proof (induction gw i ticks m rule: strategy_lease_guard.induct)
  case (2 gw i now ticks m)
  then show ?case
    using check_lease_expiry_step [of m gw now i]
    by (auto split: prod.splits sum.splits bool.splits) (metis registry_step_trans snd_conv)+
qed simp

section \<open>The registry as a transition system\<close>

text \<open>
  A state is the manager with the session ids handed out so far; the ids are UUIDs, so an
  attach takes one that has not been handed out.  Time, the order of the calls, and what the
  venue does between them are arbitrary.  \<open>ms_orders\<close> is the order path of the trading
  proxy: the ids of accepted orders are recorded and orders that come too late unwound.
\<close>

inductive manager_step ::
  "('v, 'm) trading_gateway \<Rightarrow> (string \<Rightarrow> string \<Rightarrow> bool)
   \<Rightarrow> 'v session_manager \<times> string set \<Rightarrow> 'v session_manager \<times> string set \<Rightarrow> bool"
  for gw :: "('v, 'm) trading_gateway" and ct_eq :: "string \<Rightarrow> string \<Rightarrow> bool" where
  ms_attach: "new_id \<notin> issued \<Longrightarrow>
     manager_step gw ct_eq (m, issued)
       (snd (attach_session ct_eq now sys new_id req m), insert new_id issued)"
| ms_keep_alive: "manager_step gw ct_eq (m, issued) (snd (keep_alive now sys i m), issued)"
| ms_reconcile: "manager_step gw ct_eq (m, issued) (snd (reconcile_state gw i m), issued)"
| ms_begin: "manager_step gw ct_eq (m, issued) (snd (begin_reconcile i m), issued)"
| ms_complete: "manager_step gw ct_eq (m, issued) (snd (complete_reconcile i n m), issued)"
| ms_policy: "manager_step gw ct_eq (m, issued) (snd (set_kill_switch_policy i p m), issued)"
| ms_register: "manager_step gw ct_eq (m, issued) (snd (register_strategy sys sid i name m), issued)"
| ms_stop: "manager_step gw ct_eq (m, issued) (snd (stop_strategy gw now i c m), issued)"
| ms_log: "manager_step gw ct_eq (m, issued) (snd (report_log_stream sys items n m), issued)"
| ms_orders: "lookup m i = Some h \<Longrightarrow> h' = record_submitted_orders orders h \<Longrightarrow>
     manager_step gw ct_eq (m, issued)
       (unwind_late_submissions gw h' orders (put_handle i h' (m\<lparr>m_venue := v\<rparr>)), issued)"
| ms_venue: "manager_step gw ct_eq (m, issued) (m\<lparr>m_venue := v\<rparr>, issued)"
| ms_lease: "manager_step gw ct_eq (m, issued) (snd (check_lease_expiry gw now i m), issued)"
| ms_watchdog: "manager_step gw ct_eq (m, issued) (watchdog_tick gw busy now m, issued)"
| ms_guard: "manager_step gw ct_eq (m, issued) (snd (strategy_lease_guard gw i ticks m), issued)"

definition manager_init :: "'v session_manager \<times> string set \<Rightarrow> bool" where
  "manager_init s \<longleftrightarrow> m_sessions (fst s) = []"

definition manager_inv :: "'v session_manager \<times> string set \<Rightarrow> bool" where
  "manager_inv s \<longleftrightarrow> manager_ok (fst s) \<and> (\<forall>i. lookup (fst s) i \<noteq> None \<longrightarrow> i \<in> snd s)"

text \<open>What one step does to the sessions and to the ids.\<close>

definition world_evolves ::
  "'v session_manager \<times> string set \<Rightarrow> 'v session_manager \<times> string set \<Rightarrow> bool" where
  "world_evolves s t \<longleftrightarrow> registry_evolves (fst s) (fst t) \<and> snd s \<subseteq> snd t
     \<and> (\<forall>i \<in> snd s. lookup (fst s) i = None \<longrightarrow> lookup (fst t) i = None)"

lemma stop_strategy_step: "registry_step m (snd (stop_strategy gw now i c m))"
  using stop_session_step [of m gw now i c]
  by (auto simp: stop_strategy_def split: prod.splits sum.splits)

lemma orders_step:
  assumes "lookup m i = Some h"
  shows "registry_step m (unwind_late_submissions gw h' orders
           (put_handle i (record_submitted_orders orders h) (m\<lparr>m_venue := v\<rparr>)))"
proof -
  have "registry_step m (put_handle i (record_submitted_orders orders h) (m\<lparr>m_venue := v\<rparr>))"
    using registry_put_venue [OF assms record_good] by (simp add: put_venue)
  then show ?thesis
    unfolding unwind_late_submissions_def using registry_frame(1) registry_step_trans by auto
qed

lemma world_step:
  "registry_step m m' \<Longrightarrow> manager_inv (m, issued) \<Longrightarrow>
   manager_inv (m', issued) \<and> world_evolves (m, issued) (m', issued)"
  by (auto simp: manager_inv_def world_evolves_def registry_step_evolves lookup_step_None
      intro: registry_step_ok)

lemma registry_evolves_Some:
  "registry_evolves m m' \<Longrightarrow> lookup m i = Some h \<Longrightarrow> lookup m' i = Some h' \<Longrightarrow> good_step h h'"
  by (auto simp: registry_evolves_def split: option.splits)

lemma registry_evolves_None:
  assumes "registry_evolves m m'" and "lookup m i = Some h" and "lookup m' i = None"
  obtains h' where "good_step h h'" and "sh_terminal_at h' \<noteq> None"
  using assms by (fastforce simp: registry_evolves_def)

lemma registry_evolves_trans:
  assumes ab: "registry_evolves a b" and bc: "registry_evolves b c"
    and gone: "\<And>i h. lookup a i = Some h \<Longrightarrow> lookup b i = None \<Longrightarrow> lookup c i = None"
  shows "registry_evolves a c"
  unfolding registry_evolves_def
proof (intro allI impI)
  fix i h assume h: "lookup a i = Some h"
  show "case lookup c i of Some h' \<Rightarrow> good_step h h'
      | None \<Rightarrow> \<exists>h'. good_step h h' \<and> sh_terminal_at h' \<noteq> None"
  proof (cases "lookup b i")
    case None
    obtain h' where "good_step h h'" "sh_terminal_at h' \<noteq> None"
      using registry_evolves_None [OF ab h None] .
    then show ?thesis using gone [OF h None] by auto
  next
    case (Some h1)
    then have one: "good_step h h1" using registry_evolves_Some [OF ab h] by simp
    show ?thesis
    proof (cases "lookup c i")
      case None
      obtain h' where "good_step h1 h'" "sh_terminal_at h' \<noteq> None"
        using registry_evolves_None [OF bc Some None] .
      then show ?thesis using None one good_step_trans by auto
    next
      case (Some h')
      then show ?thesis
        using one good_step_trans registry_evolves_Some [OF bc \<open>lookup b i = Some h1\<close>] by auto
    qed
  qed
qed

lemma registry_evolves_then_step:
  "registry_evolves a b \<Longrightarrow> registry_step b c \<Longrightarrow> registry_evolves a c"
  by (rule registry_evolves_trans) (auto simp: registry_step_evolves lookup_step_None)

lemma watchdog_world:
  assumes "manager_inv (m, issued)"
  shows "manager_inv (watchdog_tick gw busy now m, issued)
    \<and> world_evolves (m, issued) (watchdog_tick gw busy now m, issued)"
proof -
  have ok: "manager_ok m" using assms by (simp add: manager_inv_def)
  define r where "r = retire_terminal_sessions busy now TERMINAL_SESSION_RETENTION m"
  have r: "registry_evolves m r" "manager_ok r" "\<And>i. lookup m i = None \<Longrightarrow> lookup r i = None"
    unfolding r_def using retire_evolves [OF ok] by auto
  have step: "registry_step r (watchdog_tick gw busy now m)"
    unfolding watchdog_tick_def Let_def r_def [symmetric]
    using l1_pass_step l2_pass_step registry_step_trans by blast
  have "manager_ok (watchdog_tick gw busy now m)" using registry_step_ok [OF step r(2)] .
  then show ?thesis
    using assms registry_evolves_then_step [OF r(1) step]
    by (simp add: manager_inv_def world_evolves_def lookup_step_None [OF step]) (metis option.exhaust r(3))
qed

lemmas operation_steps = keep_alive_step reconcile_state_step begin_reconcile_step
  complete_reconcile_step set_policy_step register_strategy_step stop_strategy_step
  report_log_stream_step check_lease_expiry_step guard_step registry_frame(1)

lemma manager_step_world:
  assumes "manager_step gw ct_eq s t" and "manager_inv s"
  shows "manager_inv t \<and> world_evolves s t"
  using assms
proof (induction rule: manager_step.induct)
  case (ms_attach new_id issued m now sys req)
  then have "lookup m new_id = None" by (auto simp: manager_inv_def)
  then have "attach_effect new_id m (snd (attach_session ct_eq now sys new_id req m))"
    by (rule attach_session_effect)
  moreover define m' where "m' = snd (attach_session ct_eq now sys new_id req m)"
  ultimately have e: "attach_effect new_id m m'" by simp
  have "manager_inv (m', insert new_id issued)"
    using e ms_attach.prems by (auto simp: attach_effect_def manager_inv_def simp del: not_None_eq)
  moreover have "world_evolves (m, issued) (m', insert new_id issued)"
    using e ms_attach by (auto simp: attach_effect_def world_evolves_def)
  ultimately show ?case by (simp add: m'_def)
next
  case (ms_orders m i h h' orders issued v)
  then show ?case using world_step [OF orders_step] by simp
qed (simp_all add: watchdog_world operation_steps [THEN world_step])

interpretation registry: invariant_system manager_init "manager_step gw ct_eq" manager_inv
  by unfold_locales
     (auto simp: manager_init_def manager_inv_def manager_ok_def lookup_def dest: manager_step_world)

lemma manager_steps_world:
  assumes "(manager_step gw ct_eq)\<^sup>*\<^sup>* s t" and "manager_inv s"
  shows "world_evolves s t"
  using assms
proof (induction rule: rtranclp_induct)
  case base
  then show ?case by (auto simp: world_evolves_def)
next
  case (step t u)
  then have t: "world_evolves s t" "manager_inv t" using registry.inv_steps by blast+
  then have u: "world_evolves t u" using step.hyps(2) manager_step_world by blast
  have "lookup (fst u) i = None" if "lookup (fst s) i = Some h" "lookup (fst t) i = None" for i h
    using that t(1) u step.prems unfolding world_evolves_def manager_inv_def by blast
  then show ?case
    using t(1) u registry_evolves_trans [of "fst s" "fst t" "fst u"]
    by (auto simp: world_evolves_def)
qed

end
