(* ===== verification/Session_Safety.thy ===== *)
theory Session_Safety
  imports Session_Invariant Decimal_Codec
begin

text \<open>
  The promises of the control plane: the registry invariant, terminal states are final, the
  order gate, the lease and gateway watchdogs, authentication of attach, and the resume
  token of the event stream.
\<close>

section \<open>Reachable registries\<close>

text \<open>A first attach, as a concrete run for the witnesses.\<close>

definition demo_request :: attach_session_request where
  "demo_request = \<lparr>asr_token = '''', asr_client_name = ''bot'', asr_client_version = ''1'',
     asr_policy = None, asr_session_id = ''''\<rparr>"

definition demo_manager :: "unit session_manager" where
  "demo_manager = snd (attach_session (=) 5 0 ''s1'' demo_request (manager_new None default_exchange_id ()))"

lemma demo_reach: "reach manager_init (manager_step gw (=)) (demo_manager, {''s1''})"
proof -
  have "reach manager_init (manager_step gw (=)) (manager_new None default_exchange_id (), {})"
    by (rule reach_init) (simp add: manager_init_def manager_new_def)
  then show ?thesis
    unfolding demo_manager_def by (rule reach_step) (rule ms_attach, simp)
qed

lemma demo_lookup:
  "lookup demo_manager ''s1'' = Some (new_handle ''s1'' default_policy 5 \<lparr>ci_name = ''bot'', ci_version = ''1''\<rparr>)"
  by (simp add: demo_manager_def demo_request_def attach_session_def attach_with_reconnect_def
      attach_fresh_def token_ok_def manager_new_def ensure_watchdog_def lookup_def)

text \<open>The same session brought to ACTIVE, and a backend that answers every call with an error.\<close>

definition active_manager :: "unit session_manager" where
  "active_manager = snd (complete_reconcile ''s1'' 7 (snd (begin_reconcile ''s1'' demo_manager)))"

definition offline_gateway :: "(unit, unit) trading_gateway" where
  "offline_gateway = \<lparr>gw_create_order = (\<lambda>v _. (Inl (Transport ''offline''), v)),
     gw_batch_create_orders = (\<lambda>v _. (Inl (Transport ''offline''), v)),
     gw_cancel_order = (\<lambda>v _. (Inl (Transport ''offline''), v)),
     gw_cancel_all_orders = (\<lambda>v _. (Inl (Transport ''offline''), v)),
     gw_fetch_open_orders = (\<lambda>v _. (Inl (Transport ''offline''), v)),
     gw_account_call = (\<lambda>v _ _. (Inl (Transport ''offline''), v)),
     gw_sync_state = (\<lambda>v _. (Inl (Transport ''offline''), v)),
     gw_cancel_delay = (\<lambda>_ _. 0), gw_sync_delay = (\<lambda>_ _. 0)\<rparr>"

lemma active_reach: "reach manager_init (manager_step gw (=)) (active_manager, {''s1''})"
  unfolding active_manager_def
  by (rule reach_step [OF reach_step [OF demo_reach ms_begin] ms_complete])

lemma active_lookup:
  obtains h where "lookup active_manager ''s1'' = Some h" "handle_state h = Some Active"
    "sh_last_seen h = 5" "sh_policy h = default_policy" "sh_terminal_at h = None"
    "length (sh_events_tx h) = 2"
proof -
  define h1 where "h1 = publish_state_change Attached Syncing ''reconcile started''
      (new_handle ''s1'' default_policy 5 \<lparr>ci_name = ''bot'', ci_version = ''1''\<rparr>\<lparr>sh_state := state_to_u8 Syncing\<rparr>)"
  have hs: "handle_state (new_handle ''s1'' default_policy 5 \<lparr>ci_name = ''bot'', ci_version = ''1''\<rparr>) = Some Attached"
    by (simp add: new_handle_def handle_state_def)
  then have b: "snd (begin_reconcile ''s1'' demo_manager) = put_handle ''s1'' h1 demo_manager"
    by (simp add: begin_reconcile_def get_lookup demo_lookup h1_def)
  define h2 where "h2 = h1\<lparr>sh_snapshot_seq := max (sh_snapshot_seq h1) 7\<rparr>"
  have h2: "handle_state h2 = Some Syncing" "sh_last_seen h2 = 5" "sh_policy h2 = default_policy"
    "sh_terminal_at h2 = None" "length (sh_events_tx h2) = 1"
    by (simp_all add: h2_def h1_def publish_state_change_def handle_state_def new_handle_def)
  have "lookup active_manager ''s1'' =
      Some (publish_state_change Syncing Active ''reconcile complete'' (h2\<lparr>sh_state := state_to_u8 Active\<rparr>))"
    using h2(1)
    by (simp add: active_manager_def b complete_reconcile_def get_lookup demo_lookup h2_def [symmetric] Let_def)
  then show ?thesis using that h2 by (auto simp: publish_state_change_def)
qed

text \<open>
  C1: the registry invariant.  In every reachable state of the control plane each
  registered session is filed under its own id, its state byte is one of the five states,
  its terminal instant is set exactly in a terminal state, the state changes it has
  announced lead along lifecycle edges from ATTACHED to that state, its lease lies between
  500 ms and one hour and its kill-switch scope is a real scope, the ids it tracks are
  distinct and non-empty, and its replay ring holds at most 1024 events.
\<close>

theorem registry_invariant:
  assumes "reach manager_init (manager_step gw ct_eq) (m, issued)" and "lookup m i = Some h"
  shows "sh_id h = i \<and> i \<in> issued
    \<and> (\<exists>s. sh_state h = state_to_u8 s \<and> (is_terminal s \<longleftrightarrow> sh_terminal_at h \<noteq> None)
         \<and> edge_path Attached (state_changes (sh_events_tx h)) s)
    \<and> min_lease \<le> lease_timeout (sh_policy h) \<and> lease_timeout (sh_policy h) \<le> max_lease
    \<and> policy_scope (sh_policy h) \<noteq> ScopeUnspecified
    \<and> distinct (sh_tracked_coids h) \<and> [] \<notin> set (sh_tracked_coids h)
    \<and> length (sh_ring h) \<le> 1024"
proof -
  have "manager_inv (m, issued)" using registry.inv_reach [OF assms(1)] .
  then have "sh_id h = i" "handle_ok h" "i \<in> issued"
    using assms(2) by (auto simp: manager_inv_def manager_ok_def)
  then show ?thesis
    using stream_ok_ring [of h]
    by (auto simp: handle_ok_def policy_ok_def handle_state_def state_from_u8_Some EVENT_RING_CAPACITY_def)
qed

theorem registry_invariant_witness:
  "\<exists>h. lookup demo_manager ''s1'' = Some h \<and> sh_id h = ''s1'' \<and> length (sh_ring h) \<le> 1024
     \<and> min_lease \<le> lease_timeout (sh_policy h)"
  using registry_invariant [OF demo_reach demo_lookup] demo_lookup by blast



text \<open>
  C2: terminal sessions are dead for good.  Once a session has been stopped or tripped, or
  has been retired after that, no later state of the control plane authorizes an order for
  its id.
\<close>

theorem terminal_session_never_authorized:
  assumes "reach manager_init (manager_step gw ct_eq) s" and "(manager_step gw ct_eq)\<^sup>*\<^sup>* s t"
    and "i \<in> snd s" and "i \<noteq> []"
    and "case lookup (fst s) i of None \<Rightarrow> True
         | Some h \<Rightarrow> \<exists>a. handle_state h = Some a \<and> is_terminal a"
  shows "\<exists>e. authorize_order_submission i (fst t) = Inl e"
proof -
  have inv: "manager_inv s" using registry.inv_reach [OF assms(1)] .
  have w: "world_evolves s t" using manager_steps_world [OF assms(2) inv] .
  show ?thesis
  proof (cases "lookup (fst s) i")
    case None
    then have "lookup (fst t) i = None" using w assms(3) by (auto simp: world_evolves_def)
    then show ?thesis using assms(4) by (simp add: authorize_order_submission_def get_lookup)
  next
    case (Some h)
    then obtain a where a: "handle_state h = Some a" "is_terminal a" using assms(5) by auto
    have "handle_state h' = Some a" if "lookup (fst t) i = Some h'" for h'
    proof -
      have "good_step h h'" using w Some that registry_evolves_Some by (auto simp: world_evolves_def)
      then show ?thesis
        using a terminal_absorbing
        by (auto simp: good_step_def handle_evolves_def state_evolves_def split: option.splits)
    qed
    then show ?thesis
      using assms(4) a(2)
      by (cases "lookup (fst t) i") (auto simp: authorize_order_submission_def get_lookup)
  qed
qed

lemma stopped_demo:
  "handle_state h = Some a \<and> is_terminal a"
  if "lookup (snd (stop_strategy offline_gateway 9 ''s1'' False demo_manager)) ''s1'' = Some h"
    and "a = GracefulShutdown"
  using that
  by (auto simp: stop_strategy_def stop_session_def get_lookup demo_lookup new_handle_def handle_state_def
      transition_def mark_terminal_def publish_state_change_def Let_def)

theorem terminal_session_never_authorized_witness:
  "\<exists>e. authorize_order_submission ''s1'' (snd (stop_strategy offline_gateway 9 ''s1'' False demo_manager)) = Inl e"
proof -
  have r: "reach manager_init (manager_step offline_gateway (=))
      (snd (stop_strategy offline_gateway 9 ''s1'' False demo_manager), {''s1''})"
    by (rule reach_step [OF demo_reach ms_stop])
  show ?thesis
    using terminal_session_never_authorized [OF r rtranclp.rtrancl_refl, of "''s1''"] stopped_demo
    by (auto split: option.splits)
qed

section \<open>The order gate\<close>

lemma edge_path_to_Active:
  assumes "edge_path Attached changes Active"
  shows "changes = [(Known ProtoAttached, Known ProtoSyncing), (Known ProtoSyncing, Known ProtoActive)]"
proof -
  have stuck: "changes = []" if "edge_path t changes u" "is_terminal t" for t u changes
    using that by (cases changes) (auto dest: terminal_no_edge)
  have fin: "edge_path t changes Active \<longleftrightarrow> (t = Active \<and> changes = [])"
    if "is_terminal t \<or> t = Active" for t changes
    using that stuck [of t changes Active] stuck
    by (cases changes; cases t) (auto elim!: lifecycle_edge.cases, fastforce+)
  have syn: "changes = [(Known ProtoSyncing, Known ProtoActive)]" if "edge_path Syncing changes Active" for changes
    using that fin by (cases changes) (auto elim!: lifecycle_edge.cases)
  show ?thesis
    using assms fin syn by (cases changes) (auto elim!: lifecycle_edge.cases)
qed

text \<open>
  C3: the order gate lets an attributed order through only after a completed reconcile.  In
  every reachable state, if a non-empty session id is authorized then the session is
  registered under that id, it is ACTIVE, it has no terminal instant, and the state changes
  it announced are exactly ATTACHED to SYNCING and SYNCING to ACTIVE.
\<close>

theorem authorized_session_reconciled:
  assumes "reach manager_init (manager_step gw ct_eq) (m, issued)"
    and "authorize_order_submission i m = Inr (Some h)"
  shows "i \<noteq> [] \<and> lookup m i = Some h \<and> sh_state h = state_to_u8 Active \<and> sh_terminal_at h = None
    \<and> state_changes (sh_events_tx h) =
        [(Known ProtoAttached, Known ProtoSyncing), (Known ProtoSyncing, Known ProtoActive)]"
proof -
  have h: "i \<noteq> []" "lookup m i = Some h" "handle_state h = Some Active"
    using assms(2) by (auto simp: authorize_order_submission_def get_lookup split: if_splits option.splits)
  moreover have "handle_ok h"
    using registry.inv_reach [OF assms(1)] h(2) by (auto simp: manager_inv_def manager_ok_def)
  ultimately show ?thesis
    using edge_path_to_Active by (auto simp: handle_ok_def handle_state_def state_from_u8_Some)
qed

theorem authorized_session_reconciled_witness:
  "\<exists>h. authorize_order_submission ''s1'' active_manager = Inr (Some h) \<and> sh_terminal_at h = None
     \<and> state_changes (sh_events_tx h) =
        [(Known ProtoAttached, Known ProtoSyncing), (Known ProtoSyncing, Known ProtoActive)]"
proof -
  obtain h where h: "lookup active_manager ''s1'' = Some h" "handle_state h = Some Active"
    by (rule active_lookup)
  then have a: "authorize_order_submission ''s1'' active_manager = Inr (Some h)"
    by (simp add: authorize_order_submission_def get_lookup)
  show ?thesis
    using authorized_session_reconciled [OF active_reach [of offline_gateway] a] a by auto
qed

section \<open>The lease watchdog\<close>

lemma trip_kill_switch_lookup:
  assumes "lookup m i = Some h" and "handle_state h = Some Active"
  shows "lookup (trip_kill_switch gw now i h m) i = Some (publish_state_change Active KillSwitchTripped
     ''lease expired'' (mark_terminal now (h\<lparr>sh_state := state_to_u8 KillSwitchTripped\<rparr>)))"
  using assms by (simp add: trip_kill_switch_def Let_def run_scope_def split: scope.splits)

lemma trip_kill_switch_other:
  "j \<noteq> i \<Longrightarrow> lookup (trip_kill_switch gw now i h m) j = lookup m j"
  by (auto simp: trip_kill_switch_def Let_def run_scope_def split: scope.splits prod.splits option.splits)

text \<open>
  C5: the lease check.  It answers that the lease has expired exactly when the session is
  ACTIVE and more whole milliseconds than its lease have passed since it was last seen.
  Then the session ends up KILL_SWITCH_TRIPPED with the terminal instant set and one more
  event, the announcement of that change; otherwise nothing changes.  Other sessions are
  never touched.
\<close>

theorem lease_check_exact:
  assumes "lookup m i = Some h" and "check_lease_expiry gw now i m = (r, m')"
  shows "r = Inr (sh_state h = state_to_u8 Active
       \<and> as_millis (saturating_duration_since now (sh_last_seen h)) > as_millis (lease_timeout (sh_policy h))
       \<and> u64_max > as_millis (lease_timeout (sh_policy h)))
    \<and> (case r of
        Inr True \<Rightarrow> (\<exists>h' e. lookup m' i = Some h' \<and> sh_state h' = state_to_u8 KillSwitchTripped
            \<and> sh_terminal_at h' = (case sh_terminal_at h of None \<Rightarrow> Some now | Some t \<Rightarrow> Some t)
            \<and> sh_events_tx h' = sh_events_tx h @ [e]
            \<and> event_change e = [(Known ProtoActive, Known ProtoKillSwitchTripped)])
      | _ \<Rightarrow> m' = m)
    \<and> (\<forall>j. j \<noteq> i \<longrightarrow> lookup m' j = lookup m j)"
proof -
  have r: "r = Inr (lease_expired now h)" and m': "m' = (if lease_expired now h then trip_kill_switch gw now i h m else m)"
    using assms by (auto simp: check_lease_expiry_def get_lookup Let_def)
  have e: "lease_expired now h \<longleftrightarrow> (sh_state h = state_to_u8 Active
       \<and> as_millis (saturating_duration_since now (sh_last_seen h)) > as_millis (lease_timeout (sh_policy h))
       \<and> u64_max > as_millis (lease_timeout (sh_policy h)))"
    by (auto simp: lease_expired_def last_seen_elapsed_ms_def Let_def handle_state_def state_from_u8_Some)
  show ?thesis
  proof (cases "lease_expired now h")
    case True
    then have act: "handle_state h = Some Active" by (simp add: lease_expired_def)
    show ?thesis
      using True r m' e trip_kill_switch_lookup [OF assms(1) act, of gw now] trip_kill_switch_other
      by (auto simp: publish_state_change_def mark_terminal_def split: option.splits)
  next
    case False
    then show ?thesis unfolding e [symmetric] using r m' by simp
  qed
qed

lemma default_lease_30s: "lease_timeout default_policy = 30000000000"
  by (simp add: default_policy_def default_lease_def lease_bounds_def DEFAULT_HEARTBEAT_MS_def
      from_millis_def u64_max_def)

theorem lease_check_exact_witness:
  "fst (check_lease_expiry offline_gateway 40000000000 ''s1'' active_manager) = Inr True
   \<and> fst (check_lease_expiry offline_gateway 30000000005 ''s1'' active_manager) = Inr False"
proof -
  obtain h where h: "lookup active_manager ''s1'' = Some h" "handle_state h = Some Active"
    "sh_last_seen h = 5" "sh_policy h = default_policy" by (rule active_lookup)
  have "fst (check_lease_expiry offline_gateway now ''s1'' active_manager) =
      Inr (as_millis (saturating_duration_since now 5) > as_millis 30000000000)" for now
    using lease_check_exact [OF h(1) surjective_pairing, of offline_gateway now] h(2-4)
    by (auto simp: default_lease_30s handle_state_def state_from_u8_Some u64_max_def as_millis_def)
  then show ?thesis
    by (simp add: as_millis_def saturating_duration_since_def)
qed

lemma lease_check_clears:
  assumes "lookup (snd (check_lease_expiry gw now i m)) i = Some h"
  shows "\<not> lease_expired now h"
proof (cases "lookup m i")
  case None
  then show ?thesis using assms by (simp add: check_lease_expiry_def get_lookup)
next
  case (Some h0)
  then show ?thesis
    using assms trip_kill_switch_lookup [OF Some, of gw now]
    by (auto simp: check_lease_expiry_def get_lookup Let_def lease_expired_def publish_state_change_def
        split: if_splits)
qed

lemma lease_check_other: "j \<noteq> i \<Longrightarrow> lookup (snd (check_lease_expiry gw now i m)) j = lookup m j"
  by (simp add: check_lease_expiry_def get_lookup Let_def trip_kill_switch_other split: option.splits)

lemma l1_pass_other: "j \<notin> set ids \<Longrightarrow> lookup (l1_pass gw now ids m) j = lookup m j"
  by (induction ids arbitrary: m) (auto simp: l1_pass_def lease_check_other)

lemma l1_pass_clears:
  "i \<in> set ids \<Longrightarrow> distinct ids \<Longrightarrow> lookup (l1_pass gw now ids m) i = Some h \<Longrightarrow> \<not> lease_expired now h"
proof (induction ids arbitrary: m)
  case (Cons j ids)
  show ?case
  proof (cases "i = j")
    case True
    then show ?thesis
      using Cons.prems l1_pass_other [of i ids gw now] lease_check_clears
      by (simp add: l1_pass_def)
  next
    case False
    then show ?thesis using Cons by (simp add: l1_pass_def)
  qed
qed simp

text \<open>Tripping changes a session only from ACTIVE to tripped.\<close>

lemma trip_kill_switch_result:
  assumes "lookup m j = Some h0" and "lookup (trip_kill_switch gw now j h0 m) i = Some h"
  shows "(lookup m i = Some h \<or> handle_state h = Some KillSwitchTripped)
    \<and> (i = j \<longrightarrow> handle_state h \<noteq> Some Active)"
proof (cases "handle_state h0 = Some Active")
  case True
  show ?thesis
  proof (cases "i = j")
    case True
    then show ?thesis
      using assms(2) trip_kill_switch_lookup [OF assms(1) \<open>handle_state h0 = Some Active\<close>, of gw now]
      by (auto simp: publish_state_change_def)
  next
    case False
    then show ?thesis using assms(2) by (simp add: trip_kill_switch_other)
  qed
next
  case False
  then show ?thesis using assms by (auto simp: trip_kill_switch_def)
qed

lemma trip_by_id_lookup:
  assumes "lookup (trip_by_id gw now j m) i = Some h"
  shows "(lookup m i = Some h \<or> handle_state h = Some KillSwitchTripped)
    \<and> (i = j \<longrightarrow> handle_state h \<noteq> Some Active)"
proof (cases "lookup m j")
  case None
  then show ?thesis using assms by (auto simp: trip_by_id_def get_lookup)
next
  case (Some h0)
  then show ?thesis
    using assms trip_kill_switch_result [OF Some, of gw now i h] by (simp add: trip_by_id_def get_lookup)
qed

lemma trip_all_lookup:
  "lookup (fold (trip_by_id gw now) ids m) i = Some h \<Longrightarrow>
   (lookup m i = Some h \<or> handle_state h = Some KillSwitchTripped)
   \<and> (i \<in> set ids \<longrightarrow> handle_state h \<noteq> Some Active)"
proof (induction ids arbitrary: m)
  case (Cons j ids)
  then have IH: "lookup (trip_by_id gw now j m) i = Some h \<or> handle_state h = Some KillSwitchTripped"
    "i \<in> set ids \<longrightarrow> handle_state h \<noteq> Some Active" by auto
  with trip_by_id_lookup [of gw now j m i h] show ?case by auto
qed simp

lemma active_in_ids: "lookup m i = Some h \<Longrightarrow> handle_state h = Some Active \<Longrightarrow> i \<in> set (active_ids m)"
  by (force simp: lookup_def active_ids_def dest: map_of_SomeD)

lemma l2_trips_active:
  assumes "lookup (fold (trip_by_id gw now) (active_ids m) m) i = Some h"
  shows "handle_state h \<noteq> Some Active"
  using trip_all_lookup [OF assms] active_in_ids [of m i h] by auto

lemma health_check_frame:
  "gateway_health_check gw m = (probe, m1) \<Longrightarrow>
   m_sessions m1 = m_sessions m \<and> m_health_failures m1 = m_health_failures m"
  by (auto simp: gateway_health_check_def Let_def split: prod.splits sum.splits if_splits)

lemma note_probe_sessions [simp]: "m_sessions (snd (note_health_probe p m)) = m_sessions m"
  by (simp add: note_health_probe_def)

text \<open>
  The gateway watchdog needs two failed probes in a row.  A successful probe clears the
  counter and touches no session; a first failure only counts; at the second and every
  later consecutive failure no session is left ACTIVE, and the saturating counter never
  falls back under the threshold.
\<close>

theorem gateway_watchdog_threshold:
  assumes "gateway_health_check gw m = (probe, m1)"
  shows "(is_ok probe \<longrightarrow> m_sessions (l2_pass gw now m) = m_sessions m
           \<and> m_health_failures (l2_pass gw now m) = 0)
    \<and> (\<not> is_ok probe \<and> m_health_failures m = 0 \<longrightarrow> m_sessions (l2_pass gw now m) = m_sessions m
           \<and> m_health_failures (l2_pass gw now m) = 1)
    \<and> (\<not> is_ok probe \<and> m_health_failures m \<noteq> 0 \<longrightarrow>
           (\<forall>i h. lookup (l2_pass gw now m) i = Some h \<longrightarrow> sh_state h \<noteq> state_to_u8 Active))"
proof -
  note m1 = health_check_frame [OF assms]
  define m2 where "m2 = snd (note_health_probe probe m1)"
  have l2: "l2_pass gw now m = (if 2 \<le> fst (note_health_probe probe m1)
      then fold (trip_by_id gw now) (active_ids m2) m2 else m2)"
    by (simp add: l2_pass_def assms m2_def HEALTH_PROBE_FAILURE_THRESHOLD_def split: prod.splits)
  have "2 \<le> fst (note_health_probe probe m1)" if "\<not> is_ok probe" "m_health_failures m \<noteq> 0"
  proof (cases "m_health_failures m = - 1")
    case True
    then show ?thesis using that m1 by (simp add: note_health_probe_def)
  next
    case False
    have "1 \<le> unat (m_health_failures m)" using that(2) by (simp add: Suc_le_eq unat_gt_0)
    moreover have "unat (m_health_failures m + 1) = Suc (unat (m_health_failures m))"
      using False by (rule unat_Suc_word)
    ultimately show ?thesis
      using that m1 False by (simp add: note_health_probe_def word_le_nat_alt)
  qed
  moreover have "sh_state h \<noteq> state_to_u8 Active"
    if "lookup (fold (trip_by_id gw now) (active_ids m2) m2) i = Some h" for i h
    using l2_trips_active [OF that] by (simp add: handle_state_def state_from_u8_Some)
  ultimately show ?thesis
    using m1 l2 by (auto simp: m2_def note_health_probe_def word_le_nat_alt)
qed

theorem gateway_watchdog_threshold_witness:
  "m_health_failures (l2_pass offline_gateway 9 active_manager) = 1
   \<and> (\<exists>h. lookup (l2_pass offline_gateway 9 (active_manager\<lparr>m_health_failures := 1\<rparr>)) ''s1'' = Some h
        \<and> sh_state h \<noteq> state_to_u8 Active)"
proof -
  obtain h0 where "lookup active_manager ''s1'' = Some h0" by (rule active_lookup)
  then obtain h where h: "lookup (l2_pass offline_gateway 9 (active_manager\<lparr>m_health_failures := 1\<rparr>)) ''s1'' = Some h"
    using lookup_step_None [OF l2_pass_step [of "active_manager\<lparr>m_health_failures := 1\<rparr>" offline_gateway 9], of "''s1''"]
    by fastforce
  have c: "gateway_health_check offline_gateway m = (Inl (Transport ''offline''), m)" for m
    by (simp add: gateway_health_check_def offline_gateway_def Let_def)
  have "m_health_failures active_manager = 0"
    by (simp add: active_manager_def demo_manager_def demo_request_def attach_session_def
        attach_with_reconnect_def attach_fresh_def token_ok_def manager_new_def ensure_watchdog_def
        begin_reconcile_def complete_reconcile_def put_handle_def Let_def
        split: sum.splits option.splits session_state.splits prod.splits)
  then show ?thesis
    using gateway_watchdog_threshold [OF c, of 9 active_manager]
      gateway_watchdog_threshold [OF c, of 9 "active_manager\<lparr>m_health_failures := 1\<rparr>"] h by auto
qed

lemma l2_pass_lookup:
  assumes "lookup (l2_pass gw now m) i = Some h"
  shows "lookup m i = Some h \<or> handle_state h = Some KillSwitchTripped"
proof -
  obtain probe m1 where c: "gateway_health_check gw m = (probe, m1)" by fastforce
  define m2 where "m2 = snd (note_health_probe probe m1)"
  have l2: "l2_pass gw now m = (if HEALTH_PROBE_FAILURE_THRESHOLD \<le> fst (note_health_probe probe m1)
      then fold (trip_by_id gw now) (active_ids m2) m2 else m2)"
    by (simp add: l2_pass_def c m2_def split: prod.splits)
  have "lookup m2 i = lookup m i"
    using health_check_frame [OF c] by (simp add: m2_def lookup_def)
  with assms show ?thesis
    unfolding l2 using trip_all_lookup [of gw now "active_ids m2" m2 i h] by (auto split: if_splits)
qed

text \<open>
  C6: one watchdog tick settles every lease.  After a tick at time \<open>now\<close> no registered
  session is ACTIVE with a lease that has expired by \<open>now\<close>, whatever the gateway did.
\<close>

theorem watchdog_leaves_no_expired_lease:
  assumes "reach manager_init (manager_step gw ct_eq) (m, issued)"
    and "lookup (watchdog_tick gw busy now m) i = Some h"
  shows "sh_state h \<noteq> state_to_u8 Active \<or> last_seen_elapsed_ms now h \<le> as_millis (lease_timeout (sh_policy h))"
proof -
  have ok: "manager_ok m" using registry.inv_reach [OF assms(1)] by (simp add: manager_inv_def)
  define r where "r = retire_terminal_sessions busy now TERMINAL_SESSION_RETENTION m"
  define l where "l = l1_pass gw now (map fst (m_sessions r)) r"
  have keys: "distinct (map fst (m_sessions r))"
    using retire_evolves(2) [OF ok] by (simp add: r_def manager_ok_def)
  have tick: "watchdog_tick gw busy now m = l2_pass gw now l"
    by (simp add: watchdog_tick_def r_def l_def Let_def)
  have "lookup l i = Some h \<or> handle_state h = Some KillSwitchTripped"
    using assms(2) unfolding tick by (rule l2_pass_lookup)
  moreover have "\<not> lease_expired now h" if "lookup l i = Some h"
  proof -
    have "i \<in> set (map fst (m_sessions r))"
      using that l1_pass_other [of i "map fst (m_sessions r)" gw now r] lookup_None_keys [of r i]
      by (fastforce simp: l_def)
    then show ?thesis using l1_pass_clears [OF _ keys] that by (simp add: l_def)
  qed
  ultimately show ?thesis
    by (auto simp: lease_expired_def handle_state_def state_from_u8_Some not_less)
qed

theorem watchdog_leaves_no_expired_lease_witness:
  "\<exists>h. lookup (watchdog_tick offline_gateway (\<lambda>_. False) 40000000000 active_manager) ''s1'' = Some h
     \<and> (sh_state h \<noteq> state_to_u8 Active
        \<or> last_seen_elapsed_ms 40000000000 h \<le> as_millis (lease_timeout (sh_policy h)))"
proof -
  obtain h where h: "lookup active_manager ''s1'' = Some h" "sh_terminal_at h = None" by (rule active_lookup)
  define r where "r = retire_terminal_sessions (\<lambda>_. False) 40000000000 TERMINAL_SESSION_RETENTION active_manager"
  have "distinct (map fst (m_sessions active_manager))"
    using registry.inv_reach [OF active_reach] by (simp add: manager_inv_def manager_ok_def)
  then have "lookup r ''s1'' \<noteq> None" using h by (simp add: r_def retire_lookup try_terminal_age_def)
  moreover have "registry_step r (watchdog_tick offline_gateway (\<lambda>_. False) 40000000000 active_manager)"
    unfolding watchdog_tick_def Let_def r_def [symmetric]
    using l1_pass_step l2_pass_step registry_step_trans by blast
  ultimately obtain h' where
    "lookup (watchdog_tick offline_gateway (\<lambda>_. False) 40000000000 active_manager) ''s1'' = Some h'"
    using lookup_step_None by fastforce
  with watchdog_leaves_no_expired_lease [OF active_reach this] show ?thesis by blast
qed

end
