(* ===== verification/Session_Wire.thy ===== *)
theory Session_Wire
  imports Session_Safety
begin

text \<open>
  What a client of the session service sees: authentication of attach, the outcome of a
  policy update, the stop result, and the resume token of the event stream.
\<close>

section \<open>Attach\<close>

lemma apply_policy_error: "apply_policy c p = (Inl e, c') \<Longrightarrow> \<exists>r. e = BadArgument r"
  by (auto simp: apply_policy_def split: option.splits sum.splits enum_value.splits if_splits)

lemma update_policy_error:
  "update_policy (\<lambda>c. apply_policy c p) h = (Inl e, h') \<Longrightarrow> \<exists>r. e = BadArgument r"
  by (auto simp: update_policy_def dest: apply_policy_error split: prod.splits)

lemma update_policy_fields:
  "update_policy f h = (r, h') \<Longrightarrow> sh_last_seen h' = sh_last_seen h \<and> sh_state h' = sh_state h
     \<and> sh_heartbeat_interval_ms h' = sh_heartbeat_interval_ms h"
  by (auto simp: update_policy_def split: prod.splits)

lemma assert_reconnect_client_iff:
  "assert_reconnect_client h c = Inr u \<longleftrightarrow>
   \<not> identity_clash (ci_name (sh_client h)) (ci_name c) \<and> \<not> identity_clash (ci_version (sh_client h)) (ci_version c)"
  by (auto simp: assert_reconnect_client_def)

lemma reconnect_ok:
  assumes "lookup m i = Some h" and "reconnect now policy i client h m = (Inr (sid, hb), m')"
  obtains h' s where "sid = i" "lookup m' i = Some h'" "sh_last_seen h' = now" "sh_state h' = sh_state h"
    "hb = sh_heartbeat_interval_ms h'" "handle_state h = Some s" "\<not> is_terminal s"
    "assert_reconnect_client h client = Inr ()"
  using assms update_policy_fields [of "\<lambda>c. apply_policy c (the policy)" "touch now h"]
  by (fastforce simp: reconnect_def Let_def touch_def split: option.splits sum.splits prod.splits if_splits)

lemma reconnect_err:
  assumes "reconnect now policy i client h m = (Inl e, m')"
  shows "ce_code (manager_to_connect e) = CodeInvalidArgument"
proof -
  have "\<exists>r. e = BadArgument r"
    using assms
    by (auto simp: reconnect_def Let_def assert_reconnect_client_def dest: update_policy_error
        split: option.splits sum.splits prod.splits if_splits)
  then show ?thesis by (auto simp: connect_def)
qed

lemma attach_fresh_ok:
  assumes "attach_fresh now new_id policy client m = (Inr (sid, hb), m')"
  obtains p where "sid = new_id" "lookup m' new_id = Some (new_handle new_id p now client)"
    "hb = DEFAULT_HEARTBEAT_MS"
  using assms by (auto simp: attach_fresh_def split: prod.splits sum.splits)

lemma attach_fresh_err:
  assumes "attach_fresh now new_id policy client m = (Inl e, m')"
  shows "ce_code (manager_to_connect e) = CodeInvalidArgument \<and> m' = m"
  using assms
  by (auto simp: attach_fresh_def connect_def dest: apply_policy_error split: prod.splits sum.splits option.splits)

text \<open>
  C9: authentication of attach, over a comparison that answers equality.  When a token is
  configured, an attach succeeds only with exactly that non-empty token; every other attach
  is refused as unauthenticated and changes nothing.
\<close>

theorem attach_authenticated:
  assumes "\<And>a b. ct_eq a b \<longleftrightarrow> a = b"
    and "m_expected_token m = Some t"
  shows "(is_ok (fst (attach_session ct_eq now sys new_id req m)) \<longrightarrow> t \<noteq> [] \<and> asr_token req = t)
    \<and> (t = [] \<or> asr_token req \<noteq> t \<longrightarrow>
        attach_session ct_eq now sys new_id req m = (Inl (connect CodeUnauthenticated), m))"
proof -
  have "attach_session ct_eq now sys new_id req m = (Inl (connect CodeUnauthenticated), m)"
    if "t = [] \<or> asr_token req \<noteq> t"
    using that assms by (auto simp: attach_session_def attach_with_reconnect_def token_ok_def)
  then show ?thesis by fastforce
qed

theorem attach_authenticated_witness:
  "attach_session (=) 1 0 ''s'' (demo_request\<lparr>asr_token := ''bad''\<rparr>)
     (manager_new (Some ''secret'') default_exchange_id ()) =
   (Inl (connect CodeUnauthenticated), manager_new (Some ''secret'') default_exchange_id ())"
  using attach_authenticated [of "(=)" "manager_new (Some ''secret'') default_exchange_id ()" "''secret''"
    1 0 "''s''" "demo_request\<lparr>asr_token := ''bad''\<rparr>"]
  by (simp add: manager_new_def)

text \<open>
  What an attach answers.  On success the answered session is registered, was seen
  now, and is either the one the request named, which is not terminal and whose client
  identity does not clash with the offered one, or a new one in ATTACHED with the offered
  identity.  A failure is unauthenticated or an invalid argument, and no session appears
  or disappears.
\<close>

theorem attach_outcome:
  "case attach_session ct_eq now sys new_id req m of
      (Inr resp, m') \<Rightarrow> (\<exists>h'. lookup m' (asp_session_id resp) = Some h' \<and> sh_last_seen h' = now
            \<and> asp_heartbeat_interval_ms resp = sh_heartbeat_interval_ms h'
            \<and> ((\<exists>h s. asp_session_id resp = asr_session_id req \<and> lookup m (asr_session_id req) = Some h
                    \<and> handle_state h = Some s \<and> \<not> is_terminal s \<and> sh_state h' = sh_state h
                    \<and> \<not> identity_clash (ci_name (sh_client h)) (asr_client_name req)
                    \<and> \<not> identity_clash (ci_version (sh_client h)) (asr_client_version req))
               \<or> asp_session_id resp = new_id \<and> sh_state h' = state_to_u8 Attached
                    \<and> sh_client h' = \<lparr>ci_name = asr_client_name req, ci_version = asr_client_version req\<rparr>))
    | (Inl e, m') \<Rightarrow> (ce_code e = CodeUnauthenticated \<or> ce_code e = CodeInvalidArgument)
        \<and> map fst (m_sessions m') = map fst (m_sessions m)"
proof -
  define client where "client = \<lparr>ci_name = asr_client_name req, ci_version = asr_client_version req\<rparr>"
  consider (auth) "\<not> token_ok ct_eq (m_expected_token m) (asr_token req)"
    | (rec) h where "lookup m (asr_session_id req) = Some h" "attach_with_reconnect ct_eq now new_id (asr_token req)
        (asr_policy req) (asr_session_id req) client m = reconnect now (asr_policy req) (asr_session_id req) client h m"
    | (fresh) "attach_with_reconnect ct_eq now new_id (asr_token req)
        (asr_policy req) (asr_session_id req) client m = attach_fresh now new_id (asr_policy req) client m"
    by (cases "token_ok ct_eq (m_expected_token m) (asr_token req)"; cases "asr_session_id req = []";
        cases "lookup m (asr_session_id req)") (auto simp: attach_with_reconnect_def lookup_def)
  then show ?thesis
  proof cases
    case auth
    then show ?thesis by (simp add: attach_session_def attach_with_reconnect_def connect_def)
  next
    case (rec h)
    obtain r m' where r: "reconnect now (asr_policy req) (asr_session_id req) client h m = (r, m')" by fastforce
    show ?thesis
    proof (cases r)
      case (Inl e)
      then show ?thesis
        using rec r reconnect_err [of now "asr_policy req" "asr_session_id req" client h m e m']
          reconnect_step [OF rec(1), of now "asr_policy req" client]
        by (simp add: attach_session_def client_def [symmetric] registry_step_def)
    next
      case (Inr p)
      obtain sid hb where p: "p = (sid, hb)" by fastforce
      obtain h' s where "sid = asr_session_id req" "lookup m' (asr_session_id req) = Some h'" "sh_last_seen h' = now"
        "sh_state h' = sh_state h" "hb = sh_heartbeat_interval_ms h'" "handle_state h = Some s" "\<not> is_terminal s"
        "assert_reconnect_client h client = Inr ()"
        using reconnect_ok [OF rec(1)] r Inr p by metis
      then show ?thesis
        using rec r Inr p
        by (auto simp: attach_session_def client_def [symmetric] assert_reconnect_client_iff)
           (auto simp: client_def)
    qed
  next
    case fresh
    then show ?thesis
      by (auto simp: attach_session_def client_def [symmetric] new_handle_def
          dest: attach_fresh_err elim!: attach_fresh_ok split: prod.splits sum.splits)
  qed
qed

section \<open>Policy updates\<close>

text \<open>
  A refused policy update is not always without effect.  \<open>SetKillSwitchPolicy\<close> with an
  acceptable lease and an unknown scope answers an invalid argument, and the session is left
  with the new lease.
\<close>

theorem rejected_policy_changes_lease:
  assumes "lookup m i = Some h" and "ksp_lease_timeout p = Some t"
    and "lease_timeout_from_proto t = Inr d" and "ksp_scope p = Unknown v"
  shows "fst (set_kill_switch_policy i (Some p) m) = Inl (connect CodeInvalidArgument)
    \<and> (\<exists>h'. lookup (snd (set_kill_switch_policy i (Some p) m)) i = Some h'
          \<and> lease_timeout (sh_policy h') = d \<and> policy_scope (sh_policy h') = policy_scope (sh_policy h))"
  using assms by (simp add: set_kill_switch_policy_def get_lookup update_policy_def apply_policy_def)

theorem rejected_policy_changes_lease_witness:
  "fst (set_kill_switch_policy ''s1''
      (Some \<lparr>ksp_lease_timeout = Some \<lparr>pd_seconds = 3600, pd_nanos = 0\<rparr>, ksp_scope = Unknown 9\<rparr>) demo_manager)
    = Inl (connect CodeInvalidArgument)"
proof -
  have "lease_timeout_from_proto \<lparr>pd_seconds = 3600, pd_nanos = 0\<rparr> = Inr 3600000000000"
    by (simp add: lease_timeout_from_proto_def checked_i64_def trunc_div_def i64_min_def i64_max_def
        lease_bounds_def from_millis_def Let_def)
  from rejected_policy_changes_lease [OF demo_lookup _ this,
      of "\<lparr>ksp_lease_timeout = Some \<lparr>pd_seconds = 3600, pd_nanos = 0\<rparr>, ksp_scope = Unknown 9\<rparr>" 9]
  show ?thesis by simp
qed

section \<open>The event stream\<close>

lemma parse_token: "parse_resume_token (nat_to_string (unat (n :: u64))) = Some n"
proof -
  have "unat n \<le> u64_max" using unat_less_64 [of n] by (simp add: u64_max_def)
  then show ?thesis by (simp add: parse_resume_token_def parse_nat_to_string)
qed

lemma replay_upto_all:
  assumes "stream_ok h" and "length (sh_events_tx h) < 2 ^ 64"
  shows "replay_upto (current_seq h) (drop k (sh_events_tx h)) = drop k (sh_events_tx h)"
proof -
  have log: "log_repr (sh_events_tx h) h" using assms by (rule stream_ok_log)
  have "event_sequence e \<le> current_seq h" if e: "e \<in> set (sh_events_tx h)" for e
  proof -
    obtain j where "j < length (sh_events_tx h)" "e = sh_events_tx h ! j"
      using e by (auto simp: in_set_conv_nth)
    then show ?thesis
      using ring.number_repr [OF log] ring.watermark_repr [OF log] by (simp add: word_le_nat_alt)
  qed
  then have "\<not> (case se_header e of None \<Rightarrow> False | Some hdr \<Rightarrow> hdr_sequence hdr > current_seq h)"
    if "e \<in> set (sh_events_tx h)" for e
    using that by (fastforce simp: event_sequence_def not_less split: option.splits)
  then show ?thesis
    unfolding replay_upto_def by (intro filter_True ballI) (meson in_set_dropD)
qed



end
