(* ===== verification/Risk_Gate.thy ===== *)
theory Risk_Gate
  imports Ports "HOL-Library.List_Lexorder" "HOL-Library.Char_ord"
begin

text \<open>
  The pre-trade risk gate (\<open>risk.rs\<close>): the limits, the gate with its token bucket, and the
  gateway decorator.  Decimal arithmetic is the parameter \<open>D\<close>; an operation whose decimal
  arithmetic overflows panics, and the panic is the outer \<open>None\<close> of a result.  Instants are
  nanoseconds, the tokens of the bucket are a 128-bit counter.
\<close>

section \<open>Intents, limits and violations\<close>

record 'd order_intent =
  oi_symbol :: string
  oi_is_buy :: bool
  oi_qty :: 'd
  oi_price :: "'d option"

definition intent_signed_qty :: "'d decimal_api \<Rightarrow> 'd order_intent \<Rightarrow> 'd" where
  "intent_signed_qty D i = (if oi_is_buy i then oi_qty i else d_neg D (oi_qty i))"

definition notional :: "'d decimal_api \<Rightarrow> 'd order_intent \<Rightarrow> 'd option option" where
  "notional D i = (case oi_price i of
       None \<Rightarrow> Some None
     | Some price \<Rightarrow> map_option Some (d_mul D price (oi_qty i)))"

record 'd resting_order =
  ro_symbol :: string
  ro_is_buy :: bool
  ro_qty :: 'd

definition resting_signed_qty :: "'d decimal_api \<Rightarrow> 'd resting_order \<Rightarrow> 'd" where
  "resting_signed_qty D r = (if ro_is_buy r then ro_qty r else d_neg D (ro_qty r))"

record 'd risk_limits =
  max_order_qty :: "'d option"
  max_order_notional :: "'d option"
  max_orders_per_minute :: "u32 option"
  max_open_orders :: "u32 option"
  max_net_qty_per_symbol :: "'d option"

definition is_enabled :: "'d risk_limits \<Rightarrow> bool" where
  "is_enabled L \<longleftrightarrow> max_order_qty L \<noteq> None \<or> max_order_notional L \<noteq> None
     \<or> max_orders_per_minute L \<noteq> None \<or> max_open_orders L \<noteq> None \<or> max_net_qty_per_symbol L \<noteq> None"

definition needs_book :: "'d risk_limits \<Rightarrow> bool" where
  "needs_book L \<longleftrightarrow> max_open_orders L \<noteq> None \<or> max_net_qty_per_symbol L \<noteq> None"

datatype 'd risk_violation =
    BookUnavailable
  | OrderQty string 'd 'd
  | OrderNotional string 'd 'd
  | Rate u32
  | OpenOrders nat u32
  | NetQty string 'd 'd

fun violation_to_string :: "'d decimal_api \<Rightarrow> 'd risk_violation \<Rightarrow> string" where
  "violation_to_string D BookUnavailable =
     ''risk limits need the venue's resting orders, which were not read''"
| "violation_to_string D (OrderQty s actual limit) =
     ''order quantity '' @ d_show D actual @ '' on '' @ s @ '' exceeds the limit '' @ d_show D limit"
| "violation_to_string D (OrderNotional s actual limit) =
     ''order notional '' @ d_show D actual @ '' on '' @ s @ '' exceeds the limit '' @ d_show D limit"
| "violation_to_string D (Rate limit) =
     ''submission rate exceeds '' @ nat_to_string (unat limit) @ '' orders/minute''"
| "violation_to_string D (OpenOrders actual limit) =
     ''open orders '' @ nat_to_string actual @ '' exceed the limit '' @ nat_to_string (unat limit)"
| "violation_to_string D (NetQty s actual limit) =
     ''net quantity '' @ d_show D actual @ '' on '' @ s @ '' exceeds the limit '' @ d_show D limit"

section \<open>The token bucket\<close>

definition TOKENS_PER_ORDER :: nat where "TOKENS_PER_ORDER = 60000"
definition u128_max :: nat where "u128_max = 2 ^ 128 - 1"

record bucket =
  bk_tokens :: nat
  bk_last :: instant

definition bucket_capacity :: "u32 \<Rightarrow> nat" where
  "bucket_capacity limit = unat limit * TOKENS_PER_ORDER"

definition gate_new :: "'d risk_limits \<Rightarrow> instant \<Rightarrow> bucket" where
  "gate_new L now = \<lparr>bk_tokens =
     bucket_capacity (case max_orders_per_minute L of None \<Rightarrow> 0 | Some n \<Rightarrow> n), bk_last = now\<rparr>"

definition refill :: "u32 \<Rightarrow> instant \<Rightarrow> bucket \<Rightarrow> bucket" where
  "refill limit now b =
     (if bk_last b \<le> now
      then \<lparr>bk_tokens = min (min (bk_tokens b + as_millis (now - bk_last b) * unat limit) u128_max)
                            (bucket_capacity limit),
            bk_last = now\<rparr>
      else b)"

definition order_cost :: "nat \<Rightarrow> nat" where
  "order_cost orders = min (min orders u128_max * TOKENS_PER_ORDER) u128_max"

definition consume ::
  "'d risk_limits \<Rightarrow> nat \<Rightarrow> instant \<Rightarrow> bucket \<Rightarrow> ('d risk_violation + unit) \<times> bucket" where
  "consume L orders now b = (case max_orders_per_minute L of
       None \<Rightarrow> (Inr (), b)
     | Some limit \<Rightarrow>
         let b = refill limit now b; cost = order_cost orders
         in if bk_tokens b < cost then (Inl (Rate limit), b)
            else (Inr (), b\<lparr>bk_tokens := bk_tokens b - cost\<rparr>))"

section \<open>The gate\<close>

definition check_leg ::
  "'d decimal_api \<Rightarrow> 'd risk_limits \<Rightarrow> 'd order_intent \<Rightarrow> ('d risk_violation + unit) option" where
  "check_leg D L i =
     (case (case max_order_qty L of
              None \<Rightarrow> None
            | Some limit \<Rightarrow> if d_gt D (oi_qty i) limit then Some (OrderQty (oi_symbol i) (oi_qty i) limit) else None) of
        Some violation \<Rightarrow> Some (Inl violation)
      | None \<Rightarrow> (case notional D i of
            None \<Rightarrow> None
          | Some worth \<Rightarrow> Some (case (max_order_notional L, worth) of
                (Some limit, Some actual) \<Rightarrow>
                  (if d_gt D actual limit then Inl (OrderNotional (oi_symbol i) actual limit) else Inr ())
              | _ \<Rightarrow> Inr ())))"

fun check_legs ::
  "'d decimal_api \<Rightarrow> 'd risk_limits \<Rightarrow> 'd order_intent list \<Rightarrow> ('d risk_violation + unit) option" where
  "check_legs D L [] = Some (Inr ())"
| "check_legs D L (i # intents) = (case check_leg D L i of
       Some (Inr _) \<Rightarrow> check_legs D L intents
     | refused \<Rightarrow> refused)"

text \<open>
  The net quantities, an ordered map from symbol to quantity: the list of its entries in
  the order of the symbols.
\<close>

fun net_add ::
  "'d decimal_api \<Rightarrow> string \<Rightarrow> 'd \<Rightarrow> (string \<times> 'd) list \<Rightarrow> (string \<times> 'd) list option" where
  "net_add D s q [] = map_option (\<lambda>n. [(s, n)]) (d_add D (d_zero D) q)"
| "net_add D s q ((s', n) # net) =
     (if s = s' then map_option (\<lambda>n'. (s', n') # net) (d_add D n q)
      else if s < s' then map_option (\<lambda>n'. (s, n') # (s', n) # net) (d_add D (d_zero D) q)
      else map_option (Cons (s', n)) (net_add D s q net))"

fun net_all ::
  "'d decimal_api \<Rightarrow> (string \<times> 'd) list \<Rightarrow> (string \<times> 'd) list \<Rightarrow> (string \<times> 'd) list option" where
  "net_all D [] net = Some net"
| "net_all D ((s, q) # moves) net = Option.bind (net_add D s q net) (net_all D moves)"

definition book_moves ::
  "'d decimal_api \<Rightarrow> 'd resting_order list \<Rightarrow> 'd order_intent list \<Rightarrow> (string \<times> 'd) list" where
  "book_moves D book intents = map (\<lambda>r. (ro_symbol r, resting_signed_qty D r)) book
     @ map (\<lambda>i. (oi_symbol i, intent_signed_qty D i)) intents"

fun check_net :: "'d decimal_api \<Rightarrow> 'd \<Rightarrow> (string \<times> 'd) list \<Rightarrow> 'd risk_violation + unit" where
  "check_net D limit [] = Inr ()"
| "check_net D limit ((s, n) # net) =
     (if d_gt D (d_abs D n) limit then Inl (NetQty s n limit) else check_net D limit net)"

definition check_book ::
  "'d decimal_api \<Rightarrow> 'd risk_limits \<Rightarrow> 'd order_intent list \<Rightarrow> 'd resting_order list option
   \<Rightarrow> ('d risk_violation + unit) option" where
  "check_book D L intents resting =
     (if \<not> needs_book L then Some (Inr ())
      else case resting of
          None \<Rightarrow> Some (Inl BookUnavailable)
        | Some book \<Rightarrow>
            let open_count = length book + length intents
            in (case (case max_open_orders L of
                       None \<Rightarrow> None
                     | Some limit \<Rightarrow> if open_count > unat limit then Some (OpenOrders open_count limit) else None) of
                 Some violation \<Rightarrow> Some (Inl violation)
               | None \<Rightarrow> (case max_net_qty_per_symbol L of
                     None \<Rightarrow> Some (Inr ())
                   | Some limit \<Rightarrow> map_option (check_net D limit) (net_all D (book_moves D book intents) []))))"

definition gate_admit ::
  "'d decimal_api \<Rightarrow> 'd risk_limits \<Rightarrow> 'd order_intent list \<Rightarrow> 'd resting_order list option \<Rightarrow> instant
   \<Rightarrow> bucket \<Rightarrow> ('d risk_violation + unit) option \<times> bucket" where
  "gate_admit D L intents resting now b =
     (case check_legs D L intents of
        Some (Inr _) \<Rightarrow> (case check_book D L intents resting of
            Some (Inr _) \<Rightarrow> (case consume L (length intents) now b of (r, b) \<Rightarrow> (Some r, b))
          | refused \<Rightarrow> (refused, b))
      | refused \<Rightarrow> (refused, b))"

section \<open>The gateway decorator\<close>

definition is_buy :: "order_side enum_value \<Rightarrow> bool" where
  "is_buy side = (side = Known Buy)"

definition intent_of :: "'d decimal_api \<Rightarrow> order_request \<Rightarrow> port_error + 'd order_intent" where
  "intent_of D ord = (case or_amount ord of
       None \<Rightarrow> Inl (MissingField ''order.amount'')
     | Some amount \<Rightarrow> (case common_to_decimal (d_parse D) amount of
           Inl e \<Rightarrow> Inl (DecimalError e)
         | Inr qty \<Rightarrow> (case or_price ord of
               None \<Rightarrow> Inr \<lparr>oi_symbol = or_symbol ord, oi_is_buy = is_buy (or_side ord), oi_qty = qty, oi_price = None\<rparr>
             | Some p \<Rightarrow> (case common_to_decimal (d_parse D) p of
                   Inl e \<Rightarrow> Inl (DecimalError e)
                 | Inr price \<Rightarrow> Inr \<lparr>oi_symbol = or_symbol ord, oi_is_buy = is_buy (or_side ord),
                       oi_qty = qty, oi_price = Some price\<rparr>))))"

definition resting_of :: "'d decimal_api \<Rightarrow> order \<Rightarrow> port_error + 'd resting_order" where
  "resting_of D ord =
     (case (case o_remaining ord of Some q \<Rightarrow> Some q | None \<Rightarrow> o_amount ord) of
        None \<Rightarrow> Inl (MissingField ''order.remaining'')
      | Some q \<Rightarrow> (case common_to_decimal (d_parse D) q of
            Inl e \<Rightarrow> Inl (DecimalError e)
          | Inr qty \<Rightarrow> Inr \<lparr>ro_symbol = o_symbol ord, ro_is_buy = is_buy (o_side ord), ro_qty = qty\<rparr>))"

text \<open>Converting a list stops at its first error.\<close>

fun collect :: "('a \<Rightarrow> 'e + 'b) \<Rightarrow> 'a list \<Rightarrow> 'e + 'b list" where
  "collect f [] = Inr []"
| "collect f (x # xs) = (case f x of
       Inl e \<Rightarrow> Inl e
     | Inr y \<Rightarrow> (case collect f xs of Inl e \<Rightarrow> Inl e | Inr ys \<Rightarrow> Inr (y # ys)))"

definition risk_admit ::
  "'d decimal_api \<Rightarrow> 'd risk_limits \<Rightarrow> instant \<Rightarrow> ('v, 'm) trading_gateway
   \<Rightarrow> 'd order_intent list \<Rightarrow> exchange_id \<Rightarrow> 'v \<times> bucket \<Rightarrow> (port_error + unit) option \<times> 'v \<times> bucket" where
  "risk_admit D L now gw intents ex vb =
     (case vb of (v, b) \<Rightarrow>
        (case (if needs_book L
               then (case gw_fetch_open_orders gw v \<lparr>foo_exchange_id = Some ex, foo_symbol = ''''\<rparr> of
                       (Inl e, v) \<Rightarrow> (Inl e, v)
                     | (Inr orders, v) \<Rightarrow> (case collect (resting_of D) orders of
                           Inl e \<Rightarrow> (Inl e, v)
                         | Inr book \<Rightarrow> (Inr (Some book), v)))
               else (Inr None, v)) of
           (Inl e, v) \<Rightarrow> (Some (Inl e), v, b)
         | (Inr resting, v) \<Rightarrow> (case gate_admit D L intents resting now b of (r, b) \<Rightarrow>
               (map_option (map_err (\<lambda>violation. InvalidArgument (violation_to_string D violation))) r, v, b))))"

definition risk_create_order ::
  "'d decimal_api \<Rightarrow> 'd risk_limits \<Rightarrow> instant \<Rightarrow> ('v, 'm) trading_gateway \<Rightarrow> 'v \<times> bucket
   \<Rightarrow> create_order_request \<Rightarrow> (port_error + order) option \<times> 'v \<times> bucket" where
  "risk_create_order D L now gw vb req =
     (let ex = (case cor_exchange_id req of None \<Rightarrow> default_exchange_id | Some e \<Rightarrow> e)
      in case cor_order req of
          None \<Rightarrow> (Some (Inl (MissingField ''order'')), vb)
        | Some ord \<Rightarrow> (case intent_of D ord of
              Inl e \<Rightarrow> (Some (Inl e), vb)
            | Inr i \<Rightarrow> (case risk_admit D L now gw [i] ex vb of
                  (Some (Inr _), v, b) \<Rightarrow> (case gw_create_order gw v req of (res, v) \<Rightarrow> (Some res, v, b))
                | (Some (Inl e), vb) \<Rightarrow> (Some (Inl e), vb)
                | (None, vb) \<Rightarrow> (None, vb))))"

definition risk_batch_create_orders ::
  "'d decimal_api \<Rightarrow> 'd risk_limits \<Rightarrow> instant \<Rightarrow> ('v, 'm) trading_gateway \<Rightarrow> 'v \<times> bucket
   \<Rightarrow> create_orders_request \<Rightarrow> (port_error + order list) option \<times> 'v \<times> bucket" where
  "risk_batch_create_orders D L now gw vb req =
     (let ex = (case cosr_exchange_id req of None \<Rightarrow> default_exchange_id | Some e \<Rightarrow> e)
      in case collect (intent_of D) (cosr_orders req) of
          Inl e \<Rightarrow> (Some (Inl e), vb)
        | Inr intents \<Rightarrow> (case risk_admit D L now gw intents ex vb of
              (Some (Inr _), v, b) \<Rightarrow> (case gw_batch_create_orders gw v req of (res, v) \<Rightarrow> (Some res, v, b))
            | (Some (Inl e), vb) \<Rightarrow> (Some (Inl e), vb)
            | (None, vb) \<Rightarrow> (None, vb)))"

definition forward :: "('r \<times> 'v) \<Rightarrow> bucket \<Rightarrow> 'r \<times> 'v \<times> bucket" where
  "forward rv b = (case rv of (r, v) \<Rightarrow> (r, v, b))"

text \<open>
  The decorated gateway.  A submission whose task panics is the transport failure its
  caller sees; everything else is passed on unmeasured.
\<close>

definition risk_gateway ::
  "'d decimal_api \<Rightarrow> 'd risk_limits \<Rightarrow> instant \<Rightarrow> ('v, 'm) trading_gateway
   \<Rightarrow> ('v \<times> bucket, 'm) trading_gateway" where
  "risk_gateway D L now gw =
     \<lparr>gw_create_order = (\<lambda>vb req. case risk_create_order D L now gw vb req of
          (None, vb) \<Rightarrow> (Inl (Transport ''panicked''), vb) | (Some r, vb) \<Rightarrow> (r, vb)),
      gw_batch_create_orders = (\<lambda>vb req. case risk_batch_create_orders D L now gw vb req of
          (None, vb) \<Rightarrow> (Inl (Transport ''panicked''), vb) | (Some r, vb) \<Rightarrow> (r, vb)),
      gw_cancel_order = (\<lambda>vb req. forward (gw_cancel_order gw (fst vb) req) (snd vb)),
      gw_cancel_all_orders = (\<lambda>vb req. forward (gw_cancel_all_orders gw (fst vb) req) (snd vb)),
      gw_fetch_open_orders = (\<lambda>vb req. forward (gw_fetch_open_orders gw (fst vb) req) (snd vb)),
      gw_account_call = (\<lambda>vb meth req. forward (gw_account_call gw (fst vb) meth req) (snd vb)),
      gw_sync_state = (\<lambda>vb ex. forward (gw_sync_state gw (fst vb) ex) (snd vb)),
      gw_cancel_delay = (\<lambda>vb req. gw_cancel_delay gw (fst vb) req),
      gw_sync_delay = (\<lambda>vb ex. gw_sync_delay gw (fst vb) ex)\<rparr>"

end
