(* ===== verification/Venue_Ports.thy ===== *)
theory Venue_Ports
  imports Ports Json
begin

text \<open>
  The optional capability ports of \<open>ports.rs\<close>: perpetual funding rates, conditional orders,
  venue operations and the wallet, with the records they exchange.  Each trait is a record of
  functions over the venue state; its provided methods are definitions over that record.
\<close>

section \<open>Funding\<close>

record 'd funding_rate_snapshot =
  frs_symbol :: string
  frs_rate :: 'd
  frs_next_funding_time_ms :: int
  frs_mark_price :: "'d option"

record 'd funding_rate_point =
  frp_rate :: 'd
  frp_time_ms :: int

record ('v, 'd) funding_rate_source =
  fs_fetch_funding_rate :: "'v \<Rightarrow> exchange_id \<Rightarrow> string \<Rightarrow> (port_error + 'd funding_rate_snapshot) \<times> 'v"
  fs_fetch_funding_rate_history ::
    "'v \<Rightarrow> exchange_id \<Rightarrow> string \<Rightarrow> u32 \<Rightarrow> (port_error + 'd funding_rate_point list) \<times> 'v"
  fs_list_funding_rates ::
    "'v \<Rightarrow> exchange_id \<Rightarrow> string list \<Rightarrow> (port_error + 'd funding_rate_snapshot list) \<times> 'v"

section \<open>Conditional orders\<close>

record 'd trigger_order_request =
  tor_client_order_id :: string
  tor_symbol :: string
  tor_is_buy :: bool
  tor_trigger_price :: 'd
  tor_qty :: 'd
  tor_reduce_only :: bool

datatype trigger_order_status = TriggerOpen | TriggerTriggered | TriggerCanceled | TriggerRejected

fun trigger_status_as_str :: "trigger_order_status \<Rightarrow> string" where
  "trigger_status_as_str TriggerOpen = ''open''"
| "trigger_status_as_str TriggerTriggered = ''triggered''"
| "trigger_status_as_str TriggerCanceled = ''canceled''"
| "trigger_status_as_str TriggerRejected = ''rejected''"

record 'd trigger_order =
  to_id :: string
  to_client_order_id :: string
  to_symbol :: string
  to_is_buy :: bool
  to_trigger_price :: 'd
  to_qty :: 'd
  to_reduce_only :: bool
  to_status :: trigger_order_status
  to_created_at_ms :: int
  to_order_id :: "string option"
  to_triggered_at_ms :: "int option"

record ('v, 'd) trigger_order_gateway =
  tg_create_trigger_order ::
    "'v \<Rightarrow> exchange_id \<Rightarrow> 'd trigger_order_request \<Rightarrow> (port_error + 'd trigger_order) \<times> 'v"
  tg_cancel_trigger_order ::
    "'v \<Rightarrow> exchange_id \<Rightarrow> string \<Rightarrow> string \<Rightarrow> (port_error + 'd trigger_order) \<times> 'v"
  tg_list_trigger_orders ::
    "'v \<Rightarrow> exchange_id \<Rightarrow> string list \<Rightarrow> (port_error + 'd trigger_order list) \<times> 'v"

section \<open>Venue operations\<close>

datatype venue_op_param_type =
    ParamUnspecified | ParamString | ParamInt64 | ParamDecimal | ParamBool | ParamEnum | ParamList | ParamMap

fun param_type_as_str :: "venue_op_param_type \<Rightarrow> string" where
  "param_type_as_str ParamUnspecified = ''PARAM_TYPE_UNSPECIFIED''"
| "param_type_as_str ParamString = ''PARAM_TYPE_STRING''"
| "param_type_as_str ParamInt64 = ''PARAM_TYPE_INT64''"
| "param_type_as_str ParamDecimal = ''PARAM_TYPE_DECIMAL''"
| "param_type_as_str ParamBool = ''PARAM_TYPE_BOOL''"
| "param_type_as_str ParamEnum = ''PARAM_TYPE_ENUM''"
| "param_type_as_str ParamList = ''PARAM_TYPE_LIST''"
| "param_type_as_str ParamMap = ''PARAM_TYPE_MAP''"

record venue_op_param =
  vp_name :: string
  vp_type :: venue_op_param_type
  vp_required :: bool
  vp_doc :: string
  vp_enum_values :: "string list"

record venue_op_descriptor =
  vd_name :: string
  vd_category :: string
  vd_summary :: string
  vd_mutating :: bool
  vd_params :: "venue_op_param list"

record 'v venue_op_invoker =
  vo_invoke_venue_op ::
    "'v \<Rightarrow> exchange_id \<Rightarrow> string \<Rightarrow> (string \<times> json) list \<Rightarrow> (port_error + json) \<times> 'v"
  vo_list_venue_ops :: "'v \<Rightarrow> exchange_id \<Rightarrow> (port_error + venue_op_descriptor list) \<times> 'v"

definition describe_venue_op ::
  "'v venue_op_invoker \<Rightarrow> 'v \<Rightarrow> exchange_id \<Rightarrow> string \<Rightarrow> (port_error + venue_op_descriptor) \<times> 'v" where
  "describe_venue_op vo v ex op = (case vo_list_venue_ops vo v ex of
       (Inl e, v) \<Rightarrow> (Inl e, v)
     | (Inr ops, v) \<Rightarrow> (case find (\<lambda>d. vd_name d = op) ops of
           Some d \<Rightarrow> (Inr d, v)
         | None \<Rightarrow> (Inl (NotFound (''venue operation '' @ op)), v)))"

section \<open>Wallet\<close>

record 'd ledger_entry =
  lg_id :: string
  lg_currency :: string
  lg_amount :: 'd
  lg_entry_type :: string
  lg_completed :: bool
  lg_time_ms :: int

record 'd transfer_receipt =
  tr_transfer_id :: string
  tr_entry :: "'d ledger_entry option"

record ('v, 'd) wallet_gateway =
  wg_list_ledger_entries ::
    "'v \<Rightarrow> exchange_id \<Rightarrow> string \<Rightarrow> string \<Rightarrow> u32 \<Rightarrow> (port_error + 'd ledger_entry list) \<times> 'v"
  wg_transfer ::
    "'v \<Rightarrow> exchange_id \<Rightarrow> string \<Rightarrow> 'd \<Rightarrow> string \<Rightarrow> string \<Rightarrow> (port_error + 'd transfer_receipt) \<times> 'v"

definition fetch_deposits ::
  "('v, 'd) wallet_gateway \<Rightarrow> 'v \<Rightarrow> exchange_id \<Rightarrow> u32 \<Rightarrow> (port_error + 'd ledger_entry list) \<times> 'v" where
  "fetch_deposits w v ex limit = wg_list_ledger_entries w v ex '''' ''deposit'' limit"

text \<open>
  What a client of the wallet relies on: the ledger is newest first and no longer than the
  limit, and a transfer repeated under the same non-empty client id is answered with the same
  receipt and moves nothing.  \<open>moved\<close> is the list of transfers the venue has performed.
\<close>

locale wallet_contract =
  fixes w :: "('v, 'd) wallet_gateway" and moved :: "'v \<Rightarrow> (string \<times> 'd \<times> string) list"
  assumes ledger_sorted:
      "wg_list_ledger_entries w v ex currency ty limit = (Inr rows, v') \<Longrightarrow>
       sorted_wrt (\<lambda>a b. lg_time_ms b \<le> lg_time_ms a) rows \<and> length rows \<le> unat limit \<and> v' = v"
    and ledger_filtered:
      "wg_list_ledger_entries w v ex currency ty limit = (Inr rows, v') \<Longrightarrow> row \<in> set rows \<Longrightarrow>
       (currency = [] \<or> lg_currency row = currency) \<and> (ty = [] \<or> lg_entry_type row = ty)"
    and transfer_idempotent:
      "wg_transfer w v ex asset amount dest cid = (Inr receipt, v') \<Longrightarrow> cid \<noteq> [] \<Longrightarrow>
       wg_transfer w v' ex asset amount dest cid = (Inr receipt, v')"
    and transfer_moves_at_most_once:
      "wg_transfer w v ex asset amount dest cid = (res, v') \<Longrightarrow>
       moved v' = moved v \<or> moved v' = moved v @ [(asset, amount, dest)]"
    and transfer_refused:
      "wg_transfer w v ex asset amount dest cid = (Inl e, v') \<Longrightarrow> moved v' = moved v"
begin

text \<open>Retrying a transfer any number of times moves the funds as often as asking once.\<close>

lemma retries_move_once:
  assumes "wg_transfer w v ex asset amount dest cid = (Inr receipt, v')" and "cid \<noteq> []"
  shows "((\<lambda>s. snd (wg_transfer w s ex asset amount dest cid)) ^^ Suc n) v = v'"
  using assms transfer_idempotent [OF assms] by (induction n) simp_all

lemma deposits_sorted:
  assumes "fetch_deposits w v ex limit = (Inr rows, v')"
  shows "sorted_wrt (\<lambda>a b. lg_time_ms b \<le> lg_time_ms a) rows" and "row \<in> set rows \<Longrightarrow> lg_entry_type row = ''deposit''"
  using assms ledger_sorted [of v ex "''''" "''deposit''"] ledger_filtered [of v ex "''''" "''deposit''"]
  by (auto simp: fetch_deposits_def)

end

end
