(* ===== verification/Mock_Venue.thy ===== *)
theory Mock_Venue
  imports Venue_Ports
begin

text \<open>
  The in-process venue of \<open>adapters/mock.rs\<close>: its state, the trading gateway it implements
  and the scripting of failures.  The state behind the mutex and the two atomic counters
  are one record; the wall clock is an argument in nanoseconds since the epoch.  The other
  capability ports of the same venue are in their own theory.
\<close>

section \<open>State\<close>

text \<open>The messages of the account and position calls, as far as this venue builds them.\<close>

datatype mock_message =
    AccountMsg wire_decimal wire_decimal wire_decimal wire_decimal wire_decimal
  | BalanceMsg string wire_decimal wire_decimal wire_decimal
  | PositionMsg string
  | DefaultMsg account_method

record 'd mock_state =
  ms_price :: 'd
  ms_orders :: "order list"
  ms_fail_next_creates :: u32
  ms_fail_next_cancels :: u32
  ms_creates_seen :: u32
  ms_fail_creates_from :: "u32 option"
  ms_funding_rate :: 'd
  ms_op_balance :: 'd
  ms_deposits :: "'d ledger_entry list"
  ms_transfers :: "(string \<times> 'd \<times> string) list"
  ms_cancel_all_seen :: "(string \<times> string) list"
  ms_cancel_seen :: "(string \<times> string) list"
  ms_trigger_orders :: "(string \<times> 'd trigger_order_request \<times> trigger_order_status \<times> int) list"
  ms_transfer_receipts :: "(string \<times> 'd transfer_receipt) list"
  ms_funding_symbols :: "string list"
  ms_positions :: "mock_message list"
  ms_ids :: u64
  ms_snapshot_seq :: u64

definition mock_new :: "'d decimal_api \<Rightarrow> 'd \<Rightarrow> 'd mock_state" where
  "mock_new D initial_price =
     \<lparr>ms_price = initial_price, ms_orders = [], ms_fail_next_creates = 0, ms_fail_next_cancels = 0,
      ms_creates_seen = 0, ms_fail_creates_from = None, ms_funding_rate = d_zero D,
      ms_op_balance = d_zero D, ms_deposits = [], ms_transfers = [], ms_cancel_all_seen = [],
      ms_cancel_seen = [], ms_trigger_orders = [], ms_transfer_receipts = [],
      ms_funding_symbols = [], ms_positions = [], ms_ids = 1, ms_snapshot_seq = 0\<rparr>"

definition fail_next_creates :: "u32 \<Rightarrow> 'd mock_state \<Rightarrow> 'd mock_state" where
  "fail_next_creates n v = v\<lparr>ms_fail_next_creates := n, ms_fail_creates_from := None\<rparr>"

definition fail_next_cancels :: "u32 \<Rightarrow> 'd mock_state \<Rightarrow> 'd mock_state" where
  "fail_next_cancels n v = v\<lparr>ms_fail_next_cancels := n\<rparr>"

definition fail_creates_from :: "u32 \<Rightarrow> 'd mock_state \<Rightarrow> 'd mock_state" where
  "fail_creates_from i v = v\<lparr>ms_fail_next_creates := 0, ms_fail_creates_from := Some i\<rparr>"

definition heal_creates :: "'d mock_state \<Rightarrow> 'd mock_state" where
  "heal_creates v = v\<lparr>ms_fail_next_creates := 0, ms_fail_creates_from := None\<rparr>"

section \<open>The trading gateway\<close>

definition mock_now_ts :: "int \<Rightarrow> timestamp" where
  "mock_now_ts sys = (let t = (if sys < 0 then 0 else sys)
     in \<lparr>ts_seconds = (case checked_i64 (t div 1000000000) of Some s \<Rightarrow> s | None \<Rightarrow> 0),
         ts_nanos = t mod 1000000000\<rparr>)"

definition scripted_failure :: port_error where
  "scripted_failure = Rpc 500 ''scripted failure''"

definition mock_order ::
  "'d decimal_api \<Rightarrow> int \<Rightarrow> string \<Rightarrow> order_request \<Rightarrow> order" where
  "mock_order D sys i req =
     \<lparr>o_id = i, o_client_order_id = or_client_order_id req, o_symbol = or_symbol req,
      o_type = or_type req, o_side = or_side req, o_status = Known Open,
      o_amount = or_amount req, o_price = or_price req,
      o_filled = Some (decimal_to_common (d_show D) (d_zero D)), o_remaining = or_amount req,
      o_cost = Some (decimal_to_common (d_show D) (d_zero D)),
      o_time_in_force = or_time_in_force req, o_timestamp = Some (mock_now_ts sys),
      o_last_trade_timestamp = Some (mock_now_ts sys), o_post_only = or_post_only req,
      o_reduce_only = or_reduce_only req\<rparr>"

definition mock_create_order ::
  "'d decimal_api \<Rightarrow> int \<Rightarrow> 'd mock_state \<Rightarrow> create_order_request
   \<Rightarrow> (port_error + order) \<times> 'd mock_state" where
  "mock_create_order D sys v req =
     (let seen = ms_creates_seen v; v = v\<lparr>ms_creates_seen := seen + 1\<rparr>
      in if ms_fail_next_creates v > 0
         then (Inl scripted_failure, v\<lparr>ms_fail_next_creates := ms_fail_next_creates v - 1\<rparr>)
         else if (case ms_fail_creates_from v of None \<Rightarrow> False | Some from \<Rightarrow> seen \<ge> from)
         then (Inl scripted_failure, v)
         else case cor_order req of
             None \<Rightarrow> (Inl (MissingField ''order''), v)
           | Some order_req \<Rightarrow>
               let ord = mock_order D sys (''mock-'' @ nat_to_string (unat (ms_ids v))) order_req
               in (Inr ord, v\<lparr>ms_ids := ms_ids v + 1, ms_orders := ms_orders v @ [ord]\<rparr>))"

text \<open>A batch stops at its first refused leg; the legs before it stay on the venue.\<close>

fun mock_batch ::
  "'d decimal_api \<Rightarrow> int \<Rightarrow> exchange_id option \<Rightarrow> order_request list \<Rightarrow> 'd mock_state
   \<Rightarrow> (port_error + order list) \<times> 'd mock_state" where
  "mock_batch D sys ex [] v = (Inr [], v)"
| "mock_batch D sys ex (req # reqs) v =
     (case mock_create_order D sys v
             \<lparr>cor_exchange_id = ex, cor_order = Some req, cor_session_id = ''''\<rparr> of
        (Inl e, v) \<Rightarrow> (Inl e, v)
      | (Inr ord, v) \<Rightarrow> (case mock_batch D sys ex reqs v of
            (Inl e, v) \<Rightarrow> (Inl e, v)
          | (Inr placed, v) \<Rightarrow> (Inr (ord # placed), v)))"

definition mock_batch_create_orders ::
  "'d decimal_api \<Rightarrow> int \<Rightarrow> 'd mock_state \<Rightarrow> create_orders_request
   \<Rightarrow> (port_error + order list) \<times> 'd mock_state" where
  "mock_batch_create_orders D sys v req =
     mock_batch D sys (cosr_exchange_id req) (cosr_orders req) v"

definition exchange_key :: "exchange_id option \<Rightarrow> string" where
  "exchange_key ex = (case ex of None \<Rightarrow> '''' | Some e \<Rightarrow> ex_id e)"

definition cancel_mark :: "order \<Rightarrow> order" where
  "cancel_mark ord = ord\<lparr>o_status := Known Canceled\<rparr>"

text \<open>The first order with an id is updated in place.\<close>

fun cancel_first :: "string \<Rightarrow> order list \<Rightarrow> (order \<times> order list) option" where
  "cancel_first i [] = None"
| "cancel_first i (ord # ords) =
     (if o_id ord = i then Some (cancel_mark ord, cancel_mark ord # ords)
      else map_option (\<lambda>(found, rest). (found, ord # rest)) (cancel_first i ords))"

definition mock_cancel_order ::
  "'d mock_state \<Rightarrow> cancel_order_request \<Rightarrow> (port_error + order) \<times> 'd mock_state" where
  "mock_cancel_order v req =
     (let v = v\<lparr>ms_cancel_seen := ms_cancel_seen v @ [(exchange_key (can_exchange_id req), can_order_id req)]\<rparr>
      in if ms_fail_next_cancels v > 0
         then (Inl (Transport ''venue refused cancel''),
               v\<lparr>ms_fail_next_cancels := ms_fail_next_cancels v - 1\<rparr>)
         else case cancel_first (can_order_id req) (ms_orders v) of
             None \<Rightarrow> (Inl (InvalidArgument (''unknown order '' @ can_order_id req)), v)
           | Some (ord, ords) \<Rightarrow> (Inr ord, v\<lparr>ms_orders := ords\<rparr>))"

definition is_open :: "order \<Rightarrow> bool" where
  "is_open ord = (o_status ord = Known Open)"

definition symbol_matches :: "string \<Rightarrow> order \<Rightarrow> bool" where
  "symbol_matches s ord = (s = [] \<or> o_symbol ord = s)"

definition mock_cancel_all_orders ::
  "'d mock_state \<Rightarrow> cancel_all_orders_request \<Rightarrow> (port_error + order list) \<times> 'd mock_state" where
  "mock_cancel_all_orders v req =
     (let hit = (\<lambda>ord. is_open ord \<and> symbol_matches (caa_symbol req) ord)
      in (Inr (map cancel_mark (filter hit (ms_orders v))),
          v\<lparr>ms_cancel_all_seen := ms_cancel_all_seen v @ [(exchange_key (caa_exchange_id req), caa_symbol req)],
            ms_orders := map (\<lambda>ord. if hit ord then cancel_mark ord else ord) (ms_orders v)\<rparr>))"

definition mock_fetch_open_orders ::
  "'d mock_state \<Rightarrow> fetch_open_orders_request \<Rightarrow> (port_error + order list) \<times> 'd mock_state" where
  "mock_fetch_open_orders v req =
     (Inr (filter (symbol_matches (foo_symbol req)) (filter is_open (ms_orders v))), v)"

definition mock_sync_state ::
  "'d decimal_api \<Rightarrow> int \<Rightarrow> 'd mock_state \<Rightarrow> exchange_id
   \<Rightarrow> (port_error + mock_message snapshot) \<times> 'd mock_state" where
  "mock_sync_state D sys v ex =
     (let show = decimal_to_common (d_show D); seq = ms_snapshot_seq v + 1
      in (Inr \<lparr>sn_sequence = seq, sn_time = Some (mock_now_ts sys),
               sn_balances = [BalanceMsg ''USD'' (show (d_of_int D 10000)) (show (d_zero D)) (show (d_of_int D 10000))],
               sn_positions = ms_positions v,
               sn_open_orders = filter is_open (ms_orders v)\<rparr>,
          v\<lparr>ms_snapshot_seq := seq\<rparr>))"

text \<open>The account view multiplies the price by a thousand; \<open>None\<close> is the overflow panic.\<close>

definition mock_get_account :: "'d decimal_api \<Rightarrow> 'd mock_state \<Rightarrow> mock_message option" where
  "mock_get_account D v =
     map_option (\<lambda>total. let show = decimal_to_common (d_show D)
        in AccountMsg (show total) (show total) (show (d_zero D)) (show total) (show (d_zero D)))
       (d_mul D (ms_price v) (d_of_int D 1000))"

definition task_panicked :: port_error where
  "task_panicked = Transport ''panicked''"

text \<open>
  The account calls; a call whose task panics is the transport failure its caller sees.
\<close>

definition mock_account_call ::
  "'d decimal_api \<Rightarrow> 'd mock_state \<Rightarrow> account_method \<Rightarrow> mock_message account_request
   \<Rightarrow> (port_error + mock_message) \<times> 'd mock_state" where
  "mock_account_call D v meth req =
     ((case meth of
         GetAccount \<Rightarrow> (case mock_get_account D v of None \<Rightarrow> Inl task_panicked | Some msg \<Rightarrow> Inr msg)
       | ClosePosition \<Rightarrow> Inl (MissingField (''no open position '' @ ar_position_id req))
       | ModifyPosition \<Rightarrow> Inl (MissingField (''no open position '' @ ar_position_id req))
       | _ \<Rightarrow> Inr (DefaultMsg meth)), v)"

text \<open>The venue answers at once: its two delays are zero.\<close>

definition mock_gateway ::
  "'d decimal_api \<Rightarrow> int \<Rightarrow> ('d mock_state, mock_message) trading_gateway" where
  "mock_gateway D sys =
     \<lparr>gw_create_order = mock_create_order D sys,
      gw_batch_create_orders = mock_batch_create_orders D sys,
      gw_cancel_order = mock_cancel_order,
      gw_cancel_all_orders = mock_cancel_all_orders,
      gw_fetch_open_orders = mock_fetch_open_orders,
      gw_account_call = mock_account_call D,
      gw_sync_state = mock_sync_state D sys,
      gw_cancel_delay = (\<lambda>_ _. 0), gw_sync_delay = (\<lambda>_ _. 0)\<rparr>"

section \<open>The venue keeps the contract\<close>

definition mock_resting :: "'d mock_state \<Rightarrow> string \<Rightarrow> bool" where
  "mock_resting v i = (\<exists>ord \<in> set (ms_orders v). o_id ord = i \<and> is_open ord)"

definition ids_ok :: "nat \<Rightarrow> string list \<Rightarrow> bool" where
  "ids_ok n is = (distinct is \<and> (\<forall>i \<in> set is. \<exists>k < n. i = ''mock-'' @ nat_to_string k))"

definition mock_ok :: "'d mock_state \<Rightarrow> bool" where
  "mock_ok v = ids_ok (unat (ms_ids v)) (map o_id (ms_orders v))"

lemma cancel_mark_simps [simp]: "o_id (cancel_mark ord) = o_id ord" "\<not> is_open (cancel_mark ord)"
  by (simp_all add: cancel_mark_def is_open_def)

lemma cancel_first_Some:
  assumes "cancel_first i ords = Some (ord, ords')"
  obtains xs x ys where "ords = xs @ x # ys" "ords' = xs @ cancel_mark x # ys" "o_id x = i" "ord = cancel_mark x"
  using assms
proof (induction ords arbitrary: ords' thesis)
  case (Cons y ords)
  show ?case
  proof (cases "o_id y = i")
    case True
    then show ?thesis using Cons.prems by (auto intro: Cons.prems(1) [of "[]"])
  next
    case False
    then obtain rest where r: "cancel_first i ords = Some (ord, rest)" "ords' = y # rest"
      using Cons.prems by auto
    obtain xs x zs where "ords = xs @ x # zs" "rest = xs @ cancel_mark x # zs" "o_id x = i" "ord = cancel_mark x"
      using Cons.IH [OF _ r(1)] by blast
    then show ?thesis using r(2) by (auto intro: Cons.prems(1) [of "y # xs"])
  qed
qed simp

lemma mock_ok_ids:
  "map o_id (ms_orders v') = map o_id (ms_orders v) \<Longrightarrow> ms_ids v' = ms_ids v \<Longrightarrow> mock_ok v \<Longrightarrow> mock_ok v'"
  by (simp add: mock_ok_def)

lemma mock_cancel_cases:
  assumes "mock_cancel_order v req = (res, v')"
  obtains "ms_orders v' = ms_orders v" "ms_ids v' = ms_ids v" "\<not> is_ok res"
  | xs x ys where "ms_orders v = xs @ x # ys" "ms_orders v' = xs @ cancel_mark x # ys"
      "o_id x = can_order_id req" "ms_ids v' = ms_ids v"
  using assms
  by (auto simp: mock_cancel_order_def Let_def split: if_splits option.splits elim!: cancel_first_Some)

interpretation mock: venue_contract "mock_gateway D sys" mock_resting mock_ok
proof
  fix v v' :: "'a mock_state" and req ord res i
  assume ok: "mock_ok v"
  { assume "gw_cancel_order (mock_gateway D sys) v req = (Inr ord, v')"
    then have "mock_cancel_order v req = (Inr ord, v')" by (simp add: mock_gateway_def)
    then show "\<not> mock_resting v' (can_order_id req)"
      using ok by (cases rule: mock_cancel_cases) (auto simp: mock_resting_def mock_ok_def ids_ok_def image_iff) }
  { assume "gw_cancel_order (mock_gateway D sys) v req = (res, v')"
    then have c: "mock_cancel_order v req = (res, v')" by (simp add: mock_gateway_def)
    then show "mock_ok v'"
      using ok mock_ok_ids [of v' v] by (cases rule: mock_cancel_cases) simp_all
    assume "mock_resting v' i"
    with c show "mock_resting v i"
      by (cases rule: mock_cancel_cases) (auto simp: mock_resting_def) }
next
  fix v v' :: "'a mock_state" and areq ares ords i
  assume ok: "mock_ok v"
  { assume "gw_cancel_all_orders (mock_gateway D sys) v areq = (Inr ords, v')" and "caa_symbol areq = []"
    then show "\<not> mock_resting v' i"
      by (auto simp: mock_gateway_def mock_cancel_all_orders_def Let_def mock_resting_def symbol_matches_def
          split: if_splits) }
  { assume a: "gw_cancel_all_orders (mock_gateway D sys) v areq = (ares, v')"
    then have "map o_id (ms_orders v') = map o_id (ms_orders v)" "ms_ids v' = ms_ids v"
      by (auto simp: mock_gateway_def mock_cancel_all_orders_def Let_def)
    then show "mock_ok v'" using ok mock_ok_ids [of v' v] by blast
    assume "mock_resting v' i"
    with a show "mock_resting v i"
      by (auto simp: mock_gateway_def mock_cancel_all_orders_def Let_def mock_resting_def split: if_splits) }
qed

section \<open>Order ids\<close>

lemma nat_to_string_inject [simp]: "nat_to_string a = nat_to_string b \<longleftrightarrow> a = b"
  by (metis digits_val_nat_to_string)

lemma mock_create_ok:
  assumes "mock_ok v" and "ms_ids v \<noteq> - 1"
  shows "mock_ok (snd (mock_create_order D sys v req))"
proof -
  have suc: "unat (ms_ids v + 1) = Suc (unat (ms_ids v))" using assms(2) by (rule unat_Suc_word)
  have old: "mock_ok (v\<lparr>ms_creates_seen := x, ms_fail_next_creates := y\<rparr>)"
    "mock_ok (v\<lparr>ms_creates_seen := x\<rparr>)" for x y
    using assms(1) by (simp_all add: mock_ok_def)
  have new: "mock_ok (v\<lparr>ms_creates_seen := x, ms_ids := ms_ids v + 1,
      ms_orders := ms_orders v @ [mock_order D sys (''mock-'' @ nat_to_string (unat (ms_ids v))) r]\<rparr>)" for x r
    using assms(1) by (fastforce simp: mock_ok_def ids_ok_def mock_order_def suc less_Suc_eq)
  show ?thesis
    using old new by (auto simp: mock_create_order_def Let_def split: option.splits)
qed

end
