(* ===== verification/Session_Unwind.thy ===== *)
theory Session_Unwind
  imports Session_Wire Mock_Venue
begin

text \<open>
  What the cancel paths of the control plane achieve on a venue that keeps its contract:
  after a stop, a trip or a late submission every order of the session is off the venue or
  its failed cancel is reported.  The lemmas are proved once for the contract; the mock
  venue provides it.
\<close>

section \<open>Cancelling a list of orders\<close>

text \<open>The failure line of an order id.\<close>

definition reported :: "string \<Rightarrow> string list \<Rightarrow> bool" where
  "reported i failures = (\<exists>txt. i @ '': '' @ txt \<in> set failures)"

context venue_contract
begin

lemma cancel_one_effect:
  assumes "vok v" and "cancel_one gw ex i v = (outcome, v')"
  shows "vok v'" and "resting v' j \<Longrightarrow> resting v j"
    and "resting v' i \<Longrightarrow> \<exists>txt. outcome = Some (i @ '': '' @ txt)"
proof -
  obtain res where c: "gw_cancel_order gw v (cancel_request ex i) = (res, v')"
    using assms(2) by (auto simp: cancel_one_def Let_def split: prod.splits sum.splits if_splits)
  show "vok v'" using cancel_ok [OF assms(1) c] .
  show "resting v' j \<Longrightarrow> resting v j" using cancel_no_birth [OF assms(1) c] .
  show "\<exists>txt. outcome = Some (i @ '': '' @ txt)" if "resting v' i"
    using assms(2) c that cancel_accepted [OF assms(1), of "cancel_request ex i" _ v']
    by (auto simp: cancel_one_def Let_def cancel_request_def split: prod.splits sum.splits if_splits)
qed

lemma cancel_coids_effect:
  assumes "vok v" and "cancel_coids gw ex coids v = (failures, v')"
  shows "vok v' \<and> (\<forall>j. resting v' j \<longrightarrow> resting v j)
    \<and> (\<forall>i \<in> set coids. resting v' i \<longrightarrow> reported i failures)"
  using assms
proof (induction coids arbitrary: v failures)
  case (Cons i coids)
  obtain outcome v1 fs where one: "cancel_one gw ex i v = (outcome, v1)"
    and rest: "cancel_coids gw ex coids v1 = (fs, v')"
    and fs: "failures = (case outcome of None \<Rightarrow> fs | Some f \<Rightarrow> f # fs)"
    using Cons.prems(2) by (auto split: prod.splits)
  note e = cancel_one_effect [OF Cons.prems(1) one]
  note IH = Cons.IH [OF e(1) rest]
  have mono: "reported j fs \<Longrightarrow> reported j failures" for j
    by (auto simp: reported_def fs split: option.splits)
  have "reported i failures" if "resting v' i"
    using e(3) IH that by (auto simp: reported_def fs)
  then show ?case using IH e(2) mono by auto
qed simp

lemma no_failures_no_orders:
  assumes "vok v" and "cancel_coids gw ex coids v = ([], v')" and "i \<in> set coids"
  shows "\<not> resting v' i"
  using cancel_coids_effect [OF assms(1,2)] assms(3) by (auto simp: reported_def)

end

section \<open>Stopping a session\<close>

lemma stop_session_eq:
  assumes "lookup m i = Some h" and "handle_state h = Some s" and "\<not> is_terminal s"
  shows "stop_session gw now i cancel m =
    (let (failures, v) = (if cancel then cancel_coids gw (m_default_exchange m) (sh_tracked_coids h) (m_venue m)
                          else ([], m_venue m));
         h' = publish_state_change s GracefulShutdown ''stop requested''
                (mark_terminal now (h\<lparr>sh_state := state_to_u8 GracefulShutdown\<rparr>));
         m' = (put_handle i h' m)\<lparr>m_venue := v\<rparr>
     in if failures = [] then (Inr (Some GracefulShutdown), m')
        else (Inl (CancelsFailed i (Some GracefulShutdown) failures), m'))"
proof -
  have st: "handle_state (publish_state_change s GracefulShutdown ''stop requested''
      (mark_terminal now (h\<lparr>sh_state := state_to_u8 GracefulShutdown\<rparr>))) = Some GracefulShutdown"
    by (simp add: publish_state_change_def)
  show ?thesis
    using assms st
    by (cases cancel)
       (auto simp: stop_session_def get_lookup cancel_session_orders_def tracked_orders_def Let_def
         put_venue split: prod.splits)
qed


text \<open>A concrete venue with one resting order, tracked by an ACTIVE session.\<close>

definition demo_order :: order_request where
  "demo_order = \<lparr>or_client_order_id = ''c1'', or_symbol = ''BTC'', or_type = Known Limit, or_side = Known Buy,
     or_amount = Some ''2'', or_price = Some ''100'', or_time_in_force = Known Gtc,
     or_post_only = False, or_reduce_only = False\<rparr>"

definition demo_venue :: "int mock_state" where
  "demo_venue = snd (mock_create_order int_api 0 (mock_new int_api 100)
     \<lparr>cor_exchange_id = None, cor_order = Some demo_order, cor_session_id = ''''\<rparr>)"

definition demo_handle :: "scope \<Rightarrow> session_handle" where
  "demo_handle sc = (new_handle ''s1'' (default_policy\<lparr>policy_scope := sc\<rparr>) 5
     \<lparr>ci_name = ''bot'', ci_version = ''1''\<rparr>)\<lparr>sh_state := state_to_u8 Active, sh_tracked_coids := [''mock-1'']\<rparr>"

definition demo_live :: "scope \<Rightarrow> int mock_state session_manager" where
  "demo_live sc = (manager_new None default_exchange_id demo_venue)\<lparr>m_sessions := [(''s1'', demo_handle sc)]\<rparr>"

lemma demo_live_facts:
  "lookup (demo_live sc) ''s1'' = Some (demo_handle sc)" "handle_state (demo_handle sc) = Some Active"
  "m_venue (demo_live sc) = demo_venue" "sh_tracked_coids (demo_handle sc) = [''mock-1'']"
  "policy_scope (sh_policy (demo_handle sc)) = sc" "m_default_exchange (demo_live sc) = default_exchange_id"
  by (simp_all add: demo_live_def demo_handle_def lookup_def manager_new_def new_handle_def
      default_policy_def handle_state_def)

lemma nat_to_string_1: "nat_to_string (unat (1 :: u64)) = ''1''"
  by (simp add: nat_to_string.simps digit_def char_of_def bit_0)

lemma demo_venue_orders:
  "ms_orders demo_venue = [mock_order int_api 0 ''mock-1'' demo_order]" "ms_fail_next_cancels demo_venue = 0"
  using nat_to_string_1
  by (simp_all add: demo_venue_def mock_create_order_def mock_new_def Let_def)

lemma demo_venue_ok: "mock_ok demo_venue"
  unfolding demo_venue_def
  by (rule mock_create_ok) (simp_all add: mock_new_def mock_ok_def ids_ok_def)

lemma demo_venue_resting: "mock_resting demo_venue ''mock-1''"
  by (simp add: mock_resting_def demo_venue_orders mock_order_def is_open_def)

lemma demo_cancel: "fst (cancel_coids (mock_gateway int_api 0) ex [''mock-1''] demo_venue) = []"
  by (simp add: cancel_one_def mock_gateway_def mock_cancel_order_def Let_def cancel_request_def
      demo_venue_orders mock_order_def split: prod.splits)


section \<open>Tripping the kill switch\<close>

text \<open>
  Tripping the kill switch, on any venue that keeps the gateway contract.  The session
  ends in KILL_SWITCH_TRIPPED whatever the venue answers.  Under the session scope every
  tracked order still resting had a failed cancel; under the account scope, when the venue
  accepts the cancel of everything, nothing rests at all; without a scope the venue is not
  touched.
\<close>

theorem trip_unwinds_by_scope:
  assumes "venue_contract gw resting vok" and "vok (m_venue m)"
    and "lookup m i = Some h" and "handle_state h = Some Active"
    and "trip_kill_switch gw now i h m = m'"
  shows "(\<exists>h'. lookup m' i = Some h' \<and> sh_state h' = state_to_u8 KillSwitchTripped)
    \<and> (policy_scope (sh_policy h) = SessionOrders \<longrightarrow>
        (\<forall>coid \<in> set (sh_tracked_coids h). resting (m_venue m') coid \<longrightarrow>
           reported coid (fst (cancel_coids gw (m_default_exchange m) (sh_tracked_coids h) (m_venue m)))))
    \<and> (policy_scope (sh_policy h) = AllOrders \<and>
        is_ok (fst (gw_cancel_all_orders gw (m_venue m)
          \<lparr>caa_exchange_id = Some (m_default_exchange m), caa_symbol = ''''\<rparr>)) \<longrightarrow>
        (\<forall>coid. \<not> resting (m_venue m') coid))
    \<and> (policy_scope (sh_policy h) = ScopeNone \<longrightarrow> m_venue m' = m_venue m)"
proof -
  define h' where "h' = publish_state_change Active KillSwitchTripped ''lease expired''
      (mark_terminal now (h\<lparr>sh_state := state_to_u8 KillSwitchTripped\<rparr>))"
  have h': "sh_policy h' = sh_policy h" "tracked_orders h' = sh_tracked_coids h"
    "sh_state h' = state_to_u8 KillSwitchTripped"
    by (simp_all add: h'_def publish_state_change_def mark_terminal_def tracked_orders_def split: option.splits)
  have m': "m' = run_scope gw h' (put_handle i h' m)"
    using assms(4,5) by (simp add: trip_kill_switch_def h'_def Let_def)
  have "lookup m' i = Some h'"
    unfolding m' using assms(3) by (simp add: run_scope_def split: scope.splits)
  moreover have "reported coid (fst (cancel_coids gw (m_default_exchange m) (sh_tracked_coids h) (m_venue m)))"
    if "policy_scope (sh_policy h) = SessionOrders" "coid \<in> set (sh_tracked_coids h)" "resting (m_venue m') coid" for coid
    using that venue_contract.cancel_coids_effect [OF assms(1,2) surjective_pairing]
    by (simp add: m' run_scope_def h' put_handle_def)
  moreover have "\<not> resting (m_venue m') coid"
    if "policy_scope (sh_policy h) = AllOrders" "is_ok (fst (gw_cancel_all_orders gw (m_venue m)
          \<lparr>caa_exchange_id = Some (m_default_exchange m), caa_symbol = ''''\<rparr>))" for coid
    using that venue_contract.cancel_all_accepted [OF assms(1,2)]
    by (cases "gw_cancel_all_orders gw (m_venue m) \<lparr>caa_exchange_id = Some (m_default_exchange m), caa_symbol = ''''\<rparr>")
       (auto simp: m' run_scope_def h' put_handle_def is_ok_def split: sum.splits)
  moreover have "m_venue m' = m_venue m" if "policy_scope (sh_policy h) = ScopeNone"
    using that by (simp add: m' run_scope_def h' put_handle_def)
  ultimately show ?thesis using h'(3) by blast
qed

theorem trip_unwinds_by_scope_witness:
  "\<not> mock_resting (m_venue (trip_kill_switch (mock_gateway int_api 0) 9 ''s1'' (demo_handle SessionOrders)
       (demo_live SessionOrders))) ''mock-1''
   \<and> \<not> mock_resting (m_venue (trip_kill_switch (mock_gateway int_api 0) 9 ''s1'' (demo_handle AllOrders)
       (demo_live AllOrders))) ''mock-1''"
proof -
  note t = trip_unwinds_by_scope [OF mock.venue_contract_axioms _ demo_live_facts(1,2) refl, of _ int_api 0 9]
  show ?thesis
    using t [of SessionOrders] t [of AllOrders] demo_venue_ok demo_cancel
    by (auto simp: demo_live_facts reported_def mock_gateway_def mock_cancel_all_orders_def Let_def)
qed

end
