(* ===== verification/Risk_Safety.thy ===== *)
theory Risk_Safety
  imports Risk_Gate Session_Unwind
begin

text \<open>
  What the risk gate guarantees: an admitted batch is inside every limit, a refusal spends no
  budget, the submission rate is bounded over any run, nothing reaches the venue
  unmeasured, and the decorated gateway keeps the contract the kill switch relies on.
\<close>

section \<open>Net quantities against their specification\<close>

text \<open>The net quantity of one symbol: its moves added up in order.\<close>

fun symbol_net :: "'d decimal_api \<Rightarrow> string \<Rightarrow> (string \<times> 'd) list \<Rightarrow> 'd \<Rightarrow> 'd option" where
  "symbol_net D s [] acc = Some acc"
| "symbol_net D s ((s', q) # moves) acc =
     (if s' = s then Option.bind (d_add D acc q) (symbol_net D s moves) else symbol_net D s moves acc)"

definition net_or_zero :: "'d decimal_api \<Rightarrow> (string \<times> 'd) list \<Rightarrow> string \<Rightarrow> 'd" where
  "net_or_zero D net s = (case map_of net s of None \<Rightarrow> d_zero D | Some n \<Rightarrow> n)"

lemma net_add_keys:
  "net_add D s q net = Some net' \<Longrightarrow> fst ` set net' = insert s (fst ` set net)"
proof (induction D s q net arbitrary: net' rule: net_add.induct)
  case (2 D s q s' n net)
  show ?case
  proof (cases "s = s' \<or> s < s'")
    case True
    then show ?thesis using "2.prems" by (auto split: if_splits)
  next
    case False
    then obtain z where "net_add D s q net = Some z" "net' = (s', n) # z" using "2.prems" by auto
    then show ?thesis using "2.IH" [of z] False by (simp add: insert_commute)
  qed
qed auto

lemma net_add_sorted:
  "net_add D s q net = Some net' \<Longrightarrow> sorted_wrt (<) (map fst net) \<Longrightarrow> sorted_wrt (<) (map fst net')"
proof (induction D s q net arbitrary: net' rule: net_add.induct)
  case (2 D s q s' n net)
  show ?case
  proof (cases "s = s' \<or> s < s'")
    case True
    then show ?thesis using "2.prems" by (fastforce split: if_splits intro: less_trans)
  next
    case False
    then have lt: "s' < s" by (meson linorder_cases)
    from False obtain z where z: "net_add D s q net = Some z" "net' = (s', n) # z" using "2.prems"(1) by auto
    have "\<forall>x \<in> fst ` set z. s' < x" using net_add_keys [OF z(1)] lt "2.prems"(2) by auto
    then show ?thesis using "2.IH" [of z] False z "2.prems"(2) by auto
  qed
qed auto

lemma net_add_lookup:
  assumes "net_add D s q net = Some net'" and "sorted_wrt (<) (map fst net)"
  obtains n where "d_add D (net_or_zero D net s) q = Some n" "map_of net' = (map_of net)(s \<mapsto> n)"
  using assms
proof (induction D s q net arbitrary: net' thesis rule: net_add.induct)
  case (1 D s q)
  then show ?case by (auto simp: net_or_zero_def)
next
  case (2 D s q s' n net)
  consider "s = s'" | "s < s'" | "s \<noteq> s'" "\<not> s < s'" by blast
  then show ?case
  proof cases
    case 1
    then obtain k where "d_add D n q = Some k" "net' = (s', k) # net" using "2.prems"(2) by auto
    with 1 show ?thesis by (intro "2.prems"(1)) (auto simp: net_or_zero_def)
  next
    case 2
    have none: "map_of net s = None" and ne: "s \<noteq> s'"
      using 2 "2.prems"(3) by (auto simp: map_of_eq_None_iff)
    obtain k where "d_add D (d_zero D) q = Some k" "net' = (s, k) # (s', n) # net"
      using 2 "2.prems"(2) ne by auto
    with none ne show ?thesis by (intro "2.prems"(1)) (auto simp: net_or_zero_def)
  next
    case 3
    then obtain net1 where n1: "net_add D s q net = Some net1" "net' = (s', n) # net1"
      using "2.prems"(2) by auto
    obtain k where "d_add D (net_or_zero D net s) q = Some k" "map_of net1 = (map_of net)(s \<mapsto> k)"
      using "2.IH" [OF 3 _ n1(1)] "2.prems"(3) by (metis list.simps(9) sorted_wrt.simps(2))
    then show ?thesis using 3 n1(2) by (intro "2.prems"(1)) (auto simp: net_or_zero_def)
  qed
qed

lemma net_all_symbol:
  assumes "net_all D moves net = Some net'" and "sorted_wrt (<) (map fst net)"
  shows "(s \<in> fst ` set moves \<or> map_of net s \<noteq> None \<longrightarrow>
           map_of net' s = symbol_net D s moves (net_or_zero D net s) \<and> map_of net' s \<noteq> None)
    \<and> sorted_wrt (<) (map fst net')"
  using assms
proof (induction D moves net arbitrary: net' rule: net_all.induct)
  case (1 D net)
  then show ?case by (auto simp: net_or_zero_def)
next
  case (2 D s' q moves net)
  obtain net1 where n1: "net_add D s' q net = Some net1" and rest: "net_all D moves net1 = Some net'"
    using "2.prems"(1) by (auto simp: Option.bind_eq_Some_conv)
  have srt: "sorted_wrt (<) (map fst net1)" using net_add_sorted [OF n1 "2.prems"(2)] .
  obtain k where k: "d_add D (net_or_zero D net s') q = Some k" "map_of net1 = (map_of net)(s' \<mapsto> k)"
    using net_add_lookup [OF n1 "2.prems"(2)] by blast
  note IH = "2.IH" [OF n1 rest srt]
  show ?case
  proof (cases "s' = s")
    case True
    then have "net_or_zero D net1 s = k" "map_of net1 s \<noteq> None" using k(2) by (auto simp: net_or_zero_def)
    then show ?thesis using IH True k(1) by (simp, metis)
  next
    case False
    then have "net_or_zero D net1 s = net_or_zero D net s" "map_of net1 s = map_of net s"
      using k(2) by (auto simp: net_or_zero_def)
    then show ?thesis
      using IH False by (cases "symbol_net D s moves (net_or_zero D net s)") auto
  qed
qed

section \<open>Admission\<close>

lemma check_leg_ok:
  assumes "check_leg D L i = Some (Inr u)"
  shows "max_order_qty L = Some limit \<Longrightarrow> \<not> d_gt D (oi_qty i) limit"
    and "oi_price i = Some p \<Longrightarrow> \<exists>w. d_mul D p (oi_qty i) = Some w
           \<and> (\<forall>limit. max_order_notional L = Some limit \<longrightarrow> \<not> d_gt D w limit)"
  using assms
  by (auto simp: check_leg_def notional_def split: option.splits if_splits prod.splits)

lemma check_legs_ok: "check_legs D L intents = Some (Inr u) \<Longrightarrow> i \<in> set intents \<Longrightarrow> check_leg D L i = Some (Inr ())"
  by (induction D L intents rule: check_legs.induct) (auto split: option.splits sum.splits)

lemma check_net_ok:
  "check_net D limit net = Inr u \<Longrightarrow> map_of net s = Some n \<Longrightarrow> \<not> d_gt D (d_abs D n) limit"
  by (induction D limit net rule: check_net.induct) (auto split: if_splits)

lemma check_book_ok:
  assumes "check_book D L intents resting = Some (Inr u)"
  shows "max_open_orders L = Some n \<Longrightarrow> \<exists>book. resting = Some book \<and> length book + length intents \<le> unat n"
    and "max_net_qty_per_symbol L = Some limit \<Longrightarrow> \<exists>book net. resting = Some book
       \<and> net_all D (book_moves D book intents) [] = Some net \<and> check_net D limit net = Inr ()"
  using assms by (auto simp: check_book_def needs_book_def Let_def split: option.splits if_splits)

lemma gate_admit_ok:
  assumes "gate_admit D L intents resting now b = (Some (Inr u), b')"
  shows "check_legs D L intents = Some (Inr ())" "check_book D L intents resting = Some (Inr ())"
    "consume L (length intents) now b = (Inr (), b')"
  using assms by (auto simp: gate_admit_def split: option.splits sum.splits prod.splits)

text \<open>
  C12: an admitted batch is inside every configured limit.  No leg exceeds the quantity limit,
  every priced leg has a notional that does not exceed the notional limit, the resting
  orders and the batch together stay within the order count, and for every symbol of the
  book or the batch the net quantity, the signed quantities of the symbol added up, does
  not exceed the net limit in absolute value.
\<close>

theorem admitted_batch_is_within_limits:
  assumes "gate_admit D L intents resting now b = (Some (Inr ()), b')"
  shows "(\<forall>i \<in> set intents.
        (\<forall>limit. max_order_qty L = Some limit \<longrightarrow> \<not> d_gt D (oi_qty i) limit)
      \<and> (\<forall>p. oi_price i = Some p \<longrightarrow> (\<exists>w. d_mul D p (oi_qty i) = Some w
            \<and> (\<forall>limit. max_order_notional L = Some limit \<longrightarrow> \<not> d_gt D w limit))))
    \<and> (\<forall>n. max_open_orders L = Some n \<longrightarrow>
        (\<exists>book. resting = Some book \<and> length book + length intents \<le> unat n))
    \<and> (\<forall>limit. max_net_qty_per_symbol L = Some limit \<longrightarrow>
        (\<exists>book. resting = Some book \<and> (\<forall>s \<in> fst ` set (book_moves D book intents).
          \<exists>n. symbol_net D s (book_moves D book intents) (d_zero D) = Some n \<and> \<not> d_gt D (d_abs D n) limit)))"
proof -
  note ok = gate_admit_ok [OF assms]
  have net: "\<exists>book. resting = Some book \<and> (\<forall>s \<in> fst ` set (book_moves D book intents).
      \<exists>n. symbol_net D s (book_moves D book intents) (d_zero D) = Some n \<and> \<not> d_gt D (d_abs D n) limit)"
    if limit: "max_net_qty_per_symbol L = Some limit" for limit
  proof -
    obtain book net where b: "resting = Some book" "net_all D (book_moves D book intents) [] = Some net"
      "check_net D limit net = Inr ()"
      using check_book_ok(2) [OF ok(2) limit] by blast
    have "\<exists>n. symbol_net D s (book_moves D book intents) (d_zero D) = Some n \<and> \<not> d_gt D (d_abs D n) limit"
      if "s \<in> fst ` set (book_moves D book intents)" for s
    proof -
      have "map_of net s = symbol_net D s (book_moves D book intents) (d_zero D) \<and> map_of net s \<noteq> None"
        using net_all_symbol [OF b(2), of s] that by (simp add: net_or_zero_def, metis)
      then obtain n where n: "map_of net s = Some n" "symbol_net D s (book_moves D book intents) (d_zero D) = Some n"
        by (metis not_None_eq)
      then show ?thesis using check_net_ok [OF b(3)] by blast
    qed
    then show ?thesis using b(1) by blast
  qed
  show ?thesis
    using check_leg_ok [OF check_legs_ok [OF ok(1)]] check_book_ok(1) [OF ok(2)] net by blast
qed

section \<open>The submission budget\<close>

definition bucket_ok :: "'d risk_limits \<Rightarrow> bucket \<Rightarrow> bool" where
  "bucket_ok L b = (case max_orders_per_minute L of None \<Rightarrow> True | Some n \<Rightarrow> bk_tokens b \<le> bucket_capacity n)"

lemma capacity_u128: "bucket_capacity n < u128_max"
proof -
  have "unat n < 2 ^ 32" by (rule order_less_le_trans [OF unsigned_less]) simp
  then have "bucket_capacity n < 2 ^ 32 * 60000" by (simp add: bucket_capacity_def TOKENS_PER_ORDER_def)
  then show ?thesis by (simp add: u128_max_def)
qed

lemma refill_tokens:
  assumes "bk_tokens b \<le> bucket_capacity n"
  shows "bk_tokens (refill n now b) = (if bk_last b \<le> now
      then min (bk_tokens b + as_millis (now - bk_last b) * unat n) (bucket_capacity n) else bk_tokens b)"
  using capacity_u128 [of n] by (auto simp: refill_def)

lemma refill_keeps:
  assumes "bk_tokens b \<le> bucket_capacity n"
  shows "bk_tokens b \<le> bk_tokens (refill n now b)" "bk_tokens (refill n now b) \<le> bucket_capacity n"
  using assms by (auto simp: refill_tokens)

lemma gate_new_ok: "bucket_ok L (gate_new L now)"
  by (simp add: bucket_ok_def gate_new_def split: option.splits)

lemma consume_ok: "bucket_ok L b \<Longrightarrow> bucket_ok L (snd (consume L k now b))"
  using refill_keeps(2) [of b "the (max_orders_per_minute L)" now]
  by (cases "max_orders_per_minute L") (auto simp: consume_def bucket_ok_def Let_def)

lemma gate_admit_bucket_ok: "bucket_ok L b \<Longrightarrow> bucket_ok L (snd (gate_admit D L intents resting now b))"
  using consume_ok [of L b "length intents" now]
  by (auto simp: gate_admit_def split: option.splits sum.splits prod.splits)

text \<open>
  A refusal spends nothing.  When the gate refuses a batch the budget is not smaller than
  before, and unless the refusal is for the rate the bucket is not touched at all.
\<close>

theorem refusal_spends_no_budget:
  assumes "bucket_ok L b" and "gate_admit D L intents resting now b = (Some (Inl violation), b')"
  shows "bk_tokens b \<le> bk_tokens b' \<and> (b' = b \<or> (\<exists>n. violation = Rate n \<and> max_orders_per_minute L = Some n))"
  using assms refill_keeps(1)
  by (auto simp: gate_admit_def consume_def bucket_ok_def Let_def split: option.splits sum.splits prod.splits if_splits)

section \<open>The rate over a run\<close>

type_synonym 'd gate_call = "'d order_intent list \<times> 'd resting_order list option \<times> instant"

text \<open>A run of calls: the number of orders admitted and the bucket at the end.\<close>

fun gate_run ::
  "'d decimal_api \<Rightarrow> 'd risk_limits \<Rightarrow> 'd gate_call list \<Rightarrow> bucket \<Rightarrow> nat \<times> bucket" where
  "gate_run D L [] b = (0, b)"
| "gate_run D L ((intents, resting, now) # calls) b =
     (case gate_admit D L intents resting now b of (r, b') \<Rightarrow>
        case gate_run D L calls b' of (n, b'') \<Rightarrow>
          ((if r = Some (Inr ()) then length intents + n else n), b''))"

lemma as_millis_add: "as_millis a + as_millis b \<le> as_millis (a + b)"
proof -
  have "(a div 1000000 + b div 1000000) * 1000000 \<le> a + b"
    unfolding add_mult_distrib by (intro add_mono) (rule div_times_less_eq_dividend)+
  then show ?thesis by (simp add: as_millis_def less_eq_div_iff_mult_less_eq)
qed

lemma order_cost_exact:
  assumes "order_cost k < u128_max"
  shows "order_cost k = k * TOKENS_PER_ORDER"
proof (cases "k \<le> u128_max")
  case True
  then show ?thesis using assms by (simp add: order_cost_def min_def split: if_splits)
next
  case False
  then have "order_cost k = min (u128_max * TOKENS_PER_ORDER) u128_max" by (simp add: order_cost_def)
  then have "order_cost k = u128_max" by (simp add: TOKENS_PER_ORDER_def)
  then show ?thesis using assms by simp
qed

text \<open>What one call does to the tokens and the instant of the bucket.\<close>

lemma consume_step:
  assumes "max_orders_per_minute L = Some n" and "bk_tokens b \<le> bucket_capacity n"
    and "consume L k now b = (r, b')"
  shows "bk_last b \<le> bk_last b' \<and> bk_last b' \<le> max (bk_last b) now
    \<and> bk_tokens b' + (if r = Inr () then k * TOKENS_PER_ORDER else 0)
        \<le> bk_tokens b + as_millis (bk_last b' - bk_last b) * unat n"
proof -
  have last: "bk_last (refill n now b) = max (bk_last b) now" by (auto simp: refill_def)
  have grow: "bk_tokens (refill n now b) \<le> bk_tokens b + as_millis (max (bk_last b) now - bk_last b) * unat n"
    using refill_tokens [OF assms(2), of now] by auto
  have cap: "bk_tokens (refill n now b) < u128_max"
    using refill_keeps(2) [OF assms(2), of now] capacity_u128 [of n] by linarith
  show ?thesis
  proof (cases "bk_tokens (refill n now b) < order_cost k")
    case True
    then have "b' = refill n now b" "r = Inl (Rate n)" using assms(1,3) by (auto simp: consume_def Let_def)
    then show ?thesis using last grow by simp
  next
    case False
    then have "b' = (refill n now b)\<lparr>bk_tokens := bk_tokens (refill n now b) - order_cost k\<rparr>" "r = Inr ()"
      using assms(1,3) by (auto simp: consume_def Let_def)
    moreover have "order_cost k = k * TOKENS_PER_ORDER" using False cap by (intro order_cost_exact) linarith
    ultimately show ?thesis using False last grow by simp
  qed
qed

lemma gate_admit_step:
  assumes "max_orders_per_minute L = Some n" and "bk_tokens b \<le> bucket_capacity n"
    and "gate_admit D L intents resting now b = (r, b')"
  shows "bk_last b \<le> bk_last b' \<and> bk_last b' \<le> max (bk_last b) now
    \<and> bk_tokens b' + (if r = Some (Inr ()) then length intents * TOKENS_PER_ORDER else 0)
        \<le> bk_tokens b + as_millis (bk_last b' - bk_last b) * unat n"
proof -
  have "b' = b \<and> r \<noteq> Some (Inr ()) \<or> (\<exists>r'. r = Some r' \<and> consume L (length intents) now b = (r', b'))"
    using assms(3) by (auto simp: gate_admit_def split: option.splits sum.splits prod.splits)
  then show ?thesis using consume_step [OF assms(1,2)] by fastforce
qed

lemma gate_run_budget:
  assumes "max_orders_per_minute L = Some n" and "bk_tokens b \<le> bucket_capacity n"
    and "gate_run D L calls b = (k, b')" and "\<forall>(intents, resting, now) \<in> set calls. now \<le> t1"
    and "bk_last b \<le> t1"
  shows "bk_tokens b' + k * TOKENS_PER_ORDER \<le> bk_tokens b + as_millis (t1 - bk_last b) * unat n"
  using assms(2-5)
proof (induction calls arbitrary: b k)
  case Nil
  then show ?case by simp
next
  case (Cons call calls)
  obtain intents resting now where call: "call = (intents, resting, now)" by (cases call)
  obtain r b1 where one: "gate_admit D L intents resting now b = (r, b1)" by fastforce
  obtain k1 where run: "gate_run D L calls b1 = (k1, b')"
    and k: "k = (if r = Some (Inr ()) then length intents + k1 else k1)"
    using Cons.prems(2) by (auto simp: call one split: prod.splits)
  have "bucket_ok L b1"
    using gate_admit_bucket_ok [of L b D intents resting now] Cons.prems(1) assms(1) one by (simp add: bucket_ok_def)
  then have cap: "bk_tokens b1 \<le> bucket_capacity n" using assms(1) by (simp add: bucket_ok_def)
  note step = gate_admit_step [OF assms(1) Cons.prems(1) one]
  have t1: "bk_last b1 \<le> t1" using step Cons.prems(3,4) by (auto simp: call)
  have "bk_tokens b' + k1 * TOKENS_PER_ORDER \<le> bk_tokens b1 + as_millis (t1 - bk_last b1) * unat n"
    using Cons.IH [OF cap run _ t1] Cons.prems(3) by auto
  moreover have "as_millis (bk_last b1 - bk_last b) * unat n + as_millis (t1 - bk_last b1) * unat n
      \<le> as_millis (t1 - bk_last b) * unat n"
    using as_millis_add [of "bk_last b1 - bk_last b" "t1 - bk_last b1"] step t1
    by (simp add: add_mult_distrib [symmetric])
  ultimately show ?case using step by (auto simp: k add_mult_distrib split: if_splits)
qed

text \<open>
  C13: the submission rate.  Over any run of calls of a fresh gate between the instants \<open>t0\<close>
  and \<open>t1\<close>, in whatever order the clock readings arrive, the orders admitted are at most
  one full minute's budget plus the budget of the time that has passed: admitted orders
  times 60000 is at most the limit times 60000 plus the limit times the elapsed
  milliseconds.
\<close>

theorem submission_rate_is_bounded:
  assumes "max_orders_per_minute L = Some n"
    and "\<forall>(intents, resting, now) \<in> set calls. now \<le> t1" and "t0 \<le> t1"
    and "gate_run D L calls (gate_new L t0) = (k, b')"
  shows "k * 60000 \<le> unat n * 60000 + as_millis (t1 - t0) * unat n"
proof -
  have b: "bk_tokens (gate_new L t0) = bucket_capacity n" "bk_last (gate_new L t0) = t0"
    using assms(1) by (simp_all add: gate_new_def)
  then have "bk_tokens b' + k * TOKENS_PER_ORDER \<le> bucket_capacity n + as_millis (t1 - t0) * unat n"
    using gate_run_budget [OF assms(1) _ assms(4,2)] assms(3) by simp
  then show ?thesis by (simp add: TOKENS_PER_ORDER_def bucket_capacity_def)
qed

text \<open>Calls that follow each other within less than a millisecond.\<close>

fun close_calls :: "instant \<Rightarrow> instant list \<Rightarrow> bool" where
  "close_calls t [] = True"
| "close_calls t (u # us) = (t \<le> u \<and> u - t < 1000000 \<and> close_calls u us)"

definition rate_only :: "u32 \<Rightarrow> 'd risk_limits" where
  "rate_only n = \<lparr>max_order_qty = None, max_order_notional = None, max_orders_per_minute = Some n,
     max_open_orders = None, max_net_qty_per_symbol = None\<rparr>"

text \<open>
  A client that retries faster than once a millisecond is never served again.  The elapsed
  time is truncated to milliseconds but the instant of the bucket moves to the call, so once
  the budget is below one order, any run of single-order calls less than a millisecond
  apart, however long it lasts, is refused and adds nothing to the budget.
\<close>

theorem fast_retries_starve:
  assumes "bk_tokens b < 60000" and "bk_tokens b \<le> bucket_capacity n" and "close_calls (bk_last b) ts"
    and "oi_price i = None"
  shows "fst (gate_run D (rate_only n) (map (\<lambda>t. ([i], None, t)) ts) b) = 0
    \<and> bk_tokens (snd (gate_run D (rate_only n) (map (\<lambda>t. ([i], None, t)) ts) b)) = bk_tokens b"
  using assms(1-3)
proof (induction ts arbitrary: b)
  case Nil
  then show ?case by simp
next
  case (Cons t ts)
  have "as_millis (t - bk_last b) = 0" using Cons.prems(3) by (simp add: as_millis_def)
  then have r: "refill n t b = b\<lparr>bk_last := t\<rparr>"
    using Cons.prems refill_tokens [OF Cons.prems(2), of t] by (auto simp: refill_def intro: bucket.equality)
  have "gate_admit D (rate_only n) [i] None t b = (Some (Inl (Rate n)), b\<lparr>bk_last := t\<rparr>)"
    using Cons.prems(1) assms(4)
    by (simp add: gate_admit_def check_leg_def notional_def check_book_def needs_book_def rate_only_def
        consume_def r Let_def order_cost_def TOKENS_PER_ORDER_def u128_max_def)
  then show ?case using Cons.IH [of "b\<lparr>bk_last := t\<rparr>"] Cons.prems by (simp split: prod.splits)
qed

theorem fast_retries_starve_witness:
  "fst (gate_run int_api (rate_only 1) (map (\<lambda>t. ([\<lparr>oi_symbol = ''BTC'', oi_is_buy = True, oi_qty = 1, oi_price = None\<rparr>], None, t))
      [500000, 1000000, 1500000, 2000000]) \<lparr>bk_tokens = 59999, bk_last = 0\<rparr>) = 0"
  using fast_retries_starve [of "\<lparr>bk_tokens = 59999, bk_last = 0\<rparr>" 1 "[500000, 1000000, 1500000, 2000000]"
    "\<lparr>oi_symbol = ''BTC'', oi_is_buy = True, oi_qty = 1, oi_price = None\<rparr>" int_api]
  by (simp add: bucket_capacity_def TOKENS_PER_ORDER_def)

section \<open>Witnesses of admission and rate\<close>

definition demo_limits :: "int risk_limits" where
  "demo_limits = \<lparr>max_order_qty = Some 5, max_order_notional = Some 1000, max_orders_per_minute = Some 1,
     max_open_orders = Some 3, max_net_qty_per_symbol = Some 4\<rparr>"

definition demo_intent :: "int order_intent" where
  "demo_intent = \<lparr>oi_symbol = ''BTC'', oi_is_buy = True, oi_qty = 2, oi_price = Some 100\<rparr>"

definition demo_book :: "int resting_order list" where
  "demo_book = [\<lparr>ro_symbol = ''BTC'', ro_is_buy = True, ro_qty = 1\<rparr>]"

lemma demo_admit:
  "gate_admit int_api demo_limits [demo_intent] (Some demo_book) 7 (gate_new demo_limits 0)
     = (Some (Inr ()), \<lparr>bk_tokens = 0, bk_last = 7\<rparr>)"
  by (simp add: gate_admit_def check_leg_def notional_def check_book_def needs_book_def demo_limits_def
      demo_intent_def demo_book_def int_api_def book_moves_def resting_signed_qty_def intent_signed_qty_def
      consume_def refill_def gate_new_def bucket_capacity_def order_cost_def TOKENS_PER_ORDER_def
      u128_max_def as_millis_def Let_def)

theorem admitted_batch_is_within_limits_witness:
  "\<not> d_gt int_api (oi_qty demo_intent) 5 \<and> length demo_book + 1 \<le> 3"
  using admitted_batch_is_within_limits [OF demo_admit] by (auto simp: demo_limits_def)

theorem submission_rate_is_bounded_witness:
  "fst (gate_run int_api demo_limits [([demo_intent], Some demo_book, 7)] (gate_new demo_limits 0)) * 60000
     \<le> 60000 + as_millis (10 - 0)"
proof -
  have l: "max_orders_per_minute demo_limits = Some 1" by (simp add: demo_limits_def)
  show ?thesis
    using submission_rate_is_bounded [OF l, of "[([demo_intent], Some demo_book, 7)]" 10 0 int_api,
        OF _ _ surjective_pairing] by simp
qed

theorem refusal_spends_no_budget_witness:
  "bk_tokens (gate_new demo_limits 0) \<le> bk_tokens (snd (gate_admit int_api demo_limits
      [demo_intent\<lparr>oi_qty := 9\<rparr>] (Some demo_book) 7 (gate_new demo_limits 0)))"
proof -
  have r: "gate_admit int_api demo_limits [demo_intent\<lparr>oi_qty := 9\<rparr>] (Some demo_book) 7 (gate_new demo_limits 0)
      = (Some (Inl (OrderQty ''BTC'' 9 5)), gate_new demo_limits 0)"
    by (simp add: gate_admit_def check_leg_def demo_limits_def demo_intent_def int_api_def)
  show ?thesis using refusal_spends_no_budget [OF gate_new_ok r] r by simp
qed

section \<open>Overflowing notional\<close>

text \<open>
  An order whose price times quantity is not representable panics the gate.  The notional
  is computed for every priced leg, also when no notional limit is configured, and the
  multiplication of the decimal type panics on overflow: the submission ends in a panic and
  not in a refusal.
\<close>

theorem overflowing_notional_panics:
  assumes "oi_price i = Some p" and "d_mul D p (oi_qty i) = None"
    and "max_order_qty L = None" and "max_order_notional L = None"
  shows "gate_admit D L [i] resting now b = (None, b)"
  using assms by (simp add: gate_admit_def check_leg_def notional_def)

theorem overflowing_notional_panics_witness:
  "gate_admit (int_api\<lparr>d_mul := \<lambda>_ _. None\<rparr>) (rate_only 1) [demo_intent] None 7 \<lparr>bk_tokens = 60000, bk_last = 0\<rparr>
     = (None, \<lparr>bk_tokens = 60000, bk_last = 0\<rparr>)"
  using overflowing_notional_panics [of demo_intent 100 "int_api\<lparr>d_mul := \<lambda>_ _. None\<rparr>" "rate_only 1"]
  by (simp add: demo_intent_def rate_only_def)

section \<open>The decorated gateway\<close>

context venue_contract
begin

lemma risk_contract:
  "venue_contract (risk_gateway D L now gw) (\<lambda>vb. resting (fst vb)) (\<lambda>vb. vok (fst vb))"
  by unfold_locales
     (auto simp: risk_gateway_def forward_def split: prod.splits
       dest: cancel_accepted cancel_no_birth cancel_ok cancel_all_accepted cancel_all_no_birth cancel_all_ok)

end

text \<open>The mock venue behind a risk gate is the other venue this worker runs against.\<close>

interpretation risk_mock: venue_contract "risk_gateway D L now (mock_gateway D' sys)"
  "\<lambda>vb. mock_resting (fst vb)" "\<lambda>vb. mock_ok (fst vb)"
  by (rule mock.risk_contract)




text \<open>The venue after the read of its open orders, if one is made.\<close>

definition book_read :: "('v, 'm) trading_gateway \<Rightarrow> exchange_id \<Rightarrow> 'v \<Rightarrow> 'v \<Rightarrow> bool" where
  "book_read gw ex v v' \<longleftrightarrow> v' = v
     \<or> v' = snd (gw_fetch_open_orders gw v \<lparr>foo_exchange_id = Some ex, foo_symbol = ''''\<rparr>)"

lemma map_err_Inr: "map_err f x = Inr y \<longleftrightarrow> x = Inr y"
  by (cases x) auto

lemma risk_admit_cases:
  assumes "risk_admit D L now gw intents ex (v, b) = (r, v', b')"
  shows "book_read gw ex v v'
    \<and> (r = Some (Inr ()) \<longrightarrow> (\<exists>resting. gate_admit D L intents resting now b = (Some (Inr ()), b')
         \<and> (needs_book L \<longrightarrow> resting \<noteq> None)))"
  using assms
  by (auto simp: risk_admit_def book_read_def map_err_Inr split: prod.splits sum.splits if_splits)


end
