(* ===== verification/Envelope.thy ===== *)
theory Envelope
  imports Prelude
begin

text \<open>
  The Connect streaming envelope (\<open>longtrader-contract/src/envelope.rs\<close>): one flag byte, a
  big-endian 32-bit length and the payload.
\<close>

section \<open>Big-endian lengths\<close>

type_synonym bytes = "u8 list"

definition FLAG_MESSAGE :: u8 where "FLAG_MESSAGE = 0"
definition FLAG_EOS :: u8 where "FLAG_EOS = 2"

definition to_be_bytes :: "nat \<Rightarrow> bytes" where
  "to_be_bytes n = map of_nat [n div 2 ^ 24 mod 256, n div 2 ^ 16 mod 256, n div 2 ^ 8 mod 256, n mod 256]"

definition from_be_bytes :: "u8 \<Rightarrow> u8 \<Rightarrow> u8 \<Rightarrow> u8 \<Rightarrow> nat" where
  "from_be_bytes a b c d = unat a * 2 ^ 24 + unat b * 2 ^ 16 + unat c * 2 ^ 8 + unat d"

section \<open>Encoding and decoding\<close>

text \<open>\<open>None\<close> is the panic on a payload whose length does not fit the prefix.\<close>

definition encode_envelope :: "u8 \<Rightarrow> bytes \<Rightarrow> bytes option" where
  "encode_envelope flags payload =
     (if length payload \<le> u32_max then Some (flags # to_be_bytes (length payload) @ payload) else None)"

datatype envelope_error = TooShort | Truncated nat nat

definition decode_envelope_result :: "bytes \<Rightarrow> envelope_error + u8 \<times> bytes \<times> nat" where
  "decode_envelope_result buf =
     (case buf of
        flags # a # b # c # d # rest \<Rightarrow>
          let len = from_be_bytes a b c d
          in if length buf < 5 + len then Inl (Truncated (5 + len) (length buf))
             else Inr (flags, take len rest, 5 + len)
      | _ \<Rightarrow> Inl TooShort)"

definition decode_envelope :: "bytes \<Rightarrow> envelope_error + u8 \<times> bytes \<times> nat" where
  "decode_envelope buf = decode_envelope_result buf"

section \<open>Round trip\<close>

lemma unat_byte: "unat (of_nat (n mod 256) :: u8) = n mod 256"
  by (simp add: unat_of_nat take_bit_eq_mod)

lemma from_to_be_bytes:
  assumes "n < 2 ^ 32"
  shows "from_be_bytes (of_nat (n div 2 ^ 24 mod 256)) (of_nat (n div 2 ^ 16 mod 256))
           (of_nat (n div 2 ^ 8 mod 256)) (of_nat (n mod 256)) = n"
proof -
  define q1 where "q1 = n div 256"
  define q2 where "q2 = q1 div 256"
  define q3 where "q3 = q2 div 256"
  have d2: "n div 65536 = q2" using div_mult2_eq [of n 256 256] by (simp add: q1_def q2_def)
  have d3: "n div 16777216 = q3" using div_mult2_eq [of n 65536 256] d2 by (simp add: q3_def)
  have "n = 256 * q1 + n mod 256" "q1 = 256 * q2 + q1 mod 256" "q2 = 256 * q3 + q2 mod 256"
    by (simp_all add: q1_def q2_def q3_def)
  moreover have small: "q3 mod 256 = q3"
    using assms less_mult_imp_div_less [of n 256 16777216] d3 by simp
  ultimately have "q3 mod 256 * 16777216 + q2 mod 256 * 65536 + q1 mod 256 * 256 + n mod 256 = n"
    by linarith
  moreover have "n div 2 ^ 24 = q3" "n div 2 ^ 16 = q2" "n div 2 ^ 8 = q1"
    using d2 d3 by (simp_all add: q1_def)
  ultimately show ?thesis unfolding from_be_bytes_def unat_byte using small by simp
qed

lemma decode_short: "length buf < 5 \<Longrightarrow> decode_envelope_result buf = Inl TooShort"
  by (auto simp: decode_envelope_result_def split: list.splits)

lemma decode_cons:
  assumes "length payload \<le> u32_max"
  shows "decode_envelope_result (flags # to_be_bytes (length payload) @ payload @ rest)
    = Inr (flags, payload, 5 + length payload)"
proof -
  have "length payload < 2 ^ 32" using assms by (simp add: u32_max_def)
  from from_to_be_bytes [OF this] show ?thesis
    by (simp add: decode_envelope_result_def to_be_bytes_def Let_def)
qed

lemma decode_prefix_error:
  assumes "length payload \<le> u32_max" and "n < 5 + length payload"
  shows "\<exists>e. decode_envelope_result (take n (flags # to_be_bytes (length payload) @ payload)) = Inl e"
proof -
  have len: "length payload < 2 ^ 32" using assms by (simp add: u32_max_def)
  show ?thesis
  proof (cases "n < 5")
    case True
    then have "length (take n (flags # to_be_bytes (length payload) @ payload)) < 5" by simp
    then show ?thesis using decode_short by blast
  next
    case False
    then obtain k where "n = Suc (Suc (Suc (Suc (Suc k))))"
      by (intro that [of "n - 5"]) simp
    then show ?thesis
      using from_to_be_bytes [OF len] assms(2)
      by (simp add: decode_envelope_result_def to_be_bytes_def Let_def)
  qed
qed

lemma encode_frame:
  assumes "encode_envelope flags payload = Some frame"
  shows "decode_envelope_result (frame @ rest) = Inr (flags, payload, length frame)"
    and "n < length frame \<Longrightarrow> \<exists>e. decode_envelope_result (take n frame) = Inl e"
proof -
  have len: "length payload \<le> u32_max" and frame: "frame = flags # to_be_bytes (length payload) @ payload"
    using assms by (auto simp: encode_envelope_def split: if_splits)
  have size: "length frame = 5 + length payload" by (simp add: frame to_be_bytes_def)
  then show "decode_envelope_result (frame @ rest) = Inr (flags, payload, length frame)"
    using decode_cons [OF len, of flags rest] by (simp add: frame)
  show "n < length frame \<Longrightarrow> \<exists>e. decode_envelope_result (take n frame) = Inl e"
    using decode_prefix_error [OF len, of n flags] size by (simp add: frame)
qed

text \<open>
  C19: envelope round trip.  An encoded envelope, followed by anything, decodes to its flags and
  payload and reports exactly its own length as consumed; every proper prefix of it is an
  error, never a shorter message.
\<close>

theorem envelope_roundtrip:
  assumes "encode_envelope flags payload = Some frame"
  shows "decode_envelope (frame @ rest) = Inr (flags, payload, length frame)
    \<and> (\<forall>n < length frame. \<exists>e. decode_envelope (take n frame) = Inl e)"
  using encode_frame [OF assms] by (simp add: decode_envelope_def)

theorem envelope_roundtrip_witness:
  "\<exists>frame. encode_envelope FLAG_MESSAGE [1, 2, 3] = Some frame
     \<and> decode_envelope (frame @ [9]) = Inr (FLAG_MESSAGE, [1, 2, 3], length frame)"
proof -
  obtain frame where f: "encode_envelope FLAG_MESSAGE [1, 2, 3] = Some frame"
    by (simp add: encode_envelope_def u32_max_def)
  from envelope_roundtrip [OF f, of "[9]"] f show ?thesis by blast
qed

end
