(* ===== verification/Stream_Client.thy ===== *)
theory Stream_Client
  imports Envelope Json
begin

text \<open>
  The client side of a Connect stream (\<open>longtrader-proto\<close>): URL helpers and the end-of-stream
  verdict of \<open>client_core.rs\<close>, and the incremental reader of \<open>client.rs\<close>, which turns the
  chunks of a response body into messages.  The JSON parser and the decoder of a message are
  arguments.
\<close>

section \<open>URLs\<close>

definition trim_end_slashes :: "string \<Rightarrow> string" where
  "trim_end_slashes s = rev (dropWhile (\<lambda>c. c = CHR ''/'') (rev s))"

definition SCHEME_SEPARATOR :: string where "SCHEME_SEPARATOR = ''://''"

text \<open>The position of the first occurrence of a pattern.\<close>

fun find_sub :: "string \<Rightarrow> string \<Rightarrow> nat option" where
  "find_sub pat [] = (if pat = [] then Some 0 else None)"
| "find_sub pat (c # s) =
     (if take (length pat) (c # s) = pat then Some 0 else map_option Suc (find_sub pat s))"

definition trim_base_url :: "string \<Rightarrow> string" where
  "trim_base_url base_url = (case find_sub SCHEME_SEPARATOR base_url of
       None \<Rightarrow> trim_end_slashes base_url
     | Some at \<Rightarrow>
         let split = at + length SCHEME_SEPARATOR
         in take split base_url @ trim_end_slashes (drop split base_url))"

definition service_url :: "string \<Rightarrow> string \<Rightarrow> string \<Rightarrow> string" where
  "service_url base_url service method = trim_base_url base_url @ ''/'' @ service @ ''/'' @ method"

section \<open>The end-of-stream verdict\<close>

record stream_end_error =
  see_code :: string
  see_message :: string

definition end_of_stream_error :: "(bytes \<Rightarrow> json option) \<Rightarrow> bytes \<Rightarrow> stream_end_error option" where
  "end_of_stream_error from_slice payload =
     Option.bind (from_slice payload) (\<lambda>frame.
       Option.bind (json_get ''error'' frame) (\<lambda>error.
         if error = JNull then None
         else Some \<lparr>see_code = (case Option.bind (json_get ''code'' error) json_str of
                       Some s \<Rightarrow> s | None \<Rightarrow> ''unknown''),
                    see_message = (case Option.bind (json_get ''message'' error) json_str of
                       Some s \<Rightarrow> s | None \<Rightarrow> '''')\<rparr>))"

section \<open>The incremental reader\<close>

datatype client_error = Http string | RpcError nat string | DecodeError string | MissingReply string

text \<open>
  One pull of the stream over the bytes buffered and the chunks still to come, a chunk
  either bytes or a read error: the item with what is left, or the end.
\<close>

fun read_next ::
  "(bytes \<Rightarrow> json option) \<Rightarrow> (bytes \<Rightarrow> string + 'm) \<Rightarrow> bytes \<Rightarrow> (string + bytes) list
   \<Rightarrow> ((client_error + 'm) \<times> bytes \<times> (string + bytes) list) option"
and read_more ::
  "(bytes \<Rightarrow> json option) \<Rightarrow> (bytes \<Rightarrow> string + 'm) \<Rightarrow> bytes \<Rightarrow> (string + bytes) list
   \<Rightarrow> ((client_error + 'm) \<times> bytes \<times> (string + bytes) list) option" where
  "read_next J M buf chunks = (case decode_envelope_result buf of
       Inr (flags, payload, consumed) \<Rightarrow>
         if and flags FLAG_EOS \<noteq> 0
         then (case end_of_stream_error J payload of
                 Some e \<Rightarrow> Some (Inl (RpcError 200 (see_code e @ '': '' @ see_message e)), drop consumed buf, chunks)
               | None \<Rightarrow> None)
         else Some (map_err DecodeError (M payload), drop consumed buf, chunks)
     | Inl _ \<Rightarrow> read_more J M buf chunks)"
| "read_more J M buf [] = None"
| "read_more J M buf (Inr chunk # chunks) = read_next J M (buf @ chunk) chunks"
| "read_more J M buf (Inl e # chunks) = Some (Inl (Http (''stream read: '' @ e)), buf, chunks)"

definition pending :: "bytes \<Rightarrow> (string + bytes) list \<Rightarrow> nat" where
  "pending buf chunks =
     length buf + sum_list (map (\<lambda>c. Suc (case c of Inl _ \<Rightarrow> 0 | Inr b \<Rightarrow> length b)) chunks)"

lemma decode_consumes:
  assumes "decode_envelope_result buf = Inr (flags, payload, consumed)"
  shows "5 \<le> consumed" "consumed \<le> length buf"
  using assms by (auto simp: decode_envelope_result_def Let_def split: list.splits if_splits)

lemma read_next_pending:
  "read_next J M buf chunks = Some (item, buf', chunks') \<Longrightarrow> pending buf' chunks' < pending buf chunks"
  "read_more J M buf chunks = Some (item, buf', chunks') \<Longrightarrow> pending buf' chunks' < pending buf chunks"
proof (induction J M buf chunks and J M buf chunks rule: read_next_read_more.induct)
  case (1 J M buf chunks)
  then show ?case
    using decode_consumes [of buf]
    by (fastforce simp: pending_def simp del: read_next.simps(1) simp: read_next.simps(1) [of J M buf chunks]
        split: sum.splits prod.splits if_splits option.splits)
qed (auto simp: pending_def)

declare read_next.simps(1) [simp del]

text \<open>The whole stream: pulling until the end.\<close>

function read_all ::
  "(bytes \<Rightarrow> json option) \<Rightarrow> (bytes \<Rightarrow> string + 'm) \<Rightarrow> bytes \<Rightarrow> (string + bytes) list
   \<Rightarrow> (client_error + 'm) list" where
  "read_all J M buf chunks = (case read_next J M buf chunks of
       None \<Rightarrow> []
     | Some (item, buf', chunks') \<Rightarrow> item # read_all J M buf' chunks')"
  by pat_completeness auto
termination
  by (relation "measure (\<lambda>(J, M, buf, chunks). pending buf chunks)") (auto dest: read_next_pending(1))

declare read_all.simps [simp del]

section \<open>The reader does not depend on the chunks\<close>

text \<open>What a complete frame at the front of the body makes of a pull.\<close>

definition frame_result ::
  "(bytes \<Rightarrow> json option) \<Rightarrow> (bytes \<Rightarrow> string + 'm) \<Rightarrow> u8 \<Rightarrow> bytes \<Rightarrow> (client_error + 'm) option" where
  "frame_result J M flags payload =
     (if and flags FLAG_EOS \<noteq> 0
      then map_option (\<lambda>e. Inl (RpcError 200 (see_code e @ '': '' @ see_message e))) (end_of_stream_error J payload)
      else Some (map_err DecodeError (M payload)))"

lemma read_next_frame:
  assumes "encode_envelope flags payload = Some frame" and "buf @ concat bs = frame @ rest"
  shows "\<exists>buf' bs'. buf' @ concat bs' = rest \<and> read_next J M buf (map Inr bs) =
    map_option (\<lambda>item. (item, buf', map Inr bs')) (frame_result J M flags payload)"
  using assms(2)
proof (induction bs arbitrary: buf)
  case Nil
  then have "buf = frame @ rest" by simp
  then show ?case
    using encode_frame(1) [OF assms(1), of rest]
    by (intro exI [of _ rest] exI [of _ "[]"])
       (auto simp: read_next.simps(1) frame_result_def split: option.splits)
next
  case (Cons b bs)
  show ?case
  proof (cases "length frame \<le> length buf")
    case True
    then obtain buf' where buf: "buf = frame @ buf'" "buf' @ concat (b # bs) = rest"
      using Cons.prems by (metis append_eq_append_conv_if append_take_drop_id)
    then show ?thesis
      using encode_frame(1) [OF assms(1), of buf']
      by (intro exI [of _ buf'] exI [of _ "b # bs"])
         (auto simp: read_next.simps(1) frame_result_def split: option.splits)
  next
    case False
    then have "buf = take (length buf) frame"
      using Cons.prems by (metis append_eq_append_conv_if append_eq_conv_conj less_imp_le_nat not_le)
    then obtain e where "decode_envelope_result buf = Inl e"
      using encode_frame(2) [OF assms(1)] False by (metis not_le)
    then have "read_next J M buf (map Inr (b # bs)) = read_next J M (buf @ b) (map Inr bs)"
      by (simp add: read_next.simps(1) [of J M buf])
    then show ?thesis using Cons.IH [of "buf @ b"] Cons.prems by simp
  qed
qed

text \<open>A body that stops inside a frame ends the stream.\<close>

lemma read_next_incomplete:
  assumes "encode_envelope flags payload = Some frame" and "n < length frame"
    and "buf @ concat bs = take n frame"
  shows "read_next J M buf (map Inr bs) = None"
  using assms(3)
proof (induction bs arbitrary: buf)
  case Nil
  then have "\<exists>e. decode_envelope_result buf = Inl e"
    using encode_frame(2) [OF assms(1,2)] by simp
  then show ?case by (auto simp: read_next.simps(1))
next
  case (Cons b bs)
  have "buf = take (length buf) frame" "length buf \<le> n"
    using Cons.prems assms(2) 
    by (metis append_eq_conv_conj min.absorb3 nat_less_le take_take take_all_iff length_append le_add1 length_take min_def)+
  then have "\<exists>e. decode_envelope_result buf = Inl e"
    using encode_frame(2) [OF assms(1)] assms(2) by (metis le_less_trans)
  then show ?case using Cons.IH [of "buf @ b"] Cons.prems by (auto simp: read_next.simps(1) [of J M buf])
qed

text \<open>The frames of a list of messages.\<close>

definition message_frames :: "bytes list \<Rightarrow> bytes list \<Rightarrow> bool" where
  "message_frames payloads frames = list_all2 (\<lambda>p f. encode_envelope FLAG_MESSAGE p = Some f) payloads frames"

lemma frame_result_message: "frame_result J M FLAG_MESSAGE p = Some (map_err DecodeError (M p))"
  by (simp add: frame_result_def FLAG_MESSAGE_def)

text \<open>The messages at the front of a body are read one by one, whatever follows.\<close>

lemma read_all_messages:
  assumes "message_frames payloads frames" and "buf @ concat bs = concat frames @ rest"
  shows "\<exists>buf' bs'. buf' @ concat bs' = rest \<and> read_all J M buf (map Inr bs) =
    map (\<lambda>p. map_err DecodeError (M p)) payloads @ read_all J M buf' (map Inr bs')"
  using assms
proof (induction payloads arbitrary: frames buf bs)
  case Nil
  then show ?case by (auto simp: message_frames_def)
next
  case (Cons p payloads)
  then obtain f fs where f: "frames = f # fs" "encode_envelope FLAG_MESSAGE p = Some f" "message_frames payloads fs"
    by (auto simp: message_frames_def list_all2_Cons1)
  obtain buf1 bs1 where one: "buf1 @ concat bs1 = concat fs @ rest"
    "read_next J M buf (map Inr bs) = Some (map_err DecodeError (M p), buf1, map Inr bs1)"
    using read_next_frame [OF f(2), of buf bs "concat fs @ rest" J M] Cons.prems(2) f(1)
    by (auto simp: frame_result_message)
  obtain buf' bs' where "buf' @ concat bs' = rest" "read_all J M buf1 (map Inr bs1) =
    map (\<lambda>p. map_err DecodeError (M p)) payloads @ read_all J M buf' (map Inr bs')"
    using Cons.IH [OF f(3) one(1)] by blast
  then show ?case using one(2) by (auto simp: read_all.simps [of J M buf])
qed

text \<open>
  C20: the reader of a streamed reply yields exactly the messages sent, in order.  However the
  body is cut into chunks, the stream of a reply that carries the given messages and then a
  clean end-of-stream frame is the list of the decoded messages.
\<close>

theorem stream_independent_of_chunks:
  assumes "message_frames payloads frames" and "encode_envelope FLAG_EOS eos = Some last_frame"
    and "end_of_stream_error J eos = None" and "concat bs = concat frames @ last_frame @ trailing"
  shows "read_all J M [] (map Inr bs) = map (\<lambda>p. map_err DecodeError (M p)) payloads"
proof -
  have "[] @ concat bs = concat frames @ last_frame @ trailing" using assms(4) by simp
  from read_all_messages [OF assms(1) this, of J M]
  obtain buf' bs' where b: "buf' @ concat bs' = last_frame @ trailing" "read_all J M [] (map Inr bs) =
      map (\<lambda>p. map_err DecodeError (M p)) payloads @ read_all J M buf' (map Inr bs')" by blast
  have "frame_result J M FLAG_EOS eos = None"
    using assms(3) by (simp add: frame_result_def FLAG_EOS_def)
  then have "read_next J M buf' (map Inr bs') = None"
    using read_next_frame [OF assms(2) b(1), of J M] by auto
  then show ?thesis using b(2) by (simp add: read_all.simps [of J M buf'])
qed

text \<open>
  A reply that is cut off is reported as complete.  When the body ends without an
  end-of-stream frame, after whole messages or in the middle of one, the stream is the same
  as that of a clean reply with those messages: no error item tells the caller that the
  connection was lost.
\<close>

theorem cut_stream_looks_complete:
  assumes "message_frames payloads frames" and "encode_envelope flags payload = Some frame"
    and "n < length frame" and "concat bs = concat frames @ take n frame"
  shows "read_all J M [] (map Inr bs) = map (\<lambda>p. map_err DecodeError (M p)) payloads"
proof -
  have "[] @ concat bs = concat frames @ take n frame" using assms(4) by simp
  from read_all_messages [OF assms(1) this, of J M]
  obtain buf' bs' where b: "buf' @ concat bs' = take n frame" "read_all J M [] (map Inr bs) =
      map (\<lambda>p. map_err DecodeError (M p)) payloads @ read_all J M buf' (map Inr bs')" by blast
  then show ?thesis
    using read_next_incomplete [OF assms(2,3) b(1), of J M] by (simp add: read_all.simps [of J M buf'])
qed

definition demo_json :: "bytes \<Rightarrow> json option" where
  "demo_json payload = Some (JObject [(''error'', JNull)])"

definition demo_decode :: "bytes \<Rightarrow> string + nat" where
  "demo_decode payload = Inr (length payload)"

lemma demo_frames: "message_frames [[7]] [[0, 0, 0, 0, 1, 7]]" "encode_envelope FLAG_EOS [1] = Some [2, 0, 0, 0, 1, 1]"
  by (simp_all add: message_frames_def encode_envelope_def to_be_bytes_def FLAG_MESSAGE_def FLAG_EOS_def u32_max_def)

theorem stream_independent_of_chunks_witness:
  "read_all demo_json demo_decode [] (map Inr [[0, 0, 0], [0, 1], [7, 2, 0], [0, 0, 1, 1]]) = [Inr 1]"
  using stream_independent_of_chunks [OF demo_frames, of demo_json "[[0, 0, 0], [0, 1], [7, 2, 0], [0, 0, 1, 1]]" "[]" demo_decode]
  by (simp add: demo_json_def demo_decode_def end_of_stream_error_def json_get_def)

theorem cut_stream_looks_complete_witness:
  "read_all demo_json demo_decode [] (map Inr [[0, 0, 0], [0, 1], [7, 2, 0]]) = [Inr 1]"
  using cut_stream_looks_complete [OF demo_frames, of 2 "[[0, 0, 0], [0, 1], [7, 2, 0]]" demo_json demo_decode]
  by (simp add: demo_decode_def)

end
