(* ===== verification/Overflow.thy ===== *)
theory Overflow
  imports Ports "HOL-Library.Sublist"
begin

text \<open>
  The backpressure-aware channel of \<open>overflow.rs\<close>: a sender with an overflow policy, a buffer,
  the forwarding task and a bounded channel to the receiver.  Sender, forwarder and receiver
  run concurrently; a step of the pipe is one step of one of them.
\<close>

section \<open>The pipe\<close>

text \<open>
  Where the forwarding task stands: before the load of \<open>source_closed\<close> (\<open>Top\<close>), about to take
  the buffer for the last time (\<open>FinalTake\<close>) or for an ordinary drain (\<open>Take\<close>), sending what it
  took (\<open>FinalSend\<close>, \<open>Sending\<close>), waiting for a notification (\<open>Waiting\<close>), returned
  (\<open>Stopped\<close>).
\<close>

datatype forwarder = Top | FinalTake | FinalSend | Take | Sending | Waiting | Stopped

text \<open>
  \<open>p_permit\<close> is the stored permit of \<open>Notify\<close>, \<open>p_pending\<close> the number of senders that have
  left the buffer lock (or stored the closed flag) and have not yet called \<open>notify_one\<close>.
  \<open>p_in_flight\<close> are the items the forwarder has taken out of the buffer and is sending on,
  \<open>p_chan\<close> the bounded channel, \<open>p_received\<close> what the receiver got; \<open>p_sent\<close> records the
  accepted items for the specification.
\<close>

record ('k, 't) pipe =
  p_buf :: "('k \<times> 't) list"
  p_in_flight :: "'t list"
  p_chan :: "'t list"
  p_received :: "'t list"
  p_source_closed :: bool
  p_rx_open :: bool
  p_fwd :: forwarder
  p_permit :: bool
  p_pending :: nat
  p_sent :: "'t list"

definition policy_channel :: "nat \<Rightarrow> nat \<times> ('k, 't) pipe" where
  "policy_channel cap = (max cap 1, \<lparr>p_buf = [], p_in_flight = [], p_chan = [], p_received = [],
     p_source_closed = False, p_rx_open = True, p_fwd = Top, p_permit = False, p_pending = 0, p_sent = []\<rparr>)"

text \<open>Popping the front while the buffer is over its capacity.\<close>

fun trim_front :: "nat \<Rightarrow> 'a list \<Rightarrow> 'a list" where
  "trim_front cap [] = []"
| "trim_front cap (x # xs) = (if length (x # xs) > cap then trim_front cap xs else x # xs)"

fun replace_key :: "'k \<Rightarrow> 't \<Rightarrow> ('k \<times> 't) list \<Rightarrow> ('k \<times> 't) list option" where
  "replace_key k item [] = None"
| "replace_key k item ((k', old) # buf) =
     (if k' = k then Some ((k', item) # buf)
      else map_option (Cons (k', old)) (replace_key k item buf))"

definition buffer_push ::
  "nat \<Rightarrow> overflow_policy \<Rightarrow> ('t \<Rightarrow> 'k) \<Rightarrow> 't \<Rightarrow> ('k \<times> 't) list \<Rightarrow> ('k \<times> 't) list" where
  "buffer_push cap policy key_fn item buf =
     (if policy = Coalesce
      then (case replace_key (key_fn item) item buf of
              Some buf' \<Rightarrow> buf'
            | None \<Rightarrow> trim_front cap (buf @ [(key_fn item, item)]))
      else trim_front cap (buf @ [(key_fn item, item)]))"

text \<open>
  A send: \<open>Some True\<close> accepted, \<open>Some False\<close> the receiver is gone, \<open>None\<close> still waiting for
  room in the channel.  The \<open>notify_one\<close> that ends a buffered send and a close happens outside
  the buffer lock, so it is a step of its own.
\<close>

definition policy_send ::
  "nat \<Rightarrow> overflow_policy \<Rightarrow> ('t \<Rightarrow> 'k) \<Rightarrow> 't \<Rightarrow> ('k, 't) pipe \<Rightarrow> bool option \<times> ('k, 't) pipe" where
  "policy_send cap policy key_fn item s =
     (if \<not> p_rx_open s then (Some False, s)
      else if policy = Block
      then (if length (p_chan s) < cap
            then (Some True, s\<lparr>p_chan := p_chan s @ [item], p_sent := p_sent s @ [item]\<rparr>)
            else (None, s))
      else (Some True, s\<lparr>p_buf := buffer_push cap policy key_fn item (p_buf s),
              p_pending := Suc (p_pending s), p_sent := p_sent s @ [item]\<rparr>))"

definition policy_close :: "('k, 't) pipe \<Rightarrow> ('k, 't) pipe" where
  "policy_close s = s\<lparr>p_source_closed := True, p_pending := Suc (p_pending s)\<rparr>"

definition notify_one :: "('k, 't) pipe \<Rightarrow> ('k, 't) pipe" where
  "notify_one s = (if p_pending s = 0 then s else s\<lparr>p_permit := True, p_pending := p_pending s - 1\<rparr>)"

text \<open>Sending the next item that was taken; \<open>done_pc\<close> is where the loop goes after the last.\<close>

definition send_next :: "nat \<Rightarrow> forwarder \<Rightarrow> ('k, 't) pipe \<Rightarrow> ('k, 't) pipe" where
  "send_next cap done_pc s = (case p_in_flight s of
       [] \<Rightarrow> s\<lparr>p_fwd := done_pc\<rparr>
     | item # items \<Rightarrow>
         (if \<not> p_rx_open s then s\<lparr>p_fwd := Stopped, p_in_flight := []\<rparr>
          else if length (p_chan s) < cap
          then s\<lparr>p_chan := p_chan s @ [item], p_in_flight := items\<rparr>
          else s))"

text \<open>One step of the forwarding task.\<close>

definition forward_step :: "nat \<Rightarrow> ('k, 't) pipe \<Rightarrow> ('k, 't) pipe" where
  "forward_step cap s = (case p_fwd s of
       Top \<Rightarrow> s\<lparr>p_fwd := (if p_source_closed s then FinalTake else Take)\<rparr>
     | FinalTake \<Rightarrow> s\<lparr>p_in_flight := map snd (p_buf s), p_buf := [], p_fwd := FinalSend\<rparr>
     | FinalSend \<Rightarrow> send_next cap Stopped s
     | Take \<Rightarrow> (if p_buf s = [] then s\<lparr>p_fwd := Waiting\<rparr>
               else s\<lparr>p_in_flight := map snd (p_buf s), p_buf := [], p_fwd := Sending\<rparr>)
     | Sending \<Rightarrow> send_next cap Top s
     | Waiting \<Rightarrow> (if p_permit s then s\<lparr>p_permit := False, p_fwd := Top\<rparr> else s)
     | Stopped \<Rightarrow> s)"

definition recv_step :: "('k, 't) pipe \<Rightarrow> ('k, 't) pipe" where
  "recv_step s = (case p_chan s of
       [] \<Rightarrow> s
     | item # items \<Rightarrow> s\<lparr>p_chan := items, p_received := p_received s @ [item]\<rparr>)"

definition drop_receiver :: "('k, 't) pipe \<Rightarrow> ('k, 't) pipe" where
  "drop_receiver s = s\<lparr>p_rx_open := False\<rparr>"

inductive pipe_step ::
  "nat \<Rightarrow> overflow_policy \<Rightarrow> ('t \<Rightarrow> 'k) \<Rightarrow> ('k, 't) pipe \<Rightarrow> ('k, 't) pipe \<Rightarrow> bool"
  for cap policy key_fn where
  pipe_send: "policy_send cap policy key_fn item s = (r, s') \<Longrightarrow> pipe_step cap policy key_fn s s'"
| pipe_close: "pipe_step cap policy key_fn s (policy_close s)"
| pipe_notify: "pipe_step cap policy key_fn s (notify_one s)"
| pipe_forward: "pipe_step cap policy key_fn s (forward_step cap s)"
| pipe_recv: "p_rx_open s \<Longrightarrow> pipe_step cap policy key_fn s (recv_step s)"
| pipe_drop: "pipe_step cap policy key_fn s (drop_receiver s)"

definition pipe_init :: "('k, 't) pipe \<Rightarrow> bool" where
  "pipe_init s \<longleftrightarrow> s = snd (policy_channel 1)"

section \<open>The buffer\<close>

lemma trim_front_drop: "trim_front cap xs = drop (length xs - cap) xs"
proof (induction cap xs rule: trim_front.induct)
  case (2 cap x xs)
  then show ?case by (cases "length xs < cap") (auto simp: Suc_diff_le not_less)
qed simp

lemma replace_key_Some:
  assumes "replace_key k item buf = Some buf'"
  obtains xs old ys where "buf = xs @ (k, old) # ys" "buf' = xs @ (k, item) # ys" "k \<notin> fst ` set xs"
  using assms
proof (induction k item buf arbitrary: buf' thesis rule: replace_key.induct)
  case (2 k item k' old buf)
  show ?case
  proof (cases "k' = k")
    case True
    then show ?thesis using "2.prems" by (auto intro: "2.prems"(1) [of "[]"])
  next
    case False
    then obtain b where b: "replace_key k item buf = Some b" "buf' = (k', old) # b" using "2.prems"(2) by auto
    obtain xs o1 ys where "buf = xs @ (k, o1) # ys" "b = xs @ (k, item) # ys" "k \<notin> fst ` set xs"
      using "2.IH" [OF False _ b(1)] by blast
    then show ?thesis using b(2) False by (intro "2.prems"(1) [of "(k', old) # xs"]) auto
  qed
qed simp

lemma replace_key_None: "replace_key k item buf = None \<longleftrightarrow> k \<notin> fst ` set buf"
  by (induction k item buf rule: replace_key.induct) auto

lemma buffer_push_length: "length buf \<le> cap \<Longrightarrow> length (buffer_push cap policy key_fn item buf) \<le> cap"
  by (auto simp: buffer_push_def trim_front_drop split: option.splits elim!: replace_key_Some)

section \<open>Bounds and order\<close>

definition in_pipe :: "('k, 't) pipe \<Rightarrow> 't list" where
  "in_pipe s = p_received s @ p_chan s @ p_in_flight s @ map snd (p_buf s)"

definition pipe_bounded :: "nat \<Rightarrow> ('k, 't) pipe \<Rightarrow> bool" where
  "pipe_bounded cap s \<longleftrightarrow> length (p_buf s) \<le> cap \<and> length (p_in_flight s) \<le> cap \<and> length (p_chan s) \<le> cap"

definition buf_ok :: "overflow_policy \<Rightarrow> ('t \<Rightarrow> 'k) \<Rightarrow> ('k \<times> 't) list \<Rightarrow> bool" where
  "buf_ok policy f buf \<longleftrightarrow> (\<forall>(k, item) \<in> set buf. k = f item)
     \<and> (policy = Coalesce \<longrightarrow> distinct (map fst buf))"

text \<open>The items of one key, in order.\<close>

definition of_key :: "('t \<Rightarrow> 'k) \<Rightarrow> 'k \<Rightarrow> 't list \<Rightarrow> 't list" where
  "of_key key_fn k items = filter (\<lambda>t. key_fn t = k) items"

lemma subseq_drop: "subseq (drop n xs) xs"
  by (metis append_take_drop_id subseq_drop_many subseq_order.order_refl)

text \<open>The task holds items only while it is sending them.\<close>

definition holds_items :: "forwarder \<Rightarrow> bool" where
  "holds_items pc \<longleftrightarrow> pc = Sending \<or> pc = FinalSend"

definition idle_empty :: "('k, 't) pipe \<Rightarrow> bool" where
  "idle_empty s \<longleftrightarrow> (\<not> holds_items (p_fwd s) \<longrightarrow> p_in_flight s = [])"

lemma in_pipe_send_next: "subseq (in_pipe (send_next cap pc s)) (in_pipe s)"
  by (auto simp: send_next_def in_pipe_def subseq_append' intro: subseq_drop_many split: list.splits)

lemma in_pipe_forward: "idle_empty s \<Longrightarrow> subseq (in_pipe (forward_step cap s)) (in_pipe s)"
  by (cases "p_fwd s")
     (simp_all add: forward_step_def in_pipe_send_next [unfolded in_pipe_def] idle_empty_def holds_items_def in_pipe_def)

lemma in_pipe_forward_open: "idle_empty s \<Longrightarrow> p_rx_open s \<Longrightarrow> in_pipe (forward_step cap s) = in_pipe s"
  by (cases "p_fwd s")
     (auto simp: forward_step_def send_next_def idle_empty_def holds_items_def in_pipe_def split: list.splits)

lemma idle_empty_forward: "idle_empty s \<Longrightarrow> idle_empty (forward_step cap s)"
  by (cases "p_fwd s")
     (auto simp: forward_step_def send_next_def idle_empty_def holds_items_def split: list.splits)

lemma in_pipe_recv [simp]: "in_pipe (recv_step s) = in_pipe s"
  by (auto simp: recv_step_def in_pipe_def split: list.splits)

lemma of_key_append [simp]: "of_key f k (xs @ ys) = of_key f k xs @ of_key f k ys"
  by (simp add: of_key_def)

lemma of_key_subseq: "subseq xs ys \<Longrightarrow> subseq (of_key f k xs) (of_key f k ys)"
  unfolding of_key_def by (rule subseq_filter)

text \<open>A buffered send adds the item at the end and drops or replaces older ones.\<close>

lemma trim_push_subseq:
  "subseq (map snd (trim_front cap (buf @ [(f item, item)]))) (map snd buf @ [item])"
proof -
  have "map snd (trim_front cap (buf @ [(f item, item)])) =
      drop (Suc (length buf) - cap) (map snd (buf @ [(f item, item)]))"
    by (simp only: trim_front_drop drop_map) simp
  then show ?thesis
    using subseq_drop [of "Suc (length buf) - cap" "map snd (buf @ [(f item, item)])"]
    by (simp only: map_append list.map snd_conv)
qed

lemma push_cases:
  assumes "buf_ok policy f buf"
  obtains xs old ys where "policy = Coalesce" "buf = xs @ (f item, old) # ys" "f old = f item"
      "buffer_push cap policy f item buf = xs @ (f item, item) # ys"
      "f item \<notin> f ` snd ` set xs" "f item \<notin> f ` snd ` set ys"
  | "buffer_push cap policy f item buf = drop (Suc (length buf) - cap) (buf @ [(f item, item)])"
      "policy = Coalesce \<longrightarrow> f item \<notin> fst ` set buf"
proof (cases "policy = Coalesce \<and> replace_key (f item) item buf \<noteq> None")
  case True
  then obtain buf' where b: "replace_key (f item) item buf = Some buf'" by auto
  obtain xs old ys where buf: "buf = xs @ (f item, old) # ys" "buf' = xs @ (f item, item) # ys"
    using b by (elim replace_key_Some)
  have "\<forall>(k, t) \<in> set buf. k = f t" and d: "distinct (map fst buf)"
    using assms True by (simp_all add: buf_ok_def)
  then have keys: "\<forall>(k, t) \<in> set xs \<union> set ys. k = f t" "f old = f item" unfolding buf(1) by auto
  have "f item \<notin> fst ` set xs" "f item \<notin> fst ` set ys" using d buf(1) by simp_all
  moreover have "fst ` set xs = f ` snd ` set xs" "fst ` set ys = f ` snd ` set ys"
    using keys(1) by (force simp: image_iff)+
  ultimately show ?thesis
    using that(1) [of xs old ys] True buf keys(2) b by (simp add: buffer_push_def)
next
  case False
  then show ?thesis
    by (intro that(2)) (auto simp: buffer_push_def trim_front_drop simp flip: replace_key_None [of _ item])
qed

lemma of_key_none: "f item \<notin> f ` set xs \<Longrightarrow> k = f item \<Longrightarrow> of_key f k xs = []"
  by (simp add: of_key_def filter_empty_conv) (metis imageI)

lemma push_of_key:
  assumes "buf_ok policy f buf"
  shows "subseq (of_key f k (map snd (buffer_push cap policy f item buf))) (of_key f k (map snd buf @ [item]))"
  using assms
proof (cases rule: push_cases [where item = item and cap = cap])
  case (1 xs old ys)
  show ?thesis
  proof (cases "k = f item")
    case True
    then have "of_key f k (map snd xs) = []" "of_key f k (map snd ys) = []"
      using 1 of_key_none [of f item "map snd xs" k] of_key_none [of f item "map snd ys" k] by simp_all
    then show ?thesis using 1 True by (simp add: of_key_def)
  next
    case False
    then show ?thesis using 1 by (simp add: of_key_def)
  qed
next
  case 2
  then show ?thesis
    using of_key_subseq [OF trim_push_subseq [of cap buf f item], of f k] by (simp add: trim_front_drop)
qed

lemma push_ok:
  assumes "buf_ok policy f buf"
  shows "buf_ok policy f (buffer_push cap policy f item buf)"
  using assms
proof (cases rule: push_cases [where item = item and cap = cap])
  case (1 xs old ys)
  then have same: "map fst (buffer_push cap policy f item buf) = map fst buf" by simp
  have "\<forall>(k, t) \<in> set (xs @ (f item, item) # ys). k = f t"
    using assms unfolding buf_ok_def 1(2) by auto
  then show ?thesis using assms 1(4) unfolding buf_ok_def same by simp
next
  case 2
  have "distinct (map fst (buf @ [(f item, item)]))" if "policy = Coalesce"
    using assms 2(2) that by (simp add: buf_ok_def)
  then have "distinct (map fst (buffer_push cap policy f item buf))" if "policy = Coalesce"
    using that distinct_drop unfolding 2(1) drop_map [symmetric] by blast
  moreover have "\<forall>(k, t) \<in> set (buffer_push cap policy f item buf). k = f t"
    using assms unfolding buf_ok_def 2(1) by (auto dest: in_set_dropD)
  ultimately show ?thesis by (simp add: buf_ok_def)
qed


section \<open>The invariants\<close>

text \<open>
  Control: the task holds items only while sending, it is on its final drain only after a close,
  and a wake-up is never lost: whenever it waits, or is about to, with work to do, a permit is
  stored or about to be stored.
\<close>

definition pipe_ctl :: "('k, 't) pipe \<Rightarrow> bool" where
  "pipe_ctl s \<longleftrightarrow> idle_empty s
     \<and> (p_fwd s \<in> {FinalTake, FinalSend, Stopped} \<longrightarrow> p_source_closed s \<or> \<not> p_rx_open s)
     \<and> (p_fwd s \<in> {Take, Waiting} \<and> p_source_closed s \<longrightarrow> p_permit s \<or> 0 < p_pending s)
     \<and> (p_fwd s = Waiting \<and> p_buf s \<noteq> [] \<longrightarrow> p_permit s \<or> 0 < p_pending s)"

lemma forward_ctl: "pipe_ctl s \<Longrightarrow> pipe_ctl (forward_step cap s)"
  by (cases "p_fwd s")
     (simp_all add: pipe_ctl_def forward_step_def send_next_def idle_empty_def holds_items_def split: list.split, blast+)

lemma send_ctl: "pipe_ctl s \<Longrightarrow> pipe_ctl (snd (policy_send cap policy f item s))"
  by (simp add: policy_send_def pipe_ctl_def idle_empty_def) blast

lemma recv_ctl: "pipe_ctl s \<Longrightarrow> pipe_ctl (recv_step s)"
  by (cases "p_chan s") (simp_all add: recv_step_def pipe_ctl_def idle_empty_def)

lemma flag_ctl:
  assumes "pipe_ctl s"
  shows "pipe_ctl (policy_close s)" "pipe_ctl (notify_one s)" "pipe_ctl (drop_receiver s)"
  using assms
  by (auto simp: policy_close_def notify_one_def drop_receiver_def pipe_ctl_def idle_empty_def)

lemma step_ctl: "pipe_step cap policy f s t \<Longrightarrow> pipe_ctl s \<Longrightarrow> pipe_ctl t"
  by (erule pipe_step.cases) (metis send_ctl snd_conv, simp_all add: forward_ctl recv_ctl flag_ctl)

text \<open>
  Data: the queues are bounded; under \<open>Block\<close> nothing is lost; otherwise what is in the pipe is
  in the order it was sent, per key, and the newest item survives as long as the receiver does
  (the newest item of every key when coalescing with room for all the keys).
\<close>

definition keeps_newest :: "('t \<Rightarrow> 'k) \<Rightarrow> 'k \<Rightarrow> ('k, 't) pipe \<Rightarrow> bool" where
  "keeps_newest f k s \<longleftrightarrow> of_key f k (p_sent s) \<noteq> [] \<longrightarrow>
     of_key f k (in_pipe s) \<noteq> [] \<and> last (of_key f k (in_pipe s)) = last (of_key f k (p_sent s))"

definition keys_fit :: "nat \<Rightarrow> ('t \<Rightarrow> 'k) \<Rightarrow> bool" where
  "keys_fit cap f \<longleftrightarrow> finite (range f) \<and> card (range f) \<le> cap"

definition pipe_inv :: "nat \<Rightarrow> overflow_policy \<Rightarrow> ('t \<Rightarrow> 'k) \<Rightarrow> ('k, 't) pipe \<Rightarrow> bool" where
  "pipe_inv cap policy f s \<longleftrightarrow> pipe_bounded cap s \<and> buf_ok policy f (p_buf s)
     \<and> (policy = Block \<longrightarrow> p_buf s = [] \<and> p_in_flight s = [] \<and> p_received s @ p_chan s = p_sent s)
     \<and> (policy = DropOldest \<longrightarrow> subseq (in_pipe s) (p_sent s))
     \<and> (\<forall>k. subseq (of_key f k (in_pipe s)) (of_key f k (p_sent s)))
     \<and> (p_rx_open s \<and> p_sent s \<noteq> [] \<longrightarrow> last (p_sent s) \<in> set (in_pipe s))
     \<and> (p_rx_open s \<and> policy = Coalesce \<and> keys_fit cap f \<longrightarrow> (\<forall>k. keeps_newest f k s))"

lemma pipe_invI:
  assumes "pipe_bounded cap s" and "buf_ok policy f (p_buf s)"
    and "policy = Block \<Longrightarrow> p_buf s = [] \<and> p_in_flight s = [] \<and> p_received s @ p_chan s = p_sent s"
    and "policy = DropOldest \<Longrightarrow> subseq (in_pipe s) (p_sent s)"
    and "\<And>k. subseq (of_key f k (in_pipe s)) (of_key f k (p_sent s))"
    and "p_rx_open s \<Longrightarrow> p_sent s \<noteq> [] \<Longrightarrow> last (p_sent s) \<in> set (in_pipe s)"
    and "\<And>k. p_rx_open s \<Longrightarrow> policy = Coalesce \<Longrightarrow> keys_fit cap f \<Longrightarrow> keeps_newest f k s"
  shows "pipe_inv cap policy f s"
  unfolding pipe_inv_def using assms by blast

lemma pipe_invD:
  assumes "pipe_inv cap policy f s"
  shows "pipe_bounded cap s" and "buf_ok policy f (p_buf s)"
    and "policy = Block \<Longrightarrow> p_buf s = [] \<and> p_in_flight s = [] \<and> p_received s @ p_chan s = p_sent s"
    and "policy = DropOldest \<Longrightarrow> subseq (in_pipe s) (p_sent s)"
    and "subseq (of_key f k (in_pipe s)) (of_key f k (p_sent s))"
    and "p_rx_open s \<Longrightarrow> p_sent s \<noteq> [] \<Longrightarrow> last (p_sent s) \<in> set (in_pipe s)"
    and "p_rx_open s \<Longrightarrow> policy = Coalesce \<Longrightarrow> keys_fit cap f \<Longrightarrow> keeps_newest f k s"
  using assms unfolding pipe_inv_def by blast+

lemma push_keeps_newest: "0 < cap \<Longrightarrow> item \<in> snd ` set (buffer_push cap policy f item buf)"
  by (auto simp: buffer_push_def trim_front_drop image_iff split: option.splits elim!: replace_key_Some)

lemma fresh_key_fits:
  assumes "buf_ok Coalesce f buf" and "keys_fit cap f" and "f item \<notin> fst ` set buf"
  shows "length buf < cap"
proof -
  have sub: "insert (f item) (fst ` set buf) \<subseteq> range f"
    using assms(1) by (auto simp: buf_ok_def)
  have "distinct (map fst buf)" using assms(1) by (simp add: buf_ok_def)
  then have "length buf = card (fst ` set buf)" by (metis distinct_card length_map list.set_map)
  then have "Suc (length buf) = card (insert (f item) (fst ` set buf))" using assms(3) by simp
  also have "\<dots> \<le> card (range f)" using sub assms(2) by (intro card_mono) (simp_all add: keys_fit_def)
  finally show ?thesis using assms(2) by (simp add: keys_fit_def)
qed

lemma push_of_key_fits:
  assumes "buf_ok Coalesce f buf" and "keys_fit cap f"
  shows "of_key f k (map snd (buffer_push cap Coalesce f item buf)) =
    (if k = f item then [item] else of_key f k (map snd buf))"
  using assms(1)
proof (cases rule: push_cases [where item = item and cap = cap])
  case (1 xs old ys)
  then have "of_key f (f item) (map snd xs) = []" "of_key f (f item) (map snd ys) = []"
    using of_key_none [of f item "map snd xs" "f item"] of_key_none [of f item "map snd ys" "f item"] by simp_all
  then show ?thesis using 1 by (auto simp: of_key_def)
next
  case 2
  have fresh: "f item \<notin> fst ` set buf" using 2(2) by simp
  have "fst ` set buf = f ` set (map snd buf)"
    using assms(1) by (force simp: buf_ok_def image_iff)
  then have "of_key f (f item) (map snd buf) = []" using fresh by (intro of_key_none [of f item]) simp_all
  moreover have "buffer_push cap Coalesce f item buf = buf @ [(f item, item)]"
    using 2(1) fresh_key_fits [OF assms fresh] by simp
  ultimately show ?thesis by (auto simp: of_key_def)
qed

lemma send_keeps_newest:
  assumes "buf_ok Coalesce f (p_buf s)" and "keys_fit cap f" and "keeps_newest f k s"
    and "s' = s\<lparr>p_buf := buffer_push cap Coalesce f item (p_buf s), p_pending := n, p_sent := p_sent s @ [item]\<rparr>"
  shows "keeps_newest f k s'"
proof -
  define A where "A = of_key f k (p_received s @ p_chan s @ p_in_flight s)"
  have "of_key f k (in_pipe s') = A @ (if k = f item then [item] else of_key f k (map snd (p_buf s)))"
    using push_of_key_fits [OF assms(1,2), of k item] by (simp add: assms(4) in_pipe_def A_def)
  moreover have "of_key f k (in_pipe s) = A @ of_key f k (map snd (p_buf s))" by (simp add: in_pipe_def A_def)
  moreover have "of_key f k (p_sent s') = of_key f k (p_sent s) @ (if k = f item then [item] else [])"
    by (simp add: assms(4)) (simp add: of_key_def)
  ultimately show ?thesis using assms(3) by (cases "k = f item") (simp_all add: keeps_newest_def)
qed

lemma block_inv:
  assumes inv: "pipe_inv cap Block f s" and "length (p_chan s) < cap"
  shows "pipe_inv cap Block f (s\<lparr>p_chan := p_chan s @ [item], p_sent := p_sent s @ [item]\<rparr>)" (is "pipe_inv _ _ _ ?t")
proof -
  have "in_pipe ?t = p_sent ?t" using pipe_invD(3) [OF inv] by (simp add: in_pipe_def)
  then show ?thesis
    using pipe_invD(1-3) [OF inv] assms(2) by (intro pipe_invI) (simp_all add: pipe_bounded_def)
qed

lemma buffered_inv:
  assumes inv: "pipe_inv cap policy f s" and "0 < cap" and "policy \<noteq> Block"
  shows "pipe_inv cap policy f (s\<lparr>p_buf := buffer_push cap policy f item (p_buf s), p_pending := n, p_sent := p_sent s @ [item]\<rparr>)"
    (is "pipe_inv _ _ _ ?t")
proof -
  define A where "A = p_received s @ p_chan s @ p_in_flight s"
  have pipe: "in_pipe s = A @ map snd (p_buf s)"
    "in_pipe ?t = A @ map snd (buffer_push cap policy f item (p_buf s))"
    by (simp_all add: in_pipe_def A_def)
  note ok = pipe_invD(2) [OF inv]
  have "subseq (map snd (buffer_push cap policy f item (p_buf s))) (map snd (p_buf s) @ [item])" if "policy = DropOldest"
    using that trim_push_subseq [of cap "p_buf s" f item] by (simp add: buffer_push_def)
  then have drop: "subseq (in_pipe ?t) (in_pipe s @ [item])" if "policy = DropOldest"
    unfolding pipe using that by (simp add: subseq_append')
  have keys: "subseq (of_key f k (in_pipe ?t)) (of_key f k (in_pipe s @ [item]))" for k
    using push_of_key [OF ok, of k cap item] by (simp add: pipe subseq_append')
  show ?thesis
  proof (rule pipe_invI)
    show "pipe_bounded cap ?t"
      using pipe_invD(1) [OF inv] by (simp add: pipe_bounded_def buffer_push_length)
    show "buf_ok policy f (p_buf ?t)" using push_ok [OF ok] by simp
    show "subseq (in_pipe ?t) (p_sent ?t)" if "policy = DropOldest"
      by (rule subseq_order.order_trans [OF drop [OF that]]) (use pipe_invD(4) [OF inv that] in simp)
    show "subseq (of_key f k (in_pipe ?t)) (of_key f k (p_sent ?t))" for k
      by (rule subseq_order.order_trans [OF keys]) (use pipe_invD(5) [OF inv, of k] in simp)
    show "last (p_sent ?t) \<in> set (in_pipe ?t)"
      using push_keeps_newest [OF assms(2), of item policy f "p_buf s"] by (simp add: pipe)
    show "keeps_newest f k ?t" if "p_rx_open ?t" "policy = Coalesce" "keys_fit cap f" for k
    proof (rule send_keeps_newest [OF _ that(3)])
      show "buf_ok Coalesce f (p_buf s)" using ok that(2) by simp
      show "keeps_newest f k s" using pipe_invD(7) [OF inv] that by simp
      show "?t = s\<lparr>p_buf := buffer_push cap Coalesce f item (p_buf s), p_pending := n, p_sent := p_sent s @ [item]\<rparr>"
        using that(2) by simp
    qed
  qed (use assms(3) in simp)
qed

lemma send_inv:
  assumes inv: "pipe_inv cap policy f s" and "0 < cap" and "policy_send cap policy f item s = (r, s')"
  shows "pipe_inv cap policy f s'"
  using assms(3) inv block_inv [of cap f s item] buffered_inv [OF inv assms(2), of item "Suc (p_pending s)"]
  by (auto simp: policy_send_def split: if_splits)

lemma send_next_bounded: "pipe_bounded cap s \<Longrightarrow> pipe_bounded cap (send_next cap pc s)"
  by (auto simp: pipe_bounded_def send_next_def split: list.splits)

lemma send_next_frame [simp]:
  "p_sent (send_next cap pc s) = p_sent s" "p_rx_open (send_next cap pc s) = p_rx_open s"
  "p_buf (send_next cap pc s) = p_buf s" "p_source_closed (send_next cap pc s) = p_source_closed s"
  "p_permit (send_next cap pc s) = p_permit s" "p_pending (send_next cap pc s) = p_pending s"
  "p_received (send_next cap pc s) = p_received s"
  by (simp_all add: send_next_def split: list.splits)

lemma forward_frame [simp]:
  "p_sent (forward_step cap s) = p_sent s" "p_rx_open (forward_step cap s) = p_rx_open s"
  "p_source_closed (forward_step cap s) = p_source_closed s" "p_pending (forward_step cap s) = p_pending s"
  "p_received (forward_step cap s) = p_received s"
  by (simp_all add: forward_step_def split: forwarder.split)

lemma forward_bounded: "pipe_bounded cap s \<Longrightarrow> pipe_bounded cap (forward_step cap s)"
  by (cases "p_fwd s") (simp_all add: forward_step_def send_next_bounded, simp_all add: pipe_bounded_def)

lemma forward_block:
  "p_buf s = [] \<Longrightarrow> p_in_flight s = [] \<Longrightarrow>
     p_buf (forward_step cap s) = [] \<and> p_in_flight (forward_step cap s) = [] \<and> p_chan (forward_step cap s) = p_chan s"
  by (cases "p_fwd s") (simp_all add: forward_step_def send_next_def)

lemma forward_inv:
  assumes inv: "pipe_inv cap policy f s" and ctl: "idle_empty s"
  shows "pipe_inv cap policy f (forward_step cap s)"
proof -
  have "p_buf (forward_step cap s) = p_buf s \<or> p_buf (forward_step cap s) = []"
    by (cases "p_fwd s") (simp_all add: forward_step_def)
  then have "buf_ok policy f (p_buf (forward_step cap s))" using inv by (auto simp: pipe_inv_def buf_ok_def)
  moreover have "pipe_bounded cap (forward_step cap s)" using pipe_invD(1) [OF inv] by (rule forward_bounded)
  moreover have "subseq (of_key f k (in_pipe (forward_step cap s))) (of_key f k (p_sent s))" for k
    using inv of_key_subseq [OF in_pipe_forward [OF ctl]] unfolding pipe_inv_def by (meson subseq_order.order_trans)
  moreover have "policy = DropOldest \<longrightarrow> subseq (in_pipe (forward_step cap s)) (p_sent s)"
    using inv in_pipe_forward [OF ctl] unfolding pipe_inv_def by (meson subseq_order.order_trans)
  moreover have "in_pipe (forward_step cap s) = in_pipe s" if "p_rx_open s"
    using in_pipe_forward_open [OF ctl that] .
  ultimately show ?thesis
    using pipe_invD(3,6,7) [OF inv] forward_block [of s cap]
    by (intro pipe_invI) (simp_all add: keeps_newest_def)
qed

lemma recv_inv: "pipe_inv cap policy f s \<Longrightarrow> pipe_inv cap policy f (recv_step s)"
proof (cases "p_chan s")
  case (Cons item items)
  moreover assume "pipe_inv cap policy f s"
  moreover have "in_pipe (recv_step s) = in_pipe s" by simp
  ultimately show ?thesis by (simp add: pipe_inv_def pipe_bounded_def recv_step_def keeps_newest_def)
qed (simp add: recv_step_def)

lemma flag_inv:
  assumes "pipe_inv cap policy f s"
  shows "pipe_inv cap policy f (policy_close s)" "pipe_inv cap policy f (drop_receiver s)"
    "pipe_inv cap policy f (notify_one s)"
proof -
  have "in_pipe (policy_close s) = in_pipe s" "in_pipe (drop_receiver s) = in_pipe s" "in_pipe (notify_one s) = in_pipe s"
    by (simp_all add: in_pipe_def policy_close_def drop_receiver_def notify_one_def)
  then show "pipe_inv cap policy f (policy_close s)" "pipe_inv cap policy f (drop_receiver s)"
      "pipe_inv cap policy f (notify_one s)"
    using assms
    by (simp_all add: pipe_inv_def pipe_bounded_def policy_close_def drop_receiver_def notify_one_def keeps_newest_def)
qed

lemma step_inv:
  assumes "pipe_step cap policy f s t" and "0 < cap" and "pipe_inv cap policy f s" and "pipe_ctl s"
  shows "pipe_inv cap policy f t"
  using assms by (cases rule: pipe_step.cases) (simp_all add: send_inv forward_inv recv_inv flag_inv pipe_ctl_def)

lemma init_inv: "pipe_init s \<Longrightarrow> pipe_inv cap policy f s \<and> pipe_ctl s"
  by (simp add: pipe_init_def policy_channel_def pipe_inv_def pipe_bounded_def buf_ok_def in_pipe_def
    pipe_ctl_def idle_empty_def keeps_newest_def of_key_def)

interpretation pipe: invariant_system pipe_init "pipe_step (max c 1) policy f"
  "\<lambda>s. pipe_inv (max c 1) policy f s \<and> pipe_ctl s"
proof
  show "pipe_inv (max c 1) policy f t \<and> pipe_ctl t"
    if "pipe_inv (max c 1) policy f s \<and> pipe_ctl s" "pipe_step (max c 1) policy f s t" for s t
    using that step_inv [OF that(2)] step_ctl [OF that(2)] by simp
qed (rule init_inv)


section \<open>Draining\<close>

text \<open>One fair round of everybody but the producer: the notifier, the task, the receiver.\<close>

definition drain_round :: "nat \<Rightarrow> ('k, 't) pipe \<Rightarrow> ('k, 't) pipe" where
  "drain_round cap s = recv_step (forward_step cap (notify_one s))"

definition items_left :: "('k, 't) pipe \<Rightarrow> nat" where
  "items_left s = 3 * length (p_buf s) + 2 * length (p_in_flight s) + length (p_chan s)"

definition wakes_left :: "('k, 't) pipe \<Rightarrow> nat" where
  "wakes_left s = 2 * p_pending s + of_bool (p_permit s)"

fun pc_rank :: "forwarder \<Rightarrow> nat" where
  "pc_rank Sending = 4" | "pc_rank Top = 3" | "pc_rank Take = 2" | "pc_rank FinalTake = 2"
| "pc_rank FinalSend = 1" | "pc_rank Waiting = 0" | "pc_rank Stopped = 0"

definition quiet :: "('k, 't) pipe \<Rightarrow> bool" where
  "quiet s \<longleftrightarrow> p_pending s = 0 \<and> p_chan s = [] \<and> (p_fwd s = Stopped \<or> p_fwd s = Waiting \<and> \<not> p_permit s)"

lemma recv_progress:
  "items_left (recv_step s) \<le> items_left s" "p_chan s \<noteq> [] \<Longrightarrow> items_left (recv_step s) < items_left s"
  "wakes_left (recv_step s) = wakes_left s" "p_fwd (recv_step s) = p_fwd s"
  by (simp_all add: recv_step_def items_left_def wakes_left_def split: list.split)

lemma notify_progress:
  "items_left (notify_one s) = items_left s" "wakes_left (notify_one s) \<le> wakes_left s"
  "p_pending s \<noteq> 0 \<Longrightarrow> wakes_left (notify_one s) < wakes_left s"
  "p_fwd (notify_one s) = p_fwd s" "p_chan (notify_one s) = p_chan s" "p_buf (notify_one s) = p_buf s"
  "p_pending s = 0 \<Longrightarrow> notify_one s = s"
  by (auto simp: notify_one_def items_left_def wakes_left_def)

abbreviation fwd_lt :: "('k, 't) pipe \<Rightarrow> ('k, 't) pipe \<Rightarrow> bool" where
  "fwd_lt t s \<equiv> (t, s) \<in> measures [items_left, wakes_left, \<lambda>s. pc_rank (p_fwd s)]"

lemma forward_progress:
  assumes "0 < cap"
  shows "fwd_lt (forward_step cap s) s \<or> forward_step cap s = s"
proof (cases "p_fwd s")
  case FinalSend
  then show ?thesis using assms by (cases "p_in_flight s") (auto simp: forward_step_def send_next_def items_left_def wakes_left_def)
next
  case Sending
  then show ?thesis using assms by (cases "p_in_flight s") (auto simp: forward_step_def send_next_def items_left_def wakes_left_def)
qed (auto simp: forward_step_def items_left_def wakes_left_def)

lemma fwd_lt_trans: "fwd_lt t u \<Longrightarrow> fwd_lt u s \<Longrightarrow> fwd_lt t s"
  by auto

lemma recv_lt: "fwd_lt (recv_step s) s \<or> recv_step s = s \<and> p_chan s = []"
proof (cases "p_chan s")
  case Nil
  then show ?thesis by (simp add: recv_step_def)
next
  case (Cons item items)
  then show ?thesis using recv_progress(2) [of s] by simp
qed

lemma notify_lt: "fwd_lt (notify_one s) s \<or> notify_one s = s \<and> p_pending s = 0"
proof (cases "p_pending s = 0")
  case False
  then show ?thesis using notify_progress(1,3) [of s] by simp
qed (simp add: notify_progress(7))

lemma forward_stuck:
  assumes "0 < cap" "forward_step cap s = s" "p_chan s = []"
  shows "p_fwd s = Stopped \<or> p_fwd s = Waiting \<and> \<not> p_permit s"
proof (rule ccontr)
  assume busy: "\<not> ?thesis"
  then have "p_fwd (forward_step cap s) \<noteq> p_fwd s \<or> p_in_flight (forward_step cap s) \<noteq> p_in_flight s"
    using assms(1,3) by (cases "p_fwd s") (auto simp: forward_step_def send_next_def split: list.split)
  then show False using assms(2) by simp
qed

lemma drain_round_lt:
  assumes "0 < cap" and "\<not> quiet s"
  shows "fwd_lt (drain_round cap s) s"
proof -
  let ?u = "notify_one s"
  let ?v = "forward_step cap ?u"
  have round: "drain_round cap s = recv_step ?v" by (simp add: drain_round_def)
  consider "fwd_lt (recv_step ?v) ?v" | "recv_step ?v = ?v" "fwd_lt ?v ?u"
    | "recv_step ?v = ?v" "?v = ?u" "fwd_lt ?u s" | "recv_step ?v = ?v" "p_chan ?v = []" "?v = ?u" "?u = s" "p_pending s = 0"
    using recv_lt [of ?v] forward_progress [OF assms(1), of ?u] notify_lt [of s] by metis
  then show ?thesis
  proof cases
    case 1
    then show ?thesis
      using forward_progress [OF assms(1), of ?u] notify_lt [of s] round fwd_lt_trans by metis
  next
    case 2
    then show ?thesis using notify_lt [of s] round fwd_lt_trans by metis
  next
    case 3
    then show ?thesis using round by simp
  next
    case 4
    then have "quiet s" using forward_stuck [OF assms(1), of s] by (auto simp: quiet_def)
    then show ?thesis using assms(2) by simp
  qed
qed

lemma drains: "0 < cap \<Longrightarrow> \<exists>n. quiet ((drain_round cap ^^ n) s)"
proof (induction s rule: wf_induct_rule [OF wf_measures [of "[items_left, wakes_left, \<lambda>s. pc_rank (p_fwd s)]"]])
  case (1 s)
  show ?case
  proof (cases "quiet s")
    case True
    then show ?thesis by (intro exI [of _ 0]) simp
  next
    case False
    then obtain n where "quiet ((drain_round cap ^^ n) (drain_round cap s))"
      using 1 drain_round_lt by blast
    then show ?thesis by (intro exI [of _ "Suc n"]) (simp add: funpow_swap1)
  qed
qed

text \<open>What a round keeps while the receiver is there and no item came too late.\<close>

definition drainable :: "('k, 't) pipe \<Rightarrow> bool" where
  "drainable s \<longleftrightarrow> pipe_ctl s \<and> p_rx_open s \<and> (p_fwd s \<in> {FinalSend, Stopped} \<longrightarrow> p_buf s = [])"

lemma forward_drainable:
  assumes "drainable s"
  shows "drainable (forward_step cap s)"
proof -
  have "p_fwd (forward_step cap s) \<in> {FinalSend, Stopped} \<longrightarrow> p_buf (forward_step cap s) = []"
    using assms by (cases "p_fwd s") (auto simp: drainable_def forward_step_def send_next_def split: list.splits)
  then show ?thesis using assms by (simp add: drainable_def forward_ctl)
qed

lemma round_drainable:
  assumes "drainable s"
  shows "drainable (drain_round cap s)"
    "in_pipe (drain_round cap s) = in_pipe s" "p_source_closed (drain_round cap s) = p_source_closed s"
proof -
  have n: "drainable (notify_one s)" "in_pipe (notify_one s) = in_pipe s" "p_source_closed (notify_one s) = p_source_closed s"
    using assms flag_ctl(2) [of s] by (simp_all add: drainable_def notify_one_def in_pipe_def)
  have r: "drainable (recv_step t)" if "drainable t" for t :: "('a, 'b) pipe"
    using that recv_ctl [of t] by (auto simp: drainable_def recv_step_def split: list.split)
  have "p_source_closed (recv_step t) = p_source_closed t" for t :: "('a, 'b) pipe"
    by (simp add: recv_step_def split: list.split)
  moreover have "in_pipe (forward_step cap (notify_one s)) = in_pipe (notify_one s)"
    using n(1) by (intro in_pipe_forward_open) (simp_all add: drainable_def pipe_ctl_def)
  ultimately show "drainable (drain_round cap s)"
    "in_pipe (drain_round cap s) = in_pipe s" "p_source_closed (drain_round cap s) = p_source_closed s"
    using n r [OF forward_drainable [OF n(1)]] by (simp_all add: drain_round_def)
qed

lemma rounds_drainable:
  assumes "drainable s"
  shows "drainable ((drain_round cap ^^ n) s) \<and> in_pipe ((drain_round cap ^^ n) s) = in_pipe s
    \<and> p_source_closed ((drain_round cap ^^ n) s) = p_source_closed s"
  using assms by (induction n) (simp_all add: round_drainable)

lemma quiet_drained:
  assumes "drainable t" and "quiet t"
  shows "p_received t = in_pipe t" and "p_source_closed t \<Longrightarrow> p_fwd t = Stopped"
  using assms by (auto simp: drainable_def quiet_def pipe_ctl_def idle_empty_def holds_items_def in_pipe_def)

lemma drainable_delivers:
  assumes "0 < cap" and "drainable s"
  shows "\<exists>n. p_received ((drain_round cap ^^ n) s) = in_pipe s \<and> quiet ((drain_round cap ^^ n) s)
    \<and> (p_source_closed s \<longrightarrow> p_fwd ((drain_round cap ^^ n) s) = Stopped)"
proof -
  obtain n where q: "quiet ((drain_round cap ^^ n) s)" using drains [OF assms(1)] by blast
  have "drainable ((drain_round cap ^^ n) s)" "in_pipe ((drain_round cap ^^ n) s) = in_pipe s"
    "p_source_closed ((drain_round cap ^^ n) s) = p_source_closed s"
    using rounds_drainable [OF assms(2)] by blast+
  then show ?thesis using quiet_drained [OF _ q] q by (intro exI [of _ n]) simp
qed

section \<open>Properties\<close>

text \<open>A reachable pipe: two symbols' tickers, one replaced in the buffer.\<close>

definition demo_pipe :: "overflow_policy \<Rightarrow> (nat, nat \<times> nat) pipe" where
  "demo_pipe policy = foldl (\<lambda>s item. snd (policy_send 2 policy fst item s)) (snd (policy_channel 2))
     [(0, 10), (1, 20), (0, 11)]"

lemma demo_pipe_reach: "reach pipe_init (pipe_step (max 2 1) policy fst) (demo_pipe policy)"
proof -
  have "reach pipe_init (pipe_step 2 policy fst) (foldl (\<lambda>s item. snd (policy_send 2 policy fst item s)) s items)"
    if "reach pipe_init (pipe_step 2 policy fst) s" for items and s :: "(nat, nat \<times> nat) pipe"
    using that
  proof (induction items arbitrary: s)
    case (Cons item items)
    have "pipe_step 2 policy fst s (snd (policy_send 2 policy fst item s))"
      by (rule pipe_step.pipe_send [of 2 policy fst item s "fst (policy_send 2 policy fst item s)"]) simp
    then show ?case using Cons reach.intros(2) by fastforce
  qed simp
  moreover have "pipe_init (snd (policy_channel 2))" by (simp add: pipe_init_def policy_channel_def)
  ultimately have "reach pipe_init (pipe_step 2 policy fst) (demo_pipe policy)"
    unfolding demo_pipe_def by (blast intro: reach.intros)
  then show ?thesis by (simp add: max_def)
qed


text \<open>Whatever the producers, the task and the receiver do, in any interleaving, the buffer,
  the batch the task is sending and the channel never hold more than the capacity each, so a
  stalled consumer costs bounded memory.\<close>

theorem pipe_memory_bounded:
  assumes "reach pipe_init (pipe_step (max c 1) policy f) s"
  shows "length (p_buf s) \<le> max c 1 \<and> length (p_in_flight s) \<le> max c 1 \<and> length (p_chan s) \<le> max c 1"
  using pipe.inv_reach [OF assms] unfolding pipe_inv_def pipe_bounded_def by blast

theorem pipe_memory_bounded_witness:
  "length (p_buf (demo_pipe DropOldest)) \<le> max 2 1 \<and> length (p_in_flight (demo_pipe DropOldest)) \<le> max 2 1
    \<and> length (p_chan (demo_pipe DropOldest)) \<le> max 2 1"
  by (rule pipe_memory_bounded [OF demo_pipe_reach])



text \<open>C18: as long as the receiver is there, the last accepted item is still in the pipe or has
  been delivered, whatever was dropped before it; and when the buffer has room for every key, a
  coalescing pipe keeps the newest item of each key.\<close>

theorem newest_item_survives:
  assumes "reach pipe_init (pipe_step (max c 1) policy f) s" and "p_rx_open s"
  shows "(p_sent s \<noteq> [] \<longrightarrow> last (p_sent s) \<in> set (in_pipe s))
    \<and> (policy = Coalesce \<and> keys_fit (max c 1) f \<and> of_key f k (p_sent s) \<noteq> [] \<longrightarrow>
         of_key f k (in_pipe s) \<noteq> [] \<and> last (of_key f k (in_pipe s)) = last (of_key f k (p_sent s)))"
  using pipe_invD(6,7) [OF pipe.inv_reach [OF assms(1), THEN conjunct1]] assms(2)
  unfolding keeps_newest_def by blast

lemma demo_pipe_simps [simp]:
  "p_rx_open (demo_pipe DropOldest)" "\<not> p_source_closed (demo_pipe DropOldest)"
  "p_sent (demo_pipe DropOldest) = [(0, 10), (1, 20), (0, 11)]"
  "in_pipe (demo_pipe DropOldest) = [(1, 20), (0, 11)]"
  by code_simp+

theorem newest_item_survives_witness:
  "(0, 11) \<in> set (in_pipe (demo_pipe DropOldest)) \<and> (0, 10) \<notin> set (in_pipe (demo_pipe DropOldest))"
  using newest_item_survives [OF demo_pipe_reach [of DropOldest], of 0] by simp

text \<open>C16: no wake-up is lost.  From every reachable open pipe, a finite number of fair rounds of
  the notifier, the task and the receiver delivers everything the pipe holds and comes to rest;
  and if the source closes there, the task also returns.\<close>

theorem pipe_drains_and_stops:
  assumes "reach pipe_init (pipe_step (max c 1) policy f) s" and "p_rx_open s" and "\<not> p_source_closed s"
  shows "(\<exists>n. p_received ((drain_round (max c 1) ^^ n) s) = in_pipe s \<and> quiet ((drain_round (max c 1) ^^ n) s))
    \<and> (\<exists>n. p_received ((drain_round (max c 1) ^^ n) (policy_close s)) = in_pipe s
         \<and> p_fwd ((drain_round (max c 1) ^^ n) (policy_close s)) = Stopped)"
proof -
  have ctl: "pipe_ctl s" using pipe.inv_reach [OF assms(1)] by blast
  then have "drainable s" using assms(2,3) by (auto simp: drainable_def pipe_ctl_def)
  moreover have "drainable (policy_close s)" "in_pipe (policy_close s) = in_pipe s" "p_source_closed (policy_close s)"
    using ctl flag_ctl(1) [OF ctl] assms(2,3)
    by (auto simp: drainable_def policy_close_def in_pipe_def) (auto simp: pipe_ctl_def)
  moreover have "0 < max c 1" by simp
  ultimately show ?thesis
    using drainable_delivers [of "max c 1" s] drainable_delivers [of "max c 1" "policy_close s"] by metis
qed

theorem pipe_drains_and_stops_witness:
  "\<exists>n. p_received ((drain_round (max 2 1) ^^ n) (policy_close (demo_pipe DropOldest))) = [(1, 20), (0, 11)]
     \<and> p_fwd ((drain_round (max 2 1) ^^ n) (policy_close (demo_pipe DropOldest))) = Stopped"
  using pipe_drains_and_stops [OF demo_pipe_reach [of DropOldest]] by simp

text \<open>An item sent to a buffered pipe after its task has returned is accepted and never
  delivered.\<close>

theorem late_send_is_lost:
  assumes "policy \<noteq> Block" and "p_fwd s = Stopped" and "p_rx_open s"
    and "(pipe_step cap policy f)\<^sup>*\<^sup>* (snd (policy_send cap policy f item s)) t"
  shows "fst (policy_send cap policy f item s) = Some True
    \<and> (\<exists>rest. p_received s @ p_chan s = p_received t @ rest)"
proof -
  have keep: "p_fwd v = Stopped \<and> p_received v @ p_chan v = p_received u @ p_chan u"
    if "pipe_step cap policy f u v" "p_fwd u = Stopped" for u v
    using that assms(1)
    by (cases rule: pipe_step.cases)
       (auto simp: policy_send_def policy_close_def notify_one_def forward_step_def recv_step_def drop_receiver_def
         split: if_splits list.splits)
  from assms(4) have "p_fwd t = Stopped \<and> p_received t @ p_chan t = p_received s @ p_chan s"
  proof (induction rule: rtranclp_induct)
    case base
    then show ?case using assms(1-3) by (simp add: policy_send_def)
  next
    case (step u v)
    then show ?case using keep [of u v] by simp
  qed
  then show ?thesis using assms(1,3) by (simp add: policy_send_def) metis
qed

definition demo_stopped :: "(nat, nat \<times> nat) pipe" where
  "demo_stopped = (forward_step 2 ^^ 3) (policy_close (snd (policy_channel 2)))"

lemma demo_stopped_simps: "p_fwd demo_stopped = Stopped" "p_rx_open demo_stopped"
  by (simp_all add: demo_stopped_def policy_channel_def policy_close_def forward_step_def send_next_def numeral_3_eq_3)

theorem late_send_is_lost_witness:
  "fst (policy_send 2 DropOldest fst (0, 12) demo_stopped) = Some True
    \<and> (\<exists>rest. p_received demo_stopped @ p_chan demo_stopped =
         p_received (drain_round 2 (snd (policy_send 2 DropOldest fst (0, 12) demo_stopped))) @ rest)"
proof -
  let ?s = "snd (policy_send 2 DropOldest fst (0, 12) demo_stopped)"
  have "p_rx_open ?s" using demo_stopped_simps by (simp add: policy_send_def)
  then have "p_rx_open (forward_step 2 (notify_one ?s))" by (simp add: notify_one_def)
  then have "pipe_step 2 DropOldest fst (forward_step 2 (notify_one ?s)) (drain_round 2 ?s)"
    unfolding drain_round_def by (rule pipe_step.pipe_recv)
  then have "(pipe_step 2 DropOldest fst)\<^sup>*\<^sup>* ?s (drain_round 2 ?s)"
    using pipe_step.pipe_notify [of 2 DropOldest fst ?s] pipe_step.pipe_forward [of 2 DropOldest fst "notify_one ?s"]
    by (blast intro: rtranclp.rtrancl_refl rtranclp.rtrancl_into_rtrancl)
  then show ?thesis
    using late_send_is_lost [of DropOldest demo_stopped 2 fst "(0, 12)"] demo_stopped_simps by blast
qed

end
