(* ===== verification/Market_Data.thy ===== *)
theory Market_Data
  imports Overflow
begin

text \<open>
  Market data (\<open>adapters/mod.rs\<close>, \<open>proto/longtrader/market\<close>): the events of a market-data
  stream, the key they coalesce under, and the shared poll-based subscription that every
  backend uses, one poll task per subscription into one policy pipe.
\<close>

section \<open>Contract data\<close>

record ticker =
  tk_header :: "event_header option"
  tk_symbol :: string
  tk_timestamp :: "timestamp option"
  tk_bid :: "wire_decimal option"
  tk_ask :: "wire_decimal option"
  tk_last :: "wire_decimal option"
  tk_close :: "wire_decimal option"

record price_level =
  pl_price :: "wire_decimal option"
  pl_amount :: "wire_decimal option"

record order_book =
  ob_header :: "event_header option"
  ob_symbol :: string
  ob_timestamp :: "timestamp option"
  ob_bids :: "price_level list"
  ob_asks :: "price_level list"

datatype trade_side = TradeSideUnspecified | TradeBuy | TradeSell

record public_trade =
  pt_header :: "event_header option"
  pt_id :: string
  pt_symbol :: string
  pt_timestamp :: "timestamp option"
  pt_side :: "trade_side enum_value"
  pt_price :: "wire_decimal option"
  pt_amount :: "wire_decimal option"

record ohlcv =
  oh_header :: "event_header option"
  oh_timestamp :: "timestamp option"
  oh_open :: "wire_decimal option"
  oh_high :: "wire_decimal option"
  oh_low :: "wire_decimal option"
  oh_close :: "wire_decimal option"
  oh_volume :: "wire_decimal option"

datatype market_event_body =
    TickerEvent ticker | OrderbookEvent order_book | TradeEvent public_trade | OhlcvEvent ohlcv

record market_data_event =
  mde_header :: "event_header option"
  mde_event :: "market_event_body option"
  mde_resume_token :: string

record stream_subscription =
  sub_channel :: "stream_channel enum_value"
  sub_symbol :: string

record stream_market_data_request =
  smr_exchange_id :: "exchange_id option"
  smr_subscriptions :: "stream_subscription list"
  smr_resume_token :: string

section \<open>The coalescing key\<close>

definition event_channel_name :: "market_event_body option \<Rightarrow> string" where
  "event_channel_name event = (case event of
       Some (TickerEvent _) \<Rightarrow> ''ticker''
     | Some (OrderbookEvent _) \<Rightarrow> ''book''
     | Some (TradeEvent _) \<Rightarrow> ''trade''
     | Some (OhlcvEvent _) \<Rightarrow> ''ohlcv''
     | None \<Rightarrow> ''none'')"

definition event_symbol :: "market_event_body option \<Rightarrow> string" where
  "event_symbol event = (case event of
       Some (TickerEvent t) \<Rightarrow> tk_symbol t
     | Some (OrderbookEvent b) \<Rightarrow> ob_symbol b
     | Some (TradeEvent t) \<Rightarrow> pt_symbol t
     | _ \<Rightarrow> '''')"

definition market_event_key :: "market_data_event \<Rightarrow> string" where
  "market_event_key event = event_channel_name (mde_event event) @ '':'' @ event_symbol (mde_event event)"

section \<open>Polling\<close>

definition BUFFER_CAP :: nat where "BUFFER_CAP = 16"

text \<open>A poll task: what it polls and the event it is waiting to hand over, if any.\<close>

record poll_task =
  pk_channel :: stream_channel
  pk_symbol :: string
  pk_event :: "market_data_event option"

record poll_state =
  ps_pipe :: "(string, market_data_event) pipe"
  ps_seq :: u64
  ps_tasks :: "(nat \<times> poll_task) list"
  ps_live :: nat

definition known_channel :: "stream_channel enum_value \<Rightarrow> stream_channel" where
  "known_channel c = (case c of Known ch \<Rightarrow> ch | Unknown _ \<Rightarrow> ChannelUnspecified)"

definition poll_tasks :: "stream_subscription list \<Rightarrow> poll_task list" where
  "poll_tasks subs = map (\<lambda>s. \<lparr>pk_channel = known_channel (sub_channel s), pk_symbol = sub_symbol s, pk_event = None\<rparr>)
     (filter (\<lambda>s. sub_symbol s \<noteq> []) subs)"

text \<open>
  Setting up a subscription.  Without an exchange, and when nothing can be polled, the pipe is
  closed at once.
\<close>

definition poll_market_data :: "stream_market_data_request \<Rightarrow> poll_state" where
  "poll_market_data req =
     (let pipe = snd (policy_channel BUFFER_CAP);
          tasks = (case smr_exchange_id req of None \<Rightarrow> [] | Some _ \<Rightarrow> poll_tasks (smr_subscriptions req))
      in \<lparr>ps_pipe = (if tasks = [] then policy_close pipe else pipe), ps_seq = 0,
          ps_tasks = enumerate 0 tasks, ps_live = length tasks\<rparr>)"

text \<open>A task ends; the last one closes the pipe.\<close>

definition finish_task :: "nat \<Rightarrow> poll_state \<Rightarrow> poll_state" where
  "finish_task i s = s\<lparr>ps_tasks := filter (\<lambda>(j, _). j \<noteq> i) (ps_tasks s), ps_live := ps_live s - 1,
     ps_pipe := (if ps_live s = 1 then policy_close (ps_pipe s) else ps_pipe s)\<rparr>"

definition set_event :: "nat \<Rightarrow> market_data_event option \<Rightarrow> poll_state \<Rightarrow> poll_state" where
  "set_event i ev s = s\<lparr>ps_tasks := map (\<lambda>(j, t). (j, if j = i then t\<lparr>pk_event := ev\<rparr> else t)) (ps_tasks s)\<rparr>"

text \<open>
  One step of a task: hand over the event it holds, or, at a tick, stop when the receiver is
  gone and otherwise fetch.  The fetcher sees the shared sequence counter.
\<close>

definition poll_task_step ::
  "overflow_policy \<Rightarrow> (stream_channel \<Rightarrow> string \<Rightarrow> u64 \<Rightarrow> (port_error + market_data_event option) \<times> u64)
   \<Rightarrow> nat \<Rightarrow> poll_task \<Rightarrow> poll_state \<Rightarrow> poll_state" where
  "poll_task_step policy fetcher i task s = (case pk_event task of
       Some event \<Rightarrow> (case policy_send BUFFER_CAP policy market_event_key event (ps_pipe s) of
           (None, _) \<Rightarrow> s
         | (Some True, pipe) \<Rightarrow> set_event i None (s\<lparr>ps_pipe := pipe\<rparr>)
         | (Some False, _) \<Rightarrow> finish_task i s)
     | None \<Rightarrow>
         if \<not> p_rx_open (ps_pipe s) then finish_task i s
         else case fetcher (pk_channel task) (pk_symbol task) (ps_seq s) of
             (Inr (Some event), seq) \<Rightarrow> set_event i (Some event) (s\<lparr>ps_seq := seq\<rparr>)
           | (_, seq) \<Rightarrow> s\<lparr>ps_seq := seq\<rparr>)"

inductive poll_step ::
  "overflow_policy \<Rightarrow> (stream_channel \<Rightarrow> string \<Rightarrow> u64 \<Rightarrow> (port_error + market_data_event option) \<times> u64)
   \<Rightarrow> poll_state \<Rightarrow> poll_state \<Rightarrow> bool" for policy fetcher where
  poll_tick: "(i, task) \<in> set (ps_tasks s) \<Longrightarrow> poll_step policy fetcher s (poll_task_step policy fetcher i task s)"
| poll_notify: "poll_step policy fetcher s (s\<lparr>ps_pipe := notify_one (ps_pipe s)\<rparr>)"
| poll_forward: "poll_step policy fetcher s (s\<lparr>ps_pipe := forward_step BUFFER_CAP (ps_pipe s)\<rparr>)"
| poll_recv: "p_rx_open (ps_pipe s) \<Longrightarrow> poll_step policy fetcher s (s\<lparr>ps_pipe := recv_step (ps_pipe s)\<rparr>)"
| poll_drop: "poll_step policy fetcher s (s\<lparr>ps_pipe := drop_receiver (ps_pipe s)\<rparr>)"

section \<open>The stream ends exactly when nobody polls\<close>

text \<open>What a request makes the backend poll.\<close>

definition pollable :: "stream_market_data_request \<Rightarrow> (stream_channel \<times> string) list" where
  "pollable req = (case smr_exchange_id req of None \<Rightarrow> []
     | Some _ \<Rightarrow> map (\<lambda>s. (known_channel (sub_channel s), sub_symbol s))
         (filter (\<lambda>s. sub_symbol s \<noteq> []) (smr_subscriptions req)))"

definition polled :: "(nat \<times> poll_task) list \<Rightarrow> (stream_channel \<times> string) list" where
  "polled tasks = map (\<lambda>(_, t). (pk_channel t, pk_symbol t)) tasks"

text \<open>
  The pipe below a subscription is a pipe of the overflow theory; the live counter is the
  number of tasks, the source is closed exactly when there is none, and while the receiver is
  there every pollable subscription has its task.
\<close>

definition poll_inv :: "overflow_policy \<Rightarrow> stream_market_data_request \<Rightarrow> poll_state \<Rightarrow> bool" where
  "poll_inv policy req s \<longleftrightarrow> reach pipe_init (pipe_step BUFFER_CAP policy market_event_key) (ps_pipe s)
     \<and> ps_live s = length (ps_tasks s) \<and> distinct (map fst (ps_tasks s))
     \<and> (p_source_closed (ps_pipe s) \<longleftrightarrow> ps_tasks s = [])
     \<and> (p_rx_open (ps_pipe s) \<longrightarrow> polled (ps_tasks s) = pollable req)"

lemma pipe_flags [simp]:
  "p_source_closed (notify_one p) = p_source_closed p" "p_rx_open (notify_one p) = p_rx_open p"
  "p_source_closed (drop_receiver p) = p_source_closed p" "\<not> p_rx_open (drop_receiver p)"
  "p_source_closed (recv_step p) = p_source_closed p" "p_rx_open (recv_step p) = p_rx_open p"
  "p_source_closed (policy_close p)" "p_rx_open (policy_close p) = p_rx_open p"
  by (simp_all add: notify_one_def drop_receiver_def recv_step_def policy_close_def split: list.split)

lemma filter_other_length:
  assumes "(i, x) \<in> set al" and "distinct (map fst al)"
  shows "length (filter (\<lambda>(j, _). j \<noteq> i) al) = length al - 1"
proof -
  have "map fst (filter (\<lambda>(j, _). j \<noteq> i) al) = removeAll i (map fst al)"
    by (induction al) auto
  then have "length (filter (\<lambda>(j, _). j \<noteq> i) al) = length (removeAll i (map fst al))"
    by (metis length_map)
  also have "\<dots> = length (remove1 i (map fst al))" using assms(2) by (simp add: distinct_remove1_removeAll)
  also have "\<dots> = length al - 1" using assms(1) by (force simp: length_remove1)
  finally show ?thesis .
qed

lemma pipe_reach_step:
  assumes "poll_inv policy req s" and "pipe_step BUFFER_CAP policy market_event_key (ps_pipe s) p"
    and "p_source_closed p = p_source_closed (ps_pipe s)" and "p_rx_open p \<Longrightarrow> p_rx_open (ps_pipe s)"
  shows "poll_inv policy req (s\<lparr>ps_pipe := p\<rparr>)"
  using assms reach.reach_step by (fastforce simp: poll_inv_def)

lemma set_event_inv: "poll_inv policy req s \<Longrightarrow> poll_inv policy req (set_event i ev s)"
proof -
  have "polled (ps_tasks (set_event i ev s)) = polled (ps_tasks s)"
    by (auto simp: polled_def set_event_def)
  then show "poll_inv policy req s \<Longrightarrow> poll_inv policy req (set_event i ev s)"
    by (simp add: poll_inv_def) (simp add: set_event_def case_prod_beta comp_def)
qed

lemma finish_inv:
  assumes inv: "poll_inv policy req s" and t: "(i, task) \<in> set (ps_tasks s)" and "\<not> p_rx_open (ps_pipe s)"
  shows "poll_inv policy req (finish_task i s)"
proof -
  have len: "length (filter (\<lambda>(j, _). j \<noteq> i) (ps_tasks s)) = length (ps_tasks s) - 1"
    using filter_other_length [OF t] inv by (simp add: poll_inv_def)
  have d: "distinct (map fst (filter (\<lambda>(j, _). j \<noteq> i) (ps_tasks s)))"
    using inv by (simp add: poll_inv_def distinct_map_filter)
  have open_pipe: "\<not> p_source_closed (ps_pipe s)" and ne: "ps_tasks s \<noteq> []" using inv t by (auto simp: poll_inv_def)
  have "reach pipe_init (pipe_step BUFFER_CAP policy market_event_key) (policy_close (ps_pipe s))"
    using inv pipe_step.pipe_close reach.reach_step by (metis poll_inv_def)
  moreover have "filter (\<lambda>(j, _). j \<noteq> i) (ps_tasks s) = [] \<longleftrightarrow> ps_live s = 1"
    using len ne inv unfolding poll_inv_def length_0_conv [symmetric] by (cases "length (ps_tasks s)") auto
  ultimately show ?thesis
    using inv len d open_pipe assms(3) by (simp add: poll_inv_def finish_task_def)
qed

lemma task_step_inv:
  assumes inv: "poll_inv policy req s" and t: "(i, task) \<in> set (ps_tasks s)"
  shows "poll_inv policy req (poll_task_step policy fetcher i task s)"
proof (cases "pk_event task")
  case None
  have "poll_inv policy req (s\<lparr>ps_seq := q\<rparr>)" for q using inv by (simp add: poll_inv_def)
  then show ?thesis using None inv finish_inv [OF inv t]
    by (auto simp: poll_task_step_def set_event_inv split: prod.split sum.split option.split)
next
  case (Some event)
  obtain r p where send: "policy_send BUFFER_CAP policy market_event_key event (ps_pipe s) = (r, p)" by fastforce
  have "p_source_closed p = p_source_closed (ps_pipe s)" "p_rx_open p = p_rx_open (ps_pipe s)"
    using send by (auto simp: policy_send_def split: if_splits)
  then have "poll_inv policy req (s\<lparr>ps_pipe := p\<rparr>)"
    using inv send by (intro pipe_reach_step) (auto intro: pipe_step.pipe_send)
  moreover have "r = Some False \<Longrightarrow> \<not> p_rx_open (ps_pipe s)"
    using send by (auto simp: policy_send_def split: if_splits)
  ultimately show ?thesis using Some send inv finish_inv [OF inv t]
    by (auto simp: poll_task_step_def set_event_inv split: option.split bool.split)
qed

lemma poll_step_inv:
  assumes "poll_inv policy req s" and "poll_step policy fetcher s t"
  shows "poll_inv policy req t"
  using assms(2)
proof (cases rule: poll_step.cases)
  case (poll_tick i task)
  then show ?thesis using task_step_inv [OF assms(1)] by simp
qed (auto intro!: pipe_reach_step [OF assms(1)] intro: pipe_step.intros(2-))

lemma polled_Nil [simp]: "polled [] = []"
  by (simp add: polled_def)

lemma map_fst_enumerate [simp]: "map fst (enumerate n xs) = [n..<n + length xs]"
  by (simp add: enumerate_eq_zip)

lemma enumerate_Nil [simp]: "enumerate n xs = [] \<longleftrightarrow> xs = []"
  by (cases xs) simp_all

lemma polled_enumerate: "polled (enumerate n tasks) = map (\<lambda>t. (pk_channel t, pk_symbol t)) tasks"
  by (induction tasks arbitrary: n) (simp_all add: polled_def)

lemma policy_channel_open [simp]: "\<not> p_source_closed (snd (policy_channel c))"
  by (simp add: policy_channel_def)

lemma poll_init_inv: "poll_inv policy req (poll_market_data req)"
proof -
  have init: "reach pipe_init (pipe_step BUFFER_CAP policy market_event_key) (snd (policy_channel BUFFER_CAP))"
    by (rule reach.reach_init) (simp add: pipe_init_def policy_channel_def)
  then have "reach pipe_init (pipe_step BUFFER_CAP policy market_event_key) (policy_close (snd (policy_channel BUFFER_CAP)))"
    using pipe_step.pipe_close reach.reach_step by metis
  then show ?thesis
    using init by (simp add: poll_inv_def poll_market_data_def Let_def polled_enumerate pollable_def poll_tasks_def
      comp_def split: option.split)
qed

interpretation poll: invariant_system "\<lambda>s. s = poll_market_data req" "poll_step policy fetcher" "poll_inv policy req"
  by unfold_locales (simp_all add: poll_init_inv poll_step_inv)

section \<open>Ending\<close>

text \<open>A tick of every task.\<close>

definition tick_task ::
  "overflow_policy \<Rightarrow> (stream_channel \<Rightarrow> string \<Rightarrow> u64 \<Rightarrow> (port_error + market_data_event option) \<times> u64)
   \<Rightarrow> nat \<Rightarrow> poll_state \<Rightarrow> poll_state" where
  "tick_task policy fetcher i s = (case map_of (ps_tasks s) i of
       None \<Rightarrow> s | Some task \<Rightarrow> poll_task_step policy fetcher i task s)"

definition tick_all ::
  "overflow_policy \<Rightarrow> (stream_channel \<Rightarrow> string \<Rightarrow> u64 \<Rightarrow> (port_error + market_data_event option) \<times> u64)
   \<Rightarrow> poll_state \<Rightarrow> poll_state" where
  "tick_all policy fetcher s = fold (tick_task policy fetcher) (map fst (ps_tasks s)) s"

lemma tick_dead:
  assumes "\<not> p_rx_open (ps_pipe s)"
  shows "ps_tasks (tick_task policy fetcher i s) = filter (\<lambda>(j, _). j \<noteq> i) (ps_tasks s)"
    and "\<not> p_rx_open (ps_pipe (tick_task policy fetcher i s))"
proof -
  have "poll_task_step policy fetcher i task s = finish_task i s" for task
    using assms by (simp add: poll_task_step_def policy_send_def split: option.split)
  moreover have "filter (\<lambda>(j, _). j \<noteq> i) (ps_tasks s) = ps_tasks s" if "map_of (ps_tasks s) i = None"
    using that by (force simp: map_of_eq_None_iff filter_id_conv image_iff)
  ultimately show "ps_tasks (tick_task policy fetcher i s) = filter (\<lambda>(j, _). j \<noteq> i) (ps_tasks s)"
    and "\<not> p_rx_open (ps_pipe (tick_task policy fetcher i s))"
    using assms by (auto simp: tick_task_def finish_task_def split: option.split)
qed

lemma ticks_dead:
  "\<not> p_rx_open (ps_pipe s) \<Longrightarrow>
   ps_tasks (fold (tick_task policy fetcher) ids s) = filter (\<lambda>(j, _). j \<notin> set ids) (ps_tasks s)"
proof (induction ids arbitrary: s)
  case (Cons i ids)
  then show ?case
    using Cons.IH [OF tick_dead(2) [OF Cons.prems]] tick_dead(1) [OF Cons.prems]
    by (auto intro: filter_cong)
qed (simp add: case_prod_beta)

lemma tick_all_dead: "\<not> p_rx_open (ps_pipe s) \<Longrightarrow> ps_tasks (tick_all policy fetcher s) = []"
  by (force simp: tick_all_def ticks_dead filter_empty_conv)

lemma tick_task_inv: "poll_inv policy req s \<Longrightarrow> poll_inv policy req (tick_task policy fetcher i s)"
  by (auto simp: tick_task_def split: option.split intro: task_step_inv dest: map_of_SomeD)

lemma tick_all_inv: "poll_inv policy req s \<Longrightarrow> poll_inv policy req (tick_all policy fetcher s)"
proof -
  have "poll_inv policy req s \<Longrightarrow> poll_inv policy req (fold (tick_task policy fetcher) ids s)" for ids
    by (induction ids arbitrary: s) (simp_all add: tick_task_inv)
  then show "poll_inv policy req s \<Longrightarrow> poll_inv policy req (tick_all policy fetcher s)"
    by (simp add: tick_all_def)
qed

section \<open>Properties\<close>

text \<open>C22: at every moment of a subscription the stream's source is closed exactly when no poll
  task is left.  While the consumer holds the receiver, exactly the subscriptions of the request
  that name a symbol are polled, in the order of the request; once it has dropped the receiver,
  the next tick of the tasks ends all of them and closes the source.\<close>

theorem subscription_lifecycle:
  assumes "reach (\<lambda>s. s = poll_market_data req) (poll_step policy fetcher) s"
  shows "(p_source_closed (ps_pipe s) \<longleftrightarrow> ps_tasks s = [])
    \<and> (p_rx_open (ps_pipe s) \<longrightarrow> polled (ps_tasks s) = pollable req)
    \<and> (\<not> p_rx_open (ps_pipe s) \<longrightarrow> ps_tasks (tick_all policy fetcher s) = []
         \<and> p_source_closed (ps_pipe (tick_all policy fetcher s)))"
proof -
  have inv: "poll_inv policy req s" using poll.inv_reach [OF assms] .
  show ?thesis
    using inv tick_all_inv [OF inv, of fetcher] tick_all_dead [of s policy fetcher] by (auto simp: poll_inv_def)
qed

definition demo_request :: stream_market_data_request where
  "demo_request = \<lparr>smr_exchange_id = Some default_exchange_id,
     smr_subscriptions = [\<lparr>sub_channel = Known Ticker, sub_symbol = ''BTC''\<rparr>,
       \<lparr>sub_channel = Known Orderbook, sub_symbol = ''''\<rparr>, \<lparr>sub_channel = Unknown 9, sub_symbol = ''ETH''\<rparr>],
     smr_resume_token = ''''\<rparr>"

theorem subscription_lifecycle_witness:
  "polled (ps_tasks (poll_market_data demo_request)) = [(Ticker, ''BTC''), (ChannelUnspecified, ''ETH'')]"
proof -
  have "p_rx_open (ps_pipe (poll_market_data demo_request))" by code_simp
  moreover have "pollable demo_request = [(Ticker, ''BTC''), (ChannelUnspecified, ''ETH'')]" by code_simp
  ultimately show ?thesis
    using subscription_lifecycle [OF reach.reach_init, OF refl, of demo_request DropOldest "\<lambda>_ _ n. (Inr None, n)"] by simp
qed

end
