(* ===== verification/Mock_Extended.thy ===== *)
theory Mock_Extended
  imports Mock_Venue Market_Data
begin

text \<open>
  The other ports of the in-process venue (\<open>adapters/mock.rs\<close>): market data, funding rates,
  conditional orders, venue operations and the wallet, over the same state as its trading
  gateway.  The wall clock is an argument in nanoseconds since the epoch.
\<close>

section \<open>Market data\<close>

record symbol_info =
  si_name :: string
  si_display_name :: string
  si_base_asset :: string
  si_quote_asset :: string
  si_contract_size :: "wire_decimal option"
  si_tick_size :: "wire_decimal option"

record candle =
  cd_timestamp_ms :: int
  cd_open :: "wire_decimal option"
  cd_high :: "wire_decimal option"
  cd_low :: "wire_decimal option"
  cd_close :: "wire_decimal option"
  cd_volume :: "wire_decimal option"

definition mock_list_symbols :: "'d decimal_api \<Rightarrow> 'd mock_state \<Rightarrow> symbol_info list" where
  "mock_list_symbols D v =
     [\<lparr>si_name = ''MOCK-USDT'', si_display_name = ''Mock / USDT'', si_base_asset = ''MOCK'',
       si_quote_asset = ''USDT'', si_contract_size = Some (decimal_to_common (d_show D) (ms_price v)),
       si_tick_size = Some (decimal_to_common (d_show D) (d_new D 1 2))\<rparr>]"

definition mock_fetch_ticker :: "'d decimal_api \<Rightarrow> int \<Rightarrow> 'd mock_state \<Rightarrow> string \<Rightarrow> ticker" where
  "mock_fetch_ticker D sys v s =
     (let price = Some (decimal_to_common (d_show D) (ms_price v))
      in \<lparr>tk_header = Some default_header, tk_symbol = s, tk_timestamp = Some (mock_now_ts sys),
          tk_bid = price, tk_ask = price, tk_last = price, tk_close = None\<rparr>)"

definition mock_list_tickers :: "'d decimal_api \<Rightarrow> int \<Rightarrow> 'd mock_state \<Rightarrow> string list \<Rightarrow> ticker list" where
  "mock_list_tickers D sys v symbols =
     map (\<lambda>info. mock_fetch_ticker D sys v (si_name info))
       (filter (\<lambda>info. symbols = [] \<or> si_name info \<in> set symbols) (mock_list_symbols D v))"

text \<open>One-minute candles ending now; the limit of the request is bounded and defaulted.\<close>

definition mock_get_candles :: "'d decimal_api \<Rightarrow> int \<Rightarrow> 'd mock_state \<Rightarrow> nat option \<Rightarrow> candle list" where
  "mock_get_candles D sys v limit =
     (let price = Some (decimal_to_common (d_show D) (ms_price v));
          now = (if sys < 0 then 0 else sys) div 1000000000;
          raw_limit = (case limit of None \<Rightarrow> 0 | Some l \<Rightarrow> l);
          n = (if raw_limit = 0 then 10 else min raw_limit 1000)
      in map (\<lambda>i. \<lparr>cd_timestamp_ms = (now - (int n - int i) * 60) * 1000, cd_open = price, cd_high = price,
                    cd_low = price, cd_close = price,
                    cd_volume = Some (decimal_to_common (d_show D) (d_zero D))\<rparr>) [0..<n])"

text \<open>
  Levels around the price; \<open>None\<close> is the panic of an overflowing price.
\<close>

fun book_levels ::
  "'d decimal_api \<Rightarrow> ('d \<Rightarrow> 'd \<Rightarrow> 'd option) \<Rightarrow> 'd \<Rightarrow> nat list \<Rightarrow> price_level list option" where
  "book_levels D shift price [] = Some []"
| "book_levels D shift price (i # is) =
     Option.bind (d_mul D (d_new D 1 2) (d_of_int D (int i))) (\<lambda>off.
     Option.bind (shift price off) (\<lambda>p.
     Option.bind (book_levels D shift price is) (\<lambda>rest.
       Some (\<lparr>pl_price = Some (decimal_to_common (d_show D) p),
              pl_amount = Some (decimal_to_common (d_show D) (d_one D))\<rparr> # rest))))"

definition mock_fetch_order_book ::
  "'d decimal_api \<Rightarrow> int \<Rightarrow> 'd mock_state \<Rightarrow> string \<Rightarrow> nat option \<Rightarrow> order_book option" where
  "mock_fetch_order_book D sys v s limit =
     (let depth = max (case limit of None \<Rightarrow> 1 | Some l \<Rightarrow> l) 1
      in Option.bind (book_levels D (d_sub D) (ms_price v) [1..<Suc depth]) (\<lambda>bids.
         Option.bind (book_levels D (d_add D) (ms_price v) [1..<Suc depth]) (\<lambda>asks.
           Some \<lparr>ob_header = Some default_header, ob_symbol = s, ob_timestamp = Some (mock_now_ts sys),
                 ob_bids = bids, ob_asks = asks\<rparr>)))"

definition synthetic_event ::
  "'d decimal_api \<Rightarrow> int \<Rightarrow> stream_channel \<Rightarrow> string \<Rightarrow> 'd \<Rightarrow> event_header \<Rightarrow> market_event_body option" where
  "synthetic_event D sys channel s price header =
     (let d = (\<lambda>x. Some (decimal_to_common (d_show D) x)); stamp = Some (mock_now_ts sys);
          step = d_new D 1 2;
          level = (\<lambda>offset. map_option (\<lambda>p. \<lparr>pl_price = d p, pl_amount = d (d_one D)\<rparr>) (d_add D price offset))
      in case channel of
           Orderbook \<Rightarrow>
             Option.bind (level (d_neg D step)) (\<lambda>bid. Option.bind (level step) (\<lambda>ask.
               Some (OrderbookEvent \<lparr>ob_header = Some header, ob_symbol = s, ob_timestamp = stamp,
                 ob_bids = [bid], ob_asks = [ask]\<rparr>)))
         | Trades \<Rightarrow> Some (TradeEvent \<lparr>pt_header = Some header,
               pt_id = ''mock-trade-'' @ nat_to_string (unat (hdr_sequence header)), pt_symbol = s,
               pt_timestamp = stamp, pt_side = Known TradeSideUnspecified, pt_price = d price,
               pt_amount = d (d_one D)\<rparr>)
         | Ohlcv \<Rightarrow> Some (OhlcvEvent \<lparr>oh_header = Some header, oh_timestamp = stamp, oh_open = d price,
               oh_high = d price, oh_low = d price, oh_close = d price, oh_volume = d (d_one D)\<rparr>)
         | _ \<Rightarrow> Some (TickerEvent \<lparr>tk_header = Some header, tk_symbol = s, tk_timestamp = stamp,
               tk_bid = None, tk_ask = None, tk_last = d price, tk_close = None\<rparr>))"

section \<open>Funding\<close>

definition MOCK_FUNDING_INTERVAL_MS :: int where "MOCK_FUNDING_INTERVAL_MS = 8 * 60 * 60 * 1000"

definition mock_now_ms :: "int \<Rightarrow> int" where
  "mock_now_ms sys = (if sys < 0 then 0
     else case checked_i64 (sys div 1000000) of Some t \<Rightarrow> t | None \<Rightarrow> 0)"

definition next_funding_boundary :: "int \<Rightarrow> int" where
  "next_funding_boundary now = (trunc_div now MOCK_FUNDING_INTERVAL_MS + 1) * MOCK_FUNDING_INTERVAL_MS"

definition mock_fetch_funding_rate ::
  "int \<Rightarrow> 'd mock_state \<Rightarrow> exchange_id \<Rightarrow> string \<Rightarrow> (port_error + 'd funding_rate_snapshot) \<times> 'd mock_state" where
  "mock_fetch_funding_rate sys v ex s =
     (if ms_funding_symbols v \<noteq> [] \<and> s \<notin> set (ms_funding_symbols v)
      then Inl (NotFound (''the mock venue lists no funding for '' @ s))
      else Inr \<lparr>frs_symbol = s, frs_rate = ms_funding_rate v,
                frs_next_funding_time_ms = next_funding_boundary (mock_now_ms sys),
                frs_mark_price = Some (ms_price v)\<rparr>, v)"

definition mock_fetch_funding_rate_history ::
  "int \<Rightarrow> 'd mock_state \<Rightarrow> exchange_id \<Rightarrow> string \<Rightarrow> u32 \<Rightarrow> (port_error + 'd funding_rate_point list) \<times> 'd mock_state" where
  "mock_fetch_funding_rate_history sys v ex s limit =
     (let grid = (mock_now_ms sys div MOCK_FUNDING_INTERVAL_MS) * MOCK_FUNDING_INTERVAL_MS
      in (Inr (map (\<lambda>i. \<lparr>frp_rate = ms_funding_rate v, frp_time_ms = grid - int i * MOCK_FUNDING_INTERVAL_MS\<rparr>)
                [0..<min (unat limit) 64]), v))"

definition funding_universe :: "'d decimal_api \<Rightarrow> 'd mock_state \<Rightarrow> string list" where
  "funding_universe D v =
     (if ms_funding_symbols v \<noteq> [] then ms_funding_symbols v else map si_name (mock_list_symbols D v))"

fun collect_funding ::
  "int \<Rightarrow> 'd mock_state \<Rightarrow> exchange_id \<Rightarrow> string list \<Rightarrow> port_error + 'd funding_rate_snapshot list" where
  "collect_funding sys v ex [] = Inr []"
| "collect_funding sys v ex (s # ss) = (case fst (mock_fetch_funding_rate sys v ex s) of
       Inr snap \<Rightarrow> (case collect_funding sys v ex ss of Inl e \<Rightarrow> Inl e | Inr rest \<Rightarrow> Inr (snap # rest))
     | Inl (NotFound _) \<Rightarrow> collect_funding sys v ex ss
     | Inl e \<Rightarrow> Inl e)"

definition mock_list_funding_rates ::
  "'d decimal_api \<Rightarrow> int \<Rightarrow> 'd mock_state \<Rightarrow> exchange_id \<Rightarrow> string list
   \<Rightarrow> (port_error + 'd funding_rate_snapshot list) \<times> 'd mock_state" where
  "mock_list_funding_rates D sys v ex symbols =
     (collect_funding sys v ex (if symbols = [] then funding_universe D v else symbols), v)"

definition mock_funding :: "'d decimal_api \<Rightarrow> int \<Rightarrow> ('d mock_state, 'd) funding_rate_source" where
  "mock_funding D sys = \<lparr>fs_fetch_funding_rate = mock_fetch_funding_rate sys,
     fs_fetch_funding_rate_history = mock_fetch_funding_rate_history sys,
     fs_list_funding_rates = mock_list_funding_rates D sys\<rparr>"

section \<open>Conditional orders\<close>

definition validate_trigger_request :: "'d decimal_api \<Rightarrow> 'd trigger_order_request \<Rightarrow> port_error + unit" where
  "validate_trigger_request D req =
     (if is_blank (tor_symbol req) then Inl (MissingField ''symbol'')
      else if d_is_sign_negative D (tor_qty req) \<or> d_is_zero D (tor_qty req)
      then Inl (InvalidArgument (''trigger order qty must be positive, got '' @ d_show D (tor_qty req)))
      else if d_is_sign_negative D (tor_trigger_price req) \<or> d_is_zero D (tor_trigger_price req)
      then Inl (InvalidArgument (''trigger order trigger_price must be positive, got '' @ d_show D (tor_trigger_price req)))
      else Inr ())"

definition trigger_record ::
  "string \<times> 'd trigger_order_request \<times> trigger_order_status \<times> int \<Rightarrow> 'd trigger_order" where
  "trigger_record row = (case row of (i, req, status, created) \<Rightarrow>
     \<lparr>to_id = i, to_client_order_id = tor_client_order_id req, to_symbol = tor_symbol req,
      to_is_buy = tor_is_buy req, to_trigger_price = tor_trigger_price req, to_qty = tor_qty req,
      to_reduce_only = tor_reduce_only req, to_status = status, to_created_at_ms = created,
      to_order_id = None, to_triggered_at_ms = None\<rparr>)"

definition mock_create_trigger_order ::
  "'d decimal_api \<Rightarrow> int \<Rightarrow> 'd mock_state \<Rightarrow> exchange_id \<Rightarrow> 'd trigger_order_request
   \<Rightarrow> (port_error + 'd trigger_order) \<times> 'd mock_state" where
  "mock_create_trigger_order D sys v ex req =
     (case validate_trigger_request D req of
        Inl e \<Rightarrow> (Inl e, v)
      | Inr _ \<Rightarrow>
          let row = (''trigger-'' @ nat_to_string (unat (ms_ids v)), req, TriggerOpen, mock_now_ms sys)
          in (Inr (trigger_record row),
              v\<lparr>ms_ids := ms_ids v + 1, ms_trigger_orders := ms_trigger_orders v @ [row]\<rparr>))"

text \<open>The first row with the id is updated in place.\<close>

fun cancel_trigger_row ::
  "string \<Rightarrow> (string \<times> 'd trigger_order_request \<times> trigger_order_status \<times> int) list
   \<Rightarrow> (string \<times> 'd trigger_order_request \<times> trigger_order_status \<times> int) list" where
  "cancel_trigger_row i [] = []"
| "cancel_trigger_row i ((j, req, status, created) # rows) =
     (if j = i then (j, req, TriggerCanceled, created) # rows
      else (j, req, status, created) # cancel_trigger_row i rows)"

definition mock_cancel_trigger_order ::
  "'d mock_state \<Rightarrow> exchange_id \<Rightarrow> string \<Rightarrow> string \<Rightarrow> (port_error + 'd trigger_order) \<times> 'd mock_state" where
  "mock_cancel_trigger_order v ex order_id s =
     (case map_of (ms_trigger_orders v) order_id of
        None \<Rightarrow> (Inl (NotFound (''trigger order '' @ order_id)), v)
      | Some (req, status, created) \<Rightarrow>
          if status \<noteq> TriggerOpen
          then (Inl (InvalidArgument (''trigger order '' @ order_id @ '' is '' @ trigger_status_as_str status
                  @ '' and can no longer be cancelled'')), v)
          else (Inr (trigger_record (order_id, req, TriggerCanceled, created)),
                v\<lparr>ms_trigger_orders := cancel_trigger_row order_id (ms_trigger_orders v)\<rparr>))"

definition mock_list_trigger_orders ::
  "'d mock_state \<Rightarrow> exchange_id \<Rightarrow> string list \<Rightarrow> (port_error + 'd trigger_order list) \<times> 'd mock_state" where
  "mock_list_trigger_orders v ex symbols =
     (Inr (map trigger_record (filter (\<lambda>(_, req, _, _). symbols = [] \<or> tor_symbol req \<in> set symbols)
        (ms_trigger_orders v))), v)"

definition mock_triggers :: "'d decimal_api \<Rightarrow> int \<Rightarrow> ('d mock_state, 'd) trigger_order_gateway" where
  "mock_triggers D sys = \<lparr>tg_create_trigger_order = mock_create_trigger_order D sys,
     tg_cancel_trigger_order = mock_cancel_trigger_order, tg_list_trigger_orders = mock_list_trigger_orders\<rparr>"

section \<open>Venue operations\<close>

definition string_param :: "string \<Rightarrow> string \<Rightarrow> venue_op_param" where
  "string_param n doc = \<lparr>vp_name = n, vp_type = ParamString, vp_required = True, vp_doc = doc, vp_enum_values = []\<rparr>"

definition mock_ops :: "venue_op_descriptor list" where
  "mock_ops =
     [\<lparr>vd_name = ''account.balance'', vd_category = ''account'', vd_summary = ''Free balance for one currency.'',
       vd_mutating = False, vd_params = [string_param ''currency'' ''Currency to report, e.g. \"USDT\".'']\<rparr>,
      \<lparr>vd_name = ''margin.borrow'', vd_category = ''margin'', vd_summary = ''Borrow an asset against margin.'',
       vd_mutating = True, vd_params = [string_param ''asset'' ''Asset to borrow.'',
         (string_param ''amount'' ''Amount to borrow; must be positive.'')\<lparr>vp_type := ParamDecimal\<rparr>]\<rparr>,
      \<lparr>vd_name = ''wallet.convert'', vd_category = ''wallet'',
       vd_summary = ''Convert between currencies at the venue's rate.'', vd_mutating = True,
       vd_params = [string_param ''asset'' ''Asset to convert from.'', string_param ''dest'' ''Currency to convert to.'']\<rparr>,
      \<lparr>vd_name = ''account.transfer'', vd_category = ''account'',
       vd_summary = ''Move funds between accounts on the same venue.'', vd_mutating = True,
       vd_params = [string_param ''asset'' ''Asset to move, e.g. \"USDT\".'',
         (string_param ''amount'' ''Amount to move; must be positive.'')\<lparr>vp_type := ParamDecimal\<rparr>,
         string_param ''dest'' ''Destination account label, e.g. \"futures\".'']\<rparr>]"

definition mock_invoke_venue_op ::
  "'d decimal_api \<Rightarrow> 'd mock_state \<Rightarrow> exchange_id \<Rightarrow> string \<Rightarrow> (string \<times> json) list
   \<Rightarrow> (port_error + json) \<times> 'd mock_state" where
  "mock_invoke_venue_op D v ex op params =
     (if op = ''account.balance''
      then Inr (JObject [(''currency'', JString ''USDT''), (''free'', JString (d_show D (ms_op_balance v)))])
      else if op \<in> {''margin.borrow'', ''wallet.convert'', ''account.transfer''}
      then Inr (JObject [(''status'', JString ''ok''), (''op'', JString op)])
      else Inl (Unsupported (''op '' @ [CHR 0x27] @ op @ [CHR 0x27] @ '' not mocked'')), v)"

definition mock_venue_ops :: "'d decimal_api \<Rightarrow> 'd mock_state venue_op_invoker" where
  "mock_venue_ops D = \<lparr>vo_invoke_venue_op = mock_invoke_venue_op D, vo_list_venue_ops = (\<lambda>v ex. (Inr mock_ops, v))\<rparr>"

section \<open>Wallet\<close>

definition mock_list_ledger_entries ::
  "'d mock_state \<Rightarrow> exchange_id \<Rightarrow> string \<Rightarrow> string \<Rightarrow> u32 \<Rightarrow> (port_error + 'd ledger_entry list) \<times> 'd mock_state" where
  "mock_list_ledger_entries v ex currency entry_type limit =
     (Inr (take (unat limit) (sort_key (\<lambda>e. - lg_time_ms e)
        (filter (\<lambda>e. entry_type = [] \<or> lg_entry_type e = entry_type)
          (filter (\<lambda>e. currency = [] \<or> lg_currency e = currency) (ms_deposits v))))), v)"

definition find_receipt :: "string \<Rightarrow> (string \<times> 'd transfer_receipt) list \<Rightarrow> 'd transfer_receipt option" where
  "find_receipt cid receipts = map_option snd (find (\<lambda>(_, r). tr_transfer_id r = cid) receipts)"

definition mock_transfer ::
  "'d decimal_api \<Rightarrow> int \<Rightarrow> 'd mock_state \<Rightarrow> exchange_id \<Rightarrow> string \<Rightarrow> 'd \<Rightarrow> string \<Rightarrow> string
   \<Rightarrow> (port_error + 'd transfer_receipt) \<times> 'd mock_state" where
  "mock_transfer D sys v ex asset amount dest_label client_transfer_id =
     (if is_blank asset then (Inl (MissingField ''asset''), v)
      else if d_is_sign_negative D amount \<or> d_is_zero D amount
      then (Inl (InvalidArgument (''transfer amount must be positive, got '' @ d_show D amount)), v)
      else if is_blank dest_label then (Inl (MissingField ''dest_label''), v)
      else case (if client_transfer_id = [] then None else find_receipt client_transfer_id (ms_transfer_receipts v)) of
          Some receipt \<Rightarrow> (Inr receipt, v)
        | None \<Rightarrow>
            let v = v\<lparr>ms_transfers := ms_transfers v @ [(asset, amount, dest_label)]\<rparr>;
                (transfer_id, v) = (if client_transfer_id = []
                   then (''transfer-'' @ nat_to_string (unat (ms_ids v)), v\<lparr>ms_ids := ms_ids v + 1\<rparr>)
                   else (client_transfer_id, v));
                entry = \<lparr>lg_id = transfer_id, lg_currency = asset, lg_amount = d_neg D amount,
                         lg_entry_type = ''transfer'', lg_completed = True, lg_time_ms = mock_now_ms sys\<rparr>;
                receipt = \<lparr>tr_transfer_id = transfer_id, tr_entry = Some entry\<rparr>
            in (Inr receipt, v\<lparr>ms_deposits := entry # ms_deposits v,
                  ms_transfer_receipts := ms_transfer_receipts v @ [(client_transfer_id, receipt)]\<rparr>))"

definition mock_wallet :: "'d decimal_api \<Rightarrow> int \<Rightarrow> ('d mock_state, 'd) wallet_gateway" where
  "mock_wallet D sys = \<lparr>wg_list_ledger_entries = mock_list_ledger_entries, wg_transfer = mock_transfer D sys\<rparr>"

section \<open>Scripting\<close>

definition set_funding_rate :: "'d \<Rightarrow> 'd mock_state \<Rightarrow> 'd mock_state" where
  "set_funding_rate rate v = v\<lparr>ms_funding_rate := rate\<rparr>"

definition set_positions :: "mock_message list \<Rightarrow> 'd mock_state \<Rightarrow> 'd mock_state" where
  "set_positions positions v = v\<lparr>ms_positions := positions\<rparr>"

definition set_funding_symbols :: "string list \<Rightarrow> 'd mock_state \<Rightarrow> 'd mock_state" where
  "set_funding_symbols symbols v = v\<lparr>ms_funding_symbols := symbols\<rparr>"

definition set_op_balance :: "'d \<Rightarrow> 'd mock_state \<Rightarrow> 'd mock_state" where
  "set_op_balance balance v = v\<lparr>ms_op_balance := balance\<rparr>"

definition push_deposit :: "'d ledger_entry \<Rightarrow> 'd mock_state \<Rightarrow> 'd mock_state" where
  "push_deposit entry v = v\<lparr>ms_deposits := ms_deposits v @ [entry]\<rparr>"

definition open_trigger_orders :: "'d mock_state \<Rightarrow> (string \<times> 'd trigger_order_request) list" where
  "open_trigger_orders v = map (\<lambda>(i, req, _, _). (i, req))
     (filter (\<lambda>(_, _, status, _). status = TriggerOpen) (ms_trigger_orders v))"

definition all_trigger_orders :: "'d mock_state \<Rightarrow> (string \<times> trigger_order_status) list" where
  "all_trigger_orders v = map (\<lambda>(i, _, status, _). (i, status)) (ms_trigger_orders v)"


section \<open>Funding times\<close>

lemma next_multiple:
  assumes "0 < (k :: int)"
  shows "n < (n div k + 1) * k" "(n div k + 1) * k \<le> n + k"
proof -
  have "n = n div k * k + n mod k" "0 \<le> n mod k" "n mod k < k" using assms by simp_all
  moreover have "(n div k + 1) * k = n div k * k + k" by (simp add: distrib_right)
  ultimately show "n < (n div k + 1) * k" "(n div k + 1) * k \<le> n + k" by linarith+
qed

lemma next_funding_boundary_after:
  assumes "0 \<le> now"
  shows "now < next_funding_boundary now" "next_funding_boundary now \<le> now + MOCK_FUNDING_INTERVAL_MS"
    "next_funding_boundary now mod MOCK_FUNDING_INTERVAL_MS = 0"
proof -
  have "trunc_div now MOCK_FUNDING_INTERVAL_MS = now div MOCK_FUNDING_INTERVAL_MS"
    using assms by (cases "now = 0") (simp_all add: trunc_div_def MOCK_FUNDING_INTERVAL_MS_def)
  then show "now < next_funding_boundary now" "next_funding_boundary now \<le> now + MOCK_FUNDING_INTERVAL_MS"
    using next_multiple [of MOCK_FUNDING_INTERVAL_MS now]
    by (simp_all add: next_funding_boundary_def MOCK_FUNDING_INTERVAL_MS_def)
  show "next_funding_boundary now mod MOCK_FUNDING_INTERVAL_MS = 0"
    by (simp add: next_funding_boundary_def)
qed

lemma mock_now_ms_nonneg: "0 \<le> mock_now_ms sys"
  by (auto simp: mock_now_ms_def checked_i64_def split: option.split)

text \<open>A batch answers every asked symbol the venue prices, and only those, in order.\<close>

lemma collect_funding_eq:
  "collect_funding sys v ex symbols =
     Inr (map (\<lambda>s. \<lparr>frs_symbol = s, frs_rate = ms_funding_rate v,
                frs_next_funding_time_ms = next_funding_boundary (mock_now_ms sys), frs_mark_price = Some (ms_price v)\<rparr>)
       (filter (\<lambda>s. ms_funding_symbols v = [] \<or> s \<in> set (ms_funding_symbols v)) symbols))"
  by (induction symbols) (auto simp: mock_fetch_funding_rate_def)

section \<open>Conditional orders are cancelled once\<close>

lemma map_of_cancel_trigger_row:
  "map_of (cancel_trigger_row i rows) j =
     (if j = i then map_option (\<lambda>(req, _, created). (req, TriggerCanceled, created)) (map_of rows i) else map_of rows j)"
  by (induction i rows rule: cancel_trigger_row.induct) auto

lemma cancel_trigger_once:
  assumes "mock_cancel_trigger_order v ex i s = (Inr ord, v')"
  shows "to_status ord = TriggerCanceled" and "map_of (ms_trigger_orders v) i = Some (req, status, created) \<Longrightarrow> status = TriggerOpen"
    and "\<exists>e. mock_cancel_trigger_order v' ex i s = (Inl (InvalidArgument e), v')"
    and "j \<noteq> i \<Longrightarrow> map_of (ms_trigger_orders v') j = map_of (ms_trigger_orders v) j"
  using assms
  by (auto simp: mock_cancel_trigger_order_def trigger_record_def map_of_cancel_trigger_row split: option.splits if_splits)

section \<open>The wallet keeps its contract\<close>

lemma find_receipt_snoc:
  "find_receipt cid (rs @ [(k, r)]) =
     (case find_receipt cid rs of Some x \<Rightarrow> Some x | None \<Rightarrow> if tr_transfer_id r = cid then Some r else None)"
  by (induction rs) (auto simp: find_receipt_def split: option.split)

lemma sorted_newest_first: "sorted_wrt (\<lambda>a b. lg_time_ms b \<le> lg_time_ms a) (sort_key (\<lambda>e. - lg_time_ms e) rows)"
proof -
  have "sorted (map (\<lambda>e. - lg_time_ms e) (sort_key (\<lambda>e. - lg_time_ms e) rows))" by (rule sorted_sort_key)
  then show ?thesis by (simp add: sorted_wrt_map)
qed

lemma sorted_wrt_take: "sorted_wrt P xs \<Longrightarrow> sorted_wrt P (take n xs)"
  by (metis append_take_drop_id sorted_wrt_append)

lemma ledger_props:
  assumes "mock_list_ledger_entries v ex currency ty limit = (Inr rows, v')"
  shows "sorted_wrt (\<lambda>a b. lg_time_ms b \<le> lg_time_ms a) rows" "length rows \<le> unat limit" "v' = v"
    "row \<in> set rows \<Longrightarrow> (currency = [] \<or> lg_currency row = currency) \<and> (ty = [] \<or> lg_entry_type row = ty)"
  using assms by (auto simp: mock_list_ledger_entries_def sorted_wrt_take sorted_newest_first dest!: in_set_takeD)

lemma transfer_again:
  assumes "mock_transfer D sys v ex asset amount dest cid = (Inr receipt, v')" and "cid \<noteq> []"
  shows "mock_transfer D sys v' ex asset amount dest cid = (Inr receipt, v')"
  using assms
  by (auto simp: mock_transfer_def Let_def find_receipt_snoc split: if_splits option.splits)

lemma transfer_moves:
  assumes "mock_transfer D sys v ex asset amount dest cid = (res, v')"
  shows "ms_transfers v' = ms_transfers v \<or> ms_transfers v' = ms_transfers v @ [(asset, amount, dest)]"
    and "res = Inl e \<Longrightarrow> v' = v"
  using assms by (auto simp: mock_transfer_def Let_def split: if_splits option.splits)

interpretation mock_wallet: wallet_contract "mock_wallet D sys" ms_transfers
  by unfold_locales
     (auto simp: mock_wallet_def ledger_props transfer_again dest: ledger_props(4) transfer_moves intro: ledger_props)

section \<open>Properties\<close>

text \<open>A transfer under a non-empty client id, retried any number of times with the same
  arguments, moves the funds at most once, and every retry is answered with the first receipt.\<close>

theorem retried_transfer_moves_once:
  assumes "mock_transfer D sys v ex asset amount dest cid = (Inr receipt, v')" and "cid \<noteq> []"
  shows "mock_transfer D sys (((\<lambda>s. snd (mock_transfer D sys s ex asset amount dest cid)) ^^ n) v') ex asset amount dest cid
      = (Inr receipt, v')
    \<and> (ms_transfers v' = ms_transfers v \<or> ms_transfers v' = ms_transfers v @ [(asset, amount, dest)])"
proof -
  have once: "wg_transfer (mock_wallet D sys) v ex asset amount dest cid = (Inr receipt, v')"
    using assms(1) by (simp add: mock_wallet_def)
  have "((\<lambda>s. snd (mock_transfer D sys s ex asset amount dest cid)) ^^ n) v' = v'"
    using mock_wallet.retries_move_once [OF once assms(2), of n] assms(1)
    unfolding funpow_Suc_right by (simp add: mock_wallet_def)
  then show ?thesis
    using transfer_again [OF assms] mock_wallet.transfer_moves_at_most_once [OF once] by simp
qed

definition demo_transfer :: "int mock_state \<Rightarrow> (port_error + int transfer_receipt) \<times> int mock_state" where
  "demo_transfer v = mock_transfer int_api 0 v default_exchange_id ''USDT'' 5 ''futures'' ''t1''"

lemma demo_transfer_first:
  "demo_transfer (mock_new int_api 100) = (Inr \<lparr>tr_transfer_id = ''t1'', tr_entry = Some \<lparr>lg_id = ''t1'', lg_currency = ''USDT'',
      lg_amount = - 5, lg_entry_type = ''transfer'', lg_completed = True, lg_time_ms = 0\<rparr>\<rparr>,
     snd (demo_transfer (mock_new int_api 100)))"
  and demo_transfer_moved: "ms_transfers (snd (demo_transfer (mock_new int_api 100))) = [(''USDT'', 5, ''futures'')]"
proof -
  have b: "\<not> is_blank ''USDT''" "\<not> is_blank ''futures''" by code_simp+
  show "demo_transfer (mock_new int_api 100) = (Inr \<lparr>tr_transfer_id = ''t1'', tr_entry = Some \<lparr>lg_id = ''t1'', lg_currency = ''USDT'',
      lg_amount = - 5, lg_entry_type = ''transfer'', lg_completed = True, lg_time_ms = 0\<rparr>\<rparr>,
     snd (demo_transfer (mock_new int_api 100)))"
    and "ms_transfers (snd (demo_transfer (mock_new int_api 100))) = [(''USDT'', 5, ''futures'')]"
    by (simp_all add: demo_transfer_def mock_transfer_def b Let_def mock_new_def find_receipt_def int_api_def mock_now_ms_def
        checked_i64_def i64_min_def i64_max_def)
qed

theorem retried_transfer_moves_once_witness:
  "demo_transfer (snd (demo_transfer (mock_new int_api 100))) = demo_transfer (mock_new int_api 100)
   \<and> ms_transfers (snd (demo_transfer (mock_new int_api 100))) = [(''USDT'', 5, ''futures'')]"
  using retried_transfer_moves_once [OF demo_transfer_first [unfolded demo_transfer_def], of 0]
    demo_transfer_first demo_transfer_moved
  by (simp add: demo_transfer_def)

text \<open>The operations a client can discover are exactly those it can invoke: every described
  operation is served, and an operation without a description is refused as unsupported.\<close>

lemma discoverable_ops_are_invokable:
  "is_ok (fst (vo_invoke_venue_op (mock_venue_ops D) v ex op params)) \<longleftrightarrow>
   is_ok (fst (describe_venue_op (mock_venue_ops D) v ex op))"
  by (auto simp: mock_venue_ops_def mock_invoke_venue_op_def describe_venue_op_def mock_ops_def)

end
