(* ===== verification/Proxy.thy ===== *)
theory Proxy
  imports Session_Unwind Mock_Extended
begin

text \<open>
  The trading, market-data and venue-operation services the worker exposes to external
  strategies (\<open>session/proxy.rs\<close>): the session gate in front of every call that places an order
  or moves funds, the attribution of accepted orders to the session, the recovery of the legs of
  a failed batch, and the mapping of port errors and records to the wire.

  The state of a handler is the session manager, whose \<open>m_venue\<close> is the venue behind every
  port.  What other tasks do while a handler waits is a function on that state, one argument per
  await at which it matters.
\<close>

section \<open>Errors\<close>

text \<open>
  \<open>from_grpc_code\<close> of the Connect library is an argument: the code a gRPC number stands for.
\<close>

definition rpc_code_to_connect :: "(u32 \<Rightarrow> connect_code option) \<Rightarrow> u32 \<Rightarrow> connect_error" where
  "rpc_code_to_connect from_grpc_code code = connect (case from_grpc_code code of
       None \<Rightarrow> CodeInternal
     | Some CodeUnknown \<Rightarrow> CodeInternal
     | Some CodeOutOfRange \<Rightarrow> CodeInvalidArgument
     | Some c \<Rightarrow> c)"

fun map_port :: "(u32 \<Rightarrow> connect_code option) \<Rightarrow> port_error \<Rightarrow> connect_error" where
  "map_port G (InvalidArgument m) = connect CodeInvalidArgument"
| "map_port G (MissingField m) = connect CodeInvalidArgument"
| "map_port G (NotFound m) = connect CodeNotFound"
| "map_port G (Unsupported m) = connect CodeUnimplemented"
| "map_port G (Rpc code message) = rpc_code_to_connect G code"
| "map_port G (Transport m) = connect CodeInternal"
| "map_port G (DecimalError e) = connect CodeInternal"

definition not_implemented :: connect_error where
  "not_implemented = connect CodeUnimplemented"

definition u32_max :: nat where "u32_max = 2 ^ 32 - 1"

text \<open>The page size asked for is a 64-bit number; beyond 32 bits it saturates.\<close>

definition pagination_limit :: "u64 option \<Rightarrow> u32" where
  "pagination_limit pagination =
     (let requested = (case pagination of None \<Rightarrow> 0 | Some l \<Rightarrow> unat l)
      in page_limit_or_default (of_nat (min requested u32_max)))"

definition resolved_exchange :: "exchange_id option \<Rightarrow> exchange_id \<Rightarrow> exchange_id" where
  "resolved_exchange field default_exchange = (case field of Some ex \<Rightarrow> ex | None \<Rightarrow> default_exchange)"

section \<open>Wire records\<close>

record wire_ledger_entry =
  wl_id :: string
  wl_currency :: string
  wl_direction :: string
  wl_type :: string
  wl_amount :: "wire_decimal option"
  wl_timestamp :: "timestamp option"
  wl_status :: string

definition ledger_entry_to_unified :: "'d decimal_api \<Rightarrow> 'd ledger_entry \<Rightarrow> wire_ledger_entry" where
  "ledger_entry_to_unified D entry =
     \<lparr>wl_id = lg_id entry, wl_currency = lg_currency entry,
      wl_direction = (if d_is_sign_negative D (lg_amount entry) then ''out'' else ''in''),
      wl_type = lg_entry_type entry, wl_amount = Some (decimal_to_common (d_show D) (lg_amount entry)),
      wl_timestamp = Some (timestamp_from_ms (lg_time_ms entry)),
      wl_status = (if lg_completed entry then ''completed'' else ''pending'')\<rparr>"

datatype trigger_price_type = TriggerTypeUnspecified | LastPrice | MarkPrice | IndexPrice

record wire_trigger_request =
  wt_client_order_id :: string
  wt_symbol :: string
  wt_side :: "order_side enum_value"
  wt_trigger_price :: "wire_decimal option"
  wt_qty :: "wire_decimal option"
  wt_reduce_only :: bool
  wt_trigger_type :: "trigger_price_type enum_value"
  wt_order_price :: "wire_decimal option"
  wt_order_type :: "order_type enum_value"

datatype wire_trigger_status =
    WireTriggerUnspecified | WireTriggerOpen | WireTriggerTriggered | WireTriggerCanceled | WireTriggerRejected

fun trigger_status_to_wire :: "trigger_order_status \<Rightarrow> wire_trigger_status" where
  "trigger_status_to_wire TriggerOpen = WireTriggerOpen"
| "trigger_status_to_wire TriggerTriggered = WireTriggerTriggered"
| "trigger_status_to_wire TriggerCanceled = WireTriggerCanceled"
| "trigger_status_to_wire TriggerRejected = WireTriggerRejected"

record wire_trigger_order =
  wo_id :: string
  wo_client_order_id :: string
  wo_symbol :: string
  wo_side :: "order_side enum_value"
  wo_trigger_price :: "wire_decimal option"
  wo_qty :: "wire_decimal option"
  wo_trigger_type :: "trigger_price_type enum_value"
  wo_order_price :: "wire_decimal option"
  wo_order_type :: "order_type enum_value"
  wo_reduce_only :: bool
  wo_status :: "wire_trigger_status enum_value"
  wo_created_at :: "timestamp option"
  wo_order_id :: "string option"
  wo_triggered_at :: "timestamp option"

definition required_decimal :: "'d decimal_api \<Rightarrow> wire_decimal option \<Rightarrow> connect_error + 'd" where
  "required_decimal D field = (case field of
       None \<Rightarrow> Inl (connect CodeInvalidArgument)
     | Some d \<Rightarrow> map_err (\<lambda>_. connect CodeInvalidArgument) (common_to_decimal (d_parse D) d))"

definition trigger_request_from_unified ::
  "'d decimal_api \<Rightarrow> wire_trigger_request option \<Rightarrow> connect_error + 'd trigger_order_request" where
  "trigger_request_from_unified D field = (case field of
       None \<Rightarrow> Inl (connect CodeInvalidArgument)
     | Some req \<Rightarrow> (case required_decimal D (wt_trigger_price req) of
           Inl e \<Rightarrow> Inl e
         | Inr trigger_price \<Rightarrow> (case required_decimal D (wt_qty req) of
               Inl e \<Rightarrow> Inl e
             | Inr qty \<Rightarrow> (case wt_side req of
                   Known Buy \<Rightarrow> Inr \<lparr>tor_client_order_id = wt_client_order_id req, tor_symbol = wt_symbol req,
                     tor_is_buy = True, tor_trigger_price = trigger_price, tor_qty = qty,
                     tor_reduce_only = wt_reduce_only req\<rparr>
                 | Known Sell \<Rightarrow> Inr \<lparr>tor_client_order_id = wt_client_order_id req, tor_symbol = wt_symbol req,
                     tor_is_buy = False, tor_trigger_price = trigger_price, tor_qty = qty,
                     tor_reduce_only = wt_reduce_only req\<rparr>
                 | _ \<Rightarrow> Inl (connect CodeInvalidArgument)))))"

definition trigger_order_to_unified :: "'d decimal_api \<Rightarrow> 'd trigger_order \<Rightarrow> wire_trigger_order" where
  "trigger_order_to_unified D ord =
     \<lparr>wo_id = to_id ord, wo_client_order_id = to_client_order_id ord, wo_symbol = to_symbol ord,
      wo_side = Known (if to_is_buy ord then Buy else Sell),
      wo_trigger_price = Some (decimal_to_common (d_show D) (to_trigger_price ord)),
      wo_qty = Some (decimal_to_common (d_show D) (to_qty ord)),
      wo_trigger_type = Known LastPrice, wo_order_price = None, wo_order_type = Known Market,
      wo_reduce_only = to_reduce_only ord, wo_status = Known (trigger_status_to_wire (to_status ord)),
      wo_created_at = Some (timestamp_from_ms (to_created_at_ms ord)), wo_order_id = to_order_id ord,
      wo_triggered_at = map_option timestamp_from_ms (to_triggered_at_ms ord)\<rparr>"

section \<open>The trading proxy\<close>

text \<open>
  \<open>tp_gated\<close> says whether a session manager is wired in; the capability ports are optional.
\<close>

record ('v, 'm, 'd) trading_proxy =
  tp_gateway :: "('v, 'm) trading_gateway"
  tp_default_exchange :: exchange_id
  tp_gated :: bool
  tp_triggers :: "('v, 'd) trigger_order_gateway option"
  tp_wallet :: "('v, 'd) wallet_gateway option"
  tp_decimal :: "'d decimal_api"
  tp_grpc :: "u32 \<Rightarrow> connect_code option"

definition gate_submission ::
  "bool \<Rightarrow> string \<Rightarrow> 'v session_manager \<Rightarrow> connect_error + session_handle option" where
  "gate_submission gated session_id m =
     (if gated then map_err manager_to_connect (authorize_order_submission session_id m) else Inr None)"

text \<open>
  The session behind a handle that the gate gave out, as it is now.  A session leaves the
  registry only after it has ended, so a handle no longer registered is that of an ended
  session.
\<close>

definition shared_handle :: "'v session_manager \<Rightarrow> session_handle \<Rightarrow> session_handle" where
  "shared_handle m h = (case get m (sh_id h) of
       Inr h' \<Rightarrow> h'
     | Inl _ \<Rightarrow> h\<lparr>sh_state := state_to_u8 KillSwitchTripped\<rparr>)"

definition attribute_orders ::
  "('v, 'm) trading_gateway \<Rightarrow> bool \<Rightarrow> session_handle option \<Rightarrow> ('v session_manager \<Rightarrow> 'v session_manager)
   \<Rightarrow> order list \<Rightarrow> 'v session_manager \<Rightarrow> 'v session_manager" where
  "attribute_orders gw gated session others orders m = (case session of
       None \<Rightarrow> m
     | Some handle \<Rightarrow>
         if \<not> gated then m
         else let m = put_handle (sh_id handle) (record_submitted_orders orders (shared_handle m handle)) m;
                  m = others m
              in unwind_late_submissions gw (shared_handle m handle) orders m)"

definition accepted_batch_orders ::
  "('v, 'm) trading_gateway \<Rightarrow> exchange_id \<Rightarrow> string list \<Rightarrow> 'v \<Rightarrow> order list \<times> 'v" where
  "accepted_batch_orders gw exchange requested v =
     (let wanted = filter (\<lambda>c. c \<noteq> []) requested
      in case gw_fetch_open_orders gw v \<lparr>foo_exchange_id = Some exchange, foo_symbol = ''''\<rparr> of
           (Inr open_orders, v') \<Rightarrow> (filter (\<lambda>ord. o_client_order_id ord \<in> set wanted) open_orders, v')
         | (Inl _, v') \<Rightarrow> ([], v'))"

definition proxy_create_order ::
  "('v, 'm, 'd) trading_proxy \<Rightarrow> ('v session_manager \<Rightarrow> 'v session_manager)
   \<Rightarrow> ('v session_manager \<Rightarrow> 'v session_manager) \<Rightarrow> create_order_request
   \<Rightarrow> 'v session_manager \<Rightarrow> (connect_error + order) \<times> 'v session_manager" where
  "proxy_create_order P during after req m =
     (case gate_submission (tp_gated P) (cor_session_id req) m of
        Inl e \<Rightarrow> (Inl e, m)
      | Inr session \<Rightarrow>
          let req = req\<lparr>cor_exchange_id := Some (resolved_exchange (cor_exchange_id req) (tp_default_exchange P))\<rparr>
          in case gw_create_order (tp_gateway P) (m_venue m) req of
               (Inl e, v) \<Rightarrow> (Inl (map_port (tp_grpc P) e), m\<lparr>m_venue := v\<rparr>)
             | (Inr ord, v) \<Rightarrow>
                 (Inr ord, attribute_orders (tp_gateway P) (tp_gated P) session after [ord] (during (m\<lparr>m_venue := v\<rparr>))))"

definition proxy_create_orders ::
  "('v, 'm, 'd) trading_proxy \<Rightarrow> ('v session_manager \<Rightarrow> 'v session_manager)
   \<Rightarrow> ('v session_manager \<Rightarrow> 'v session_manager) \<Rightarrow> create_orders_request
   \<Rightarrow> 'v session_manager \<Rightarrow> (connect_error + order list) \<times> 'v session_manager" where
  "proxy_create_orders P during after req m =
     (case gate_submission (tp_gated P) (cosr_session_id req) m of
        Inl e \<Rightarrow> (Inl e, m)
      | Inr session \<Rightarrow>
          let exchange = resolved_exchange (cosr_exchange_id req) (tp_default_exchange P);
              req = req\<lparr>cosr_exchange_id := Some exchange\<rparr>;
              requested = map or_client_order_id (cosr_orders req)
          in case gw_batch_create_orders (tp_gateway P) (m_venue m) req of
               (Inr orders, v) \<Rightarrow>
                 (Inr orders, attribute_orders (tp_gateway P) (tp_gated P) session after orders (during (m\<lparr>m_venue := v\<rparr>)))
             | (Inl e, v) \<Rightarrow>
                 let m = during (m\<lparr>m_venue := v\<rparr>)
                 in (Inl (map_port (tp_grpc P) e),
                     if session = None then m
                     else case accepted_batch_orders (tp_gateway P) exchange requested (m_venue m) of
                         (accepted, v) \<Rightarrow>
                           attribute_orders (tp_gateway P) (tp_gated P) session after accepted (m\<lparr>m_venue := v\<rparr>)))"

text \<open>The calls that are forwarded with the exchange resolved.\<close>

definition answer ::
  "('v, 'm, 'd) trading_proxy \<Rightarrow> (port_error + 'a) \<times> 'v \<Rightarrow> 'v session_manager
   \<Rightarrow> (connect_error + 'a) \<times> 'v session_manager" where
  "answer P r m = (map_err (map_port (tp_grpc P)) (fst r), m\<lparr>m_venue := snd r\<rparr>)"

definition proxy_cancel_order ::
  "('v, 'm, 'd) trading_proxy \<Rightarrow> cancel_order_request \<Rightarrow> 'v session_manager
   \<Rightarrow> (connect_error + order) \<times> 'v session_manager" where
  "proxy_cancel_order P req m = answer P (gw_cancel_order (tp_gateway P) (m_venue m)
     (req\<lparr>can_exchange_id := Some (resolved_exchange (can_exchange_id req) (tp_default_exchange P))\<rparr>)) m"

definition proxy_cancel_all_orders ::
  "('v, 'm, 'd) trading_proxy \<Rightarrow> cancel_all_orders_request \<Rightarrow> 'v session_manager
   \<Rightarrow> (connect_error + order list) \<times> 'v session_manager" where
  "proxy_cancel_all_orders P req m = answer P (gw_cancel_all_orders (tp_gateway P) (m_venue m)
     (req\<lparr>caa_exchange_id := Some (resolved_exchange (caa_exchange_id req) (tp_default_exchange P))\<rparr>)) m"

definition proxy_fetch_open_orders ::
  "('v, 'm, 'd) trading_proxy \<Rightarrow> fetch_open_orders_request \<Rightarrow> 'v session_manager
   \<Rightarrow> (connect_error + order list) \<times> 'v session_manager" where
  "proxy_fetch_open_orders P req m = answer P (gw_fetch_open_orders (tp_gateway P) (m_venue m)
     (req\<lparr>foo_exchange_id := Some (resolved_exchange (foo_exchange_id req) (tp_default_exchange P))\<rparr>)) m"

definition proxy_account_call ::
  "('v, 'm, 'd) trading_proxy \<Rightarrow> account_method \<Rightarrow> 'm account_request \<Rightarrow> 'v session_manager
   \<Rightarrow> (connect_error + 'm) \<times> 'v session_manager" where
  "proxy_account_call P meth req m = answer P (gw_account_call (tp_gateway P) (m_venue m) meth
     (req\<lparr>ar_exchange_id := Some (resolved_exchange (ar_exchange_id req) (tp_default_exchange P))\<rparr>)) m"

section \<open>Conditional orders and the wallet\<close>

record create_trigger_order_request =
  ctr_exchange_id :: "exchange_id option"
  ctr_order :: "wire_trigger_request option"
  ctr_session_id :: string

definition proxy_create_trigger_order ::
  "('v, 'm, 'd) trading_proxy \<Rightarrow> create_trigger_order_request \<Rightarrow> 'v session_manager
   \<Rightarrow> (connect_error + wire_trigger_order) \<times> 'v session_manager" where
  "proxy_create_trigger_order P req m = (case tp_triggers P of
       None \<Rightarrow> (Inl not_implemented, m)
     | Some triggers \<Rightarrow> (case gate_submission (tp_gated P) (ctr_session_id req) m of
           Inl e \<Rightarrow> (Inl e, m)
         | Inr _ \<Rightarrow> (case trigger_request_from_unified (tp_decimal P) (ctr_order req) of
               Inl e \<Rightarrow> (Inl e, m)
             | Inr order_req \<Rightarrow>
                 (case answer P (tg_create_trigger_order triggers (m_venue m)
                         (resolved_exchange (ctr_exchange_id req) (tp_default_exchange P)) order_req) m of
                    (Inl e, m) \<Rightarrow> (Inl e, m)
                  | (Inr ord, m) \<Rightarrow> (Inr (trigger_order_to_unified (tp_decimal P) ord), m)))))"

definition proxy_cancel_trigger_order ::
  "('v, 'm, 'd) trading_proxy \<Rightarrow> exchange_id option \<Rightarrow> string \<Rightarrow> string \<Rightarrow> 'v session_manager
   \<Rightarrow> (connect_error + wire_trigger_order) \<times> 'v session_manager" where
  "proxy_cancel_trigger_order P ex order_id s m = (case tp_triggers P of
       None \<Rightarrow> (Inl not_implemented, m)
     | Some triggers \<Rightarrow>
         (case answer P (tg_cancel_trigger_order triggers (m_venue m)
                 (resolved_exchange ex (tp_default_exchange P)) order_id s) m of
            (Inl e, m) \<Rightarrow> (Inl e, m)
          | (Inr ord, m) \<Rightarrow> (Inr (trigger_order_to_unified (tp_decimal P) ord), m)))"

definition proxy_list_trigger_orders ::
  "('v, 'm, 'd) trading_proxy \<Rightarrow> exchange_id option \<Rightarrow> string list \<Rightarrow> 'v session_manager
   \<Rightarrow> (connect_error + wire_trigger_order list) \<times> 'v session_manager" where
  "proxy_list_trigger_orders P ex symbols m = (case tp_triggers P of
       None \<Rightarrow> (Inl not_implemented, m)
     | Some triggers \<Rightarrow>
         (case answer P (tg_list_trigger_orders triggers (m_venue m)
                 (resolved_exchange ex (tp_default_exchange P)) symbols) m of
            (Inl e, m) \<Rightarrow> (Inl e, m)
          | (Inr ords, m) \<Rightarrow> (Inr (map (trigger_order_to_unified (tp_decimal P)) ords), m)))"

text \<open>The ledger page: the rows and their number.\<close>

definition proxy_fetch_ledger_entries ::
  "('v, 'm, 'd) trading_proxy \<Rightarrow> exchange_id option \<Rightarrow> string \<Rightarrow> string \<Rightarrow> u64 option \<Rightarrow> 'v session_manager
   \<Rightarrow> (connect_error + wire_ledger_entry list \<times> nat) \<times> 'v session_manager" where
  "proxy_fetch_ledger_entries P ex currency ty pagination m = (case tp_wallet P of
       None \<Rightarrow> (Inl not_implemented, m)
     | Some wallet \<Rightarrow>
         (case answer P (wg_list_ledger_entries wallet (m_venue m)
                 (resolved_exchange ex (tp_default_exchange P)) currency ty (pagination_limit pagination)) m of
            (Inl e, m) \<Rightarrow> (Inl e, m)
          | (Inr entries, m) \<Rightarrow>
              (Inr (map (ledger_entry_to_unified (tp_decimal P)) entries, min (length entries) u32_max), m)))"

record transfer_request =
  trq_exchange_id :: "exchange_id option"
  trq_asset :: string
  trq_amount :: "wire_decimal option"
  trq_dest_label :: string
  trq_client_transfer_id :: string
  trq_session_id :: string

definition proxy_transfer ::
  "('v, 'm, 'd) trading_proxy \<Rightarrow> transfer_request \<Rightarrow> 'v session_manager
   \<Rightarrow> (connect_error + string \<times> wire_ledger_entry option) \<times> 'v session_manager" where
  "proxy_transfer P req m = (case tp_wallet P of
       None \<Rightarrow> (Inl not_implemented, m)
     | Some wallet \<Rightarrow> (case gate_submission (tp_gated P) (trq_session_id req) m of
           Inl e \<Rightarrow> (Inl e, m)
         | Inr _ \<Rightarrow> (case required_decimal (tp_decimal P) (trq_amount req) of
               Inl e \<Rightarrow> (Inl e, m)
             | Inr amount \<Rightarrow>
                 (case answer P (wg_transfer wallet (m_venue m)
                         (resolved_exchange (trq_exchange_id req) (tp_default_exchange P)) (trq_asset req) amount
                         (trq_dest_label req) (trq_client_transfer_id req)) m of
                    (Inl e, m) \<Rightarrow> (Inl e, m)
                  | (Inr receipt, m) \<Rightarrow>
                      (Inr (tr_transfer_id receipt, map_option (ledger_entry_to_unified (tp_decimal P)) (tr_entry receipt)), m)))))"

section \<open>The market-data proxy\<close>

text \<open>
  The unary market-data calls are forwarded unchanged: their messages are type parameters.  A
  stream takes the coalescing policy as soon as one subscription asks for order books.
\<close>

datatype market_method = ListSymbols | SearchSymbols | ListTickers | FetchTicker | FetchOrderBook | GetCandles

record ('v, 'q, 'r, 's, 'd) market_proxy =
  mp_call :: "'v \<Rightarrow> market_method \<Rightarrow> 'q \<Rightarrow> (port_error + 'r) \<times> 'v"
  mp_subscribe :: "'v \<Rightarrow> stream_market_data_request \<Rightarrow> overflow_policy \<Rightarrow> (port_error + 's) \<times> 'v"
  mp_default_exchange :: exchange_id
  mp_funding :: "('v, 'd) funding_rate_source option"
  mp_decimal :: "'d decimal_api"
  mp_grpc :: "u32 \<Rightarrow> connect_code option"

definition proxy_market_call ::
  "('v, 'q, 'r, 's, 'd) market_proxy \<Rightarrow> market_method \<Rightarrow> 'q \<Rightarrow> 'v \<Rightarrow> (connect_error + 'r) \<times> 'v" where
  "proxy_market_call P meth req v = apfst (map_err (map_port (mp_grpc P))) (mp_call P v meth req)"

definition stream_policy :: "stream_subscription list \<Rightarrow> overflow_policy" where
  "stream_policy subs =
     (if list_ex (\<lambda>s. sub_channel s = Known Orderbook) subs then overflow_orderbook else overflow_ticker)"

definition proxy_stream_market_data ::
  "('v, 'q, 'r, 's, 'd) market_proxy \<Rightarrow> stream_market_data_request \<Rightarrow> 'v \<Rightarrow> (connect_error + 's) \<times> 'v" where
  "proxy_stream_market_data P req v = apfst (map_err (map_port (mp_grpc P)))
     (mp_subscribe P v req (stream_policy (smr_subscriptions req)))"

record wire_funding_rate =
  wf_symbol :: string
  wf_rate :: "wire_decimal option"
  wf_next_funding_time_ms :: int
  wf_mark_price :: "wire_decimal option"
  wf_funding_interval_hours :: "u32 option"
  wf_open_interest :: "wire_decimal option"
  wf_volume_24h :: "wire_decimal option"

definition funding_snapshot_to_unified :: "'d decimal_api \<Rightarrow> 'd funding_rate_snapshot \<Rightarrow> wire_funding_rate" where
  "funding_snapshot_to_unified D snap =
     \<lparr>wf_symbol = frs_symbol snap, wf_rate = Some (decimal_to_common (d_show D) (frs_rate snap)),
      wf_next_funding_time_ms = frs_next_funding_time_ms snap,
      wf_mark_price = map_option (decimal_to_common (d_show D)) (frs_mark_price snap),
      wf_funding_interval_hours = None, wf_open_interest = None, wf_volume_24h = None\<rparr>"

definition funding_point_to_unified :: "'d decimal_api \<Rightarrow> 'd funding_rate_point \<Rightarrow> wire_decimal option \<times> int" where
  "funding_point_to_unified D point = (Some (decimal_to_common (d_show D) (frp_rate point)), frp_time_ms point)"

definition funding_answer ::
  "('v, 'q, 'r, 's, 'd) market_proxy \<Rightarrow> (('v, 'd) funding_rate_source \<Rightarrow> (port_error + 'a) \<times> 'v) \<Rightarrow> ('a \<Rightarrow> 'b) \<Rightarrow> 'v
   \<Rightarrow> (connect_error + 'b) \<times> 'v" where
  "funding_answer P call wire v = (case mp_funding P of
       None \<Rightarrow> (Inl not_implemented, v)
     | Some source \<Rightarrow> (case call source of
           (Inl e, v) \<Rightarrow> (Inl (map_port (mp_grpc P) e), v)
         | (Inr a, v) \<Rightarrow> (Inr (wire a), v)))"

definition proxy_fetch_funding_rate ::
  "('v, 'q, 'r, 's, 'd) market_proxy \<Rightarrow> exchange_id option \<Rightarrow> string \<Rightarrow> 'v \<Rightarrow> (connect_error + wire_funding_rate) \<times> 'v" where
  "proxy_fetch_funding_rate P ex s v = funding_answer P
     (\<lambda>source. fs_fetch_funding_rate source v (resolved_exchange ex (mp_default_exchange P)) s)
     (funding_snapshot_to_unified (mp_decimal P)) v"

definition proxy_list_funding_rates ::
  "('v, 'q, 'r, 's, 'd) market_proxy \<Rightarrow> exchange_id option \<Rightarrow> string list \<Rightarrow> 'v
   \<Rightarrow> (connect_error + wire_funding_rate list) \<times> 'v" where
  "proxy_list_funding_rates P ex symbols v = funding_answer P
     (\<lambda>source. fs_list_funding_rates source v (resolved_exchange ex (mp_default_exchange P)) symbols)
     (map (funding_snapshot_to_unified (mp_decimal P))) v"

definition proxy_fetch_funding_rate_history ::
  "('v, 'q, 'r, 's, 'd) market_proxy \<Rightarrow> exchange_id option \<Rightarrow> string \<Rightarrow> u32 \<Rightarrow> 'v
   \<Rightarrow> (connect_error + (wire_decimal option \<times> int) list) \<times> 'v" where
  "proxy_fetch_funding_rate_history P ex s limit v = funding_answer P
     (\<lambda>source. fs_fetch_funding_rate_history source v (resolved_exchange ex (mp_default_exchange P)) s limit)
     (map (funding_point_to_unified (mp_decimal P))) v"

section \<open>The venue-operation proxy\<close>

text \<open>
  The conversions between the protobuf \<open>Struct\<close> and JSON belong to the protobuf library and
  are arguments: \<open>vq_to_json\<close> and \<open>vq_from_json\<close>, with \<open>None\<close> for a failed conversion.
\<close>

datatype wire_param_type =
    WireUnspecified | WireString | WireInt64 | WireDecimal | WireBool | WireEnum | WireList | WireMap

fun param_type_to_wire :: "venue_op_param_type \<Rightarrow> wire_param_type" where
  "param_type_to_wire ParamUnspecified = WireUnspecified"
| "param_type_to_wire ParamString = WireString"
| "param_type_to_wire ParamInt64 = WireInt64"
| "param_type_to_wire ParamDecimal = WireDecimal"
| "param_type_to_wire ParamBool = WireBool"
| "param_type_to_wire ParamEnum = WireEnum"
| "param_type_to_wire ParamList = WireList"
| "param_type_to_wire ParamMap = WireMap"

record wire_param =
  wp_name :: string
  wp_type :: "wire_param_type enum_value"
  wp_required :: bool
  wp_default :: string
  wp_doc :: string
  wp_enum_values :: "string list"

record wire_op_descriptor =
  wd_name :: string
  wd_category :: string
  wd_summary :: string
  wd_mutating :: bool
  wd_params :: "wire_param list"
  wd_examples :: "string list"

definition op_descriptor_to_wire :: "venue_op_descriptor \<Rightarrow> wire_op_descriptor" where
  "op_descriptor_to_wire d =
     \<lparr>wd_name = vd_name d, wd_category = vd_category d, wd_summary = vd_summary d, wd_mutating = vd_mutating d,
      wd_params = map (\<lambda>p. \<lparr>wp_name = vp_name p, wp_type = Known (param_type_to_wire (vp_type p)),
        wp_required = vp_required p, wp_default = '''', wp_doc = vp_doc p, wp_enum_values = vp_enum_values p\<rparr>) (vd_params d),
      wd_examples = []\<rparr>"

record ('v, 's) venue_op_proxy =
  vq_ops :: "'v venue_op_invoker option"
  vq_default_exchange :: exchange_id
  vq_grpc :: "u32 \<Rightarrow> connect_code option"
  vq_to_json :: "'s \<Rightarrow> json option"
  vq_from_json :: "json \<Rightarrow> 's option"

definition exchange_for :: "('v, 's) venue_op_proxy \<Rightarrow> string \<Rightarrow> exchange_id" where
  "exchange_for P requested =
     (if requested = [] then vq_default_exchange P else default_exchange_id\<lparr>ex_id := requested\<rparr>)"

definition proxy_list_venue_ops ::
  "('v, 's) venue_op_proxy \<Rightarrow> string \<Rightarrow> 'v \<Rightarrow> (connect_error + wire_op_descriptor list) \<times> 'v" where
  "proxy_list_venue_ops P ex v = (case vq_ops P of
       None \<Rightarrow> (Inl not_implemented, v)
     | Some invoker \<Rightarrow> (case vo_list_venue_ops invoker v (exchange_for P ex) of
           (Inl e, v) \<Rightarrow> (Inl (map_port (vq_grpc P) e), v)
         | (Inr ds, v) \<Rightarrow> (Inr (map op_descriptor_to_wire ds), v)))"

definition proxy_describe_venue_op ::
  "('v, 's) venue_op_proxy \<Rightarrow> string \<Rightarrow> string \<Rightarrow> 'v \<Rightarrow> (connect_error + wire_op_descriptor) \<times> 'v" where
  "proxy_describe_venue_op P ex op v =
     (if is_blank op then (Inl (connect CodeInvalidArgument), v)
      else case vq_ops P of
          None \<Rightarrow> (Inl not_implemented, v)
        | Some invoker \<Rightarrow> (case describe_venue_op invoker v (exchange_for P ex) op of
              (Inl e, v) \<Rightarrow> (Inl (map_port (vq_grpc P) e), v)
            | (Inr d, v) \<Rightarrow> (Inr (op_descriptor_to_wire d), v)))"

definition proxy_invoke_venue_op ::
  "('v, 's) venue_op_proxy \<Rightarrow> string \<Rightarrow> string \<Rightarrow> 's option \<Rightarrow> 'v \<Rightarrow> (connect_error + 's) \<times> 'v" where
  "proxy_invoke_venue_op P ex op params v =
     (if is_blank op then (Inl (connect CodeInvalidArgument), v)
      else case vq_ops P of
          None \<Rightarrow> (Inl not_implemented, v)
        | Some invoker \<Rightarrow>
            let args = (case Option.bind (Option.bind params (vq_to_json P)) as_object of None \<Rightarrow> [] | Some kvs \<Rightarrow> kvs)
            in case vo_invoke_venue_op invoker v (exchange_for P ex) op args of
                 (Inl e, v) \<Rightarrow> (Inl (map_port (vq_grpc P) e), v)
               | (Inr result, v) \<Rightarrow> (case vq_from_json P result of
                     None \<Rightarrow> (Inl (connect CodeInternal), v)
                   | Some st \<Rightarrow> (Inr st, v)))"

section \<open>Accepted orders and the kill switch\<close>

lemma record_tracks:
  "ord \<in> set orders \<Longrightarrow> o_id ord \<noteq> [] \<Longrightarrow> o_id ord \<in> set (sh_tracked_coids (record_submitted_orders orders h))"
  by (simp add: track_orders_set)

lemma shared_handle_lookup: "lookup m (sh_id h) = Some h' \<Longrightarrow> shared_handle m h = h'"
  by (simp add: shared_handle_def get_lookup)

lemma shared_handle_gone:
  "lookup m (sh_id h) = None \<Longrightarrow> handle_state (shared_handle m h) = Some KillSwitchTripped"
  by (simp add: shared_handle_def get_lookup)

text \<open>What other tasks may do to the registry and the venue while a handler waits.\<close>

definition others_ok ::
  "('v, 'm) trading_gateway \<Rightarrow> (string \<Rightarrow> string \<Rightarrow> bool) \<Rightarrow> ('v \<Rightarrow> bool)
   \<Rightarrow> ('v session_manager \<Rightarrow> 'v session_manager) \<Rightarrow> bool" where
  "others_ok gw ct_eq vok others \<longleftrightarrow> (\<forall>m. vok (m_venue m) \<longrightarrow> vok (m_venue (others m)))
     \<and> (\<forall>m issued. manager_inv (m, issued) \<longrightarrow>
          (\<exists>issued'. (manager_step gw ct_eq)\<^sup>*\<^sup>* (m, issued) (others m, issued')))"

lemma others_evolve:
  assumes "others_ok gw ct_eq vok others" and "manager_inv (m, issued)"
  shows "\<exists>issued'. manager_inv (others m, issued') \<and> issued \<subseteq> issued' \<and> registry_evolves m (others m)
    \<and> (\<forall>i \<in> issued. lookup m i = None \<longrightarrow> lookup (others m) i = None)"
proof -
  obtain issued' where s: "(manager_step gw ct_eq)\<^sup>*\<^sup>* (m, issued) (others m, issued')"
    using assms unfolding others_ok_def by blast
  show ?thesis
    using manager_steps_world [OF s assms(2)] registry.inv_steps [OF s assms(2)]
    by (intro exI [of _ issued']) (simp add: world_evolves_def)
qed

lemma others_ok_id: "others_ok gw ct_eq vok (\<lambda>m. m)"
  by (auto simp: others_ok_def)

text \<open>An order is tracked by a session that can still be stopped or tripped.\<close>

definition in_reach_of_kill_switch :: "'v session_manager \<Rightarrow> string \<Rightarrow> string \<Rightarrow> bool" where
  "in_reach_of_kill_switch m session_id order_id \<longleftrightarrow>
     (\<exists>h s. lookup m session_id = Some h \<and> handle_state h = Some s \<and> \<not> is_terminal s
        \<and> order_id \<in> set (sh_tracked_coids h))"

lemma handle_ok_state: "manager_inv (m, issued) \<Longrightarrow> lookup m i = Some h \<Longrightarrow> \<exists>s. handle_state h = Some s"
proof -
  assume "manager_inv (m, issued)" "lookup m i = Some h"
  then have "handle_ok h" by (simp add: manager_inv_def manager_ok_def)
  then show ?thesis unfolding handle_ok_def by blast
qed

lemma is_terminal_KillSwitch: "is_terminal KillSwitchTripped"
  by simp

lemma map_entry_absent: "k \<notin> fst ` set al \<Longrightarrow> AList.map_entry k f al = al"
  by (induction al) auto

context venue_contract
begin

lemma unwind_effect:
  assumes "vok (m_venue m)" and "handle_state h = Some s" and "is_terminal s" and "ord \<in> set orders" and "o_id ord \<noteq> []"
  shows "\<not> resting (m_venue (unwind_late_submissions gw h orders m)) (o_id ord)
    \<or> (\<exists>v fs. cancel_coids gw (m_default_exchange m) (filter (\<lambda>i. i \<noteq> []) (map o_id orders)) v
          = (fs, m_venue (unwind_late_submissions gw h orders m)) \<and> reported (o_id ord) fs)"
proof -
  obtain fs v' where c: "cancel_coids gw (m_default_exchange m) (filter (\<lambda>i. i \<noteq> []) (map o_id orders)) (m_venue m) = (fs, v')"
    by fastforce
  have "m_venue (unwind_late_submissions gw h orders m) = v'"
    using assms(2-4) c by (auto simp: unwind_late_submissions_def)
  moreover have "resting v' (o_id ord) \<Longrightarrow> reported (o_id ord) fs"
    using cancel_coids_effect [OF assms(1) c] assms(4,5) by auto
  ultimately show ?thesis using c by blast
qed

lemma unwind_live:
  "handle_state h = Some s \<Longrightarrow> \<not> is_terminal s \<Longrightarrow> unwind_late_submissions gw h orders m = m"
  by (simp add: unwind_late_submissions_def)

text \<open>
  Attribution, whatever the other tasks do between the recording of the orders and the check of
  the session: an accepted order stays in reach of the kill switch, or is off the venue, or its
  failed cancel was the last word of the venue.
\<close>

lemma attributed_order_safe:
  assumes inv: "manager_inv (m, issued)" and i: "sh_id h \<in> issued" and v: "vok (m_venue m)"
    and others: "others_ok gw ct_eq vok others" and ord: "ord \<in> set orders" "o_id ord \<noteq> []"
    and m': "m' = attribute_orders gw True (Some h) others orders m"
  shows "in_reach_of_kill_switch m' (sh_id h) (o_id ord) \<or> \<not> resting (m_venue m') (o_id ord)
    \<or> (\<exists>ex v fs. cancel_coids gw ex (filter (\<lambda>i. i \<noteq> []) (map o_id orders)) v = (fs, m_venue m') \<and> reported (o_id ord) fs)"
proof -
  define m3 where "m3 = put_handle (sh_id h) (record_submitted_orders orders (shared_handle m h)) m"
  define m4 where "m4 = others m3"
  have m'_eq: "m' = unwind_late_submissions gw (shared_handle m4 h) orders m4"
    using m' by (simp add: attribute_orders_def m3_def m4_def Let_def)
  have step: "registry_step m m3"
  proof (cases "lookup m (sh_id h)")
    case None
    then have "put_handle (sh_id h) h3 m = m" for h3
      by (simp add: put_handle_def lookup_def map_of_eq_None_iff map_entry_absent)
    then show ?thesis by (simp add: m3_def)
  next
    case (Some h2)
    then show ?thesis using registry_put [OF Some record_good] by (simp add: m3_def shared_handle_lookup)
  qed
  have inv3: "manager_inv (m3, issued)" using world_step [OF step inv] by simp
  obtain issued4 where inv4: "manager_inv (m4, issued4)" and ev: "registry_evolves m3 m4"
    and none: "\<forall>i \<in> issued. lookup m3 i = None \<longrightarrow> lookup m4 i = None"
    using others_evolve [OF others inv3] unfolding m4_def by blast
  have vok4: "vok (m_venue m4)" using others v unfolding m4_def by (simp add: others_ok_def m3_def)
  show ?thesis
  proof (cases "lookup m4 (sh_id h)")
    case None
    then show ?thesis
      using unwind_effect [OF vok4 shared_handle_gone [OF None] is_terminal_KillSwitch ord] unfolding m'_eq by blast
  next
    case (Some h4)
    then obtain s where s: "handle_state h4 = Some s" using handle_ok_state [OF inv4] by blast
    obtain h3 where h3: "lookup m3 (sh_id h) = Some h3" using none i Some by (cases "lookup m3 (sh_id h)") simp_all
    then have "h3 = record_submitted_orders orders (shared_handle m h)" unfolding m3_def lookup_put by fastforce
    then have "o_id ord \<in> set (sh_tracked_coids h3)" using record_tracks [OF ord] by simp
    then have tracked: "o_id ord \<in> set (sh_tracked_coids h4)"
      using registry_evolves_Some [OF ev h3 Some] unfolding good_step_def handle_evolves_def by blast
    show ?thesis
    proof (cases "is_terminal s")
      case True
      then show ?thesis
        using unwind_effect [OF vok4 s True ord] unfolding m'_eq shared_handle_lookup [OF Some] by blast
    next
      case False
      then have "m' = m4" using unwind_live [OF s] by (simp add: m'_eq shared_handle_lookup [OF Some])
      then show ?thesis using Some s False tracked by (auto simp: in_reach_of_kill_switch_def)
    qed
  qed
qed

end

lemma gate_open:
  assumes "gate_submission True i m = Inr session" and "i \<noteq> []" and "manager_ok m"
  obtains h where "session = Some h" "lookup m i = Some h" "sh_id h = i" "handle_state h = Some Active"
proof -
  obtain h where h: "lookup m i = Some h" "session = Some h" "handle_state h = Some Active"
    using assms(1,2)
    by (cases "lookup m i")
       (auto simp: gate_submission_def authorize_order_submission_def get_lookup split: if_splits)
  then show ?thesis using that assms(3) by (simp add: manager_ok_def)
qed

lemma gate_closed:
  assumes "lookup m i = Some h" and "handle_state h \<noteq> Some Active" and "i \<noteq> []"
  shows "gate_submission True i m = Inl ((connect CodeFailedPrecondition)\<lparr>ce_reason := Some ReasonSyncInProgress\<rparr>)"
  using assms by (simp add: gate_submission_def authorize_order_submission_def get_lookup)

lemma proxy_create_order_ok:
  assumes "proxy_create_order P during after req m = (Inr ord, m')"
  obtains session r v where "gate_submission (tp_gated P) (cor_session_id req) m = Inr session"
    "gw_create_order (tp_gateway P) (m_venue m) r = (Inr ord, v)"
    "m' = attribute_orders (tp_gateway P) (tp_gated P) session after [ord] (during (m\<lparr>m_venue := v\<rparr>))"
proof (cases "gate_submission (tp_gated P) (cor_session_id req) m")
  case (Inl e)
  then show ?thesis using assms by (simp add: proxy_create_order_def)
next
  case (Inr session)
  let ?r = "req\<lparr>cor_exchange_id := Some (resolved_exchange (cor_exchange_id req) (tp_default_exchange P))\<rparr>"
  obtain res v where c: "gw_create_order (tp_gateway P) (m_venue m) ?r = (res, v)" by fastforce
  then show ?thesis
    using assms Inr that [OF Inr, of ?r v] by (cases res) (simp_all add: proxy_create_order_def Let_def)
qed

lemma mock_batch_places:
  assumes "mock_batch D sys ex reqs v = (res, v')"
  shows "\<exists>new. ms_orders v' = ms_orders v @ new
    \<and> (\<forall>ord \<in> set new. is_open ord \<and> o_id ord \<noteq> [] \<and> o_client_order_id ord \<in> or_client_order_id ` set reqs)"
  using assms
proof (induction reqs arbitrary: v res)
  case Nil
  then show ?case by simp
next
  case (Cons req reqs)
  let ?r = "\<lparr>cor_exchange_id = ex, cor_order = Some req, cor_session_id = ''''\<rparr>"
  obtain one v1 where c: "mock_create_order D sys v ?r = (one, v1)" by fastforce
  show ?case
  proof (cases one)
    case (Inl e)
    then have "ms_orders v1 = ms_orders v" "v' = v1"
      using c Cons.prems by (auto simp: mock_create_order_def Let_def split: if_splits)
    then show ?thesis by simp
  next
    case (Inr ord)
    then have placed: "ms_orders v1 = ms_orders v @ [ord]" "is_open ord" "o_id ord \<noteq> []"
        "o_client_order_id ord = or_client_order_id req"
      using c by (auto simp: mock_create_order_def Let_def mock_order_def is_open_def split: if_splits)
    obtain rest v2 where "mock_batch D sys ex reqs v1 = (rest, v2)" by fastforce
    moreover from this have "v' = v2" using Cons.prems c Inr by (auto split: sum.splits)
    ultimately obtain new where "ms_orders v' = ms_orders v1 @ new"
      "\<forall>ord \<in> set new. is_open ord \<and> o_id ord \<noteq> [] \<and> o_client_order_id ord \<in> or_client_order_id ` set reqs"
      using Cons.IH by blast
    then show ?thesis using placed by (intro exI [of _ "ord # new"]) auto
  qed
qed

lemma failed_batch_attribution:
  assumes "lookup m (sh_id h) = Some h" and "handle_state h = Some Active"
  shows "attribute_orders gw True (Some h) (\<lambda>m. m) orders m = put_handle (sh_id h) (record_submitted_orders orders h) m"
proof -
  have "shared_handle (put_handle (sh_id h) (record_submitted_orders orders h) m) h = record_submitted_orders orders h"
    using assms(1) by (intro shared_handle_lookup) simp
  then show ?thesis
    using assms by (simp add: attribute_orders_def Let_def shared_handle_lookup unwind_late_submissions_def)
qed

definition recovered :: "create_orders_request \<Rightarrow> 'd mock_state \<Rightarrow> order list" where
  "recovered req v = filter (\<lambda>ord. o_client_order_id ord \<in> set (filter (\<lambda>c. c \<noteq> []) (map or_client_order_id (cosr_orders req))))
     (filter is_open (ms_orders v))"

lemma batch_result:
  assumes "tp_gateway P = mock_gateway D sys" and "tp_gated P"
    and "gate_submission True (cosr_session_id req) m = Inr (Some h)"
    and "lookup m (sh_id h) = Some h" and "handle_state h = Some Active"
    and "mock_batch D sys (Some (resolved_exchange (cosr_exchange_id req) (tp_default_exchange P))) (cosr_orders req) (m_venue m)
      = (res, v)"
  shows "proxy_create_orders P (\<lambda>m. m) (\<lambda>m. m) req m = (case res of
      Inl e \<Rightarrow> (Inl (map_port (tp_grpc P) e),
        put_handle (sh_id h) (record_submitted_orders (recovered req v) h) (m\<lparr>m_venue := v\<rparr>))
    | Inr orders \<Rightarrow> (Inr orders, put_handle (sh_id h) (record_submitted_orders orders h) (m\<lparr>m_venue := v\<rparr>)))"
proof -
  have b: "gw_batch_create_orders (tp_gateway P) (m_venue m)
      (req\<lparr>cosr_exchange_id := Some (resolved_exchange (cosr_exchange_id req) (tp_default_exchange P))\<rparr>) = (res, v)"
    using assms(1,6) by (simp add: mock_gateway_def mock_batch_create_orders_def)
  have a: "accepted_batch_orders (tp_gateway P) ex (map or_client_order_id (cosr_orders req)) v = (recovered req v, v)" for ex
    using assms(1) by (simp add: accepted_batch_orders_def mock_gateway_def mock_fetch_open_orders_def
        symbol_matches_def recovered_def)
  have t: "attribute_orders (tp_gateway P) True (Some h) (\<lambda>m. m) orders (m\<lparr>m_venue := v\<rparr>)
      = put_handle (sh_id h) (record_submitted_orders orders h) (m\<lparr>m_venue := v\<rparr>)" for orders
    using assms(4,5) by (intro failed_batch_attribution) simp_all
  show ?thesis
    using assms(2,3) by (cases res) (simp_all add: proxy_create_orders_def b a t Let_def)
qed

section \<open>Properties\<close>


text \<open>A session that has not reconciled, or has ended, places nothing.  Every call that would
  place an order or move funds is refused before the venue is asked, and the state is untouched;
  orders are refused with the typed reason SYNC_IN_PROGRESS.\<close>

theorem unready_session_places_nothing:
  assumes "tp_gated P" and "lookup m i = Some h" and "handle_state h \<noteq> Some Active" and "i \<noteq> []"
  shows "proxy_create_order P during after (oreq\<lparr>cor_session_id := i\<rparr>) m
      = (Inl \<lparr>ce_code = CodeFailedPrecondition, ce_reason = Some ReasonSyncInProgress\<rparr>, m)
    \<and> proxy_create_orders P during after (breq\<lparr>cosr_session_id := i\<rparr>) m
      = (Inl \<lparr>ce_code = CodeFailedPrecondition, ce_reason = Some ReasonSyncInProgress\<rparr>, m)
    \<and> (\<exists>e. proxy_create_trigger_order P (treq\<lparr>ctr_session_id := i\<rparr>) m = (Inl e, m))
    \<and> (\<exists>e. proxy_transfer P (wreq\<lparr>trq_session_id := i\<rparr>) m = (Inl e, m))"
  using gate_closed [OF assms(2-4)] assms(1)
  by (simp add: proxy_create_order_def proxy_create_orders_def proxy_create_trigger_order_def proxy_transfer_def
      connect_def split: option.split)

text \<open>When a batch fails half-way on the venue, every leg the venue did accept and that can be
  recognised by its client id is tracked by the session, so the kill switch still reaches it.\<close>

theorem partial_batch_is_attributed:
  assumes gw: "tp_gateway P = mock_gateway D sys" and gated: "tp_gated P" and inv: "manager_inv (m, issued)"
    and sid: "cosr_session_id req \<noteq> []"
    and call: "proxy_create_orders P (\<lambda>m. m) (\<lambda>m. m) req m = (Inl e, m')"
    and ord: "ord \<in> set (ms_orders (m_venue m'))" "ord \<notin> set (ms_orders (m_venue m))" "o_client_order_id ord \<noteq> []"
  shows "in_reach_of_kill_switch m' (cosr_session_id req) (o_id ord)"
proof (cases "gate_submission True (cosr_session_id req) m")
  case (Inl e')
  then have "m' = m" using call gated by (simp add: proxy_create_orders_def)
  then show ?thesis using ord by simp
next
  case (Inr session)
  have "manager_ok m" using inv by (simp add: manager_inv_def)
  then obtain h where h: "session = Some h" "lookup m (cosr_session_id req) = Some h" "sh_id h = cosr_session_id req"
      "handle_state h = Some Active"
    by (rule gate_open [OF Inr sid])
  obtain res v where b: "mock_batch D sys (Some (resolved_exchange (cosr_exchange_id req) (tp_default_exchange P)))
      (cosr_orders req) (m_venue m) = (res, v)"
    by fastforce
  define h' where "h' = record_submitted_orders (recovered req v) h"
  have m': "m' = put_handle (sh_id h) h' (m\<lparr>m_venue := v\<rparr>)"
    using batch_result [OF gw gated Inr [unfolded h(1)] _ h(4) b] h(2,3) call by (cases res) (simp_all add: h'_def)
  obtain new where new: "ms_orders v = ms_orders (m_venue m) @ new"
    "\<forall>ord \<in> set new. is_open ord \<and> o_id ord \<noteq> [] \<and> o_client_order_id ord \<in> or_client_order_id ` set (cosr_orders req)"
    using mock_batch_places [OF b] by blast
  then have "ord \<in> set new" using ord(1,2) by (simp add: m')
  then have "ord \<in> set (recovered req v)" "o_id ord \<noteq> []" using new ord(3) by (auto simp: recovered_def)
  then have "o_id ord \<in> set (sh_tracked_coids h')" using record_tracks by (simp add: h'_def del: record_fields)
  then show ?thesis
    using h by (auto simp: in_reach_of_kill_switch_def m' h'_def intro!: exI [of _ Active])
qed

text \<open>The limit leg of a conditional order is dropped without a word: the order price, the order
  type and the trigger source of the request have no influence on what is placed or answered, and
  the answer always reads as a market order.\<close>

theorem trigger_limit_price_dropped:
  "proxy_create_trigger_order P
     (req\<lparr>ctr_order := Some (t\<lparr>wt_order_price := p, wt_order_type := ty, wt_trigger_type := src\<rparr>)\<rparr>) m
   = proxy_create_trigger_order P (req\<lparr>ctr_order := Some t\<rparr>) m
   \<and> wo_order_price (trigger_order_to_unified D ord) = None \<and> wo_order_type (trigger_order_to_unified D ord) = Known Market"
proof -
  have "trigger_request_from_unified D' (Some (t\<lparr>wt_order_price := p, wt_order_type := ty, wt_trigger_type := src\<rparr>))
      = trigger_request_from_unified D' (Some t)" for D' :: "'c decimal_api"
    by (simp add: trigger_request_from_unified_def split: sum.split enum_value.split order_side.split)
  then show ?thesis
    by (simp add: proxy_create_trigger_order_def trigger_order_to_unified_def split: option.split sum.split)
qed

section \<open>Witnesses\<close>

text \<open>An ACTIVE session over a fresh mock venue.\<close>

definition active_on :: "'v \<Rightarrow> 'v session_manager" where
  "active_on v = (manager_new None default_exchange_id v)\<lparr>m_sessions := m_sessions active_manager\<rparr>"

definition demo_proxy :: "(int mock_state, mock_message, int) trading_proxy" where
  "demo_proxy = \<lparr>tp_gateway = mock_gateway int_api 0, tp_default_exchange = default_exchange_id, tp_gated = True,
     tp_triggers = Some (mock_triggers int_api 0), tp_wallet = Some (mock_wallet int_api 0), tp_decimal = int_api,
     tp_grpc = (\<lambda>_. None)\<rparr>"

definition demo_create :: create_order_request where
  "demo_create = \<lparr>cor_exchange_id = None, cor_order = Some demo_order, cor_session_id = ''s1''\<rparr>"

lemma lookup_active_on [simp]: "lookup (active_on v) i = lookup active_manager i"
  by (simp add: active_on_def lookup_def)

lemma venue_active_on [simp]: "m_venue (active_on v) = v" "(active_on v)\<lparr>m_venue := w\<rparr> = active_on w"
  by (simp_all add: active_on_def manager_new_def)

lemma active_on_inv: "manager_inv (active_on v, {''s1''})"
  using registry.inv_reach [OF active_reach [of offline_gateway]]
  by (simp add: manager_inv_def manager_ok_def) (simp add: active_on_def)

lemma active_on_gate:
  obtains h where "lookup active_manager ''s1'' = Some h" "handle_state h = Some Active" "sh_id h = ''s1''"
    "gate_submission True ''s1'' (active_on v) = Inr (Some h)"
proof -
  obtain h where h: "lookup active_manager ''s1'' = Some h" "handle_state h = Some Active"
    by (rule active_lookup)
  moreover have "sh_id h = ''s1''"
    using active_on_inv [of "()"] h(1) by (auto simp: manager_inv_def manager_ok_def)
  ultimately show ?thesis
    using that by (simp add: gate_submission_def authorize_order_submission_def get_lookup)
qed


lemma demo_create_result:
  "proxy_create_order demo_proxy (\<lambda>m. m) (\<lambda>m. m) demo_create (active_on (mock_new int_api 100))
   = (Inr (mock_order int_api 0 ''mock-1'' demo_order),
      attribute_orders (mock_gateway int_api 0) True
        (case gate_submission True ''s1'' (active_on (mock_new int_api 100)) of Inr s \<Rightarrow> s | Inl _ \<Rightarrow> None) (\<lambda>m. m)
        [mock_order int_api 0 ''mock-1'' demo_order] (active_on demo_venue))"
proof -
  obtain h where h: "gate_submission True ''s1'' (active_on (mock_new int_api 100)) = Inr (Some h)"
    by (rule active_on_gate [of "mock_new int_api 100"])
  have n: "nat_to_string (Suc 0) = ''1''" by code_simp
  have c: "mock_create_order int_api 0 (mock_new int_api 100) r = (Inr (mock_order int_api 0 ''mock-1'' demo_order), demo_venue)"
    if "cor_order r = Some demo_order" for r
    using that n by (simp add: demo_venue_def mock_create_order_def mock_new_def Let_def)
  show ?thesis
    by (simp add: proxy_create_order_def demo_proxy_def demo_create_def h c mock_gateway_def Let_def)
qed

lemma mock_cancel_seen: "ms_cancel_seen (snd (mock_cancel_order v req)) \<noteq> []"
  by (simp add: mock_cancel_order_def Let_def split: option.split)


theorem unready_session_places_nothing_witness:
  "proxy_create_order demo_proxy (\<lambda>m. m) (\<lambda>m. m) demo_create
     ((manager_new None default_exchange_id (mock_new int_api 100))\<lparr>m_sessions := m_sessions demo_manager\<rparr>)
   = (Inl \<lparr>ce_code = CodeFailedPrecondition, ce_reason = Some ReasonSyncInProgress\<rparr>,
      (manager_new None default_exchange_id (mock_new int_api 100))\<lparr>m_sessions := m_sessions demo_manager\<rparr>)"
proof -
  let ?m = "(manager_new None default_exchange_id (mock_new int_api 100))\<lparr>m_sessions := m_sessions demo_manager\<rparr>"
  have l: "lookup ?m ''s1'' = Some (new_handle ''s1'' default_policy 5 \<lparr>ci_name = ''bot'', ci_version = ''1''\<rparr>)"
    using demo_lookup by (simp add: lookup_def)
  have s: "handle_state (new_handle ''s1'' default_policy 5 \<lparr>ci_name = ''bot'', ci_version = ''1''\<rparr>) \<noteq> Some Active"
    by (simp add: new_handle_def handle_state_def)
  have c: "demo_create\<lparr>cor_session_id := ''s1''\<rparr> = demo_create" by (simp add: demo_create_def)
  show ?thesis
    using unready_session_places_nothing [OF _ l s, of demo_proxy "\<lambda>m. m" "\<lambda>m. m" demo_create] c
    by (simp add: demo_proxy_def)
qed

definition demo_batch :: create_orders_request where
  "demo_batch = \<lparr>cosr_exchange_id = None, cosr_orders = [demo_order, demo_order\<lparr>or_client_order_id := ''c2''\<rparr>],
     cosr_session_id = ''s1''\<rparr>"

text \<open>The second leg is scripted to fail.\<close>

theorem partial_batch_is_attributed_witness:
  "in_reach_of_kill_switch (snd (proxy_create_orders demo_proxy (\<lambda>m. m) (\<lambda>m. m) demo_batch
     (active_on (fail_creates_from 1 (mock_new int_api 100))))) ''s1'' ''mock-1''"
proof -
  let ?v = "fail_creates_from 1 (mock_new int_api 100)"
  let ?m = "active_on ?v"
  let ?ord = "mock_order int_api 0 ''mock-1'' demo_order"
  obtain h where h: "lookup active_manager ''s1'' = Some h" "handle_state h = Some Active" "sh_id h = ''s1''"
    and g: "gate_submission True ''s1'' ?m = Inr (Some h)"
    by (rule active_on_gate [of ?v])
  have n: "nat_to_string (Suc 0) = ''1''" by code_simp
  define v' where "v' = ?v\<lparr>ms_creates_seen := 2, ms_ids := 2, ms_orders := [?ord]\<rparr>"
  have b: "mock_batch int_api 0 ex (cosr_orders demo_batch) ?v = (Inl scripted_failure, v')" for ex
    by (simp add: demo_batch_def mock_create_order_def fail_creates_from_def mock_new_def Let_def n v'_def)
  have p: "tp_gateway demo_proxy = mock_gateway int_api 0" "tp_gated demo_proxy" "cosr_session_id demo_batch = ''s1''"
    by (simp_all add: demo_proxy_def demo_batch_def)
  define e where "e = map_port (tp_grpc demo_proxy) scripted_failure"
  define m' where "m' = snd (proxy_create_orders demo_proxy (\<lambda>m. m) (\<lambda>m. m) demo_batch ?m)"
  have "mock_batch int_api 0 (Some (resolved_exchange (cosr_exchange_id demo_batch) (tp_default_exchange demo_proxy)))
      (cosr_orders demo_batch) (m_venue ?m) = (Inl scripted_failure, v')"
    using b by simp
  note r = batch_result [OF p(1,2) _ _ h(2) this, unfolded p(3), OF g]
  have call: "proxy_create_orders demo_proxy (\<lambda>m. m) (\<lambda>m. m) demo_batch ?m = (Inl e, m')" and m'v: "m_venue m' = v'"
    using r h by (simp_all add: m'_def e_def)
  have "in_reach_of_kill_switch m' (cosr_session_id demo_batch) (o_id ?ord)"
    by (rule partial_batch_is_attributed [OF _ _ active_on_inv _ call])
       (simp_all add: demo_proxy_def demo_batch_def m'v v'_def fail_creates_from_def mock_new_def, simp_all add: mock_order_def demo_order_def)
  then show ?thesis by (simp add: m'_def demo_batch_def mock_order_def)
qed

end
