(* ===== verification/State_Store.thy ===== *)
theory State_Store
  imports Json Prelude
begin

text \<open>
  The file-backed state store of the strategies (\<open>state_store.rs\<close>): a document is written to
  a temporary file beside the target, synced, and renamed over it.  Every call into the file
  system may fail; a write that fails leaves some prefix of its bytes behind.  A call that
  fails ends the save at once, so the disk after a failed call is also the disk a process
  killed during that call leaves.  Loss of power before a sync is outside the model.
\<close>

section \<open>Paths and the disk\<close>

text \<open>A path is its parent with its last component; a path such as \<open>/\<close> has no last component.\<close>

record path =
  pa_parent :: string
  pa_file_name :: "string option"

type_synonym disk = "path \<Rightarrow> string option"

definition with_file_name :: "path \<Rightarrow> string \<Rightarrow> path" where
  "with_file_name p n = p\<lparr>pa_file_name := Some n\<rparr>"

text \<open>The calls of a save in their order, and how each may end; a failed write may leave a prefix.\<close>

datatype fs_call = CreateDirAll | WriteTmp | OpenTmp | SyncTmp | RenameTmp
datatype fs_outcome = Works | Fails | FailsAfter nat

datatype store_error =
    CreateFailed string
  | SerializeFailed string
  | WriteFailed path
  | OpenFailed path
  | SyncFailed path
  | RenameFailed path path
  | DeserializeFailed string
  | ReadFailed path

type_synonym fs_faults = "fs_call \<Rightarrow> fs_outcome"

section \<open>Saving and loading\<close>

definition tmp_path :: "path \<Rightarrow> path" where
  "tmp_path p = with_file_name p ((case pa_file_name p of None \<Rightarrow> '''' | Some n \<Rightarrow> n) @ ''.tmp'')"

text \<open>
  \<open>to_string_pretty\<close> and \<open>from_str\<close> belong to \<open>serde_json\<close> and are arguments.  The sync of the
  parent directory at the end of a save is best-effort and changes nothing here.
\<close>

definition store_save ::
  "(json \<Rightarrow> string + string) \<Rightarrow> fs_faults \<Rightarrow> path \<Rightarrow> json \<Rightarrow> disk \<Rightarrow> (store_error + unit) \<times> disk" where
  "store_save to_string_pretty fault p state d =
     (if fault CreateDirAll \<noteq> Works then (Inl (CreateFailed (pa_parent p)), d)
      else case to_string_pretty state of
          Inl e \<Rightarrow> (Inl (SerializeFailed e), d)
        | Inr text \<Rightarrow>
            let tmp = tmp_path p
            in case fault WriteTmp of
                Fails \<Rightarrow> (Inl (WriteFailed tmp), d)
              | FailsAfter k \<Rightarrow> (Inl (WriteFailed tmp), d(tmp \<mapsto> take k text))
              | Works \<Rightarrow>
                  let d = d(tmp \<mapsto> text)
                  in if fault OpenTmp \<noteq> Works then (Inl (OpenFailed tmp), d)
                     else if fault SyncTmp \<noteq> Works then (Inl (SyncFailed tmp), d)
                     else if fault RenameTmp \<noteq> Works then (Inl (RenameFailed tmp p), d)
                     else (Inr (), d(p := d tmp, tmp := None)))"

definition store_load ::
  "(string \<Rightarrow> string + json) \<Rightarrow> bool \<Rightarrow> path \<Rightarrow> disk \<Rightarrow> store_error + json option" where
  "store_load from_str read_fails p d =
     (if read_fails then Inl (ReadFailed p)
      else case d p of
          None \<Rightarrow> Inr None
        | Some text \<Rightarrow> (case from_str text of
              Inl e \<Rightarrow> Inl (DeserializeFailed e)
            | Inr j \<Rightarrow> Inr (Some j)))"

section \<open>A save is all or nothing\<close>

lemma tmp_path_neq [simp]: "tmp_path p \<noteq> p" "p \<noteq> tmp_path p"
proof -
  have "pa_file_name (tmp_path p) \<noteq> pa_file_name p"
    by (cases "pa_file_name p") (simp_all add: tmp_path_def with_file_name_def)
  then show "tmp_path p \<noteq> p" "p \<noteq> tmp_path p" by metis+
qed

text \<open>What a save leaves in every file of the disk, for any faults.\<close>

lemma store_save_files:
  assumes "store_save ser fault p state d = (res, d')"
  shows "q \<noteq> p \<Longrightarrow> q \<noteq> tmp_path p \<Longrightarrow> d' q = d q"
    and "\<not> is_ok res \<Longrightarrow> d' p = d p"
    and "is_ok res \<Longrightarrow> \<exists>text. ser state = Inr text \<and> d' p = Some text \<and> d' (tmp_path p) = None"
  using assms
  by (auto simp: store_save_def Let_def split: if_splits sum.splits fs_outcome.splits)

text \<open>
  C24: whatever call of a save fails, the next load answers exactly what it answered before the
  save; after a save that reports success it answers the saved document and no temporary file is
  left.  No other file changes.
\<close>
theorem save_is_atomic:
  assumes json_roundtrip: "\<And>text. ser state = Inr text \<Longrightarrow> parse text = Inr state"
    and save: "store_save ser fault p state d = (res, d')"
  shows "(case res of
      Inl _ \<Rightarrow> store_load parse fails p d' = store_load parse fails p d
    | Inr _ \<Rightarrow> store_load parse False p d' = Inr (Some state) \<and> d' (tmp_path p) = None)
    \<and> (\<forall>q. q \<noteq> p \<longrightarrow> q \<noteq> tmp_path p \<longrightarrow> d' q = d q)"
proof (cases res)
  case Inl
  then show ?thesis using store_save_files(1,2) [OF save] by (simp add: store_load_def)
next
  case (Inr u)
  then obtain t where "ser state = Inr t" "d' p = Some t" "d' (tmp_path p) = None"
    using store_save_files(3) [OF save] by auto
  then show ?thesis
    using Inr json_roundtrip store_save_files(1) [OF save] by (simp add: store_load_def)
qed

text \<open>A first save whose write is cut, and one that goes through, over an older document.\<close>

definition demo_path :: path where
  "demo_path = \<lparr>pa_parent = ''state'', pa_file_name = Some ''grid.json''\<rparr>"

definition demo_save :: "fs_outcome \<Rightarrow> (store_error + unit) \<times> disk" where
  "demo_save w = store_save (\<lambda>_. Inr ''[]'') (\<lambda>c. if c = WriteTmp then w else Works) demo_path (JArray [])
     [demo_path \<mapsto> ''old'']"

theorem save_is_atomic_witness:
  "snd (demo_save (FailsAfter 1)) demo_path = Some ''old''
   \<and> store_load (\<lambda>_. Inr (JArray [])) False demo_path (snd (demo_save Works)) = Inr (Some (JArray []))"
proof
  show "snd (demo_save (FailsAfter 1)) demo_path = Some ''old''"
    by (simp add: demo_save_def store_save_def Let_def)
  have r: "demo_save Works = (Inr (), snd (demo_save Works))"
    by (simp add: demo_save_def store_save_def Let_def)
  show "store_load (\<lambda>_. Inr (JArray [])) False demo_path (snd (demo_save Works)) = Inr (Some (JArray []))"
    using save_is_atomic [of "\<lambda>_. Inr ''[]''" "JArray []" "\<lambda>_. Inr (JArray [])", OF _ r [unfolded demo_save_def]]
    by (simp add: demo_save_def)
qed

end
