(* ===== verification/Simple_Grid.thy ===== *)
theory Simple_Grid
  imports State_Store Mock_Extended Session_Unwind
begin

text \<open>
  The simple grid strategy (\<open>strategies/simple_grid\<close>) with the order helpers all strategies
  share (\<open>strategies/mod.rs\<close>): the ladder arithmetic, the state file, the venue round trips and
  the poll that seeds, flips and kills the ladder.  Decimal arithmetic that panics on overflow
  is \<open>None\<close>; the ULID generator is a function from a counter of the ids drawn so far.
\<close>

section \<open>Shared order helpers\<close>

definition strategy_order_request ::
  "'d decimal_api \<Rightarrow> exchange_id \<Rightarrow> string \<Rightarrow> string \<Rightarrow> bool \<Rightarrow> 'd option \<Rightarrow> 'd \<Rightarrow> bool \<Rightarrow> create_order_request" where
  "strategy_order_request D ex symbol client_order_id is_buy price qty is_market =
     \<lparr>cor_exchange_id = Some ex,
      cor_order = Some \<lparr>or_client_order_id = client_order_id, or_symbol = symbol,
        or_type = Known (if is_market then Market else Limit),
        or_side = Known (if is_buy then Buy else Sell),
        or_amount = Some (decimal_to_common (d_show D) qty),
        or_price = map_option (decimal_to_common (d_show D)) price,
        or_time_in_force = Known Gtc, or_post_only = False, or_reduce_only = False\<rparr>,
      cor_session_id = ''''\<rparr>"

definition limit_order ::
  "'d decimal_api \<Rightarrow> exchange_id \<Rightarrow> string \<Rightarrow> string \<Rightarrow> bool \<Rightarrow> 'd \<Rightarrow> 'd \<Rightarrow> create_order_request" where
  "limit_order D ex symbol client_order_id is_buy price qty =
     strategy_order_request D ex symbol client_order_id is_buy (Some price) qty False"

definition market_order ::
  "'d decimal_api \<Rightarrow> exchange_id \<Rightarrow> string \<Rightarrow> string \<Rightarrow> bool \<Rightarrow> 'd \<Rightarrow> create_order_request" where
  "market_order D ex symbol client_order_id is_buy qty =
     strategy_order_request D ex symbol client_order_id is_buy None qty True"

definition mid_price :: "'d decimal_api \<Rightarrow> 'd \<Rightarrow> 'd \<Rightarrow> 'd option" where
  "mid_price D bid ask = Option.bind (d_add D bid ask) (\<lambda>s. d_div D s (d_of_int D 2))"

definition strategy_cancel_all_orders ::
  "('v, 'm) trading_gateway \<Rightarrow> exchange_id \<Rightarrow> string \<Rightarrow> 'v \<Rightarrow> (port_error + order list) \<times> 'v" where
  "strategy_cancel_all_orders gw ex symbol v =
     gw_cancel_all_orders gw v \<lparr>caa_exchange_id = Some ex, caa_symbol = symbol\<rparr>"

section \<open>Configuration\<close>

record 'd simple_grid_config =
  sg_exchange_id :: exchange_id
  sg_symbol :: string
  sg_lower_price :: 'd
  sg_upper_price :: 'd
  sg_num_levels :: u32
  sg_qty_per_level :: 'd
  sg_profit_spread_pct :: "'d option"
  sg_state_file :: "path option"

text \<open>The strategy parameters the grid reads; \<open>gp_state_file\<close> is the string under that key.\<close>

record 'd grid_params =
  gp_exchange_id :: "string option"
  gp_label :: "string option"
  gp_symbol :: "string option"
  gp_lower_price :: "'d option"
  gp_upper_price :: "'d option"
  gp_num_levels :: "u32 option"
  gp_qty_per_level :: "'d option"
  gp_state_file :: "path option"

text \<open>The missing fields are reported in the order the constructor evaluates them.\<close>

definition grid_from_config :: "'d grid_params \<Rightarrow> string + 'd simple_grid_config" where
  "grid_from_config ps =
     (let ex = mk_exchange_id (case gp_exchange_id ps of None \<Rightarrow> ''mock'' | Some e \<Rightarrow> e)
                 (case gp_label ps of None \<Rightarrow> '''' | Some l \<Rightarrow> l)
      in case gp_symbol ps of None \<Rightarrow> Inl ''symbol is required'' | Some symbol \<Rightarrow>
         (case gp_lower_price ps of None \<Rightarrow> Inl ''lower_price is required'' | Some lower \<Rightarrow>
         (case gp_upper_price ps of None \<Rightarrow> Inl ''upper_price is required'' | Some upper \<Rightarrow>
         (case gp_num_levels ps of None \<Rightarrow> Inl ''num_levels is required'' | Some n \<Rightarrow>
         (case gp_qty_per_level ps of None \<Rightarrow> Inl ''qty_per_level is required'' | Some qty \<Rightarrow>
            Inr \<lparr>sg_exchange_id = ex, sg_symbol = symbol, sg_lower_price = lower, sg_upper_price = upper,
                 sg_num_levels = n, sg_qty_per_level = qty, sg_profit_spread_pct = None,
                 sg_state_file = gp_state_file ps\<rparr>)))))"

section \<open>The ladder\<close>

record 'd grid_level =
  gl_price :: 'd
  gl_side :: order_side
  gl_client_order_id :: string
  gl_order_id :: string

definition grid_step :: "'d decimal_api \<Rightarrow> 'd simple_grid_config \<Rightarrow> 'd option" where
  "grid_step D cfg =
     (if sg_num_levels cfg > 0
      then Option.bind (d_sub D (sg_upper_price cfg) (sg_lower_price cfg))
             (\<lambda>span. d_div D span (d_of_int D (uint (sg_num_levels cfg))))
      else Some (d_zero D))"

definition side_for :: "'d decimal_api \<Rightarrow> 'd \<Rightarrow> 'd \<Rightarrow> order_side" where
  "side_for D price current = (if d_gt D current price then Buy else Sell)"

definition grid_coid :: "(nat \<Rightarrow> string) \<Rightarrow> nat \<Rightarrow> string" where
  "grid_coid ulid n = ''grid-'' @ ulid n"

text \<open>The loop of \<open>calculate_levels\<close>: the rungs so far, the next price and the next ULID.\<close>

function ladder_loop ::
  "'d decimal_api \<Rightarrow> (nat \<Rightarrow> string) \<Rightarrow> 'd simple_grid_config \<Rightarrow> 'd \<Rightarrow> 'd \<Rightarrow> 'd \<Rightarrow> nat
   \<Rightarrow> 'd grid_level list \<Rightarrow> 'd grid_level list option \<times> nat" where
  "ladder_loop D ulid cfg step current price n levels =
     (if \<not> d_gt D price (sg_upper_price cfg) \<and> length levels \<le> unat (sg_num_levels cfg)
      then let levels = levels @ [\<lparr>gl_price = price, gl_side = side_for D price current,
                                   gl_client_order_id = grid_coid ulid n, gl_order_id = ''''\<rparr>]
           in case d_add D price step of
               None \<Rightarrow> (None, Suc n)
             | Some price \<Rightarrow> ladder_loop D ulid cfg step current price (Suc n) levels
      else (Some levels, n))"
  by pat_completeness auto
termination
  by (relation "measure (\<lambda>(D, ulid, cfg, step, current, price, n, levels).
        Suc (unat (sg_num_levels cfg)) - length levels)") auto

declare ladder_loop.simps [simp del]

definition calculate_levels ::
  "'d decimal_api \<Rightarrow> (nat \<Rightarrow> string) \<Rightarrow> 'd simple_grid_config \<Rightarrow> 'd \<Rightarrow> 'd \<Rightarrow> nat
   \<Rightarrow> 'd grid_level list option \<times> nat" where
  "calculate_levels D ulid cfg step current n =
     (if \<not> d_gt D step (d_zero D) then (Some [], n)
      else ladder_loop D ulid cfg step current (sg_lower_price cfg) n [])"

section \<open>The state file\<close>

datatype grid_error =
    PortFailed port_error
  | NoUsablePrice string
  | StoreFailed store_error
  | NotAListOfLevels path
  | RowHasNoPrice
  | PriceNotADecimal string
  | SideNotBuySell "string option"

text \<open>
  The strategy with everything it is built from: its ports, the decimal type, the ULID
  generator, the JSON codec, and how each file-system call of the next poll ends.
\<close>

record ('v, 'm, 'd) simple_grid =
  gr_config :: "'d simple_grid_config"
  gr_gateway :: "('v, 'm) trading_gateway"
  gr_fetch_ticker :: "'v \<Rightarrow> exchange_id \<Rightarrow> string \<Rightarrow> (port_error + ticker) \<times> 'v"
  gr_grid_step :: 'd
  gr_max_consecutive_errors :: u32
  gr_decimal :: "'d decimal_api"
  gr_ulid :: "nat \<Rightarrow> string"
  gr_to_string_pretty :: "json \<Rightarrow> string + string"
  gr_from_str :: "string \<Rightarrow> string + json"

record ('v, 'd) grid_state =
  gs_levels :: "'d grid_level list"
  gs_venue :: 'v
  gs_disk :: disk
  gs_ulids :: nat

definition simple_grid_new ::
  "'d simple_grid_config \<Rightarrow> ('v, 'm) trading_gateway
   \<Rightarrow> ('v \<Rightarrow> exchange_id \<Rightarrow> string \<Rightarrow> (port_error + ticker) \<times> 'v) \<Rightarrow> 'd decimal_api \<Rightarrow> (nat \<Rightarrow> string)
   \<Rightarrow> (json \<Rightarrow> string + string) \<Rightarrow> (string \<Rightarrow> string + json) \<Rightarrow> ('v, 'm, 'd) simple_grid option" where
  "simple_grid_new cfg gw ft D ulid ser parse = map_option (\<lambda>step.
     \<lparr>gr_config = cfg, gr_gateway = gw, gr_fetch_ticker = ft, gr_grid_step = step, gr_max_consecutive_errors = 5,
      gr_decimal = D, gr_ulid = ulid, gr_to_string_pretty = ser, gr_from_str = parse\<rparr>) (grid_step D cfg)"

definition level_to_json :: "'d decimal_api \<Rightarrow> 'd grid_level \<Rightarrow> json" where
  "level_to_json D l = JObject
     [(''price'', JString (d_show D (gl_price l))),
      (''side'', JString (if gl_side l = Buy then ''buy'' else ''sell'')),
      (''client_order_id'', JString (gl_client_order_id l)),
      (''order_id'', JString (gl_order_id l))]"

text \<open>A failed write is logged and otherwise ignored.\<close>

definition persist_levels ::
  "('v, 'm, 'd) simple_grid \<Rightarrow> fs_faults \<Rightarrow> 'd grid_level list \<Rightarrow> disk \<Rightarrow> disk" where
  "persist_levels g fault levels d = (case sg_state_file (gr_config g) of
       None \<Rightarrow> d
     | Some p \<Rightarrow> snd (store_save (gr_to_string_pretty g) fault p
                       (JArray (map (level_to_json (gr_decimal g)) levels)) d))"

definition row_text :: "string \<Rightarrow> json \<Rightarrow> string" where
  "row_text k row = (case Option.bind (json_get k row) json_str of None \<Rightarrow> '''' | Some t \<Rightarrow> t)"

text \<open>The parsed row with the ULIDs drawn: a row without a client order id gets a fresh one.\<close>

definition level_from_json ::
  "'d decimal_api \<Rightarrow> (nat \<Rightarrow> string) \<Rightarrow> json \<Rightarrow> nat \<Rightarrow> (grid_error + 'd grid_level) \<times> nat" where
  "level_from_json D ulid row n =
     (case Option.bind (json_get ''price'' row) json_str of
        None \<Rightarrow> (Inl RowHasNoPrice, n)
      | Some t \<Rightarrow> (case d_parse D t of
          Inl e \<Rightarrow> (Inl (PriceNotADecimal e), n)
        | Inr price \<Rightarrow>
            let side = Option.bind (json_get ''side'' row) json_str;
                coid = row_text ''client_order_id'' row;
                level = (\<lambda>s. \<lparr>gl_price = price, gl_side = s,
                  gl_client_order_id = (if coid = [] then grid_coid ulid n else coid),
                  gl_order_id = row_text ''order_id'' row\<rparr>);
                n' = (if coid = [] then Suc n else n)
            in if side = Some ''buy'' then (Inr (level Buy), n')
               else if side = Some ''sell'' then (Inr (level Sell), n')
               else (Inl (SideNotBuySell side), n)))"

definition in_band :: "'d decimal_api \<Rightarrow> 'd simple_grid_config \<Rightarrow> 'd \<Rightarrow> bool" where
  "in_band D cfg price =
     (\<not> d_gt D (sg_lower_price cfg) price \<and> \<not> d_gt D price (sg_upper_price cfg))"

fun restore_rows ::
  "'d decimal_api \<Rightarrow> (nat \<Rightarrow> string) \<Rightarrow> 'd simple_grid_config \<Rightarrow> json list \<Rightarrow> nat
   \<Rightarrow> (grid_error + 'd grid_level list) \<times> nat" where
  "restore_rows D ulid cfg [] n = (Inr [], n)"
| "restore_rows D ulid cfg (row # rows) n = (case level_from_json D ulid row n of
       (Inl e, n) \<Rightarrow> (Inl e, n)
     | (Inr level, n) \<Rightarrow> (case restore_rows D ulid cfg rows n of
           (Inl e, n) \<Rightarrow> (Inl e, n)
         | (Inr levels, n) \<Rightarrow>
             (Inr (if in_band D cfg (gl_price level) then level # levels else levels), n)))"

definition restore_levels ::
  "('v, 'm, 'd) simple_grid \<Rightarrow> bool \<Rightarrow> disk \<Rightarrow> nat \<Rightarrow> (grid_error + 'd grid_level list) \<times> nat" where
  "restore_levels g read_fails d n = (case sg_state_file (gr_config g) of
       None \<Rightarrow> (Inr [], n)
     | Some p \<Rightarrow> (case store_load (gr_from_str g) read_fails p d of
           Inl e \<Rightarrow> (Inl (StoreFailed e), n)
         | Inr None \<Rightarrow> (Inr [], n)
         | Inr (Some document) \<Rightarrow> (case as_array document of
               None \<Rightarrow> (Inl (NotAListOfLevels p), n)
             | Some rows \<Rightarrow> restore_rows (gr_decimal g) (gr_ulid g) (gr_config g) rows n)))"

section \<open>Price and venue round trips\<close>

definition usable_price :: "'d decimal_api \<Rightarrow> wire_decimal option \<Rightarrow> 'd option" where
  "usable_price D candidate = (case candidate of
       None \<Rightarrow> None
     | Some w \<Rightarrow> (case common_to_decimal (d_parse D) w of
           Inl _ \<Rightarrow> None
         | Inr price \<Rightarrow> if d_gt D price (d_zero D) then Some price else None))"

text \<open>The outer option is the panic of an overflowing midpoint.\<close>

definition current_price ::
  "('v, 'm, 'd) simple_grid \<Rightarrow> 'v \<Rightarrow> (grid_error + 'd) option \<times> 'v" where
  "current_price g v =
     (let D = gr_decimal g; cfg = gr_config g
      in case gr_fetch_ticker g v (sg_exchange_id cfg) (sg_symbol cfg) of
          (Inl e, v) \<Rightarrow> (Some (Inl (PortFailed e)), v)
        | (Inr t, v) \<Rightarrow> ((case usable_price D (tk_last t) of
              Some p \<Rightarrow> Some (Inr p)
            | None \<Rightarrow> (case usable_price D (tk_close t) of
                Some p \<Rightarrow> Some (Inr p)
              | None \<Rightarrow> (case (usable_price D (tk_bid t), usable_price D (tk_ask t)) of
                  (Some bid, Some ask) \<Rightarrow> map_option Inr (mid_price D bid ask)
                | _ \<Rightarrow> Some (Inl (NoUsablePrice (sg_symbol cfg)))))), v))"

definition level_order_request :: "('v, 'm, 'd) simple_grid \<Rightarrow> 'd grid_level \<Rightarrow> create_order_request" where
  "level_order_request g level =
     (let cfg = gr_config g; show = decimal_to_common (d_show (gr_decimal g))
      in \<lparr>cor_exchange_id = Some (sg_exchange_id cfg),
          cor_order = Some \<lparr>or_client_order_id = gl_client_order_id level, or_symbol = sg_symbol cfg,
            or_type = Known Limit, or_side = Known (gl_side level),
            or_amount = Some (show (sg_qty_per_level cfg)), or_price = Some (show (gl_price level)),
            or_time_in_force = Known Gtc, or_post_only = False, or_reduce_only = False\<rparr>,
          cor_session_id = ''''\<rparr>)"

definition place_level_order ::
  "('v, 'm, 'd) simple_grid \<Rightarrow> 'd grid_level \<Rightarrow> 'v \<Rightarrow> (port_error + 'd grid_level) \<times> 'v" where
  "place_level_order g level v =
     (case gw_create_order (gr_gateway g) v (level_order_request g level) of
        (Inl e, v) \<Rightarrow> (Inl e, v)
      | (Inr ord, v) \<Rightarrow> (Inr (level\<lparr>gl_order_id := o_id ord\<rparr>), v))"

definition level_cancel_request :: "('v, 'm, 'd) simple_grid \<Rightarrow> 'd grid_level \<Rightarrow> cancel_order_request" where
  "level_cancel_request g level =
     \<lparr>can_exchange_id = Some (sg_exchange_id (gr_config g)), can_order_id = gl_order_id level,
      can_symbol = sg_symbol (gr_config g)\<rparr>"

text \<open>The kill-switch path; a refused cancel is only logged, with the order id listed here.\<close>

fun cancel_tracked_orders ::
  "('v, 'm, 'd) simple_grid \<Rightarrow> 'd grid_level list \<Rightarrow> 'v \<Rightarrow> string list \<times> 'v" where
  "cancel_tracked_orders g [] v = ([], v)"
| "cancel_tracked_orders g (level # levels) v =
     (if gl_order_id level = [] then cancel_tracked_orders g levels v
      else case gw_cancel_order (gr_gateway g) v (level_cancel_request g level) of
          (Inl e, v) \<Rightarrow> (let (warned, v) = cancel_tracked_orders g levels v in (gl_order_id level # warned, v))
        | (Inr ord, v) \<Rightarrow> cancel_tracked_orders g levels v)"

section \<open>The poll\<close>

text \<open>Placing a fresh ladder: a level whose placement fails stays in it, without an order id.\<close>

fun seed_levels ::
  "('v, 'm, 'd) simple_grid \<Rightarrow> 'd grid_level list \<Rightarrow> u32 \<Rightarrow> 'v \<Rightarrow> 'd grid_level list \<times> u32 \<times> 'v" where
  "seed_levels g [] errors v = ([], errors, v)"
| "seed_levels g (level # levels) errors v = (case place_level_order g level v of
       (Inl e, v) \<Rightarrow> (let (rest, errors, v) = seed_levels g levels (errors + 1) v in (level # rest, errors, v))
     | (Inr placed, v) \<Rightarrow> (let (rest, errors, v) = seed_levels g levels errors v in (placed # rest, errors, v)))"

definition d_eq :: "'d decimal_api \<Rightarrow> 'd \<Rightarrow> 'd \<Rightarrow> bool" where
  "d_eq D a b = (\<not> d_gt D a b \<and> \<not> d_gt D b a)"

definition live_prices :: "'d decimal_api \<Rightarrow> order list \<Rightarrow> 'd list" where
  "live_prices D ords = List.map_filter (\<lambda>ord. case o_price ord of
       None \<Rightarrow> None
     | Some w \<Rightarrow> (case common_to_decimal (d_parse D) w of Inl _ \<Rightarrow> None | Inr p \<Rightarrow> Some p)) ords"

definition level_alive :: "'d decimal_api \<Rightarrow> order list \<Rightarrow> 'd grid_level \<Rightarrow> bool" where
  "level_alive D ords level =
     (gl_client_order_id level \<in> set (map o_client_order_id ords)
      \<or> list_ex (d_eq D (gl_price level)) (live_prices D ords))"

definition opposite_side :: "order_side \<Rightarrow> order_side" where
  "opposite_side s = (if s = Sell then Buy else Sell)"

definition opposite_price :: "('v, 'm, 'd) simple_grid \<Rightarrow> 'd grid_level \<Rightarrow> 'd option" where
  "opposite_price g level = (if gl_side level = Sell
     then d_sub (gr_decimal g) (gl_price level) (gr_grid_step g)
     else d_add (gr_decimal g) (gl_price level) (gr_grid_step g))"

definition flipped_level :: "('v, 'm, 'd) simple_grid \<Rightarrow> 'd grid_level \<Rightarrow> 'd \<Rightarrow> nat \<Rightarrow> 'd grid_level" where
  "flipped_level g level price n =
     \<lparr>gl_price = price, gl_side = opposite_side (gl_side level),
      gl_client_order_id = grid_coid (gr_ulid g) n, gl_order_id = ''''\<rparr>"

text \<open>
  The flip loop over the levels, given the open orders.  The panic of an overflowing price
  leaves the orders already placed on the venue.
\<close>

fun flip_levels ::
  "('v, 'm, 'd) simple_grid \<Rightarrow> order list \<Rightarrow> 'd grid_level list \<Rightarrow> u32 \<Rightarrow> nat \<Rightarrow> 'v
   \<Rightarrow> ('d grid_level list \<times> u32) option \<times> nat \<times> 'v" where
  "flip_levels g ords [] errors n v = (Some ([], errors), n, v)"
| "flip_levels g ords (level # levels) errors n v =
     (let keep = (\<lambda>l (r, n, v). (map_option (\<lambda>(ls, e). (l # ls, e)) r, n, v))
      in if level_alive (gr_decimal g) ords level
         then keep level (flip_levels g ords levels errors n v)
         else case opposite_price g level of
             None \<Rightarrow> (None, n, v)
           | Some price \<Rightarrow>
               if \<not> in_band (gr_decimal g) (gr_config g) price
               then keep level (flip_levels g ords levels errors n v)
               else (let fresh = flipped_level g level price n
                     in case place_level_order g fresh v of
                         (Inl e, v) \<Rightarrow> keep fresh (flip_levels g ords levels (errors + 1) (Suc n) v)
                       | (Inr placed, v) \<Rightarrow> keep placed (flip_levels g ords levels errors (Suc n) v)))"

text \<open>
  One poll: \<open>io\<close> says whether the read of the state file fails and how the file-system calls of
  a save end.  The answer \<open>None\<close> is a panic.  The first branch restores or seeds an empty ladder,
  the second flips the levels that no longer rest.
\<close>

record grid_io =
  io_read_fails :: bool
  io_faults :: fs_faults

definition restore_or_seed ::
  "('v, 'm, 'd) simple_grid \<Rightarrow> grid_io \<Rightarrow> 'd \<Rightarrow> ('v, 'd) grid_state
   \<Rightarrow> (grid_error + unit) option \<times> ('v, 'd) grid_state" where
  "restore_or_seed g io current s =
     (case restore_levels g (io_read_fails io) (gs_disk s) (gs_ulids s) of
        (Inl e, n) \<Rightarrow> (Some (Inl e), s\<lparr>gs_ulids := n\<rparr>)
      | (Inr restored, n) \<Rightarrow>
          if restored \<noteq> [] then (Some (Inr ()), s\<lparr>gs_levels := restored, gs_ulids := n\<rparr>)
          else (case calculate_levels (gr_decimal g) (gr_ulid g) (gr_config g) (gr_grid_step g) current n of
              (None, n) \<Rightarrow> (None, s\<lparr>gs_ulids := n\<rparr>)
            | (Some ladder, n) \<Rightarrow>
                let (fresh, errors, v) = seed_levels g ladder 0 (gs_venue s);
                    (fresh, v) = (if errors \<ge> gr_max_consecutive_errors g
                                  then ([], snd (cancel_tracked_orders g fresh v)) else (fresh, v))
                in (Some (Inr ()), s\<lparr>gs_levels := fresh, gs_venue := v, gs_ulids := n,
                                     gs_disk := persist_levels g (io_faults io) fresh (gs_disk s)\<rparr>)))"

definition flip_ladder ::
  "('v, 'm, 'd) simple_grid \<Rightarrow> grid_io \<Rightarrow> ('v, 'd) grid_state
   \<Rightarrow> (grid_error + unit) option \<times> ('v, 'd) grid_state" where
  "flip_ladder g io s =
     (case gw_fetch_open_orders (gr_gateway g) (gs_venue s)
             \<lparr>foo_exchange_id = Some (sg_exchange_id (gr_config g)), foo_symbol = sg_symbol (gr_config g)\<rparr> of
        (Inl e, v) \<Rightarrow> (Some (Inl (PortFailed e)), s\<lparr>gs_venue := v\<rparr>)
      | (Inr ords, v) \<Rightarrow> (case flip_levels g ords (gs_levels s) 0 (gs_ulids s) v of
            (None, n, v) \<Rightarrow> (None, s\<lparr>gs_venue := v, gs_ulids := n\<rparr>)
          | (Some (updated, errors), n, v) \<Rightarrow>
              if errors \<ge> gr_max_consecutive_errors g
              then (Some (Inr ()), s\<lparr>gs_levels := [], gs_venue := snd (cancel_tracked_orders g updated v),
                                     gs_ulids := n, gs_disk := persist_levels g (io_faults io) [] (gs_disk s)\<rparr>)
              else (Some (Inr ()), s\<lparr>gs_levels := updated, gs_venue := v, gs_ulids := n\<rparr>)))"

definition rebalance ::
  "('v, 'm, 'd) simple_grid \<Rightarrow> grid_io \<Rightarrow> ('v, 'd) grid_state \<Rightarrow> (grid_error + unit) option \<times> ('v, 'd) grid_state" where
  "rebalance g io s = (case current_price g (gs_venue s) of
       (None, v) \<Rightarrow> (None, s\<lparr>gs_venue := v\<rparr>)
     | (Some (Inl e), v) \<Rightarrow> (Some (Inl e), s\<lparr>gs_venue := v\<rparr>)
     | (Some (Inr current), v) \<Rightarrow>
         let s = s\<lparr>gs_venue := v\<rparr>
         in if gs_levels s = [] then restore_or_seed g io current s else flip_ladder g io s)"

section \<open>Every quote is inside the band\<close>

text \<open>
  What the grid relies on from the decimal type: its order is a total preorder and adding a
  positive step, rounded or not, never lowers a price.
\<close>

definition decimal_order_laws :: "'d decimal_api \<Rightarrow> bool" where
  "decimal_order_laws D \<longleftrightarrow>
     (\<forall>a. \<not> d_gt D a a) \<and> (\<forall>a b c. \<not> d_gt D a b \<longrightarrow> \<not> d_gt D b c \<longrightarrow> \<not> d_gt D a c)
     \<and> (\<forall>p s q. d_gt D s (d_zero D) \<longrightarrow> d_add D p s = Some q \<longrightarrow> \<not> d_gt D p q)"

definition ladder_in_band :: "('v, 'm, 'd) simple_grid \<Rightarrow> 'd grid_level list \<Rightarrow> bool" where
  "ladder_in_band g levels = (\<forall>l \<in> set levels. in_band (gr_decimal g) (gr_config g) (gl_price l))"

lemma ladder_in_band_simps [simp]:
  "ladder_in_band g []"
  "ladder_in_band g (l # ls) \<longleftrightarrow> in_band (gr_decimal g) (gr_config g) (gl_price l) \<and> ladder_in_band g ls"
  by (simp_all add: ladder_in_band_def)

lemma ladder_loop_band:
  assumes "decimal_order_laws D" and "d_gt D step (d_zero D)"
    and "\<not> d_gt D (sg_lower_price cfg) price" and "\<forall>l \<in> set levels. in_band D cfg (gl_price l)"
    and "ladder_loop D ulid cfg step current price n levels = (Some ls, n')"
  shows "\<forall>l \<in> set ls. in_band D cfg (gl_price l)"
  using assms
proof (induction D ulid cfg step current price n levels rule: ladder_loop.induct)
  case (1 D ulid cfg step current price n levels)
  show ?case
  proof (cases "\<not> d_gt D price (sg_upper_price cfg) \<and> length levels \<le> unat (sg_num_levels cfg)")
    case True
    then obtain q where q: "d_add D price step = Some q"
      using "1.prems"(5) by (subst (asm) ladder_loop.simps) (auto split: option.splits)
    have up: "\<not> d_gt D (sg_lower_price cfg) q"
      using "1.prems"(1-3) q unfolding decimal_order_laws_def by blast
    let ?levels = "levels @ [\<lparr>gl_price = price, gl_side = side_for D price current,
      gl_client_order_id = grid_coid ulid n, gl_order_id = []\<rparr>]"
    have "ladder_loop D ulid cfg step current q (Suc n) ?levels = (Some ls, n')"
      using "1.prems"(5) True q ladder_loop.simps [of D ulid cfg step current price n levels] by simp
    moreover have "\<forall>l \<in> set ?levels. in_band D cfg (gl_price l)"
      using "1.prems"(3,4) True by (auto simp: in_band_def)
    ultimately show ?thesis using "1.IH" [OF True refl q "1.prems"(1,2) up] by blast
  next
    case False
    then show ?thesis using "1.prems"(4,5) by (subst (asm) ladder_loop.simps) auto
  qed
qed

lemma ladder_loop_length:
  assumes "ladder_loop D ulid cfg step current price n levels = (Some ls, n')"
    and "length levels \<le> Suc (unat (sg_num_levels cfg))"
  shows "length ls \<le> Suc (unat (sg_num_levels cfg))"
  using assms
proof (induction D ulid cfg step current price n levels rule: ladder_loop.induct)
  case (1 D ulid cfg step current price n levels)
  show ?case
    using "1.prems" "1.IH" ladder_loop.simps [of D ulid cfg step current price n levels]
    by (auto simp: Let_def split: if_splits option.splits)
qed

lemma calculate_levels_band:
  assumes "decimal_order_laws D" and "calculate_levels D ulid cfg step current n = (Some ls, n')"
  shows "\<forall>l \<in> set ls. in_band D cfg (gl_price l)"
proof (cases "d_gt D step (d_zero D)")
  case True
  have "\<not> d_gt D (sg_lower_price cfg) (sg_lower_price cfg)"
    using assms(1) by (simp add: decimal_order_laws_def)
  then show ?thesis
    using ladder_loop_band [OF assms(1) True, of cfg "sg_lower_price cfg" "[]"] True assms(2)
    by (simp add: calculate_levels_def)
next
  case False
  then show ?thesis using assms(2) by (simp add: calculate_levels_def)
qed

lemma calculate_levels_length:
  "calculate_levels D ulid cfg step current n = (Some ls, n') \<Longrightarrow> length ls \<le> Suc (unat (sg_num_levels cfg))"
  by (auto simp: calculate_levels_def split: if_splits dest: ladder_loop_length)

lemma restore_rows_band:
  "restore_rows D ulid cfg rows n = (Inr ls, n') \<Longrightarrow> \<forall>l \<in> set ls. in_band D cfg (gl_price l)"
  by (induction rows arbitrary: n ls) (auto split: prod.splits sum.splits if_splits)

lemma restore_levels_band: "restore_levels g f d n = (Inr ls, n') \<Longrightarrow> ladder_in_band g ls"
  by (auto simp: restore_levels_def ladder_in_band_def split: option.splits sum.splits
      dest: restore_rows_band)

definition grid_holds :: "('v, 'm, 'd) simple_grid \<Rightarrow> ('v \<Rightarrow> bool) \<Rightarrow> ('v, 'd) grid_state \<Rightarrow> bool" where
  "grid_holds g keeps s = (keeps (gs_venue s) \<and> ladder_in_band g (gs_levels s))"

text \<open>A request of the ladder: a limit order of the configured size at a price of the band.\<close>

definition ladder_request :: "('v, 'm, 'd) simple_grid \<Rightarrow> create_order_request \<Rightarrow> bool" where
  "ladder_request g req = (\<exists>l. in_band (gr_decimal g) (gr_config g) (gl_price l) \<and> req = level_order_request g l)"

text \<open>
  The venue as the grid uses it: \<open>keeps\<close> is anything that a create at a price of the band, a
  cancel and the two reads maintain; then every poll maintains it.
\<close>

locale quoting_guard =
  fixes g :: "('v, 'm, 'd) simple_grid" and keeps :: "'v \<Rightarrow> bool"
  assumes create_keeps: "keeps v \<Longrightarrow> in_band (gr_decimal g) (gr_config g) (gl_price l) \<Longrightarrow>
      keeps (snd (gw_create_order (gr_gateway g) v (level_order_request g l)))"
    and cancel_keeps: "keeps v \<Longrightarrow> keeps (snd (gw_cancel_order (gr_gateway g) v (level_cancel_request g l)))"
    and open_keeps: "keeps v \<Longrightarrow> keeps (snd (gw_fetch_open_orders (gr_gateway g) v req))"
    and ticker_keeps: "keeps v \<Longrightarrow> keeps (snd (gr_fetch_ticker g v ex symbol))"
begin

lemma place_keeps:
  assumes "keeps v" and "in_band (gr_decimal g) (gr_config g) (gl_price l)" and "place_level_order g l v = (r, v')"
  shows "keeps v'" and "r = Inr placed \<Longrightarrow> gl_price placed = gl_price l"
  using create_keeps [OF assms(1,2)] assms(3)
  by (auto simp: place_level_order_def split: prod.splits sum.splits)

lemma seed_keeps:
  "keeps v \<Longrightarrow> ladder_in_band g ls \<Longrightarrow> seed_levels g ls e v = (ls', e', v') \<Longrightarrow> keeps v' \<and> ladder_in_band g ls'"
proof (induction ls arbitrary: e v ls' e' v')
  case (Cons l ls)
  obtain r v1 where r: "place_level_order g l v = (r, v1)" by force
  have "in_band (gr_decimal g) (gr_config g) (gl_price l)" using Cons.prems(2) by simp
  note p = place_keeps [OF Cons.prems(1) this r]
  obtain rest e1 v2 where rest: "seed_levels g ls (if is_ok r then e else e + 1) v1 = (rest, e1, v2)"
    using prod_cases3 by blast
  have "ladder_in_band g ls" using Cons.prems(2) by simp
  then have IH: "keeps v2 \<and> ladder_in_band g rest" using Cons.IH [OF p(1) _ rest] by simp
  show ?case
  proof (cases r)
    case Inl
    then show ?thesis using Cons.prems(2,3) r rest IH by auto
  next
    case (Inr placed)
    then show ?thesis using Cons.prems(2,3) r rest IH p(2) [OF Inr] by auto
  qed
qed simp

lemma tracked_keeps: "keeps v \<Longrightarrow> keeps (snd (cancel_tracked_orders g ls v))"
proof (induction ls arbitrary: v)
  case (Cons l ls)
  obtain r v1 where r: "gw_cancel_order (gr_gateway g) v (level_cancel_request g l) = (r, v1)" by force
  then have "keeps v1" using cancel_keeps [OF Cons.prems, of l] by simp
  then show ?case
    using r Cons.IH [OF Cons.prems] Cons.IH [of v1] by (cases r) (simp_all add: split_beta)
qed simp

lemma flip_keeps:
  "keeps v \<Longrightarrow> ladder_in_band g ls \<Longrightarrow> flip_levels g ords ls e n v = (r, n', v') \<Longrightarrow>
   keeps v' \<and> (\<forall>ls' e'. r = Some (ls', e') \<longrightarrow> ladder_in_band g ls')"
proof (induction ls arbitrary: e n v r n' v')
  case (Cons l ls)
  have tail: "ladder_in_band g ls" and head: "in_band (gr_decimal g) (gr_config g) (gl_price l)"
    using Cons.prems(2) by simp_all
  show ?case
  proof (cases "level_alive (gr_decimal g) ords l")
    case True
    then show ?thesis using Cons.IH [OF Cons.prems(1) tail] Cons.prems(3) head
      by (cases "flip_levels g ords ls e n v") auto
  next
    case dead: False
    show ?thesis
    proof (cases "opposite_price g l")
      case None
      then show ?thesis using dead Cons.prems(1,3) by auto
    next
      case (Some price)
      show ?thesis
      proof (cases "in_band (gr_decimal g) (gr_config g) price")
        case False
        then show ?thesis using dead Some Cons.IH [OF Cons.prems(1) tail] Cons.prems(3) head
          by (cases "flip_levels g ords ls e n v") auto
      next
        case True
        obtain q v1 where q: "place_level_order g (flipped_level g l price n) v = (q, v1)" by force
        have fresh: "gl_price (flipped_level g l price n) = price" by (simp add: flipped_level_def)
        note p = place_keeps [OF Cons.prems(1) _ q, unfolded fresh, OF True]
        obtain r1 n1 v2 where rest: "flip_levels g ords ls (if is_ok q then e else e + 1) (Suc n) v1 = (r1, n1, v2)"
          using prod_cases3 by blast
        note IH = Cons.IH [OF p(1) tail rest]
        show ?thesis
          using dead Some True q rest IH Cons.prems(3) p(2) fresh
          by (cases q) (auto simp: Let_def)
      qed
    qed
  qed
qed auto

lemma price_keeps: "keeps v \<Longrightarrow> keeps (snd (current_price g v))"
  using ticker_keeps [of v "sg_exchange_id (gr_config g)" "sg_symbol (gr_config g)"]
  by (auto simp: current_price_def Let_def split: prod.splits sum.splits)

lemma seed_holds:
  assumes "decimal_order_laws (gr_decimal g)" and "grid_holds g keeps s"
  shows "grid_holds g keeps (snd (restore_or_seed g io current s))"
proof -
  obtain r n where r: "restore_levels g (io_read_fails io) (gs_disk s) (gs_ulids s) = (r, n)" by force
  obtain q n' where q: "calculate_levels (gr_decimal g) (gr_ulid g) (gr_config g) (gr_grid_step g) current n = (q, n')"
    by force
  have "grid_holds g keeps (snd (restore_or_seed g io current s))"
    if r': "r = Inr []" and q': "q = Some ladder" for ladder
  proof -
    have "ladder_in_band g ladder"
      using calculate_levels_band [OF assms(1)] q q' unfolding ladder_in_band_def by blast
    moreover obtain fresh e v where f: "seed_levels g ladder 0 (gs_venue s) = (fresh, e, v)"
      using prod_cases3 by blast
    ultimately have "keeps v \<and> ladder_in_band g fresh"
      using seed_keeps [OF _ _ f] assms(2) by (simp add: grid_holds_def)
    then show ?thesis
      using r q f r' q' tracked_keeps [of v fresh] by (simp add: restore_or_seed_def grid_holds_def)
  qed
  then show ?thesis
    using r q assms(2) restore_levels_band [of g "io_read_fails io" "gs_disk s" "gs_ulids s" _ n]
    by (cases r; cases q) (auto simp: restore_or_seed_def grid_holds_def)
qed

lemma flip_holds:
  assumes "grid_holds g keeps s"
  shows "grid_holds g keeps (snd (flip_ladder g io s))"
proof -
  obtain r v where r: "gw_fetch_open_orders (gr_gateway g) (gs_venue s)
      \<lparr>foo_exchange_id = Some (sg_exchange_id (gr_config g)), foo_symbol = sg_symbol (gr_config g)\<rparr> = (r, v)" by force
  have v: "keeps v" using open_keeps [of "gs_venue s"] assms r by (metis grid_holds_def snd_conv)
  show ?thesis
  proof (cases r)
    case Inl
    then show ?thesis using r v assms by (simp add: flip_ladder_def grid_holds_def)
  next
    case (Inr ords)
    obtain q n v' where q: "flip_levels g ords (gs_levels s) 0 (gs_ulids s) v = (q, n, v')"
      using prod_cases3 by blast
    have k: "keeps v'" and b: "q = Some (ls, e) \<Longrightarrow> ladder_in_band g ls" for ls e
      using flip_keeps [OF v _ q] assms by (simp_all add: grid_holds_def)
    show ?thesis
      using r Inr q assms k b tracked_keeps [OF k]
      by (auto simp: flip_ladder_def grid_holds_def split: option.splits)
  qed
qed

lemma rebalance_holds:
  assumes "decimal_order_laws (gr_decimal g)" and "grid_holds g keeps s"
  shows "grid_holds g keeps (snd (rebalance g io s))"
proof -
  obtain r v where r: "current_price g (gs_venue s) = (r, v)" by force
  then have "keeps v" using price_keeps [of "gs_venue s"] assms(2) by (simp add: grid_holds_def)
  then have v: "grid_holds g keeps (s\<lparr>gs_venue := v\<rparr>)" using assms(2) by (simp add: grid_holds_def)
  show ?thesis
    using r v seed_holds [OF assms(1) v] flip_holds [OF v]
    by (auto simp: rebalance_def Let_def split: option.splits sum.splits)
qed

end

text \<open>
  The grid over time: polls, anything the venue or the market does, edits of the state file, and
  restarts of the process, which keep only the disk.
\<close>

inductive grid_move :: "('v, 'm, 'd) simple_grid \<Rightarrow> ('v \<Rightarrow> 'v \<Rightarrow> bool) \<Rightarrow> ('v, 'd) grid_state \<Rightarrow> ('v, 'd) grid_state \<Rightarrow> bool"
  for g env where
  Poll: "rebalance g io s = (r, s') \<Longrightarrow> grid_move g env s s'"
| World: "env (gs_venue s) v \<Longrightarrow> grid_move g env s (s\<lparr>gs_venue := v\<rparr>)"
| Disk: "grid_move g env s (s\<lparr>gs_disk := d\<rparr>)"
| Restart: "grid_move g env s (s\<lparr>gs_levels := []\<rparr>)"

definition grid_init :: "'v \<Rightarrow> ('v, 'd) grid_state \<Rightarrow> bool" where
  "grid_init v s = (gs_levels s = [] \<and> gs_venue s = v)"

text \<open>
  A gateway that also writes down the create requests it receives; the venue behind it is the
  original one.
\<close>

definition recording :: "('v, 'm) trading_gateway \<Rightarrow> ('v \<times> create_order_request list, 'm) trading_gateway" where
  "recording gw =
     \<lparr>gw_create_order = (\<lambda>(v, log) req. let (r, v) = gw_create_order gw v req in (r, v, log @ [req])),
      gw_batch_create_orders = (\<lambda>(v, log) req. let (r, v) = gw_batch_create_orders gw v req in (r, v, log)),
      gw_cancel_order = (\<lambda>(v, log) req. let (r, v) = gw_cancel_order gw v req in (r, v, log)),
      gw_cancel_all_orders = (\<lambda>(v, log) req. let (r, v) = gw_cancel_all_orders gw v req in (r, v, log)),
      gw_fetch_open_orders = (\<lambda>(v, log) req. let (r, v) = gw_fetch_open_orders gw v req in (r, v, log)),
      gw_account_call = (\<lambda>(v, log) me req. let (r, v) = gw_account_call gw v me req in (r, v, log)),
      gw_sync_state = (\<lambda>(v, log) ex. let (r, v) = gw_sync_state gw v ex in (r, v, log)),
      gw_cancel_delay = (\<lambda>(v, log) req. gw_cancel_delay gw v req),
      gw_sync_delay = (\<lambda>(v, log) ex. gw_sync_delay gw v ex)\<rparr>"

definition recording_grid ::
  "('v, 'm, 'd) simple_grid \<Rightarrow> ('v \<times> create_order_request list, 'm, 'd) simple_grid" where
  "recording_grid g =
     \<lparr>gr_config = gr_config g, gr_gateway = recording (gr_gateway g),
      gr_fetch_ticker = (\<lambda>(v, log) ex s. let (r, v) = gr_fetch_ticker g v ex s in (r, v, log)),
      gr_grid_step = gr_grid_step g, gr_max_consecutive_errors = gr_max_consecutive_errors g,
      gr_decimal = gr_decimal g, gr_ulid = gr_ulid g, gr_to_string_pretty = gr_to_string_pretty g,
      gr_from_str = gr_from_str g\<rparr>"

definition quotes_ok :: "('v, 'm, 'd) simple_grid \<Rightarrow> 'v \<times> create_order_request list \<Rightarrow> bool" where
  "quotes_ok g vl = list_all (ladder_request g) (snd vl)"

lemma recording_grid_simps [simp]:
  "gr_config (recording_grid g) = gr_config g" "gr_decimal (recording_grid g) = gr_decimal g"
  "level_order_request (recording_grid g) l = level_order_request g l"
  "gr_gateway (recording_grid g) = recording (gr_gateway g)"
  "gr_fetch_ticker (recording_grid g) (v, log) ex s = (let (r, v) = gr_fetch_ticker g v ex s in (r, v, log))"
  by (simp_all add: recording_grid_def level_order_request_def)

interpretation recorded: quoting_guard "recording_grid g" "quotes_ok g"
  by unfold_locales
    (auto simp: quotes_ok_def recording_def ladder_request_def split: prod.splits)

interpretation grid: invariant_system "grid_init (v0, [])" "grid_move (recording_grid g) (\<lambda>v w. snd w = snd v)"
  "\<lambda>s. decimal_order_laws (gr_decimal g) \<longrightarrow> grid_holds (recording_grid g) (quotes_ok g) s"
proof
  fix s :: "('a \<times> create_order_request list, 'b) grid_state"
  assume "grid_init (v0, []) s"
  then show "decimal_order_laws (gr_decimal g) \<longrightarrow> grid_holds (recording_grid g) (quotes_ok g) s"
    by (simp add: grid_init_def grid_holds_def quotes_ok_def)
next
  fix s t :: "('a \<times> create_order_request list, 'b) grid_state"
  assume inv: "decimal_order_laws (gr_decimal g) \<longrightarrow> grid_holds (recording_grid g) (quotes_ok g) s"
    and "grid_move (recording_grid g) (\<lambda>v w. snd w = snd v) s t"
  from this(2) show "decimal_order_laws (gr_decimal g) \<longrightarrow> grid_holds (recording_grid g) (quotes_ok g) t"
  proof cases
    case (Poll io r)
    then show ?thesis using inv recorded.rebalance_holds [of g s io] by simp
  qed (use inv in \<open>auto simp: grid_holds_def quotes_ok_def\<close>)
qed

end
