(* ===== verification/Grid_Safety.thy ===== *)
theory Grid_Safety
  imports Simple_Grid
begin

text \<open>
  What the simple grid guarantees and where it falls short: its quotes stay inside the band over
  any run, a kill switch leaves on the venue only orders whose cancel was refused, and a restart
  repeats the flips made since the ladder was last written.
\<close>

section \<open>Quotes\<close>

text \<open>
  C23: every order the grid ever asks the venue for is a limit order of the configured symbol and
  size at a price inside \<open>lower_price\<close> to \<open>upper_price\<close>, and every level it tracks is inside that
  band: after any sequence of polls, venue and market changes, restarts and edits of the state
  file, whatever the file system does.  A ladder it seeds has at most \<open>num_levels + 1\<close> rungs.
\<close>
theorem grid_quotes_in_band:
  assumes laws: "decimal_order_laws (gr_decimal g)"
    and run: "reach (grid_init (v0, [])) (grid_move (recording_grid g) (\<lambda>v w. snd w = snd v)) s"
  shows "(\<forall>req \<in> set (snd (gs_venue s)). \<exists>l. in_band (gr_decimal g) (gr_config g) (gl_price l)
            \<and> req = level_order_request g l)
    \<and> (\<forall>l \<in> set (gs_levels s). in_band (gr_decimal g) (gr_config g) (gl_price l))
    \<and> (\<forall>current n ls n'. calculate_levels (gr_decimal g) (gr_ulid g) (gr_config g) (gr_grid_step g) current n
         = (Some ls, n') \<longrightarrow> length ls \<le> unat (sg_num_levels (gr_config g)) + 1)"
proof -
  have h: "grid_holds (recording_grid g) (quotes_ok g) s" using grid.inv_reach [OF run] laws by blast
  then show ?thesis
    using calculate_levels_length
    by (fastforce simp: grid_holds_def quotes_ok_def ladder_in_band_def list_all_iff ladder_request_def split: prod.splits)
qed

section \<open>The kill switch and the venue\<close>

context venue_contract
begin

lemma tracked_unwound:
  assumes "gr_gateway g = gw" and "vok v" and "cancel_tracked_orders g levels v = (warned, v')"
  shows "vok v' \<and> (\<forall>i. resting v' i \<longrightarrow> resting v i)
    \<and> (\<forall>l \<in> set levels. gl_order_id l \<noteq> [] \<longrightarrow> resting v' (gl_order_id l) \<longrightarrow> gl_order_id l \<in> set warned)"
  using assms(2,3)
proof (induction levels arbitrary: v warned)
  case (Cons l levels)
  show ?case
  proof (cases "gl_order_id l = []")
    case True
    then show ?thesis using Cons by auto
  next
    case False
    obtain r v1 where r: "gw_cancel_order gw v (level_cancel_request g l) = (r, v1)" by force
    obtain ws where rest: "cancel_tracked_orders g levels v1 = (ws, v')"
      and w: "warned = (if is_ok r then ws else gl_order_id l # ws)"
      using Cons.prems(2) r assms(1) False by (cases r) (auto split: prod.splits)
    note ok = cancel_ok [OF Cons.prems(1) r]
    note IH = Cons.IH [OF ok rest]
    have old: "resting v' i \<Longrightarrow> resting v i" for i using IH cancel_no_birth [OF Cons.prems(1) r] by blast
    have "gl_order_id l \<in> set warned" if "resting v' (gl_order_id l)"
    proof (cases r)
      case (Inr ord)
      then show ?thesis
        using cancel_accepted [OF Cons.prems(1) r [unfolded Inr]] IH that by (simp add: level_cancel_request_def)
    qed (use w in simp)
    then show ?thesis using IH old w by auto
  qed
qed simp

end

lemma mock_kill_switch_unwinds:
  assumes "gr_gateway g = mock_gateway D sys" and "mock_ok v" and "cancel_tracked_orders g levels v = (warned, v')"
    and "l \<in> set levels" and "gl_order_id l \<noteq> []"
  shows "\<not> mock_resting v' (gl_order_id l) \<or> gl_order_id l \<in> set warned"
  using mock.tracked_unwound [OF assms(1-3)] assms(4,5) by blast

section \<open>Example runs\<close>

text \<open>
  A grid on the mock venue: three rungs at 90, 100 and 110 around a market of 100, with whole
  numbers for prices.  The JSON codec keeps the documents in a table.
\<close>

definition demo_grid_config :: "u32 \<Rightarrow> int \<Rightarrow> int simple_grid_config" where
  "demo_grid_config n upper = \<lparr>sg_exchange_id = mk_exchange_id ''mock'' '''', sg_symbol = ''MOCK-USDT'', sg_lower_price = 90,
     sg_upper_price = upper, sg_num_levels = n, sg_qty_per_level = 1, sg_profit_spread_pct = None,
     sg_state_file = Some demo_path\<rparr>"

definition demo_rows :: "(string \<times> json) list" where
  "demo_rows =
     [(''ladder'', JArray (map (level_to_json int_api)
        [\<lparr>gl_price = 90, gl_side = Buy, gl_client_order_id = ''grid-0'', gl_order_id = ''mock-1''\<rparr>,
         \<lparr>gl_price = 100, gl_side = Sell, gl_client_order_id = ''grid-1'', gl_order_id = ''mock-2''\<rparr>,
         \<lparr>gl_price = 110, gl_side = Sell, gl_client_order_id = ''grid-2'', gl_order_id = ''mock-3''\<rparr>])),
      (''empty'', JArray [])]"

definition demo_grid :: "u32 \<Rightarrow> int \<Rightarrow> (int mock_state, mock_message, int) simple_grid" where
  "demo_grid n upper = \<lparr>gr_config = demo_grid_config n upper, gr_gateway = mock_gateway int_api 0,
     gr_fetch_ticker = (\<lambda>v ex s. (Inr (mock_fetch_ticker int_api 0 v s), v)), gr_grid_step = 10,
     gr_max_consecutive_errors = 5, gr_decimal = int_api, gr_ulid = nat_to_string,
     gr_to_string_pretty = (\<lambda>j. case find (\<lambda>(_, k). k = j) demo_rows of None \<Rightarrow> Inl ''unknown'' | Some (t, _) \<Rightarrow> Inr t),
     gr_from_str = (\<lambda>t. case map_of demo_rows t of None \<Rightarrow> Inl ''unknown'' | Some j \<Rightarrow> Inr j)\<rparr>"

definition no_faults :: grid_io where
  "no_faults = \<lparr>io_read_fails = False, io_faults = (\<lambda>_. Works)\<rparr>"

definition grid_start :: "'v \<Rightarrow> ('v, int) grid_state" where
  "grid_start v = \<lparr>gs_levels = [], gs_venue = v, gs_disk = (\<lambda>_. None), gs_ulids = 0\<rparr>"

definition poll_grid :: "('v, 'm, 'd) simple_grid \<Rightarrow> ('v, 'd) grid_state \<Rightarrow> ('v, 'd) grid_state" where
  "poll_grid g s = snd (rebalance g no_faults s)"

definition fill_order :: "string \<Rightarrow> (int mock_state, int) grid_state \<Rightarrow> (int mock_state, int) grid_state" where
  "fill_order i s = s\<lparr>gs_venue := (gs_venue s)\<lparr>ms_orders := map (\<lambda>ord. if o_id ord = i then ord\<lparr>o_status := Known Filled\<rparr> else ord)
     (ms_orders (gs_venue s))\<rparr>\<rparr>"

definition restart_grid :: "('v, 'd) grid_state \<Rightarrow> ('v, 'd) grid_state" where
  "restart_grid s = s\<lparr>gs_levels := []\<rparr>"

definition open_orders_at :: "wire_decimal \<Rightarrow> (int mock_state, int) grid_state \<Rightarrow> nat" where
  "open_orders_at p s = length (filter (\<lambda>ord. is_open ord \<and> o_price ord = Some p) (ms_orders (gs_venue s)))"

definition flipped_run :: "(int mock_state, int) grid_state" where
  "flipped_run = poll_grid (demo_grid 2 110) (fill_order ''mock-1'' (poll_grid (demo_grid 2 110) (grid_start (mock_new int_api 100))))"

definition restarted_run :: "(int mock_state, int) grid_state" where
  "restarted_run = poll_grid (demo_grid 2 110) (poll_grid (demo_grid 2 110) (restart_grid flipped_run))"

lemma show_demo: "nat_to_string 0 = ''0''" "nat_to_string (Suc 0) = ''1''" "nat_to_string 2 = ''2''" "nat_to_string 3 = ''3''" "nat_to_string 4 = ''4''"
  "nat_to_string (Suc (Suc 0)) = ''2''" "nat_to_string (Suc (Suc (Suc 0))) = ''3''"
  "nat_to_string 5 = ''5''" "nat_to_string 90 = ''90''" "nat_to_string 100 = ''100''" "nat_to_string 110 = ''110''"
  by (simp_all add: nat_to_string.simps digit_def char_of_def bit_0)

lemma int_api_simps: "d_zero int_api = 0" "d_show int_api = int_to_string" "d_gt int_api a b \<longleftrightarrow> a > b"
  "d_add int_api a b = Some (a + b)" "d_sub int_api a b = Some (a - b)"
  by (simp_all add: int_api_def)

lemma parse_demo:
  "d_parse int_api ''90'' = Inr 90" "d_parse int_api ''100'' = Inr 100" "d_parse int_api ''110'' = Inr 110"
  by (simp_all add: int_api_def parse_unsigned_def strip_plus_def is_ascii_digit_def digits_val_def digit_val_def u64_max_def)

lemma decode_demo:
  "common_to_decimal (d_parse int_api) ''90'' = Inr 90" "common_to_decimal (d_parse int_api) ''100'' = Inr 100"
   "common_to_decimal (d_parse int_api) ''110'' = Inr 110"
  by (simp_all add: common_to_decimal_def parse_demo is_blank_plain grammar_violation_def starts_with_def strip_minus_def split_once_def is_digits_def is_ascii_digit_def)

lemmas demo_simps = show_demo int_api_simps parse_demo decode_demo decimal_to_common_def int_to_string_def

lemma demo_price: "ms_price v = 100 \<Longrightarrow> current_price (demo_grid n u) v = (Some (Inr 100), v)"
  by (simp add: current_price_def demo_grid_def mock_fetch_ticker_def Let_def usable_price_def demo_simps)

definition demo_ladder :: "int grid_level list" where
  "demo_ladder = [\<lparr>gl_price = 90, gl_side = Buy, gl_client_order_id = ''grid-0'', gl_order_id = ''mock-1''\<rparr>,
         \<lparr>gl_price = 100, gl_side = Sell, gl_client_order_id = ''grid-1'', gl_order_id = ''mock-2''\<rparr>,
         \<lparr>gl_price = 110, gl_side = Sell, gl_client_order_id = ''grid-2'', gl_order_id = ''mock-3''\<rparr>]"

lemma demo_fields: "gr_config (demo_grid n u) = demo_grid_config n u" "gr_gateway (demo_grid n u) = mock_gateway int_api 0"
  "gr_grid_step (demo_grid n u) = 10" "gr_max_consecutive_errors (demo_grid n u) = 5" "gr_decimal (demo_grid n u) = int_api"
  "gr_ulid (demo_grid n u) = nat_to_string"
  by (simp_all add: demo_grid_def)

lemma demo_calc: "calculate_levels int_api nat_to_string (demo_grid_config 2 110) 10 100 0
  = (Some (map (\<lambda>l. l\<lparr>gl_order_id := []\<rparr>) demo_ladder), Suc (Suc (Suc 0)))"
  by (simp add: calculate_levels_def ladder_loop.simps demo_grid_config_def demo_simps side_for_def grid_coid_def demo_ladder_def Let_def)

lemma demo_restore_none: "restore_levels (demo_grid n u) False (\<lambda>_. None) k = (Inr [], k)"
  by (simp add: restore_levels_def demo_fields demo_grid_config_def store_load_def)


definition demo_req :: "string \<Rightarrow> order_side \<Rightarrow> wire_decimal \<Rightarrow> order_request" where
  "demo_req coid side price = \<lparr>or_client_order_id = coid, or_symbol = ''MOCK-USDT'', or_type = Known Limit, or_side = Known side,
     or_amount = Some ''1'', or_price = Some price, or_time_in_force = Known Gtc, or_post_only = False, or_reduce_only = False\<rparr>"

lemma demo_place:
  assumes "ms_fail_next_creates v = 0" "ms_fail_creates_from v = None"
  shows "place_level_order (demo_grid n u) l v =
    (let i = ''mock-'' @ nat_to_string (unat (ms_ids v))
     in (Inr (l\<lparr>gl_order_id := i\<rparr>), v\<lparr>ms_creates_seen := ms_creates_seen v + 1, ms_ids := ms_ids v + 1,
       ms_orders := ms_orders v @ [mock_order int_api 0 i (demo_req (gl_client_order_id l) (gl_side l) (int_to_string (gl_price l)))]\<rparr>))"
  using assms by (simp add: place_level_order_def demo_fields mock_gateway_def mock_create_order_def level_order_request_def Let_def
     demo_grid_config_def demo_req_def demo_simps mock_order_def)

lemma demo_persist: "persist_levels (demo_grid n u) (\<lambda>_. Works) demo_ladder (\<lambda>_. None) = [demo_path \<mapsto> ''ladder'']"
  by (rule ext) (simp add: persist_levels_def demo_fields demo_grid_config_def store_save_def Let_def demo_grid_def demo_rows_def demo_ladder_def)

lemma demo_seed: "poll_grid (demo_grid 2 110) (grid_start (mock_new int_api 100)) =
   \<lparr>gs_levels = demo_ladder, gs_venue = (mock_new int_api 100)\<lparr>ms_creates_seen := 3, ms_ids := 4, ms_orders :=
     [mock_order int_api 0 ''mock-1'' (demo_req ''grid-0'' Buy ''90''), mock_order int_api 0 ''mock-2'' (demo_req ''grid-1'' Sell ''100''),
      mock_order int_api 0 ''mock-3'' (demo_req ''grid-2'' Sell ''110'')]\<rparr>, 
     gs_disk = [demo_path \<mapsto> ''ladder''], gs_ulids = 3\<rparr>"
  using demo_persist
  by (simp add: poll_grid_def rebalance_def demo_price grid_start_def mock_new_def Let_def restore_or_seed_def no_faults_def
    demo_restore_none demo_fields demo_calc[unfolded demo_ladder_def] demo_place demo_simps demo_ladder_def)

definition demo_open :: "string \<Rightarrow> string \<Rightarrow> order_side \<Rightarrow> wire_decimal \<Rightarrow> order" where
  "demo_open i coid side price = mock_order int_api 0 i (demo_req coid side price)"

definition grid_book :: "nat \<Rightarrow> order list" where
  "grid_book k = [(demo_open ''mock-1'' ''grid-0'' Buy ''90'')\<lparr>o_status := Known Filled\<rparr>,
     demo_open ''mock-2'' ''grid-1'' Sell ''100'', demo_open ''mock-3'' ''grid-2'' Sell ''110'']
     @ take k [demo_open ''mock-4'' ''grid-3'' Sell ''100'', demo_open ''mock-5'' ''grid-4'' Sell ''100'']"

definition demo_at :: "u32 \<Rightarrow> u64 \<Rightarrow> nat \<Rightarrow> int mock_state" where
  "demo_at c i k = (mock_new int_api 100)\<lparr>ms_creates_seen := c, ms_ids := i, ms_orders := grid_book k\<rparr>"

lemma demo_open_simps: "is_open (demo_open i c s p)" "o_id (demo_open i c s p) = i" "o_client_order_id (demo_open i c s p) = c"
  "o_price (demo_open i c s p) = Some p" "o_symbol (demo_open i c s p) = ''MOCK-USDT''"
  "\<not> is_open ((demo_open i c s p)\<lparr>o_status := Known Filled\<rparr>)"
  by (simp_all add: demo_open_def mock_order_def is_open_def demo_req_def)

lemma demo_filled:
  "fill_order ''mock-1'' (poll_grid (demo_grid 2 110) (grid_start (mock_new int_api 100))) =
   \<lparr>gs_levels = demo_ladder, gs_venue = demo_at 3 4 0, gs_disk = [demo_path \<mapsto> ''ladder''], gs_ulids = 3\<rparr>"
  by (simp add: demo_seed fill_order_def demo_at_def grid_book_def demo_open_def mock_order_def)

text \<open>The venue's answer and the flip of the filled rung.\<close>

lemma demo_open_orders:
  "gw_fetch_open_orders (mock_gateway int_api 0) (demo_at c i k) \<lparr>foo_exchange_id = ex, foo_symbol = ''MOCK-USDT''\<rparr>
   = (Inr (tl (grid_book k)), demo_at c i k)"
  by (simp add: mock_gateway_def mock_fetch_open_orders_def demo_at_def grid_book_def take_Cons' demo_open_simps symbol_matches_def)

lemma demo_alive:
  "level_alive int_api (tl (grid_book k)) l \<longleftrightarrow>
   gl_client_order_id l \<in> set (map o_client_order_id (tl (grid_book k))) \<or> gl_price l = 100 \<or> gl_price l = 110"
  by (auto simp add: level_alive_def live_prices_def grid_book_def take_Cons' map_filter_simps demo_open_simps demo_simps d_eq_def)


lemma demo_coids: "k < 2 \<Longrightarrow> set (map o_client_order_id (tl (grid_book k))) = {''grid-1'', ''grid-2''} \<union> set (take k [''grid-3'', ''grid-4''])"
  by (auto simp: grid_book_def take_Cons' demo_open_simps)

lemma demo_flip_levels:
  assumes "k < 2" and "ms_fail_next_creates v = 0" "ms_fail_creates_from v = None"
  shows "flip_levels (demo_grid 2 110) (tl (grid_book k)) demo_ladder 0 n v =
    (let i = ''mock-'' @ nat_to_string (unat (ms_ids v)); coid = ''grid-'' @ nat_to_string n
     in (Some (\<lparr>gl_price = 100, gl_side = Sell, gl_client_order_id = coid, gl_order_id = i\<rparr> # tl demo_ladder, 0), Suc n,
         v\<lparr>ms_creates_seen := ms_creates_seen v + 1, ms_ids := ms_ids v + 1,
           ms_orders := ms_orders v @ [demo_open i coid Sell ''100'']\<rparr>))"
proof -
  have dead: "\<not> level_alive int_api (tl (grid_book k)) (hd demo_ladder)"
    using assms(1) demo_coids [OF assms(1)]
    by (auto simp: demo_alive demo_ladder_def take_Cons' simp del: set_map split: if_splits)
  have rest: "level_alive int_api (tl (grid_book k)) l" if "l \<in> set (tl demo_ladder)" for l
    using that by (auto simp: demo_alive demo_ladder_def)
  show ?thesis
    using dead rest assms(2,3)
    by (simp add: demo_ladder_def demo_fields opposite_price_def in_band_def demo_grid_config_def int_api_simps flipped_level_def
      opposite_side_def grid_coid_def demo_place Let_def demo_open_def demo_simps)
qed

lemma demo_flip:
  assumes "k < 2" and "unat i = 4 + k" and "n = 3 + k"
  shows "poll_grid (demo_grid 2 110) \<lparr>gs_levels = demo_ladder, gs_venue = demo_at c i k, gs_disk = d, gs_ulids = n\<rparr>
   = \<lparr>gs_levels = \<lparr>gl_price = 100, gl_side = Sell, gl_client_order_id = ''grid-'' @ nat_to_string n,
         gl_order_id = ''mock-'' @ nat_to_string (4 + k)\<rparr> # tl demo_ladder,
       gs_venue = demo_at (c + 1) (i + 1) (Suc k), gs_disk = d, gs_ulids = Suc n\<rparr>"
proof -
  let ?v = "demo_at c i k"
  have p: "ms_price ?v = 100" "ms_fail_next_creates ?v = 0" "ms_fail_creates_from ?v = None" "ms_creates_seen ?v = c" "ms_ids ?v = i"
    by (simp_all add: demo_at_def mock_new_def)
  have "grid_book (Suc k) = grid_book k @ [demo_open (''mock-'' @ nat_to_string (4 + k)) (''grid-'' @ nat_to_string n) Sell ''100'']"
    using assms(1,3) by (auto simp: grid_book_def less_2_cases_iff show_demo)
  then have v: "?v\<lparr>ms_creates_seen := c + 1, ms_ids := i + 1, ms_orders := ms_orders ?v @
      [demo_open (''mock-'' @ nat_to_string (4 + k)) (''grid-'' @ nat_to_string n) Sell ''100'']\<rparr> = demo_at (c + 1) (i + 1) (Suc k)"
    by (simp add: demo_at_def)
  have "demo_ladder \<noteq> []" "sg_symbol (demo_grid_config 2 110) = ''MOCK-USDT''" by (simp_all add: demo_ladder_def demo_grid_config_def)
  then show ?thesis
    using demo_flip_levels [OF assms(1) p(2,3), of n] assms(2) v
    by (simp add: poll_grid_def rebalance_def demo_price p Let_def flip_ladder_def demo_fields demo_open_orders)
qed

text \<open>
  Flips are not written to the state file, so a restart repeats them.  The grid buys at 90 and
  sells at 100 and 110; the buy fills and the poll answers with a sell at 100.  After a restart the
  stored ladder still holds the buy, which no longer rests, and the next polls sell at 100 a second
  time for the same fill.
\<close>
theorem restart_repeats_flips:
  "open_orders_at ''100'' flipped_run = 2 \<and> open_orders_at ''100'' restarted_run = 3
   \<and> map gl_side (gs_levels flipped_run) = [Sell, Sell, Sell]"
proof -
  have f: "flipped_run = \<lparr>gs_levels = \<lparr>gl_price = 100, gl_side = Sell, gl_client_order_id = ''grid-3'', gl_order_id = ''mock-4''\<rparr>
      # tl demo_ladder, gs_venue = demo_at 4 5 (Suc 0), gs_disk = [demo_path \<mapsto> ''ladder''], gs_ulids = 4\<rparr>"
    using demo_flip [of 0 4 3 3] by (simp add: flipped_run_def demo_filled show_demo)
  have p: "ms_price (demo_at c i k) = 100" for c i k by (simp add: demo_at_def mock_new_def)
  have "restore_levels (demo_grid 2 110) False [demo_path \<mapsto> ''ladder''] 4 = (Inr demo_ladder, 4)"
    by (simp add: restore_levels_def demo_grid_def demo_grid_config_def store_load_def demo_rows_def as_array_def level_to_json_def
      level_from_json_def json_get_def json_str_def demo_simps row_text_def in_band_def demo_ladder_def)
  then have "poll_grid (demo_grid 2 110) (restart_grid flipped_run) =
      \<lparr>gs_levels = demo_ladder, gs_venue = demo_at 4 5 (Suc 0), gs_disk = [demo_path \<mapsto> ''ladder''], gs_ulids = 4\<rparr>"
    by (simp add: f restart_grid_def poll_grid_def rebalance_def demo_price p restore_or_seed_def no_faults_def Let_def demo_ladder_def)
  then have r: "gs_venue restarted_run = demo_at 5 6 (Suc (Suc 0))"
    unfolding restarted_run_def by (simp only:) (simp add: demo_flip)
  show ?thesis
    by (simp add: open_orders_at_def f r demo_at_def grid_book_def demo_open_simps demo_ladder_def)
qed

lemma int_order_laws: "decimal_order_laws int_api"
  by (auto simp: decimal_order_laws_def int_api_simps)

theorem grid_quotes_in_band_witness:
  "\<exists>s. s = poll_grid (recording_grid (demo_grid 2 110)) (grid_start (mock_new int_api 100, []))
     \<and> (\<forall>req \<in> set (snd (gs_venue s)). \<exists>l. in_band int_api (demo_grid_config 2 110) (gl_price l)
            \<and> req = level_order_request (demo_grid 2 110) l)"
proof -
  let ?g = "demo_grid 2 110" and ?s0 = "grid_start (mock_new int_api 100, []) :: (int mock_state \<times> create_order_request list, int) grid_state"
  let ?env = "\<lambda>v w. snd w = snd v"
  have "reach (grid_init (mock_new int_api 100, [])) (grid_move (recording_grid ?g) ?env) ?s0"
    by (rule reach.intros) (simp add: grid_init_def grid_start_def)
  moreover have "grid_move (recording_grid ?g) ?env ?s0 (poll_grid (recording_grid ?g) ?s0)"
    unfolding poll_grid_def by (rule grid_move.Poll [OF prod.collapse [symmetric]])
  ultimately have "reach (grid_init (mock_new int_api 100, [])) (grid_move (recording_grid ?g) ?env) (poll_grid (recording_grid ?g) ?s0)"
    by (rule reach.intros)
  from grid_quotes_in_band [OF _ this] show ?thesis
    by (simp add: demo_fields int_order_laws)
qed
end
