(* ===== verification/Indicators.thy ===== *)
theory Indicators
  imports Decimal_Codec "HOL-Library.Monad_Syntax"
begin

text \<open>
  The incremental indicators of the worker (\<open>indicators\<close>): square root, exponential averages,
  RSI, ATR, ADX, Bollinger bands, Donchian and Keltner channels, Supertrend and z-score.  All
  arithmetic is that of the decimal type; where the code uses its plain operators an overflow is
  a panic, the answer \<open>None\<close> of the outer option, and where it uses the checked ones the
  indicator has no value, the inner \<open>None\<close>.
\<close>

section \<open>Decimal helpers\<close>

definition d_ge :: "'d decimal_api \<Rightarrow> 'd \<Rightarrow> 'd \<Rightarrow> bool" where
  "d_ge D a b = (\<not> d_gt D b a)"

text \<open>\<open>Ord::max\<close> and \<open>Ord::min\<close>: on equal values the one answers the second, the other the first.\<close>

definition d_max :: "'d decimal_api \<Rightarrow> 'd \<Rightarrow> 'd \<Rightarrow> 'd" where
  "d_max D a b = (if d_gt D a b then a else b)"

definition d_min :: "'d decimal_api \<Rightarrow> 'd \<Rightarrow> 'd \<Rightarrow> 'd" where
  "d_min D a b = (if d_gt D a b then b else a)"

fun try_sum :: "'d decimal_api \<Rightarrow> 'd \<Rightarrow> 'd list \<Rightarrow> 'd option" where
  "try_sum D acc [] = Some acc"
| "try_sum D acc (x # xs) = do { acc \<leftarrow> d_add D acc x; try_sum D acc xs }"

section \<open>Square root\<close>

text \<open>
  The Newton loop with the number of rounds left; a checked operation that fails answers the
  last iterate.  The subtraction in the test of convergence is the only plain operator.
\<close>

fun newton_loop :: "'d decimal_api \<Rightarrow> nat \<Rightarrow> 'd \<Rightarrow> 'd \<Rightarrow> 'd option" where
  "newton_loop D 0 value x = Some x"
| "newton_loop D (Suc n) value x =
     (case d_div D value x of
        None \<Rightarrow> Some x
      | Some qt \<Rightarrow>
          (case Option.bind (d_add D x qt) (\<lambda>s. d_div D s (d_of_int D 2)) of
             None \<Rightarrow> Some x
           | Some next \<Rightarrow>
               if \<not> d_gt D next (d_zero D) then Some x
               else do {
                 diff \<leftarrow> d_sub D next x;
                 if d_gt D (d_new D 1 8) (d_abs D diff) then Some next
                 else newton_loop D n value next
               }))"

definition decimal_sqrt :: "'d decimal_api \<Rightarrow> 'd \<Rightarrow> 'd option" where
  "decimal_sqrt D value =
     (if \<not> d_gt D value (d_zero D) then Some (d_zero D)
      else let seed = (if d_ge D value (d_one D)
                       then (case d_div D value (d_of_int D 2) of None \<Rightarrow> value | Some h \<Rightarrow> h)
                       else d_one D)
           in newton_loop D 64 value seed)"

section \<open>Exponential moving averages\<close>

record 'd ema =
  em_window :: nat
  em_k :: 'd
  em_value :: "'d option"
  em_seed :: "'d list"
  em_seed_sum :: 'd

definition ema_new :: "'d decimal_api \<Rightarrow> nat \<Rightarrow> 'd ema option" where
  "ema_new D window = do {
     k \<leftarrow> d_div D (d_of_int D 2) (d_of_int D (int (min (window + 1) u64_max)));
     Some \<lparr>em_window = window, em_k = k, em_value = None, em_seed = [], em_seed_sum = d_zero D\<rparr>
   }"

definition ema_push :: "'d decimal_api \<Rightarrow> 'd \<Rightarrow> 'd ema \<Rightarrow> 'd ema option" where
  "ema_push D value e = (case em_value e of
       None \<Rightarrow> do {
         s \<leftarrow> d_add D (em_seed_sum e) value;
         let seed = em_seed e @ [value];
         if length seed \<ge> em_window e \<and> em_window e > 0
         then do {
           v \<leftarrow> d_div D s (d_of_int D (int (length seed)));
           Some (e\<lparr>em_value := Some v, em_seed := [], em_seed_sum := d_zero D\<rparr>)
         }
         else Some (e\<lparr>em_seed := seed, em_seed_sum := s\<rparr>)
       }
     | Some prev \<Rightarrow> do {
         diff \<leftarrow> d_sub D value prev;
         p \<leftarrow> d_mul D diff (em_k e);
         v \<leftarrow> d_add D p prev;
         Some (e\<lparr>em_value := Some v\<rparr>)
       })"

record 'd dema =
  dm_ema1 :: "'d ema"
  dm_ema2 :: "'d ema"

definition dema_new :: "'d decimal_api \<Rightarrow> nat \<Rightarrow> 'd dema option" where
  "dema_new D window = do { e \<leftarrow> ema_new D window; Some \<lparr>dm_ema1 = e, dm_ema2 = e\<rparr> }"

definition dema_push :: "'d decimal_api \<Rightarrow> 'd \<Rightarrow> 'd dema \<Rightarrow> 'd dema option" where
  "dema_push D value d = do {
     e1 \<leftarrow> ema_push D value (dm_ema1 d);
     case em_value e1 of
       None \<Rightarrow> Some (d\<lparr>dm_ema1 := e1\<rparr>)
     | Some v1 \<Rightarrow> do { e2 \<leftarrow> ema_push D v1 (dm_ema2 d); Some \<lparr>dm_ema1 = e1, dm_ema2 = e2\<rparr> }
   }"

definition dema_value :: "'d decimal_api \<Rightarrow> 'd dema \<Rightarrow> 'd option option" where
  "dema_value D d = (case (em_value (dm_ema1 d), em_value (dm_ema2 d)) of
       (Some v1, Some v2) \<Rightarrow> do {
         t \<leftarrow> d_mul D v1 (d_of_int D 2);
         r \<leftarrow> d_sub D t v2;
         Some (Some r)
       }
     | _ \<Rightarrow> Some None)"

section \<open>Relative strength index\<close>

record 'd rsi =
  rs_period :: nat
  rs_avg_gain :: "'d option"
  rs_avg_loss :: "'d option"
  rs_prev :: "'d option"
  rs_samples :: nat

definition rsi_new :: "nat \<Rightarrow> 'd rsi" where
  "rsi_new period = \<lparr>rs_period = max period 1, rs_avg_gain = None, rs_avg_loss = None, rs_prev = None, rs_samples = 0\<rparr>"

text \<open>\<open>(prev * (n - 1) + x) / n\<close>, the Wilder average.\<close>

definition wilder :: "'d decimal_api \<Rightarrow> 'd \<Rightarrow> 'd \<Rightarrow> 'd \<Rightarrow> 'd option" where
  "wilder D n prev x = do {
     m \<leftarrow> d_sub D n (d_one D);
     p \<leftarrow> d_mul D prev m;
     s \<leftarrow> d_add D p x;
     d_div D s n
   }"

text \<open>The averages after one more delta: smoothed when both are there, summed up otherwise.\<close>

definition rsi_average :: "'d decimal_api \<Rightarrow> 'd \<Rightarrow> 'd option \<Rightarrow> 'd option \<Rightarrow> 'd \<Rightarrow> 'd \<Rightarrow> ('d \<times> 'd) option" where
  "rsi_average D n avg_gain avg_loss gain loss = (case (avg_gain, avg_loss) of
       (Some g, Some l) \<Rightarrow> do { g' \<leftarrow> wilder D n g gain; l' \<leftarrow> wilder D n l loss; Some (g', l') }
     | _ \<Rightarrow> do {
         g' \<leftarrow> d_add D (case avg_gain of None \<Rightarrow> d_zero D | Some g \<Rightarrow> g) gain;
         l' \<leftarrow> d_add D (case avg_loss of None \<Rightarrow> d_zero D | Some l \<Rightarrow> l) loss;
         Some (g', l')
       })"

definition rsi_push :: "'d decimal_api \<Rightarrow> 'd \<Rightarrow> 'd rsi \<Rightarrow> 'd rsi option" where
  "rsi_push D close r = (case rs_prev r of
       None \<Rightarrow> Some (r\<lparr>rs_prev := Some close\<rparr>)
     | Some prev \<Rightarrow> do {
         change \<leftarrow> d_sub D close prev;
         let gain = d_max D change (d_zero D);
         let loss = d_max D (d_neg D change) (d_zero D);
         let n = d_of_int D (int (rs_period r));
         (g, l) \<leftarrow> rsi_average D n (rs_avg_gain r) (rs_avg_loss r) gain loss;
         let samples = rs_samples r + 1;
         (g, l) \<leftarrow> (if samples = rs_period r
                   then do { g' \<leftarrow> d_div D g n; l' \<leftarrow> d_div D l n; Some (g', l') }
                   else Some (g, l));
         Some (r\<lparr>rs_prev := Some close, rs_avg_gain := Some g, rs_avg_loss := Some l, rs_samples := samples\<rparr>)
       })"

definition rsi_value :: "'d decimal_api \<Rightarrow> 'd rsi \<Rightarrow> 'd option option" where
  "rsi_value D r = (case (rs_avg_gain r, rs_avg_loss r) of
       (Some gain, Some loss) \<Rightarrow>
         if d_is_zero D loss then Some (Some (d_of_int D 100))
         else do {
           rs \<leftarrow> d_div D gain loss;
           t \<leftarrow> d_add D (d_one D) rs;
           q \<leftarrow> d_div D (d_of_int D 100) t;
           v \<leftarrow> d_sub D (d_of_int D 100) q;
           Some (Some v)
         }
     | _ \<Rightarrow> Some None)"

section \<open>Average true range\<close>

record 'd atr =
  at_rma_value :: "'d option"
  at_prev_close :: "'d option"
  at_period :: nat
  at_samples :: nat
  at_sum :: 'd

definition atr_new :: "'d decimal_api \<Rightarrow> nat \<Rightarrow> 'd atr" where
  "atr_new D period =
     \<lparr>at_rma_value = None, at_prev_close = None, at_period = max period 1, at_samples = 0, at_sum = d_zero D\<rparr>"

text \<open>The true range against the previous close.\<close>

definition true_range :: "'d decimal_api \<Rightarrow> 'd \<Rightarrow> 'd \<Rightarrow> 'd \<Rightarrow> 'd option" where
  "true_range D high low prev = do {
     hl \<leftarrow> d_sub D high low;
     hc \<leftarrow> d_sub D high prev;
     lc \<leftarrow> d_sub D low prev;
     Some (d_max D (d_max D hl (d_abs D hc)) (d_abs D lc))
   }"

definition atr_push :: "'d decimal_api \<Rightarrow> 'd \<Rightarrow> 'd \<Rightarrow> 'd \<Rightarrow> 'd atr \<Rightarrow> 'd atr option" where
  "atr_push D high low close a = do {
     tr \<leftarrow> (case at_prev_close a of
         None \<Rightarrow> map_option (\<lambda>hl. d_max D hl (d_zero D)) (d_sub D high low)
       | Some prev \<Rightarrow> true_range D high low prev);
     let a = a\<lparr>at_prev_close := Some close\<rparr>;
     let n = d_of_int D (int (at_period a));
     case at_rma_value a of
       None \<Rightarrow> do {
         s \<leftarrow> d_add D (at_sum a) tr;
         let a = a\<lparr>at_sum := s, at_samples := at_samples a + 1\<rparr>;
         if at_samples a \<ge> at_period a
         then do { v \<leftarrow> d_div D s n; Some (a\<lparr>at_rma_value := Some v\<rparr>) }
         else Some a
       }
     | Some prev \<Rightarrow> do { v \<leftarrow> wilder D n prev tr; Some (a\<lparr>at_rma_value := Some v\<rparr>) }
   }"

section \<open>Rolling windows\<close>

text \<open>Push to the back, and pop the front when the window is exceeded.\<close>

definition window_push :: "nat \<Rightarrow> 'a \<Rightarrow> 'a list \<Rightarrow> 'a list" where
  "window_push window x buf = (let buf = buf @ [x] in if length buf > window then tl buf else buf)"

record 'd bollinger =
  bb_window :: nat
  bb_mult :: 'd
  bb_buf :: "'d list"

record 'd bands =
  ba_middle :: 'd
  ba_upper :: 'd
  ba_lower :: 'd

definition bollinger_new :: "nat \<Rightarrow> 'd \<Rightarrow> 'd bollinger" where
  "bollinger_new window mult = \<lparr>bb_window = window, bb_mult = mult, bb_buf = []\<rparr>"

definition bollinger_push :: "'d \<Rightarrow> 'd bollinger \<Rightarrow> 'd bollinger" where
  "bollinger_push close b = b\<lparr>bb_buf := window_push (bb_window b) close (bb_buf b)\<rparr>"

fun try_squares :: "'d decimal_api \<Rightarrow> 'd \<Rightarrow> 'd \<Rightarrow> 'd list \<Rightarrow> 'd option" where
  "try_squares D mean acc [] = Some acc"
| "try_squares D mean acc (x # xs) = do {
     deviation \<leftarrow> d_sub D x mean;
     sq \<leftarrow> d_mul D deviation deviation;
     acc \<leftarrow> d_add D acc sq;
     try_squares D mean acc xs
   }"

text \<open>
  Every step is checked: an intermediate that does not fit answers the inner \<open>None\<close>.  The outer
  option is the panic of the square root.
\<close>

definition checked :: "'a option \<Rightarrow> ('a \<Rightarrow> 'b option option) \<Rightarrow> 'b option option" where
  "checked x f = (case x of None \<Rightarrow> Some None | Some a \<Rightarrow> f a)"

definition bollinger_compute :: "'d decimal_api \<Rightarrow> 'd list \<Rightarrow> 'd \<Rightarrow> 'd bands option option" where
  "bollinger_compute D closes mult =
     (if length closes < 2 then Some None
      else let count = d_of_int D (int (length closes))
           in checked (try_sum D (d_zero D) closes) (\<lambda>total.
              checked (d_div D total count) (\<lambda>mean.
              checked (try_squares D mean (d_zero D) closes) (\<lambda>squared.
              checked (d_div D squared count) (\<lambda>variance.
              Option.bind (decimal_sqrt D variance) (\<lambda>root.
              checked (d_mul D root mult) (\<lambda>spread.
              checked (d_add D mean spread) (\<lambda>upper.
              checked (d_sub D mean spread) (\<lambda>lower.
                Some (Some \<lparr>ba_middle = mean, ba_upper = upper, ba_lower = lower\<rparr>))))))))))"

definition bollinger_bands :: "'d decimal_api \<Rightarrow> 'd bollinger \<Rightarrow> 'd bands option option" where
  "bollinger_bands D b =
     (if length (bb_buf b) < bb_window b \<or> bb_window b < 2 then Some None
      else bollinger_compute D (bb_buf b) (bb_mult b))"

record 'd zscore =
  zs_window :: nat
  zs_buf :: "'d list"

definition zscore_new :: "nat \<Rightarrow> 'd zscore" where
  "zscore_new window = \<lparr>zs_window = window, zs_buf = []\<rparr>"

definition zscore_push :: "'d \<Rightarrow> 'd zscore \<Rightarrow> 'd zscore" where
  "zscore_push v z = z\<lparr>zs_buf := window_push (zs_window z) v (zs_buf z)\<rparr>"

text \<open>The mean is computed with the plain operators, the rest with the checked ones.\<close>

definition zscore_value :: "'d decimal_api \<Rightarrow> 'd zscore \<Rightarrow> 'd option option" where
  "zscore_value D z =
     (let n = length (zs_buf z); count = d_of_int D (int n)
      in if n < 2 then Some None
         else do {
           total \<leftarrow> try_sum D (d_zero D) (zs_buf z);
           mean \<leftarrow> d_div D total count;
           checked (try_squares D mean (d_zero D) (zs_buf z)) (\<lambda>squared.
           checked (d_div D squared count) (\<lambda>variance.
           Option.bind (decimal_sqrt D variance) (\<lambda>std.
             if d_is_zero D std then Some None
             else checked (d_sub D (last (zs_buf z)) mean) (\<lambda>diff. Some (d_div D diff std)))))
         })"

record 'd donchian =
  dc_window :: nat
  dc_buf :: "('d \<times> 'd) list"

definition donchian_new :: "nat \<Rightarrow> 'd donchian" where
  "donchian_new window = \<lparr>dc_window = window, dc_buf = []\<rparr>"

definition donchian_push :: "'d \<Rightarrow> 'd \<Rightarrow> 'd donchian \<Rightarrow> 'd donchian" where
  "donchian_push high low d = d\<lparr>dc_buf := window_push (dc_window d) (high, low) (dc_buf d)\<rparr>"

definition fold1 :: "('a \<Rightarrow> 'a \<Rightarrow> 'a) \<Rightarrow> 'a list \<Rightarrow> 'a option" where
  "fold1 f xs = (case xs of [] \<Rightarrow> None | x # xs \<Rightarrow> Some (foldl f x xs))"

definition donchian_upper :: "'d decimal_api \<Rightarrow> 'd donchian \<Rightarrow> 'd option" where
  "donchian_upper D d = fold1 (d_max D) (map fst (dc_buf d))"

definition donchian_lower :: "'d decimal_api \<Rightarrow> 'd donchian \<Rightarrow> 'd option" where
  "donchian_lower D d = fold1 (d_min D) (map snd (dc_buf d))"

definition donchian_middle :: "'d decimal_api \<Rightarrow> 'd donchian \<Rightarrow> 'd option option" where
  "donchian_middle D d = (case (donchian_upper D d, donchian_lower D d) of
       (Some u, Some l) \<Rightarrow> do { s \<leftarrow> d_add D u l; m \<leftarrow> d_div D s (d_of_int D 2); Some (Some m) }
     | _ \<Rightarrow> Some None)"

section \<open>Channels and trends\<close>

record 'd keltner =
  kc_mid :: "'d ema"
  kc_atr :: "'d atr"
  kc_multiplier :: 'd

definition keltner_new :: "'d decimal_api \<Rightarrow> nat \<Rightarrow> nat \<Rightarrow> 'd \<Rightarrow> 'd keltner option" where
  "keltner_new D ema_window atr_period multiplier = do {
     mid \<leftarrow> ema_new D ema_window;
     Some \<lparr>kc_mid = mid, kc_atr = atr_new D atr_period, kc_multiplier = multiplier\<rparr>
   }"

definition keltner_push :: "'d decimal_api \<Rightarrow> 'd \<Rightarrow> 'd \<Rightarrow> 'd \<Rightarrow> 'd keltner \<Rightarrow> 'd keltner option" where
  "keltner_push D high low close k = do {
     mid \<leftarrow> ema_push D close (kc_mid k);
     a \<leftarrow> atr_push D high low close (kc_atr k);
     Some (k\<lparr>kc_mid := mid, kc_atr := a\<rparr>)
   }"

definition keltner_middle :: "'d keltner \<Rightarrow> 'd option" where
  "keltner_middle k = em_value (kc_mid k)"

definition keltner_upper :: "'d decimal_api \<Rightarrow> 'd keltner \<Rightarrow> 'd option option" where
  "keltner_upper D k = (case (em_value (kc_mid k), at_rma_value (kc_atr k)) of
       (Some mid, Some a) \<Rightarrow> do { w \<leftarrow> d_mul D a (kc_multiplier k); u \<leftarrow> d_add D mid w; Some (Some u) }
     | _ \<Rightarrow> Some None)"

definition keltner_lower :: "'d decimal_api \<Rightarrow> 'd keltner \<Rightarrow> 'd option option" where
  "keltner_lower D k = (case (em_value (kc_mid k), at_rma_value (kc_atr k)) of
       (Some mid, Some a) \<Rightarrow> do { w \<leftarrow> d_mul D a (kc_multiplier k); l \<leftarrow> d_sub D mid w; Some (Some l) }
     | _ \<Rightarrow> Some None)"

datatype direction = Up | Down | Flat

record 'd supertrend =
  st_atr :: "'d atr"
  st_multiplier :: 'd
  st_prev_close :: "'d option"
  st_prev_upper :: "'d option"
  st_prev_lower :: "'d option"
  st_direction :: direction
  st_value :: "'d option"

definition supertrend_new :: "'d decimal_api \<Rightarrow> nat \<Rightarrow> 'd \<Rightarrow> 'd supertrend" where
  "supertrend_new D period multiplier =
     \<lparr>st_atr = atr_new D period, st_multiplier = multiplier, st_prev_close = None, st_prev_upper = None,
      st_prev_lower = None, st_direction = Flat, st_value = None\<rparr>"

definition final_upper :: "'d decimal_api \<Rightarrow> 'd option \<Rightarrow> 'd option \<Rightarrow> 'd \<Rightarrow> 'd \<Rightarrow> 'd" where
  "final_upper D prev_upper prev_close close basic = (case (prev_upper, prev_close) of
       (Some pu, Some pc) \<Rightarrow> if d_gt D pc pu \<or> d_gt D pu close then basic else pu
     | _ \<Rightarrow> basic)"

definition final_lower :: "'d decimal_api \<Rightarrow> 'd option \<Rightarrow> 'd option \<Rightarrow> 'd \<Rightarrow> 'd \<Rightarrow> 'd" where
  "final_lower D prev_lower prev_close close basic = (case (prev_lower, prev_close) of
       (Some pl, Some pc) \<Rightarrow> if d_gt D pl pc \<or> d_gt D close pl then basic else pl
     | _ \<Rightarrow> basic)"

definition next_direction :: "'d decimal_api \<Rightarrow> 'd supertrend \<Rightarrow> 'd \<Rightarrow> direction" where
  "next_direction D s close = (case (st_prev_upper s, st_prev_lower s) of
       (Some fu, Some fl) \<Rightarrow>
         if st_direction s = Down then (if d_gt D close fu then Up else Down)
         else (if d_gt D fl close then Down else Up)
     | _ \<Rightarrow> Up)"

definition supertrend_push :: "'d decimal_api \<Rightarrow> 'd \<Rightarrow> 'd \<Rightarrow> 'd \<Rightarrow> 'd supertrend \<Rightarrow> 'd supertrend option" where
  "supertrend_push D high low close s = do {
     a \<leftarrow> atr_push D high low close (st_atr s);
     let s = s\<lparr>st_atr := a\<rparr>;
     case at_rma_value a of
       None \<Rightarrow> Some (s\<lparr>st_prev_close := Some close\<rparr>)
     | Some rng \<Rightarrow> do {
         hl \<leftarrow> d_add D high low;
         hl2 \<leftarrow> d_div D hl (d_of_int D 2);
         w \<leftarrow> d_mul D rng (st_multiplier s);
         basic_upper \<leftarrow> d_add D hl2 w;
         basic_lower \<leftarrow> d_sub D hl2 w;
         let upper = final_upper D (st_prev_upper s) (st_prev_close s) close basic_upper;
         let lower = final_lower D (st_prev_lower s) (st_prev_close s) close basic_lower;
         let dir = next_direction D s close;
         Some (s\<lparr>st_direction := dir, st_value := Some (if dir = Down then upper else lower),
                  st_prev_upper := Some upper, st_prev_lower := Some lower, st_prev_close := Some close\<rparr>)
       }
   }"

section \<open>Average directional index\<close>

record 'd adx =
  ax_period :: nat
  ax_prev :: "('d \<times> 'd \<times> 'd) option"
  ax_smooth :: "('d \<times> 'd \<times> 'd) option"
  ax_samples :: nat
  ax_sum_plus_dm :: 'd
  ax_sum_minus_dm :: 'd
  ax_sum_tr :: 'd

text \<open>
  The three previous prices are set together, as are the three smoothed sums (plus, minus, true
  range), so each group is one option.
\<close>

definition adx_new :: "'d decimal_api \<Rightarrow> nat \<Rightarrow> 'd adx" where
  "adx_new D period = \<lparr>ax_period = max period 1, ax_prev = None, ax_smooth = None, ax_samples = 0,
     ax_sum_plus_dm = d_zero D, ax_sum_minus_dm = d_zero D, ax_sum_tr = d_zero D\<rparr>"

text \<open>\<open>s - s / n + x\<close>, the smoothed sum.\<close>

definition smooth_sum :: "'d decimal_api \<Rightarrow> 'd \<Rightarrow> 'd \<Rightarrow> 'd \<Rightarrow> 'd option" where
  "smooth_sum D n s x = do { q \<leftarrow> d_div D s n; r \<leftarrow> d_sub D s q; d_add D r x }"

text \<open>The directional movements of a bar and their accumulation.\<close>

definition plus_dm :: "'d decimal_api \<Rightarrow> 'd \<Rightarrow> 'd \<Rightarrow> 'd" where
  "plus_dm D up down = (if d_gt D up down \<and> d_gt D up (d_zero D) then up else d_zero D)"

definition adx_accumulate :: "'d decimal_api \<Rightarrow> 'd \<Rightarrow> 'd \<Rightarrow> 'd \<Rightarrow> 'd adx \<Rightarrow> 'd adx option" where
  "adx_accumulate D pdm mdm tr a =
     (let n = d_of_int D (int (ax_period a))
      in case ax_smooth a of
          Some (sp, sm, st) \<Rightarrow> do {
            sp \<leftarrow> smooth_sum D n sp pdm;
            sm \<leftarrow> smooth_sum D n sm mdm;
            st \<leftarrow> smooth_sum D n st tr;
            Some (a\<lparr>ax_smooth := Some (sp, sm, st)\<rparr>)
          }
        | None \<Rightarrow> do {
            p \<leftarrow> d_add D (ax_sum_plus_dm a) pdm;
            m \<leftarrow> d_add D (ax_sum_minus_dm a) mdm;
            t \<leftarrow> d_add D (ax_sum_tr a) tr;
            let a = a\<lparr>ax_sum_plus_dm := p, ax_sum_minus_dm := m, ax_sum_tr := t, ax_samples := ax_samples a + 1\<rparr>;
            if ax_samples a \<ge> ax_period a
            then do { p \<leftarrow> d_div D p n; m \<leftarrow> d_div D m n; t \<leftarrow> d_div D t n; Some (a\<lparr>ax_smooth := Some (p, m, t)\<rparr>) }
            else Some a
          })"

definition adx_push :: "'d decimal_api \<Rightarrow> 'd \<Rightarrow> 'd \<Rightarrow> 'd \<Rightarrow> 'd adx \<Rightarrow> 'd adx option" where
  "adx_push D high low close a = (case ax_prev a of
       None \<Rightarrow> Some (a\<lparr>ax_prev := Some (high, low, close)\<rparr>)
     | Some (ph, pl, pc) \<Rightarrow> do {
         up \<leftarrow> d_sub D high ph;
         down \<leftarrow> d_sub D pl low;
         tr \<leftarrow> true_range D high low pc;
         a \<leftarrow> adx_accumulate D (plus_dm D up down) (plus_dm D down up) tr a;
         Some (a\<lparr>ax_prev := Some (high, low, close)\<rparr>)
       })"

text \<open>\<open>dm / tr * 100\<close>\<close>

definition directional :: "'d decimal_api \<Rightarrow> 'd \<Rightarrow> 'd \<Rightarrow> 'd option" where
  "directional D dm tr = do { q \<leftarrow> d_div D dm tr; d_mul D q (d_of_int D 100) }"

text \<open>\<open>|plus_di - minus_di| / (plus_di + minus_di) * 100\<close>\<close>

definition di_index :: "'d decimal_api \<Rightarrow> 'd \<Rightarrow> 'd \<Rightarrow> 'd option" where
  "di_index D plus_di minus_di = do {
     denom \<leftarrow> d_add D plus_di minus_di;
     if d_is_zero D denom then Some (d_zero D)
     else do {
       diff \<leftarrow> d_sub D plus_di minus_di;
       q \<leftarrow> d_div D (d_abs D diff) denom;
       d_mul D q (d_of_int D 100)
     }
   }"

definition adx_value :: "'d decimal_api \<Rightarrow> 'd adx \<Rightarrow> 'd option option" where
  "adx_value D a = (case ax_smooth a of
       None \<Rightarrow> Some None
     | Some (sp, sm, tr) \<Rightarrow>
         if d_is_zero D tr then Some (Some (d_zero D))
         else do {
           plus_di \<leftarrow> directional D sp tr;
           minus_di \<leftarrow> directional D sm tr;
           v \<leftarrow> di_index D plus_di minus_di;
           Some (Some v)
         })"

definition adx_plus_di :: "'d decimal_api \<Rightarrow> 'd adx \<Rightarrow> 'd option option" where
  "adx_plus_di D a = (case ax_smooth a of
       None \<Rightarrow> Some None
     | Some (sp, sm, tr) \<Rightarrow>
         if d_is_zero D tr then Some (Some (d_zero D)) else map_option Some (directional D sp tr))"

definition adx_minus_di :: "'d decimal_api \<Rightarrow> 'd adx \<Rightarrow> 'd option option" where
  "adx_minus_di D a = (case ax_smooth a of
       None \<Rightarrow> Some None
     | Some (sp, sm, tr) \<Rightarrow>
         if d_is_zero D tr then Some (Some (d_zero D)) else map_option Some (directional D sm tr))"

end
