(* ===== verification/Indicator_Bounds.thy ===== *)
theory Indicator_Bounds
  imports Indicators Complex_Main
begin

text \<open>
  What the indicators guarantee whatever the rounding of the decimal type: oscillators stay
  between 0 and 100, bands are ordered around their mean, checked indicators never panic, rolling
  windows hold the last values, and the square root converges within its 64 rounds.
\<close>

section \<open>Decimals as rounded rationals\<close>

text \<open>
  The documented behaviour of the decimal type over the rational value of a decimal: the order
  and the signs are exact, and a result is rounded to a representable neighbour, so it never
  crosses a representable number.
\<close>

definition rounds :: "('d \<Rightarrow> rat) \<Rightarrow> (rat \<Rightarrow> rat \<Rightarrow> rat) \<Rightarrow> ('d \<Rightarrow> 'd \<Rightarrow> 'd option) \<Rightarrow> bool" where
  "rounds val f g \<longleftrightarrow> (\<forall>a b c r. g a b = Some c \<longrightarrow>
     (f (val a) (val b) \<le> val r \<longrightarrow> val c \<le> val r) \<and> (val r \<le> f (val a) (val b) \<longrightarrow> val r \<le> val c))"

definition faithful :: "'d decimal_api \<Rightarrow> ('d \<Rightarrow> rat) \<Rightarrow> bool" where
  "faithful D val \<longleftrightarrow>
     (\<forall>a b. d_gt D a b \<longleftrightarrow> val a > val b) \<and> (\<forall>a. d_is_zero D a \<longleftrightarrow> val a = 0)
     \<and> val (d_zero D) = 0 \<and> val (d_one D) = 1 \<and> (\<forall>n \<le> u64_max. val (d_of_int D (int n)) = of_nat n)
     \<and> (\<forall>a. val (d_neg D a) = - val a) \<and> (\<forall>a. val (d_abs D a) = \<bar>val a\<bar>)
     \<and> rounds val (+) (d_add D) \<and> rounds val (-) (d_sub D) \<and> rounds val (*) (d_mul D)
     \<and> rounds val (/) (d_div D) \<and> (\<forall>a b. val b = 0 \<longrightarrow> d_div D a b = None)
     \<and> (\<forall>a b. 0 \<le> val a \<longrightarrow> 0 \<le> val b \<longrightarrow> d_sub D a b \<noteq> None)"

lemma roundsD:
  assumes "rounds val f g" and "g a b = Some c"
  shows "f (val a) (val b) \<le> val r \<Longrightarrow> val c \<le> val r" and "val r \<le> f (val a) (val b) \<Longrightarrow> val r \<le> val c"
  using assms unfolding rounds_def by blast+

lemma faithfulD:
  assumes "faithful D val"
  shows "d_gt D a b \<longleftrightarrow> val a > val b" and "d_is_zero D a \<longleftrightarrow> val a = 0"
    and "val (d_zero D) = 0" and "val (d_one D) = 1" and "n \<le> u64_max \<Longrightarrow> val (d_of_int D (int n)) = of_nat n"
    and "val (d_neg D a) = - val a" and "val (d_abs D a) = \<bar>val a\<bar>"
    and "rounds val (+) (d_add D)" and "rounds val (-) (d_sub D)" and "rounds val (*) (d_mul D)"
    and "rounds val (/) (d_div D)" and "val b = 0 \<Longrightarrow> d_div D a b = None"
    and "0 \<le> val a \<Longrightarrow> 0 \<le> val b \<Longrightarrow> d_sub D a b \<noteq> None"
  using assms unfolding faithful_def by blast+

lemma faithful_literal:
  assumes "faithful D val"
  shows "val (d_of_int D 2) = 2" and "val (d_of_int D 100) = 100"
  using faithfulD(5) [OF assms, of 2] faithfulD(5) [OF assms, of 100] by (simp_all add: u64_max_def)

text \<open>Signs and bounds of rounded results; \<open>r\<close> is a representable bound.\<close>

lemma sign_laws:
  assumes "faithful D val"
  shows add_nonneg: "d_add D a b = Some c \<Longrightarrow> 0 \<le> val a \<Longrightarrow> 0 \<le> val b \<Longrightarrow> 0 \<le> val c"
    and mul_nonneg: "d_mul D a b = Some c \<Longrightarrow> 0 \<le> val a \<Longrightarrow> 0 \<le> val b \<Longrightarrow> 0 \<le> val c"
    and div_nonneg: "d_div D a b = Some c \<Longrightarrow> 0 \<le> val a \<Longrightarrow> 0 \<le> val b \<Longrightarrow> 0 \<le> val c"
    and sub_nonneg: "d_sub D a b = Some c \<Longrightarrow> val b \<le> val a \<Longrightarrow> 0 \<le> val c"
    and add_ge: "d_add D a b = Some c \<Longrightarrow> 0 \<le> val b \<Longrightarrow> val a \<le> val c"
    and add_ge': "d_add D a b = Some c \<Longrightarrow> 0 \<le> val a \<Longrightarrow> val b \<le> val c"
    and sub_le: "d_sub D a b = Some c \<Longrightarrow> 0 \<le> val b \<Longrightarrow> val c \<le> val a"
    and div_le: "d_div D a b = Some c \<Longrightarrow> 0 \<le> val a \<Longrightarrow> 1 \<le> val b \<Longrightarrow> val c \<le> val a"
proof -
  note z = faithfulD(3) [OF assms]
  show "d_add D a b = Some c \<Longrightarrow> 0 \<le> val a \<Longrightarrow> 0 \<le> val b \<Longrightarrow> 0 \<le> val c"
    using roundsD(2) [OF faithfulD(8) [OF assms], of a b c "d_zero D"] by (simp add: z)
  show "d_mul D a b = Some c \<Longrightarrow> 0 \<le> val a \<Longrightarrow> 0 \<le> val b \<Longrightarrow> 0 \<le> val c"
    using roundsD(2) [OF faithfulD(10) [OF assms], of a b c "d_zero D"] by (simp add: z)
  show "d_div D a b = Some c \<Longrightarrow> 0 \<le> val a \<Longrightarrow> 0 \<le> val b \<Longrightarrow> 0 \<le> val c"
    using roundsD(2) [OF faithfulD(11) [OF assms], of a b c "d_zero D"] by (simp add: z)
  show "d_sub D a b = Some c \<Longrightarrow> val b \<le> val a \<Longrightarrow> 0 \<le> val c"
    using roundsD(2) [OF faithfulD(9) [OF assms], of a b c "d_zero D"] by (simp add: z)
  show "d_add D a b = Some c \<Longrightarrow> 0 \<le> val b \<Longrightarrow> val a \<le> val c"
    using roundsD(2) [OF faithfulD(8) [OF assms], of a b c a] by simp
  show "d_add D a b = Some c \<Longrightarrow> 0 \<le> val a \<Longrightarrow> val b \<le> val c"
    using roundsD(2) [OF faithfulD(8) [OF assms], of a b c b] by simp
  show "d_sub D a b = Some c \<Longrightarrow> 0 \<le> val b \<Longrightarrow> val c \<le> val a"
    using roundsD(1) [OF faithfulD(9) [OF assms], of a b c a] by simp
  show "val c \<le> val a" if "d_div D a b = Some c" "0 \<le> val a" "1 \<le> val b"
  proof -
    have "val a / val b \<le> val a" using that(2,3) by (simp add: divide_le_eq mult_le_cancel_left1)
    then show ?thesis using roundsD(1) [OF faithfulD(11) [OF assms] that(1), of a] by simp
  qed
qed

lemma max_val: "faithful D val \<Longrightarrow> val (d_max D a b) = max (val a) (val b)"
  by (simp add: d_max_def faithfulD(1) max_def)

section \<open>Feeding an indicator\<close>

fun feed :: "('x \<Rightarrow> 's \<Rightarrow> 's option) \<Rightarrow> 'x list \<Rightarrow> 's \<Rightarrow> 's option" where
  "feed push [] s = Some s"
| "feed push (x # xs) s = Option.bind (push x s) (feed push xs)"

lemma feed_inv:
  assumes "\<And>x s t. I s \<Longrightarrow> push x s = Some t \<Longrightarrow> I t" and "feed push xs s = Some t" and "I s"
  shows "I t"
  using assms(2,3) by (induction xs arbitrary: s) (auto simp: bind_eq_Some_conv intro: assms(1))

section \<open>Oscillators\<close>

lemma wilder_nonneg:
  assumes "faithful D val" and "wilder D n prev x = Some c" and "0 \<le> val prev" and "0 \<le> val x" and "1 \<le> val n"
  shows "0 \<le> val c"
proof -
  obtain m p s where m: "d_sub D n (d_one D) = Some m" and p: "d_mul D prev m = Some p"
    and s: "d_add D p x = Some s" and c: "d_div D s n = Some c"
    using assms(2) by (auto simp: wilder_def simp: bind_eq_Some_conv)
  have "0 \<le> val m" using sub_nonneg [OF assms(1) m] assms(5) by (simp add: faithfulD(4) [OF assms(1)])
  then have "0 \<le> val p" using mul_nonneg [OF assms(1) p assms(3)] by simp
  then have "0 \<le> val s" using add_nonneg [OF assms(1) s] assms(4) by simp
  then show ?thesis using div_nonneg [OF assms(1) c] assms(5) by simp
qed

definition rsi_ok :: "('d \<Rightarrow> rat) \<Rightarrow> 'd rsi \<Rightarrow> bool" where
  "rsi_ok val r \<longleftrightarrow> 1 \<le> rs_period r \<and> rs_period r \<le> u64_max
     \<and> pred_option (\<lambda>g. 0 \<le> val g) (rs_avg_gain r) \<and> pred_option (\<lambda>l. 0 \<le> val l) (rs_avg_loss r)"

lemma rsi_push_ok:
  assumes f: "faithful D val" and ok: "rsi_ok val r" and push: "rsi_push D close r = Some r'"
  shows "rsi_ok val r'"
proof (cases "rs_prev r")
  case None
  then show ?thesis using ok push by (auto simp: rsi_push_def rsi_ok_def)
next
  case (Some prev)
  let ?n = "d_of_int D (int (rs_period r))"
  have n: "1 \<le> val ?n" using ok faithfulD(5) [OF f, of "rs_period r"] by (simp add: rsi_ok_def)
  obtain change g l g' l' where
    gl: "rsi_average D ?n (rs_avg_gain r) (rs_avg_loss r) (d_max D change (d_zero D))
          (d_max D (d_neg D change) (d_zero D)) = Some (g, l)"
    and div: "(if rs_samples r + 1 = rs_period r
                   then do { g' \<leftarrow> d_div D g ?n; l' \<leftarrow> d_div D l ?n; Some (g', l') }
                   else Some (g, l)) = Some (g', l')"
    and r': "r' = r\<lparr>rs_prev := Some close, rs_avg_gain := Some g', rs_avg_loss := Some l', rs_samples := rs_samples r + 1\<rparr>"
    using push Some by (auto simp: rsi_push_def Let_def bind_eq_Some_conv split: prod.splits)
  have "0 \<le> val (d_max D a (d_zero D))" for a by (simp add: max_val [OF f] faithfulD(3) [OF f])
  note pos = wilder_nonneg [OF f _ _ this n] add_nonneg [OF f _ _ this]
  have "0 \<le> val g \<and> 0 \<le> val l"
    using gl ok by (auto simp: rsi_average_def rsi_ok_def faithfulD(3) [OF f] simp: bind_eq_Some_conv split: option.splits intro: pos)
  then have "0 \<le> val g' \<and> 0 \<le> val l'"
    using div n by (auto simp: bind_eq_Some_conv split: if_splits intro: div_nonneg [OF f])
  then show ?thesis using ok by (simp add: rsi_ok_def r')
qed

lemma rsi_value_range:
  assumes f: "faithful D val" and ok: "rsi_ok val r" and v: "rsi_value D r = Some (Some v)"
  shows "0 \<le> val v \<and> val v \<le> 100"
proof -
  obtain g l where gl: "rs_avg_gain r = Some g" "rs_avg_loss r = Some l"
    using v by (auto simp: rsi_value_def split: option.splits)
  have pos: "0 \<le> val g" "0 \<le> val l" using ok gl by (simp_all add: rsi_ok_def)
  show ?thesis
  proof (cases "d_is_zero D l")
    case True
    then have "v = d_of_int D 100" using v gl by (simp add: rsi_value_def)
    then show ?thesis by (simp add: faithful_literal [OF f])
  next
    case False
    then obtain rs t q where rs: "d_div D g l = Some rs" and t: "d_add D (d_one D) rs = Some t"
      and q: "d_div D (d_of_int D 100) t = Some q" and v': "d_sub D (d_of_int D 100) q = Some v"
      using v gl by (auto simp: rsi_value_def simp: bind_eq_Some_conv)
    have "1 \<le> val t" using add_ge [OF f t] div_nonneg [OF f rs pos] by (simp add: faithfulD(4) [OF f])
    then have "0 \<le> val q \<and> val q \<le> 100"
      using div_nonneg [OF f q] div_le [OF f q] by (simp add: faithful_literal [OF f])
    then show ?thesis using sub_nonneg [OF f v'] sub_le [OF f v'] by (simp add: faithful_literal [OF f])
  qed
qed

text \<open>The true range and the smoothed sums of the directional index.\<close>

lemma true_range_nonneg:
  assumes "faithful D val" and "true_range D high low prev = Some tr"
  shows "0 \<le> val tr"
  using assms(2) by (auto simp: true_range_def max_val [OF assms(1)] faithfulD(7) [OF assms(1)] le_max_iff_disj simp: bind_eq_Some_conv)

lemma smooth_sum_nonneg:
  assumes f: "faithful D val" and c: "smooth_sum D n s x = Some c" and "0 \<le> val s" and "0 \<le> val x" and "1 \<le> val n"
  shows "0 \<le> val c"
proof -
  obtain q r where q: "d_div D s n = Some q" and r: "d_sub D s q = Some r" and c': "d_add D r x = Some c"
    using c by (auto simp: smooth_sum_def simp: bind_eq_Some_conv)
  have "val q \<le> val s" using div_le [OF f q assms(3,5)] .
  then show ?thesis using add_nonneg [OF f c' sub_nonneg [OF f r]] assms(4) by blast
qed

definition adx_ok :: "('d \<Rightarrow> rat) \<Rightarrow> 'd adx \<Rightarrow> bool" where
  "adx_ok val a \<longleftrightarrow> 1 \<le> ax_period a \<and> ax_period a \<le> u64_max
     \<and> 0 \<le> val (ax_sum_plus_dm a) \<and> 0 \<le> val (ax_sum_minus_dm a) \<and> 0 \<le> val (ax_sum_tr a)
     \<and> pred_option (\<lambda>(p, m, t). 0 \<le> val p \<and> 0 \<le> val m \<and> 0 \<le> val t) (ax_smooth a)"

lemma adx_accumulate_ok:
  assumes f: "faithful D val" and ok: "adx_ok val a" and acc: "adx_accumulate D pdm mdm tr a = Some a'"
    and pos: "0 \<le> val pdm" "0 \<le> val mdm" "0 \<le> val tr"
  shows "adx_ok val a'"
proof -
  let ?n = "d_of_int D (int (ax_period a))"
  have n: "1 \<le> val ?n" using ok faithfulD(5) [OF f, of "ax_period a"] by (simp add: adx_ok_def)
  then have n0: "0 \<le> val ?n" by simp
  show ?thesis
  proof (cases "ax_smooth a")
    case None
    then obtain p m t where tot: "d_add D (ax_sum_plus_dm a) pdm = Some p"
        "d_add D (ax_sum_minus_dm a) mdm = Some m" "d_add D (ax_sum_tr a) tr = Some t"
      and a': "(if Suc (ax_samples a) \<ge> ax_period a
         then do { p' \<leftarrow> d_div D p ?n; m' \<leftarrow> d_div D m ?n; t' \<leftarrow> d_div D t ?n;
           Some (a\<lparr>ax_sum_plus_dm := p, ax_sum_minus_dm := m, ax_sum_tr := t,
             ax_samples := Suc (ax_samples a), ax_smooth := Some (p', m', t')\<rparr>) }
         else Some (a\<lparr>ax_sum_plus_dm := p, ax_sum_minus_dm := m, ax_sum_tr := t, ax_samples := Suc (ax_samples a)\<rparr>)) = Some a'"
      using acc by (auto simp: adx_accumulate_def Let_def bind_eq_Some_conv)
    have "0 \<le> val p" "0 \<le> val m" "0 \<le> val t"
      using tot [THEN add_nonneg [OF f]] ok pos by (simp_all add: adx_ok_def)
    then show ?thesis
      using a' ok n0 None by (auto simp: adx_ok_def bind_eq_Some_conv split: if_splits intro: div_nonneg [OF f])
  next
    case (Some tri)
    then obtain sp sm st sp' sm' st' where s: "ax_smooth a = Some (sp, sm, st)"
      and p: "smooth_sum D ?n sp pdm = Some sp'" and m: "smooth_sum D ?n sm mdm = Some sm'"
      and t: "smooth_sum D ?n st tr = Some st'" and a': "a' = a\<lparr>ax_smooth := Some (sp', sm', st')\<rparr>"
      using acc by (cases tri) (auto simp: adx_accumulate_def Let_def bind_eq_Some_conv)
    have "0 \<le> val sp" "0 \<le> val sm" "0 \<le> val st" using ok s by (simp_all add: adx_ok_def)
    then show ?thesis
      using ok smooth_sum_nonneg [OF f p _ pos(1) n] smooth_sum_nonneg [OF f m _ pos(2) n]
        smooth_sum_nonneg [OF f t _ pos(3) n] by (simp add: adx_ok_def a')
  qed
qed

lemma adx_push_ok:
  assumes f: "faithful D val" and ok: "adx_ok val a" and push: "adx_push D high low close a = Some a'"
  shows "adx_ok val a'"
proof (cases "ax_prev a")
  case None
  then show ?thesis using ok push by (auto simp: adx_push_def adx_ok_def)
next
  case (Some prev)
  then obtain pc up down tr a1 where tr: "true_range D high low pc = Some tr"
    and a1: "adx_accumulate D (plus_dm D up down) (plus_dm D down up) tr a = Some a1"
    and a': "a' = a1\<lparr>ax_prev := Some (high, low, close)\<rparr>"
    using push by (cases prev) (auto simp: adx_push_def bind_eq_Some_conv)
  have "0 \<le> val (plus_dm D x y)" for x y by (simp add: plus_dm_def faithfulD(1,3) [OF f])
  then have "adx_ok val a1" using adx_accumulate_ok [OF f ok a1] true_range_nonneg [OF f tr] by blast
  then show ?thesis by (simp add: adx_ok_def a')
qed

lemma di_index_range:
  assumes f: "faithful D val" and v: "di_index D p m = Some v" and pm: "0 \<le> val p" "0 \<le> val m"
  shows "0 \<le> val v \<and> val v \<le> 100"
proof -
  obtain denom where denom: "d_add D p m = Some denom" using v by (auto simp: di_index_def bind_eq_Some_conv)
  show ?thesis
  proof (cases "d_is_zero D denom")
    case True
    then show ?thesis using v denom by (auto simp: di_index_def faithfulD(3) [OF f])
  next
    case False
    then obtain diff q where diff: "d_sub D p m = Some diff" and q: "d_div D (d_abs D diff) denom = Some q"
      and v': "d_mul D q (d_of_int D 100) = Some v"
      using v denom by (auto simp: di_index_def bind_eq_Some_conv)
    have "val diff \<le> val p" using sub_le [OF f diff pm(2)] .
    moreover have "- val m \<le> val diff"
      using roundsD(2) [OF faithfulD(9) [OF f] diff, of "d_neg D m"] pm by (simp add: faithfulD(6) [OF f])
    ultimately have "\<bar>val diff\<bar> \<le> val denom"
      using add_ge [OF f denom pm(2)] add_ge' [OF f denom pm(1)] by linarith
    moreover have "0 < val denom"
      using False add_nonneg [OF f denom pm] by (simp add: faithfulD(2) [OF f] less_le)
    ultimately have "0 \<le> val q \<and> val q \<le> 1"
      using roundsD(1) [OF faithfulD(11) [OF f] q, of "d_one D"] div_nonneg [OF f q]
      by (simp add: faithfulD(4,7) [OF f])
    then show ?thesis
      using mul_nonneg [OF f v'] roundsD(1) [OF faithfulD(10) [OF f] v', of "d_of_int D 100"]
      by (simp add: faithful_literal [OF f])
  qed
qed

lemma directional_nonneg:
  assumes f: "faithful D val" and c: "directional D dm tr = Some c" and "0 \<le> val dm" and "0 \<le> val tr"
  shows "0 \<le> val c"
proof -
  obtain q where q: "d_div D dm tr = Some q" and c': "d_mul D q (d_of_int D 100) = Some c"
    using c by (auto simp: directional_def bind_eq_Some_conv)
  show ?thesis using mul_nonneg [OF f c' div_nonneg [OF f q assms(3,4)]] by (simp add: faithful_literal [OF f])
qed

lemma adx_value_range:
  assumes f: "faithful D val" and ok: "adx_ok val a" and v: "adx_value D a = Some (Some v)"
  shows "0 \<le> val v \<and> val v \<le> 100"
proof -
  obtain sp sm tr where s: "ax_smooth a = Some (sp, sm, tr)"
    using v by (cases "ax_smooth a") (auto simp: adx_value_def)
  have pos: "0 \<le> val sp" "0 \<le> val sm" "0 \<le> val tr" using ok s by (simp_all add: adx_ok_def)
  show ?thesis
  proof (cases "d_is_zero D tr")
    case True
    then have "v = d_zero D" using v s by (simp add: adx_value_def)
    then show ?thesis by (simp add: faithfulD(3) [OF f])
  next
    case False
    then obtain p m where p: "directional D sp tr = Some p" and m: "directional D sm tr = Some m"
      and i: "di_index D p m = Some v"
      using v s by (auto simp: adx_value_def bind_eq_Some_conv)
    show ?thesis
      using di_index_range [OF f i] directional_nonneg [OF f p pos(1,3)] directional_nonneg [OF f m pos(2,3)] by blast
  qed
qed

text \<open>
  C25: after any sequence of bars that the arithmetic can represent, the RSI and the ADX answer
  nothing or a value between 0 and 100, for every period, however the decimals are rounded.
\<close>
theorem oscillators_stay_in_range:
  assumes f: "faithful D val" and period: "period \<le> u64_max"
    and rsi: "feed (rsi_push D) closes (rsi_new period) = Some r"
    and adx: "feed (\<lambda>(h, l, c). adx_push D h l c) bars (adx_new D period) = Some a"
  shows "(rsi_value D r = Some (Some v) \<longrightarrow> 0 \<le> val v \<and> val v \<le> 100)
    \<and> (adx_value D a = Some (Some w) \<longrightarrow> 0 \<le> val w \<and> val w \<le> 100)"
proof -
  have p: "max period 1 \<le> u64_max" using period by (simp add: u64_max_def)
  have "rsi_ok val (rsi_new period :: 'a rsi)" using p by (simp add: rsi_ok_def rsi_new_def)
  then have "rsi_ok val r" using feed_inv [OF _ rsi, of "rsi_ok val"] rsi_push_ok [OF f] by blast
  moreover have "adx_ok val (adx_new D period)" using p by (simp add: adx_ok_def adx_new_def faithfulD(3) [OF f])
  then have "adx_ok val a" using feed_inv [OF _ adx, of "adx_ok val"] adx_push_ok [OF f] by fastforce
  ultimately show ?thesis using rsi_value_range [OF f] adx_value_range [OF f] by blast
qed

section \<open>Bands\<close>

lemma checked_Some: "checked x g = Some (Some b) \<longleftrightarrow> (\<exists>a. x = Some a \<and> g a = Some (Some b))"
  by (simp add: checked_def split: option.splits)

lemma checked_None: "checked x g = None \<longleftrightarrow> (\<exists>a. x = Some a \<and> g a = None)"
  by (simp add: checked_def split: option.splits)

lemma newton_loop_total:
  assumes f: "faithful D val" and "0 \<le> val x"
  shows "\<exists>r. newton_loop D n y x = Some r \<and> 0 \<le> val r"
  using assms(2)
proof (induction n arbitrary: x)
  case (Suc n)
  show ?case
  proof (cases "d_div D y x")
    case None
    then show ?thesis using Suc.prems by simp
  next
    case (Some q)
    show ?thesis
    proof (cases "Option.bind (d_add D x q) (\<lambda>s. d_div D s (d_of_int D 2))")
      case None
      then show ?thesis using Some Suc.prems by simp
    next
      case next': (Some nx)
      show ?thesis
      proof (cases "d_gt D nx (d_zero D)")
        case True
        then have pos: "0 \<le> val nx" by (simp add: faithfulD(1,3) [OF f])
        then obtain diff where "d_sub D nx x = Some diff" using faithfulD(13) [OF f _ Suc.prems, of nx] by auto
        then show ?thesis using Some next' True Suc.IH [OF pos] pos by simp
      qed (use Some next' Suc.prems in simp)
    qed
  qed
qed simp

lemma decimal_sqrt_total:
  assumes f: "faithful D val"
  shows "\<exists>r. decimal_sqrt D y = Some r \<and> 0 \<le> val r"
proof (cases "d_gt D y (d_zero D)")
  case True
  let ?seed = "if d_ge D y (d_one D)
    then (case d_div D y (d_of_int D 2) of None \<Rightarrow> y | Some h \<Rightarrow> h) else d_one D"
  have "0 \<le> val y" using True by (simp add: faithfulD(1,3) [OF f])
  then have "0 \<le> val ?seed"
    using div_nonneg [OF f, of y "d_of_int D 2"]
    by (auto simp: faithful_literal [OF f] faithfulD(4) [OF f] split: option.splits)
  then show ?thesis using newton_loop_total [OF f] True by (simp add: decimal_sqrt_def Let_def)
qed (simp add: decimal_sqrt_def faithfulD(3) [OF f])

text \<open>
  Bollinger bands never panic, whatever the closes: an intermediate that does not fit answers
  no bands.  When there are bands and the multiplier is not negative, they are ordered around the
  middle.
\<close>
theorem bollinger_never_panics_and_is_ordered:
  assumes f: "faithful D val" and mult: "0 \<le> val mult"
  shows "\<exists>result. bollinger_compute D closes mult = Some result
    \<and> (\<forall>b. result = Some b \<longrightarrow> val (ba_lower b) \<le> val (ba_middle b) \<and> val (ba_middle b) \<le> val (ba_upper b))"
proof -
  have root: "\<exists>r. decimal_sqrt D v = Some r \<and> 0 \<le> val r" for v by (rule decimal_sqrt_total [OF f])
  have spread: "0 \<le> val s" if "d_mul D r mult = Some s" "0 \<le> val r" for r s
    using mul_nonneg [OF f that mult] .
  have bands: "val (ba_lower b) \<le> val (ba_middle b) \<and> val (ba_middle b) \<le> val (ba_upper b)"
    if compute: "bollinger_compute D closes mult = Some (Some b)" for b
  proof -
    obtain mean v r s u l where r: "decimal_sqrt D v = Some r" and s: "d_mul D r mult = Some s"
      and u: "d_add D mean s = Some u" and l: "d_sub D mean s = Some l"
      and b: "b = \<lparr>ba_middle = mean, ba_upper = u, ba_lower = l\<rparr>"
      using compute by (auto simp: bollinger_compute_def Let_def checked_Some bind_eq_Some_conv split: if_splits)
    have "0 \<le> val s" using root [of v] r spread [OF s] by auto
    then show ?thesis using add_ge [OF f u] sub_le [OF f l] by (simp add: b)
  qed
  moreover have "bollinger_compute D closes mult \<noteq> None"
  proof
    assume "bollinger_compute D closes mult = None"
    then obtain v where "decimal_sqrt D v = None"
      by (auto simp: bollinger_compute_def Let_def checked_None bind_eq_None_conv split: if_splits)
    then show False using root [of v] by simp
  qed
  ultimately show ?thesis by auto
qed

section \<open>Rolling windows\<close>

definition last_n :: "nat \<Rightarrow> 'a list \<Rightarrow> 'a list" where
  "last_n n xs = drop (length xs - n) xs"

definition donchian_after :: "nat \<Rightarrow> ('d \<times> 'd) list \<Rightarrow> 'd donchian" where
  "donchian_after w bars = foldl (\<lambda>d (h, l). donchian_push h l d) (donchian_new w) bars"

lemma last_n_snoc: "last_n n (xs @ [x]) = window_push n x (last_n n xs)"
proof (cases "length xs < n")
  case True
  then show ?thesis by (simp add: last_n_def window_push_def)
next
  case False
  then show ?thesis
    by (cases "n = 0") (simp_all add: last_n_def window_push_def Let_def Suc_diff_le tl_drop drop_Suc)
qed

lemma window_fold: "foldl (\<lambda>buf x. window_push n x buf) [] xs = last_n n xs"
proof (induction xs rule: rev_induct)
  case Nil
  then show ?case by (simp add: last_n_def)
next
  case (snoc x xs)
  then show ?case by (simp add: last_n_snoc)
qed

definition greatest :: "'d decimal_api \<Rightarrow> 'd list \<Rightarrow> 'd \<Rightarrow> bool" where
  "greatest D xs m \<longleftrightarrow> m \<in> set xs \<and> (\<forall>x \<in> set xs. \<not> d_gt D x m)"

definition least :: "'d decimal_api \<Rightarrow> 'd list \<Rightarrow> 'd \<Rightarrow> bool" where
  "least D xs m \<longleftrightarrow> m \<in> set xs \<and> (\<forall>x \<in> set xs. \<not> d_gt D m x)"

lemma foldl_max_greatest:
  assumes "faithful D val"
  shows "greatest D (x # xs) (foldl (d_max D) x xs)"
proof (induction xs arbitrary: x)
  case (Cons y xs)
  have "d_max D x y \<in> {x, y}" "\<not> d_gt D x (d_max D x y)" "\<not> d_gt D y (d_max D x y)"
    by (auto simp: d_max_def faithfulD(1) [OF assms])
  then show ?case using Cons [of "d_max D x y"] by (auto simp: greatest_def faithfulD(1) [OF assms])
qed (simp add: greatest_def faithfulD(1) [OF assms])

lemma foldl_min_least:
  assumes "faithful D val"
  shows "least D (x # xs) (foldl (d_min D) x xs)"
proof (induction xs arbitrary: x)
  case (Cons y xs)
  have "d_min D x y \<in> {x, y}" "\<not> d_gt D (d_min D x y) x" "\<not> d_gt D (d_min D x y) y"
    by (auto simp: d_min_def faithfulD(1) [OF assms])
  then show ?case using Cons [of "d_min D x y"] by (auto simp: least_def faithfulD(1) [OF assms])
qed (simp add: least_def faithfulD(1) [OF assms])

lemma donchian_window: "dc_buf (donchian_after w bars) = last_n w bars"
proof -
  have "donchian_after w bars = \<lparr>dc_window = w, dc_buf = foldl (\<lambda>buf x. window_push w x buf) [] bars\<rparr>"
    unfolding donchian_after_def
    by (induction bars rule: rev_induct) (auto simp: donchian_new_def donchian_push_def)
  then show ?thesis by (simp add: window_fold)
qed

text \<open>
  The incremental Donchian channel agrees with its definition: after any bars, its upper line
  is the greatest high and its lower line the least low of the last \<open>window\<close> bars, and it has no
  value exactly when there is none.
\<close>
theorem donchian_is_the_rolling_extremum:
  assumes f: "faithful D val"
  shows "(case donchian_upper D (donchian_after w bars) of
        None \<Rightarrow> last_n w bars = [] | Some u \<Rightarrow> greatest D (map fst (last_n w bars)) u)
    \<and> (case donchian_lower D (donchian_after w bars) of
        None \<Rightarrow> last_n w bars = [] | Some l \<Rightarrow> least D (map snd (last_n w bars)) l)"
proof (cases "last_n w bars")
  case Nil
  then show ?thesis by (simp add: donchian_upper_def donchian_lower_def donchian_window fold1_def)
next
  case (Cons x xs)
  then show ?thesis
    using foldl_max_greatest [OF f, of "fst x" "map fst xs"] foldl_min_least [OF f, of "snd x" "map snd xs"]
    by (simp add: donchian_upper_def donchian_lower_def donchian_window fold1_def)
qed

section \<open>Convergence of the square root\<close>

text \<open>
  The decimal type without rounding and overflow: rationals.  The text form plays no part here.
\<close>

definition rat_api :: "rat decimal_api" where
  "rat_api = \<lparr>d_zero = 0, d_one = 1, d_of_int = of_int, d_neg = uminus, d_abs = abs,
     d_new = (\<lambda>m e. of_int m / 10 ^ e), d_add = (\<lambda>a b. Some (a + b)), d_sub = (\<lambda>a b. Some (a - b)),
     d_mul = (\<lambda>a b. Some (a * b)), d_div = (\<lambda>a b. if b = 0 then None else Some (a / b)),
     d_gt = (\<lambda>a b. a > b), d_is_zero = (\<lambda>a. a = 0), d_is_sign_negative = (\<lambda>a. a < 0),
     d_show = (\<lambda>_. ''''), d_parse = (\<lambda>_. Inl '''')\<rparr>"

lemma rat_faithful: "faithful rat_api (\<lambda>x. x)"
  by (simp add: faithful_def rounds_def rat_api_def)

text \<open>One Newton step over the reals.\<close>

lemma newton_step_error:
  fixes x v :: real
  assumes "0 < x" and "0 < v"
  shows "(x + v / x) / 2 - sqrt v = (x - sqrt v)\<^sup>2 / (2 * x)"
proof -
  have "v = sqrt v * sqrt v" using assms(2) by simp
  then have "(x + v / x) / 2 - sqrt v = (x * x + sqrt v * sqrt v - 2 * x * sqrt v) / (2 * x)"
    using assms(1) by (simp add: field_simps)
  then show ?thesis by (simp add: power2_eq_square algebra_simps)
qed

lemma newton_above:
  fixes x v :: real
  assumes "0 < x" and "0 < v"
  shows "sqrt v \<le> (x + v / x) / 2"
proof -
  have "0 \<le> (x - sqrt v)\<^sup>2 / (2 * x)" using assms(1) by simp
  then show ?thesis using newton_step_error [OF assms] by linarith
qed

lemma newton_close:
  fixes x v :: real
  assumes "0 < x" and "0 < v"
  shows "(x + v / x) / 2 - sqrt v \<le> \<bar>(x + v / x) / 2 - x\<bar>"
proof (cases "sqrt v \<le> x")
  case True
  have "x - (x + v / x) / 2 = (x - sqrt v) * (x + sqrt v) / (2 * x)"
    using assms by (simp add: field_simps)
  moreover have "(x - sqrt v)\<^sup>2 / (2 * x) \<le> (x - sqrt v) * (x + sqrt v) / (2 * x)"
    using True assms by (intro divide_right_mono) (simp_all add: power2_eq_square mult_left_mono)
  ultimately show ?thesis using newton_step_error [OF assms] by linarith
next
  case False
  then show ?thesis using newton_above [OF assms] by linarith
qed

lemma newton_contract:
  fixes x v :: real
  assumes "0 < v" and "sqrt v \<le> x" and "x \<le> sqrt v * (1 + e)" and "e \<le> 2 * d \<or> e * e \<le> 2 * d" and "0 \<le> e"
  shows "(x + v / x) / 2 \<le> sqrt v * (1 + d)"
proof -
  let ?s = "sqrt v"
  have s: "0 < ?s" and x: "0 < x" using assms(1,2) by (simp_all add: order_less_le_trans [of 0 "sqrt v" x])
  have d: "0 \<le> x - ?s" "x - ?s \<le> ?s * e" using assms(2,3) by (simp_all add: algebra_simps)
  have "(x - ?s)\<^sup>2 / (2 * x) \<le> ?s * d"
    using assms(4)
  proof
    assume "e \<le> 2 * d"
    have "(x - ?s)\<^sup>2 / (2 * x) \<le> (x - ?s) / 2"
    proof -
      have "(x - ?s) * (x - ?s) \<le> (x - ?s) * x" using d(1) s by (intro mult_left_mono) simp_all
      then show ?thesis using x by (simp add: field_simps power2_eq_square)
    qed
    also have "\<dots> \<le> ?s * e / 2" using d by simp
    also have "\<dots> \<le> ?s * d" using s \<open>e \<le> 2 * d\<close> by simp
    finally show ?thesis .
  next
    assume "e * e \<le> 2 * d"
    have "(x - ?s)\<^sup>2 / (2 * x) \<le> (?s * e)\<^sup>2 / (2 * ?s)"
      using d s x assms(2) by (intro frac_le power_mono) simp_all
    also have "\<dots> = ?s * (e * e) / 2" using s by (simp add: power2_eq_square)
    also have "\<dots> \<le> ?s * d" using s \<open>e * e \<le> 2 * d\<close> by simp
    finally show ?thesis .
  qed
  then show ?thesis using newton_step_error [OF x assms(1)] by (simp add: algebra_simps)
qed

text \<open>
  \<open>converges v n e\<close>: from any start between the root and \<open>1 + e\<close> times the root, \<open>n\<close> rounds of the
  loop answer a value at most \<open>10\<^sup>-\<^sup>8\<close> above the root.
\<close>

definition near_root :: "rat \<Rightarrow> rat \<Rightarrow> bool" where
  "near_root v r \<longleftrightarrow> sqrt (of_rat v) \<le> of_rat r \<and> of_rat r \<le> sqrt (of_rat v) + 1 / 10 ^ 8"

definition converges :: "rat \<Rightarrow> nat \<Rightarrow> real \<Rightarrow> bool" where
  "converges v n e \<longleftrightarrow> (\<forall>x. sqrt (of_rat v) \<le> of_rat x \<longrightarrow> of_rat x \<le> sqrt (of_rat v) * (1 + e) \<longrightarrow>
     (\<exists>r. newton_loop rat_api n v x = Some r \<and> near_root v r))"

text \<open>One round from any positive start.\<close>

lemma newton_round:
  assumes "0 < x" and "0 < v"
  shows "newton_loop rat_api (Suc n) v x =
    (let nx = (x + v / x) / 2 in if \<bar>nx - x\<bar> < 1 / 10 ^ 8 then Some nx else newton_loop rat_api n v nx)"
proof -
  have "0 < (x + v / x) / 2" using assms by (simp add: add_pos_pos)
  then show ?thesis using assms by (simp add: rat_api_def Let_def)
qed

lemma of_rat_abs: "(of_rat \<bar>y\<bar> :: real) = \<bar>of_rat y\<bar>"
  by (cases "y < 0") (simp_all add: of_rat_minus)

lemma of_rat_newton: "(of_rat ((x + v / x) / 2) :: real) = (of_rat x + of_rat v / of_rat x) / 2"
  by (simp add: of_rat_divide of_rat_add)

lemma newton_round_near:
  assumes x: "0 < x" and v: "0 < v"
    and rest: "\<exists>r. newton_loop rat_api n v ((x + v / x) / 2) = Some r \<and> near_root v r"
  shows "\<exists>r. newton_loop rat_api (Suc n) v x = Some r \<and> near_root v r"
proof (cases "\<bar>(x + v / x) / 2 - x\<bar> < 1 / 10 ^ 8")
  case True
  let ?nx = "(x + v / x) / 2"
  have "of_rat \<bar>?nx - x\<bar> < (of_rat (1 / 10 ^ 8) :: real)" using True by (simp only: of_rat_less)
  moreover have "of_rat \<bar>?nx - x\<bar> = \<bar>of_rat ?nx - (of_rat x :: real)\<bar>"
    by (simp only: of_rat_abs of_rat_diff)
  ultimately have "\<bar>of_rat ?nx - of_rat x\<bar> < (1 / 10 ^ 8 :: real)"
    by (simp only: of_rat_divide of_rat_power of_rat_1 of_rat_numeral_eq)
  moreover have "sqrt (of_rat v) \<le> of_rat ?nx" "of_rat ?nx - sqrt (of_rat v) \<le> \<bar>of_rat ?nx - of_rat x\<bar>"
    using newton_above [of "of_rat x" "of_rat v"] newton_close [of "of_rat x" "of_rat v"] x v
    by (simp_all only: of_rat_newton zero_less_of_rat_iff)
  ultimately have "near_root v ?nx" by (simp add: near_root_def)
  then show ?thesis using True by (simp only: newton_round [OF x v] Let_def if_True) blast
next
  case False
  then show ?thesis using rest by (simp only: newton_round [OF x v] Let_def if_False)
qed

lemma converges_step:
  assumes v: "0 < v" and n: "converges v n d" and e: "e \<le> 2 * d \<or> e * e \<le> 2 * d" "0 \<le> e"
  shows "converges v (Suc n) e"
  unfolding converges_def
proof (intro allI impI)
  fix x assume x: "sqrt (of_rat v) \<le> of_rat x" "of_rat x \<le> sqrt (of_rat v) * (1 + e)"
  have s: "0 < sqrt (of_rat v)" using v by simp
  then have pos: "0 < x" using x(1) by (metis order_less_le_trans zero_less_of_rat_iff)
  have "of_rat ((x + v / x) / 2) \<le> sqrt (of_rat v) * (1 + d)"
    using newton_contract [OF _ x e] v by (simp only: of_rat_newton zero_less_of_rat_iff)
  moreover have "sqrt (of_rat v) \<le> of_rat ((x + v / x) / 2)"
    using newton_above [of "of_rat x" "of_rat v"] pos v by (simp only: of_rat_newton zero_less_of_rat_iff)
  ultimately show "\<exists>r. newton_loop rat_api (Suc n) v x = Some r \<and> near_root v r"
    using n newton_round_near [OF pos v] unfolding converges_def by blast
qed

lemma converges_halving: "0 < v \<Longrightarrow> converges v n d \<Longrightarrow> 0 \<le> d \<Longrightarrow> converges v (k + n) (2 ^ k * d)"
  by (induction k) (auto intro: converges_step)

lemma converges_squaring:
  assumes "0 < v" and "converges v n (1 / 2 ^ (2 ^ j - 1))"
  shows "converges v (j + n) 1"
  using assms(2)
proof (induction j arbitrary: n)
  case (Suc j)
  obtain m where "(2 :: nat) ^ j = Suc m" by (metis not0_implies_Suc power_not_zero zero_neq_numeral)
  then have "(2 :: nat) ^ Suc j - 1 = (2 ^ j - 1) + (2 ^ j - 1) + 1" by simp
  then have "(1 / 2 ^ (2 ^ j - 1)) * (1 / 2 ^ (2 ^ j - 1)) = 2 * (1 / 2 ^ (2 ^ Suc j - 1) :: real)"
    by (simp only: power_add) simp
  then have "converges v (Suc n) (1 / 2 ^ (2 ^ j - 1))"
    using converges_step [OF assms(1) Suc.prems, of "1 / 2 ^ (2 ^ j - 1)"] by simp
  then show ?case using Suc.IH by fastforce
qed simp

lemma converges_63:
  assumes "0 < v" and "sqrt (of_rat v) \<le> 2 ^ 48"
  shows "converges v 63 (2 ^ 56)"
proof -
  have "sqrt (of_rat v) * (1 / 2 ^ 127) \<le> 2 ^ 48 * (1 / 2 ^ 127)" using assms(2) by (intro mult_right_mono) simp_all
  also have "\<dots> \<le> (1 / 10 ^ 8 :: real)" by simp
  finally have e: "sqrt (of_rat v) * (1 / 2 ^ 127) \<le> 1 / 10 ^ 8" .
  have "near_root v x" if "sqrt (of_rat v) \<le> of_rat x" "of_rat x \<le> sqrt (of_rat v) * (1 + 1 / 2 ^ 127)" for x
    using that e by (simp add: near_root_def distrib_left)
  then have "converges v 0 (1 / 2 ^ (2 ^ 7 - 1))" by (simp add: converges_def)
  then have "converges v (56 + (7 + 0)) (2 ^ 56 * 1)"
    by (intro converges_halving converges_squaring assms(1)) simp_all
  then show ?thesis by simp
qed


section \<open>The seed of the RSI\<close>

text \<open>
  The documented seed phase: the plain averages of the first \<open>period\<close> gains and losses.
\<close>

definition seeded_rsi :: "rat list \<Rightarrow> rat" where
  "seeded_rsi closes =
     (let deltas = map (\<lambda>(a, b). b - a) (zip closes (tl closes));
          gain = sum_list (map (max 0) deltas); loss = sum_list (map (\<lambda>d. max 0 (- d)) deltas)
      in 100 * gain / (gain + loss))"

text \<open>
  The code smooths from the second delta on instead of summing up, so the first value after
  \<open>period\<close> deltas is not the RSI: closes 0, 1, 0, 1 with period 3 give 77.8 instead of 66.7.
\<close>

lemma rsi_seed_is_not_an_average:
  "\<exists>r. feed (rsi_push rat_api) [0, 1, 0, 1] (rsi_new 3) = Some r \<and> rs_samples r = rs_period r
     \<and> rsi_value rat_api r = Some (Some (700 / 9)) \<and> seeded_rsi [0, 1, 0, 1] = 200 / 3"
  by (simp add: rsi_push_def rsi_new_def rsi_value_def rsi_average_def wilder_def rat_api_def d_max_def Let_def seeded_rsi_def)

text \<open>
  The stop line of Supertrend loosens: while the price stays above the stop at 8 the next bar moves
  it down to 4, because a band is kept only when the close has crossed it, not when it is tighter.
\<close>

lemma supertrend_stop_loosens:
  "\<exists>s t. supertrend_push rat_api 11 9 10 (supertrend_new rat_api 1 1) = Some s \<and> supertrend_push rat_api 10 6 9 s = Some t
     \<and> st_direction s = Up \<and> st_direction t = Up \<and> st_value s = Some 8 \<and> st_value t = Some 4"
  by (simp add: supertrend_push_def supertrend_new_def atr_new_def atr_push_def true_range_def wilder_def rat_api_def d_max_def
      final_upper_def final_lower_def next_direction_def Let_def)

section \<open>Instances\<close>

theorem oscillators_stay_in_range_witness:
  "\<exists>r. feed (rsi_push rat_api) [0, 1, 0, 1] (rsi_new 3) = Some r \<and> rsi_value rat_api r = Some (Some (700 / 9))
     \<and> 0 \<le> (700 / 9 :: rat) \<and> 700 / 9 \<le> (100 :: rat)"
proof -
  obtain r where r: "feed (rsi_push rat_api) [0, 1, 0, 1] (rsi_new 3) = Some r"
    and v: "rsi_value rat_api r = Some (Some (700 / 9))"
    using rsi_seed_is_not_an_average by blast
  have a: "feed (\<lambda>(h, l, c). adx_push rat_api h l c) [] (adx_new rat_api 3) = Some (adx_new rat_api 3)" by simp
  show ?thesis
    using oscillators_stay_in_range [OF rat_faithful _ r a, of "700 / 9" 0] r v by (simp add: u64_max_def)
qed

theorem bollinger_never_panics_and_is_ordered_witness:
  "\<exists>result. bollinger_compute rat_api [1, 3] 2 = Some result
    \<and> (\<forall>b. result = Some b \<longrightarrow> ba_lower b \<le> ba_middle b \<and> ba_middle b \<le> ba_upper b)"
  using bollinger_never_panics_and_is_ordered [OF rat_faithful, of 2 "[1, 3]"] by simp

theorem donchian_is_the_rolling_extremum_witness:
  "donchian_upper rat_api (donchian_after 2 [(7, 1), (5, 2), (4, 0)]) = Some 5 \<and> greatest rat_api [5, 4] 5
   \<and> least rat_api [2, 0] 0"
proof -
  have "last_n 2 [(7 :: rat, 1 :: rat), (5, 2), (4, 0)] = [(5, 2), (4, 0)]" by (simp add: last_n_def)
  moreover have "donchian_upper rat_api (donchian_after 2 [(7, 1), (5, 2), (4, 0)]) = Some 5"
    "donchian_lower rat_api (donchian_after 2 [(7, 1), (5, 2), (4, 0)]) = Some 0"
    by (simp_all add: donchian_after_def donchian_new_def donchian_push_def window_push_def Let_def donchian_upper_def
        donchian_lower_def fold1_def d_max_def d_min_def rat_api_def)
  ultimately show ?thesis
    using donchian_is_the_rolling_extremum [OF rat_faithful, of 2 "[(7, 1), (5, 2), (4, 0)]"] by simp
qed


end
