(* ===== verification/Strategy_Params.thy ===== *)
theory Strategy_Params
  imports Simple_Grid Indicators
begin

text \<open>
  The parameters the strategies share and the market reads on top of the market data port
  (\<open>strategies/params.rs\<close>): venue addressing, candle periods, candles and closes, the last traded
  price.
\<close>

section \<open>Parameters\<close>

record common_params =
  cp_exchange_id :: string
  cp_label :: string
  cp_symbol :: string
  cp_timeframe :: string
  cp_poll_secs :: u64

record venue_ref =
  vr_exchange_id :: string
  vr_label :: string

record cross_venue_params =
  xv_primary :: venue_ref
  xv_hedge :: venue_ref
  xv_symbol :: string
  xv_poll_secs :: u64

definition default_exchange :: string where "default_exchange = ''mock''"
definition default_timeframe :: string where "default_timeframe = ''5m''"
definition default_poll_secs :: u64 where "default_poll_secs = 30"

definition venue_proto :: "venue_ref \<Rightarrow> exchange_id" where
  "venue_proto r = mk_exchange_id (vr_exchange_id r) (vr_label r)"

definition proto_exchange_id :: "common_params \<Rightarrow> exchange_id" where
  "proto_exchange_id c = mk_exchange_id (cp_exchange_id c) (cp_label c)"

section \<open>Candle periods\<close>

datatype timeframe = S100 | S1 | M1 | M5 | M15 | M30 | H1 | H4 | D1 | W1

function trim_start :: "string \<Rightarrow> string" where
  "trim_start s = (if s = [] \<or> ws_prefix s = 0 then s else trim_start (drop (ws_prefix s) s))"
  by pat_completeness auto
termination
  by (relation "measure length") auto

declare trim_start.simps [simp del]

fun trim_end :: "string \<Rightarrow> string" where
  "trim_end [] = []"
| "trim_end (c # s) = (if is_blank (c # s) then [] else c # trim_end s)"

definition trim :: "string \<Rightarrow> string" where
  "trim s = trim_end (trim_start s)"

definition ascii_upper :: "char \<Rightarrow> char" where
  "ascii_upper c = (if 97 \<le> (of_char c :: nat) \<and> (of_char c :: nat) \<le> 122 then char_of (of_char c - 32 :: nat) else c)"

definition to_ascii_uppercase :: "string \<Rightarrow> string" where
  "to_ascii_uppercase s = map ascii_upper s"

definition timeframe_spellings :: "(string \<times> timeframe) list" where
  "timeframe_spellings =
     [(''1M'', M1), (''M1'', M1), (''5M'', M5), (''M5'', M5), (''15M'', M15), (''M15'', M15),
      (''30M'', M30), (''M30'', M30), (''1H'', H1), (''H1'', H1), (''4H'', H4), (''H4'', H4),
      (''1D'', D1), (''D1'', D1), (''1W'', W1), (''W1'', W1), (''1S'', S1), (''S1'', S1),
      (''100S'', S100), (''S100'', S100)]"

text \<open>The text of the error is given up to the escapes of the quoted spelling.\<close>

definition unsupported_timeframe :: "string \<Rightarrow> port_error" where
  "unsupported_timeframe t = InvalidArgument (''unsupported timeframe '' @ [CHR 0x22] @ t @ [CHR 0x22] @
     '' (supported: S1/S100/M1/M5/M15/M30/H1/H4/D1/W1)'')"

definition timeframe_from_str :: "string \<Rightarrow> port_error + timeframe" where
  "timeframe_from_str tf =
     (let normalized = to_ascii_uppercase (trim tf)
      in case map_of timeframe_spellings normalized of
           Some t \<Rightarrow> Inr t
         | None \<Rightarrow> Inl (unsupported_timeframe normalized))"

section \<open>Reading the market\<close>

text \<open>The methods of the market data port the strategies poll; the number is the page limit.\<close>

record 'v market_data_source =
  mds_fetch_ticker :: "'v \<Rightarrow> exchange_id \<Rightarrow> string \<Rightarrow> (port_error + ticker) \<times> 'v"
  mds_fetch_order_book :: "'v \<Rightarrow> exchange_id \<Rightarrow> string \<Rightarrow> nat \<Rightarrow> (port_error + order_book) \<times> 'v"
  mds_get_candles :: "'v \<Rightarrow> exchange_id \<Rightarrow> string \<Rightarrow> timeframe \<Rightarrow> nat \<Rightarrow> (port_error + candle list) \<times> 'v"

definition fetch_candles ::
  "'v market_data_source \<Rightarrow> exchange_id \<Rightarrow> string \<Rightarrow> string \<Rightarrow> u32 \<Rightarrow> 'v \<Rightarrow> (port_error + candle list) \<times> 'v" where
  "fetch_candles m ex symbol tf limit v = (case timeframe_from_str tf of
       Inl e \<Rightarrow> (Inl e, v)
     | Inr t \<Rightarrow> mds_get_candles m v ex symbol t (unat limit))"

definition closes_of :: "'d decimal_api \<Rightarrow> candle list \<Rightarrow> 'd list" where
  "closes_of D candles = List.map_filter (\<lambda>c. case cd_close c of
       None \<Rightarrow> None
     | Some w \<Rightarrow> (case common_to_decimal (d_parse D) w of Inl _ \<Rightarrow> None | Inr p \<Rightarrow> Some p)) candles"

definition fetch_closes_of ::
  "'d decimal_api \<Rightarrow> 'v market_data_source \<Rightarrow> exchange_id \<Rightarrow> string \<Rightarrow> string \<Rightarrow> 'v \<Rightarrow> (port_error + 'd list) \<times> 'v" where
  "fetch_closes_of D m ex symbol tf v = (case fetch_candles m ex symbol tf 200 v of
       (Inl e, v) \<Rightarrow> (Inl e, v)
     | (Inr candles, v) \<Rightarrow> (Inr (closes_of D candles), v))"

text \<open>
  The reading of the last price that the executors repeat: a malformed decimal is an error, an
  absent or non-positive one falls through to the final message.
\<close>

datatype strategy_error = PortFailure port_error | Conversion decimal_convert_error | Bail string

definition last_price ::
  "'d decimal_api \<Rightarrow> 'v market_data_source \<Rightarrow> common_params \<Rightarrow> string \<Rightarrow> 'v \<Rightarrow> (strategy_error + 'd) \<times> 'v" where
  "last_price D m c message v =
     (case mds_fetch_ticker m v (proto_exchange_id c) (cp_symbol c) of
        (Inl e, v) \<Rightarrow> (Inl (PortFailure e), v)
      | (Inr t, v) \<Rightarrow> ((case tk_last t of
            None \<Rightarrow> Inl (Bail message)
          | Some w \<Rightarrow> (case common_to_decimal (d_parse D) w of
              Inl e \<Rightarrow> Inl (Conversion e)
            | Inr p \<Rightarrow> if d_gt D p (d_zero D) then Inr p else Inl (Bail message))), v))"

lemma last_price_positive: "last_price D m c message v = (Inr p, v') \<Longrightarrow> d_gt D p (d_zero D)"
  by (auto simp: last_price_def split: prod.splits sum.splits option.splits if_splits)

section \<open>Candle periods are never guessed\<close>

lemma timeframe_ok_iff:
  "timeframe_from_str tf = Inr t \<longleftrightarrow> map_of timeframe_spellings (to_ascii_uppercase (trim tf)) = Some t"
  by (simp add: timeframe_from_str_def Let_def split: option.splits)

text \<open>The market is not asked for candles when the period is not one the contract has.\<close>

lemma unknown_timeframe_reads_nothing:
  "map_of timeframe_spellings (to_ascii_uppercase (trim tf)) = None \<Longrightarrow>
     fetch_candles m ex symbol tf limit v = (Inl (unsupported_timeframe (to_ascii_uppercase (trim tf))), v)"
  by (simp add: fetch_candles_def timeframe_from_str_def Let_def)

section \<open>Strategies that poll\<close>

text \<open>
  What a strategy is built from: its two ports, the decimal type and the ULID generator, a
  function of the number of ids drawn so far.
\<close>

record ('v, 'm, 'd) strategy_ports =
  sp_gateway :: "('v, 'm) trading_gateway"
  sp_market :: "'v market_data_source"
  sp_decimal :: "'d decimal_api"
  sp_ulid :: "nat \<Rightarrow> string"

text \<open>
  The run loop the executors share: it returns when the executor is done, logs the error of a
  poll and goes on, and dies with a panic (the answer \<open>None\<close> of a poll).  The list holds the clock
  in seconds at each poll.
\<close>

datatype run_end = Returned | Polling | Panicked

fun run_loop ::
  "('s \<Rightarrow> bool) \<Rightarrow> (u64 \<Rightarrow> 's \<Rightarrow> (strategy_error + unit) option \<times> 's) \<Rightarrow> u64 list \<Rightarrow> 's \<Rightarrow> run_end \<times> 's" where
  "run_loop finished tick [] s = (if finished s then Returned else Polling, s)"
| "run_loop finished tick (now # nows) s =
     (if finished s then (Returned, s)
      else case tick now s of
          (None, s) \<Rightarrow> (Panicked, s)
        | (Some _, s) \<Rightarrow> run_loop finished tick nows s)"

text \<open>Polls at any time, interleaved with anything the venue and the market do.\<close>

inductive poll_move ::
  "(u64 \<Rightarrow> 's \<Rightarrow> (strategy_error + unit) option \<times> 's) \<Rightarrow> ('s \<Rightarrow> 's \<Rightarrow> bool) \<Rightarrow> 's \<Rightarrow> 's \<Rightarrow> bool"
  for tick world where
  Tick: "tick now s = (r, s') \<Longrightarrow> poll_move tick world s s'"
| World: "world s s' \<Longrightarrow> poll_move tick world s s'"

inductive_cases poll_moveE: "poll_move tick world s s'"

locale polled_strategy =
  fixes tick :: "u64 \<Rightarrow> 's \<Rightarrow> (strategy_error + unit) option \<times> 's" and world :: "'s \<Rightarrow> 's \<Rightarrow> bool"
    and start :: "'s \<Rightarrow> bool" and inv :: "'s \<Rightarrow> bool"
  assumes start_inv: "start s \<Longrightarrow> inv s"
    and tick_inv: "inv s \<Longrightarrow> inv (snd (tick now s))"
    and world_inv: "inv s \<Longrightarrow> world s s' \<Longrightarrow> inv s'"
begin

lemma move_inv: "inv s \<Longrightarrow> poll_move tick world s s' \<Longrightarrow> inv s'"
  using tick_inv by (metis poll_moveE snd_conv world_inv)

lemma run_inv: "inv s \<Longrightarrow> inv (snd (run_loop finished tick nows s))"
proof (induction nows arbitrary: s)
  case (Cons now nows)
  then show ?case using tick_inv [OF Cons.prems, of now] by (auto split: prod.splits option.splits)
qed simp

end

sublocale polled_strategy \<subseteq> polls: invariant_system start "poll_move tick world" inv
  by unfold_locales (auto intro: start_inv move_inv)

section \<open>Reads on the recording venue\<close>

text \<open>The market reads of a venue that also carries the log of create requests.\<close>

definition recording_market :: "'v market_data_source \<Rightarrow> ('v \<times> create_order_request list) market_data_source" where
  "recording_market m =
     \<lparr>mds_fetch_ticker = (\<lambda>(v, log) ex s. let (r, v) = mds_fetch_ticker m v ex s in (r, v, log)),
      mds_fetch_order_book = (\<lambda>(v, log) ex s n. let (r, v) = mds_fetch_order_book m v ex s n in (r, v, log)),
      mds_get_candles = (\<lambda>(v, log) ex s t n. let (r, v) = mds_get_candles m v ex s t n in (r, v, log))\<rparr>"

definition recording_ports ::
  "('v, 'm, 'd) strategy_ports \<Rightarrow> ('v \<times> create_order_request list, 'm, 'd) strategy_ports" where
  "recording_ports P =
     \<lparr>sp_gateway = recording (sp_gateway P), sp_market = recording_market (sp_market P),
      sp_decimal = sp_decimal P, sp_ulid = sp_ulid P\<rparr>"

lemma recording_ports_simps [simp]:
  "sp_gateway (recording_ports P) = recording (sp_gateway P)"
  "sp_market (recording_ports P) = recording_market (sp_market P)"
  "sp_decimal (recording_ports P) = sp_decimal P" "sp_ulid (recording_ports P) = sp_ulid P"
  by (simp_all add: recording_ports_def)

lemma recorded_reads [simp]:
  "snd (snd (mds_fetch_ticker (recording_market m) vl ex s)) = snd vl"
  "snd (snd (mds_fetch_order_book (recording_market m) vl ex s n)) = snd vl"
  "snd (snd (mds_get_candles (recording_market m) vl ex s t n)) = snd vl"
  by (simp_all add: recording_market_def split: prod.splits)

lemma recorded_create [simp]:
  "snd (snd (gw_create_order (recording gw) vl req)) = snd vl @ [req]"
  by (simp add: recording_def split: prod.splits)

lemma recorded_last_price [simp]: "snd (snd (last_price D (recording_market m) c message vl)) = snd vl"
proof -
  obtain r v log where t: "mds_fetch_ticker (recording_market m) vl (proto_exchange_id c) (cp_symbol c) = (r, v, log)"
    by (cases "mds_fetch_ticker (recording_market m) vl (proto_exchange_id c) (cp_symbol c)") auto
  then have "log = snd vl" using recorded_reads(1) [of m vl "proto_exchange_id c" "cp_symbol c"] by simp
  then show ?thesis using t by (cases r) (simp_all add: last_price_def)
qed

end
