(* ===== verification/Executors.thy ===== *)
theory Executors
  imports Strategy_Params Indicator_Bounds
begin

text \<open>
  The order executors: TWAP (equal slices over time), VWAP (slices in proportion to the displayed
  book) and DCA (levels at better prices with exit barriers).  A poll answers \<open>None\<close> when decimal
  arithmetic panics.
\<close>

section \<open>TWAP\<close>

record 'd twap_config =
  tw_common :: common_params
  tw_total_amount :: 'd
  tw_duration_secs :: u64
  tw_num_orders :: u32
  tw_is_buy :: bool
  tw_is_maker :: bool
  tw_limit_buffer :: 'd

record 'd twap_step =
  tp_index :: nat
  tp_amount :: 'd
  tp_interval_secs :: 'd

definition plan_twap :: "'d decimal_api \<Rightarrow> 'd \<Rightarrow> u32 \<Rightarrow> u64 \<Rightarrow> 'd twap_step list option option" where
  "plan_twap D total_amount num_orders duration_secs =
     (if \<not> d_gt D total_amount (d_zero D) \<or> num_orders = 0 \<or> duration_secs = 0 then Some None
      else do {
        amount_per_order \<leftarrow> d_div D total_amount (d_of_int D (uint num_orders));
        interval \<leftarrow> d_div D (d_of_int D (uint duration_secs)) (d_of_int D (uint num_orders));
        Some (Some (map (\<lambda>i. \<lparr>tp_index = i, tp_amount = amount_per_order, tp_interval_secs = interval\<rparr>)
                     [0..<unat num_orders]))
      })"

datatype twap_status = TwapActive | TwapComplete

record 'v twap_state =
  ts_state :: twap_status
  ts_next_index :: u32
  ts_next_time :: u64
  ts_venue :: 'v
  ts_ulids :: nat

definition twap_new :: "'v \<Rightarrow> nat \<Rightarrow> 'v twap_state" where
  "twap_new v n = \<lparr>ts_state = TwapActive, ts_next_index = 0, ts_next_time = 0, ts_venue = v, ts_ulids = n\<rparr>"

definition twap_current_mid ::
  "('v, 'm, 'd) strategy_ports \<Rightarrow> 'd twap_config \<Rightarrow> 'v \<Rightarrow> (strategy_error + 'd) \<times> 'v" where
  "twap_current_mid P cfg = last_price (sp_decimal P) (sp_market P) (tw_common cfg) ''no usable mid''"

text \<open>A maker quotes inside the book by the buffer, a taker five percent through it.\<close>

definition twap_price :: "'d decimal_api \<Rightarrow> 'd twap_config \<Rightarrow> 'd \<Rightarrow> 'd option" where
  "twap_price D cfg mid =
     (if tw_is_maker cfg
      then if tw_is_buy cfg then Option.bind (d_sub D (d_one D) (tw_limit_buffer cfg)) (d_mul D mid)
           else Option.bind (d_add D (d_one D) (tw_limit_buffer cfg)) (d_mul D mid)
      else if tw_is_buy cfg then Option.bind (d_add D (d_one D) (d_new D 5 2)) (d_mul D mid)
           else Option.bind (d_sub D (d_one D) (d_new D 5 2)) (d_mul D mid))"

definition twap_coid :: "(nat \<Rightarrow> string) \<Rightarrow> u32 \<Rightarrow> nat \<Rightarrow> string" where
  "twap_coid ulid i n = ''twap-'' @ nat_to_string (unat i) @ ''-'' @ ulid n"

definition twap_tick ::
  "('v, 'm, 'd) strategy_ports \<Rightarrow> 'd twap_config \<Rightarrow> u64 \<Rightarrow> 'v twap_state
   \<Rightarrow> (strategy_error + unit) option \<times> 'v twap_state" where
  "twap_tick P cfg now s =
     (if ts_state s = TwapComplete then (Some (Inr ()), s)
      else if ts_next_index s \<ge> tw_num_orders cfg then (Some (Inr ()), s\<lparr>ts_state := TwapComplete\<rparr>)
      else if now < ts_next_time s then (Some (Inr ()), s)
      else case d_div (sp_decimal P) (tw_total_amount cfg) (d_of_int (sp_decimal P) (uint (tw_num_orders cfg))) of
          None \<Rightarrow> (None, s)
        | Some step_amount \<Rightarrow>
            let coid = twap_coid (sp_ulid P) (ts_next_index s) (ts_ulids s); s = s\<lparr>ts_ulids := Suc (ts_ulids s)\<rparr>
            in case twap_current_mid P cfg (ts_venue s) of
                (Inl e, v) \<Rightarrow> (Some (Inl e), s\<lparr>ts_venue := v\<rparr>)
              | (Inr mid, v) \<Rightarrow> (case twap_price (sp_decimal P) cfg mid of
                    None \<Rightarrow> (None, s\<lparr>ts_venue := v\<rparr>)
                  | Some price \<Rightarrow>
                      let req = limit_order (sp_decimal P) (proto_exchange_id (tw_common cfg)) (cp_symbol (tw_common cfg))
                            coid (tw_is_buy cfg) price step_amount
                      in (Some (Inr ()),
                          s\<lparr>ts_venue := snd (gw_create_order (sp_gateway P) v req),
                            ts_next_index := ts_next_index s + 1,
                            ts_next_time := now + tw_duration_secs cfg div ucast (tw_num_orders cfg)\<rparr>)))"

definition twap_run ::
  "('v, 'm, 'd) strategy_ports \<Rightarrow> 'd twap_config \<Rightarrow> u64 list \<Rightarrow> 'v twap_state \<Rightarrow> run_end \<times> 'v twap_state" where
  "twap_run P cfg = run_loop (\<lambda>s. ts_state s = TwapComplete) (twap_tick P cfg)"

section \<open>VWAP\<close>

record 'd vwap_config =
  vw_common :: common_params
  vw_total_amount :: 'd
  vw_price_spread :: 'd
  vw_volume_perc :: 'd
  vw_order_delay_secs :: u64
  vw_is_buy :: bool

record 'd vwap_order =
  vo_price :: 'd
  vo_amount :: 'd

fun vwap_loop ::
  "'d decimal_api \<Rightarrow> 'd \<Rightarrow> 'd \<Rightarrow> 'd \<Rightarrow> 'd \<Rightarrow> ('d \<times> 'd) list \<Rightarrow> 'd vwap_order list option" where
  "vwap_loop D mid cap volume_perc remaining [] = Some []"
| "vwap_loop D mid cap volume_perc remaining ((price, volume) # levels) = do {
     diff \<leftarrow> d_sub D price mid;
     if d_gt D (d_abs D diff) cap then vwap_loop D mid cap volume_perc remaining levels
     else do {
       amount \<leftarrow> d_mul D volume volume_perc;
       if \<not> d_gt D amount (d_zero D) then vwap_loop D mid cap volume_perc remaining levels
       else do {
         let actual = d_min D amount remaining;
         left \<leftarrow> d_sub D remaining actual;
         rest \<leftarrow> (if \<not> d_gt D left (d_zero D) then Some [] else vwap_loop D mid cap volume_perc left levels);
         Some (\<lparr>vo_price = price, vo_amount = actual\<rparr> # rest)
       }
     }
   }"

definition plan_vwap_orders ::
  "'d decimal_api \<Rightarrow> 'd \<Rightarrow> 'd \<Rightarrow> 'd \<Rightarrow> 'd \<Rightarrow> ('d \<times> 'd) list \<Rightarrow> 'd vwap_order list option option" where
  "plan_vwap_orders D mid price_spread volume_perc total_amount levels =
     (if \<not> d_gt D mid (d_zero D) \<or> d_gt D (d_zero D) price_spread \<or> \<not> d_gt D volume_perc (d_zero D) then Some None
      else do {
        cap \<leftarrow> d_mul D mid price_spread;
        orders \<leftarrow> vwap_loop D mid cap volume_perc total_amount levels;
        Some (if orders = [] then None else Some orders)
      })"

record ('v, 'd) vwap_state =
  vs_remaining :: 'd
  vs_last_order :: u64
  vs_venue :: 'v
  vs_ulids :: nat

definition vwap_new :: "'d vwap_config \<Rightarrow> 'v \<Rightarrow> nat \<Rightarrow> ('v, 'd) vwap_state" where
  "vwap_new cfg v n = \<lparr>vs_remaining = vw_total_amount cfg, vs_last_order = 0, vs_venue = v, vs_ulids = n\<rparr>"

definition vwap_current_mid ::
  "('v, 'm, 'd) strategy_ports \<Rightarrow> 'd vwap_config \<Rightarrow> 'v \<Rightarrow> (strategy_error + 'd) \<times> 'v" where
  "vwap_current_mid P cfg = last_price (sp_decimal P) (sp_market P) (vw_common cfg) ''no usable mid''"

text \<open>Both sides of the book in one list; a level with an absent or unusable value is skipped.\<close>

definition book_level :: "'d decimal_api \<Rightarrow> price_level \<Rightarrow> ('d \<times> 'd) option" where
  "book_level D l = do {
     pw \<leftarrow> pl_price l; aw \<leftarrow> pl_amount l;
     case (common_to_decimal (d_parse D) pw, common_to_decimal (d_parse D) aw) of
       (Inr p, Inr a) \<Rightarrow> if d_gt D p (d_zero D) \<and> d_gt D a (d_zero D) then Some (p, a) else None
     | _ \<Rightarrow> None
   }"

definition fetch_book_levels ::
  "('v, 'm, 'd) strategy_ports \<Rightarrow> 'd vwap_config \<Rightarrow> 'v \<Rightarrow> (strategy_error + ('d \<times> 'd) list) \<times> 'v" where
  "fetch_book_levels P cfg v =
     (case mds_fetch_order_book (sp_market P) v (proto_exchange_id (vw_common cfg)) (cp_symbol (vw_common cfg)) 20 of
        (Inl e, v) \<Rightarrow> (Inl (PortFailure e), v)
      | (Inr book, v) \<Rightarrow> (Inr (List.map_filter (book_level (sp_decimal P)) (ob_bids book @ ob_asks book)), v))"

text \<open>The child orders one after another; the answer says whether a subtraction panicked.\<close>

fun vwap_place ::
  "('v, 'm, 'd) strategy_ports \<Rightarrow> 'd vwap_config \<Rightarrow> 'd vwap_order list \<Rightarrow> ('v, 'd) vwap_state \<Rightarrow> bool \<times> ('v, 'd) vwap_state" where
  "vwap_place P cfg [] s = (True, s)"
| "vwap_place P cfg (ord # ords) s =
     (let req = limit_order (sp_decimal P) (proto_exchange_id (vw_common cfg)) (cp_symbol (vw_common cfg))
            (''vwap-'' @ sp_ulid P (vs_ulids s)) (vw_is_buy cfg) (vo_price ord) (vo_amount ord);
          s = s\<lparr>vs_ulids := Suc (vs_ulids s), vs_venue := snd (gw_create_order (sp_gateway P) (vs_venue s) req)\<rparr>
      in case d_sub (sp_decimal P) (vs_remaining s) (vo_amount ord) of
          None \<Rightarrow> (False, s)
        | Some left \<Rightarrow> vwap_place P cfg ords (s\<lparr>vs_remaining := left\<rparr>))"

definition vwap_tick ::
  "('v, 'm, 'd) strategy_ports \<Rightarrow> 'd vwap_config \<Rightarrow> u64 \<Rightarrow> ('v, 'd) vwap_state
   \<Rightarrow> (strategy_error + unit) option \<times> ('v, 'd) vwap_state" where
  "vwap_tick P cfg now s =
     (let D = sp_decimal P
      in if \<not> d_gt D (vs_remaining s) (d_zero D) then (Some (Inr ()), s)
         else if now < vs_last_order s + vw_order_delay_secs cfg then (Some (Inr ()), s)
         else case vwap_current_mid P cfg (vs_venue s) of
             (Inl e, v) \<Rightarrow> (Some (Inl e), s\<lparr>vs_venue := v\<rparr>)
           | (Inr mid, v) \<Rightarrow> (case fetch_book_levels P cfg v of
               (Inl e, v) \<Rightarrow> (Some (Inl e), s\<lparr>vs_venue := v\<rparr>)
             | (Inr levels, v) \<Rightarrow>
                 let s = s\<lparr>vs_venue := v\<rparr>
                 in case plan_vwap_orders D mid (vw_price_spread cfg) (vw_volume_perc cfg) (vs_remaining s) levels of
                     None \<Rightarrow> (None, s)
                   | Some None \<Rightarrow> (Some (Inr ()), s)
                   | Some (Some ords) \<Rightarrow> (case vwap_place P cfg ords s of
                       (False, s) \<Rightarrow> (None, s)
                     | (True, s) \<Rightarrow> (Some (Inr ()), s\<lparr>vs_last_order := now\<rparr>))))"

definition vwap_run ::
  "('v, 'm, 'd) strategy_ports \<Rightarrow> 'd vwap_config \<Rightarrow> u64 list \<Rightarrow> ('v, 'd) vwap_state \<Rightarrow> run_end \<times> ('v, 'd) vwap_state" where
  "vwap_run P cfg =
     run_loop (\<lambda>s. \<not> d_gt (sp_decimal P) (vs_remaining s) (d_zero (sp_decimal P))) (vwap_tick P cfg)"

section \<open>DCA\<close>

record 'd dca_config =
  dc_common :: common_params
  dc_prices :: "'d list"
  dc_amounts_quote :: "'d list"
  dc_is_buy :: bool
  dc_is_maker :: bool
  dc_stop_loss :: 'd
  dc_take_profit :: 'd
  dc_trailing_activation :: 'd
  dc_trailing_delta :: 'd

datatype dca_status = DcaActive | DcaComplete | DcaStopLoss | DcaTakeProfit | DcaTrailingStop

text \<open>The base bought at each level; a level at price zero counts nothing.\<close>

fun base_amounts :: "'d decimal_api \<Rightarrow> ('d \<times> 'd) list \<Rightarrow> 'd list option" where
  "base_amounts D [] = Some []"
| "base_amounts D ((amt, price) # rows) = do {
     b \<leftarrow> (if d_is_zero D price then Some (d_zero D) else d_div D amt price);
     bs \<leftarrow> base_amounts D rows;
     Some (b # bs)
   }"

definition average_entry_price :: "'d decimal_api \<Rightarrow> 'd list \<Rightarrow> 'd list \<Rightarrow> 'd option option" where
  "average_entry_price D amounts_quote prices =
     (if length amounts_quote \<noteq> length prices \<or> amounts_quote = [] then Some None
      else do {
        total_quote \<leftarrow> try_sum D (d_zero D) amounts_quote;
        if d_is_zero D total_quote then Some None
        else do {
          bases \<leftarrow> base_amounts D (zip amounts_quote prices);
          total_base \<leftarrow> try_sum D (d_zero D) bases;
          if d_is_zero D total_base then Some None
          else map_option Some (d_div D total_quote total_base)
        }
      })"

definition dca_pnl_fraction :: "'d decimal_api \<Rightarrow> 'd \<Rightarrow> 'd \<Rightarrow> bool \<Rightarrow> 'd option option" where
  "dca_pnl_fraction D average_entry current is_buy =
     (if \<not> d_gt D average_entry (d_zero D) \<or> \<not> d_gt D current (d_zero D) then Some None
      else do {
        gain \<leftarrow> (if is_buy then d_sub D current average_entry else d_sub D average_entry current);
        map_option Some (d_div D gain average_entry)
      })"

definition level_activated :: "'d decimal_api \<Rightarrow> 'd \<Rightarrow> 'd \<Rightarrow> bool \<Rightarrow> bool" where
  "level_activated D level_price current is_buy =
     (if is_buy then \<not> d_gt D current level_price else \<not> d_gt D level_price current)"

record ('v, 'd) dca_state =
  ds_state :: dca_status
  ds_placed :: "bool list"
  ds_peak_pnl :: 'd
  ds_venue :: 'v
  ds_ulids :: nat

definition dca_new :: "'d decimal_api \<Rightarrow> 'v \<Rightarrow> nat \<Rightarrow> ('v, 'd) dca_state" where
  "dca_new D v n =
     \<lparr>ds_state = DcaActive, ds_placed = [], ds_peak_pnl = d_zero D, ds_venue = v, ds_ulids = n\<rparr>"

definition dca_current_price ::
  "('v, 'm, 'd) strategy_ports \<Rightarrow> 'd dca_config \<Rightarrow> 'v \<Rightarrow> (strategy_error + 'd) \<times> 'v" where
  "dca_current_price P cfg = last_price (sp_decimal P) (sp_market P) (dc_common cfg) ''no usable price''"

text \<open>
  The loop over the levels from index \<open>i\<close> on.  A level is marked as placed whether or not its
  order was accepted; the division by its price may panic, and so may the index when more
  amounts than flags were given, which cannot happen as the list is cut to the prices.
\<close>

fun dca_place ::
  "('v, 'm, 'd) strategy_ports \<Rightarrow> 'd dca_config \<Rightarrow> 'd \<Rightarrow> nat \<Rightarrow> ('d \<times> 'd) list \<Rightarrow> ('v, 'd) dca_state
   \<Rightarrow> bool \<times> ('v, 'd) dca_state" where
  "dca_place P cfg current i [] s = (True, s)"
| "dca_place P cfg current i ((price, amount) # levels) s =
     (if i \<ge> length (ds_placed s) then (False, s)
      else if ds_placed s ! i \<or> \<not> level_activated (sp_decimal P) price current (dc_is_buy cfg)
      then dca_place P cfg current (Suc i) levels s
      else (let coid = ''dca-'' @ nat_to_string i @ ''-'' @ sp_ulid P (ds_ulids s) @ ''-0'';
                s = s\<lparr>ds_ulids := Suc (ds_ulids s)\<rparr>
            in case d_div (sp_decimal P) amount price of
                None \<Rightarrow> (False, s)
              | Some qty \<Rightarrow>
                  let req = limit_order (sp_decimal P) (proto_exchange_id (dc_common cfg)) (cp_symbol (dc_common cfg))
                        coid (dc_is_buy cfg) (if dc_is_maker cfg then price else current) qty
                  in dca_place P cfg current (Suc i) levels
                       (s\<lparr>ds_venue := snd (gw_create_order (sp_gateway P) (ds_venue s) req),
                          ds_placed := (ds_placed s)[i := True]\<rparr>)))"

text \<open>The barriers in the order of the code; the answer \<open>None\<close> is a panic of the last comparison.\<close>

definition dca_barrier :: "'d decimal_api \<Rightarrow> 'd dca_config \<Rightarrow> 'd \<Rightarrow> 'd \<Rightarrow> dca_status option" where
  "dca_barrier D cfg pnl peak =
     (if d_gt D (dc_stop_loss cfg) (d_zero D) \<and> \<not> d_gt D pnl (d_neg D (dc_stop_loss cfg)) then Some DcaStopLoss
      else if d_gt D (dc_take_profit cfg) (d_zero D) \<and> \<not> d_gt D (dc_take_profit cfg) pnl then Some DcaTakeProfit
      else if d_gt D (dc_trailing_activation cfg) (d_zero D) \<and> \<not> d_gt D (dc_trailing_activation cfg) peak
      then map_option (\<lambda>floor. if d_gt D floor pnl then DcaTrailingStop else DcaActive) (d_sub D peak (dc_trailing_delta cfg))
      else Some DcaActive)"

definition dca_check ::
  "'d decimal_api \<Rightarrow> 'd dca_config \<Rightarrow> 'd \<Rightarrow> ('v, 'd) dca_state \<Rightarrow> (strategy_error + unit) option \<times> ('v, 'd) dca_state" where
  "dca_check D cfg current s =
     (case average_entry_price D (dc_amounts_quote cfg) (dc_prices cfg) of
        None \<Rightarrow> (None, s)
      | Some None \<Rightarrow> (Some (Inr ()), s)
      | Some (Some avg_entry) \<Rightarrow> (case dca_pnl_fraction D avg_entry current (dc_is_buy cfg) of
            None \<Rightarrow> (None, s)
          | Some fraction \<Rightarrow>
              let pnl = (case fraction of None \<Rightarrow> d_zero D | Some p \<Rightarrow> p);
                  s = (if d_gt D pnl (ds_peak_pnl s) then s\<lparr>ds_peak_pnl := pnl\<rparr> else s)
              in case dca_barrier D cfg pnl (ds_peak_pnl s) of
                  None \<Rightarrow> (None, s)
                | Some status \<Rightarrow> (Some (Inr ()), s\<lparr>ds_state := status\<rparr>)))"

definition dca_tick ::
  "('v, 'm, 'd) strategy_ports \<Rightarrow> 'd dca_config \<Rightarrow> u64 \<Rightarrow> ('v, 'd) dca_state
   \<Rightarrow> (strategy_error + unit) option \<times> ('v, 'd) dca_state" where
  "dca_tick P cfg now s =
     (if ds_state s \<noteq> DcaActive then (Some (Inr ()), s)
      else let s = (if length (ds_placed s) \<noteq> length (dc_prices cfg)
                    then s\<lparr>ds_placed := map (\<lambda>_. False) (dc_prices cfg)\<rparr> else s)
           in case dca_current_price P cfg (ds_venue s) of
               (Inl e, v) \<Rightarrow> (Some (Inl e), s\<lparr>ds_venue := v\<rparr>)
             | (Inr current, v) \<Rightarrow>
                 (case dca_place P cfg current 0 (zip (dc_prices cfg) (dc_amounts_quote cfg)) (s\<lparr>ds_venue := v\<rparr>) of
                    (False, s) \<Rightarrow> (None, s)
                  | (True, s) \<Rightarrow> dca_check (sp_decimal P) cfg current s))"

definition dca_run ::
  "('v, 'm, 'd) strategy_ports \<Rightarrow> 'd dca_config \<Rightarrow> u64 list \<Rightarrow> ('v, 'd) dca_state \<Rightarrow> run_end \<times> ('v, 'd) dca_state" where
  "dca_run P cfg = run_loop (\<lambda>s. ds_state s \<noteq> DcaActive) (dca_tick P cfg)"

end
