(* ===== verification/Executor_Safety.thy ===== *)
theory Executor_Safety
  imports Executors
begin

text \<open>
  What the executors guarantee: a TWAP asks for one slice per slot and ends after its last slot, a
  VWAP never asks for more than its total, a DCA asks for each level at most once and its average
  entry lies between the level prices.
\<close>

section \<open>TWAP\<close>

definition twap_slice :: "('v, 'm, 'd) strategy_ports \<Rightarrow> 'd twap_config \<Rightarrow> nat \<Rightarrow> create_order_request \<Rightarrow> bool" where
  "twap_slice P cfg i req \<longleftrightarrow> (\<exists>n mid price amount. d_gt (sp_decimal P) mid (d_zero (sp_decimal P))
     \<and> twap_price (sp_decimal P) cfg mid = Some price
     \<and> d_div (sp_decimal P) (tw_total_amount cfg) (d_of_int (sp_decimal P) (uint (tw_num_orders cfg))) = Some amount
     \<and> req = limit_order (sp_decimal P) (proto_exchange_id (tw_common cfg)) (cp_symbol (tw_common cfg))
               (''twap-'' @ nat_to_string i @ ''-'' @ sp_ulid P n) (tw_is_buy cfg) price amount)"

definition twap_inv ::
  "('v, 'm, 'd) strategy_ports \<Rightarrow> 'd twap_config \<Rightarrow> ('v \<times> create_order_request list) twap_state \<Rightarrow> bool" where
  "twap_inv P cfg s \<longleftrightarrow> length (snd (ts_venue s)) = unat (ts_next_index s) \<and> ts_next_index s \<le> tw_num_orders cfg
     \<and> (\<forall>i < length (snd (ts_venue s)). twap_slice P cfg i (snd (ts_venue s) ! i))
     \<and> (ts_state s = TwapComplete \<longrightarrow> ts_next_index s = tw_num_orders cfg)"

lemma unat_suc_le: "(a :: u32) < b \<Longrightarrow> unat (a + 1) = Suc (unat a) \<and> a + 1 \<le> b"
proof -
  assume "a < b"
  then have "unat a < unat b" "unat b < 2 ^ 32" using unsigned_less [of b] by (simp_all add: word_less_nat_alt)
  then show ?thesis by (simp add: word_le_nat_alt unat_word_ariths)
qed

lemma twap_tick_inv:
  assumes "twap_inv P cfg s"
  shows "twap_inv P cfg (snd (twap_tick (recording_ports P) cfg now s))"
proof (cases "ts_state s = TwapComplete \<or> ts_next_index s \<ge> tw_num_orders cfg \<or> now < ts_next_time s
    \<or> d_div (sp_decimal P) (tw_total_amount cfg) (d_of_int (sp_decimal P) (uint (tw_num_orders cfg))) = None")
  case True
  then show ?thesis using assms by (auto simp: twap_tick_def twap_inv_def Let_def split: option.splits)
next
  case False
  then obtain amount where "d_div (sp_decimal P) (tw_total_amount cfg) (d_of_int (sp_decimal P) (uint (tw_num_orders cfg))) = Some amount"
    by blast
  note live = this False
  obtain r v log where m: "twap_current_mid (recording_ports P) cfg (ts_venue s) = (r, v, log)"
    by (cases "twap_current_mid (recording_ports P) cfg (ts_venue s)") auto
  have log: "log = snd (ts_venue s)"
    using m recorded_last_price [of "sp_decimal P" "sp_market P" "tw_common cfg" "''no usable mid''" "ts_venue s"]
    by (simp add: twap_current_mid_def)
  show ?thesis
  proof (cases r)
    case (Inl e)
    then show ?thesis using assms live m log by (auto simp: twap_tick_def twap_inv_def Let_def)
  next
    case (Inr mid)
    have mid: "d_gt (sp_decimal P) mid (d_zero (sp_decimal P))"
      using m Inr by (auto simp: twap_current_mid_def dest: last_price_positive)
    show ?thesis
    proof (cases "twap_price (sp_decimal P) cfg mid")
      case None
      then show ?thesis using assms live m log Inr by (auto simp: twap_tick_def twap_inv_def Let_def)
    next
      case (Some price)
      let ?req = "limit_order (sp_decimal P) (proto_exchange_id (tw_common cfg)) (cp_symbol (tw_common cfg))
        (twap_coid (sp_ulid P) (ts_next_index s) (ts_ulids s)) (tw_is_buy cfg) price amount"
      have slice: "twap_slice P cfg (unat (ts_next_index s)) ?req"
        using mid Some live(1) unfolding twap_slice_def twap_coid_def by blast
      have idx: "unat (ts_next_index s + 1) = Suc (unat (ts_next_index s)) \<and> ts_next_index s + 1 \<le> tw_num_orders cfg"
        using unat_suc_le [of "ts_next_index s" "tw_num_orders cfg"] live(2) by (simp add: not_le)
      show ?thesis
        using assms live m log Inr Some slice idx
        by (auto simp: twap_tick_def twap_inv_def Let_def nth_append less_Suc_eq)
    qed
  qed
qed

definition venue_changes :: "('s \<Rightarrow> 'v \<times> create_order_request list) \<Rightarrow> (('v \<times> create_order_request list) \<Rightarrow> 's \<Rightarrow> 's)
    \<Rightarrow> 's \<Rightarrow> 's \<Rightarrow> bool" where
  "venue_changes venue_of set_venue s s' \<longleftrightarrow> (\<exists>w. s' = set_venue (w, snd (venue_of s)) s)"

interpretation twap: polled_strategy "twap_tick (recording_ports P) cfg"
  "venue_changes ts_venue (\<lambda>v. ts_venue_update (\<lambda>_. v))" "\<lambda>s. \<exists>v n. s = twap_new (v, []) n" "twap_inv P cfg"
  by unfold_locales (auto simp: twap_tick_inv, auto simp: twap_inv_def twap_new_def venue_changes_def)

text \<open>
  Over any interleaving of polls and venue changes, a TWAP executor has asked for exactly one
  limit order per slot used, never more than \<open>num_orders\<close>, in the order of the slots, each of
  \<open>total_amount / num_orders\<close>, on its side and at its price relative to a positive mid; it reports
  completion only when every slot is used.
\<close>
theorem twap_one_order_per_slot:
  assumes "reach (\<lambda>s. \<exists>v n. s = twap_new (v, []) n)
    (poll_move (twap_tick (recording_ports P) cfg) (venue_changes ts_venue (\<lambda>v. ts_venue_update (\<lambda>_. v)))) s"
  shows "length (snd (ts_venue s)) = unat (ts_next_index s) \<and> ts_next_index s \<le> tw_num_orders cfg
    \<and> (ts_state s = TwapComplete \<longrightarrow> length (snd (ts_venue s)) = unat (tw_num_orders cfg))
    \<and> (\<forall>i < length (snd (ts_venue s)). \<exists>n mid price amount. d_gt (sp_decimal P) mid (d_zero (sp_decimal P))
        \<and> twap_price (sp_decimal P) cfg mid = Some price
        \<and> d_div (sp_decimal P) (tw_total_amount cfg) (d_of_int (sp_decimal P) (uint (tw_num_orders cfg))) = Some amount
        \<and> snd (ts_venue s) ! i =
            limit_order (sp_decimal P) (proto_exchange_id (tw_common cfg)) (cp_symbol (tw_common cfg))
              (''twap-'' @ nat_to_string i @ ''-'' @ sp_ulid P n) (tw_is_buy cfg) price amount)"
  using twap.polls.inv_reach [OF assms] unfolding twap_inv_def twap_slice_def by auto

text \<open>The clock readings leave at least \<open>d\<close> seconds between two polls.\<close>

fun spaced :: "nat \<Rightarrow> u64 list \<Rightarrow> bool" where
  "spaced d (a # b # rest) = (unat a + d \<le> unat b \<and> spaced d (b # rest))"
| "spaced d _ = True"

lemma due_tick:
  assumes "ts_state s = TwapActive" and "ts_next_index s < tw_num_orders cfg" and "ts_next_time s \<le> now"
    and div: "d_div (sp_decimal P) (tw_total_amount cfg) (d_of_int (sp_decimal P) (uint (tw_num_orders cfg))) = Some amount"
    and mid: "\<And>v. \<exists>p v'. twap_current_mid P cfg v = (Inr p, v') \<and> twap_price (sp_decimal P) cfg p \<noteq> None"
  shows "\<exists>s'. twap_tick P cfg now s = (Some (Inr ()), s') \<and> ts_state s' = TwapActive
    \<and> ts_next_index s' = ts_next_index s + 1
    \<and> ts_next_time s' = now + tw_duration_secs cfg div ucast (tw_num_orders cfg)"
proof -
  obtain p v' price where "twap_current_mid P cfg (ts_venue s) = (Inr p, v')" "twap_price (sp_decimal P) cfg p = Some price"
    using mid [of "ts_venue s"] by blast
  then show ?thesis using assms(1-3) div by (simp add: twap_tick_def Let_def flip: not_le)
qed

lemma slot_time:
  assumes "unat (now :: u64) + unat (d :: u64) \<le> unat (b :: u64)"
  shows "now + d \<le> b"
proof -
  have "unat b < 2 ^ LENGTH(64)" by (rule unsigned_less)
  then have "unat now + unat d < 2 ^ 64" using assms by simp
  then show ?thesis using assms by (simp add: word_le_nat_alt unat_word_ariths)
qed

lemma twap_run_completes:
  assumes "ts_state s = TwapActive" and "ts_next_index s \<le> tw_num_orders cfg"
    and "length nows = Suc (unat (tw_num_orders cfg) - unat (ts_next_index s))"
    and "spaced (unat (tw_duration_secs cfg div ucast (tw_num_orders cfg))) nows" and "ts_next_time s \<le> hd nows"
    and div: "d_div (sp_decimal P) (tw_total_amount cfg) (d_of_int (sp_decimal P) (uint (tw_num_orders cfg))) = Some amount"
    and mid: "\<And>v. \<exists>p v'. twap_current_mid P cfg v = (Inr p, v') \<and> twap_price (sp_decimal P) cfg p \<noteq> None"
  shows "\<exists>s'. twap_run P cfg nows s = (Returned, s') \<and> ts_next_index s' = tw_num_orders cfg"
  using assms(1-5)
proof (induction nows arbitrary: s)
  case (Cons now nows)
  show ?case
  proof (cases "ts_next_index s = tw_num_orders cfg")
    case True
    then have "nows = []" using Cons.prems(3) by simp
    then show ?thesis using True Cons.prems(1) by (simp add: twap_run_def twap_tick_def)
  next
    case False
    then have lt: "ts_next_index s < tw_num_orders cfg" using Cons.prems(2) by simp
    obtain s' where s': "twap_tick P cfg now s = (Some (Inr ()), s')" "ts_state s' = TwapActive"
      "ts_next_index s' = ts_next_index s + 1"
      "ts_next_time s' = now + tw_duration_secs cfg div ucast (tw_num_orders cfg)"
      using due_tick [OF Cons.prems(1) lt _ div mid] Cons.prems(5) by auto
    have suc: "unat (ts_next_index s + 1) = Suc (unat (ts_next_index s))" "ts_next_index s + 1 \<le> tw_num_orders cfg"
      using unat_suc_le [OF lt] by auto
    have "unat (ts_next_index s) < unat (tw_num_orders cfg)" using lt by (simp add: word_less_nat_alt)
    then obtain b rest where nows: "nows = b # rest" using Cons.prems(3) by (cases nows) auto
    then have "ts_next_time s' \<le> hd nows" using Cons.prems(4) s'(4) slot_time by simp
    moreover have "length nows = Suc (unat (tw_num_orders cfg) - unat (ts_next_index s'))"
      using Cons.prems(3) s'(3) suc(1) \<open>unat (ts_next_index s) < _\<close> by simp
    ultimately obtain t where "twap_run P cfg nows s' = (Returned, t)" "ts_next_index t = tw_num_orders cfg"
      using Cons.IH [OF s'(2)] s'(3) suc(2) Cons.prems(4) nows by auto
    then show ?thesis using s'(1) Cons.prems(1) by (simp add: twap_run_def)
  qed
qed simp

text \<open>
  C27: a TWAP returns.  When the market keeps giving a usable price, polls at least one interval
  apart use one slot each, and the poll after the last slot ends the run, whatever the venue
  answers to the orders.
\<close>
theorem twap_completes:
  assumes "d_div (sp_decimal P) (tw_total_amount cfg) (d_of_int (sp_decimal P) (uint (tw_num_orders cfg))) = Some amount"
    and "\<And>v. \<exists>p v'. twap_current_mid P cfg v = (Inr p, v') \<and> twap_price (sp_decimal P) cfg p \<noteq> None"
    and "spaced (unat (tw_duration_secs cfg div ucast (tw_num_orders cfg))) nows"
    and "length nows = Suc (unat (tw_num_orders cfg))"
  shows "\<exists>s. twap_run P cfg nows (twap_new v n) = (Returned, s) \<and> ts_next_index s = tw_num_orders cfg"
  by (rule twap_run_completes [OF _ _ _ assms(3) _ assms(1,2)]) (simp_all add: twap_new_def assms(4))

section \<open>VWAP\<close>

text \<open>The amounts taken off a quantity one after another, in the arithmetic of the code.\<close>

fun drained :: "'d decimal_api \<Rightarrow> 'd \<Rightarrow> 'd list \<Rightarrow> 'd option" where
  "drained D q [] = Some q"
| "drained D q (a # as) = Option.bind (d_sub D q a) (\<lambda>q. drained D q as)"

lemma drained_append: "drained D q (as @ bs) = Option.bind (drained D q as) (\<lambda>q. drained D q bs)"
  by (induction as arbitrary: q) (auto split: bind_splits)

lemma min_val: "faithful D val \<Longrightarrow> val (d_min D a b) = min (val a) (val b)"
  by (simp add: d_min_def faithfulD(1) min_def)

lemma vwap_loop_drains:
  assumes "vwap_loop D mid cap perc q levels = Some ords" and "faithful D val" and "0 < val q"
  shows "(\<forall>ord \<in> set ords. 0 < val (vo_amount ord))
    \<and> (\<exists>left. drained D q (map vo_amount ords) = Some left \<and> 0 \<le> val left)"
  using assms
proof (induction D mid cap perc q levels arbitrary: ords rule: vwap_loop.induct)
  case (2 D mid cap perc q price volume levels)
  note f = \<open>faithful D val\<close>
  obtain diff where diff: "d_sub D price mid = Some diff" using "2.prems"(1) by (auto simp: bind_eq_Some_conv)
  show ?case
  proof (cases "d_gt D (d_abs D diff) cap")
    case True
    then show ?thesis using "2.IH"(1) [OF diff True] "2.prems" diff by simp
  next
    case near: False
    then obtain amount where amount: "d_mul D volume perc = Some amount"
      using "2.prems"(1) diff by (auto simp: bind_eq_Some_conv)
    show ?thesis
    proof (cases "d_gt D amount (d_zero D)")
      case False
      then show ?thesis using "2.IH"(2) [OF diff near amount False] "2.prems" diff near amount by simp
    next
      case pos: True
      let ?actual = "d_min D amount q"
      obtain left rest where left: "d_sub D q ?actual = Some left" and ords: "ords = \<lparr>vo_price = price, vo_amount = ?actual\<rparr> # rest"
        and rest: "(if \<not> d_gt D left (d_zero D) then Some [] else vwap_loop D mid cap perc left levels) = Some rest"
        using "2.prems"(1) diff near amount pos by (auto simp: bind_eq_Some_conv Let_def)
      have "0 < val ?actual" "0 \<le> val left"
        using pos "2.prems"(3) sub_nonneg [OF f left] by (simp_all add: min_val [OF f] faithfulD [OF f])
      moreover have "(\<forall>ord \<in> set rest. 0 < val (vo_amount ord))
          \<and> (\<exists>l. drained D left (map vo_amount rest) = Some l \<and> 0 \<le> val l)"
      proof (cases "d_gt D left (d_zero D)")
        case True
        then show ?thesis
          using "2.IH"(3) [OF diff near amount _ refl left, of rest] pos rest f by (simp add: faithfulD [OF f])
      qed (use rest \<open>0 \<le> val left\<close> in simp)
      ultimately show ?thesis using ords left by simp
    qed
  qed
qed simp

definition vwap_request :: "('v, 'm, 'd) strategy_ports \<Rightarrow> 'd vwap_config \<Rightarrow> string \<times> 'd vwap_order \<Rightarrow> create_order_request" where
  "vwap_request P cfg child = limit_order (sp_decimal P) (proto_exchange_id (vw_common cfg)) (cp_symbol (vw_common cfg))
     (fst child) (vw_is_buy cfg) (vo_price (snd child)) (vo_amount (snd child))"

lemma vwap_place_drains:
  assumes "drained (sp_decimal P) (vs_remaining s) (map vo_amount ords) = Some left"
  shows "\<exists>s'. vwap_place (recording_ports P) cfg ords s = (True, s') \<and> vs_remaining s' = left
    \<and> (\<exists>coids. length coids = length ords \<and> snd (vs_venue s') = snd (vs_venue s) @
        map (vwap_request P cfg) (zip coids ords))"
  using assms
proof (induction ords arbitrary: s)
  case (Cons ord ords)
  let ?D = "sp_decimal P" and ?coid = "''vwap-'' @ sp_ulid P (vs_ulids s)"
  obtain q where q: "d_sub ?D (vs_remaining s) (vo_amount ord) = Some q" and rest: "drained ?D q (map vo_amount ords) = Some left"
    using Cons.prems by (auto simp: bind_eq_Some_conv)
  let ?s = "s\<lparr>vs_ulids := Suc (vs_ulids s), vs_venue := snd (gw_create_order (recording (sp_gateway P)) (vs_venue s) (vwap_request P cfg (?coid, ord))),
    vs_remaining := q\<rparr>"
  obtain s' coids where s': "vwap_place (recording_ports P) cfg ords ?s = (True, s')" "vs_remaining s' = left"
    "length coids = length ords"
    "snd (vs_venue s') = snd (vs_venue ?s) @ map (vwap_request P cfg) (zip coids ords)"
    using Cons.IH [of ?s] rest by auto
  have "vwap_place (recording_ports P) cfg (ord # ords) s = (True, s')" using s'(1) q by (simp add: Let_def vwap_request_def)
  moreover have "snd (vs_venue s') = snd (vs_venue s) @ map (vwap_request P cfg) (zip (?coid # coids) (ord # ords))"
    using s'(4) by simp
  ultimately show ?case using s'(2,3) by (intro exI [of _ s'] conjI exI [of _ "?coid # coids"]) simp_all
qed simp

definition vwap_inv ::
  "('d \<Rightarrow> rat) \<Rightarrow> ('v, 'm, 'd) strategy_ports \<Rightarrow> 'd vwap_config \<Rightarrow> ('v \<times> create_order_request list, 'd) vwap_state \<Rightarrow> bool" where
  "vwap_inv val P cfg s \<longleftrightarrow> 0 \<le> val (vs_remaining s) \<and> (\<exists>children :: (string \<times> 'd vwap_order) list.
     snd (vs_venue s) = map (vwap_request P cfg) children
     \<and> (\<forall>(c, ord) \<in> set children. 0 < val (vo_amount ord))
     \<and> drained (sp_decimal P) (vw_total_amount cfg) (map (vo_amount \<circ> snd) children) = Some (vs_remaining s))"

lemma vwap_inv_same:
  "vwap_inv val P cfg s \<Longrightarrow> vs_remaining s' = vs_remaining s \<Longrightarrow> snd (vs_venue s') = snd (vs_venue s) \<Longrightarrow> vwap_inv val P cfg s'"
  by (simp add: vwap_inv_def)

lemma plan_vwap_drains:
  assumes "plan_vwap_orders D mid spread perc q levels = Some (Some ords)" and "faithful D val" and "0 < val q"
  shows "(\<forall>ord \<in> set ords. 0 < val (vo_amount ord))
    \<and> (\<exists>left. drained D q (map vo_amount ords) = Some left \<and> 0 \<le> val left)"
  using assms vwap_loop_drains [OF _ assms(2,3)] by (auto simp: plan_vwap_orders_def bind_eq_Some_conv split: if_splits)

lemma vwap_reads:
  "snd (snd (vwap_current_mid (recording_ports P) cfg vl)) = snd vl"
  "snd (snd (fetch_book_levels (recording_ports P) cfg vl)) = snd vl"
proof -
  show "snd (snd (vwap_current_mid (recording_ports P) cfg vl)) = snd vl" by (simp add: vwap_current_mid_def)
  obtain r v log where t: "mds_fetch_order_book (recording_market (sp_market P)) vl (proto_exchange_id (vw_common cfg))
      (cp_symbol (vw_common cfg)) 20 = (r, v, log)"
    by (metis surj_pair)
  then have "log = snd vl" using recorded_reads(2) by (metis snd_conv)
  then show "snd (snd (fetch_book_levels (recording_ports P) cfg vl)) = snd vl"
    using t by (cases r) (simp_all add: fetch_book_levels_def)
qed

lemma vwap_placed_inv:
  assumes f: "faithful (sp_decimal P) val" and inv: "vwap_inv val P cfg s" and pos: "0 < val (vs_remaining s)"
    and plan: "plan_vwap_orders (sp_decimal P) mid spread perc (vs_remaining s) levels = Some (Some ords)"
  shows "\<exists>s'. vwap_place (recording_ports P) cfg ords s = (True, s') \<and> vwap_inv val P cfg s'"
proof -
  obtain left where amounts: "\<forall>ord \<in> set ords. 0 < val (vo_amount ord)" and left: "0 \<le> val left"
    "drained (sp_decimal P) (vs_remaining s) (map vo_amount ords) = Some left"
    using plan_vwap_drains [OF plan f pos] by blast
  obtain s' coids where s': "vwap_place (recording_ports P) cfg ords s = (True, s')" "vs_remaining s' = left"
    "length coids = length ords" "snd (vs_venue s') = snd (vs_venue s) @ map (vwap_request P cfg) (zip coids ords)"
    using vwap_place_drains [OF left(2)] by blast
  obtain children where old: "snd (vs_venue s) = map (vwap_request P cfg) children"
    "\<forall>(c, ord) \<in> set children. 0 < val (vo_amount ord)"
    "drained (sp_decimal P) (vw_total_amount cfg) (map (vo_amount \<circ> snd) children) = Some (vs_remaining s)"
    using inv unfolding vwap_inv_def by blast
  have "map (vo_amount \<circ> snd) (zip coids ords) = map vo_amount ords"
    using s'(3) by (metis map_map map_snd_zip)
  then have "drained (sp_decimal P) (vw_total_amount cfg) (map (vo_amount \<circ> snd) (children @ zip coids ords)) = Some left"
    using old(3) left(2) by (simp add: drained_append)
  moreover have "\<forall>(c, ord) \<in> set (children @ zip coids ords). 0 < val (vo_amount ord)"
    using old(2) amounts by (auto dest: set_zip_rightD)
  moreover have "snd (vs_venue s') = map (vwap_request P cfg) (children @ zip coids ords)" using s'(4) old(1) by simp
  ultimately have "vwap_inv val P cfg s'" unfolding vwap_inv_def s'(2) using left(1) by blast
  then show ?thesis using s'(1) by blast
qed

lemma vwap_tick_inv:
  assumes f: "faithful (sp_decimal P) val" and inv: "vwap_inv val P cfg s"
  shows "vwap_inv val P cfg (snd (vwap_tick (recording_ports P) cfg now s))"
proof (cases "\<not> d_gt (sp_decimal P) (vs_remaining s) (d_zero (sp_decimal P)) \<or> now < vs_last_order s + vw_order_delay_secs cfg")
  case True
  then show ?thesis using inv by (auto simp: vwap_tick_def Let_def)
next
  case False
  then have pos: "0 < val (vs_remaining s)" by (simp add: faithfulD [OF f])
  obtain r v1 where m: "vwap_current_mid (recording_ports P) cfg (vs_venue s) = (r, v1)" by (rule prod.exhaust)
  then have l1: "snd v1 = snd (vs_venue s)" using vwap_reads(1) by (metis snd_conv)
  show ?thesis
  proof (cases r)
    case (Inl e)
    then show ?thesis using False m l1 by (auto simp: vwap_tick_def Let_def intro: vwap_inv_same [OF inv])
  next
    case (Inr mid)
    obtain b v2 where b: "fetch_book_levels (recording_ports P) cfg v1 = (b, v2)" by (rule prod.exhaust)
    then have l2: "snd v2 = snd (vs_venue s)" using vwap_reads(2) l1 by (metis snd_conv)
    have inv2: "vwap_inv val P cfg (s\<lparr>vs_venue := v2\<rparr>)" using l2 by (auto intro: vwap_inv_same [OF inv])
    show ?thesis
    proof (cases "\<exists>levels ords. b = Inr levels \<and> plan_vwap_orders (sp_decimal P) mid (vw_price_spread cfg)
        (vw_volume_perc cfg) (vs_remaining s) levels = Some (Some ords)")
      case True
      then obtain levels ords where lo: "b = Inr levels" "plan_vwap_orders (sp_decimal P) mid (vw_price_spread cfg)
        (vw_volume_perc cfg) (vs_remaining s) levels = Some (Some ords)" by blast
      obtain s' where "vwap_place (recording_ports P) cfg ords (s\<lparr>vs_venue := v2\<rparr>) = (True, s')" "vwap_inv val P cfg s'"
        using vwap_placed_inv [OF f inv2, of mid "vw_price_spread cfg" "vw_volume_perc cfg" levels ords] lo(2) pos by auto
      then show ?thesis
        using False m Inr b lo by (auto simp: vwap_tick_def Let_def intro: vwap_inv_same)
    next
      case no: False
      then show ?thesis
        using False m Inr b inv2 by (auto simp: vwap_tick_def Let_def split: sum.splits option.splits)
    qed
  qed
qed

interpretation vwap: polled_strategy "vwap_tick (recording_ports P) cfg"
  "venue_changes vs_venue (\<lambda>v. vs_venue_update (\<lambda>_. v))" "\<lambda>s. \<exists>v n. s = vwap_new cfg (v, []) n"
  "\<lambda>s. faithful (sp_decimal P) val \<and> 0 \<le> val (vw_total_amount cfg) \<longrightarrow> vwap_inv val P cfg s"
proof
  fix s s' :: "('a \<times> create_order_request list, 'c) vwap_state" and now
  show "\<exists>v n. s = vwap_new cfg (v, []) n \<Longrightarrow> faithful (sp_decimal P) val \<and> 0 \<le> val (vw_total_amount cfg) \<longrightarrow> vwap_inv val P cfg s"
    by (auto simp: vwap_inv_def vwap_new_def)
  assume inv: "faithful (sp_decimal P) val \<and> 0 \<le> val (vw_total_amount cfg) \<longrightarrow> vwap_inv val P cfg s"
  show "faithful (sp_decimal P) val \<and> 0 \<le> val (vw_total_amount cfg) \<longrightarrow> vwap_inv val P cfg (snd (vwap_tick (recording_ports P) cfg now s))"
    using inv vwap_tick_inv by blast
  show "venue_changes vs_venue (\<lambda>v. vs_venue_update (\<lambda>_. v)) s s' \<Longrightarrow>
      faithful (sp_decimal P) val \<and> 0 \<le> val (vw_total_amount cfg) \<longrightarrow> vwap_inv val P cfg s'"
    using inv by (auto simp: venue_changes_def vwap_inv_def)
qed

lemma drained_exact:
  assumes "\<And>a b c. d_sub D a b = Some c \<Longrightarrow> val c = val a - (val b :: rat)" and "drained D q as = Some left"
  shows "val left = val q - sum_list (map val as)"
  using assms(2) by (induction as arbitrary: q) (auto simp: bind_eq_Some_conv assms(1))

text \<open>
  A VWAP executor never asks for more than its total.  Over any interleaving of polls and
  venue changes, the requests are limit orders of positive amounts which, taken off the total one
  after another in the arithmetic of the code, leave a remainder that is never negative; where
  the subtractions are exact, the requested amounts sum up to at most the total.
\<close>
theorem vwap_never_exceeds_total:
  assumes "faithful (sp_decimal P) val" and "0 \<le> val (vw_total_amount cfg)"
    and "reach (\<lambda>s. \<exists>v n. s = vwap_new cfg (v, []) n)
      (poll_move (vwap_tick (recording_ports P) cfg) (venue_changes vs_venue (\<lambda>v. vs_venue_update (\<lambda>_. v)))) s"
  shows "\<exists>children :: (string \<times> 'd vwap_order) list.
    snd (vs_venue s) = map (vwap_request P cfg) children
    \<and> (\<forall>(c, ord) \<in> set children. 0 < val (vo_amount ord))
    \<and> drained (sp_decimal P) (vw_total_amount cfg) (map (vo_amount \<circ> snd) children) = Some (vs_remaining s)
    \<and> 0 \<le> val (vs_remaining s)
    \<and> ((\<forall>a b c. d_sub (sp_decimal P) a b = Some c \<longrightarrow> val c = val a - val b)
       \<longrightarrow> sum_list (map (val \<circ> vo_amount \<circ> snd) children) \<le> val (vw_total_amount cfg))"
proof -
  obtain children :: "(string \<times> 'd vwap_order) list" where c:
    "snd (vs_venue s) = map (vwap_request P cfg) children"
    "\<forall>(c, ord) \<in> set children. 0 < val (vo_amount ord)" "0 \<le> val (vs_remaining s)"
    "drained (sp_decimal P) (vw_total_amount cfg) (map (vo_amount \<circ> snd) children) = Some (vs_remaining s)"
    using vwap.polls.inv_reach [OF assms(3), of val] assms(1,2) unfolding vwap_inv_def by blast
  have "sum_list (map (val \<circ> vo_amount \<circ> snd) children) \<le> val (vw_total_amount cfg)"
    if "\<forall>a b c. d_sub (sp_decimal P) a b = Some c \<longrightarrow> val c = val a - val b"
    using drained_exact [of "sp_decimal P" val, OF _ c(4)] that c(3) by (simp add: comp_assoc)
  then show ?thesis using c by blast
qed

section \<open>DCA\<close>

text \<open>A child order of a DCA run: the level it belongs to, the ULID drawn, price and quantity.\<close>

definition dca_child ::
  "('v, 'm, 'd) strategy_ports \<Rightarrow> 'd dca_config \<Rightarrow> nat \<Rightarrow> create_order_request \<Rightarrow> bool" where
  "dca_child P cfg i req \<longleftrightarrow> i < length (dc_prices cfg) \<and> i < length (dc_amounts_quote cfg)
     \<and> (\<exists>n qty current. level_activated (sp_decimal P) (dc_prices cfg ! i) current (dc_is_buy cfg)
        \<and> d_div (sp_decimal P) (dc_amounts_quote cfg ! i) (dc_prices cfg ! i) = Some qty
        \<and> req = limit_order (sp_decimal P) (proto_exchange_id (dc_common cfg)) (cp_symbol (dc_common cfg))
             (''dca-'' @ nat_to_string i @ ''-'' @ sp_ulid P n @ ''-0'') (dc_is_buy cfg)
             (if dc_is_maker cfg then dc_prices cfg ! i else current) qty)"

definition dca_inv ::
  "('v, 'm, 'd) strategy_ports \<Rightarrow> 'd dca_config \<Rightarrow> ('v \<times> create_order_request list, 'd) dca_state \<Rightarrow> bool" where
  "dca_inv P cfg s \<longleftrightarrow> (length (ds_placed s) = length (dc_prices cfg) \<or> snd (ds_venue s) = []) \<and> (\<exists>idx.
     length idx = length (snd (ds_venue s)) \<and> distinct idx
     \<and> (\<forall>i \<in> set idx. i < length (ds_placed s) \<and> ds_placed s ! i)
     \<and> (\<forall>k < length idx. dca_child P cfg (idx ! k) (snd (ds_venue s) ! k)))"

lemma dca_inv_same:
  "dca_inv P cfg s \<Longrightarrow> ds_placed s' = ds_placed s \<Longrightarrow> snd (ds_venue s') = snd (ds_venue s) \<Longrightarrow> dca_inv P cfg s'"
  by (simp add: dca_inv_def)

lemma dca_inv_add:
  assumes inv: "dca_inv P cfg s" and i: "i < length (ds_placed s)" "\<not> ds_placed s ! i"
    and len: "length (ds_placed s) = length (dc_prices cfg)"
    and child: "dca_child P cfg i req" and s': "ds_placed s' = (ds_placed s)[i := True]"
    "snd (ds_venue s') = snd (ds_venue s) @ [req]"
  shows "dca_inv P cfg s'"
proof -
  obtain idx where idx: "length idx = length (snd (ds_venue s))" "distinct idx"
    "\<forall>i \<in> set idx. i < length (ds_placed s) \<and> ds_placed s ! i"
    "\<forall>k < length idx. dca_child P cfg (idx ! k) (snd (ds_venue s) ! k)"
    using inv unfolding dca_inv_def by blast
  have "i \<notin> set idx" using idx(3) i(2) by blast
  then have "length (idx @ [i]) = length (snd (ds_venue s'))" "distinct (idx @ [i])"
    "\<forall>j \<in> set (idx @ [i]). j < length (ds_placed s') \<and> ds_placed s' ! j"
    "\<forall>k < length (idx @ [i]). dca_child P cfg ((idx @ [i]) ! k) (snd (ds_venue s') ! k)"
    using idx i(1) child s' by (auto simp: nth_list_update nth_append less_Suc_eq)
  then show ?thesis using len s' unfolding dca_inv_def by (metis length_list_update)
qed

lemma dca_place_inv:
  assumes "dca_inv P cfg s" and "length (ds_placed s) = length (dc_prices cfg)"
    and "drop i (zip (dc_prices cfg) (dc_amounts_quote cfg)) = levels"
  shows "dca_inv P cfg (snd (dca_place (recording_ports P) cfg current i levels s))
    \<and> length (ds_placed (snd (dca_place (recording_ports P) cfg current i levels s))) = length (dc_prices cfg)"
  using assms
proof (induction levels arbitrary: i s)
  case (Cons level levels)
  let ?rows = "zip (dc_prices cfg) (dc_amounts_quote cfg)"
  obtain price amount where level: "level = (price, amount)" by (cases level)
  have i: "i < length ?rows" using Cons.prems(3) by (metis drop_all list.distinct(1) not_le)
  then have lv: "price = dc_prices cfg ! i" "amount = dc_amounts_quote cfg ! i"
    and tail: "drop (Suc i) ?rows = levels"
    using Cons.prems(3) level by (auto simp: Cons_nth_drop_Suc [symmetric])
  show ?case
  proof (cases "ds_placed s ! i \<or> \<not> level_activated (sp_decimal P) price current (dc_is_buy cfg)
      \<or> d_div (sp_decimal P) amount price = None")
    case True
    then show ?thesis
      using Cons.prems(1,2) Cons.IH [OF Cons.prems(1,2) tail] i level
      by (auto simp: Let_def intro: dca_inv_same split: option.splits)
  next
    case False
    then obtain qty where qty: "d_div (sp_decimal P) amount price = Some qty" by blast
    let ?req = "limit_order (sp_decimal P) (proto_exchange_id (dc_common cfg)) (cp_symbol (dc_common cfg))
      (''dca-'' @ nat_to_string i @ ''-'' @ sp_ulid P (ds_ulids s) @ ''-0'') (dc_is_buy cfg)
      (if dc_is_maker cfg then price else current) qty"
    let ?s = "s\<lparr>ds_ulids := Suc (ds_ulids s), ds_venue := snd (gw_create_order (recording (sp_gateway P)) (ds_venue s) ?req),
      ds_placed := (ds_placed s)[i := True]\<rparr>"
    have child: "dca_child P cfg i ?req"
      unfolding dca_child_def using i False qty lv by (intro conjI exI [of _ "ds_ulids s"] exI [of _ qty] exI [of _ current]) auto
    have "dca_inv P cfg ?s"
      using dca_inv_add [OF Cons.prems(1) _ _ Cons.prems(2) child, of ?s] i False Cons.prems(2) by simp
    then show ?thesis using Cons.IH [of ?s "Suc i"] Cons.prems(2) tail False qty level i by (simp add: Let_def)
  qed
qed simp

lemma dca_check_frame:
  "ds_placed (snd (dca_check D cfg current s)) = ds_placed s" "ds_venue (snd (dca_check D cfg current s)) = ds_venue s"
  by (auto simp: dca_check_def Let_def split: option.splits)

lemma dca_tick_inv:
  assumes "dca_inv P cfg s"
  shows "dca_inv P cfg (snd (dca_tick (recording_ports P) cfg now s))"
proof (cases "ds_state s = DcaActive")
  case True
  define s1 where "s1 = (if length (ds_placed s) \<noteq> length (dc_prices cfg)
     then s\<lparr>ds_placed := map (\<lambda>_. False) (dc_prices cfg)\<rparr> else s)"
  have s1: "dca_inv P cfg s1" "length (ds_placed s1) = length (dc_prices cfg)"
    using assms by (auto simp: s1_def dca_inv_def)
  obtain r v where m: "dca_current_price (recording_ports P) cfg (ds_venue s1) = (r, v)" by (rule prod.exhaust)
  have "snd v = snd (ds_venue s1)"
    using m recorded_last_price [of "sp_decimal P" "sp_market P" "dc_common cfg" "''no usable price''" "ds_venue s1"]
    by (simp add: dca_current_price_def)
  then have s2: "dca_inv P cfg (s1\<lparr>ds_venue := v\<rparr>)" "length (ds_placed (s1\<lparr>ds_venue := v\<rparr>)) = length (dc_prices cfg)"
    using s1 by (auto intro: dca_inv_same)
  have tick: "dca_tick (recording_ports P) cfg now s = (case r of
      Inl e \<Rightarrow> (Some (Inl e), s1\<lparr>ds_venue := v\<rparr>)
    | Inr current \<Rightarrow> (case dca_place (recording_ports P) cfg current 0 (zip (dc_prices cfg) (dc_amounts_quote cfg)) (s1\<lparr>ds_venue := v\<rparr>) of
          (False, s) \<Rightarrow> (None, s)
        | (True, s) \<Rightarrow> dca_check (sp_decimal P) cfg current s))"
    using True m by (auto simp: dca_tick_def Let_def s1_def [symmetric] split: sum.splits prod.splits bool.splits)
  show ?thesis
  proof (cases r)
    case (Inr current)
    have "dca_inv P cfg (snd (dca_place (recording_ports P) cfg current 0 (zip (dc_prices cfg) (dc_amounts_quote cfg)) (s1\<lparr>ds_venue := v\<rparr>)))"
      using dca_place_inv [OF s2, of 0] by simp
    then show ?thesis
      unfolding tick Inr by (auto split: prod.splits bool.splits intro: dca_inv_same simp: dca_check_frame)
  qed (use tick s2 in simp)
qed (use assms in \<open>simp add: dca_tick_def\<close>)

interpretation dca: polled_strategy "dca_tick (recording_ports P) cfg"
  "venue_changes ds_venue (\<lambda>v. ds_venue_update (\<lambda>_. v))" "\<lambda>s. \<exists>v n. s = dca_new (sp_decimal P) (v, []) n" "dca_inv P cfg"
  by unfold_locales (auto simp: dca_tick_inv, auto simp: dca_inv_def dca_new_def venue_changes_def)

text \<open>
  Over any interleaving of polls and venue changes a DCA executor asks for each of its levels
  at most once, and only for levels the market has reached: the requests belong to pairwise
  different levels, each at the price of the mode and for the quote amount over the level price.
\<close>
theorem dca_level_placed_once:
  assumes "reach (\<lambda>s. \<exists>v n. s = dca_new (sp_decimal P) (v, []) n)
    (poll_move (dca_tick (recording_ports P) cfg) (venue_changes ds_venue (\<lambda>v. ds_venue_update (\<lambda>_. v)))) s"
  shows "\<exists>idx. distinct idx \<and> length idx = length (snd (ds_venue s)) \<and> (\<forall>k < length idx.
     idx ! k < length (dc_prices cfg) \<and> idx ! k < length (dc_amounts_quote cfg)
     \<and> (\<exists>n qty current. level_activated (sp_decimal P) (dc_prices cfg ! (idx ! k)) current (dc_is_buy cfg)
        \<and> d_div (sp_decimal P) (dc_amounts_quote cfg ! (idx ! k)) (dc_prices cfg ! (idx ! k)) = Some qty
        \<and> snd (ds_venue s) ! k = limit_order (sp_decimal P) (proto_exchange_id (dc_common cfg)) (cp_symbol (dc_common cfg))
             (''dca-'' @ nat_to_string (idx ! k) @ ''-'' @ sp_ulid P n @ ''-0'') (dc_is_buy cfg)
             (if dc_is_maker cfg then dc_prices cfg ! (idx ! k) else current) qty))"
proof -
  obtain idx where "distinct idx" "length idx = length (snd (ds_venue s))"
    and child: "\<forall>k < length idx. dca_child P cfg (idx ! k) (snd (ds_venue s) ! k)"
    using dca.polls.inv_reach [OF assms] unfolding dca_inv_def by blast
  then show ?thesis using child by (intro exI [of _ idx] conjI) (simp_all add: dca_child_def)
qed

text \<open>An executor that has hit a barrier does nothing any more.\<close>

lemma dca_ended: "ds_state s \<noteq> DcaActive \<Longrightarrow> dca_tick P cfg now s = (Some (Inr ()), s)"
  by (simp add: dca_tick_def)

text \<open>Exact sums: what the average and the barriers mean when decimals do not round.\<close>

lemma rat_api_simps:
  "d_zero rat_api = 0" "d_neg rat_api a = - a" "d_add rat_api a b = Some (a + b)" "d_sub rat_api a b = Some (a - b)"
  "d_div rat_api a b = (if b = 0 then None else Some (a / b))" "d_gt rat_api a b \<longleftrightarrow> a > b" "d_is_zero rat_api a \<longleftrightarrow> a = 0"
  by (simp_all add: rat_api_def)

lemma rat_try_sum: "try_sum rat_api acc xs = Some (acc + sum_list xs)"
  by (induction xs arbitrary: acc) (simp_all add: rat_api_simps add.assoc)

lemma rat_base_amounts: "base_amounts rat_api rows = Some (map (\<lambda>(a, p). if p = 0 then 0 else a / p) rows)"
  by (induction rows) (auto simp: rat_api_simps)

lemma quote_between:
  fixes lo hi :: rat
  assumes "0 < lo" and "\<forall>(a, p) \<in> set rows. 0 < a \<and> lo \<le> p \<and> p \<le> hi"
  shows "lo * sum_list (map (\<lambda>(a, p). a / p) rows) \<le> sum_list (map fst rows)
    \<and> sum_list (map fst rows) \<le> hi * sum_list (map (\<lambda>(a, p). a / p) rows)
    \<and> (rows \<noteq> [] \<longrightarrow> 0 < sum_list (map (\<lambda>(a, p). a / p) rows))"
  using assms(2)
proof (induction rows)
  case (Cons row rows)
  obtain a p where row: "row = (a, p)" by (cases row)
  then have ap: "0 < a" "lo \<le> p" "p \<le> hi" "0 < p" using Cons.prems assms(1) by auto
  have "lo * (a / p) \<le> p * (a / p)" "p * (a / p) \<le> hi * (a / p)"
    using ap by (intro mult_right_mono; simp)+
  then have "lo * (a / p) \<le> a" "a \<le> hi * (a / p)" using ap by simp_all
  moreover have "0 < a / p" using ap by simp
  moreover have "0 \<le> sum_list (map (\<lambda>(a, p). a / p) rows)" using Cons by (cases rows) auto
  ultimately show ?case using Cons row by (simp add: distrib_left)
qed simp

lemma average_entry_exact:
  assumes "length amounts = length prices" and "amounts \<noteq> []" and "0 < lo"
    and "\<forall>a \<in> set amounts. 0 < a" and "\<forall>p \<in> set prices. lo \<le> p \<and> p \<le> hi"
  shows "\<exists>avg. average_entry_price rat_api amounts prices = Some (Some avg) \<and> lo \<le> avg \<and> avg \<le> hi
    \<and> avg * sum_list (map2 (/) amounts prices) = sum_list amounts"
proof -
  let ?rows = "zip amounts prices" and ?base = "sum_list (map2 (/) amounts prices)"
  have rows: "\<forall>(a, p) \<in> set ?rows. 0 < a \<and> lo \<le> p \<and> p \<le> hi"
    using assms(4,5) by (auto dest: set_zip_leftD set_zip_rightD)
  have q: "lo * ?base \<le> sum_list amounts" "sum_list amounts \<le> hi * ?base" "0 < ?base"
    using quote_between [OF assms(3) rows] assms(1,2) by (auto simp: map_fst_zip)
  have "map (\<lambda>(a, p). if p = 0 then 0 else a / p) ?rows = map2 (/) amounts prices"
    using rows assms(3) by (intro map_cong) auto
  then have bases: "base_amounts rat_api ?rows = Some (map2 (/) amounts prices)" by (simp add: rat_base_amounts)
  have "0 < lo * ?base" using assms(3) q(3) by simp
  then have total: "0 < sum_list amounts" using q(1) by linarith
  have "average_entry_price rat_api amounts prices = Some (Some (sum_list amounts / ?base))"
    using assms(1,2) bases q(3) total rat_try_sum [of 0 amounts] rat_try_sum [of 0 "map2 (/) amounts prices"]
    by (simp add: average_entry_price_def rat_api_simps)
  then show ?thesis using q by (intro exI [of _ "sum_list amounts / ?base"]) (simp add: pos_le_divide_eq pos_divide_le_eq)
qed

text \<open>
  With exact arithmetic the average entry of a DCA run lies between its lowest and its highest
  level price and is the quote spent over the base bought, and the poll stops out exactly when the
  price is \<open>stop_loss\<close> worse than that average, takes profit exactly when it is \<open>take_profit\<close> better,
  on either side of the market.
\<close>
theorem dca_exit_prices:
  fixes cfg :: "rat dca_config"
  assumes "length (dc_amounts_quote cfg) = length (dc_prices cfg)" and "dc_amounts_quote cfg \<noteq> []" and "0 < lo"
    and "\<forall>a \<in> set (dc_amounts_quote cfg). 0 < a" and "\<forall>p \<in> set (dc_prices cfg). lo \<le> p \<and> p \<le> hi" and "0 < current"
  shows "\<exists>avg s'. dca_check rat_api cfg current s = (Some (Inr ()), s') \<and> lo \<le> avg \<and> avg \<le> hi
    \<and> avg * sum_list (map2 (/) (dc_amounts_quote cfg) (dc_prices cfg)) = sum_list (dc_amounts_quote cfg)
    \<and> (ds_state s' = DcaStopLoss \<longleftrightarrow> 0 < dc_stop_loss cfg
         \<and> (if dc_is_buy cfg then current \<le> avg * (1 - dc_stop_loss cfg) else avg * (1 + dc_stop_loss cfg) \<le> current))
    \<and> (ds_state s' = DcaTakeProfit \<longleftrightarrow> ds_state s' \<noteq> DcaStopLoss \<and> 0 < dc_take_profit cfg
         \<and> (if dc_is_buy cfg then avg * (1 + dc_take_profit cfg) \<le> current else current \<le> avg * (1 - dc_take_profit cfg)))"
proof -
  obtain avg where avg: "average_entry_price rat_api (dc_amounts_quote cfg) (dc_prices cfg) = Some (Some avg)"
    "lo \<le> avg" "avg \<le> hi" "avg * sum_list (map2 (/) (dc_amounts_quote cfg) (dc_prices cfg)) = sum_list (dc_amounts_quote cfg)"
    using average_entry_exact [OF assms(1-5)] by blast
  then have pos: "0 < avg" using assms(3) by linarith
  define pnl where "pnl = (if dc_is_buy cfg then current - avg else avg - current) / avg"
  have fraction: "dca_pnl_fraction rat_api avg current (dc_is_buy cfg) = Some (Some pnl)"
    using pos assms(6) by (simp add: dca_pnl_fraction_def rat_api_simps pnl_def)
  define s1 where "s1 = (if pnl > ds_peak_pnl s then s\<lparr>ds_peak_pnl := pnl\<rparr> else s)"
  have "dca_barrier rat_api cfg pnl (ds_peak_pnl s1) \<noteq> None" by (simp add: dca_barrier_def rat_api_simps)
  then obtain status where status: "dca_barrier rat_api cfg pnl (ds_peak_pnl s1) = Some status" by blast
  have check: "dca_check rat_api cfg current s = (Some (Inr ()), s1\<lparr>ds_state := status\<rparr>)"
    using avg(1) fraction status by (simp add: dca_check_def Let_def s1_def rat_api_simps split: if_splits)
  have stop: "status = DcaStopLoss \<longleftrightarrow> 0 < dc_stop_loss cfg \<and> pnl \<le> - dc_stop_loss cfg"
    and take: "status = DcaTakeProfit \<longleftrightarrow> status \<noteq> DcaStopLoss \<and> 0 < dc_take_profit cfg \<and> dc_take_profit cfg \<le> pnl"
    using status by (auto simp: dca_barrier_def rat_api_simps split: if_splits)
  have "pnl \<le> - x \<longleftrightarrow> (if dc_is_buy cfg then current \<le> avg * (1 - x) else avg * (1 + x) \<le> current)"
    and "x \<le> pnl \<longleftrightarrow> (if dc_is_buy cfg then avg * (1 + x) \<le> current else current \<le> avg * (1 - x))" for x
    using pos by (auto simp: pnl_def pos_divide_le_eq pos_le_divide_eq algebra_simps)
  then show ?thesis using check avg(2-4) stop take
    by (intro exI [of _ avg] exI [of _ "s1\<lparr>ds_state := status\<rparr>"]) simp
qed

section \<open>Instances\<close>

text \<open>Exact decimals that read unsigned integers, and a market quoting 100 with one level of size 3 per side.\<close>

definition demo_decimal :: "rat decimal_api" where
  "demo_decimal = rat_api\<lparr>d_parse := (\<lambda>t. case parse_unsigned 1000 t of None \<Rightarrow> Inl ''bad'' | Some n \<Rightarrow> Inr (of_nat n))\<rparr>"

definition demo_market :: "'v market_data_source" where
  "demo_market =
     \<lparr>mds_fetch_ticker = (\<lambda>v ex s. (Inr \<lparr>tk_header = None, tk_symbol = s, tk_timestamp = None, tk_bid = None,
        tk_ask = None, tk_last = Some ''100'', tk_close = None\<rparr>, v)),
      mds_fetch_order_book = (\<lambda>v ex s n. (Inr \<lparr>ob_header = None, ob_symbol = s, ob_timestamp = None,
        ob_bids = [\<lparr>pl_price = Some ''99'', pl_amount = Some ''3''\<rparr>],
        ob_asks = [\<lparr>pl_price = Some ''101'', pl_amount = Some ''3''\<rparr>]\<rparr>, v)),
      mds_get_candles = (\<lambda>v ex s t n. (Inr [], v))\<rparr>"

definition demo_ports :: "(rat mock_state, mock_message, rat) strategy_ports" where
  "demo_ports = \<lparr>sp_gateway = mock_gateway demo_decimal 0, sp_market = demo_market, sp_decimal = demo_decimal, sp_ulid = nat_to_string\<rparr>"

definition demo_common :: common_params where
  "demo_common = \<lparr>cp_exchange_id = ''mock'', cp_label = '''', cp_symbol = ''MOCK-USDT'', cp_timeframe = ''5m'', cp_poll_secs = 30\<rparr>"

definition demo_twap :: "rat twap_config" where
  "demo_twap = \<lparr>tw_common = demo_common, tw_total_amount = 10, tw_duration_secs = 60, tw_num_orders = 2, tw_is_buy = True,
     tw_is_maker = True, tw_limit_buffer = 1 / 100\<rparr>"

definition demo_vwap :: "rat vwap_config" where
  "demo_vwap = \<lparr>vw_common = demo_common, vw_total_amount = 4, vw_price_spread = 1 / 10, vw_volume_perc = 1,
     vw_order_delay_secs = 10, vw_is_buy = True\<rparr>"

definition demo_dca :: "rat dca_config" where
  "demo_dca = \<lparr>dc_common = demo_common, dc_prices = [110, 100, 90], dc_amounts_quote = [110, 100, 90], dc_is_buy = True,
     dc_is_maker = True, dc_stop_loss = 1 / 20, dc_take_profit = 1 / 10, dc_trailing_activation = 0, dc_trailing_delta = 0\<rparr>"

lemmas demo_simps = demo_ports_def demo_decimal_def demo_common_def demo_market_def rat_api_def

lemma demo_faithful: "faithful demo_decimal (\<lambda>x. x)"
  using rat_faithful by (simp add: demo_decimal_def faithful_def)

lemma demo_parse: "\<not> is_blank ''100''" "grammar_violation ''100'' = None" "parse_unsigned 1000 ''100'' = Some 100"
  by code_simp+

lemma demo_reads: "common_to_decimal (d_parse demo_decimal) ''100'' = Inr 100"
  using demo_parse by (simp add: common_to_decimal_def demo_decimal_def)

lemma demo_last: "last_price demo_decimal demo_market demo_common message v = (Inr 100, v)"
  using demo_reads by (simp add: last_price_def demo_market_def) (simp add: demo_decimal_def rat_api_def)

lemma polled_once: "start s \<Longrightarrow> reach start (poll_move tick world) (snd (tick now s))"
  by (metis poll_move.Tick prod.collapse reach.intros)

theorem twap_one_order_per_slot_witness:
  "\<exists>s. s = snd (twap_tick (recording_ports demo_ports) demo_twap 0 (twap_new (mock_new demo_decimal 100, []) 0))
     \<and> length (snd (ts_venue s)) = unat (ts_next_index s) \<and> ts_next_index s \<le> 2"
proof -
  let ?s = "twap_new (mock_new demo_decimal 100, []) 0 :: (rat mock_state \<times> create_order_request list) twap_state"
  have "reach (\<lambda>s. \<exists>v n. s = twap_new (v, []) n)
      (poll_move (twap_tick (recording_ports demo_ports) demo_twap) (venue_changes ts_venue (\<lambda>v. ts_venue_update (\<lambda>_. v))))
      (snd (twap_tick (recording_ports demo_ports) demo_twap 0 ?s))"
    by (rule polled_once) blast
  from twap_one_order_per_slot [OF this] show ?thesis by (simp add: demo_twap_def)
qed

lemma demo_twap_mid: "twap_current_mid demo_ports demo_twap v = (Inr 100, v)"
  using demo_last by (simp add: twap_current_mid_def demo_ports_def demo_twap_def)

theorem twap_completes_witness:
  "\<exists>s. twap_run demo_ports demo_twap [0, 30, 60] (twap_new (mock_new demo_decimal 100) 0) = (Returned, s)
     \<and> ts_next_index s = 2"
proof -
  have "d_div (sp_decimal demo_ports) (tw_total_amount demo_twap) (d_of_int (sp_decimal demo_ports) (uint (tw_num_orders demo_twap))) = Some 5"
    by (simp add: demo_simps demo_twap_def)
  moreover have "\<exists>p v'. twap_current_mid demo_ports demo_twap v = (Inr p, v') \<and> twap_price (sp_decimal demo_ports) demo_twap p \<noteq> None" for v
    by (simp add: demo_twap_mid) (simp add: twap_price_def demo_simps demo_twap_def)
  moreover have "spaced (unat (tw_duration_secs demo_twap div ucast (tw_num_orders demo_twap))) [0, 30, 60]"
    by (simp add: demo_twap_def)
  ultimately show ?thesis using twap_completes [of demo_ports demo_twap 5 "[0, 30, 60]"] by (simp add: demo_twap_def)
qed

theorem vwap_never_exceeds_total_witness:
  "\<exists>s (children :: (string \<times> rat vwap_order) list).
     s = snd (vwap_tick (recording_ports demo_ports) demo_vwap 60 (vwap_new demo_vwap (mock_new demo_decimal 100, []) 0))
     \<and> length (snd (vs_venue s)) = length children \<and> sum_list (map (vo_amount \<circ> snd) children) \<le> 4"
proof -
  let ?s = "vwap_new demo_vwap (mock_new demo_decimal 100, []) 0 :: (rat mock_state \<times> create_order_request list, rat) vwap_state"
  let ?t = "snd (vwap_tick (recording_ports demo_ports) demo_vwap 60 ?s)"
  have D: "sp_decimal demo_ports = demo_decimal" by (simp add: demo_ports_def)
  have "reach (\<lambda>s. \<exists>v n. s = vwap_new demo_vwap (v, []) n)
      (poll_move (vwap_tick (recording_ports demo_ports) demo_vwap) (venue_changes vs_venue (\<lambda>v. vs_venue_update (\<lambda>_. v)))) ?t"
    by (rule polled_once) blast
  from vwap_never_exceeds_total [OF _ _ this, of "\<lambda>x. x"] obtain children :: "(string \<times> rat vwap_order) list"
    where "snd (vs_venue ?t) = map (vwap_request demo_ports demo_vwap) children"
      and "(\<forall>a b c. d_sub demo_decimal a b = Some c \<longrightarrow> c = a - b) \<longrightarrow>
        sum_list (map ((\<lambda>x. x) \<circ> vo_amount \<circ> snd) children) \<le> vw_total_amount demo_vwap"
    using demo_faithful by (auto simp: D demo_vwap_def)
  then show ?thesis by (intro exI [of _ ?t] exI [of _ children]) (simp add: demo_decimal_def rat_api_def demo_vwap_def comp_def)
qed

theorem dca_level_placed_once_witness:
  "\<exists>s (idx :: nat list). s = snd (dca_tick (recording_ports demo_ports) demo_dca 0 (dca_new demo_decimal (mock_new demo_decimal 100, []) 0))
     \<and> distinct idx \<and> length idx = length (snd (ds_venue s)) \<and> (\<forall>k < length idx. idx ! k < 3)"
proof -
  let ?t = "snd (dca_tick (recording_ports demo_ports) demo_dca 0
    (dca_new (sp_decimal demo_ports) (mock_new demo_decimal 100, []) 0 :: (rat mock_state \<times> create_order_request list, rat) dca_state))"
  have "reach (\<lambda>s. \<exists>v n. s = dca_new (sp_decimal demo_ports) (v, []) n)
      (poll_move (dca_tick (recording_ports demo_ports) demo_dca) (venue_changes ds_venue (\<lambda>v. ds_venue_update (\<lambda>_. v)))) ?t"
    by (rule polled_once) blast
  from dca_level_placed_once [OF this] obtain idx where "distinct idx" "length idx = length (snd (ds_venue ?t))"
    "\<forall>k < length idx. idx ! k < length (dc_prices demo_dca)" by blast
  moreover have "sp_decimal demo_ports = demo_decimal" "length (dc_prices demo_dca) = 3"
    by (simp_all add: demo_ports_def demo_dca_def)
  ultimately show ?thesis by (intro exI [of _ ?t] exI [of _ idx]) simp
qed

theorem dca_exit_prices_witness:
  "\<exists>avg s'. dca_check rat_api demo_dca 50 (dca_new rat_api () 0) = (Some (Inr ()), s') \<and> 90 \<le> avg \<and> avg \<le> 110
     \<and> avg * 3 = (300 :: rat) \<and> (ds_state s' = DcaStopLoss \<longleftrightarrow> 50 \<le> avg * (19 / 20))"
  using dca_exit_prices [of demo_dca 90 110 50 "dca_new rat_api () 0"] by (auto simp: demo_dca_def)

end
