(* ===== verification/Remote.thy ===== *)
theory Remote
  imports Proxy Stream_Client Strategy_Params
begin

text \<open>
  The adapter that reaches a venue through another server (\<open>adapters/remote.rs\<close>) and the unary
  transport below it (\<open>longtrader-proto/src/transport.rs\<close>): every port over the calls of the
  contract, the conversions of wire records to port records, and the mapping of transport errors.
\<close>

section \<open>Unary transport\<close>

datatype transport_error = HttpError string | RpcStatus u32 string | DecodeFailed string

text \<open>
  One HTTP exchange as the client library reports it: the call or the read of the body may miss
  the deadline or fail.
\<close>

datatype body_outcome = ReadTimeout | ReadFailed string | Body bytes

datatype http_outcome = SendTimeout | SendFailed string | Answered nat body_outcome

record http_request =
  hr_url :: string
  hr_content_type :: string
  hr_authorization :: "string option"
  hr_body :: bytes

definition CONNECT_PROTO_UNARY :: string where "CONNECT_PROTO_UNARY = ''application/proto''"

definition is_success :: "nat \<Rightarrow> bool" where
  "is_success status = (200 \<le> status \<and> status < 300)"

definition read_body :: "string \<Rightarrow> string \<Rightarrow> body_outcome \<Rightarrow> transport_error + bytes" where
  "read_body service meth b = (case b of
       ReadTimeout \<Rightarrow> Inl (HttpError (''deadline exceeded reading '' @ service @ ''/'' @ meth))
     | ReadFailed e \<Rightarrow> Inl (HttpError (''read error: '' @ e))
     | Body bs \<Rightarrow> Inr bs)"

text \<open>
  The message codec is generated code: \<open>enc\<close> and \<open>dec\<close>.  \<open>lossy\<close> is the lossy reading of UTF-8.
\<close>

definition transport_unary ::
  "('v \<Rightarrow> http_request \<Rightarrow> http_outcome \<times> 'v) \<Rightarrow> (bytes \<Rightarrow> string) \<Rightarrow> ('q \<Rightarrow> bytes) \<Rightarrow> (bytes \<Rightarrow> string + 'r)
   \<Rightarrow> string \<Rightarrow> string \<Rightarrow> string \<Rightarrow> string option \<Rightarrow> 'q \<Rightarrow> 'v \<Rightarrow> (transport_error + 'r) \<times> 'v" where
  "transport_unary post lossy enc dec base_url service meth token req v =
     (let http = \<lparr>hr_url = service_url base_url service meth, hr_content_type = CONNECT_PROTO_UNARY,
            hr_authorization = (case token of Some t \<Rightarrow> if t = [] then None else Some (''Bearer '' @ t) | None \<Rightarrow> None),
            hr_body = enc req\<rparr>
      in case post v http of
          (SendTimeout, v) \<Rightarrow> (Inl (HttpError (''deadline exceeded '' @ service @ ''/'' @ meth @ '' after 10s'')), v)
        | (SendFailed e, v) \<Rightarrow> (Inl (HttpError e), v)
        | (Answered status body, v) \<Rightarrow> ((case read_body service meth body of
              Inl e \<Rightarrow> Inl e
            | Inr bs \<Rightarrow>
                if \<not> is_success status then Inl (RpcStatus (of_nat status) (lossy bs))
                else (case dec bs of
                    Inl e \<Rightarrow> Inl (DecodeFailed (''decode '' @ meth @ '': '' @ e))
                  | Inr r \<Rightarrow> Inr r)), v))"

section \<open>The adapter\<close>

definition unary_error :: "string \<Rightarrow> string \<Rightarrow> transport_error \<Rightarrow> port_error" where
  "unary_error service meth e = (case e of
       HttpError m \<Rightarrow> Transport (service @ ''/'' @ meth @ '': '' @ m)
     | RpcStatus code message \<Rightarrow> Rpc code message
     | DecodeFailed m \<Rightarrow> Transport (''decode '' @ service @ ''/'' @ meth @ '': '' @ m))"

definition SERVICE_TRADING :: string where "SERVICE_TRADING = ''longtrader.trading.v1.TradingService''"
definition SERVICE_MARKET :: string where "SERVICE_MARKET = ''longtrader.market.v1.MarketDataService''"
definition OPS_SERVICE :: string where "OPS_SERVICE = ''longtrader.ops.v1.VenueOpService''"

text \<open>
  The calls of the contract as the transport answers them, one per method, over the state of
  everything behind the network; the messages of the account calls are opaque but for the three
  accessors the snapshot needs.
\<close>

record trading_account =
  ta_free_margin :: "wire_decimal option"
  ta_margin_used :: "wire_decimal option"
  ta_equity :: "wire_decimal option"

record balance =
  bl_currency :: string
  bl_free :: "wire_decimal option"
  bl_used :: "wire_decimal option"
  bl_total :: "wire_decimal option"

record ('v, 'm, 's) remote_calls =
  rc_create_order :: "'v \<Rightarrow> create_order_request \<Rightarrow> (transport_error + order option) \<times> 'v"
  rc_create_orders :: "'v \<Rightarrow> create_orders_request \<Rightarrow> (transport_error + order list) \<times> 'v"
  rc_cancel_order :: "'v \<Rightarrow> cancel_order_request \<Rightarrow> (transport_error + order option) \<times> 'v"
  rc_cancel_all_orders :: "'v \<Rightarrow> cancel_all_orders_request \<Rightarrow> (transport_error + order list) \<times> 'v"
  rc_fetch_open_orders :: "'v \<Rightarrow> fetch_open_orders_request \<Rightarrow> (transport_error + order list) \<times> 'v"
  rc_account_call :: "'v \<Rightarrow> account_method \<Rightarrow> 'm account_request \<Rightarrow> (transport_error + 'm) \<times> 'v"
  rc_account_of :: "'m \<Rightarrow> trading_account option"
  rc_positions_of :: "'m \<Rightarrow> 'm list"
  rc_balance :: "balance \<Rightarrow> 'm"
  rc_no_fields :: 'm
  rc_fetch_ticker :: "'v \<Rightarrow> exchange_id \<Rightarrow> string \<Rightarrow> (transport_error + ticker option) \<times> 'v"
  rc_fetch_order_book :: "'v \<Rightarrow> exchange_id \<Rightarrow> string \<Rightarrow> nat \<Rightarrow> (transport_error + order_book option) \<times> 'v"
  rc_get_candles :: "'v \<Rightarrow> exchange_id \<Rightarrow> string \<Rightarrow> timeframe \<Rightarrow> nat \<Rightarrow> (transport_error + candle list) \<times> 'v"
  rc_market_call :: "'v \<Rightarrow> market_method \<Rightarrow> 'm \<Rightarrow> (transport_error + 'm) \<times> 'v"
  rc_fetch_funding_rate :: "'v \<Rightarrow> exchange_id \<Rightarrow> string \<Rightarrow> (transport_error + wire_funding_rate option) \<times> 'v"
  rc_fetch_funding_rate_history ::
    "'v \<Rightarrow> exchange_id \<Rightarrow> string \<Rightarrow> u32 \<Rightarrow> (transport_error + (wire_decimal option \<times> int) list) \<times> 'v"
  rc_list_funding_rates :: "'v \<Rightarrow> exchange_id \<Rightarrow> string list \<Rightarrow> (transport_error + wire_funding_rate list) \<times> 'v"
  rc_create_trigger_order :: "'v \<Rightarrow> create_trigger_order_request \<Rightarrow> (transport_error + wire_trigger_order option) \<times> 'v"
  rc_cancel_trigger_order ::
    "'v \<Rightarrow> exchange_id \<Rightarrow> string \<Rightarrow> string \<Rightarrow> (transport_error + wire_trigger_order option) \<times> 'v"
  rc_list_trigger_orders :: "'v \<Rightarrow> exchange_id \<Rightarrow> string list \<Rightarrow> (transport_error + wire_trigger_order list) \<times> 'v"
  rc_invoke_venue_op :: "'v \<Rightarrow> string \<Rightarrow> string \<Rightarrow> 's \<Rightarrow> (transport_error + 's option) \<times> 'v"
  rc_list_venue_ops :: "'v \<Rightarrow> string \<Rightarrow> (transport_error + wire_op_descriptor list) \<times> 'v"
  rc_describe_venue_op :: "'v \<Rightarrow> string \<Rightarrow> string \<Rightarrow> (transport_error + wire_op_descriptor option) \<times> 'v"
  rc_fetch_ledger_entries ::
    "'v \<Rightarrow> exchange_id \<Rightarrow> string \<Rightarrow> string \<Rightarrow> u64 \<Rightarrow> (transport_error + wire_ledger_entry list) \<times> 'v"
  rc_transfer :: "'v \<Rightarrow> transfer_request \<Rightarrow> (transport_error + string \<times> wire_ledger_entry option) \<times> 'v"
  rc_json_to_struct :: "json \<Rightarrow> string + 's"
  rc_struct_to_json :: "'s \<Rightarrow> string + json"

text \<open>The state of an adapter: what is behind the network and its snapshot counter.\<close>

record 'v remote_state =
  rm_backend :: 'v
  rm_snapshot_seq :: u64

definition remote_new :: "'v \<Rightarrow> 'v remote_state" where
  "remote_new v = \<lparr>rm_backend = v, rm_snapshot_seq = 0\<rparr>"

definition remote_unary ::
  "string \<Rightarrow> string \<Rightarrow> (transport_error + 'r) \<times> 'v \<Rightarrow> 'v remote_state \<Rightarrow> (port_error + 'r) \<times> 'v remote_state" where
  "remote_unary service meth res s =
     (let (r, v) = res in (map_err (unary_error service meth) r, s\<lparr>rm_backend := v\<rparr>))"

definition required :: "string \<Rightarrow> (port_error + 'r option) \<times> 's \<Rightarrow> (port_error + 'r) \<times> 's" where
  "required field res = (case res of
       (Inl e, s) \<Rightarrow> (Inl e, s)
     | (Inr None, s) \<Rightarrow> (Inl (MissingField field), s)
     | (Inr (Some r), s) \<Rightarrow> (Inr r, s))"

section \<open>Trading\<close>

definition remote_create_order ::
  "('v, 'm, 's) remote_calls \<Rightarrow> 'v remote_state \<Rightarrow> create_order_request \<Rightarrow> (port_error + order) \<times> 'v remote_state" where
  "remote_create_order C s req =
     required ''order'' (remote_unary SERVICE_TRADING ''CreateOrder'' (rc_create_order C (rm_backend s) req) s)"

definition remote_batch_create_orders ::
  "('v, 'm, 's) remote_calls \<Rightarrow> 'v remote_state \<Rightarrow> create_orders_request \<Rightarrow> (port_error + order list) \<times> 'v remote_state" where
  "remote_batch_create_orders C s req =
     remote_unary SERVICE_TRADING ''CreateOrders'' (rc_create_orders C (rm_backend s) req) s"

definition remote_cancel_order ::
  "('v, 'm, 's) remote_calls \<Rightarrow> 'v remote_state \<Rightarrow> cancel_order_request \<Rightarrow> (port_error + order) \<times> 'v remote_state" where
  "remote_cancel_order C s req =
     required ''order'' (remote_unary SERVICE_TRADING ''CancelOrder'' (rc_cancel_order C (rm_backend s) req) s)"

definition remote_cancel_all_orders ::
  "('v, 'm, 's) remote_calls \<Rightarrow> 'v remote_state \<Rightarrow> cancel_all_orders_request \<Rightarrow> (port_error + order list) \<times> 'v remote_state" where
  "remote_cancel_all_orders C s req =
     remote_unary SERVICE_TRADING ''CancelAllOrders'' (rc_cancel_all_orders C (rm_backend s) req) s"

definition remote_fetch_open_orders ::
  "('v, 'm, 's) remote_calls \<Rightarrow> 'v remote_state \<Rightarrow> fetch_open_orders_request \<Rightarrow> (port_error + order list) \<times> 'v remote_state" where
  "remote_fetch_open_orders C s req =
     remote_unary SERVICE_TRADING ''FetchOpenOrders'' (rc_fetch_open_orders C (rm_backend s) req) s"

fun account_method_name :: "account_method \<Rightarrow> string" where
  "account_method_name GetAccount = ''GetAccount''"
| "account_method_name GetPositions = ''GetPositions''"
| "account_method_name GetOrderHistory = ''GetOrderHistory''"
| "account_method_name GetClosedPositions = ''GetClosedPositions''"
| "account_method_name ClosePosition = ''ClosePosition''"
| "account_method_name CloseAllPositions = ''CloseAllPositions''"
| "account_method_name ModifyPosition = ''ModifyPosition''"

definition remote_account_call ::
  "('v, 'm, 's) remote_calls \<Rightarrow> 'v remote_state \<Rightarrow> account_method \<Rightarrow> 'm account_request \<Rightarrow> (port_error + 'm) \<times> 'v remote_state" where
  "remote_account_call C s me req =
     remote_unary SERVICE_TRADING (account_method_name me) (rc_account_call C (rm_backend s) me req) s"

definition ts_from_ms :: "int \<Rightarrow> timestamp" where
  "ts_from_ms ms =
     \<lparr>ts_seconds = ms div 1000,
      ts_nanos = (let n = (ms mod 1000) * 1000000 in if - (2 ^ 31) \<le> n \<and> n < 2 ^ 31 then n else 0)\<rparr>"

definition ms_now :: "int \<Rightarrow> int" where
  "ms_now sys = (if sys < 0 then 0 else min (sys div 1000000) i64_max)"

definition aggregate_balance :: "trading_account \<Rightarrow> balance" where
  "aggregate_balance a =
     \<lparr>bl_currency = ''USD'', bl_free = ta_free_margin a, bl_used = ta_margin_used a, bl_total = ta_equity a\<rparr>"

text \<open>
  The snapshot: the counter is taken before the three reads, which follow one another; a failed
  read or an absent account is the answer.
\<close>

definition remote_sync_state ::
  "('v, 'm, 's) remote_calls \<Rightarrow> int \<Rightarrow> 'v remote_state \<Rightarrow> exchange_id \<Rightarrow> (port_error + 'm snapshot) \<times> 'v remote_state" where
  "remote_sync_state C sys s ex =
     (let s = s\<lparr>rm_snapshot_seq := rm_snapshot_seq s + 1\<rparr>; sequence = rm_snapshot_seq s;
          req = \<lparr>ar_exchange_id = Some ex, ar_position_id = '''', ar_fields = rc_no_fields C\<rparr>
      in case remote_account_call C s GetAccount req of
          (Inl e, s) \<Rightarrow> (Inl e, s)
        | (Inr account_resp, s) \<Rightarrow> (case rc_account_of C account_resp of
            None \<Rightarrow> (Inl (MissingField ''GetAccountResponse.account''), s)
          | Some account \<Rightarrow> (case remote_account_call C s GetPositions req of
              (Inl e, s) \<Rightarrow> (Inl e, s)
            | (Inr positions_resp, s) \<Rightarrow>
                (case remote_fetch_open_orders C s \<lparr>foo_exchange_id = Some ex, foo_symbol = ''''\<rparr> of
                  (Inl e, s) \<Rightarrow> (Inl e, s)
                | (Inr open_orders, s) \<Rightarrow>
                    (Inr \<lparr>sn_sequence = sequence, sn_time = Some (ts_from_ms (ms_now sys)),
                          sn_balances = [rc_balance C (aggregate_balance account)],
                          sn_positions = rc_positions_of C positions_resp, sn_open_orders = open_orders\<rparr>, s)))))"

definition remote_gateway ::
  "('v, 'm, 's) remote_calls \<Rightarrow> int \<Rightarrow> ('v \<Rightarrow> cancel_order_request \<Rightarrow> duration) \<Rightarrow> ('v \<Rightarrow> exchange_id \<Rightarrow> duration)
   \<Rightarrow> ('v remote_state, 'm) trading_gateway" where
  "remote_gateway C sys cancel_delay sync_delay =
     \<lparr>gw_create_order = remote_create_order C, gw_batch_create_orders = remote_batch_create_orders C,
      gw_cancel_order = remote_cancel_order C, gw_cancel_all_orders = remote_cancel_all_orders C,
      gw_fetch_open_orders = remote_fetch_open_orders C, gw_account_call = remote_account_call C,
      gw_sync_state = remote_sync_state C sys, gw_cancel_delay = (\<lambda>s. cancel_delay (rm_backend s)),
      gw_sync_delay = (\<lambda>s. sync_delay (rm_backend s))\<rparr>"

section \<open>Market data\<close>

definition remote_fetch_ticker ::
  "('v, 'm, 's) remote_calls \<Rightarrow> 'v remote_state \<Rightarrow> exchange_id \<Rightarrow> string \<Rightarrow> (port_error + ticker) \<times> 'v remote_state" where
  "remote_fetch_ticker C s ex symbol =
     required ''ticker'' (remote_unary SERVICE_MARKET ''FetchTicker'' (rc_fetch_ticker C (rm_backend s) ex symbol) s)"

definition remote_fetch_order_book ::
  "('v, 'm, 's) remote_calls \<Rightarrow> 'v remote_state \<Rightarrow> exchange_id \<Rightarrow> string \<Rightarrow> nat \<Rightarrow> (port_error + order_book) \<times> 'v remote_state" where
  "remote_fetch_order_book C s ex symbol limit =
     required ''orderbook'' (remote_unary SERVICE_MARKET ''FetchOrderBook'' (rc_fetch_order_book C (rm_backend s) ex symbol limit) s)"

definition remote_get_candles ::
  "('v, 'm, 's) remote_calls \<Rightarrow> 'v remote_state \<Rightarrow> exchange_id \<Rightarrow> string \<Rightarrow> timeframe \<Rightarrow> nat \<Rightarrow> (port_error + candle list) \<times> 'v remote_state" where
  "remote_get_candles C s ex symbol tf limit =
     remote_unary SERVICE_MARKET ''GetCandles'' (rc_get_candles C (rm_backend s) ex symbol tf limit) s"

fun market_method_name :: "market_method \<Rightarrow> string" where
  "market_method_name ListSymbols = ''ListSymbols''"
| "market_method_name SearchSymbols = ''SearchSymbols''"
| "market_method_name ListTickers = ''ListTickers''"
| "market_method_name FetchTicker = ''FetchTicker''"
| "market_method_name FetchOrderBook = ''FetchOrderBook''"
| "market_method_name GetCandles = ''GetCandles''"

text \<open>The three catalogue calls, whose messages pass unread.\<close>

definition remote_market_call ::
  "('v, 'm, 's) remote_calls \<Rightarrow> 'v remote_state \<Rightarrow> market_method \<Rightarrow> 'm \<Rightarrow> (port_error + 'm) \<times> 'v remote_state" where
  "remote_market_call C s me req =
     remote_unary SERVICE_MARKET (market_method_name me) (rc_market_call C (rm_backend s) me req) s"

definition remote_market :: "('v, 'm, 's) remote_calls \<Rightarrow> 'v remote_state market_data_source" where
  "remote_market C =
     \<lparr>mds_fetch_ticker = remote_fetch_ticker C, mds_fetch_order_book = remote_fetch_order_book C,
      mds_get_candles = remote_get_candles C\<rparr>"

text \<open>
  One poll of a subscription: the order book for its channel, the ticker for any other one.  The
  counter of the subscription advances whether or not the read succeeds.
\<close>

definition poll_snapshot ::
  "('v, 'm, 's) remote_calls \<Rightarrow> stream_channel \<Rightarrow> exchange_id \<Rightarrow> string \<Rightarrow> u64 \<Rightarrow> 'v remote_state
   \<Rightarrow> (port_error + market_data_event option) \<times> u64 \<times> 'v remote_state" where
  "poll_snapshot C channel ex symbol seq s =
     (let next = seq + 1;
          event = (\<lambda>body. \<lparr>mde_header = Some (default_header\<lparr>hdr_sequence := next\<rparr>), mde_event = Some body,
                           mde_resume_token = nat_to_string (unat next)\<rparr>)
      in if channel = Orderbook
         then (case remote_fetch_order_book C s ex symbol (unat (page_limit_or_default 0)) of
             (Inl e, s) \<Rightarrow> (Inl e, next, s)
           | (Inr book, s) \<Rightarrow> (Inr (Some (event (OrderbookEvent book))), next, s))
         else (case remote_fetch_ticker C s ex symbol of
             (Inl e, s) \<Rightarrow> (Inl e, next, s)
           | (Inr t, s) \<Rightarrow> (Inr (Some (event (TickerEvent t))), next, s)))"

section \<open>Wire records to port records\<close>

text \<open>\<open>i64\<close> milliseconds of a timestamp, saturating.\<close>

definition ms_from_ts :: "timestamp \<Rightarrow> int" where
  "ms_from_ts ts =
     (case Option.bind (checked_i64 (ts_seconds ts * 1000)) (\<lambda>ms. checked_i64 (ms + trunc_div (ts_nanos ts) 1000000)) of
        Some ms \<Rightarrow> ms
      | None \<Rightarrow> if ts_seconds ts > 0 then i64_max else i64_min)"

definition dec :: "'d decimal_api \<Rightarrow> wire_decimal option \<Rightarrow> string \<Rightarrow> port_error + 'd" where
  "dec D d field = (case d of
       None \<Rightarrow> Inl (MissingField field)
     | Some w \<Rightarrow> map_err DecimalError (common_to_decimal (d_parse D) w))"

fun collect_results :: "('e + 'a) list \<Rightarrow> 'e + 'a list" where
  "collect_results [] = Inr []"
| "collect_results (r # rs) = (case r of Inl e \<Rightarrow> Inl e | Inr a \<Rightarrow>
     (case collect_results rs of Inl e \<Rightarrow> Inl e | Inr as \<Rightarrow> Inr (a # as)))"

definition funding_rate_to_port :: "'d decimal_api \<Rightarrow> wire_funding_rate \<Rightarrow> port_error + 'd funding_rate_snapshot" where
  "funding_rate_to_port D rate = (case dec D (wf_rate rate) ''funding_rate.rate'' of
       Inl e \<Rightarrow> Inl e
     | Inr r \<Rightarrow>
         let snap = (\<lambda>mark. \<lparr>frs_symbol = wf_symbol rate, frs_rate = r,
               frs_next_funding_time_ms = wf_next_funding_time_ms rate, frs_mark_price = mark\<rparr>)
         in (case wf_mark_price rate of
              None \<Rightarrow> Inr (snap None)
            | Some w \<Rightarrow> (case common_to_decimal (d_parse D) w of
                Inl e \<Rightarrow> Inl (DecimalError e)
              | Inr mark \<Rightarrow> Inr (snap (Some mark)))))"

definition funding_point_to_port :: "'d decimal_api \<Rightarrow> wire_decimal option \<times> int \<Rightarrow> port_error + 'd funding_rate_point" where
  "funding_point_to_port D p = (case dec D (fst p) ''funding_rate_point.rate'' of
       Inl e \<Rightarrow> Inl e
     | Inr r \<Rightarrow> Inr \<lparr>frp_rate = r, frp_time_ms = snd p\<rparr>)"

definition trigger_side_to_port :: "wire_trigger_order \<Rightarrow> port_error + bool" where
  "trigger_side_to_port ord = (case wo_side ord of
       Known Buy \<Rightarrow> Inr True
     | Known Sell \<Rightarrow> Inr False
     | Known OrderSideUnspecified \<Rightarrow> Inl (InvalidArgument (''trigger order '' @ wo_id ord @ '' has invalid side Unspecified''))
     | Unknown v \<Rightarrow> Inl (InvalidArgument (''trigger order '' @ wo_id ord @ '' has unknown side discriminant '' @ int_to_string v)))"

definition trigger_status_to_port :: "wire_trigger_order \<Rightarrow> port_error + trigger_order_status" where
  "trigger_status_to_port ord = (case wo_status ord of
       Known WireTriggerOpen \<Rightarrow> Inr TriggerOpen
     | Known WireTriggerTriggered \<Rightarrow> Inr TriggerTriggered
     | Known WireTriggerCanceled \<Rightarrow> Inr TriggerCanceled
     | Known WireTriggerRejected \<Rightarrow> Inr TriggerRejected
     | Known WireTriggerUnspecified \<Rightarrow> Inl (InvalidArgument (''trigger order '' @ wo_id ord @ '' has invalid status Unspecified''))
     | Unknown v \<Rightarrow> Inl (InvalidArgument (''trigger order '' @ wo_id ord @ '' has unknown status discriminant '' @ int_to_string v)))"

definition trigger_order_to_port :: "'d decimal_api \<Rightarrow> wire_trigger_order \<Rightarrow> port_error + 'd trigger_order" where
  "trigger_order_to_port D ord = (case trigger_side_to_port ord of
       Inl e \<Rightarrow> Inl e
     | Inr is_buy \<Rightarrow> (case trigger_status_to_port ord of
         Inl e \<Rightarrow> Inl e
       | Inr status \<Rightarrow> (case dec D (wo_trigger_price ord) ''trigger_price'' of
           Inl e \<Rightarrow> Inl e
         | Inr price \<Rightarrow> (case dec D (wo_qty ord) ''qty'' of
             Inl e \<Rightarrow> Inl e
           | Inr qty \<Rightarrow>
               Inr \<lparr>to_id = wo_id ord, to_client_order_id = wo_client_order_id ord, to_symbol = wo_symbol ord,
                    to_is_buy = is_buy, to_trigger_price = price, to_qty = qty, to_reduce_only = wo_reduce_only ord,
                    to_status = status,
                    to_created_at_ms = (case wo_created_at ord of None \<Rightarrow> 0 | Some ts \<Rightarrow> ms_from_ts ts),
                    to_order_id = wo_order_id ord, to_triggered_at_ms = map_option ms_from_ts (wo_triggered_at ord)\<rparr>))))"

fun param_type_from_wire :: "wire_param_type enum_value \<Rightarrow> venue_op_param_type" where
  "param_type_from_wire (Known WireString) = ParamString"
| "param_type_from_wire (Known WireInt64) = ParamInt64"
| "param_type_from_wire (Known WireDecimal) = ParamDecimal"
| "param_type_from_wire (Known WireBool) = ParamBool"
| "param_type_from_wire (Known WireEnum) = ParamEnum"
| "param_type_from_wire (Known WireList) = ParamList"
| "param_type_from_wire (Known WireMap) = ParamMap"
| "param_type_from_wire (Known WireUnspecified) = ParamUnspecified"
| "param_type_from_wire (Unknown v) = ParamUnspecified"

definition op_descriptor_to_port :: "wire_op_descriptor \<Rightarrow> port_error + venue_op_descriptor" where
  "op_descriptor_to_port d = Inr
     \<lparr>vd_name = wd_name d, vd_category = wd_category d, vd_summary = wd_summary d, vd_mutating = wd_mutating d,
      vd_params = map (\<lambda>p. \<lparr>vp_name = wp_name p, vp_type = param_type_from_wire (wp_type p),
        vp_required = wp_required p, vp_doc = wp_doc p, vp_enum_values = wp_enum_values p\<rparr>) (wd_params d)\<rparr>"

definition ascii_lower :: "char \<Rightarrow> char" where
  "ascii_lower c = (if 65 \<le> (of_char c :: nat) \<and> (of_char c :: nat) \<le> 90 then char_of (of_char c + 32 :: nat) else c)"

definition eq_ignore_ascii_case :: "string \<Rightarrow> string \<Rightarrow> bool" where
  "eq_ignore_ascii_case a b = (map ascii_lower a = map ascii_lower b)"

definition wrap_i64 :: "int \<Rightarrow> int" where
  "wrap_i64 x = sint (word_of_int x :: 64 word)"

text \<open>The sign comes from the direction; the time is multiplied out without the saturation above and wraps.\<close>

definition ledger_entry_to_port :: "'d decimal_api \<Rightarrow> wire_ledger_entry \<Rightarrow> port_error + 'd ledger_entry" where
  "ledger_entry_to_port D entry = (case dec D (wl_amount entry) ''ledger_entry.amount'' of
       Inl e \<Rightarrow> Inl e
     | Inr magnitude \<Rightarrow> Inr
         \<lparr>lg_id = wl_id entry, lg_currency = wl_currency entry,
          lg_amount = (if eq_ignore_ascii_case (wl_direction entry) ''out'' then d_neg D magnitude else magnitude),
          lg_entry_type = wl_type entry, lg_completed = eq_ignore_ascii_case (wl_status entry) ''completed'',
          lg_time_ms = (case wl_timestamp entry of None \<Rightarrow> 0
             | Some ts \<Rightarrow> wrap_i64 (ts_seconds ts * 1000 + trunc_div (ts_nanos ts) 1000000))\<rparr>)"

section \<open>Capability ports\<close>

definition then_convert :: "('a \<Rightarrow> port_error + 'b) \<Rightarrow> (port_error + 'a) \<times> 's \<Rightarrow> (port_error + 'b) \<times> 's" where
  "then_convert f res = (case res of (Inl e, s) \<Rightarrow> (Inl e, s) | (Inr a, s) \<Rightarrow> (f a, s))"

definition remote_fetch_funding_rate ::
  "'d decimal_api \<Rightarrow> ('v, 'm, 's) remote_calls \<Rightarrow> 'v remote_state \<Rightarrow> exchange_id \<Rightarrow> string
   \<Rightarrow> (port_error + 'd funding_rate_snapshot) \<times> 'v remote_state" where
  "remote_fetch_funding_rate D C s ex symbol =
     (if is_blank symbol then (Inl (MissingField ''symbol''), s)
      else then_convert (\<lambda>resp. case resp of
               None \<Rightarrow> Inl (NotFound (''no funding rate for '' @ ex_id ex @ ''/'' @ symbol))
             | Some rate \<Rightarrow> funding_rate_to_port D rate)
           (remote_unary SERVICE_MARKET ''FetchFundingRate'' (rc_fetch_funding_rate C (rm_backend s) ex symbol) s))"

definition remote_fetch_funding_rate_history ::
  "'d decimal_api \<Rightarrow> ('v, 'm, 's) remote_calls \<Rightarrow> 'v remote_state \<Rightarrow> exchange_id \<Rightarrow> string \<Rightarrow> u32
   \<Rightarrow> (port_error + 'd funding_rate_point list) \<times> 'v remote_state" where
  "remote_fetch_funding_rate_history D C s ex symbol limit =
     (if is_blank symbol then (Inl (MissingField ''symbol''), s)
      else then_convert (\<lambda>points. collect_results (map (funding_point_to_port D) points))
           (remote_unary SERVICE_MARKET ''FetchFundingRateHistory''
             (rc_fetch_funding_rate_history C (rm_backend s) ex symbol (page_limit_or_default limit)) s))"

definition remote_list_funding_rates ::
  "'d decimal_api \<Rightarrow> ('v, 'm, 's) remote_calls \<Rightarrow> 'v remote_state \<Rightarrow> exchange_id \<Rightarrow> string list
   \<Rightarrow> (port_error + 'd funding_rate_snapshot list) \<times> 'v remote_state" where
  "remote_list_funding_rates D C s ex symbols =
     then_convert (\<lambda>rates. collect_results (map (funding_rate_to_port D) rates))
       (remote_unary SERVICE_MARKET ''ListFundingRates'' (rc_list_funding_rates C (rm_backend s) ex symbols) s)"

definition remote_trigger_message :: "'d decimal_api \<Rightarrow> 'd trigger_order_request \<Rightarrow> wire_trigger_request" where
  "remote_trigger_message D req =
     \<lparr>wt_client_order_id = tor_client_order_id req, wt_symbol = tor_symbol req,
      wt_side = Known (if tor_is_buy req then Buy else Sell),
      wt_trigger_price = Some (decimal_to_common (d_show D) (tor_trigger_price req)),
      wt_qty = Some (decimal_to_common (d_show D) (tor_qty req)), wt_reduce_only = tor_reduce_only req,
      wt_trigger_type = Known LastPrice, wt_order_price = None, wt_order_type = Known Market\<rparr>"

definition remote_create_trigger_order ::
  "'d decimal_api \<Rightarrow> ('v, 'm, 's) remote_calls \<Rightarrow> 'v remote_state \<Rightarrow> exchange_id \<Rightarrow> 'd trigger_order_request
   \<Rightarrow> (port_error + 'd trigger_order) \<times> 'v remote_state" where
  "remote_create_trigger_order D C s ex req =
     (if is_blank (tor_symbol req) then (Inl (MissingField ''symbol''), s)
      else if d_is_sign_negative D (tor_qty req) \<or> d_is_zero D (tor_qty req)
      then (Inl (InvalidArgument (''trigger order qty must be positive, got '' @ d_show D (tor_qty req))), s)
      else if d_is_sign_negative D (tor_trigger_price req) \<or> d_is_zero D (tor_trigger_price req)
      then (Inl (InvalidArgument (''trigger order trigger_price must be positive, got '' @ d_show D (tor_trigger_price req))), s)
      else then_convert (\<lambda>resp. case resp of
               None \<Rightarrow> Inl (Transport ''venue returned no trigger order'')
             | Some ord \<Rightarrow>
                 if wo_id ord = [] then Inl (Transport ''venue returned a trigger order with no id'')
                 else trigger_order_to_port D ord)
           (remote_unary SERVICE_TRADING ''CreateTriggerOrder''
             (rc_create_trigger_order C (rm_backend s)
               \<lparr>ctr_exchange_id = Some ex, ctr_order = Some (remote_trigger_message D req), ctr_session_id = ''''\<rparr>) s))"

definition remote_cancel_trigger_order ::
  "'d decimal_api \<Rightarrow> ('v, 'm, 's) remote_calls \<Rightarrow> 'v remote_state \<Rightarrow> exchange_id \<Rightarrow> string \<Rightarrow> string
   \<Rightarrow> (port_error + 'd trigger_order) \<times> 'v remote_state" where
  "remote_cancel_trigger_order D C s ex order_id symbol =
     (if is_blank order_id then (Inl (MissingField ''order_id''), s)
      else then_convert (trigger_order_to_port D)
           (required ''order'' (remote_unary SERVICE_TRADING ''CancelTriggerOrder''
             (rc_cancel_trigger_order C (rm_backend s) ex order_id symbol) s)))"

definition remote_list_trigger_orders ::
  "'d decimal_api \<Rightarrow> ('v, 'm, 's) remote_calls \<Rightarrow> 'v remote_state \<Rightarrow> exchange_id \<Rightarrow> string list
   \<Rightarrow> (port_error + 'd trigger_order list) \<times> 'v remote_state" where
  "remote_list_trigger_orders D C s ex symbols =
     then_convert (\<lambda>ords. collect_results (map (trigger_order_to_port D) ords))
       (remote_unary SERVICE_TRADING ''ListTriggerOrders'' (rc_list_trigger_orders C (rm_backend s) ex symbols) s)"

definition remote_invoke_venue_op ::
  "('v, 'm, 's) remote_calls \<Rightarrow> 'v remote_state \<Rightarrow> exchange_id \<Rightarrow> string \<Rightarrow> (string \<times> json) list
   \<Rightarrow> (port_error + json) \<times> 'v remote_state" where
  "remote_invoke_venue_op C s ex op params =
     (if is_blank op then (Inl (MissingField ''op''), s)
      else case rc_json_to_struct C (JObject params) of
          Inl e \<Rightarrow> (Inl (InvalidArgument (''params not a Struct: '' @ e)), s)
        | Inr st \<Rightarrow> then_convert (\<lambda>r. map_err (\<lambda>e. Transport (''result not JSON: '' @ e)) (rc_struct_to_json C r))
            (required ''result'' (remote_unary OPS_SERVICE ''InvokeVenueOp'' (rc_invoke_venue_op C (rm_backend s) (ex_id ex) op st) s)))"

definition remote_list_venue_ops ::
  "('v, 'm, 's) remote_calls \<Rightarrow> 'v remote_state \<Rightarrow> exchange_id \<Rightarrow> (port_error + venue_op_descriptor list) \<times> 'v remote_state" where
  "remote_list_venue_ops C s ex =
     then_convert (\<lambda>ops. collect_results (map op_descriptor_to_port ops))
       (remote_unary OPS_SERVICE ''ListVenueOps'' (rc_list_venue_ops C (rm_backend s) (ex_id ex)) s)"

definition remote_describe_venue_op ::
  "('v, 'm, 's) remote_calls \<Rightarrow> 'v remote_state \<Rightarrow> exchange_id \<Rightarrow> string
   \<Rightarrow> (port_error + venue_op_descriptor) \<times> 'v remote_state" where
  "remote_describe_venue_op C s ex op =
     (if is_blank op then (Inl (MissingField ''op''), s)
      else then_convert (\<lambda>resp. case resp of
               None \<Rightarrow> Inl (NotFound (''venue operation '' @ op))
             | Some d \<Rightarrow> op_descriptor_to_port d)
           (remote_unary OPS_SERVICE ''DescribeVenueOp'' (rc_describe_venue_op C (rm_backend s) (ex_id ex) op) s))"

definition remote_list_ledger_entries ::
  "'d decimal_api \<Rightarrow> ('v, 'm, 's) remote_calls \<Rightarrow> 'v remote_state \<Rightarrow> exchange_id \<Rightarrow> string \<Rightarrow> string \<Rightarrow> u32
   \<Rightarrow> (port_error + 'd ledger_entry list) \<times> 'v remote_state" where
  "remote_list_ledger_entries D C s ex currency entry_type limit =
     then_convert (\<lambda>entries. collect_results (map (ledger_entry_to_port D) entries))
       (remote_unary SERVICE_TRADING ''FetchLedgerEntries''
         (rc_fetch_ledger_entries C (rm_backend s) ex currency entry_type (ucast (page_limit_or_default limit))) s)"

definition remote_transfer ::
  "'d decimal_api \<Rightarrow> ('v, 'm, 's) remote_calls \<Rightarrow> 'v remote_state \<Rightarrow> exchange_id \<Rightarrow> string \<Rightarrow> 'd \<Rightarrow> string \<Rightarrow> string
   \<Rightarrow> (port_error + 'd transfer_receipt) \<times> 'v remote_state" where
  "remote_transfer D C s ex asset amount dest_label client_transfer_id =
     (if is_blank asset then (Inl (MissingField ''asset''), s)
      else if d_is_sign_negative D amount \<or> d_is_zero D amount
      then (Inl (InvalidArgument (''transfer amount must be positive, got '' @ d_show D amount)), s)
      else if is_blank dest_label then (Inl (MissingField ''dest_label''), s)
      else then_convert (\<lambda>(transfer_id, entry). case entry of
               None \<Rightarrow> Inr \<lparr>tr_transfer_id = transfer_id, tr_entry = None\<rparr>
             | Some w \<Rightarrow> (case ledger_entry_to_port D w of
                 Inl e \<Rightarrow> Inl e
               | Inr l \<Rightarrow> Inr \<lparr>tr_transfer_id = transfer_id, tr_entry = Some l\<rparr>))
           (remote_unary SERVICE_TRADING ''Transfer''
             (rc_transfer C (rm_backend s) \<lparr>trq_exchange_id = Some ex, trq_asset = asset,
                trq_amount = Some (decimal_to_common (d_show D) amount), trq_dest_label = dest_label,
                trq_client_transfer_id = client_transfer_id, trq_session_id = ''''\<rparr>) s))"

end
