(* ===== verification/Remote_Link.thy ===== *)
theory Remote_Link
  imports Remote Risk_Safety
begin

text \<open>
  A worker whose backend is another worker: the remote adapter of the one, a network that may lose
  requests and responses, and the proxies of the other.  The link keeps the gateway contract the
  session manager relies on, records survive the two conversions, timestamps keep their order.
\<close>

section \<open>The link\<close>

datatype fate = Delivered | RequestLost | ResponseLost

record 'v link =
  ln_server :: "'v session_manager"
  ln_calls :: nat

text \<open>
  One call: \<open>fates\<close> says what happens to the message of each call, \<open>status\<close> is the HTTP status
  the RPC library gives an error and \<open>body\<close> its body.
\<close>

record wire_errors =
  we_status :: "connect_error \<Rightarrow> nat"
  we_body :: "connect_error \<Rightarrow> string"

definition over_link ::
  "(nat \<Rightarrow> fate) \<Rightarrow> wire_errors \<Rightarrow> ('v session_manager \<Rightarrow> (connect_error + 'r) \<times> 'v session_manager) \<Rightarrow> 'v link
   \<Rightarrow> (transport_error + 'r) \<times> 'v link" where
  "over_link fates W call l =
     (let (r, m) = call (ln_server l); l' = l\<lparr>ln_calls := Suc (ln_calls l)\<rparr>
      in case fates (ln_calls l) of
           RequestLost \<Rightarrow> (Inl (HttpError ''deadline exceeded''), l')
         | ResponseLost \<Rightarrow> (Inl (HttpError ''deadline exceeded''), l'\<lparr>ln_server := m\<rparr>)
         | Delivered \<Rightarrow> (map_err (\<lambda>e. RpcStatus (of_nat (we_status W e)) (we_body W e)) r, l'\<lparr>ln_server := m\<rparr>))"

definition wrap_some :: "(connect_error + 'r) \<times> 'v \<Rightarrow> (connect_error + 'r option) \<times> 'v" where
  "wrap_some res = (map_sum id Some (fst res), snd res)"

text \<open>The calls a trading proxy serves; the accessors and the other services come from \<open>base\<close>.\<close>

definition linked_calls ::
  "(nat \<Rightarrow> fate) \<Rightarrow> wire_errors \<Rightarrow> ('v, 'm, 'd) trading_proxy \<Rightarrow> ('v session_manager \<Rightarrow> 'v session_manager)
   \<Rightarrow> ('v link, 'm, 's) remote_calls \<Rightarrow> ('v link, 'm, 's) remote_calls" where
  "linked_calls fates W P others base = base
     \<lparr>rc_create_order := (\<lambda>l req. over_link fates W (\<lambda>m. wrap_some (proxy_create_order P others others req m)) l),
      rc_create_orders := (\<lambda>l req. over_link fates W (proxy_create_orders P others others req) l),
      rc_cancel_order := (\<lambda>l req. over_link fates W (\<lambda>m. wrap_some (proxy_cancel_order P req m)) l),
      rc_cancel_all_orders := (\<lambda>l req. over_link fates W (proxy_cancel_all_orders P req) l),
      rc_fetch_open_orders := (\<lambda>l req. over_link fates W (proxy_fetch_open_orders P req) l),
      rc_account_call := (\<lambda>l me req. over_link fates W (proxy_account_call P me req) l),
      rc_create_trigger_order := (\<lambda>l req. over_link fates W (\<lambda>m. wrap_some (proxy_create_trigger_order P req m)) l),
      rc_cancel_trigger_order := (\<lambda>l ex i symbol. over_link fates W (\<lambda>m. wrap_some (proxy_cancel_trigger_order P (Some ex) i symbol m)) l),
      rc_list_trigger_orders := (\<lambda>l ex symbols. over_link fates W (proxy_list_trigger_orders P (Some ex) symbols) l),
      rc_fetch_ledger_entries := (\<lambda>l ex currency ty limit. over_link fates W
        (\<lambda>m. let (r, m) = proxy_fetch_ledger_entries P (Some ex) currency ty (Some limit) m in (map_sum id fst r, m)) l),
      rc_transfer := (\<lambda>l req. over_link fates W (proxy_transfer P req) l)\<rparr>"

lemma linked_calls_simps [simp]:
  "rc_cancel_order (linked_calls fates W P others base) =
     (\<lambda>l req. over_link fates W (\<lambda>m. wrap_some (proxy_cancel_order P req m)) l)"
  "rc_cancel_all_orders (linked_calls fates W P others base) = (\<lambda>l req. over_link fates W (proxy_cancel_all_orders P req) l)"
  "rc_create_trigger_order (linked_calls fates W P others base) =
     (\<lambda>l req. over_link fates W (\<lambda>m. wrap_some (proxy_create_trigger_order P req m)) l)"
  "rc_cancel_trigger_order (linked_calls fates W P others base) =
     (\<lambda>l ex i symbol. over_link fates W (\<lambda>m. wrap_some (proxy_cancel_trigger_order P (Some ex) i symbol m)) l)"
  "rc_list_trigger_orders (linked_calls fates W P others base) =
     (\<lambda>l ex symbols. over_link fates W (proxy_list_trigger_orders P (Some ex) symbols) l)"
  by (simp_all add: linked_calls_def)

section \<open>The gateway contract over the link\<close>

lemma over_link_ok:
  assumes "over_link fates W call l = (Inr r, l')"
  shows "\<exists>m. call (ln_server l) = (Inr r, m) \<and> ln_server l' = m"
  using assms by (auto simp: over_link_def Let_def split: prod.splits fate.splits sum.splits) (auto simp: map_err_def split: sum.splits)

lemma over_link_server:
  assumes "over_link fates W call l = (res, l')"
  shows "ln_server l' = ln_server l \<or> ln_server l' = snd (call (ln_server l))"
  using assms by (auto simp: over_link_def Let_def split: prod.splits fate.splits)

definition far_venue :: "'v link remote_state \<Rightarrow> 'v" where
  "far_venue s = m_venue (ln_server (rm_backend s))"

lemma unary_ok:
  assumes "remote_unary service meth res s = (Inr r, s')"
  shows "\<exists>v. res = (Inr r, v) \<and> rm_backend s' = v"
  using assms by (cases res) (auto simp: remote_unary_def map_err_def split: sum.splits)

lemma unary_backend: "rm_backend (snd (remote_unary service meth res s)) = snd res"
  by (simp add: remote_unary_def split: prod.splits)

lemma required_ok: "required field res = (Inr r, s') \<Longrightarrow> res = (Inr (Some r), s')"
  by (auto simp: required_def split: prod.splits sum.splits option.splits)

lemma required_state: "snd (required field res) = snd res"
  by (auto simp: required_def split: prod.splits sum.splits option.splits)

context venue_contract
begin

lemma remote_cancel_far:
  assumes gw: "tp_gateway P = gw" and c: "remote_cancel_order (linked_calls fates W P others base) s req = (res, s')"
  shows "\<exists>req' r v. can_order_id req' = can_order_id req \<and> gw_cancel_order gw (far_venue s) req' = (r, v)
    \<and> (far_venue s' = far_venue s \<or> far_venue s' = v) \<and> (is_ok res \<longrightarrow> is_ok r \<and> far_venue s' = v)"
proof -
  let ?req = "req\<lparr>can_exchange_id := Some (resolved_exchange (can_exchange_id req) (tp_default_exchange P))\<rparr>"
  let ?call = "\<lambda>m. wrap_some (proxy_cancel_order P req m)"
  obtain r v where r: "gw_cancel_order gw (far_venue s) ?req = (r, v)" by (rule prod.exhaust)
  obtain lres l' where l: "over_link fates W ?call (rm_backend s) = (lres, l')" by (rule prod.exhaust)
  have call: "?call (ln_server (rm_backend s)) = (map_sum id Some (map_err (map_port (tp_grpc P)) r), (ln_server (rm_backend s))\<lparr>m_venue := v\<rparr>)"
    using r gw by (simp add: wrap_some_def proxy_cancel_order_def answer_def far_venue_def)
  have res: "required ''order'' (remote_unary SERVICE_TRADING ''CancelOrder'' (lres, l') s) = (res, s')"
    using c l by (simp add: remote_cancel_order_def)
  then have "rm_backend s' = l'"
    using required_state [of "''order''" "remote_unary SERVICE_TRADING ''CancelOrder'' (lres, l') s"]
      unary_backend [of SERVICE_TRADING "''CancelOrder''" "(lres, l')" s] by simp
  moreover have "is_ok r \<and> ln_server l' = (ln_server (rm_backend s))\<lparr>m_venue := v\<rparr>" if "is_ok res"
  proof -
    from that obtain ord where "res = Inr ord" by (cases res) auto
    then have "lres = Inr (Some ord)"
      using unary_ok [OF required_ok, of "''order''" SERVICE_TRADING "''CancelOrder''" "(lres, l')" s] res by simp
    then show ?thesis using over_link_ok [of fates W ?call "rm_backend s" "Some ord" l'] l call by (cases r) auto
  qed
  ultimately show ?thesis
    using over_link_server [OF l] call r by (intro exI [of _ ?req] exI [of _ r] exI [of _ v]) (auto simp: far_venue_def)
qed

lemma remote_cancel_all_far:
  assumes gw: "tp_gateway P = gw" and c: "remote_cancel_all_orders (linked_calls fates W P others base) s req = (res, s')"
  shows "\<exists>req' r v. caa_symbol req' = caa_symbol req \<and> gw_cancel_all_orders gw (far_venue s) req' = (r, v)
    \<and> (far_venue s' = far_venue s \<or> far_venue s' = v) \<and> (is_ok res \<longrightarrow> is_ok r \<and> far_venue s' = v)"
proof -
  let ?req = "req\<lparr>caa_exchange_id := Some (resolved_exchange (caa_exchange_id req) (tp_default_exchange P))\<rparr>"
  obtain r v where r: "gw_cancel_all_orders gw (far_venue s) ?req = (r, v)" by (rule prod.exhaust)
  obtain lres l' where l: "over_link fates W (proxy_cancel_all_orders P req) (rm_backend s) = (lres, l')" by (rule prod.exhaust)
  have call: "proxy_cancel_all_orders P req (ln_server (rm_backend s)) =
      (map_err (map_port (tp_grpc P)) r, (ln_server (rm_backend s))\<lparr>m_venue := v\<rparr>)"
    using r gw by (simp add: proxy_cancel_all_orders_def answer_def far_venue_def)
  have res: "remote_unary SERVICE_TRADING ''CancelAllOrders'' (lres, l') s = (res, s')"
    using c l by (simp add: remote_cancel_all_orders_def)
  then have "rm_backend s' = l'" using unary_backend [of SERVICE_TRADING "''CancelAllOrders''" "(lres, l')" s] by simp
  moreover have "is_ok r \<and> ln_server l' = (ln_server (rm_backend s))\<lparr>m_venue := v\<rparr>" if "is_ok res"
  proof -
    from that obtain ords where "res = Inr ords" by (cases res) auto
    then have "lres = Inr ords" using unary_ok [of SERVICE_TRADING "''CancelAllOrders''" "(lres, l')" s] res by simp
    then show ?thesis using over_link_ok [of fates W "proxy_cancel_all_orders P req" "rm_backend s" ords l'] l call by (cases r) auto
  qed
  ultimately show ?thesis
    using over_link_server [OF l] call r by (intro exI [of _ ?req] exI [of _ r] exI [of _ v]) (auto simp: far_venue_def)
qed

lemma linked_contract:
  assumes gw: "tp_gateway P = gw"
  shows "venue_contract (remote_gateway (linked_calls fates W P others base) sys cd sd)
    (\<lambda>s. resting (far_venue s)) (\<lambda>s. vok (far_venue s))"
proof
  let ?C = "linked_calls fates W P others base"
  fix s s' :: "'v link remote_state" and req i ord res areq ords ares
  assume ok: "vok (far_venue s)"
  { assume "gw_cancel_order (remote_gateway ?C sys cd sd) s req = (Inr ord, s')"
    then have "remote_cancel_order ?C s req = (Inr ord, s')" by (simp add: remote_gateway_def)
    from remote_cancel_far [OF gw this] show "\<not> resting (far_venue s') (can_order_id req)"
      using cancel_accepted [OF ok] by (metis is_ok_simps old.sum.exhaust) }
  { assume "gw_cancel_order (remote_gateway ?C sys cd sd) s req = (res, s')"
    then have "remote_cancel_order ?C s req = (res, s')" by (simp add: remote_gateway_def)
    note far = remote_cancel_far [OF gw this]
    show "resting (far_venue s') i \<Longrightarrow> resting (far_venue s) i" using far cancel_no_birth [OF ok] by metis
    show "vok (far_venue s')" using far ok cancel_ok [OF ok] by metis }
  { assume "gw_cancel_all_orders (remote_gateway ?C sys cd sd) s areq = (Inr ords, s')" and sym: "caa_symbol areq = []"
    then have "remote_cancel_all_orders ?C s areq = (Inr ords, s')" by (simp add: remote_gateway_def)
    from remote_cancel_all_far [OF gw this] show "\<not> resting (far_venue s') i"
      using cancel_all_accepted [OF ok] sym by (metis is_ok_simps old.sum.exhaust) }
  { assume "gw_cancel_all_orders (remote_gateway ?C sys cd sd) s areq = (ares, s')"
    then have "remote_cancel_all_orders ?C s areq = (ares, s')" by (simp add: remote_gateway_def)
    note far = remote_cancel_all_far [OF gw this]
    show "resting (far_venue s') i \<Longrightarrow> resting (far_venue s) i" using far cancel_all_no_birth [OF ok] by metis
    show "vok (far_venue s')" using far ok cancel_all_ok [OF ok] by metis }
qed

end

interpretation remote_mock: venue_contract
  "remote_gateway (linked_calls fates W (P\<lparr>tp_gateway := mock_gateway D sys'\<rparr>) others base) sys cd sd"
  "\<lambda>s. mock_resting (far_venue s)" "\<lambda>s. mock_ok (far_venue s)"
  by (rule mock.linked_contract) simp

text \<open>
  C28: a worker that trades through another worker can rely on the gateway contract that the far
  venue honours, whatever the network loses: an accepted cancel, or an accepted cancel of
  everything, leaves nothing of it resting at the far venue, and neither of them, accepted or
  failed, brings an order to life there.
\<close>
theorem remote_keeps_contract:
  assumes "venue_contract (tp_gateway P) resting vok"
  shows "venue_contract (remote_gateway (linked_calls fates W P others base) sys cancel_delay sync_delay)
    (\<lambda>s. resting (far_venue s)) (\<lambda>s. vok (far_venue s))"
  by (rule venue_contract.linked_contract [OF assms refl])

section \<open>Records over the link\<close>

text \<open>The decimal text form is read back as it was written.\<close>

definition reads_back :: "'d decimal_api \<Rightarrow> bool" where
  "reads_back D \<longleftrightarrow> (\<forall>d. common_to_decimal (d_parse D) (decimal_to_common (d_show D) d) = Inr d)"

lemma ms_from_ts_canonical:
  assumes "0 \<le> ts_nanos ts" and "ts_nanos ts < 1000000000"
  shows "ms_from_ts ts = (if ts_seconds ts * 1000 < i64_min then i64_min
    else min i64_max (ts_seconds ts * 1000 + ts_nanos ts div 1000000))"
proof -
  have n: "trunc_div (ts_nanos ts) 1000000 = ts_nanos ts div 1000000" "0 \<le> ts_nanos ts div 1000000"
    using assms by (cases "ts_nanos ts = 0"; simp add: trunc_div_def pos_imp_zdiv_nonneg_iff)+
  consider "ts_seconds ts * 1000 < i64_min" | "i64_min \<le> ts_seconds ts * 1000" "ts_seconds ts * 1000 \<le> i64_max"
    | "i64_max < ts_seconds ts * 1000" by linarith
  then show ?thesis
  proof cases
    case 1
    then show ?thesis by (simp add: ms_from_ts_def checked_i64_def i64_min_def)
  next
    case 2
    show ?thesis
    proof (cases "ts_seconds ts * 1000 + ts_nanos ts div 1000000 \<le> i64_max")
      case True
      then show ?thesis using 2 n by (simp add: ms_from_ts_def checked_i64_def)
    next
      case False
      have "ts_nanos ts div 1000000 < 1000" using assms by simp
      then have "0 < ts_seconds ts" using False by (simp add: i64_max_def)
      then show ?thesis using 2 n False by (simp add: ms_from_ts_def checked_i64_def)
    qed
  next
    case 3
    then show ?thesis using n by (auto simp: ms_from_ts_def checked_i64_def i64_max_def i64_min_def)
  qed
qed

lemma ms_from_ts_roundtrip:
  assumes "i64_min \<le> ms div 1000 * 1000" and "ms \<le> i64_max"
  shows "ms_from_ts (timestamp_from_ms ms) = ms"
proof -
  have "ts_seconds (timestamp_from_ms ms) = ms div 1000" by (simp add: timestamp_from_ms_def)
  then show ?thesis
    using timestamp_from_ms_exact [of ms] ms_from_ts_canonical [of "timestamp_from_ms ms"] assms by (simp add: min_def)
qed

text \<open>
  The millisecond reading of remote timestamps is exact in the range of the type, saturates
  outside it, and never reorders two canonical timestamps; a timestamp built from milliseconds is
  read back as those milliseconds.
\<close>
theorem remote_timestamps_keep_order:
  assumes "0 \<le> ts_nanos a" and "ts_nanos a < 1000000000" and "0 \<le> ts_nanos b" and "ts_nanos b < 1000000000"
    and "ts_seconds a * 1000000000 + ts_nanos a \<le> ts_seconds b * 1000000000 + ts_nanos b"
    and "i64_min \<le> ms div 1000 * 1000" and "ms \<le> i64_max"
  shows "ms_from_ts a \<le> ms_from_ts b \<and> i64_min \<le> ms_from_ts a \<and> ms_from_ts a \<le> i64_max
    \<and> (i64_min \<le> ts_seconds a * 1000 \<and> ts_seconds a * 1000 + ts_nanos a div 1000000 \<le> i64_max
        \<longrightarrow> ms_from_ts a = ts_seconds a * 1000 + ts_nanos a div 1000000)
    \<and> ms_from_ts (ts_from_ms ms) = ms"
proof -
  note a = ms_from_ts_canonical [OF assms(1,2)] and b = ms_from_ts_canonical [OF assms(3,4)]
  have "ts_seconds a \<le> ts_seconds b" using assms(1-5) by linarith
  moreover have "ts_seconds a * 1000 + ts_nanos a div 1000000 \<le> ts_seconds b * 1000 + ts_nanos b div 1000000"
  proof (cases "ts_seconds a = ts_seconds b")
    case True
    then show ?thesis using assms(5) by (simp add: zdiv_mono1)
  next
    case False
    then have "ts_seconds a + 1 \<le> ts_seconds b" using \<open>ts_seconds a \<le> ts_seconds b\<close> by simp
    moreover have "ts_nanos a div 1000000 < 1000" "0 \<le> ts_nanos b div 1000000" using assms(1-4) by simp_all
    ultimately show ?thesis by linarith
  qed
  moreover have "0 \<le> ts_nanos b div 1000000" using assms(3) by (simp add: pos_imp_zdiv_nonneg_iff)
  ultimately have "ms_from_ts a \<le> ms_from_ts b" unfolding a b by (auto simp: i64_min_def i64_max_def)
  moreover have "0 \<le> ts_nanos a div 1000000" using assms(1) by simp
  then have "i64_min \<le> ms_from_ts a \<and> ms_from_ts a \<le> i64_max"
    unfolding a by (auto simp: i64_min_def i64_max_def)
  moreover have "ts_from_ms ms = timestamp_from_ms ms" by (simp add: ts_from_ms_def timestamp_from_ms_def)
  ultimately show ?thesis using ms_from_ts_roundtrip [OF assms(6,7)] by (auto simp: a)
qed

definition i64_time :: "int \<Rightarrow> bool" where
  "i64_time ms \<longleftrightarrow> i64_min \<le> ms div 1000 * 1000 \<and> ms \<le> i64_max"

lemma trigger_roundtrip:
  assumes "reads_back D" and "i64_time (to_created_at_ms ord)" and "pred_option i64_time (to_triggered_at_ms ord)"
  shows "trigger_order_to_port D (trigger_order_to_unified D ord) = Inr ord"
proof -
  have d: "dec D (Some (decimal_to_common (d_show D) x)) field = Inr x" for x field
    using assms(1) by (simp add: dec_def reads_back_def)
  have t: "map_option ms_from_ts (map_option timestamp_from_ms (to_triggered_at_ms ord)) = to_triggered_at_ms ord"
    using assms(3) by (cases "to_triggered_at_ms ord") (auto simp: i64_time_def ms_from_ts_roundtrip)
  show ?thesis
    using assms(2) t d
    by (cases "to_status ord") (auto simp: trigger_order_to_port_def trigger_order_to_unified_def trigger_side_to_port_def
        trigger_status_to_port_def i64_time_def ms_from_ts_roundtrip)
qed

lemma trigger_request_roundtrip:
  "reads_back D \<Longrightarrow> trigger_request_from_unified D (Some (remote_trigger_message D req)) = Inr req"
  by (auto simp: trigger_request_from_unified_def remote_trigger_message_def required_decimal_def reads_back_def)

lemma param_type_roundtrip: "param_type_from_wire (Known (param_type_to_wire t)) = t"
  by (cases t) simp_all

lemma descriptor_roundtrip: "op_descriptor_to_port (op_descriptor_to_wire d) = Inr d"
  by (cases d) (auto simp: op_descriptor_to_port_def op_descriptor_to_wire_def param_type_roundtrip intro!: map_idI)

lemma funding_roundtrip:
  "reads_back D \<Longrightarrow> funding_rate_to_port D (funding_snapshot_to_unified D snap) = Inr snap"
  "reads_back D \<Longrightarrow> funding_point_to_port D (funding_point_to_unified D point) = Inr point"
  by (auto simp: funding_rate_to_port_def funding_snapshot_to_unified_def funding_point_to_port_def funding_point_to_unified_def
      dec_def reads_back_def split: option.splits)

lemma collect_map: "(\<And>x. x \<in> set xs \<Longrightarrow> f (g x) = Inr x) \<Longrightarrow> collect_results (map f (map g xs)) = Inr xs"
  by (induction xs) auto

definition delivered_error :: "wire_errors \<Rightarrow> connect_error \<Rightarrow> port_error" where
  "delivered_error W e = Rpc (of_nat (we_status W e)) (we_body W e)"

lemma delivered:
  assumes "fates (ln_calls l) = Delivered" and "call (ln_server l) = (r, m)"
  shows "over_link fates W call l =
    (map_err (\<lambda>e. RpcStatus (of_nat (we_status W e)) (we_body W e)) r, \<lparr>ln_server = m, ln_calls = Suc (ln_calls l)\<rparr>)"
  using assms by (cases l) (simp add: over_link_def Let_def)

text \<open>
  When no message is lost, the conditional orders a worker lists through another worker are
  exactly the ones the far venue lists, field by field, and the request and the record conversions
  of the two workers cancel out: the far worker reads the request that was made, and funding rates
  and operation descriptors arrive as they were sent.
\<close>
theorem remote_records_roundtrip:
  assumes "reads_back (tp_decimal P)" and "fates (ln_calls (rm_backend s)) = Delivered"
    and "tp_triggers P = Some triggers"
    and "tg_list_trigger_orders triggers (far_venue s) ex symbols = (r, v)"
    and "\<And>ords ord. r = Inr ords \<Longrightarrow> ord \<in> set ords \<Longrightarrow>
       i64_time (to_created_at_ms ord) \<and> pred_option i64_time (to_triggered_at_ms ord)"
  shows "fst (remote_list_trigger_orders (tp_decimal P) (linked_calls fates W P others base) s ex symbols)
      = map_err (\<lambda>e. delivered_error W (map_port (tp_grpc P) e)) r
    \<and> trigger_request_from_unified (tp_decimal P) (Some (remote_trigger_message (tp_decimal P) req)) = Inr req
    \<and> funding_rate_to_port (tp_decimal P) (funding_snapshot_to_unified (tp_decimal P) snap) = Inr snap
    \<and> op_descriptor_to_port (op_descriptor_to_wire d) = Inr d"
proof -
  let ?l = "rm_backend s" and ?D = "tp_decimal P"
  have call: "proxy_list_trigger_orders P (Some ex) symbols (ln_server ?l) =
      (case r of Inl e \<Rightarrow> Inl (map_port (tp_grpc P) e) | Inr ords \<Rightarrow> Inr (map (trigger_order_to_unified ?D) ords),
       (ln_server ?l)\<lparr>m_venue := v\<rparr>)"
    using assms(3,4) by (cases r) (simp_all add: proxy_list_trigger_orders_def answer_def far_venue_def resolved_exchange_def)
  have kept: "collect_results (map (trigger_order_to_port ?D) (map (trigger_order_to_unified ?D) ords)) = Inr ords" if "r = Inr ords" for ords
    using collect_map [of ords "trigger_order_to_port ?D" "trigger_order_to_unified ?D"] trigger_roundtrip [OF assms(1)] assms(5) that
    by blast
  have "fst (remote_list_trigger_orders ?D (linked_calls fates W P others base) s ex symbols)
      = map_err (\<lambda>e. delivered_error W (map_port (tp_grpc P) e)) r"
    using kept by (cases r)
      (simp_all add: remote_list_trigger_orders_def delivered [of fates ?l "proxy_list_trigger_orders P (Some ex) symbols", OF assms(2) call] remote_unary_def unary_error_def delivered_error_def then_convert_def)
  then show ?thesis
    using trigger_request_roundtrip [OF assms(1)] funding_roundtrip(1) [OF assms(1)] descriptor_roundtrip by blast
qed

section \<open>Where the two workers disagree\<close>

lemma wrap_i64_id: "i64_min \<le> x \<Longrightarrow> x \<le> i64_max \<Longrightarrow> wrap_i64 x = x"
  by (simp add: wrap_i64_def i64_min_def i64_max_def sint_sbintrunc' signed_take_bit_int_eq_self)

text \<open>
  The proxy puts the signed amount next to the direction, the remote adapter takes the amount for
  a magnitude and applies the direction again: deposits arrive unchanged, withdrawals as deposits.
\<close>

lemma withdrawal_read_as_deposit:
  assumes "reads_back D" and "i64_time (lg_time_ms entry)"
  shows "ledger_entry_to_port D (ledger_entry_to_unified D entry) = Inr (if d_is_sign_negative D (lg_amount entry)
    then entry\<lparr>lg_amount := d_neg D (lg_amount entry)\<rparr> else entry)"
proof -
  have t: "wrap_i64 (ts_seconds (timestamp_from_ms (lg_time_ms entry)) * 1000
      + trunc_div (ts_nanos (timestamp_from_ms (lg_time_ms entry))) 1000000) = lg_time_ms entry"
  proof -
    have e: "ts_seconds (timestamp_from_ms (lg_time_ms entry)) * 1000 + ts_nanos (timestamp_from_ms (lg_time_ms entry)) div 1000000
      = lg_time_ms entry" "0 \<le> ts_nanos (timestamp_from_ms (lg_time_ms entry))"
      using timestamp_from_ms_exact by blast+
    then have "trunc_div (ts_nanos (timestamp_from_ms (lg_time_ms entry))) 1000000
        = ts_nanos (timestamp_from_ms (lg_time_ms entry)) div 1000000"
      by (cases "ts_nanos (timestamp_from_ms (lg_time_ms entry)) = 0") (auto simp: trunc_div_def)
    moreover have "i64_min \<le> lg_time_ms entry" using assms(2) by (simp add: i64_time_def) linarith
    ultimately show ?thesis using e assms(2) by (simp add: wrap_i64_id i64_time_def)
  qed
  have dirs: "eq_ignore_ascii_case ''out'' ''out''" "\<not> eq_ignore_ascii_case ''in'' ''out''"
    "eq_ignore_ascii_case ''completed'' ''completed''" "\<not> eq_ignore_ascii_case ''pending'' ''completed''"
    by code_simp+
  show ?thesis
    using assms(1) t dirs by (cases entry)
      (auto simp: ledger_entry_to_port_def ledger_entry_to_unified_def dec_def reads_back_def)
qed

text \<open>A ledger time beyond the range wraps to a time before the epoch, where the saturating reading answers the maximum.\<close>

lemma ledger_time_wraps:
  "wrap_i64 (9223372036854776 * 1000 + trunc_div 0 1000000) = - 9223372036854775616
   \<and> ms_from_ts \<lparr>ts_seconds = 9223372036854776, ts_nanos = 0\<rparr> = i64_max"
  by (simp add: wrap_i64_def trunc_div_def ms_from_ts_def checked_i64_def i64_max_def i64_min_def)

text \<open>
  The transport reports the HTTP status of a refused call as its code, and the proxy reads that
  code as a gRPC number: every verdict of the backend arrives as an internal error.
\<close>

lemma upstream_verdict_lost:
  assumes "\<And>c. 16 < c \<Longrightarrow> grpc c = None" and "\<not> is_success status" and "100 \<le> status" and "status < 1000"
    and "post v \<lparr>hr_url = service_url base_url service meth, hr_content_type = CONNECT_PROTO_UNARY,
            hr_authorization = (case token of Some t \<Rightarrow> if t = [] then None else Some (''Bearer '' @ t) | None \<Rightarrow> None),
            hr_body = enc req\<rparr> = (Answered status (Body bs), v')"
  shows "\<exists>e. transport_unary post lossy enc dec' base_url service meth token req v = (Inl e, v')
    \<and> map_port grpc (unary_error service meth e) = connect CodeInternal"
proof -
  have "(16 :: u32) < of_nat status" using assms(3,4) by (simp add: word_less_nat_alt unat_of_nat take_bit_nat_eq_self)
  then have "grpc (of_nat status) = None" by (rule assms(1))
  then show ?thesis
    using assms(2,5) by (simp add: transport_unary_def Let_def read_body_def unary_error_def rpc_code_to_connect_def)
qed

section \<open>Instances\<close>

text \<open>Integers with their text form, which is read back.\<close>

definition signed_api :: "int decimal_api" where
  "signed_api = int_api\<lparr>d_parse := (\<lambda>t. Inr (if starts_with (CHR ''-'') t then - int (digits_val (tl t)) else int (digits_val t)))\<rparr>"

lemma digits_text: "is_digits (nat_to_string n)" "\<not> starts_with (CHR ''-'') (nat_to_string n)"
  "strip_minus (nat_to_string n) = nat_to_string n"
proof -
  show d: "is_digits (nat_to_string n)" using nat_to_string_digits by (simp add: is_digits_def)
  then show "\<not> starts_with (CHR ''-'') (nat_to_string n)" "strip_minus (nat_to_string n) = nat_to_string n"
    by (cases "nat_to_string n"; auto simp: starts_with_def strip_minus_def is_digits_def is_ascii_digit_def)+
qed

lemma int_text_base10: "base10 (int_to_string i)"
proof -
  have "strip_minus (int_to_string i) = nat_to_string (nat \<bar>i\<bar>)"
    by (simp add: int_to_string_def digits_text(3)) (simp add: strip_minus_def)
  then show ?thesis unfolding base10_def using digits_text(1) by metis
qed

lemma signed_reads_back: "reads_back signed_api"
proof -
  have "d_parse signed_api (int_to_string i) = Inr i" for i
    using digits_text(2) digits_val_nat_to_string by (auto simp: signed_api_def int_to_string_def starts_with_def)
  moreover have "d_show signed_api = int_to_string" by (simp add: signed_api_def int_api_def)
  ultimately show ?thesis
    unfolding reads_back_def decimal_to_common_def common_to_decimal_def
    using base10_grammar_violation_None [OF int_text_base10] base10_not_blank [OF int_text_base10] by simp
qed

definition demo_far :: "(int mock_state, mock_message, int) trading_proxy" where
  "demo_far = demo_proxy\<lparr>tp_gated := False, tp_decimal := signed_api, tp_triggers := Some (mock_triggers signed_api 0)\<rparr>"

definition demo_errors :: wire_errors where
  "demo_errors = \<lparr>we_status = (\<lambda>e. 500), we_body = (\<lambda>e. '''')\<rparr>"

definition demo_far_state :: "int mock_state link remote_state" where
  "demo_far_state = remote_new \<lparr>ln_server = manager_new None default_exchange_id (mock_new int_api 100), ln_calls = 0\<rparr>"

text \<open>A backend that serves nothing, to fill the services the link leaves to \<open>base\<close>.\<close>

definition not_served :: "'v \<Rightarrow> (transport_error + 'r) \<times> 'v" where
  "not_served v = (Inl (HttpError ''not served''), v)"

definition demo_base :: "(int mock_state link, mock_message, unit) remote_calls" where
  "demo_base =
     \<lparr>rc_create_order = (\<lambda>v _. not_served v), rc_create_orders = (\<lambda>v _. not_served v), rc_cancel_order = (\<lambda>v _. not_served v),
      rc_cancel_all_orders = (\<lambda>v _. not_served v), rc_fetch_open_orders = (\<lambda>v _. not_served v),
      rc_account_call = (\<lambda>v _ _. not_served v), rc_account_of = (\<lambda>_. None), rc_positions_of = (\<lambda>_. []),
      rc_balance = (\<lambda>_. DefaultMsg GetAccount), rc_no_fields = DefaultMsg GetAccount, rc_fetch_ticker = (\<lambda>v _ _. not_served v),
      rc_fetch_order_book = (\<lambda>v _ _ _. not_served v), rc_get_candles = (\<lambda>v _ _ _ _. not_served v),
      rc_market_call = (\<lambda>v _ _. not_served v), rc_fetch_funding_rate = (\<lambda>v _ _. not_served v),
      rc_fetch_funding_rate_history = (\<lambda>v _ _ _. not_served v), rc_list_funding_rates = (\<lambda>v _ _. not_served v),
      rc_create_trigger_order = (\<lambda>v _. not_served v), rc_cancel_trigger_order = (\<lambda>v _ _ _. not_served v),
      rc_list_trigger_orders = (\<lambda>v _ _. not_served v), rc_invoke_venue_op = (\<lambda>v _ _ _. not_served v),
      rc_list_venue_ops = (\<lambda>v _. not_served v), rc_describe_venue_op = (\<lambda>v _ _. not_served v),
      rc_fetch_ledger_entries = (\<lambda>v _ _ _ _. not_served v), rc_transfer = (\<lambda>v _. not_served v),
      rc_json_to_struct = (\<lambda>_. Inl ''''), rc_struct_to_json = (\<lambda>_. Inl '''')\<rparr>"

theorem remote_keeps_contract_witness:
  "venue_contract (remote_gateway (linked_calls (\<lambda>n. if even n then Delivered else ResponseLost) demo_errors demo_far id demo_base) 0
     (\<lambda>_ _. 0) (\<lambda>_ _. 0)) (\<lambda>s. mock_resting (far_venue s)) (\<lambda>s. mock_ok (far_venue s))"
  by (rule remote_keeps_contract) (simp add: demo_far_def demo_proxy_def mock.venue_contract_axioms)

theorem remote_timestamps_keep_order_witness:
  "ms_from_ts \<lparr>ts_seconds = 1, ts_nanos = 999999999\<rparr> \<le> ms_from_ts \<lparr>ts_seconds = 2, ts_nanos = 0\<rparr>
   \<and> ms_from_ts (ts_from_ms (- 1)) = - 1"
  using remote_timestamps_keep_order [of "\<lparr>ts_seconds = 1, ts_nanos = 999999999\<rparr>" "\<lparr>ts_seconds = 2, ts_nanos = 0\<rparr>" "- 1"]
  by (simp add: i64_min_def i64_max_def)

theorem remote_records_roundtrip_witness:
  "fst (remote_list_trigger_orders signed_api (linked_calls (\<lambda>n. Delivered) demo_errors demo_far id demo_base) demo_far_state
      default_exchange_id []) = (Inr [] :: port_error + int trigger_order list)
   \<and> trigger_request_from_unified signed_api (Some (remote_trigger_message signed_api
        \<lparr>tor_client_order_id = ''c'', tor_symbol = ''MOCK-USDT'', tor_is_buy = False, tor_trigger_price = - 5, tor_qty = 7, tor_reduce_only = True\<rparr>))
     = Inr \<lparr>tor_client_order_id = ''c'', tor_symbol = ''MOCK-USDT'', tor_is_buy = False, tor_trigger_price = - 5, tor_qty = 7, tor_reduce_only = True\<rparr>"
proof -
  have D: "tp_decimal demo_far = signed_api" "tp_triggers demo_far = Some (mock_triggers signed_api 0)"
    by (simp_all add: demo_far_def)
  have v: "tg_list_trigger_orders (mock_triggers signed_api 0) (far_venue demo_far_state) default_exchange_id []
      = (Inr [], far_venue demo_far_state)"
    by (simp add: mock_triggers_def mock_list_trigger_orders_def far_venue_def demo_far_state_def remote_new_def manager_new_def mock_new_def)
  show ?thesis
    using remote_records_roundtrip [where base = demo_base and W = demo_errors and others = id and fates = "\<lambda>n. Delivered",
        OF _ refl D(2) v] signed_reads_back
    by (simp add: D)
qed

end
