(* ===== verification/Worker.thy ===== *)
theory Worker
  imports Remote Risk_Safety
begin

text \<open>
  The worker process: its configuration (\<open>config.rs\<close>), the table of strategies
  (\<open>strategies/registry.rs\<close>), the services of the control plane (\<open>session/server.rs\<close>) and the
  start-up that puts them together (\<open>main.rs\<close>).
\<close>

section \<open>Configuration\<close>

datatype toml =
    TomlString string | TomlInteger int | TomlFloat string | TomlBoolean bool | TomlDatetime string
  | TomlArray "toml list" | TomlTable "(string \<times> toml) list"

type_synonym toml_table = "string \<rightharpoonup> toml"

record 'd risk_config =
  rk_max_order_qty :: "'d option"
  rk_max_order_notional :: "'d option"
  rk_max_orders_per_minute :: "u32 option"
  rk_max_open_orders :: "u32 option"
  rk_max_net_qty_per_symbol :: "'d option"

definition risk_config_limits :: "'d risk_config \<Rightarrow> 'd risk_limits" where
  "risk_config_limits r =
     \<lparr>max_order_qty = rk_max_order_qty r, max_order_notional = rk_max_order_notional r,
      max_orders_per_minute = rk_max_orders_per_minute r, max_open_orders = rk_max_open_orders r,
      max_net_qty_per_symbol = rk_max_net_qty_per_symbol r\<rparr>"

record 'd strategy_params =
  pm_exchange_id :: "string option"
  pm_label :: "string option"
  pm_symbol :: "string option"
  pm_lower_price :: "'d option"
  pm_upper_price :: "'d option"
  pm_num_levels :: "u32 option"
  pm_qty_per_level :: "'d option"
  pm_extra :: toml_table

text \<open>\<open>show\<close> prints the normalised decimal, as the decimal crate does.\<close>

definition decimal_value :: "('d \<Rightarrow> string) \<Rightarrow> 'd \<Rightarrow> toml" where
  "decimal_value show_normal v = TomlString (show_normal v)"

definition put_key :: "string \<Rightarrow> toml option \<Rightarrow> toml_table \<Rightarrow> toml_table" where
  "put_key key v table = (case v of
       None \<Rightarrow> table
     | Some x \<Rightarrow> (case table key of Some _ \<Rightarrow> table | None \<Rightarrow> table(key \<mapsto> x)))"

definition known_keys :: "('d \<Rightarrow> string) \<Rightarrow> 'd strategy_params \<Rightarrow> (string \<times> toml option) list" where
  "known_keys show_normal p =
     [(''exchange_id'', map_option TomlString (pm_exchange_id p)),
      (''label'', map_option TomlString (pm_label p)),
      (''symbol'', map_option TomlString (pm_symbol p)),
      (''lower_price'', map_option (decimal_value show_normal) (pm_lower_price p)),
      (''upper_price'', map_option (decimal_value show_normal) (pm_upper_price p)),
      (''num_levels'', map_option (\<lambda>n. TomlInteger (uint n)) (pm_num_levels p)),
      (''qty_per_level'', map_option (decimal_value show_normal) (pm_qty_per_level p))]"

definition merge_known_keys :: "('d \<Rightarrow> string) \<Rightarrow> 'd strategy_params \<Rightarrow> 'd strategy_params" where
  "merge_known_keys show_normal p =
     p\<lparr>pm_extra := fold (\<lambda>(key, v). put_key key v) (known_keys show_normal p) (pm_extra p)\<rparr>"

definition param_table :: "'d strategy_params \<Rightarrow> toml_table" where
  "param_table p = pm_extra p"

definition venue :: "'d strategy_params \<Rightarrow> string" where
  "venue p = (case pm_exchange_id p of None \<Rightarrow> ''mock'' | Some e \<Rightarrow> e)"

definition venue_label :: "'d strategy_params \<Rightarrow> string" where
  "venue_label p = (case pm_label p of None \<Rightarrow> '''' | Some l \<Rightarrow> l)"

record 'd worker_config =
  cf_daemon_endpoint :: string
  cf_endpoint :: "string option"
  cf_api_token_file :: "string option"
  cf_kill_switch_on_disconnect :: "bool option"
  cf_backend :: "string option"
  cf_listen_endpoint :: "string option"
  cf_risk :: "'d risk_config"
  cf_strategy_type :: string
  cf_params :: "'d strategy_params"

definition backend :: "'d worker_config \<Rightarrow> string" where
  "backend cfg = (case map_option trim (cf_backend cfg) of
       None \<Rightarrow> ''api''
     | Some b \<Rightarrow> if b = [] then ''api'' else b)"

definition validated_backend :: "'d worker_config \<Rightarrow> string + string" where
  "validated_backend cfg =
     (if backend cfg \<in> {''api'', ''mock''} then Inr (backend cfg)
      else Inl (''unknown backend: '' @ backend cfg @ '' (expected 'mock' or 'api')''))"

definition endpoint_or_default :: "'d worker_config \<Rightarrow> string \<Rightarrow> string" where
  "endpoint_or_default cfg fallback = (case cf_endpoint cfg of None \<Rightarrow> fallback | Some e \<Rightarrow> e)"

text \<open>\<open>read\<close> is \<open>read_to_string\<close> of the standard library.\<close>

definition api_token :: "(string \<Rightarrow> string + string) \<Rightarrow> 'd worker_config \<Rightarrow> string + string" where
  "api_token read cfg = (case cf_api_token_file cfg of
       None \<Rightarrow> Inr ''''
     | Some path \<Rightarrow> (case read path of
           Inl e \<Rightarrow> Inl (''failed to read api_token_file '' @ path)
         | Inr raw \<Rightarrow>
             let token = trim raw
             in if token = [] then Inl (''api_token_file '' @ path @ '' is empty; refusing to start unauthenticated'')
                else Inr token))"

text \<open>\<open>parse\<close> is the TOML reader with the derived readers of the records.\<close>

definition config_load ::
  "(string \<Rightarrow> string + string) \<Rightarrow> (string \<Rightarrow> string + 'd worker_config) \<Rightarrow> string \<Rightarrow> string + 'd worker_config" where
  "config_load read parse path = (case read path of
       Inl e \<Rightarrow> Inl (''failed to read config file: '' @ path)
     | Inr contents \<Rightarrow> (case parse contents of
           Inl e \<Rightarrow> Inl (''failed to parse config file: '' @ path)
         | Inr cfg \<Rightarrow> (case validated_backend cfg of
               Inl e \<Rightarrow> Inl (''invalid config file: '' @ path)
             | Inr _ \<Rightarrow> Inr cfg)))"

section \<open>The table of strategies\<close>

datatype strategy_port = GatewayPort | MarketPort | FundingPort | TriggersPort | OpsPort | WalletPort

text \<open>
  The registration records: the name, the module whose constructor the factory calls and the
  ports it hands over, in the order of the table.
\<close>

definition registry :: "(string \<times> string \<times> strategy_port list) list" where
  "registry =
     [(''simple_grid'', ''simple_grid'', [GatewayPort, MarketPort]),
      (''adx_trend'', ''adx_trend'', [GatewayPort, MarketPort]),
      (''bb_keltner_squeeze'', ''bb_keltner_squeeze'', [GatewayPort, MarketPort]),
      (''cvd_divergence'', ''cvd_divergence'', [GatewayPort, MarketPort]),
      (''darvas_box'', ''darvas_box'', [GatewayPort, MarketPort]),
      (''dual_thrust'', ''dual_thrust'', [GatewayPort, MarketPort]),
      (''ichimoku'', ''ichimoku'', [GatewayPort, MarketPort]),
      (''mean_reversion'', ''mean_reversion'', [GatewayPort, MarketPort]),
      (''momentum_factor'', ''momentum_factor'', [GatewayPort, MarketPort]),
      (''ema_cross'', ''ema_cross'', [GatewayPort, MarketPort]),
      (''supertrend'', ''supertrend'', [GatewayPort, MarketPort]),
      (''boll_grid'', ''boll_grid'', [GatewayPort, MarketPort]),
      (''dca_scheduler'', ''dca_scheduler'', [GatewayPort]),
      (''dca'', ''dca_scheduler'', [GatewayPort]),
      (''fixed_maker'', ''fixed_maker'', [GatewayPort, MarketPort]),
      (''random_entry'', ''random_entry'', [GatewayPort]),
      (''xfunding_lite'', ''xfunding_lite'', [GatewayPort, FundingPort]),
      (''sentinel'', ''sentinel'', [GatewayPort, MarketPort]),
      (''autoborrow'', ''autoborrow'', [OpsPort]),
      (''convert'', ''convert'', [OpsPort]),
      (''deposit_transfer'', ''deposit_transfer'', [WalletPort]),
      (''cross_fixed_maker'', ''cross_fixed_maker'', [GatewayPort, MarketPort]),
      (''cross_depth_maker'', ''cross_depth_maker'', [GatewayPort, MarketPort]),
      (''cross_maker'', ''cross_maker'', [GatewayPort, MarketPort]),
      (''hedge_grid'', ''hedge_grid'', [GatewayPort, MarketPort]),
      (''balance_align'', ''balance_align'', [GatewayPort, WalletPort]),
      (''premium_monitor'', ''premium_monitor'', [MarketPort]),
      (''nav_recorder'', ''nav_recorder'', [GatewayPort, MarketPort]),
      (''rebalance'', ''rebalance'', [GatewayPort, MarketPort]),
      (''market_cap'', ''market_cap'', [GatewayPort, MarketPort]),
      (''irr'', ''irr'', [GatewayPort]),
      (''skewed_grid'', ''skewed_grid'', [GatewayPort, MarketPort]),
      (''obi_mm'', ''obi_mm'', [GatewayPort, MarketPort]),
      (''basis_mm'', ''basis_mm'', [GatewayPort, MarketPort]),
      (''apt_mm'', ''apt_mm'', [GatewayPort, MarketPort]),
      (''queue_mm'', ''queue_mm'', [GatewayPort, MarketPort]),
      (''glft_mm'', ''glft_mm'', [GatewayPort, MarketPort]),
      (''simplified_glft_mm'', ''simplified_glft_mm'', [GatewayPort, MarketPort]),
      (''pure_market_making'', ''pure_market_making'', [GatewayPort, MarketPort]),
      (''avellaneda_mm_v2'', ''avellaneda_mm_v2'', [GatewayPort, MarketPort]),
      (''perpetual_mm'', ''perpetual_mm'', [GatewayPort, MarketPort, FundingPort]),
      (''cross_exchange_mm'', ''cross_exchange_mm'', [GatewayPort, MarketPort]),
      (''amm_arb'', ''amm_arb'', [GatewayPort, MarketPort]),
      (''spot_perp_arb'', ''spot_perp_arb'', [GatewayPort, MarketPort]),
      (''hedge'', ''hedge'', [GatewayPort, MarketPort]),
      (''liquidity_mining'', ''liquidity_mining'', [GatewayPort, MarketPort]),
      (''bollinger_v2'', ''bollinger_v2'', [GatewayPort, MarketPort]),
      (''dman_v3'', ''dman_v3'', [GatewayPort, MarketPort]),
      (''macd_bb'', ''macd_bb'', [GatewayPort, MarketPort]),
      (''grid_strike'', ''grid_strike'', [GatewayPort, MarketPort]),
      (''stat_arb'', ''stat_arb'', [GatewayPort, MarketPort]),
      (''pmm_dynamic'', ''pmm_dynamic'', [GatewayPort, MarketPort]),
      (''twap_executor'', ''twap_executor'', [GatewayPort, MarketPort]),
      (''dca_executor'', ''dca_executor'', [GatewayPort, MarketPort]),
      (''vwap_executor'', ''vwap_executor'', [GatewayPort, MarketPort])]"

text \<open>\<open>construct\<close> reads the parameters of a module and builds its strategy.\<close>

definition build_strategy ::
  "(string \<Rightarrow> 'd worker_config \<Rightarrow> string + 'st) \<Rightarrow> 'd worker_config \<Rightarrow> string + 'st" where
  "build_strategy construct cfg =
     (let kind = (if cf_strategy_type cfg = [] then ''simple_grid'' else cf_strategy_type cfg)
      in case find (\<lambda>(name, _). name = kind) registry of
           None \<Rightarrow> Inl (''unknown strategy type: '' @ kind)
         | Some (_, module_name, _) \<Rightarrow> construct module_name cfg)"

section \<open>The control plane\<close>

record ('v, 'd) capabilities =
  cb_funding :: "('v, 'd) funding_rate_source option"
  cb_triggers :: "('v, 'd) trigger_order_gateway option"
  cb_wallet :: "('v, 'd) wallet_gateway option"
  cb_ops :: "'v venue_op_invoker option"

text \<open>The trading service the router mounts: always behind the session gate.\<close>

definition router_trading_proxy ::
  "('v, 'm) trading_gateway \<Rightarrow> ('v, 'd) capabilities \<Rightarrow> 'd decimal_api \<Rightarrow> (u32 \<Rightarrow> connect_code option)
   \<Rightarrow> 'v session_manager \<Rightarrow> ('v, 'm, 'd) trading_proxy" where
  "router_trading_proxy gw caps D grpc m =
     \<lparr>tp_gateway = gw, tp_default_exchange = m_default_exchange m, tp_gated = True,
      tp_triggers = cb_triggers caps, tp_wallet = cb_wallet caps, tp_decimal = D, tp_grpc = grpc\<rparr>"

definition router_ops_proxy ::
  "('v, 'd) capabilities \<Rightarrow> (u32 \<Rightarrow> connect_code option) \<Rightarrow> ('s \<Rightarrow> json option) \<Rightarrow> (json \<Rightarrow> 's option)
   \<Rightarrow> 'v session_manager \<Rightarrow> ('v, 's) venue_op_proxy" where
  "router_ops_proxy caps grpc to_json from_json m =
     \<lparr>vq_ops = cb_ops caps, vq_default_exchange = m_default_exchange m, vq_grpc = grpc, vq_to_json = to_json,
      vq_from_json = from_json\<rparr>"

section \<open>Start-up\<close>

text \<open>What the start-up report warns about: each strategy with the capability it is said to need.\<close>

datatype capability_name = FundingRates | VenueOps | WalletOps

definition capability_needs :: "(string \<times> capability_name) list" where
  "capability_needs =
     [(''xfunding_lite'', FundingRates), (''premium_monitor'', FundingRates), (''autoborrow'', VenueOps),
      (''convert'', VenueOps), (''deposit_transfer'', WalletOps), (''balance_align'', WalletOps)]"

definition DEFAULT_ENDPOINT :: string where "DEFAULT_ENDPOINT = ''http://127.0.0.1:8810''"

datatype backend_choice = MockBackend | RemoteBackend string string

text \<open>
  What a started worker runs on: the adapter, the risk limits in front of it if any is set, the
  strategy, and the control plane with its addr address, expected token and default exchange.
\<close>

record ('d, 'st) worker_plan =
  wk_backend :: backend_choice
  wk_gate :: "'d risk_limits option"
  wk_strategy :: 'st
  wk_control :: "(string \<times> string option \<times> exchange_id) option"

definition start_with_ports ::
  "(string \<Rightarrow> 'd worker_config \<Rightarrow> string + 'st) \<Rightarrow> 'd worker_config \<Rightarrow> string \<Rightarrow> backend_choice
   \<Rightarrow> string + ('d, 'st) worker_plan" where
  "start_with_ports construct cfg token b =
     (let limits = risk_config_limits (cf_risk cfg)
      in case build_strategy construct cfg of
           Inl e \<Rightarrow> Inl e
         | Inr st \<Rightarrow> Inr
             \<lparr>wk_backend = b, wk_gate = (if is_enabled limits then Some limits else None), wk_strategy = st,
              wk_control = map_option (\<lambda>addr. (addr, if token = [] then None else Some token,
                mk_exchange_id (venue (cf_params cfg)) (venue_label (cf_params cfg)))) (cf_listen_endpoint cfg)\<rparr>)"

definition worker_main ::
  "(string \<Rightarrow> string + string) \<Rightarrow> (string \<Rightarrow> string + 'd worker_config)
   \<Rightarrow> (string \<Rightarrow> 'd worker_config \<Rightarrow> string + 'st) \<Rightarrow> string \<Rightarrow> string + ('d, 'st) worker_plan" where
  "worker_main read parse construct path = (case config_load read parse path of
       Inl e \<Rightarrow> Inl e
     | Inr cfg \<Rightarrow> (case validated_backend cfg of
         Inl e \<Rightarrow> Inl e
       | Inr b \<Rightarrow> (case api_token read cfg of
           Inl e \<Rightarrow> Inl e
         | Inr token \<Rightarrow>
             if b = ''mock'' then start_with_ports construct cfg token MockBackend
             else if b = ''api''
             then start_with_ports construct cfg token (RemoteBackend (endpoint_or_default cfg DEFAULT_ENDPOINT) token)
             else Inl (''unknown backend: '' @ b @ '' (expected 'mock' or 'api')''))))"

text \<open>
  The life of a strategy: \<open>start\<close>, \<open>run\<close>, \<open>stop\<close> over its state; a failure of \<open>stop\<close> hides the
  outcome of the run.
\<close>

definition drive_strategy ::
  "('s \<Rightarrow> (string + unit) \<times> 's) \<Rightarrow> ('s \<Rightarrow> (string + unit) \<times> 's) \<Rightarrow> ('s \<Rightarrow> (string + unit) \<times> 's) \<Rightarrow> 's
   \<Rightarrow> (string + unit) \<times> 's" where
  "drive_strategy start run stop s = (case start s of
       (Inl e, s) \<Rightarrow> (Inl e, s)
     | (Inr _, s) \<Rightarrow> (case run s of
         (result, s) \<Rightarrow> (case stop s of
           (Inl e, s) \<Rightarrow> (Inl e, s)
         | (Inr _, s) \<Rightarrow> (result, s))))"

section \<open>What the configuration guarantees\<close>

lemma put_key_lookup:
  "put_key key v table k = (if k = key \<and> table k = None then v else table k)"
  by (auto simp: put_key_def split: option.splits)

lemma fold_put_key:
  "distinct (map fst rows) \<Longrightarrow> fold (\<lambda>(key, v). put_key key v) rows table k =
     (case table k of Some x \<Rightarrow> Some x | None \<Rightarrow> Option.bind (map_of rows k) (\<lambda>x. x))"
proof (induction rows arbitrary: table)
  case (Cons row rows)
  obtain key v where row: "row = (key, v)" by (cases row)
  have "map_of rows key = None" using Cons.prems row by (auto simp: map_of_eq_None_iff)
  then show ?case using Cons row by (auto simp: put_key_lookup split: option.splits)
qed (simp split: option.splits)

text \<open>Every well-known key reaches the table a strategy reads; an explicit entry wins; nothing else changes.\<close>

lemma merged_table:
  "param_table (merge_known_keys sh p) k =
     (case pm_extra p k of Some x \<Rightarrow> Some x | None \<Rightarrow> Option.bind (map_of (known_keys sh p) k) (\<lambda>x. x))"
proof -
  have "distinct (map fst (known_keys sh p))" by (simp add: known_keys_def)
  then show ?thesis by (simp add: merge_known_keys_def param_table_def fold_put_key)
qed

lemma merge_idempotent: "merge_known_keys sh (merge_known_keys sh p) = merge_known_keys sh p"
proof -
  have k: "known_keys sh (merge_known_keys sh p) = known_keys sh p" by (simp add: merge_known_keys_def known_keys_def)
  have "pm_extra (merge_known_keys sh (merge_known_keys sh p)) k = pm_extra (merge_known_keys sh p) k" for k
    using merged_table [of sh "merge_known_keys sh p" k] merged_table [of sh p k]
    by (simp add: param_table_def k split: option.splits)
  then have "pm_extra (merge_known_keys sh (merge_known_keys sh p)) = pm_extra (merge_known_keys sh p)" by blast
  then show ?thesis by (simp add: merge_known_keys_def)
qed

lemma find_in_set: "find P xs = Some x \<Longrightarrow> x \<in> set xs"
  by (auto simp: find_Some_iff)

lemma api_token_cases:
  "api_token read cfg = Inr t \<Longrightarrow> cf_api_token_file cfg = None \<and> t = [] \<or>
     (\<exists>path raw. cf_api_token_file cfg = Some path \<and> read path = Inr raw \<and> t = trim raw \<and> t \<noteq> [])"
  by (auto simp: api_token_def Let_def split: option.splits sum.splits if_splits)

lemma worker_main_started:
  assumes "worker_main read parse construct path = Inr plan"
  obtains contents cfg b token choice where "read path = Inr contents" "parse contents = Inr cfg"
    "validated_backend cfg = Inr b" "api_token read cfg = Inr token" "start_with_ports construct cfg token choice = Inr plan"
    "choice = (if b = ''mock'' then MockBackend else RemoteBackend (endpoint_or_default cfg DEFAULT_ENDPOINT) token)"
  using assms by (auto simp: worker_main_def config_load_def split: sum.splits if_splits)

lemma started_plan:
  assumes "start_with_ports construct cfg token choice = Inr plan"
  shows "wk_backend plan = choice"
    and "wk_gate plan = (if is_enabled (risk_config_limits (cf_risk cfg)) then Some (risk_config_limits (cf_risk cfg)) else None)"
    and "wk_control plan = Some (addr, expected, ex) \<Longrightarrow> expected = (if token = [] then None else Some token)"
    and "\<exists>name module_name ports. (name, module_name, ports) \<in> set registry \<and> construct module_name cfg = Inr (wk_strategy plan)"
proof -
  obtain st where st: "build_strategy construct cfg = Inr st"
    and plan: "plan = \<lparr>wk_backend = choice, wk_gate = (if is_enabled (risk_config_limits (cf_risk cfg))
        then Some (risk_config_limits (cf_risk cfg)) else None), wk_strategy = st,
      wk_control = map_option (\<lambda>addr. (addr, if token = [] then None else Some token,
        mk_exchange_id (venue (cf_params cfg)) (venue_label (cf_params cfg)))) (cf_listen_endpoint cfg)\<rparr>"
    using assms by (auto simp: start_with_ports_def Let_def split: sum.splits)
  show "wk_backend plan = choice"
    "wk_gate plan = (if is_enabled (risk_config_limits (cf_risk cfg)) then Some (risk_config_limits (cf_risk cfg)) else None)"
    "wk_control plan = Some (addr, expected, ex) \<Longrightarrow> expected = (if token = [] then None else Some token)"
    by (auto simp: plan)
  obtain row where row: "find (\<lambda>(name, _). name = (if cf_strategy_type cfg = [] then ''simple_grid'' else cf_strategy_type cfg)) registry
      = Some row" "construct (fst (snd row)) cfg = Inr st"
    using st by (auto simp: build_strategy_def Let_def split: option.splits prod.splits)
  have "row \<in> set registry" by (rule find_in_set [OF row(1)])
  then show "\<exists>name module_name ports. (name, module_name, ports) \<in> set registry \<and> construct module_name cfg = Inr (wk_strategy plan)"
    using row(2) unfolding plan by (metis prod.collapse worker_plan.select_convs(3))
qed

lemma wrong_token_refused:
  "expected \<noteq> [] \<Longrightarrow> token \<noteq> expected \<Longrightarrow>
     fst (attach_with_reconnect (=) now new_id token policy i client (manager_new (Some expected) ex v)) = Inl Unauthenticated"
  by (simp add: attach_with_reconnect_def token_ok_def manager_new_def)


section \<open>Lifecycle\<close>

text \<open>The hooks as a trace: which of them ran, in which order.\<close>

datatype hook = StartHook | RunHook | StopHook

definition traced :: "hook \<Rightarrow> ('s \<Rightarrow> (string + unit) \<times> 's) \<Rightarrow> 's \<times> hook list \<Rightarrow> (string + unit) \<times> 's \<times> hook list" where
  "traced h f st = (let (r, s) = f (fst st) in (r, s, snd st @ [h]))"

text \<open>
  A driven strategy is stopped exactly once after every run, whatever the run answered, and
  never without one; the answer is the first failure of \<open>start\<close> and \<open>stop\<close>, else that of the run.
\<close>
theorem strategy_stopped_once:
  "\<exists>r s. drive_strategy (traced StartHook start) (traced RunHook run) (traced StopHook stop) (s0, []) =
     (r, s, if is_ok (fst (start s0)) then [StartHook, RunHook, StopHook] else [StartHook])
   \<and> (is_ok r \<longleftrightarrow> is_ok (fst (start s0)) \<and> is_ok (fst (run (snd (start s0)))) \<and> is_ok (fst (stop (snd (run (snd (start s0)))))))"
  by (auto simp: drive_strategy_def traced_def Let_def split: prod.splits sum.splits)

section \<open>The table\<close>

lemma registry_names_distinct: "distinct (map fst registry)"
  by code_simp

lemma alias_builds_the_same:
  "build_strategy construct (cfg\<lparr>cf_strategy_type := ''dca''\<rparr>) = construct ''dca_scheduler'' (cfg\<lparr>cf_strategy_type := ''dca''\<rparr>)
   \<and> build_strategy construct (cfg\<lparr>cf_strategy_type := ''dca_scheduler''\<rparr>)
     = construct ''dca_scheduler'' (cfg\<lparr>cf_strategy_type := ''dca_scheduler''\<rparr>)"
  by (simp add: build_strategy_def registry_def Let_def)

text \<open>An empty type is not refused: it builds the grid.\<close>

lemma empty_type_builds_grid: "cf_strategy_type cfg = [] \<Longrightarrow> build_strategy construct cfg = construct ''simple_grid'' cfg"
  by (simp add: build_strategy_def registry_def)

definition needs_port :: "capability_name \<Rightarrow> strategy_port" where
  "needs_port c = (case c of FundingRates \<Rightarrow> FundingPort | VenueOps \<Rightarrow> OpsPort | WalletOps \<Rightarrow> WalletPort)"

text \<open>
  The report and the table disagree twice: the perpetual market maker takes the funding port and is
  not reported, the premium monitor is reported and takes the market port only.
\<close>

lemma capability_report_incomplete:
  "[name \<leftarrow> map fst registry. \<exists>c \<in> {FundingRates, VenueOps, WalletOps}.
      (needs_port c \<in> set (snd (the (map_of registry name)))) \<noteq> ((name, c) \<in> set capability_needs)] = [''premium_monitor'', ''perpetual_mm'']"
  by code_simp


end
