(* ===== verification/Signal_Strategies.thy ===== *)
theory Signal_Strategies
  imports Strategy_Params Indicator_Bounds
begin

text \<open>
  The strategies that poll candles, feed indicators and trade a change of their phase with market
  orders (\<open>strategies/ema_cross\<close>, \<open>supertrend\<close>, \<open>adx_trend\<close>, \<open>mean_reversion\<close>,
  \<open>momentum_factor\<close>, \<open>dual_thrust\<close>, \<open>darvas_box\<close>, \<open>bb_keltner_squeeze\<close>, \<open>cvd_divergence\<close>,
  \<open>ichimoku\<close>, \<open>macd_bb\<close>, \<open>bollinger_v2\<close>).  Each of them is a decision on the candles and the
  phase, \<open>None\<close> where the arithmetic or an index panics; the window lengths keep their machine
  width.
\<close>

section \<open>Reading candles\<close>

definition decoded :: "'d decimal_api \<Rightarrow> wire_decimal option \<Rightarrow> 'd option" where
  "decoded D field = Option.bind field (\<lambda>w. case common_to_decimal (d_parse D) w of Inl _ \<Rightarrow> None | Inr p \<Rightarrow> Some p)"

text \<open>Bars with a field that is absent or cannot be read are skipped.\<close>

definition hlc_bars :: "'d decimal_api \<Rightarrow> candle list \<Rightarrow> ('d \<times> 'd \<times> 'd) list" where
  "hlc_bars D = List.map_filter (\<lambda>c. do {
     h \<leftarrow> decoded D (cd_high c); l \<leftarrow> decoded D (cd_low c); c \<leftarrow> decoded D (cd_close c); Some (h, l, c) })"

definition hlco_bars :: "'d decimal_api \<Rightarrow> candle list \<Rightarrow> ('d \<times> 'd \<times> 'd \<times> 'd) list" where
  "hlco_bars D = List.map_filter (\<lambda>c. do {
     h \<leftarrow> decoded D (cd_high c); l \<leftarrow> decoded D (cd_low c); cl \<leftarrow> decoded D (cd_close c);
     op \<leftarrow> decoded D (cd_open c); Some (h, l, cl, op) })"

definition index_at :: "'a list \<Rightarrow> u64 \<Rightarrow> 'a option" where
  "index_at xs i = (if unat i < length xs then Some (xs ! unat i) else None)"

definition slice_of :: "'a list \<Rightarrow> u64 \<Rightarrow> u64 \<Rightarrow> 'a list option" where
  "slice_of xs a b = (if a \<le> b \<and> unat b \<le> length xs then Some (take (unat b - unat a) (drop (unat a) xs)) else None)"

definition last_of :: "'a list \<Rightarrow> 'a option" where
  "last_of xs = (if xs = [] then None else Some (last xs))"

definition halved :: "'d decimal_api \<Rightarrow> 'd \<Rightarrow> 'd option" where
  "halved D x = d_div D x (d_of_int D 2)"

section \<open>Phases and signals\<close>

datatype phase = FlatPhase | LongPhase | ShortPhase

datatype signal = Enter bool | Exit | Reverse bool

definition exit_side :: "phase \<Rightarrow> bool" where
  "exit_side p = (p = ShortPhase)"

fun signal_target :: "signal \<Rightarrow> phase" where
  "signal_target (Enter b) = (if b then LongPhase else ShortPhase)"
| "signal_target (Reverse b) = (if b then LongPhase else ShortPhase)"
| "signal_target Exit = FlatPhase"

text \<open>
  The orders of a signal, each with the phase that is committed once the venue has accepted it.
  The two legs of a reversal go the same way, with the flat phase in between.
\<close>

fun signal_legs :: "phase \<Rightarrow> signal \<Rightarrow> (bool \<times> phase) list" where
  "signal_legs held (Enter b) = [(b, signal_target (Enter b))]"
| "signal_legs held Exit = [(exit_side held, signal_target Exit)]"
| "signal_legs held (Reverse b) = [(b, FlatPhase), (b, signal_target (Reverse b))]"

definition phase_legs ::
  "(candle list \<Rightarrow> phase \<Rightarrow> signal option option) \<Rightarrow> candle list \<Rightarrow> phase \<Rightarrow> (bool \<times> phase) list option option" where
  "phase_legs decide candles held = map_option (map_option (signal_legs held)) (decide candles held)"

section \<open>One poll\<close>

record ('v, 'p) signal_state =
  sg_phase :: 'p
  sg_venue :: 'v
  sg_ulids :: nat

record 'd signal_params =
  si_common :: common_params
  si_prefix :: string
  si_qty :: 'd
  si_need :: u32

text \<open>A refused order ends the poll; what was committed before it stays.\<close>

fun send_legs ::
  "('v, 'm, 'd) strategy_ports \<Rightarrow> 'd signal_params \<Rightarrow> (bool \<times> 'p) list \<Rightarrow> ('v, 'p) signal_state
   \<Rightarrow> (strategy_error + unit) \<times> ('v, 'p) signal_state" where
  "send_legs P i [] s = (Inr (), s)"
| "send_legs P i ((is_buy, next_phase) # legs) s =
     (let req = market_order (sp_decimal P) (proto_exchange_id (si_common i)) (cp_symbol (si_common i))
            (si_prefix i @ sp_ulid P (sg_ulids s)) is_buy (si_qty i)
      in case gw_create_order (sp_gateway P) (sg_venue s) req of
           (Inl e, v) \<Rightarrow> (Inl (PortFailure e), s\<lparr>sg_venue := v, sg_ulids := Suc (sg_ulids s)\<rparr>)
         | (Inr _, v) \<Rightarrow> send_legs P i legs (s\<lparr>sg_phase := next_phase, sg_venue := v, sg_ulids := Suc (sg_ulids s)\<rparr>))"

definition signal_tick ::
  "('v, 'm, 'd) strategy_ports \<Rightarrow> 'd signal_params \<Rightarrow> (candle list \<Rightarrow> 'p \<Rightarrow> (bool \<times> 'p) list option option)
   \<Rightarrow> u64 \<Rightarrow> ('v, 'p) signal_state \<Rightarrow> (strategy_error + unit) option \<times> ('v, 'p) signal_state" where
  "signal_tick P i decide now s =
     (case fetch_candles (sp_market P) (proto_exchange_id (si_common i)) (cp_symbol (si_common i))
             (cp_timeframe (si_common i)) (si_need i) (sg_venue s) of
        (Inl e, v) \<Rightarrow> (Some (Inl (PortFailure e)), s\<lparr>sg_venue := v\<rparr>)
      | (Inr candles, v) \<Rightarrow> (case decide candles (sg_phase s) of
            None \<Rightarrow> (None, s\<lparr>sg_venue := v\<rparr>)
          | Some None \<Rightarrow> (Some (Inr ()), s\<lparr>sg_venue := v\<rparr>)
          | Some (Some legs) \<Rightarrow> (let (r, s) = send_legs P i legs (s\<lparr>sg_venue := v\<rparr>) in (Some r, s))))"

definition signal_start :: "'p \<Rightarrow> 'v \<Rightarrow> nat \<Rightarrow> ('v, 'p) signal_state" where
  "signal_start p v n = \<lparr>sg_phase = p, sg_venue = v, sg_ulids = n\<rparr>"

text \<open>\<open>try_from(n).unwrap_or(200)\<close>\<close>

definition limit_or_200 :: "u64 \<Rightarrow> u32" where
  "limit_or_200 n = (if unat n \<le> u32_max then ucast n else 200)"

section \<open>EMA cross\<close>

record 'd ema_cross_config =
  ec_common :: common_params
  ec_fast_window :: u64
  ec_slow_window :: u64
  ec_qty :: 'd

datatype cross_state = UnknownCross | FastAbove | FastBelow

definition ema_of :: "'d decimal_api \<Rightarrow> u64 \<Rightarrow> 'd list \<Rightarrow> 'd option option" where
  "ema_of D window closes = do { e \<leftarrow> ema_new D (unat window); e \<leftarrow> feed (ema_push D) closes e; Some (em_value e) }"

definition ema_cross_decide ::
  "'d decimal_api \<Rightarrow> 'd ema_cross_config \<Rightarrow> candle list \<Rightarrow> cross_state \<Rightarrow> (bool \<times> cross_state) list option option" where
  "ema_cross_decide D cfg candles state = do {
     fast \<leftarrow> ema_of D (ec_fast_window cfg) (closes_of D candles);
     slow \<leftarrow> ema_of D (ec_slow_window cfg) (closes_of D candles);
     Some (case (fast, slow) of
       (Some f, Some s) \<Rightarrow>
         if d_gt D f s then if state \<noteq> FastAbove then Some [(True, FastAbove)] else None
         else if d_gt D s f then if state \<noteq> FastBelow then Some [(False, FastBelow)] else None
         else None
     | _ \<Rightarrow> None)
   }"

definition ema_cross_tick ::
  "('v, 'm, 'd) strategy_ports \<Rightarrow> 'd ema_cross_config \<Rightarrow> u64 \<Rightarrow> ('v, cross_state) signal_state
   \<Rightarrow> (strategy_error + unit) option \<times> ('v, cross_state) signal_state" where
  "ema_cross_tick P cfg = signal_tick P
     \<lparr>si_common = ec_common cfg, si_prefix = ''emacross-'', si_qty = ec_qty cfg, si_need = 200\<rparr>
     (ema_cross_decide (sp_decimal P) cfg)"

section \<open>Supertrend\<close>

record 'd supertrend_config =
  sn_common :: common_params
  sn_atr_window :: u64
  sn_atr_multiplier :: 'd
  sn_fast_dema_window :: u64
  sn_slow_dema_window :: u64
  sn_qty :: 'd

definition dema_of :: "'d decimal_api \<Rightarrow> u64 \<Rightarrow> 'd list \<Rightarrow> 'd option option" where
  "dema_of D window closes = do { d \<leftarrow> dema_new D (unat window); d \<leftarrow> feed (dema_push D) closes d; dema_value D d }"

definition compare_direction :: "'d decimal_api \<Rightarrow> 'd \<Rightarrow> 'd \<Rightarrow> direction" where
  "compare_direction D f s = (if d_gt D f s then Up else if d_gt D s f then Down else Flat)"

fun supertrend_signal :: "phase \<Rightarrow> bool \<Rightarrow> bool \<Rightarrow> signal option" where
  "supertrend_signal FlatPhase want_long want_short =
     (if want_long then Some (Enter True) else if want_short then Some (Enter False) else None)"
| "supertrend_signal LongPhase want_long want_short =
     (if \<not> want_long \<and> want_short then Some (Reverse False) else if \<not> want_long then Some Exit else None)"
| "supertrend_signal ShortPhase want_long want_short =
     (if want_long \<and> \<not> want_short then Some (Reverse True) else if \<not> want_short then Some Exit else None)"

definition supertrend_decide ::
  "'d decimal_api \<Rightarrow> 'd supertrend_config \<Rightarrow> candle list \<Rightarrow> phase \<Rightarrow> signal option option" where
  "supertrend_decide D cfg candles held =
     (let bars = hlc_bars D candles; closes = map (\<lambda>(h, l, c). c) bars
      in do {
        st \<leftarrow> feed (\<lambda>(h, l, c). supertrend_push D h l c) bars (supertrend_new D (unat (sn_atr_window cfg)) (sn_atr_multiplier cfg));
        fast \<leftarrow> dema_of D (sn_fast_dema_window cfg) closes;
        slow \<leftarrow> dema_of D (sn_slow_dema_window cfg) closes;
        Some (case (fast, slow) of
          (Some f, Some s) \<Rightarrow>
            supertrend_signal held (st_direction st = Up \<and> compare_direction D f s = Up)
              (st_direction st = Down \<and> compare_direction D f s = Down)
        | _ \<Rightarrow> None)
      })"

section \<open>ADX trend\<close>

record 'd adx_trend_config =
  ad_common :: common_params
  ad_period :: u64
  ad_threshold :: 'd
  ad_qty :: 'd

fun adx_signal :: "'d decimal_api \<Rightarrow> 'd \<Rightarrow> 'd \<Rightarrow> 'd \<Rightarrow> 'd \<Rightarrow> phase \<Rightarrow> signal option" where
  "adx_signal D threshold adx_val plus_di minus_di FlatPhase =
     (if d_gt D adx_val threshold
      then if d_gt D plus_di minus_di then Some (Enter True)
           else if d_gt D minus_di plus_di then Some (Enter False) else None
      else None)"
| "adx_signal D threshold adx_val plus_di minus_di LongPhase =
     (if d_gt D threshold adx_val \<or> d_gt D minus_di plus_di then Some Exit else None)"
| "adx_signal D threshold adx_val plus_di minus_di ShortPhase =
     (if d_gt D threshold adx_val \<or> d_gt D plus_di minus_di then Some Exit else None)"

definition adx_trend_decide ::
  "'d decimal_api \<Rightarrow> 'd adx_trend_config \<Rightarrow> candle list \<Rightarrow> phase \<Rightarrow> signal option option" where
  "adx_trend_decide D cfg candles held = do {
     a \<leftarrow> feed (\<lambda>(h, l, c). adx_push D h l c) (hlc_bars D candles) (adx_new D (unat (ad_period cfg)));
     v \<leftarrow> adx_value D a; plus \<leftarrow> adx_plus_di D a; minus \<leftarrow> adx_minus_di D a;
     Some (case (v, plus, minus) of
       (Some adx_val, Some plus_di, Some minus_di) \<Rightarrow> adx_signal D (ad_threshold cfg) adx_val plus_di minus_di held
     | _ \<Rightarrow> None)
   }"

section \<open>Mean reversion\<close>

record 'd mean_reversion_config =
  mr_common :: common_params
  mr_period :: u64
  mr_entry_threshold :: 'd
  mr_exit_band :: 'd
  mr_qty :: 'd

definition or_zero :: "'d decimal_api \<Rightarrow> 'd option \<Rightarrow> 'd" where
  "or_zero D x = (case x of None \<Rightarrow> d_zero D | Some v \<Rightarrow> v)"

definition mean_reversion_signal ::
  "'d decimal_api \<Rightarrow> 'd mean_reversion_config \<Rightarrow> 'd option \<Rightarrow> phase \<Rightarrow> signal option" where
  "mean_reversion_signal D cfg z held =
     (if held = FlatPhase
      then (case z of
          None \<Rightarrow> None
        | Some zv \<Rightarrow> if d_gt D zv (mr_entry_threshold cfg) then Some (Enter False)
                    else if d_gt D (d_neg D (mr_entry_threshold cfg)) zv then Some (Enter True) else None)
      else if d_gt D (mr_exit_band cfg) (d_abs D (or_zero D z)) then Some Exit else None)"

definition mean_reversion_decide ::
  "'d decimal_api \<Rightarrow> 'd mean_reversion_config \<Rightarrow> candle list \<Rightarrow> phase \<Rightarrow> signal option option" where
  "mean_reversion_decide D cfg candles held =
     (let closes = closes_of D candles
      in if length closes < unat (mr_period cfg) then Some None
         else do {
           z \<leftarrow> zscore_value D (fold zscore_push closes (zscore_new (unat (mr_period cfg))));
           Some (mean_reversion_signal D cfg z held)
         })"

section \<open>Momentum factor\<close>

record 'd momentum_factor_config =
  mf_common :: common_params
  mf_period :: u64
  mf_return_threshold :: 'd
  mf_velocity_band :: 'd
  mf_qty :: 'd

definition momentum_enter :: "'d decimal_api \<Rightarrow> 'd momentum_factor_config \<Rightarrow> 'd \<Rightarrow> 'd \<Rightarrow> signal option option" where
  "momentum_enter D cfg raw_return rsi_val =
     (let mid = d_of_int D 50;
          short = (if d_gt D (d_neg D (mf_return_threshold cfg)) raw_return
                   then do { b \<leftarrow> d_sub D mid (mf_velocity_band cfg);
                             Some (if d_gt D b rsi_val then Some (Enter False) else None) }
                   else Some None)
      in if d_gt D raw_return (mf_return_threshold cfg)
         then do { b \<leftarrow> d_add D mid (mf_velocity_band cfg);
                   if d_gt D rsi_val b then Some (Some (Enter True)) else short }
         else short)"

fun momentum_signal ::
  "'d decimal_api \<Rightarrow> 'd momentum_factor_config \<Rightarrow> 'd \<Rightarrow> 'd \<Rightarrow> phase \<Rightarrow> signal option option" where
  "momentum_signal D cfg raw_return rsi_val FlatPhase = momentum_enter D cfg raw_return rsi_val"
| "momentum_signal D cfg raw_return rsi_val LongPhase = do {
     half \<leftarrow> halved D (mf_return_threshold cfg);
     Some (if d_gt D half raw_return then Some Exit else None) }"
| "momentum_signal D cfg raw_return rsi_val ShortPhase = do {
     half \<leftarrow> halved D (d_neg D (mf_return_threshold cfg));
     Some (if d_gt D raw_return half then Some Exit else None) }"

definition momentum_factor_decide ::
  "'d decimal_api \<Rightarrow> 'd momentum_factor_config \<Rightarrow> candle list \<Rightarrow> phase \<Rightarrow> signal option option" where
  "momentum_factor_decide D cfg candles held =
     (let closes = closes_of D candles; old = length closes - unat (mf_period cfg + 1)
      in do {
        r \<leftarrow> feed (rsi_push D) closes (rsi_new (unat (mf_period cfg)));
        v \<leftarrow> rsi_value D r;
        case (v, if old < length closes then Some (closes ! old) else None) of
          (Some rsi_val, Some old_close) \<Rightarrow> do {
            raw_return \<leftarrow> (if d_gt D old_close (d_zero D)
                          then do { diff \<leftarrow> d_sub D (last closes) old_close; d_div D diff old_close }
                          else Some (d_zero D));
            momentum_signal D cfg raw_return rsi_val held
          }
        | _ \<Rightarrow> Some None
      })"

section \<open>Dual thrust\<close>

record 'd dual_thrust_config =
  dt_common :: common_params
  dt_period :: u64
  dt_k1 :: 'd
  dt_k2 :: 'd
  dt_qty :: 'd

fun dual_thrust_signal :: "'d decimal_api \<Rightarrow> 'd \<Rightarrow> 'd \<Rightarrow> 'd \<Rightarrow> 'd \<Rightarrow> phase \<Rightarrow> signal option" where
  "dual_thrust_signal D buy_trigger sell_trigger opened close FlatPhase =
     (if d_gt D close buy_trigger then Some (Enter True)
      else if d_gt D sell_trigger close then Some (Enter False) else None)"
| "dual_thrust_signal D buy_trigger sell_trigger opened close LongPhase =
     (if d_gt D opened close then Some Exit else None)"
| "dual_thrust_signal D buy_trigger sell_trigger opened close ShortPhase =
     (if d_gt D close opened then Some Exit else None)"

definition dual_thrust_decide ::
  "'d decimal_api \<Rightarrow> 'd dual_thrust_config \<Rightarrow> candle list \<Rightarrow> phase \<Rightarrow> signal option option" where
  "dual_thrust_decide D cfg candles held =
     (let bars = hlco_bars D candles;
          dc = fold (\<lambda>(h, l, _). donchian_push h l) bars (donchian_new (unat (dt_period cfg)))
      in case (donchian_upper D dc, donchian_lower D dc, last_of bars) of
           (Some upper, Some lower, Some (_, _, close, opened)) \<Rightarrow> do {
             rng \<leftarrow> d_sub D upper lower;
             k1r \<leftarrow> d_mul D (dt_k1 cfg) rng; buy_trigger \<leftarrow> d_add D opened k1r;
             k2r \<leftarrow> d_mul D (dt_k2 cfg) rng; sell_trigger \<leftarrow> d_sub D opened k2r;
             Some (dual_thrust_signal D buy_trigger sell_trigger opened close held)
           }
         | _ \<Rightarrow> Some None)"

section \<open>Darvas box\<close>

record 'd darvas_box_config =
  dx_common :: common_params
  dx_period :: u64
  dx_box_bars :: u64
  dx_qty :: 'd

definition darvas_exit :: "'d decimal_api \<Rightarrow> phase \<Rightarrow> 'd \<times> 'd \<times> 'd \<Rightarrow> signal option option" where
  "darvas_exit D held bar = (case bar of (h, l, last_close) \<Rightarrow> do {
     rng \<leftarrow> d_sub D h l;
     hl \<leftarrow> d_add D h l; mid \<leftarrow> halved D hl; half \<leftarrow> halved D rng;
     edge \<leftarrow> (if held = LongPhase then d_sub D mid half else d_add D mid half);
     Some (if (if held = LongPhase then d_gt D edge last_close else d_gt D last_close edge) then Some Exit else None)
   })"

text \<open>The window before the box, the box itself, and the bar that may break out of it.\<close>

definition darvas_enter ::
  "'d decimal_api \<Rightarrow> 'd darvas_box_config \<Rightarrow> 'd list \<Rightarrow> 'd list \<Rightarrow> u64 \<Rightarrow> 'd \<Rightarrow> signal option option" where
  "darvas_enter D cfg highs lows last_idx last_close =
     (let scan_end = last_idx - dx_box_bars cfg
      in if scan_end < dx_period cfg then Some None
         else do {
           w \<leftarrow> slice_of highs 0 scan_end; window_high \<leftarrow> fold1 (d_max D) w;
           bh \<leftarrow> slice_of highs scan_end last_idx; box_high \<leftarrow> fold1 (d_max D) bh;
           bl \<leftarrow> slice_of lows scan_end last_idx; box_low \<leftarrow> fold1 (d_min D) bl;
           h \<leftarrow> index_at highs (scan_end - 1);
           box_range \<leftarrow> d_sub D box_high box_low;
           let new_high = d_ge D h window_high;
           Some (if new_high \<and> d_gt D last_close box_high \<and> d_gt D box_range (d_zero D) then Some (Enter True)
                 else if \<not> new_high \<and> d_gt D box_low last_close \<and> d_gt D box_range (d_zero D) then Some (Enter False)
                 else None)
         })"

definition darvas_bars_signal ::
  "'d decimal_api \<Rightarrow> 'd darvas_box_config \<Rightarrow> ('d \<times> 'd \<times> 'd) list \<Rightarrow> phase \<Rightarrow> signal option option" where
  "darvas_bars_signal D cfg bars held =
     (if length bars < unat (dx_period cfg + dx_box_bars cfg) then Some None
      else let last_idx = of_nat (length bars) - 1
           in do {
             bar \<leftarrow> index_at bars last_idx;
             if held = FlatPhase
             then darvas_enter D cfg (map fst bars) (map (fst \<circ> snd) bars) last_idx (snd (snd bar))
             else darvas_exit D held bar
           })"

definition darvas_box_decide ::
  "'d decimal_api \<Rightarrow> 'd darvas_box_config \<Rightarrow> candle list \<Rightarrow> phase \<Rightarrow> signal option option" where
  "darvas_box_decide D cfg candles held =
     (if length candles < unat (dx_period cfg + dx_box_bars cfg) then Some None
      else darvas_bars_signal D cfg (hlc_bars D candles) held)"

section \<open>Bollinger and Keltner squeeze\<close>

record 'd squeeze_config =
  sq_common :: common_params
  sq_window :: u64
  sq_bb_mult :: 'd
  sq_kc_mult :: 'd
  sq_qty :: 'd

definition squeeze_signal :: "'d decimal_api \<Rightarrow> 'd bands \<Rightarrow> 'd \<Rightarrow> 'd \<Rightarrow> 'd \<Rightarrow> phase \<Rightarrow> signal option" where
  "squeeze_signal D bands kc_upper kc_lower last_close held =
     (let squeezed = (d_gt D kc_upper (ba_upper bands) \<and> d_gt D (ba_lower bands) kc_lower)
      in if held = FlatPhase
         then if squeezed \<and> d_gt D last_close (ba_upper bands) then Some (Enter True)
              else if squeezed \<and> d_gt D (ba_lower bands) last_close then Some (Enter False) else None
         else if squeezed then None else Some Exit)"

definition squeeze_decide ::
  "'d decimal_api \<Rightarrow> 'd squeeze_config \<Rightarrow> candle list \<Rightarrow> phase \<Rightarrow> signal option option" where
  "squeeze_decide D cfg candles held =
     (let bars = hlc_bars D candles; closes = map (snd \<circ> snd) bars
      in do {
        kc \<leftarrow> keltner_new D (unat (sq_window cfg)) (unat (sq_window cfg)) (sq_kc_mult cfg);
        kc \<leftarrow> feed (\<lambda>(h, l, c). keltner_push D h l c) bars kc;
        computed \<leftarrow> bollinger_compute D closes (sq_bb_mult cfg);
        case computed of
          None \<Rightarrow> Some None
        | Some bands \<Rightarrow> do {
            upper \<leftarrow> keltner_upper D kc; lower \<leftarrow> keltner_lower D kc;
            case (upper, lower) of
              (Some kc_upper, Some kc_lower) \<Rightarrow> do {
                last_close \<leftarrow> last_of closes;
                Some (squeeze_signal D bands kc_upper kc_lower last_close held)
              }
            | _ \<Rightarrow> Some None
          }
      })"

section \<open>Cumulative volume delta\<close>

record 'd cvd_config =
  cv_common :: common_params
  cv_period :: u64
  cv_z_threshold :: 'd
  cv_qty :: 'd

definition bar_delta :: "'d decimal_api \<Rightarrow> 'd \<times> 'd \<times> 'd \<Rightarrow> 'd option" where
  "bar_delta D bar = (case bar of (high, low, close) \<Rightarrow> do {
     hl \<leftarrow> d_add D high low; mid \<leftarrow> halved D hl;
     diff \<leftarrow> d_sub D high low;
     let rng = d_max D diff (d_zero D);
     Some (if d_gt D close mid then rng else if d_gt D mid close then d_neg D rng else d_zero D)
   })"

fun cvd_loop :: "'d decimal_api \<Rightarrow> 'd \<Rightarrow> 'd list \<Rightarrow> 'd zscore \<Rightarrow> 'd zscore option" where
  "cvd_loop D acc [] z = Some z"
| "cvd_loop D acc (d # ds) z = do { acc \<leftarrow> d_add D acc d; cvd_loop D acc ds (zscore_push acc z) }"

fun cvd_signal :: "phase \<Rightarrow> bool \<Rightarrow> bool \<Rightarrow> signal option" where
  "cvd_signal FlatPhase divergence_long divergence_short =
     (if divergence_long then Some (Enter True) else if divergence_short then Some (Enter False) else None)"
| "cvd_signal LongPhase divergence_long divergence_short = (if divergence_long then None else Some Exit)"
| "cvd_signal ShortPhase divergence_long divergence_short = (if divergence_short then None else Some Exit)"

fun collect_options :: "'a option list \<Rightarrow> 'a list option" where
  "collect_options [] = Some []"
| "collect_options (x # xs) = do { y \<leftarrow> x; ys \<leftarrow> collect_options xs; Some (y # ys) }"

definition cvd_decide ::
  "'d decimal_api \<Rightarrow> 'd cvd_config \<Rightarrow> candle list \<Rightarrow> phase \<Rightarrow> signal option option" where
  "cvd_decide D cfg candles held =
     (let bars = hlc_bars D candles; closes = map (snd \<circ> snd) bars
      in do {
        deltas \<leftarrow> collect_options (map (bar_delta D) bars);
        if length deltas < unat (cv_period cfg) then Some None
        else do {
          zs \<leftarrow> cvd_loop D (d_zero D) deltas (zscore_new (unat (cv_period cfg)));
          z \<leftarrow> zscore_value D zs;
          first \<leftarrow> index_at closes (of_nat (length closes) - cv_period cfg);
          price_move \<leftarrow> d_sub D (or_zero D (last_of closes)) first;
          Some (cvd_signal held
            (d_gt D (d_zero D) price_move \<and> d_gt D (or_zero D z) (cv_z_threshold cfg))
            (d_gt D price_move (d_zero D) \<and> d_gt D (d_neg D (cv_z_threshold cfg)) (or_zero D z)))
        }
      })"

section \<open>Ichimoku\<close>

record 'd ichimoku_config =
  ik_common :: common_params
  ik_tenkan_period :: u64
  ik_kijun_period :: u64
  ik_senkou_b_period :: u64
  ik_qty :: 'd

text \<open>The least and the greatest decimal, the seeds of the search for the extremes.\<close>

record 'd decimal_limits =
  dl_min :: 'd
  dl_max :: 'd

definition window_extremes ::
  "'d decimal_api \<Rightarrow> 'd decimal_limits \<Rightarrow> ('d \<times> 'd) list \<Rightarrow> u64 \<Rightarrow> ('d \<times> 'd) option" where
  "window_extremes D ends bars window =
     (if length bars < unat window then None
      else Some (foldl (\<lambda>(hi, lo) (h, l). (if d_gt D h hi then h else hi, if d_gt D lo l then l else lo))
             (dl_min ends, dl_max ends) (take (unat window) (drop (length bars - unat window) bars))))"

definition line_value ::
  "'d decimal_api \<Rightarrow> 'd decimal_limits \<Rightarrow> ('d \<times> 'd) list \<Rightarrow> u64 \<Rightarrow> 'd option option" where
  "line_value D ends bars window = (case window_extremes D ends bars window of
       None \<Rightarrow> Some None
     | Some (hi, lo) \<Rightarrow> do { s \<leftarrow> d_add D hi lo; v \<leftarrow> halved D s; Some (Some v) })"

text \<open>A line as it stood at \<open>src\<close>, with the current value where the history is too short.\<close>

definition displaced_line ::
  "'d decimal_api \<Rightarrow> 'd decimal_limits \<Rightarrow> ('d \<times> 'd) list \<Rightarrow> u64 \<Rightarrow> u64 \<Rightarrow> 'd \<Rightarrow> 'd option" where
  "displaced_line D ends bars src period current =
     (if src \<ge> period
      then do {
        v \<leftarrow> line_value D ends (take (unat period) (drop (unat (src - period)) bars)) period;
        Some (case v of None \<Rightarrow> current | Some x \<Rightarrow> x)
      }
      else Some current)"

record 'd cloud =
  cl_tenkan :: 'd
  cl_kijun :: 'd
  cl_senkou_a :: 'd
  cl_senkou_b :: 'd

definition ichimoku_cloud ::
  "'d decimal_api \<Rightarrow> 'd decimal_limits \<Rightarrow> 'd ichimoku_config \<Rightarrow> ('d \<times> 'd) list \<Rightarrow> 'd cloud option option" where
  "ichimoku_cloud D ends cfg bars = do {
     t \<leftarrow> line_value D ends bars (ik_tenkan_period cfg);
     case t of None \<Rightarrow> Some None | Some tenkan \<Rightarrow> do {
     k \<leftarrow> line_value D ends bars (ik_kijun_period cfg);
     case k of None \<Rightarrow> Some None | Some kijun \<Rightarrow> do {
       let src = of_nat (length bars) - ik_kijun_period cfg;
       b \<leftarrow> line_value D ends (take (unat (ik_senkou_b_period cfg)) (drop (unat src - unat (ik_senkou_b_period cfg)) bars))
             (ik_senkou_b_period cfg);
       senkou_b \<leftarrow> b;
       tenkan_src \<leftarrow> displaced_line D ends bars src (ik_tenkan_period cfg) tenkan;
       kijun_src \<leftarrow> displaced_line D ends bars src (ik_kijun_period cfg) kijun;
       s \<leftarrow> d_add D tenkan_src kijun_src; senkou_a \<leftarrow> halved D s;
       Some (Some \<lparr>cl_tenkan = tenkan, cl_kijun = kijun, cl_senkou_a = senkou_a, cl_senkou_b = senkou_b\<rparr>)
     }}}"

definition ichimoku_signal :: "'d decimal_api \<Rightarrow> 'd cloud \<Rightarrow> 'd \<Rightarrow> phase \<Rightarrow> signal option" where
  "ichimoku_signal D c close held =
     (let above = d_gt D close (d_max D (cl_senkou_a c) (cl_senkou_b c));
          below = d_gt D (d_min D (cl_senkou_a c) (cl_senkou_b c)) close;
          inside = (\<not> above \<and> \<not> below);
          bullish = d_gt D (cl_senkou_a c) (cl_senkou_b c);
          rising = d_gt D (cl_tenkan c) (cl_kijun c);
          falling = d_gt D (cl_kijun c) (cl_tenkan c)
      in case held of
           FlatPhase \<Rightarrow> if rising \<and> above \<and> bullish then Some (Enter True)
                       else if falling \<and> below \<and> \<not> bullish then Some (Enter False) else None
         | LongPhase \<Rightarrow> if inside \<or> falling then Some Exit else None
         | ShortPhase \<Rightarrow> if inside \<or> rising then Some Exit else None)"

definition ichimoku_decide ::
  "'d decimal_api \<Rightarrow> 'd decimal_limits \<Rightarrow> 'd ichimoku_config \<Rightarrow> candle list \<Rightarrow> phase \<Rightarrow> signal option option" where
  "ichimoku_decide D ends cfg candles held =
     (let bars = hlc_bars D candles
      in if length bars < unat (ik_senkou_b_period cfg + ik_kijun_period cfg) then Some None
         else do {
           computed \<leftarrow> ichimoku_cloud D ends cfg (map (\<lambda>(h, l, c). (h, l)) bars);
           case computed of
             None \<Rightarrow> Some None
           | Some c \<Rightarrow> do { close \<leftarrow> last_of (map (snd \<circ> snd) bars); Some (ichimoku_signal D c close held) }
         })"

section \<open>Strategies that remember only whether they hold a position\<close>

record 'd macd_bb_config =
  mb_common :: common_params
  mb_macd_fast :: u64
  mb_macd_slow :: u64
  mb_macd_signal :: u64
  mb_boll_window :: u64
  mb_boll_mult :: 'd
  mb_qty :: 'd

datatype trade_signal = BuySignal | SellSignal | NoTrade

definition macd_line :: "'d decimal_api \<Rightarrow> 'd list \<Rightarrow> u64 \<Rightarrow> u64 \<Rightarrow> 'd option option" where
  "macd_line D closes fast slow = do {
     f \<leftarrow> ema_of D fast closes; s \<leftarrow> ema_of D slow closes;
     case (f, s) of (Some f, Some s) \<Rightarrow> map_option Some (d_sub D f s) | _ \<Rightarrow> Some None
   }"

fun macd_values :: "'d decimal_api \<Rightarrow> 'd ema \<Rightarrow> 'd ema \<Rightarrow> 'd list \<Rightarrow> 'd list option" where
  "macd_values D ema_f ema_s [] = Some []"
| "macd_values D ema_f ema_s (c # cs) = do {
     ema_f \<leftarrow> ema_push D c ema_f; ema_s \<leftarrow> ema_push D c ema_s;
     here \<leftarrow> (case (em_value ema_f, em_value ema_s) of
              (Some f, Some s) \<Rightarrow> do { v \<leftarrow> d_sub D f s; Some [v] }
            | _ \<Rightarrow> Some []);
     rest \<leftarrow> macd_values D ema_f ema_s cs;
     Some (here @ rest)
   }"

definition macd_signal_line :: "'d decimal_api \<Rightarrow> 'd macd_bb_config \<Rightarrow> 'd list \<Rightarrow> 'd option option" where
  "macd_signal_line D cfg closes = do {
     ema_f \<leftarrow> ema_new D (unat (mb_macd_fast cfg)); ema_s \<leftarrow> ema_new D (unat (mb_macd_slow cfg));
     values \<leftarrow> macd_values D ema_f ema_s closes;
     ema_of D (mb_macd_signal cfg) values
   }"

definition macd_bb_signal :: "'d decimal_api \<Rightarrow> 'd macd_bb_config \<Rightarrow> 'd list \<Rightarrow> trade_signal option" where
  "macd_bb_signal D cfg closes =
     (if length closes < max (unat (mb_macd_slow cfg + mb_macd_signal cfg)) (unat (mb_boll_window cfg)) then Some NoTrade
      else do {
        line \<leftarrow> macd_line D closes (mb_macd_fast cfg) (mb_macd_slow cfg);
        case line of None \<Rightarrow> Some NoTrade | Some macd \<Rightarrow> do {
        sig \<leftarrow> macd_signal_line D cfg closes;
        case sig of None \<Rightarrow> Some NoTrade | Some signal_val \<Rightarrow> do {
        computed \<leftarrow> bollinger_compute D closes (mb_boll_mult cfg);
        case (computed, last_of closes) of
          (Some bands, Some lst) \<Rightarrow>
            Some (if d_gt D macd signal_val \<and> d_ge D (ba_lower bands) lst then BuySignal
                  else if d_gt D signal_val macd \<and> d_ge D lst (ba_upper bands) then SellSignal
                  else NoTrade)
        | _ \<Rightarrow> Some NoTrade
        }}})"

definition position_legs :: "trade_signal \<Rightarrow> bool \<Rightarrow> (bool \<times> bool) list option" where
  "position_legs sig has_pos =
     (if sig = BuySignal \<and> \<not> has_pos then Some [(True, True)]
      else if sig = SellSignal \<and> has_pos then Some [(False, False)]
      else None)"

definition macd_bb_decide ::
  "'d decimal_api \<Rightarrow> 'd macd_bb_config \<Rightarrow> candle list \<Rightarrow> bool \<Rightarrow> (bool \<times> bool) list option option" where
  "macd_bb_decide D cfg candles has_pos = do {
     sig \<leftarrow> macd_bb_signal D cfg (closes_of D candles);
     Some (position_legs sig has_pos)
   }"

definition macd_bb_tick ::
  "('v, 'm, 'd) strategy_ports \<Rightarrow> 'd macd_bb_config \<Rightarrow> u64 \<Rightarrow> ('v, bool) signal_state
   \<Rightarrow> (strategy_error + unit) option \<times> ('v, bool) signal_state" where
  "macd_bb_tick P cfg = signal_tick P
     \<lparr>si_common = mb_common cfg, si_prefix = ''macdbb-'', si_qty = mb_qty cfg,
      si_need = limit_or_200 (mb_macd_slow cfg + mb_macd_signal cfg)\<rparr>
     (macd_bb_decide (sp_decimal P) cfg)"

record 'd bollinger_v2_config =
  b2_common :: common_params
  b2_window :: u64
  b2_mult :: 'd
  b2_squeeze_threshold :: 'd
  b2_qty :: 'd

definition bollinger_signal :: "'d decimal_api \<Rightarrow> 'd \<Rightarrow> 'd bands \<Rightarrow> 'd \<Rightarrow> trade_signal option" where
  "bollinger_signal D close bands squeeze_threshold = do {
     diff \<leftarrow> d_sub D (ba_upper bands) (ba_lower bands);
     width \<leftarrow> d_div D diff (ba_middle bands);
     Some (if d_gt D squeeze_threshold width then NoTrade
           else if d_ge D (ba_lower bands) close then BuySignal
           else if d_ge D close (ba_upper bands) then SellSignal
           else NoTrade)
   }"

definition bollinger_v2_decide ::
  "'d decimal_api \<Rightarrow> 'd bollinger_v2_config \<Rightarrow> candle list \<Rightarrow> bool \<Rightarrow> (bool \<times> bool) list option option" where
  "bollinger_v2_decide D cfg candles has_pos =
     (let closes = closes_of D candles
      in do {
        computed \<leftarrow> bollinger_compute D closes (b2_mult cfg);
        case (computed, last_of closes) of
          (Some bands, Some close) \<Rightarrow> do {
            sig \<leftarrow> bollinger_signal D close bands (b2_squeeze_threshold cfg);
            Some (position_legs sig has_pos)
          }
        | _ \<Rightarrow> Some None
      })"

definition bollinger_v2_tick ::
  "('v, 'm, 'd) strategy_ports \<Rightarrow> 'd bollinger_v2_config \<Rightarrow> u64 \<Rightarrow> ('v, bool) signal_state
   \<Rightarrow> (strategy_error + unit) option \<times> ('v, bool) signal_state" where
  "bollinger_v2_tick P cfg = signal_tick P
     \<lparr>si_common = b2_common cfg, si_prefix = ''bollv2-'', si_qty = b2_qty cfg, si_need = limit_or_200 (b2_window cfg)\<rparr>
     (bollinger_v2_decide (sp_decimal P) cfg)"

section \<open>The polls of the phase strategies\<close>

text \<open>The number of candles asked for is the length the indicators need, cut to 32 bits.\<close>

definition supertrend_tick ::
  "('v, 'm, 'd) strategy_ports \<Rightarrow> 'd supertrend_config \<Rightarrow> u64 \<Rightarrow> ('v, phase) signal_state
   \<Rightarrow> (strategy_error + unit) option \<times> ('v, phase) signal_state" where
  "supertrend_tick P cfg = signal_tick P
     \<lparr>si_common = sn_common cfg, si_prefix = ''supertrend-'', si_qty = sn_qty cfg, si_need = 200\<rparr>
     (phase_legs (supertrend_decide (sp_decimal P) cfg))"

definition adx_trend_tick ::
  "('v, 'm, 'd) strategy_ports \<Rightarrow> 'd adx_trend_config \<Rightarrow> u64 \<Rightarrow> ('v, phase) signal_state
   \<Rightarrow> (strategy_error + unit) option \<times> ('v, phase) signal_state" where
  "adx_trend_tick P cfg = signal_tick P
     \<lparr>si_common = ad_common cfg, si_prefix = ''adx-'', si_qty = ad_qty cfg, si_need = ucast (ad_period cfg * 3 + 10)\<rparr>
     (phase_legs (adx_trend_decide (sp_decimal P) cfg))"

definition mean_reversion_tick ::
  "('v, 'm, 'd) strategy_ports \<Rightarrow> 'd mean_reversion_config \<Rightarrow> u64 \<Rightarrow> ('v, phase) signal_state
   \<Rightarrow> (strategy_error + unit) option \<times> ('v, phase) signal_state" where
  "mean_reversion_tick P cfg = signal_tick P
     \<lparr>si_common = mr_common cfg, si_prefix = ''mr-'', si_qty = mr_qty cfg, si_need = ucast (mr_period cfg * 2 + 5)\<rparr>
     (phase_legs (mean_reversion_decide (sp_decimal P) cfg))"

definition momentum_factor_tick ::
  "('v, 'm, 'd) strategy_ports \<Rightarrow> 'd momentum_factor_config \<Rightarrow> u64 \<Rightarrow> ('v, phase) signal_state
   \<Rightarrow> (strategy_error + unit) option \<times> ('v, phase) signal_state" where
  "momentum_factor_tick P cfg = signal_tick P
     \<lparr>si_common = mf_common cfg, si_prefix = ''mom-'', si_qty = mf_qty cfg, si_need = ucast (mf_period cfg * 3 + 10)\<rparr>
     (phase_legs (momentum_factor_decide (sp_decimal P) cfg))"

definition dual_thrust_tick ::
  "('v, 'm, 'd) strategy_ports \<Rightarrow> 'd dual_thrust_config \<Rightarrow> u64 \<Rightarrow> ('v, phase) signal_state
   \<Rightarrow> (strategy_error + unit) option \<times> ('v, phase) signal_state" where
  "dual_thrust_tick P cfg = signal_tick P
     \<lparr>si_common = dt_common cfg, si_prefix = ''dt-'', si_qty = dt_qty cfg, si_need = ucast (dt_period cfg + 5)\<rparr>
     (phase_legs (dual_thrust_decide (sp_decimal P) cfg))"

definition darvas_box_tick ::
  "('v, 'm, 'd) strategy_ports \<Rightarrow> 'd darvas_box_config \<Rightarrow> u64 \<Rightarrow> ('v, phase) signal_state
   \<Rightarrow> (strategy_error + unit) option \<times> ('v, phase) signal_state" where
  "darvas_box_tick P cfg = signal_tick P
     \<lparr>si_common = dx_common cfg, si_prefix = ''darvas-'', si_qty = dx_qty cfg,
      si_need = ucast (dx_period cfg + dx_box_bars cfg + 5)\<rparr>
     (phase_legs (darvas_box_decide (sp_decimal P) cfg))"

definition squeeze_tick ::
  "('v, 'm, 'd) strategy_ports \<Rightarrow> 'd squeeze_config \<Rightarrow> u64 \<Rightarrow> ('v, phase) signal_state
   \<Rightarrow> (strategy_error + unit) option \<times> ('v, phase) signal_state" where
  "squeeze_tick P cfg = signal_tick P
     \<lparr>si_common = sq_common cfg, si_prefix = ''squeeze-'', si_qty = sq_qty cfg, si_need = ucast (sq_window cfg * 2 + 10)\<rparr>
     (phase_legs (squeeze_decide (sp_decimal P) cfg))"

definition cvd_tick ::
  "('v, 'm, 'd) strategy_ports \<Rightarrow> 'd cvd_config \<Rightarrow> u64 \<Rightarrow> ('v, phase) signal_state
   \<Rightarrow> (strategy_error + unit) option \<times> ('v, phase) signal_state" where
  "cvd_tick P cfg = signal_tick P
     \<lparr>si_common = cv_common cfg, si_prefix = ''cvd-'', si_qty = cv_qty cfg, si_need = ucast (cv_period cfg * 2 + 5)\<rparr>
     (phase_legs (cvd_decide (sp_decimal P) cfg))"

definition ichimoku_tick ::
  "('v, 'm, 'd) strategy_ports \<Rightarrow> 'd decimal_limits \<Rightarrow> 'd ichimoku_config \<Rightarrow> u64 \<Rightarrow> ('v, phase) signal_state
   \<Rightarrow> (strategy_error + unit) option \<times> ('v, phase) signal_state" where
  "ichimoku_tick P ends cfg = signal_tick P
     \<lparr>si_common = ik_common cfg, si_prefix = ''ichi-'', si_qty = ik_qty cfg,
      si_need = ucast (ik_senkou_b_period cfg + ik_kijun_period cfg + 10)\<rparr>
     (phase_legs (ichimoku_decide (sp_decimal P) ends cfg))"

section \<open>Parameters left out of the configuration\<close>

definition ema_cross_default :: "'d decimal_api \<Rightarrow> common_params \<Rightarrow> 'd ema_cross_config" where
  "ema_cross_default D c = \<lparr>ec_common = c, ec_fast_window = 9, ec_slow_window = 21, ec_qty = d_new D 1 3\<rparr>"

definition supertrend_default :: "'d decimal_api \<Rightarrow> common_params \<Rightarrow> 'd supertrend_config" where
  "supertrend_default D c = \<lparr>sn_common = c, sn_atr_window = 14, sn_atr_multiplier = d_new D 3 0, sn_fast_dema_window = 10,
     sn_slow_dema_window = 21, sn_qty = d_new D 1 3\<rparr>"

definition adx_trend_default :: "'d decimal_api \<Rightarrow> common_params \<Rightarrow> 'd adx_trend_config" where
  "adx_trend_default D c = \<lparr>ad_common = c, ad_period = 14, ad_threshold = d_of_int D 25, ad_qty = d_new D 1 3\<rparr>"

definition mean_reversion_default :: "'d decimal_api \<Rightarrow> common_params \<Rightarrow> 'd mean_reversion_config" where
  "mean_reversion_default D c = \<lparr>mr_common = c, mr_period = 20, mr_entry_threshold = d_of_int D 2,
     mr_exit_band = d_new D 5 1, mr_qty = d_new D 1 3\<rparr>"

definition momentum_factor_default :: "'d decimal_api \<Rightarrow> common_params \<Rightarrow> 'd momentum_factor_config" where
  "momentum_factor_default D c = \<lparr>mf_common = c, mf_period = 14, mf_return_threshold = d_new D 2 2,
     mf_velocity_band = d_of_int D 5, mf_qty = d_new D 1 3\<rparr>"

definition dual_thrust_default :: "'d decimal_api \<Rightarrow> common_params \<Rightarrow> 'd dual_thrust_config" where
  "dual_thrust_default D c = \<lparr>dt_common = c, dt_period = 5, dt_k1 = d_new D 5 1, dt_k2 = d_new D 5 1, dt_qty = d_new D 1 3\<rparr>"

definition darvas_box_default :: "'d decimal_api \<Rightarrow> common_params \<Rightarrow> 'd darvas_box_config" where
  "darvas_box_default D c = \<lparr>dx_common = c, dx_period = 20, dx_box_bars = 3, dx_qty = d_new D 1 3\<rparr>"

definition squeeze_default :: "'d decimal_api \<Rightarrow> common_params \<Rightarrow> 'd squeeze_config" where
  "squeeze_default D c = \<lparr>sq_common = c, sq_window = 20, sq_bb_mult = d_of_int D 2, sq_kc_mult = d_new D 15 1, sq_qty = d_new D 1 3\<rparr>"

definition cvd_default :: "'d decimal_api \<Rightarrow> common_params \<Rightarrow> 'd cvd_config" where
  "cvd_default D c = \<lparr>cv_common = c, cv_period = 20, cv_z_threshold = d_new D 15 1, cv_qty = d_new D 1 3\<rparr>"

definition ichimoku_default :: "'d decimal_api \<Rightarrow> common_params \<Rightarrow> 'd ichimoku_config" where
  "ichimoku_default D c = \<lparr>ik_common = c, ik_tenkan_period = 9, ik_kijun_period = 26, ik_senkou_b_period = 52, ik_qty = d_new D 1 3\<rparr>"

definition macd_bb_default :: "'d decimal_api \<Rightarrow> common_params \<Rightarrow> 'd macd_bb_config" where
  "macd_bb_default D c = \<lparr>mb_common = c, mb_macd_fast = 12, mb_macd_slow = 26, mb_macd_signal = 9, mb_boll_window = 20,
     mb_boll_mult = d_of_int D 2, mb_qty = d_one D\<rparr>"

definition bollinger_v2_default :: "'d decimal_api \<Rightarrow> common_params \<Rightarrow> 'd bollinger_v2_config" where
  "bollinger_v2_default D c = \<lparr>b2_common = c, b2_window = 20, b2_mult = d_of_int D 2, b2_squeeze_threshold = d_new D 1 2, b2_qty = d_one D\<rparr>"

end
