(* ===== verification/Signal_Safety.thy ===== *)
theory Signal_Safety
  imports Signal_Strategies Executor_Safety
begin

text \<open>
  What the candle strategies guarantee: the phase they believe in is the net of the orders the
  venue has accepted, whatever it refuses in between; a refused order is asked for again; and
  what their decisions leave out.
\<close>

section \<open>Accepted orders\<close>

text \<open>A gateway that also writes down the create requests the venue has accepted.\<close>

definition accepting :: "('v, 'm) trading_gateway \<Rightarrow> ('v \<times> create_order_request list, 'm) trading_gateway" where
  "accepting gw = (recording gw)
     \<lparr>gw_create_order := (\<lambda>(v, log) req. let (r, v) = gw_create_order gw v req in (r, v, if is_ok r then log @ [req] else log))\<rparr>"

definition accepting_ports ::
  "('v, 'm, 'd) strategy_ports \<Rightarrow> ('v \<times> create_order_request list, 'm, 'd) strategy_ports" where
  "accepting_ports P = (recording_ports P)\<lparr>sp_gateway := accepting (sp_gateway P)\<rparr>"

lemma accepting_ports_simps [simp]:
  "sp_gateway (accepting_ports P) = accepting (sp_gateway P)"
  "sp_market (accepting_ports P) = recording_market (sp_market P)"
  "sp_decimal (accepting_ports P) = sp_decimal P" "sp_ulid (accepting_ports P) = sp_ulid P"
  by (simp_all add: accepting_ports_def recording_ports_def)

lemma accepted_create:
  "gw_create_order (accepting gw) vl req = (r, v) \<Longrightarrow> snd v = (if is_ok r then snd vl @ [req] else snd vl)"
  by (auto simp: accepting_def split: prod.splits)

lemma recorded_candles:
  "snd (snd (fetch_candles (recording_market m) ex symbol tf need vl)) = snd vl"
  by (simp add: fetch_candles_def split: sum.splits)

section \<open>Traders in legs\<close>

definition leg_of :: "('v, 'm, 'd) strategy_ports \<Rightarrow> 'd signal_params \<Rightarrow> bool \<Rightarrow> create_order_request \<Rightarrow> bool" where
  "leg_of P i is_buy req \<longleftrightarrow> (\<exists>n. req = market_order (sp_decimal P) (proto_exchange_id (si_common i))
     (cp_symbol (si_common i)) (si_prefix i @ sp_ulid P n) is_buy (si_qty i))"

fun legs_good :: "('p \<Rightarrow> bool list \<Rightarrow> bool) \<Rightarrow> bool list \<Rightarrow> (bool \<times> 'p) list \<Rightarrow> bool" where
  "legs_good good sides [] = True"
| "legs_good good sides ((is_buy, p) # legs) = (good p (sides @ [is_buy]) \<and> legs_good good (sides @ [is_buy]) legs)"

text \<open>\<open>good p sides\<close>: what the phase \<open>p\<close> says of the sides of the accepted orders, oldest first.\<close>

definition trades_ok ::
  "('p \<Rightarrow> bool list \<Rightarrow> bool) \<Rightarrow> ('v, 'm, 'd) strategy_ports \<Rightarrow> 'd signal_params
   \<Rightarrow> ('v \<times> create_order_request list, 'p) signal_state \<Rightarrow> bool" where
  "trades_ok good P i s \<longleftrightarrow> (\<exists>sides. good (sg_phase s) sides \<and> list_all2 (leg_of P i) sides (snd (sg_venue s)))"

lemma send_legs_ok:
  assumes "good (sg_phase s) sides" and "list_all2 (leg_of P i) sides (snd (sg_venue s))" and "legs_good good sides legs"
  shows "trades_ok good P i (snd (send_legs (accepting_ports P) i legs s))"
  using assms
proof (induction legs arbitrary: s sides)
  case Nil
  then show ?case by (auto simp: trades_ok_def)
next
  case (Cons leg legs)
  obtain is_buy p where leg: "leg = (is_buy, p)" by (cases leg)
  let ?req = "market_order (sp_decimal P) (proto_exchange_id (si_common i)) (cp_symbol (si_common i))
    (si_prefix i @ sp_ulid P (sg_ulids s)) is_buy (si_qty i)"
  obtain r v where c: "gw_create_order (accepting (sp_gateway P)) (sg_venue s) ?req = (r, v)"
    by (cases "gw_create_order (accepting (sp_gateway P)) (sg_venue s) ?req")
  note log = accepted_create [OF c]
  show ?case
  proof (cases r)
    case (Inl e)
    then show ?thesis using Cons.prems leg c log by (auto simp: trades_ok_def)
  next
    case (Inr x)
    have "leg_of P i is_buy ?req" by (auto simp: leg_of_def)
    then have "list_all2 (leg_of P i) (sides @ [is_buy]) (snd v)"
      using log Inr Cons.prems(2) by (simp add: list_all2_appendI)
    then have "trades_ok good P i (snd (send_legs (accepting_ports P) i legs
        (s\<lparr>sg_phase := p, sg_venue := v, sg_ulids := Suc (sg_ulids s)\<rparr>)))"
      using Cons.prems(3) leg by (intro Cons.IH [where sides = "sides @ [is_buy]"]) simp_all
    then show ?thesis using leg c Inr by simp
  qed
qed

definition signal_world :: "('v \<times> create_order_request list, 'p) signal_state \<Rightarrow> ('v \<times> create_order_request list, 'p) signal_state \<Rightarrow> bool" where
  "signal_world = venue_changes sg_venue (\<lambda>v. sg_venue_update (\<lambda>_. v))"

locale leg_trader =
  fixes decide :: "candle list \<Rightarrow> 'p \<Rightarrow> (bool \<times> 'p) list option option" and start :: 'p
    and good :: "'p \<Rightarrow> bool list \<Rightarrow> bool"
  assumes good_start: "good start []"
    and good_legs: "good p sides \<Longrightarrow> decide cs p = Some (Some legs) \<Longrightarrow> legs_good good sides legs"
begin

lemma tick_ok:
  assumes "trades_ok good P i s"
  shows "trades_ok good P i (snd (signal_tick (accepting_ports P) i decide now s))"
proof -
  let ?fetch = "fetch_candles (recording_market (sp_market P)) (proto_exchange_id (si_common i)) (cp_symbol (si_common i))
    (cp_timeframe (si_common i)) (si_need i) (sg_venue s)"
  obtain r v where f: "?fetch = (r, v)" by (cases ?fetch)
  have log: "snd v = snd (sg_venue s)" using f recorded_candles by (metis snd_conv)
  obtain sides where sides: "good (sg_phase s) sides" "list_all2 (leg_of P i) sides (snd (sg_venue s))"
    using assms unfolding trades_ok_def by blast
  have same: "trades_ok good P i (s\<lparr>sg_venue := v\<rparr>)" using assms log by (simp add: trades_ok_def)
  show ?thesis
  proof (cases r)
    case (Inl e)
    then show ?thesis using f same by (simp add: signal_tick_def)
  next
    case (Inr candles)
    consider "decide candles (sg_phase s) = None" | "decide candles (sg_phase s) = Some None"
      | legs where "decide candles (sg_phase s) = Some (Some legs)" by (metis not_None_eq)
    then show ?thesis
    proof cases
      case 3
      have "trades_ok good P i (snd (send_legs (accepting_ports P) i legs (s\<lparr>sg_venue := v\<rparr>)))"
        using sides log good_legs [OF sides(1) 3] by (intro send_legs_ok [where sides = sides]) simp_all
      then show ?thesis using f Inr 3 by (auto simp: signal_tick_def split: prod.splits)
    qed (use f Inr same in \<open>simp_all add: signal_tick_def\<close>)
  qed
qed

lemma trader: "polled_strategy (signal_tick (accepting_ports P) i decide) signal_world
    (\<lambda>s. \<exists>v n. s = signal_start start (v, []) n) (trades_ok good P i)"
proof
  show "trades_ok good P i s" if "\<exists>v n. s = signal_start start (v, []) n" for s
    using that good_start by (auto simp: trades_ok_def signal_start_def)
  show "trades_ok good P i (snd (signal_tick (accepting_ports P) i decide now s))" if "trades_ok good P i s" for s now
    using tick_ok [OF that] .
  show "trades_ok good P i s'" if "trades_ok good P i s" "signal_world s s'" for s s'
    using that by (auto simp: trades_ok_def signal_world_def venue_changes_def)
qed

lemma reached:
  assumes "reach (\<lambda>s. \<exists>v n. s = signal_start start (v, []) n)
    (poll_move (signal_tick (accepting_ports P) i decide) signal_world) s"
  shows "\<exists>sides. good (sg_phase s) sides \<and> list_all2 (leg_of P i) sides (snd (sg_venue s))"
proof -
  have "invariant_system (\<lambda>s. \<exists>v n. s = signal_start start (v, []) n)
      (poll_move (signal_tick (accepting_ports P) i decide) signal_world) (trades_ok good P i)"
    using trader [of P i] by (intro invariant_system.intro)
      (auto dest: polled_strategy.start_inv polled_strategy.move_inv)
  then show ?thesis using assms unfolding trades_ok_def by (rule invariant_system.inv_reach)
qed

end

section \<open>Exposure\<close>

definition net :: "bool list \<Rightarrow> int" where
  "net sides = sum_list (map (\<lambda>is_buy. if is_buy then 1 else - 1) sides)"

lemma net_simps [simp]:
  "net [] = 0" "net (b # sides) = (if b then 1 else - 1) + net sides" "net (sides @ sides') = net sides + net sides'"
  by (simp_all add: net_def)

locale exposed_trader =
  fixes decide :: "candle list \<Rightarrow> 'p \<Rightarrow> (bool \<times> 'p) list option option" and start :: 'p
    and exposure :: "'p \<Rightarrow> int"
  assumes flat_start: "exposure start = 0"
    and chained: "decide cs p = Some (Some legs) \<Longrightarrow> net sides = exposure p
      \<Longrightarrow> legs_good (\<lambda>p sides. net sides = exposure p) sides legs"

sublocale exposed_trader \<subseteq> leg_trader decide start "\<lambda>p sides. net sides = exposure p"
  by unfold_locales (simp_all add: flat_start chained)

fun phase_exposure :: "phase \<Rightarrow> int" where
  "phase_exposure FlatPhase = 0"
| "phase_exposure LongPhase = 1"
| "phase_exposure ShortPhase = - 1"

text \<open>A signal that fits the phase: in from flat, out from a position, over to the other side.\<close>

fun legal_signal :: "phase \<Rightarrow> signal \<Rightarrow> bool" where
  "legal_signal held (Enter _) = (held = FlatPhase)"
| "legal_signal held Exit = (held \<noteq> FlatPhase)"
| "legal_signal held (Reverse b) = (held = (if b then ShortPhase else LongPhase))"

locale phase_decision =
  fixes decide :: "candle list \<Rightarrow> phase \<Rightarrow> signal option option"
  assumes legal: "decide cs held = Some (Some sig) \<Longrightarrow> legal_signal held sig"

sublocale phase_decision \<subseteq> exposed_trader "phase_legs decide" FlatPhase phase_exposure
proof
  fix cs held legs sides
  assume "phase_legs decide cs held = Some (Some legs)" and net: "net sides = phase_exposure held"
  then obtain sig where sig: "decide cs held = Some (Some sig)" "legs = signal_legs held sig"
    by (auto simp: phase_legs_def)
  show "legs_good (\<lambda>p sides. net sides = phase_exposure p) sides legs"
    using legal [OF sig(1)] net unfolding sig(2)
    by (cases sig; cases held) (auto simp: exit_side_def split: if_splits)
qed simp

section \<open>The strategies\<close>

lemma case_option_Some:
  "(case a of None \<Rightarrow> None | Some x \<Rightarrow> g x) = Some z \<longleftrightarrow> (\<exists>x. a = Some x \<and> g x = Some z)"
  "(case a of None \<Rightarrow> Some None | Some x \<Rightarrow> h x) = Some (Some y) \<longleftrightarrow> (\<exists>x. a = Some x \<and> h x = Some (Some y))"
  by (cases a; simp)+

lemmas signal_choice = bind_eq_Some_conv case_option_Some Let_def

interpretation supertrend: phase_decision "supertrend_decide D cfg"
proof
  fix cs held sig
  assume "supertrend_decide D cfg cs held = Some (Some sig)"
  then obtain long short where "supertrend_signal held long short = Some sig"
    by (auto simp: supertrend_decide_def signal_choice)
  then show "legal_signal held sig" by (cases held) (auto split: if_splits)
qed

interpretation adx: phase_decision "adx_trend_decide D cfg"
proof
  fix cs held sig
  assume "adx_trend_decide D cfg cs held = Some (Some sig)"
  then obtain v p m where "adx_signal D (ad_threshold cfg) v p m held = Some sig"
    by (auto simp: adx_trend_decide_def signal_choice)
  then show "legal_signal held sig" by (cases held) (auto split: if_splits)
qed

interpretation mean_reversion: phase_decision "mean_reversion_decide D cfg"
proof
  fix cs held sig
  assume "mean_reversion_decide D cfg cs held = Some (Some sig)"
  then show "legal_signal held sig"
    by (auto simp: mean_reversion_decide_def mean_reversion_signal_def signal_choice split: if_splits)
qed

interpretation momentum: phase_decision "momentum_factor_decide D cfg"
proof
  fix cs held sig
  assume "momentum_factor_decide D cfg cs held = Some (Some sig)"
  then obtain r v where "momentum_signal D cfg r v held = Some (Some sig)"
    by (auto simp: momentum_factor_decide_def signal_choice)
  then show "legal_signal held sig"
    by (cases held) (auto simp: momentum_enter_def signal_choice split: option.splits if_splits)
qed

interpretation dual_thrust: phase_decision "dual_thrust_decide D cfg"
proof
  fix cs held sig
  assume "dual_thrust_decide D cfg cs held = Some (Some sig)"
  then obtain b s opened c where "dual_thrust_signal D b s opened c held = Some sig"
    by (auto simp: dual_thrust_decide_def signal_choice)
  then show "legal_signal held sig" by (cases held) (auto split: if_splits)
qed

interpretation darvas: phase_decision "darvas_box_decide D cfg"
proof
  fix cs held sig
  assume "darvas_box_decide D cfg cs held = Some (Some sig)"
  then consider bar where "held \<noteq> FlatPhase" "darvas_exit D held bar = Some (Some sig)"
    | hs ls i c where "held = FlatPhase" "darvas_enter D cfg hs ls i c = Some (Some sig)"
    by (cases "held = FlatPhase") (auto simp: darvas_box_decide_def darvas_bars_signal_def signal_choice split: if_splits)
  then show "legal_signal held sig"
    by cases (auto simp: darvas_exit_def darvas_enter_def signal_choice split: prod.splits if_splits)
qed

interpretation squeeze: phase_decision "squeeze_decide D cfg"
proof
  fix cs held sig
  assume "squeeze_decide D cfg cs held = Some (Some sig)"
  then obtain b u l c where "squeeze_signal D b u l c held = Some sig"
    by (auto simp: squeeze_decide_def signal_choice)
  then show "legal_signal held sig" by (auto simp: squeeze_signal_def Let_def split: if_splits)
qed

interpretation cvd: phase_decision "cvd_decide D cfg"
proof
  fix cs held sig
  assume "cvd_decide D cfg cs held = Some (Some sig)"
  then obtain l s where "cvd_signal held l s = Some sig"
    by (auto simp: cvd_decide_def signal_choice split: if_splits)
  then show "legal_signal held sig" by (cases held) (auto split: if_splits)
qed

interpretation ichimoku: phase_decision "ichimoku_decide D ends cfg"
proof
  fix cs held sig
  assume "ichimoku_decide D ends cfg cs held = Some (Some sig)"
  then obtain c close where "ichimoku_signal D c close held = Some sig"
    by (auto simp: ichimoku_decide_def signal_choice split: if_splits)
  then show "legal_signal held sig" by (cases held) (auto simp: ichimoku_signal_def Let_def split: if_splits)
qed

lemma position_legs_chained:
  assumes "position_legs sig has_pos = Some legs" and "net sides = (if has_pos then 1 else 0)"
  shows "legs_good (\<lambda>p sides. net sides = (if p then 1 else 0)) sides legs"
  using assms by (auto simp: position_legs_def split: if_splits)

interpretation macd: exposed_trader "macd_bb_decide D cfg" False "\<lambda>has_pos. if has_pos then 1 else 0"
  by unfold_locales
    (auto simp: macd_bb_decide_def bind_eq_Some_conv split: if_splits intro!: position_legs_chained)

interpretation bollinger_v2: exposed_trader "bollinger_v2_decide D cfg" False "\<lambda>has_pos. if has_pos then 1 else 0"
  by unfold_locales
    (auto simp: bollinger_v2_decide_def signal_choice split: if_splits intro!: position_legs_chained)

text \<open>The EMA cross remembers only the side of its last order.\<close>

fun alternating :: "bool list \<Rightarrow> bool" where
  "alternating (a # b # sides) = (a \<noteq> b \<and> alternating (b # sides))"
| "alternating _ = True"

definition cross_sides :: "cross_state \<Rightarrow> bool list \<Rightarrow> bool" where
  "cross_sides st sides \<longleftrightarrow> alternating sides \<and>
     (case st of UnknownCross \<Rightarrow> sides = [] | FastAbove \<Rightarrow> sides \<noteq> [] \<and> last sides | FastBelow \<Rightarrow> sides \<noteq> [] \<and> \<not> last sides)"

lemma alternating_snoc: "alternating (sides @ [b]) \<longleftrightarrow> alternating sides \<and> (sides \<noteq> [] \<longrightarrow> last sides \<noteq> b)"
  by (induction sides rule: alternating.induct) auto

interpretation ema_cross: leg_trader "ema_cross_decide D cfg" UnknownCross cross_sides
proof
  fix st sides cs legs
  assume "cross_sides st sides" and "ema_cross_decide D cfg cs st = Some (Some legs)"
  then show "legs_good cross_sides sides legs"
    by (cases st) (auto simp: ema_cross_decide_def cross_sides_def alternating_snoc signal_choice split: if_splits)
qed (simp add: cross_sides_def)

section \<open>Positions follow accepted orders\<close>

datatype 'd phase_strategy =
    Supertrend "'d supertrend_config" | AdxTrend "'d adx_trend_config" | MeanReversion "'d mean_reversion_config"
  | MomentumFactor "'d momentum_factor_config" | DualThrust "'d dual_thrust_config" | DarvasBox "'d darvas_box_config"
  | BbKeltnerSqueeze "'d squeeze_config" | CvdDivergence "'d cvd_config" | Ichimoku "'d ichimoku_config"

fun phase_tick ::
  "('v, 'm, 'd) strategy_ports \<Rightarrow> 'd decimal_limits \<Rightarrow> 'd phase_strategy \<Rightarrow> u64 \<Rightarrow> ('v, phase) signal_state
   \<Rightarrow> (strategy_error + unit) option \<times> ('v, phase) signal_state" where
  "phase_tick P ends (Supertrend cfg) = supertrend_tick P cfg"
| "phase_tick P ends (AdxTrend cfg) = adx_trend_tick P cfg"
| "phase_tick P ends (MeanReversion cfg) = mean_reversion_tick P cfg"
| "phase_tick P ends (MomentumFactor cfg) = momentum_factor_tick P cfg"
| "phase_tick P ends (DualThrust cfg) = dual_thrust_tick P cfg"
| "phase_tick P ends (DarvasBox cfg) = darvas_box_tick P cfg"
| "phase_tick P ends (BbKeltnerSqueeze cfg) = squeeze_tick P cfg"
| "phase_tick P ends (CvdDivergence cfg) = cvd_tick P cfg"
| "phase_tick P ends (Ichimoku cfg) = ichimoku_tick P ends cfg"

fun phase_market :: "'d phase_strategy \<Rightarrow> common_params \<times> 'd" where
  "phase_market (Supertrend cfg) = (sn_common cfg, sn_qty cfg)"
| "phase_market (AdxTrend cfg) = (ad_common cfg, ad_qty cfg)"
| "phase_market (MeanReversion cfg) = (mr_common cfg, mr_qty cfg)"
| "phase_market (MomentumFactor cfg) = (mf_common cfg, mf_qty cfg)"
| "phase_market (DualThrust cfg) = (dt_common cfg, dt_qty cfg)"
| "phase_market (DarvasBox cfg) = (dx_common cfg, dx_qty cfg)"
| "phase_market (BbKeltnerSqueeze cfg) = (sq_common cfg, sq_qty cfg)"
| "phase_market (CvdDivergence cfg) = (cv_common cfg, cv_qty cfg)"
| "phase_market (Ichimoku cfg) = (ik_common cfg, ik_qty cfg)"

definition market_leg :: "'d decimal_api \<Rightarrow> common_params \<times> 'd \<Rightarrow> bool \<Rightarrow> create_order_request \<Rightarrow> bool" where
  "market_leg D cq is_buy req \<longleftrightarrow>
     (\<exists>coid. req = market_order D (proto_exchange_id (fst cq)) (cp_symbol (fst cq)) coid is_buy (snd cq))"

lemma leg_market:
  "list_all2 (leg_of P i) sides reqs \<Longrightarrow> list_all2 (market_leg (sp_decimal P) (si_common i, si_qty i)) sides reqs"
  by (erule list_all2_mono) (auto simp: leg_of_def market_leg_def)

lemmas phase_ticks = supertrend_tick_def adx_trend_tick_def mean_reversion_tick_def momentum_factor_tick_def
  dual_thrust_tick_def darvas_box_tick_def squeeze_tick_def cvd_tick_def ichimoku_tick_def

lemmas phase_reached = supertrend.reached adx.reached mean_reversion.reached momentum.reached
  dual_thrust.reached darvas.reached squeeze.reached cvd.reached ichimoku.reached

text \<open>
  C30: what a candle strategy believes to hold is what the venue has accepted.  Over any
  interleaving of polls and venue changes, refused orders and failed reads included, the accepted
  orders of each of the nine phase strategies are market orders of its quantity on its symbol, and
  buys minus sells is exactly the position of its phase, so it never holds more than one unit.
\<close>
theorem position_follows_accepted_orders:
  assumes "reach (\<lambda>s. \<exists>v n. s = signal_start FlatPhase (v, []) n)
    (poll_move (phase_tick (accepting_ports P) ends strategy) signal_world) s"
  shows "\<exists>sides. list_all2 (market_leg (sp_decimal P) (phase_market strategy)) sides (snd (sg_venue s))
    \<and> net sides = phase_exposure (sg_phase s)"
  using assms by (cases strategy) (auto simp: phase_ticks dest!: phase_reached leg_market)

text \<open>The two long-only strategies hold nothing or one unit, the EMA cross buys and sells in turn.\<close>

lemma long_only_position:
  assumes "reach (\<lambda>s. \<exists>v n. s = signal_start False (v, []) n) (poll_move (macd_bb_tick (accepting_ports P) cfg) signal_world) s"
  shows "\<exists>sides. list_all2 (market_leg (sp_decimal P) (mb_common cfg, mb_qty cfg)) sides (snd (sg_venue s))
    \<and> net sides = (if sg_phase s then 1 else 0)"
  using assms by (auto simp: macd_bb_tick_def dest!: macd.reached leg_market split: if_splits)

lemma long_only_position_v2:
  assumes "reach (\<lambda>s. \<exists>v n. s = signal_start False (v, []) n) (poll_move (bollinger_v2_tick (accepting_ports P) cfg) signal_world) s"
  shows "\<exists>sides. list_all2 (market_leg (sp_decimal P) (b2_common cfg, b2_qty cfg)) sides (snd (sg_venue s))
    \<and> net sides = (if sg_phase s then 1 else 0)"
  using assms by (auto simp: bollinger_v2_tick_def dest!: bollinger_v2.reached leg_market split: if_splits)

lemma crosses_alternate:
  assumes "reach (\<lambda>s. \<exists>v n. s = signal_start UnknownCross (v, []) n) (poll_move (ema_cross_tick (accepting_ports P) cfg) signal_world) s"
  shows "\<exists>sides. list_all2 (market_leg (sp_decimal P) (ec_common cfg, ec_qty cfg)) sides (snd (sg_venue s)) \<and> alternating sides"
  using assms by (auto simp: ema_cross_tick_def cross_sides_def dest!: ema_cross.reached leg_market)

section \<open>Refused orders\<close>

text \<open>
  A refused first leg leaves the phase as it was, so the same candles give the same signal again;
  a refused second leg of a reversal leaves the strategy flat, as the venue is, and the next poll
  on the same candles asks for the entry alone.
\<close>

lemma refused_leg_is_retried:
  assumes "gw_create_order (sp_gateway P) (sg_venue s) (market_order (sp_decimal P) (proto_exchange_id (si_common i))
      (cp_symbol (si_common i)) (si_prefix i @ sp_ulid P (sg_ulids s)) is_buy (si_qty i)) = (Inl e, v)"
  shows "sg_phase (snd (send_legs P i ((is_buy, p) # legs) s)) = sg_phase s"
  using assms by simp

lemma interrupted_reversal_recovers:
  assumes "supertrend_decide D cfg cs held = Some (Some (Reverse b))"
  shows "supertrend_decide D cfg cs FlatPhase = Some (Some (Enter b))"
proof -
  obtain f s st where f: "feed (\<lambda>(h, l, c). supertrend_push D h l c) (hlc_bars D cs)
        (supertrend_new D (unat (sn_atr_window cfg)) (sn_atr_multiplier cfg)) = Some st"
      "dema_of D (sn_fast_dema_window cfg) (map (\<lambda>(h, l, c). c) (hlc_bars D cs)) = Some (Some f)"
      "dema_of D (sn_slow_dema_window cfg) (map (\<lambda>(h, l, c). c) (hlc_bars D cs)) = Some (Some s)"
    and sig: "supertrend_signal held (st_direction st = Up \<and> compare_direction D f s = Up)
      (st_direction st = Down \<and> compare_direction D f s = Down) = Some (Reverse b)"
    using assms by (auto simp: supertrend_decide_def signal_choice)
  from sig have "supertrend_signal FlatPhase (st_direction st = Up \<and> compare_direction D f s = Up)
      (st_direction st = Down \<and> compare_direction D f s = Down) = Some (Enter b)"
    by (cases held) (auto split: if_splits)
  then show ?thesis using f by (simp add: supertrend_decide_def)
qed

section \<open>What the decisions leave out\<close>

definition exact :: "'d decimal_api \<Rightarrow> ('d \<Rightarrow> rat) \<Rightarrow> bool" where
  "exact D val \<longleftrightarrow> (\<forall>a b c. d_add D a b = Some c \<longrightarrow> val c = val a + val b)
     \<and> (\<forall>a b c. d_sub D a b = Some c \<longrightarrow> val c = val a - val b)
     \<and> (\<forall>a b c. d_div D a b = Some c \<longrightarrow> val c = val a / val b)"

lemma darvas_exit_never:
  assumes f: "faithful D val" and e: "exact D val" and "val l \<le> val c" and "val c \<le> val h"
  shows "darvas_exit D held (h, l, c) \<noteq> Some (Some sig)"
proof
  assume "darvas_exit D held (h, l, c) = Some (Some sig)"
  then obtain rng hl mid half edge where x: "d_sub D h l = Some rng" "d_add D h l = Some hl" "halved D hl = Some mid"
      "halved D rng = Some half" "(if held = LongPhase then d_sub D mid half else d_add D mid half) = Some edge"
      "if held = LongPhase then d_gt D edge c else d_gt D c edge"
    by (cases "held = LongPhase") (auto simp: darvas_exit_def bind_eq_Some_conv split: if_splits)
  have two: "val (d_of_int D 2) = 2" using faithfulD(5) [OF f, of 2] by (simp add: u64_max_def)
  have "val mid = (val h + val l) / 2" "val half = (val h - val l) / 2"
    using x e two unfolding halved_def exact_def by auto
  moreover have "val edge = (if held = LongPhase then val mid - val half else val mid + val half)"
    using x(5) e unfolding exact_def by (auto split: if_splits)
  ultimately have "val edge = (if held = LongPhase then val l else val h)"
    by (simp add: field_simps)
  then show False using x(6) assms(3,4) by (auto simp: faithfulD(1) [OF f] split: if_splits)
qed

text \<open>
  The Darvas box never leaves a position.  Its exit compares the close with the middle of the
  last bar less half its range, which is the low of that bar; on bars whose close lies between low
  and high, and where the arithmetic is exact, a poll in a position asks the venue for nothing and
  keeps the phase.
\<close>
theorem darvas_position_never_closed:
  assumes "faithful (sp_decimal P) val" and "exact (sp_decimal P) val"
    and "\<And>v cs v'. fetch_candles (sp_market P) (proto_exchange_id (dx_common cfg)) (cp_symbol (dx_common cfg))
        (cp_timeframe (dx_common cfg)) (ucast (dx_period cfg + dx_box_bars cfg + 5)) v = (Inr cs, v') \<Longrightarrow>
      (\<forall>(h, l, c) \<in> set (hlc_bars (sp_decimal P) cs). val l \<le> val c \<and> val c \<le> val h)"
    and "sg_phase s \<noteq> FlatPhase"
  shows "sg_phase (snd (darvas_box_tick (recording_ports P) cfg now s)) = sg_phase s
    \<and> snd (sg_venue (snd (darvas_box_tick (recording_ports P) cfg now s))) = snd (sg_venue s)"
proof -
  let ?D = "sp_decimal P"
  let ?fetch = "\<lambda>m v. fetch_candles m (proto_exchange_id (dx_common cfg)) (cp_symbol (dx_common cfg))
        (cp_timeframe (dx_common cfg)) (ucast (dx_period cfg + dx_box_bars cfg + 5)) v"
  obtain r v where read: "?fetch (recording_market (sp_market P)) (sg_venue s) = (r, v)" by (cases "?fetch (recording_market (sp_market P)) (sg_venue s)")
  have same: "snd v = snd (sg_venue s)" using recorded_candles read by (metis snd_conv)
  have orig: "r = fst (?fetch (sp_market P) (fst (sg_venue s)))"
    using read by (cases "sg_venue s") (auto simp: fetch_candles_def recording_market_def split: sum.splits prod.splits)
  have none: "darvas_box_decide ?D cfg cs (sg_phase s) \<noteq> Some (Some sig)" if r: "r = Inr cs" for cs sig
  proof
    assume decide: "darvas_box_decide ?D cfg cs (sg_phase s) = Some (Some sig)"
    then obtain h l c where bar: "index_at (hlc_bars ?D cs) (of_nat (length (hlc_bars ?D cs)) - 1) = Some (h, l, c)"
        "darvas_exit ?D (sg_phase s) (h, l, c) = Some (Some sig)"
      using assms(4) by (auto simp: darvas_box_decide_def darvas_bars_signal_def signal_choice split: if_splits)
    have "(h, l, c) \<in> set (hlc_bars ?D cs)" using bar(1) nth_mem by (fastforce simp: index_at_def split: if_splits)
    then have "val l \<le> val c \<and> val c \<le> val h" using assms(3) orig r by (cases "?fetch (sp_market P) (fst (sg_venue s))") fastforce
    then show False using darvas_exit_never [OF assms(1,2)] bar(2) by blast
  qed
  have "phase_legs (darvas_box_decide ?D cfg) cs (sg_phase s) \<in> {None, Some None}" if "r = Inr cs" for cs
    using none [OF that] by (auto simp: phase_legs_def) (metis not_None_eq)
  then show ?thesis using read same
    by (cases r) (auto simp: darvas_box_tick_def signal_tick_def)
qed

text \<open>
  The first poll of an EMA cross trades whenever the two averages differ: the unknown state counts
  as not crossed, although no cross was seen.
\<close>

lemma ema_cross_trades_at_start:
  assumes "ema_of D (ec_fast_window cfg) (closes_of D cs) = Some (Some f)"
    and "ema_of D (ec_slow_window cfg) (closes_of D cs) = Some (Some s)" and "d_gt D f s"
  shows "ema_cross_decide D cfg cs UnknownCross = Some (Some [(True, FastAbove)])"
  using assms by (simp add: ema_cross_decide_def)

text \<open>MACD with bands asks for \<open>macd_slow + macd_signal\<close> candles and trades on no fewer than \<open>boll_window\<close>.\<close>

lemma macd_bb_starved:
  assumes "length (closes_of D cs) \<le> unat (limit_or_200 (mb_macd_slow cfg + mb_macd_signal cfg))"
    and "unat (limit_or_200 (mb_macd_slow cfg + mb_macd_signal cfg)) < unat (mb_boll_window cfg)"
  shows "macd_bb_decide D cfg cs has_pos = Some None"
proof -
  have "length (closes_of D cs) < max (unat (mb_macd_slow cfg + mb_macd_signal cfg)) (unat (mb_boll_window cfg))"
    using assms by linarith
  then show ?thesis by (simp add: macd_bb_decide_def macd_bb_signal_def position_legs_def)
qed

section \<open>Instances\<close>

definition demo_darvas :: "rat darvas_box_config" where
  "demo_darvas = \<lparr>dx_common = demo_common, dx_period = 3, dx_box_bars = 2, dx_qty = 1\<rparr>"

definition demo_limits :: "rat decimal_limits" where
  "demo_limits = \<lparr>dl_min = - 1000, dl_max = 1000\<rparr>"

theorem position_follows_accepted_orders_witness:
  "\<exists>s sides. s = snd (phase_tick (accepting_ports demo_ports) demo_limits (DarvasBox demo_darvas) 0
       (signal_start FlatPhase (mock_new demo_decimal 100, []) 0))
     \<and> list_all2 (market_leg demo_decimal (demo_common, 1)) sides (snd (sg_venue s)) \<and> net sides = phase_exposure (sg_phase s)"
proof -
  let ?s = "signal_start FlatPhase (mock_new demo_decimal 100, []) 0 :: (rat mock_state \<times> create_order_request list, phase) signal_state"
  let ?tick = "phase_tick (accepting_ports demo_ports) demo_limits (DarvasBox demo_darvas)"
  have "reach (\<lambda>s. \<exists>v n. s = signal_start FlatPhase (v, []) n) (poll_move ?tick signal_world) (snd (?tick 0 ?s))"
    by (rule polled_once) blast
  from position_follows_accepted_orders [OF this] show ?thesis by (auto simp: demo_darvas_def demo_ports_def)
qed

text \<open>Five bars that traded at 100 only.\<close>

definition demo_bar :: candle where
  "demo_bar = \<lparr>cd_timestamp_ms = 0, cd_open = Some ''100'', cd_high = Some ''100'', cd_low = Some ''100'',
     cd_close = Some ''100'', cd_volume = None\<rparr>"

definition quiet_ports :: "(rat mock_state, mock_message, rat) strategy_ports" where
  "quiet_ports = demo_ports\<lparr>sp_market := demo_market\<lparr>mds_get_candles := (\<lambda>v ex s t n. (Inr (replicate 5 demo_bar), v))\<rparr>\<rparr>"

lemma quiet_bars: "hlc_bars demo_decimal (replicate 5 demo_bar) = replicate 5 (100, 100, 100)"
  by (simp add: hlc_bars_def map_filter_simps decoded_def demo_bar_def demo_reads numeral_eq_Suc)

theorem darvas_position_never_closed_witness:
  "snd (sg_venue (snd (darvas_box_tick (recording_ports quiet_ports) demo_darvas 0
     (signal_start LongPhase (mock_new demo_decimal 100, []) 0)))) = []"
proof -
  have D: "sp_decimal quiet_ports = demo_decimal" by (simp add: quiet_ports_def demo_ports_def)
  have e: "exact (sp_decimal quiet_ports) (\<lambda>x. x)" by (auto simp: D exact_def demo_decimal_def rat_api_def split: if_splits)
  have f: "faithful (sp_decimal quiet_ports) (\<lambda>x. x)" using demo_faithful by (simp add: D)
  have bars: "\<forall>(h, l, c) \<in> set (hlc_bars (sp_decimal quiet_ports) cs). l \<le> c \<and> c \<le> h"
    if "fetch_candles (sp_market quiet_ports) ex symbol tf need v = (Inr cs, v')" for ex symbol tf need v v' cs
    using that quiet_bars by (auto simp: fetch_candles_def quiet_ports_def demo_ports_def split: sum.splits)
  show ?thesis
    using darvas_position_never_closed [OF f e, of demo_darvas "signal_start LongPhase (mock_new demo_decimal 100, []) 0" 0] bars
    by (simp add: signal_start_def)
qed

end
