(* ===== verification/Makers.thy ===== *)
theory Makers
  imports Signal_Strategies Venue_Ports
begin

text \<open>
  The quoting strategies (\<open>strategies/fixed_maker\<close>, \<open>pure_market_making\<close>, \<open>obi_mm\<close>, \<open>queue_mm\<close>,
  \<open>pmm_dynamic\<close>, \<open>glft_mm\<close>, \<open>simplified_glft_mm\<close>, \<open>avellaneda_mm_v2\<close>, \<open>perpetual_mm\<close>,
  \<open>cross_exchange_mm\<close>, \<open>grid_strike\<close>, \<open>boll_grid\<close>, \<open>cross_fixed_maker\<close>, \<open>cross_maker\<close>,
  \<open>cross_depth_maker\<close>): each reads the market, plans quotes with decimal arithmetic, cancels the
  quotes of the poll before and places the new ones.
\<close>

section \<open>Polls\<close>

text \<open>
  A poll reads and changes a state and answers a value or an error, or dies with a panic
  (\<open>None\<close>).
\<close>

type_synonym ('s, 'a) poll = "'s \<Rightarrow> (strategy_error + 'a) option \<times> 's"

definition poll_bind :: "('s, 'a) poll \<Rightarrow> ('a \<Rightarrow> ('s, 'b) poll) \<Rightarrow> ('s, 'b) poll" where
  "poll_bind m f s = (case m s of
       (None, s) \<Rightarrow> (None, s)
     | (Some (Inl e), s) \<Rightarrow> (Some (Inl e), s)
     | (Some (Inr a), s) \<Rightarrow> f a s)"

definition poll_done :: "('s, unit) poll" where
  "poll_done s = (Some (Inr ()), s)"

definition poll_fail :: "strategy_error \<Rightarrow> ('s, 'a) poll" where
  "poll_fail e s = (Some (Inl e), s)"

definition poll_pure :: "'a option \<Rightarrow> ('s, 'a) poll" where
  "poll_pure x s = (map_option Inr x, s)"

record ('v, 'p) maker_state =
  mk_own :: 'p
  mk_venue :: 'v
  mk_ulids :: nat

definition maker_start :: "'p \<Rightarrow> 'v \<Rightarrow> nat \<Rightarrow> ('v, 'p) maker_state" where
  "maker_start p v n = \<lparr>mk_own = p, mk_venue = v, mk_ulids = n\<rparr>"

definition poll_own :: "(('v, 'p) maker_state, 'p) poll" where
  "poll_own s = (Some (Inr (mk_own s)), s)"

definition poll_set :: "'p \<Rightarrow> (('v, 'p) maker_state, unit) poll" where
  "poll_set p s = (Some (Inr ()), s\<lparr>mk_own := p\<rparr>)"

text \<open>A call of a port; \<open>poll_try\<close> keeps its failure as a value.\<close>

definition poll_try :: "('v \<Rightarrow> (port_error + 'a) \<times> 'v) \<Rightarrow> (('v, 'p) maker_state, port_error + 'a) poll" where
  "poll_try call s = (let (r, v) = call (mk_venue s) in (Some (Inr r), s\<lparr>mk_venue := v\<rparr>))"

definition poll_call :: "('v \<Rightarrow> (port_error + 'a) \<times> 'v) \<Rightarrow> (('v, 'p) maker_state, 'a) poll" where
  "poll_call call s = (let (r, v) = call (mk_venue s) in (Some (map_err PortFailure r), s\<lparr>mk_venue := v\<rparr>))"

section \<open>Reading the market\<close>

definition positive_last :: "'d decimal_api \<Rightarrow> string \<Rightarrow> ticker \<Rightarrow> strategy_error + 'd" where
  "positive_last D message t = (case tk_last t of
       None \<Rightarrow> Inl (Bail message)
     | Some w \<Rightarrow> (case common_to_decimal (d_parse D) w of
         Inl e \<Rightarrow> Inl (Conversion e)
       | Inr p \<Rightarrow> if d_gt D p (d_zero D) then Inr p else Inl (Bail message)))"

definition read_last ::
  "('v, 'm, 'd) strategy_ports \<Rightarrow> exchange_id \<Rightarrow> string \<Rightarrow> string \<Rightarrow> (('v, 'p) maker_state, 'd) poll" where
  "read_last P ex symbol message =
     poll_bind (poll_call (\<lambda>v. mds_fetch_ticker (sp_market P) v ex symbol)) (\<lambda>t s.
       (Some (positive_last (sp_decimal P) message t), s))"

definition read_book ::
  "('v, 'm, 'd) strategy_ports \<Rightarrow> exchange_id \<Rightarrow> string \<Rightarrow> nat \<Rightarrow> (('v, 'p) maker_state, order_book) poll" where
  "read_book P ex symbol limit = poll_call (\<lambda>v. mds_fetch_order_book (sp_market P) v ex symbol limit)"

section \<open>Placing quotes\<close>

record 'd quote =
  qu_prefix :: string
  qu_is_buy :: bool
  qu_price :: 'd
  qu_qty :: 'd

definition quote_request ::
  "('v, 'm, 'd) strategy_ports \<Rightarrow> exchange_id \<Rightarrow> string \<Rightarrow> nat \<Rightarrow> 'd quote \<Rightarrow> create_order_request" where
  "quote_request P ex symbol n q =
     limit_order (sp_decimal P) ex symbol (qu_prefix q @ sp_ulid P n) (qu_is_buy q) (qu_price q) (qu_qty q)"

definition place_quote ::
  "('v, 'm, 'd) strategy_ports \<Rightarrow> exchange_id \<Rightarrow> string \<Rightarrow> 'd quote \<Rightarrow> (('v, 'p) maker_state, port_error + order) poll" where
  "place_quote P ex symbol q s =
     (let (r, v) = gw_create_order (sp_gateway P) (mk_venue s) (quote_request P ex symbol (mk_ulids s) q)
      in (Some (Inr r), s\<lparr>mk_venue := v, mk_ulids := Suc (mk_ulids s)\<rparr>))"

text \<open>A refused quote is logged and the next one is placed.\<close>

fun place_quotes ::
  "('v, 'm, 'd) strategy_ports \<Rightarrow> exchange_id \<Rightarrow> string \<Rightarrow> 'd quote list \<Rightarrow> (('v, 'p) maker_state, unit) poll" where
  "place_quotes P ex symbol [] = poll_done"
| "place_quotes P ex symbol (q # qs) = poll_bind (place_quote P ex symbol q) (\<lambda>_. place_quotes P ex symbol qs)"

text \<open>A refused quote ends the poll.\<close>

fun place_strictly ::
  "('v, 'm, 'd) strategy_ports \<Rightarrow> exchange_id \<Rightarrow> string \<Rightarrow> 'd quote list \<Rightarrow> (('v, 'p) maker_state, unit) poll" where
  "place_strictly P ex symbol [] = poll_done"
| "place_strictly P ex symbol (q # qs) =
     poll_bind (place_quote P ex symbol q) (\<lambda>r. case r of
       Inl e \<Rightarrow> poll_fail (PortFailure e)
     | Inr _ \<Rightarrow> place_strictly P ex symbol qs)"

definition cancel_quotes ::
  "('v, 'm, 'd) strategy_ports \<Rightarrow> exchange_id \<Rightarrow> string \<Rightarrow> (('v, 'p) maker_state, order list) poll" where
  "cancel_quotes P ex symbol = poll_call (\<lambda>v. strategy_cancel_all_orders (sp_gateway P) ex symbol v)"

definition requote ::
  "('v, 'm, 'd) strategy_ports \<Rightarrow> exchange_id \<Rightarrow> string \<Rightarrow> 'd quote list \<Rightarrow> (('v, 'p) maker_state, unit) poll" where
  "requote P ex symbol quotes =
     poll_bind (cancel_quotes P ex symbol) (\<lambda>_. place_quotes P ex symbol quotes)"

text \<open>The two quotes of a maker, bid first.\<close>

definition two_sided :: "string \<Rightarrow> 'd \<Rightarrow> 'd \<Rightarrow> 'd \<Rightarrow> 'd \<Rightarrow> 'd quote list" where
  "two_sided tag bid ask bid_qty ask_qty =
     [\<lparr>qu_prefix = tag, qu_is_buy = True, qu_price = bid, qu_qty = bid_qty\<rparr>,
      \<lparr>qu_prefix = tag, qu_is_buy = False, qu_price = ask, qu_qty = ask_qty\<rparr>]"

text \<open>Prices a fraction below and above a reference.\<close>

definition below :: "'d decimal_api \<Rightarrow> 'd \<Rightarrow> 'd \<Rightarrow> 'd option" where
  "below D price fraction = do { f \<leftarrow> d_sub D (d_one D) fraction; d_mul D price f }"

definition above :: "'d decimal_api \<Rightarrow> 'd \<Rightarrow> 'd \<Rightarrow> 'd option" where
  "above D price fraction = do { f \<leftarrow> d_add D (d_one D) fraction; d_mul D price f }"

definition d_u32 :: "'d decimal_api \<Rightarrow> nat \<Rightarrow> 'd" where
  "d_u32 D n = d_of_int D (int n)"

section \<open>Fixed maker\<close>

record 'd fixed_maker_config =
  fx_common :: common_params
  fx_bid_spread :: 'd
  fx_ask_spread :: 'd
  fx_qty :: 'd

definition fixed_maker_default :: "'d decimal_api \<Rightarrow> common_params \<Rightarrow> 'd fixed_maker_config" where
  "fixed_maker_default D c = \<lparr>fx_common = c, fx_bid_spread = d_new D 1 3, fx_ask_spread = d_new D 1 3, fx_qty = d_new D 1 3\<rparr>"

definition plan_quotes :: "'d decimal_api \<Rightarrow> 'd \<Rightarrow> 'd \<Rightarrow> 'd \<Rightarrow> ('d \<times> 'd) option option" where
  "plan_quotes D mid bid_spread ask_spread =
     (if \<not> d_gt D mid (d_zero D) \<or> d_gt D (d_zero D) bid_spread \<or> d_gt D (d_zero D) ask_spread then Some None
      else do { bid \<leftarrow> below D mid bid_spread; ask \<leftarrow> above D mid ask_spread; Some (Some (bid, ask)) })"

definition fixed_maker_tick ::
  "('v, 'm, 'd) strategy_ports \<Rightarrow> 'd fixed_maker_config \<Rightarrow> u64 \<Rightarrow> (('v, unit) maker_state, unit) poll" where
  "fixed_maker_tick P cfg now =
     (let ex = proto_exchange_id (fx_common cfg); symbol = cp_symbol (fx_common cfg)
      in poll_bind (read_last P ex symbol ''no usable ticker price'') (\<lambda>mid.
         poll_bind (poll_pure (plan_quotes (sp_decimal P) mid (fx_bid_spread cfg) (fx_ask_spread cfg))) (\<lambda>plan.
         case plan of
           None \<Rightarrow> poll_done
         | Some (bid, ask) \<Rightarrow> requote P ex symbol (two_sided ''fixedmaker-'' bid ask (fx_qty cfg) (fx_qty cfg)))))"

section \<open>Pure market making\<close>

record 'd pmm_config =
  pmm_common :: common_params
  pmm_levels :: u32
  pmm_order_step_size :: 'd
  pmm_order_size_spread :: 'd
  pmm_order_amount :: 'd
  pmm_inventory_skew :: 'd
  pmm_price_band :: 'd
  pmm_hanging_orders :: bool
  pmm_hanging_cancel_ticks :: u32

definition pmm_default :: "'d decimal_api \<Rightarrow> common_params \<Rightarrow> 'd pmm_config" where
  "pmm_default D c = \<lparr>pmm_common = c, pmm_levels = 3, pmm_order_step_size = d_new D 5 3, pmm_order_size_spread = d_new D 1 3,
     pmm_order_amount = d_new D 1 3, pmm_inventory_skew = d_new D 5 1, pmm_price_band = d_new D 1 1,
     pmm_hanging_orders = True, pmm_hanging_cancel_ticks = 5\<rparr>"

record 'd pmm_level =
  pl_level :: nat
  pl_bid_price :: 'd
  pl_ask_price :: 'd
  pl_bid_qty :: 'd
  pl_ask_qty :: 'd

definition pmm_spread :: "'d decimal_api \<Rightarrow> 'd \<Rightarrow> 'd \<Rightarrow> nat \<Rightarrow> 'd option" where
  "pmm_spread D step_size size_spread i = do {
     a \<leftarrow> d_mul D step_size (d_u32 D (i + 1));
     b \<leftarrow> d_mul D size_spread (d_u32 D i);
     c \<leftarrow> d_add D (d_one D) b;
     d_mul D a c
   }"

definition pmm_level_at ::
  "'d decimal_api \<Rightarrow> 'd \<Rightarrow> 'd \<Rightarrow> 'd \<Rightarrow> 'd \<Rightarrow> 'd \<Rightarrow> 'd \<Rightarrow> nat \<Rightarrow> 'd pmm_level option" where
  "pmm_level_at D mid step_size size_spread base_qty inventory_skew inventory i = do {
     spread \<leftarrow> pmm_spread D step_size size_spread i;
     bid_price \<leftarrow> below D mid spread;
     ask_price \<leftarrow> above D mid spread;
     skew_factor \<leftarrow> d_mul D inventory_skew inventory;
     low \<leftarrow> d_sub D (d_one D) skew_factor;
     bid_qty \<leftarrow> d_mul D base_qty (d_max D low (d_zero D));
     high \<leftarrow> d_add D (d_one D) skew_factor;
     ask_qty \<leftarrow> d_mul D base_qty (d_max D high (d_zero D));
     Some \<lparr>pl_level = i + 1, pl_bid_price = bid_price, pl_ask_price = ask_price, pl_bid_qty = bid_qty, pl_ask_qty = ask_qty\<rparr>
   }"

definition plan_pmm_levels ::
  "'d decimal_api \<Rightarrow> 'd \<Rightarrow> u32 \<Rightarrow> 'd \<Rightarrow> 'd \<Rightarrow> 'd \<Rightarrow> 'd \<Rightarrow> 'd \<Rightarrow> 'd pmm_level list option option" where
  "plan_pmm_levels D mid levels step_size size_spread base_qty inventory_skew inventory =
     (if \<not> d_gt D mid (d_zero D) \<or> levels = 0 \<or> \<not> d_gt D step_size (d_zero D) then Some None
      else map_option Some (collect_options
             (map (pmm_level_at D mid step_size size_spread base_qty inventory_skew inventory) [0..<unat levels])))"

definition within_price_band :: "'d decimal_api \<Rightarrow> 'd \<Rightarrow> 'd \<Rightarrow> 'd \<Rightarrow> bool option" where
  "within_price_band D current reference band =
     (if \<not> d_gt D reference (d_zero D) \<or> d_gt D (d_zero D) band then Some False
      else do {
        lower \<leftarrow> below D reference band; upper \<leftarrow> above D reference band;
        Some (d_ge D current lower \<and> d_ge D upper current)
      })"

record 'd pmm_state =
  ps_inventory :: 'd
  ps_last_mid :: "'d option"

definition pmm_quotes :: "'d pmm_level list \<Rightarrow> 'd quote list" where
  "pmm_quotes levels = concat (map (\<lambda>l. two_sided ''pmm-'' (pl_bid_price l) (pl_ask_price l) (pl_bid_qty l) (pl_ask_qty l)) levels)"

definition pmm_tick ::
  "('v, 'm, 'd) strategy_ports \<Rightarrow> 'd pmm_config \<Rightarrow> u64 \<Rightarrow> (('v, 'd pmm_state) maker_state, unit) poll" where
  "pmm_tick P cfg now =
     (let D = sp_decimal P; ex = proto_exchange_id (pmm_common cfg); symbol = cp_symbol (pmm_common cfg)
      in poll_bind (read_last P ex symbol ''no usable mid'') (\<lambda>mid.
         poll_bind poll_own (\<lambda>own.
         poll_bind (poll_pure (case ps_last_mid own of
             None \<Rightarrow> Some True
           | Some prev \<Rightarrow> map_option Not (within_price_band D mid prev (pmm_price_band cfg)))) (\<lambda>should_requote.
         if \<not> should_requote then poll_set (own\<lparr>ps_last_mid := Some mid\<rparr>)
         else poll_bind (poll_pure (plan_pmm_levels D mid (pmm_levels cfg) (pmm_order_step_size cfg)
             (pmm_order_size_spread cfg) (pmm_order_amount cfg) (pmm_inventory_skew cfg) (ps_inventory own))) (\<lambda>plan.
           case plan of
             None \<Rightarrow> poll_done
           | Some levels \<Rightarrow>
               poll_bind (requote P ex symbol (pmm_quotes levels)) (\<lambda>_.
               poll_set (own\<lparr>ps_last_mid := Some mid\<rparr>)))))))"

section \<open>Order book imbalance\<close>

record 'd obi_config =
  obi_common :: common_params
  obi_half_spread :: 'd
  obi_signal_weight :: 'd
  obi_qty :: 'd
  obi_depth :: u32
  obi_size_skew :: 'd

definition obi_default :: "'d decimal_api \<Rightarrow> common_params \<Rightarrow> 'd obi_config" where
  "obi_default D c = \<lparr>obi_common = c, obi_half_spread = d_new D 5 4, obi_signal_weight = d_new D 5 1, obi_qty = d_new D 1 3,
     obi_depth = 5, obi_size_skew = d_one D\<rparr>"

definition compute_obi :: "'d decimal_api \<Rightarrow> 'd list \<Rightarrow> 'd list \<Rightarrow> nat \<Rightarrow> 'd option option" where
  "compute_obi D bids asks depth =
     (let n = min (min depth (length bids)) (length asks)
      in if n = 0 then Some None
         else do {
           bid_total \<leftarrow> try_sum D (d_zero D) (take n bids);
           ask_total \<leftarrow> try_sum D (d_zero D) (take n asks);
           denom \<leftarrow> d_add D bid_total ask_total;
           if d_is_zero D denom then Some None
           else do { diff \<leftarrow> d_sub D bid_total ask_total; q \<leftarrow> d_div D diff denom; Some (Some q) }
         })"

definition fair_price :: "'d decimal_api \<Rightarrow> 'd \<Rightarrow> 'd \<Rightarrow> 'd \<Rightarrow> 'd option" where
  "fair_price D mid obi signal_weight = do {
     a \<leftarrow> d_mul D signal_weight obi; b \<leftarrow> d_mul D a mid; d_add D mid b }"

record 'd obi_quotes =
  oq_fair :: 'd
  oq_bid :: 'd
  oq_ask :: 'd
  oq_bid_qty :: 'd
  oq_ask_qty :: 'd

definition plan_obi_quotes ::
  "'d decimal_api \<Rightarrow> 'd \<Rightarrow> 'd \<Rightarrow> 'd \<Rightarrow> 'd \<Rightarrow> 'd \<Rightarrow> 'd obi_quotes option option" where
  "plan_obi_quotes D mid obi half_spread base_qty size_skew =
     (if \<not> d_gt D mid (d_zero D) \<or> d_gt D (d_zero D) half_spread then Some None
      else do {
        fair \<leftarrow> fair_price D mid obi size_skew;
        bid \<leftarrow> below D fair half_spread;
        ask \<leftarrow> above D fair half_spread;
        skew_factor \<leftarrow> (if \<not> d_is_sign_negative D obi
          then do { x \<leftarrow> d_mul D size_skew obi; d_add D (d_one D) x }
          else do { x \<leftarrow> d_mul D size_skew (d_abs D obi); d_sub D (d_one D) x });
        bid_qty \<leftarrow> d_mul D base_qty (d_max D skew_factor (d_zero D));
        Some (Some \<lparr>oq_fair = fair, oq_bid = bid, oq_ask = ask, oq_bid_qty = bid_qty, oq_ask_qty = base_qty\<rparr>)
      })"

definition extract_sizes :: "'d decimal_api \<Rightarrow> price_level list \<Rightarrow> 'd list" where
  "extract_sizes D levels =
     filter (\<lambda>q. d_gt D q (d_zero D)) (List.map_filter (\<lambda>l. decoded D (pl_amount l)) levels)"

definition obi_tick ::
  "('v, 'm, 'd) strategy_ports \<Rightarrow> 'd obi_config \<Rightarrow> u64 \<Rightarrow> (('v, unit) maker_state, unit) poll" where
  "obi_tick P cfg now =
     (let D = sp_decimal P; ex = proto_exchange_id (obi_common cfg); symbol = cp_symbol (obi_common cfg)
      in poll_bind (read_last P ex symbol ''no usable mid price'') (\<lambda>mid.
         poll_bind (read_book P ex symbol (unat (obi_depth cfg))) (\<lambda>book.
         poll_bind (poll_pure (compute_obi D (extract_sizes D (ob_bids book)) (extract_sizes D (ob_asks book))
             (unat (obi_depth cfg)))) (\<lambda>imbalance.
         case imbalance of
           None \<Rightarrow> poll_done
         | Some obi \<Rightarrow>
             poll_bind (poll_pure (plan_obi_quotes D mid obi (obi_half_spread cfg) (obi_qty cfg) (obi_signal_weight cfg))) (\<lambda>plan.
             case plan of
               None \<Rightarrow> poll_done
             | Some q \<Rightarrow> requote P ex symbol (two_sided ''obimm-'' (oq_bid q) (oq_ask q) (oq_bid_qty q) (oq_ask_qty q)))))))"

section \<open>Queue maker\<close>

record 'd queue_config =
  qm_common :: common_params
  qm_half_spread :: 'd
  qm_qty :: 'd
  qm_depth :: u32
  qm_impulse_window :: u64
  qm_w_pressure :: 'd
  qm_w_impulse :: 'd
  qm_alpha :: 'd
  qm_spread_widen :: 'd

definition queue_default :: "'d decimal_api \<Rightarrow> common_params \<Rightarrow> 'd queue_config" where
  "queue_default D c = \<lparr>qm_common = c, qm_half_spread = d_new D 5 4, qm_qty = d_new D 1 3, qm_depth = 5, qm_impulse_window = 20,
     qm_w_pressure = d_new D 5 1, qm_w_impulse = d_new D 5 1, qm_alpha = d_new D 5 1, qm_spread_widen = d_new D 1 3\<rparr>"

definition book_pressure :: "'d decimal_api \<Rightarrow> 'd \<Rightarrow> 'd \<Rightarrow> 'd option option" where
  "book_pressure D bid_total ask_total =
     (if \<not> d_gt D bid_total (d_zero D) \<or> \<not> d_gt D ask_total (d_zero D) then Some None
      else do {
        diff \<leftarrow> d_sub D bid_total ask_total; total \<leftarrow> d_add D bid_total ask_total;
        q \<leftarrow> d_div D diff total; Some (Some q)
      })"

record 'd trade_impulse =
  ti_window :: u64
  ti_signed_volumes :: "'d list"

definition impulse_new :: "u64 \<Rightarrow> 'd trade_impulse" where
  "impulse_new window = \<lparr>ti_window = window, ti_signed_volumes = []\<rparr>"

definition impulse_push :: "'d \<Rightarrow> 'd trade_impulse \<Rightarrow> 'd trade_impulse" where
  "impulse_push x t = t\<lparr>ti_signed_volumes := window_push (unat (ti_window t)) x (ti_signed_volumes t)\<rparr>"

definition impulse_raw :: "'d decimal_api \<Rightarrow> 'd trade_impulse \<Rightarrow> 'd option" where
  "impulse_raw D t = try_sum D (d_zero D) (ti_signed_volumes t)"

definition impulse_normalised :: "'d decimal_api \<Rightarrow> 'd trade_impulse \<Rightarrow> 'd option option" where
  "impulse_normalised D t =
     (if ti_signed_volumes t = [] then Some None
      else do {
        raw \<leftarrow> impulse_raw D t;
        let max_abs = (case fold1 (d_max D) (map (d_abs D) (ti_signed_volumes t)) of None \<Rightarrow> d_one D | Some m \<Rightarrow> m);
        if d_is_zero D max_abs then Some None
        else do { q \<leftarrow> d_div D raw max_abs; Some (Some q) }
      })"

definition composite_signal :: "'d decimal_api \<Rightarrow> 'd option \<Rightarrow> 'd option \<Rightarrow> 'd \<Rightarrow> 'd \<Rightarrow> 'd option" where
  "composite_signal D pressure impulse_norm w_pressure w_impulse = do {
     a \<leftarrow> d_mul D w_pressure (or_zero D pressure);
     b \<leftarrow> d_mul D w_impulse (or_zero D impulse_norm);
     d_add D a b
   }"

record 'd queue_quotes =
  qq_fair :: 'd
  qq_bid :: 'd
  qq_ask :: 'd
  qq_bid_half_spread :: 'd
  qq_ask_half_spread :: 'd

definition plan_queue_quotes :: "'d decimal_api \<Rightarrow> 'd \<Rightarrow> 'd \<Rightarrow> 'd \<Rightarrow> 'd \<Rightarrow> 'd queue_quotes option option" where
  "plan_queue_quotes D mid sig base_half_spread spread_widen =
     (if \<not> d_gt D mid (d_zero D) \<or> d_gt D (d_zero D) base_half_spread then Some None
      else do {
        fair \<leftarrow> above D mid sig;
        wb \<leftarrow> d_mul D spread_widen (d_max D sig (d_zero D));
        bid_half \<leftarrow> d_add D base_half_spread wb;
        wa \<leftarrow> d_mul D spread_widen (d_max D (d_neg D sig) (d_zero D));
        ask_half \<leftarrow> d_add D base_half_spread wa;
        bid \<leftarrow> below D fair bid_half;
        ask \<leftarrow> above D fair ask_half;
        Some (Some \<lparr>qq_fair = fair, qq_bid = bid, qq_ask = ask, qq_bid_half_spread = bid_half, qq_ask_half_spread = ask_half\<rparr>)
      })"

definition book_total :: "'d decimal_api \<Rightarrow> price_level list \<Rightarrow> 'd option" where
  "book_total D levels = try_sum D (d_zero D) (List.map_filter (\<lambda>l. decoded D (pl_amount l)) levels)"

definition queue_tick ::
  "('v, 'm, 'd) strategy_ports \<Rightarrow> 'd queue_config \<Rightarrow> u64 \<Rightarrow> (('v, 'd trade_impulse) maker_state, unit) poll" where
  "queue_tick P cfg now =
     (let D = sp_decimal P; ex = proto_exchange_id (qm_common cfg); symbol = cp_symbol (qm_common cfg)
      in poll_bind (read_last P ex symbol ''no usable mid'') (\<lambda>mid.
         poll_bind (read_book P ex symbol (unat (qm_depth cfg))) (\<lambda>book.
         poll_bind poll_own (\<lambda>impulse.
         poll_bind (poll_pure (do {
             bid_total \<leftarrow> book_total D (ob_bids book); ask_total \<leftarrow> book_total D (ob_asks book);
             pressure \<leftarrow> book_pressure D bid_total ask_total;
             impulse_norm \<leftarrow> impulse_normalised D impulse;
             sig \<leftarrow> composite_signal D pressure impulse_norm (qm_w_pressure cfg) (qm_w_impulse cfg);
             scaled \<leftarrow> d_mul D sig (qm_alpha cfg);
             plan_queue_quotes D mid scaled (qm_half_spread cfg) (qm_spread_widen cfg)
           })) (\<lambda>plan.
         case plan of
           None \<Rightarrow> poll_done
         | Some q \<Rightarrow> requote P ex symbol (two_sided ''queuemm-'' (qq_bid q) (qq_ask q) (qm_qty cfg) (qm_qty cfg)))))))"

section \<open>Dynamic spreads\<close>

record 'd pmm_dynamic_config =
  pd_common :: common_params
  pd_base_spread :: 'd
  pd_base_vol :: 'd
  pd_window :: u64
  pd_inventory_skew :: 'd
  pd_qty :: 'd

definition pmm_dynamic_default :: "'d decimal_api \<Rightarrow> common_params \<Rightarrow> 'd pmm_dynamic_config" where
  "pmm_dynamic_default D c = \<lparr>pd_common = c, pd_base_spread = d_new D 5 3, pd_base_vol = d_new D 1 2, pd_window = 20,
     pd_inventory_skew = d_new D 5 1, pd_qty = d_one D\<rparr>"

record 'd vol_tracker =
  vt_window :: u64
  vt_buf :: "'d list"

definition vol_new :: "u64 \<Rightarrow> 'd vol_tracker" where
  "vol_new window = \<lparr>vt_window = window, vt_buf = []\<rparr>"

definition vol_push :: "'d \<Rightarrow> 'd vol_tracker \<Rightarrow> 'd vol_tracker" where
  "vol_push x t = t\<lparr>vt_buf := window_push (unat (vt_window t)) x (vt_buf t)\<rparr>"

definition rolling_mean :: "'d decimal_api \<Rightarrow> 'd list \<Rightarrow> 'd option" where
  "rolling_mean D buf =
     (if buf = [] then None
      else do { s \<leftarrow> try_sum D (d_zero D) buf; d_div D s (d_of_int D (int (length buf))) })"

text \<open>Checked arithmetic: a value that does not fit gives no deviation; only the square root may panic.\<close>

definition rolling_stdev :: "'d decimal_api \<Rightarrow> 'd list \<Rightarrow> 'd option option" where
  "rolling_stdev D buf =
     (if length buf < 2 then Some None
      else checked (rolling_mean D buf) (\<lambda>mean.
           checked (try_squares D mean (d_zero D) buf) (\<lambda>sq.
           checked (d_div D sq (d_of_int D (int (length buf)))) (\<lambda>variance.
           map_option Some (decimal_sqrt D variance)))))"

definition dynamic_spreads ::
  "'d decimal_api \<Rightarrow> 'd \<Rightarrow> 'd \<Rightarrow> 'd option \<Rightarrow> 'd \<Rightarrow> 'd \<Rightarrow> ('d \<times> 'd) option option" where
  "dynamic_spreads D base_spread base_vol current_vol inventory_skew inventory =
     (if d_gt D (d_zero D) base_spread \<or> \<not> d_gt D base_vol (d_zero D) then Some None
      else do {
        vol_ratio \<leftarrow> d_div D (case current_vol of None \<Rightarrow> base_vol | Some v \<Rightarrow> v) base_vol;
        base \<leftarrow> d_mul D base_spread vol_ratio;
        skew_term \<leftarrow> d_mul D inventory_skew inventory;
        hi \<leftarrow> d_add D (d_one D) skew_term; b \<leftarrow> d_mul D base hi;
        lo \<leftarrow> d_sub D (d_one D) skew_term; a \<leftarrow> d_mul D base lo;
        Some (Some (d_max D b (d_zero D), d_max D a (d_zero D)))
      })"

record 'd dynamic_state =
  dn_inventory :: 'd
  dn_last_mid :: "'d option"
  dn_tracker :: "'d vol_tracker"

definition tracked_return :: "'d decimal_api \<Rightarrow> 'd \<Rightarrow> 'd option \<Rightarrow> 'd vol_tracker \<Rightarrow> 'd vol_tracker option" where
  "tracked_return D mid prev t = (case prev of
       None \<Rightarrow> Some t
     | Some p \<Rightarrow> do { diff \<leftarrow> d_sub D mid p; Some (vol_push (d_abs D diff) t) })"

definition pmm_dynamic_tick ::
  "('v, 'm, 'd) strategy_ports \<Rightarrow> 'd pmm_dynamic_config \<Rightarrow> u64 \<Rightarrow> (('v, 'd dynamic_state) maker_state, unit) poll" where
  "pmm_dynamic_tick P cfg now =
     (let D = sp_decimal P; ex = proto_exchange_id (pd_common cfg); symbol = cp_symbol (pd_common cfg)
      in poll_bind (read_last P ex symbol ''no usable mid'') (\<lambda>mid.
         poll_bind poll_own (\<lambda>own.
         poll_bind (poll_pure (tracked_return D mid (dn_last_mid own) (dn_tracker own))) (\<lambda>tracker.
         poll_bind (poll_set (own\<lparr>dn_last_mid := Some mid, dn_tracker := tracker\<rparr>)) (\<lambda>_.
         poll_bind (poll_pure (do {
             vol \<leftarrow> rolling_stdev D (vt_buf tracker);
             dynamic_spreads D (pd_base_spread cfg) (pd_base_vol cfg) vol (pd_inventory_skew cfg) (dn_inventory own)
           })) (\<lambda>spreads.
         case spreads of
           None \<Rightarrow> poll_done
         | Some (bid_spread, ask_spread) \<Rightarrow>
             poll_bind (poll_pure (below D mid bid_spread)) (\<lambda>bid.
             poll_bind (poll_pure (above D mid ask_spread)) (\<lambda>ask.
             if \<not> d_gt D bid (d_zero D) \<or> \<not> d_gt D ask (d_zero D) \<or> d_ge D bid ask then poll_done
             else requote P ex symbol (two_sided ''pmmdyn-'' bid ask (pd_qty cfg) (pd_qty cfg))))))))))"

section \<open>Closed-form spreads\<close>

text \<open>
  The logarithmic terms of the closed forms, \<open>ln (1 + gamma / k) / gamma\<close> and
  \<open>- ln (1 - gamma / k) / gamma\<close>, are computed in floating point and converted back by the
  decimal library; a term that cannot be converted is \<open>None\<close>.
\<close>

record 'd log_terms =
  lt_bid :: "'d \<Rightarrow> 'd \<Rightarrow> 'd option"
  lt_ask :: "'d \<Rightarrow> 'd \<Rightarrow> 'd option"

record 'd glft_config =
  gl_common :: common_params
  gl_gamma :: 'd
  gl_sigma :: 'd
  gl_arrival_intensity :: 'd
  gl_decay :: 'd
  gl_time_horizon :: 'd
  gl_qty :: 'd
  gl_vol_window :: u64

definition glft_default :: "'d decimal_api \<Rightarrow> common_params \<Rightarrow> 'd glft_config" where
  "glft_default D c = \<lparr>gl_common = c, gl_gamma = d_new D 1 1, gl_sigma = d_one D, gl_arrival_intensity = d_of_int D 10,
     gl_decay = d_one D, gl_time_horizon = d_one D, gl_qty = d_new D 1 3, gl_vol_window = 20\<rparr>"

definition optimal_spreads ::
  "'d decimal_api \<Rightarrow> 'd log_terms \<Rightarrow> 'd \<Rightarrow> 'd \<Rightarrow> 'd \<Rightarrow> 'd \<Rightarrow> ('d \<times> 'd) option option" where
  "optimal_spreads D logs gamma sigma decay time_horizon =
     (if \<not> d_gt D gamma (d_zero D) \<or> d_gt D (d_zero D) sigma \<or> \<not> d_gt D decay (d_zero D) then Some None
      else if d_ge D gamma decay then Some None
      else do {
        variance \<leftarrow> d_mul D sigma sigma;
        gv \<leftarrow> d_mul D gamma variance;
        inventory_term \<leftarrow> d_mul D gv time_horizon;
        case (lt_bid logs gamma decay, lt_ask logs gamma decay) of
          (Some log_term, Some ask_log_term) \<Rightarrow> do {
            bid \<leftarrow> d_add D inventory_term log_term; ask \<leftarrow> d_add D inventory_term ask_log_term; Some (Some (bid, ask)) }
        | _ \<Rightarrow> Some None
      })"

definition glft_skew :: "'d decimal_api \<Rightarrow> 'd \<Rightarrow> 'd \<Rightarrow> 'd \<Rightarrow> 'd option" where
  "glft_skew D inventory gamma sigma = do {
     a \<leftarrow> d_mul D gamma sigma; b \<leftarrow> d_mul D a sigma; d_mul D b inventory }"

record 'd glft_quotes =
  gq_bid :: 'd
  gq_ask :: 'd
  gq_bid_qty :: 'd
  gq_ask_qty :: 'd

definition plan_glft_quotes ::
  "'d decimal_api \<Rightarrow> 'd log_terms \<Rightarrow> 'd \<Rightarrow> 'd \<Rightarrow> 'd \<Rightarrow> 'd \<Rightarrow> 'd \<Rightarrow> 'd \<Rightarrow> 'd \<Rightarrow> 'd glft_quotes option option" where
  "plan_glft_quotes D logs mid inventory gamma sigma decay time_horizon qty = do {
     spreads \<leftarrow> optimal_spreads D logs gamma sigma decay time_horizon;
     case spreads of
       None \<Rightarrow> Some None
     | Some (bid_spread, ask_spread) \<Rightarrow> do {
         skew \<leftarrow> glft_skew D inventory gamma sigma;
         reservation \<leftarrow> d_sub D mid skew;
         bid \<leftarrow> d_sub D reservation bid_spread;
         ask \<leftarrow> d_add D reservation ask_spread;
         Some (if \<not> d_gt D bid (d_zero D) \<or> \<not> d_gt D ask (d_zero D) \<or> d_ge D bid ask then None
               else Some \<lparr>gq_bid = bid, gq_ask = ask, gq_bid_qty = qty, gq_ask_qty = qty\<rparr>)
       }
   }"

record 'd vol_state =
  vl_inventory :: 'd
  vl_last_mid :: "'d option"
  vl_ema :: "'d ema"

text \<open>The average takes the default window, not the configured one.\<close>

definition vol_state_new :: "'d decimal_api \<Rightarrow> 'd vol_state option" where
  "vol_state_new D = do { e \<leftarrow> ema_new D 20; Some \<lparr>vl_inventory = d_zero D, vl_last_mid = None, vl_ema = e\<rparr> }"

definition update_volatility :: "'d decimal_api \<Rightarrow> 'd \<Rightarrow> ('d, 'z) vol_state_scheme \<Rightarrow> ('d, 'z) vol_state_scheme option" where
  "update_volatility D mid s = do {
     e \<leftarrow> (case vl_last_mid s of
            None \<Rightarrow> Some (vl_ema s)
          | Some prev \<Rightarrow> do { diff \<leftarrow> d_sub D mid prev; ema_push D (d_abs D diff) (vl_ema s) });
     Some (s\<lparr>vl_last_mid := Some mid, vl_ema := e\<rparr>)
   }"

definition sigma_or :: "'d \<Rightarrow> ('d, 'z) vol_state_scheme \<Rightarrow> 'd" where
  "sigma_or sigma s = (case em_value (vl_ema s) of None \<Rightarrow> sigma | Some v \<Rightarrow> v)"

definition glft_tick ::
  "('v, 'm, 'd) strategy_ports \<Rightarrow> 'd log_terms \<Rightarrow> 'd glft_config \<Rightarrow> u64 \<Rightarrow> (('v, 'd vol_state) maker_state, unit) poll" where
  "glft_tick P logs cfg now =
     (let D = sp_decimal P; ex = proto_exchange_id (gl_common cfg); symbol = cp_symbol (gl_common cfg)
      in poll_bind (read_last P ex symbol ''no usable mid'') (\<lambda>mid.
         poll_bind poll_own (\<lambda>own.
         poll_bind (poll_pure (update_volatility D mid own)) (\<lambda>own.
         poll_bind (poll_set own) (\<lambda>_.
         poll_bind (poll_pure (plan_glft_quotes D logs mid (vl_inventory own) (gl_gamma cfg) (sigma_or (gl_sigma cfg) own)
             (gl_decay cfg) (gl_time_horizon cfg) (gl_qty cfg))) (\<lambda>plan.
         case plan of
           None \<Rightarrow> poll_done
         | Some q \<Rightarrow> requote P ex symbol (two_sided ''glftmm-'' (gq_bid q) (gq_ask q) (gq_bid_qty q) (gq_ask_qty q))))))))"

section \<open>Simplified closed form\<close>

record 'd sglft_config =
  sf_common :: common_params
  sf_vol_to_spread :: 'd
  sf_gamma :: 'd
  sf_sigma :: 'd
  sf_time_horizon :: 'd
  sf_qty :: 'd
  sf_vol_window :: u64
  sf_micro_weight :: 'd

definition sglft_default :: "'d decimal_api \<Rightarrow> common_params \<Rightarrow> 'd sglft_config" where
  "sglft_default D c = \<lparr>sf_common = c, sf_vol_to_spread = d_new D 5 1, sf_gamma = d_new D 1 1, sf_sigma = d_one D,
     sf_time_horizon = d_one D, sf_qty = d_new D 1 3, sf_vol_window = 20, sf_micro_weight = d_new D 5 1\<rparr>"

definition micro_price :: "'d decimal_api \<Rightarrow> 'd \<Rightarrow> 'd \<Rightarrow> 'd \<Rightarrow> 'd \<Rightarrow> 'd option option" where
  "micro_price D bid ask bid_qty ask_qty = do {
     total_qty \<leftarrow> d_add D bid_qty ask_qty;
     if d_is_zero D total_qty \<or> \<not> d_gt D bid (d_zero D) \<or> \<not> d_gt D ask (d_zero D) then Some None
     else do {
       a \<leftarrow> d_mul D bid ask_qty; b \<leftarrow> d_mul D ask bid_qty; s \<leftarrow> d_add D a b;
       q \<leftarrow> d_div D s total_qty; Some (Some q)
     }
   }"

definition blended_mid :: "'d decimal_api \<Rightarrow> 'd \<Rightarrow> 'd option \<Rightarrow> 'd \<Rightarrow> 'd option" where
  "blended_mid D simple_mid micro_mid weight = (case micro_mid of
       None \<Rightarrow> Some simple_mid
     | Some m \<Rightarrow> do {
         r \<leftarrow> d_sub D (d_one D) weight; a \<leftarrow> d_mul D simple_mid r; b \<leftarrow> d_mul D m weight; d_add D a b })"

definition simplified_skew :: "'d decimal_api \<Rightarrow> 'd \<Rightarrow> 'd \<Rightarrow> 'd \<Rightarrow> 'd \<Rightarrow> 'd option" where
  "simplified_skew D inventory gamma sigma horizon = do {
     a \<leftarrow> d_mul D inventory gamma; b \<leftarrow> d_mul D a sigma; c \<leftarrow> d_mul D b sigma; d_mul D c horizon }"

record 'd sglft_quotes =
  sq_bid :: 'd
  sq_ask :: 'd
  sq_half_spread :: 'd

definition plan_simplified_glft_quotes ::
  "'d decimal_api \<Rightarrow> 'd \<Rightarrow> 'd \<Rightarrow> 'd \<Rightarrow> 'd \<Rightarrow> 'd \<Rightarrow> 'd \<Rightarrow> 'd sglft_quotes option option" where
  "plan_simplified_glft_quotes D mid inventory gamma sigma horizon vol_to_spread =
     (if \<not> d_gt D mid (d_zero D) \<or> d_gt D (d_zero D) sigma \<or> d_gt D (d_zero D) vol_to_spread then Some None
      else do {
        half_spread \<leftarrow> d_mul D vol_to_spread sigma;
        skew \<leftarrow> simplified_skew D inventory gamma sigma horizon;
        reservation \<leftarrow> d_sub D mid skew;
        bid \<leftarrow> d_sub D reservation half_spread;
        ask \<leftarrow> d_add D reservation half_spread;
        Some (Some \<lparr>sq_bid = bid, sq_ask = ask, sq_half_spread = half_spread\<rparr>)
      })"

definition first_of :: "'a list \<Rightarrow> 'a option" where
  "first_of xs = (case xs of [] \<Rightarrow> None | x # _ \<Rightarrow> Some x)"

definition book_micro :: "'d decimal_api \<Rightarrow> order_book \<Rightarrow> 'd option option" where
  "book_micro D book =
     (case (Option.bind (first_of (ob_bids book)) (\<lambda>l. decoded D (pl_price l)),
            Option.bind (first_of (ob_asks book)) (\<lambda>l. decoded D (pl_price l)),
            Option.bind (first_of (ob_bids book)) (\<lambda>l. decoded D (pl_amount l)),
            Option.bind (first_of (ob_asks book)) (\<lambda>l. decoded D (pl_amount l))) of
        (Some b, Some a, Some bq, Some aq) \<Rightarrow> micro_price D b a bq aq
      | _ \<Rightarrow> Some None)"

text \<open>A ticker without a last price and one with an unusable price differ in their message only.\<close>

definition sglft_price :: "'d decimal_api \<Rightarrow> ticker \<Rightarrow> strategy_error + 'd" where
  "sglft_price D t = (case tk_last t of
       None \<Rightarrow> Inl (Bail ''no ticker'')
     | Some _ \<Rightarrow> positive_last D ''no usable price'' t)"

definition fair_mid ::
  "('v, 'm, 'd) strategy_ports \<Rightarrow> 'd sglft_config \<Rightarrow> (('v, 'p) maker_state, 'd \<times> 'd option) poll" where
  "fair_mid P cfg =
     (let D = sp_decimal P; ex = proto_exchange_id (sf_common cfg); symbol = cp_symbol (sf_common cfg)
      in poll_bind (poll_call (\<lambda>v. mds_fetch_ticker (sp_market P) v ex symbol)) (\<lambda>t.
         poll_bind (\<lambda>s. (Some (sglft_price D t), s)) (\<lambda>simple_mid.
         poll_bind (poll_try (\<lambda>v. mds_fetch_order_book (sp_market P) v ex symbol 1)) (\<lambda>book.
         poll_bind (poll_pure (case book of Inl _ \<Rightarrow> Some None | Inr b \<Rightarrow> book_micro D b)) (\<lambda>micro.
         poll_pure (map_option (\<lambda>m. (m, micro)) (blended_mid D simple_mid micro (sf_micro_weight cfg))))))))"

definition sglft_tick ::
  "('v, 'm, 'd) strategy_ports \<Rightarrow> 'd sglft_config \<Rightarrow> u64 \<Rightarrow> (('v, 'd vol_state) maker_state, unit) poll" where
  "sglft_tick P cfg now =
     (let D = sp_decimal P; ex = proto_exchange_id (sf_common cfg); symbol = cp_symbol (sf_common cfg)
      in poll_bind (fair_mid P cfg) (\<lambda>(mid, _).
         poll_bind poll_own (\<lambda>own.
         poll_bind (poll_pure (update_volatility D mid own)) (\<lambda>own.
         poll_bind (poll_set own) (\<lambda>_.
         poll_bind (poll_pure (plan_simplified_glft_quotes D mid (vl_inventory own) (sf_gamma cfg) (sigma_or (sf_sigma cfg) own)
             (sf_time_horizon cfg) (sf_vol_to_spread cfg))) (\<lambda>plan.
         case plan of
           None \<Rightarrow> poll_done
         | Some q \<Rightarrow> requote P ex symbol (two_sided ''sglft-'' (sq_bid q) (sq_ask q) (sf_qty cfg) (sf_qty cfg))))))))"

section \<open>Avellaneda and Stoikov\<close>

record 'd avellaneda_config =
  av_common :: common_params
  av_gamma :: 'd
  av_sigma :: 'd
  av_time_horizon :: 'd
  av_qty :: 'd
  av_intensity_window :: u64
  av_vol_window :: u64
  av_min_decay :: 'd

definition avellaneda_default :: "'d decimal_api \<Rightarrow> common_params \<Rightarrow> 'd avellaneda_config" where
  "avellaneda_default D c = \<lparr>av_common = c, av_gamma = d_new D 1 1, av_sigma = d_one D, av_time_horizon = d_one D,
     av_qty = d_new D 1 3, av_intensity_window = 20, av_vol_window = 20, av_min_decay = d_new D 1 1\<rparr>"

record trade_intensity =
  tn_window :: u64
  tn_timestamps :: "u64 list"

definition intensity_new :: "u64 \<Rightarrow> trade_intensity" where
  "intensity_new window = \<lparr>tn_window = window, tn_timestamps = []\<rparr>"

definition intensity_observe :: "u64 \<Rightarrow> trade_intensity \<Rightarrow> trade_intensity" where
  "intensity_observe x t = t\<lparr>tn_timestamps := window_push (unat (tn_window t)) x (tn_timestamps t)\<rparr>"

definition intensity :: "'d decimal_api \<Rightarrow> trade_intensity \<Rightarrow> 'd option option" where
  "intensity D t =
     (let ts = tn_timestamps t
      in if length ts < 2 then Some None
         else let elapsed = unat (last ts) - unat (hd ts)
              in if elapsed = 0 then Some None
                 else map_option Some (d_div D (d_of_int D (int (length ts - 1))) (d_of_int D (int elapsed))))"

definition optimal_spread_v2 ::
  "'d decimal_api \<Rightarrow> 'd log_terms \<Rightarrow> 'd \<Rightarrow> 'd \<Rightarrow> 'd \<Rightarrow> 'd option \<Rightarrow> 'd \<Rightarrow> 'd option option" where
  "optimal_spread_v2 D logs gamma sigma time_horizon rate min_decay =
     (if \<not> d_gt D gamma (d_zero D) \<or> d_gt D (d_zero D) sigma then Some None
      else do {
        variance \<leftarrow> d_mul D sigma sigma;
        gv \<leftarrow> d_mul D gamma variance;
        inventory_term \<leftarrow> d_mul D gv time_horizon;
        let k_eff = d_max D (case rate of None \<Rightarrow> min_decay | Some r \<Rightarrow> r) min_decay;
        if d_ge D gamma k_eff then Some None
        else case lt_bid logs gamma k_eff of
            None \<Rightarrow> Some None
          | Some log_term \<Rightarrow> map_option Some (d_add D inventory_term log_term)
      })"

definition reservation_price_v2 :: "'d decimal_api \<Rightarrow> 'd \<Rightarrow> 'd \<Rightarrow> 'd \<Rightarrow> 'd \<Rightarrow> 'd \<Rightarrow> 'd option" where
  "reservation_price_v2 D mid inventory gamma sigma time_horizon = do {
     skew \<leftarrow> simplified_skew D inventory gamma sigma time_horizon; d_sub D mid skew }"

record 'd avellaneda_state = "'d vol_state" +
  as_intensity :: trade_intensity

definition avellaneda_tick ::
  "('v, 'm, 'd) strategy_ports \<Rightarrow> 'd log_terms \<Rightarrow> 'd avellaneda_config \<Rightarrow> u64
   \<Rightarrow> (('v, 'd avellaneda_state) maker_state, unit) poll" where
  "avellaneda_tick P logs cfg now =
     (let D = sp_decimal P; ex = proto_exchange_id (av_common cfg); symbol = cp_symbol (av_common cfg)
      in poll_bind (read_last P ex symbol ''no usable mid'') (\<lambda>mid.
         poll_bind poll_own (\<lambda>own.
         poll_bind (poll_pure (update_volatility D mid own)) (\<lambda>own.
         poll_bind (poll_set own) (\<lambda>_.
         poll_bind (poll_pure (do {
             rate \<leftarrow> intensity D (as_intensity own);
             optimal_spread_v2 D logs (av_gamma cfg) (sigma_or (av_sigma cfg) own) (av_time_horizon cfg) rate (av_min_decay cfg)
           })) (\<lambda>plan.
         case plan of
           None \<Rightarrow> poll_done
         | Some spread \<Rightarrow>
             poll_bind (poll_pure (reservation_price_v2 D mid (vl_inventory own) (av_gamma cfg) (sigma_or (av_sigma cfg) own)
                 (av_time_horizon cfg))) (\<lambda>reservation.
             poll_bind (poll_pure (d_sub D reservation spread)) (\<lambda>bid.
             poll_bind (poll_pure (d_add D reservation spread)) (\<lambda>ask.
             if \<not> d_gt D bid (d_zero D) \<or> \<not> d_gt D ask (d_zero D) \<or> d_ge D bid ask then poll_done
             else requote P ex symbol (two_sided ''asmm2-'' bid ask (av_qty cfg) (av_qty cfg)))))))))))"

end
