(* ===== verification/Cross_Makers.thy ===== *)
theory Cross_Makers
  imports Makers
begin

text \<open>
  The makers that quote on perpetual futures, on a second venue or as a ladder
  (\<open>strategies/perpetual_mm\<close>, \<open>cross_exchange_mm\<close>, \<open>grid_strike\<close>, \<open>boll_grid\<close>,
  \<open>cross_fixed_maker\<close>, \<open>cross_maker\<close>, \<open>cross_depth_maker\<close>).
\<close>

section \<open>Perpetual futures\<close>

record 'd perp_config =
  pp_common :: common_params
  pp_perp_symbol :: string
  pp_half_spread :: 'd
  pp_qty :: 'd
  pp_position_limit :: 'd
  pp_funding_threshold :: 'd
  pp_liq_buffer :: 'd
  pp_vol_window :: u64

definition perp_default :: "'d decimal_api \<Rightarrow> common_params \<Rightarrow> string \<Rightarrow> 'd perp_config" where
  "perp_default D c perp_symbol = \<lparr>pp_common = c, pp_perp_symbol = perp_symbol, pp_half_spread = d_new D 5 4,
     pp_qty = d_new D 1 3, pp_position_limit = d_one D, pp_funding_threshold = d_new D 1 5, pp_liq_buffer = d_new D 1 1,
     pp_vol_window = 20\<rparr>"

text \<open>\<open>clamp\<close> to the range from \<open>-1\<close> to \<open>1\<close>.\<close>

definition clamp_unit :: "'d decimal_api \<Rightarrow> 'd \<Rightarrow> 'd" where
  "clamp_unit D x =
     (if d_gt D (d_neg D (d_one D)) x then d_neg D (d_one D) else if d_gt D x (d_one D) then d_one D else x)"

record 'd perp_quotes =
  pq_bid :: 'd
  pq_ask :: 'd
  pq_bid_qty :: 'd
  pq_ask_qty :: 'd
  pq_skew :: 'd

definition funding_skew :: "'d decimal_api \<Rightarrow> 'd \<Rightarrow> 'd \<Rightarrow> 'd" where
  "funding_skew D funding_rate funding_threshold =
     (if d_ge D (d_abs D funding_rate) funding_threshold
      then if \<not> d_is_sign_negative D funding_rate then d_neg D (d_one D) else d_one D
      else d_zero D)"

definition plan_perp_quotes ::
  "'d decimal_api \<Rightarrow> 'd \<Rightarrow> 'd \<Rightarrow> 'd \<Rightarrow> 'd \<Rightarrow> 'd \<Rightarrow> 'd \<Rightarrow> 'd \<Rightarrow> ('d perp_quotes \<times> bool) option option" where
  "plan_perp_quotes D mid half_spread qty inventory position_limit funding_rate funding_threshold =
     (if \<not> d_gt D mid (d_zero D) \<or> d_gt D (d_zero D) half_spread then Some None
      else do {
        inv_skew \<leftarrow> (if d_gt D position_limit (d_zero D)
          then map_option (clamp_unit D) (d_div D inventory position_limit) else Some (d_zero D));
        total \<leftarrow> d_add D inv_skew (funding_skew D funding_rate funding_threshold);
        let skew = clamp_unit D total;
        skew_half \<leftarrow> d_mul D half_spread skew;
        bid_half \<leftarrow> d_add D half_spread skew_half;
        ask_half \<leftarrow> d_sub D half_spread skew_half;
        bid \<leftarrow> below D mid bid_half;
        ask \<leftarrow> above D mid ask_half;
        Some (Some (\<lparr>pq_bid = bid, pq_ask = ask, pq_bid_qty = qty, pq_ask_qty = qty, pq_skew = skew\<rparr>,
                    d_is_zero D (funding_skew D funding_rate funding_threshold)))
      })"

text \<open>A funding rate that cannot be read counts as zero.\<close>

definition current_funding_rate ::
  "('v, 'm, 'd) strategy_ports \<Rightarrow> ('v, 'd) funding_rate_source \<Rightarrow> 'd perp_config \<Rightarrow> (('v, 'p) maker_state, 'd) poll" where
  "current_funding_rate P funding cfg =
     poll_bind (poll_try (\<lambda>v. fs_fetch_funding_rate funding v (proto_exchange_id (pp_common cfg)) (pp_perp_symbol cfg))) (\<lambda>r.
       poll_pure (Some (case r of Inl _ \<Rightarrow> d_zero (sp_decimal P) | Inr snapshot \<Rightarrow> frs_rate snapshot)))"

definition perp_tick ::
  "('v, 'm, 'd) strategy_ports \<Rightarrow> ('v, 'd) funding_rate_source \<Rightarrow> 'd perp_config \<Rightarrow> u64
   \<Rightarrow> (('v, 'd) maker_state, unit) poll" where
  "perp_tick P funding cfg now =
     (let D = sp_decimal P; ex = proto_exchange_id (pp_common cfg); symbol = pp_perp_symbol cfg
      in poll_bind (read_last P ex symbol ''no usable mid'') (\<lambda>mid.
         poll_bind (current_funding_rate P funding cfg) (\<lambda>rate.
         poll_bind poll_own (\<lambda>inventory.
         poll_bind (poll_pure (plan_perp_quotes D mid (pp_half_spread cfg) (pp_qty cfg) inventory (pp_position_limit cfg)
             rate (pp_funding_threshold cfg))) (\<lambda>plan.
         case plan of
           None \<Rightarrow> poll_done
         | Some (q, _) \<Rightarrow> requote P ex symbol (two_sided ''perpm-'' (pq_bid q) (pq_ask q) (pq_bid_qty q) (pq_ask_qty q)))))))"

section \<open>Making on one venue, taking on another\<close>

record 'd xemm_config =
  xe_venues :: cross_venue_params
  xe_min_profitability :: 'd
  xe_qty :: 'd
  xe_levels :: u32
  xe_step_size :: 'd

definition xemm_default :: "'d decimal_api \<Rightarrow> cross_venue_params \<Rightarrow> 'd xemm_config" where
  "xemm_default D v = \<lparr>xe_venues = v, xe_min_profitability = d_new D 1 4, xe_qty = d_new D 1 3, xe_levels = 3,
     xe_step_size = d_new D 5 4\<rparr>"

record 'd xemm_plan =
  xp_bids :: "'d list"
  xp_asks :: "'d list"
  xp_skip :: bool

definition xemm_level :: "'d decimal_api \<Rightarrow> 'd \<Rightarrow> 'd \<Rightarrow> 'd \<Rightarrow> nat \<Rightarrow> ('d \<times> 'd) option" where
  "xemm_level D center min_profitability step_size i = do {
     offset \<leftarrow> d_mul D step_size (d_u32 D i);
     m \<leftarrow> d_sub D (d_one D) min_profitability; lo \<leftarrow> d_sub D m offset;
     bid \<leftarrow> d_mul D center (d_max D lo (d_zero D));
     p \<leftarrow> d_add D (d_one D) min_profitability; hi \<leftarrow> d_add D p offset;
     ask \<leftarrow> d_mul D center hi;
     Some (bid, ask)
   }"

definition plan_xemm_quotes :: "'d decimal_api \<Rightarrow> 'd \<Rightarrow> 'd \<Rightarrow> 'd \<Rightarrow> u32 \<Rightarrow> 'd \<Rightarrow> 'd xemm_plan option option" where
  "plan_xemm_quotes D taker_bid taker_ask min_profitability levels step_size =
     (if \<not> d_gt D taker_bid (d_zero D) \<or> \<not> d_gt D taker_ask (d_zero D) \<or> d_ge D taker_bid taker_ask
         \<or> d_gt D (d_zero D) min_profitability then Some None
      else do {
        diff \<leftarrow> d_sub D taker_ask taker_bid;
        taker_spread \<leftarrow> d_div D diff taker_bid;
        margin \<leftarrow> d_mul D min_profitability (d_of_int D 2);
        if d_gt D margin taker_spread then Some (Some \<lparr>xp_bids = [], xp_asks = [], xp_skip = True\<rparr>)
        else do {
          center \<leftarrow> mid_price D taker_bid taker_ask;
          rungs \<leftarrow> collect_options (map (xemm_level D center min_profitability step_size) [1..<Suc (unat levels)]);
          Some (Some \<lparr>xp_bids = map fst rungs, xp_asks = map snd rungs, xp_skip = False\<rparr>)
        }
      })"

definition is_hedgeable :: "'d decimal_api \<Rightarrow> 'd \<Rightarrow> 'd \<Rightarrow> 'd \<Rightarrow> bool \<Rightarrow> 'd \<Rightarrow> bool option" where
  "is_hedgeable D maker_price taker_bid taker_ask is_buy min_profitability =
     (if is_buy then map_option (\<lambda>t. d_gt D t maker_price) (below D taker_bid min_profitability)
      else map_option (\<lambda>t. d_gt D maker_price t) (above D taker_ask min_profitability))"

definition best_price :: "'d decimal_api \<Rightarrow> price_level list \<Rightarrow> 'd option" where
  "best_price D levels = Option.bind (first_of levels) (\<lambda>l. decoded D (pl_price l))"

definition fetch_taker_best ::
  "('v, 'm, 'd) strategy_ports \<Rightarrow> 'd xemm_config \<Rightarrow> (('v, 'p) maker_state, 'd \<times> 'd) poll" where
  "fetch_taker_best P cfg =
     (let D = sp_decimal P
      in poll_bind (read_book P (venue_proto (xv_hedge (xe_venues cfg))) (xv_symbol (xe_venues cfg)) 1) (\<lambda>book.
         case best_price D (ob_bids book) of
           None \<Rightarrow> poll_fail (Bail ''no taker bid'')
         | Some bid \<Rightarrow> (case best_price D (ob_asks book) of
             None \<Rightarrow> poll_fail (Bail ''no taker ask'')
           | Some ask \<Rightarrow> poll_pure (Some (bid, ask)))))"

definition xemm_side :: "string \<Rightarrow> bool \<Rightarrow> 'd \<Rightarrow> 'd list \<Rightarrow> 'd quote list" where
  "xemm_side tag is_buy qty prices =
     map (\<lambda>(i, price). \<lparr>qu_prefix = tag @ nat_to_string i @ ''-'', qu_is_buy = is_buy, qu_price = price, qu_qty = qty\<rparr>)
       (enumerate 0 prices)"

definition xemm_tick ::
  "('v, 'm, 'd) strategy_ports \<Rightarrow> 'd xemm_config \<Rightarrow> u64 \<Rightarrow> (('v, unit) maker_state, unit) poll" where
  "xemm_tick P cfg now =
     (let D = sp_decimal P; ex = venue_proto (xv_primary (xe_venues cfg)); symbol = xv_symbol (xe_venues cfg)
      in poll_bind (fetch_taker_best P cfg) (\<lambda>(taker_bid, taker_ask).
         poll_bind (poll_pure (plan_xemm_quotes D taker_bid taker_ask (xe_min_profitability cfg) (xe_levels cfg)
             (xe_step_size cfg))) (\<lambda>plan.
         case plan of
           None \<Rightarrow> poll_done
         | Some plan \<Rightarrow>
             if xp_skip plan then poll_done
             else requote P ex symbol
               (xemm_side ''xemm-b-'' True (xe_qty cfg) (xp_bids plan) @ xemm_side ''xemm-a-'' False (xe_qty cfg) (xp_asks plan)))))"

section \<open>Grid strike\<close>

record 'd grid_strike_config =
  gk_common :: common_params
  gk_lower_price :: 'd
  gk_upper_price :: 'd
  gk_levels :: u32
  gk_qty :: 'd
  gk_profit_spread :: 'd

definition grid_strike_default :: "'d decimal_api \<Rightarrow> common_params \<Rightarrow> 'd \<Rightarrow> 'd \<Rightarrow> 'd grid_strike_config" where
  "grid_strike_default D c lower upper = \<lparr>gk_common = c, gk_lower_price = lower, gk_upper_price = upper, gk_levels = 5,
     gk_qty = d_one D, gk_profit_spread = d_new D 1 2\<rparr>"

definition grid_strike_price :: "'d decimal_api \<Rightarrow> 'd \<Rightarrow> 'd \<Rightarrow> nat \<Rightarrow> 'd option" where
  "grid_strike_price D lower step i = do { offset \<leftarrow> d_mul D step (d_u32 D i); d_add D lower offset }"

text \<open>\<open>levels + 1\<close> in 32 bits; when it wraps to zero the division panics.\<close>

definition plan_grid_strike :: "'d decimal_api \<Rightarrow> 'd \<Rightarrow> 'd \<Rightarrow> u32 \<Rightarrow> 'd list option option" where
  "plan_grid_strike D lower upper levels =
     (if \<not> d_gt D lower (d_zero D) \<or> d_ge D lower upper \<or> levels = 0 then Some None
      else do {
        width \<leftarrow> d_sub D upper lower;
        step \<leftarrow> d_div D width (d_u32 D (unat (levels + 1)));
        prices \<leftarrow> collect_options (map (grid_strike_price D lower step) [1..<Suc (unat levels)]);
        Some (Some prices)
      })"

definition grid_strike_reverse :: "'d decimal_api \<Rightarrow> bool \<Rightarrow> 'd \<Rightarrow> 'd \<Rightarrow> 'd option" where
  "grid_strike_reverse D side fill_price profit_spread =
     (if side then above D fill_price profit_spread else below D fill_price profit_spread)"

definition grid_strike_quotes :: "'d decimal_api \<Rightarrow> 'd \<Rightarrow> 'd \<Rightarrow> 'd list \<Rightarrow> 'd quote list" where
  "grid_strike_quotes D mid qty prices =
     map (\<lambda>price. \<lparr>qu_prefix = ''gridst-'', qu_is_buy = d_gt D mid price, qu_price = price, qu_qty = qty\<rparr>) prices"

definition grid_strike_tick ::
  "('v, 'm, 'd) strategy_ports \<Rightarrow> 'd grid_strike_config \<Rightarrow> u64 \<Rightarrow> (('v, unit) maker_state, unit) poll" where
  "grid_strike_tick P cfg now =
     (let D = sp_decimal P; ex = proto_exchange_id (gk_common cfg); symbol = cp_symbol (gk_common cfg)
      in poll_bind (read_last P ex symbol ''no usable mid'') (\<lambda>mid.
         poll_bind (poll_pure (plan_grid_strike D (gk_lower_price cfg) (gk_upper_price cfg) (gk_levels cfg))) (\<lambda>plan.
         case plan of
           None \<Rightarrow> poll_done
         | Some prices \<Rightarrow> requote P ex symbol (grid_strike_quotes D mid (gk_qty cfg) prices))))"

section \<open>Bollinger grid\<close>

record 'd boll_grid_config =
  bg_common :: common_params
  bg_boll_window :: u64
  bg_boll_mult :: 'd
  bg_grid_num :: u32
  bg_qty :: 'd
  bg_profit_spread_pct :: 'd

definition boll_grid_default :: "'d decimal_api \<Rightarrow> common_params \<Rightarrow> 'd boll_grid_config" where
  "boll_grid_default D c = \<lparr>bg_common = c, bg_boll_window = 21, bg_boll_mult = d_new D 2 0, bg_grid_num = 3,
     bg_qty = d_new D 1 3, bg_profit_spread_pct = d_new D 5 4\<rparr>"

definition max_grid_num :: u32 where "max_grid_num = 200"

text \<open>The argument is what the deserialiser made of the table.\<close>

definition boll_grid_from_params :: "strategy_error + 'd boll_grid_config \<Rightarrow> strategy_error + 'd boll_grid_config" where
  "boll_grid_from_params parsed = (case parsed of
       Inl e \<Rightarrow> Inl e
     | Inr cfg \<Rightarrow>
         if bg_grid_num cfg > max_grid_num
         then Inl (Bail (''grid_num must be at most '' @ nat_to_string (unat max_grid_num) @ '', got ''
                @ nat_to_string (unat (bg_grid_num cfg))))
         else Inr cfg)"

definition ladder_rung :: "'d decimal_api \<Rightarrow> 'd \<Rightarrow> 'd bands \<Rightarrow> 'd \<Rightarrow> nat \<Rightarrow> ('d \<times> bool) list option" where
  "ladder_rung D close bands step level = do {
     offset \<leftarrow> d_mul D step (d_u32 D level);
     bid \<leftarrow> d_sub D close offset;
     ask \<leftarrow> d_add D close offset;
     Some ((if d_gt D bid (d_zero D) \<and> d_ge D bid (ba_lower bands) then [(bid, True)] else [])
           @ (if d_ge D (ba_upper bands) ask then [(ask, False)] else []))
   }"

definition saturating_succ :: "u32 \<Rightarrow> u32" where
  "saturating_succ n = (if n = - 1 then n else n + 1)"

definition plan_ladder :: "'d decimal_api \<Rightarrow> 'd \<Rightarrow> 'd bands \<Rightarrow> u32 \<Rightarrow> ('d \<times> bool) list option" where
  "plan_ladder D close bands grid_num = do {
     width \<leftarrow> d_sub D (ba_upper bands) (ba_lower bands);
     if \<not> d_gt D width (d_zero D) \<or> d_gt D close (ba_upper bands) \<or> d_gt D (ba_lower bands) close then Some []
     else do {
       step \<leftarrow> d_div D width (d_u32 D (unat (saturating_succ grid_num)));
       map_option concat (collect_options (map (ladder_rung D close bands step) [1..<Suc (unat grid_num)]))
     }
   }"

definition ladder_quotes :: "'d \<Rightarrow> ('d \<times> bool) list \<Rightarrow> 'd quote list" where
  "ladder_quotes qty =
     map (\<lambda>(price, is_buy). \<lparr>qu_prefix = ''bollgrid-'', qu_is_buy = is_buy, qu_price = price, qu_qty = qty\<rparr>)"

definition boll_grid_tick ::
  "('v, 'm, 'd) strategy_ports \<Rightarrow> 'd boll_grid_config \<Rightarrow> u64 \<Rightarrow> (('v, unit) maker_state, unit) poll" where
  "boll_grid_tick P cfg now =
     (let D = sp_decimal P; ex = proto_exchange_id (bg_common cfg); symbol = cp_symbol (bg_common cfg)
      in poll_bind (poll_call (fetch_candles (sp_market P) ex symbol (cp_timeframe (bg_common cfg))
             (limit_or_200 (bg_boll_window cfg)))) (\<lambda>candles.
         poll_bind (poll_pure (bollinger_compute D (closes_of D candles) (bg_boll_mult cfg))) (\<lambda>bands.
         case (bands, last_of (closes_of D candles)) of
           (Some bands, Some close) \<Rightarrow>
             poll_bind (cancel_quotes P ex symbol) (\<lambda>_.
             poll_bind (poll_pure (plan_ladder D close bands (bg_grid_num cfg))) (\<lambda>plan.
             place_strictly P ex symbol (ladder_quotes (bg_qty cfg) plan)))
         | _ \<Rightarrow> poll_done)))"

section \<open>Two venues, fixed spread\<close>

record 'd cross_fixed_config =
  xf_venues :: cross_venue_params
  xf_spread :: 'd
  xf_qty :: 'd

definition cross_fixed_default :: "'d decimal_api \<Rightarrow> cross_venue_params \<Rightarrow> 'd cross_fixed_config" where
  "cross_fixed_default D v = \<lparr>xf_venues = v, xf_spread = d_new D 2 3, xf_qty = d_new D 1 3\<rparr>"

definition resting_on_side :: "order_side \<Rightarrow> order list \<Rightarrow> nat" where
  "resting_on_side side orders = length (filter (\<lambda>ord. o_side ord = Known side) orders)"

definition hedge_buy :: "order list \<Rightarrow> bool" where
  "hedge_buy orders \<longleftrightarrow> resting_on_side Sell orders > resting_on_side Buy orders"

definition send_hedge ::
  "('v, 'm, 'd) strategy_ports \<Rightarrow> exchange_id \<Rightarrow> string \<Rightarrow> string \<Rightarrow> bool \<Rightarrow> 'd \<Rightarrow> (('v, 'p) maker_state, unit) poll" where
  "send_hedge P ex symbol tag is_buy qty s =
     (let req = market_order (sp_decimal P) ex symbol (tag @ sp_ulid P (mk_ulids s)) is_buy qty;
          (r, v) = gw_create_order (sp_gateway P) (mk_venue s) req
      in (Some (map_err PortFailure (map_sum id (\<lambda>_. ()) r)), s\<lparr>mk_venue := v, mk_ulids := Suc (mk_ulids s)\<rparr>))"

definition cross_fixed_tick ::
  "('v, 'm, 'd) strategy_ports \<Rightarrow> 'd cross_fixed_config \<Rightarrow> u64 \<Rightarrow> (('v, unit) maker_state, unit) poll" where
  "cross_fixed_tick P cfg now =
     (let D = sp_decimal P; primary = venue_proto (xv_primary (xf_venues cfg)); hedge = venue_proto (xv_hedge (xf_venues cfg));
          symbol = xv_symbol (xf_venues cfg)
      in poll_bind (read_last P hedge symbol ''no usable ticker price'') (\<lambda>fair.
         poll_bind (poll_call (\<lambda>v. gw_fetch_open_orders (sp_gateway P) v
             \<lparr>foo_exchange_id = Some primary, foo_symbol = symbol\<rparr>)) (\<lambda>open_orders.
         poll_bind (poll_pure (below D fair (xf_spread cfg))) (\<lambda>bid.
         poll_bind (poll_pure (above D fair (xf_spread cfg))) (\<lambda>ask.
         poll_bind (place_quotes P primary symbol (two_sided ''xfm-'' bid ask (xf_qty cfg) (xf_qty cfg))) (\<lambda>_.
         if resting_on_side Buy open_orders \<noteq> resting_on_side Sell open_orders
         then send_hedge P hedge symbol ''xfm-hedge-'' (hedge_buy open_orders) (xf_qty cfg)
         else poll_done))))))"

section \<open>Two venues, sizes skewed by inventory\<close>

record 'd cross_maker_config =
  xm_venues :: cross_venue_params
  xm_spread :: 'd
  xm_inventory_cap :: 'd
  xm_qty :: 'd

definition cross_maker_default :: "'d decimal_api \<Rightarrow> cross_venue_params \<Rightarrow> 'd \<Rightarrow> 'd cross_maker_config" where
  "cross_maker_default D v cap = \<lparr>xm_venues = v, xm_spread = d_new D 2 3, xm_inventory_cap = cap, xm_qty = d_new D 1 3\<rparr>"

definition skewed_sizes :: "'d decimal_api \<Rightarrow> 'd \<Rightarrow> 'd \<Rightarrow> 'd \<Rightarrow> ('d \<times> 'd) option" where
  "skewed_sizes D inventory cap qty =
     (if d_is_zero D cap then Some (qty, qty)
      else do {
        ratio \<leftarrow> d_div D inventory cap;
        let skew = clamp_unit D ratio;
        lo \<leftarrow> d_sub D (d_one D) skew; b \<leftarrow> d_mul D qty lo; bid \<leftarrow> halved D b;
        hi \<leftarrow> d_add D (d_one D) skew; a \<leftarrow> d_mul D qty hi; ask \<leftarrow> halved D a;
        Some (d_max D bid (d_zero D), d_max D ask (d_zero D))
      })"

definition optional_last :: "'d decimal_api \<Rightarrow> ticker \<Rightarrow> strategy_error + 'd" where
  "optional_last D t = (case tk_last t of
       None \<Rightarrow> Inr (d_zero D)
     | Some w \<Rightarrow> map_err Conversion (common_to_decimal (d_parse D) w))"

definition cross_maker_tick ::
  "('v, 'm, 'd) strategy_ports \<Rightarrow> 'd cross_maker_config \<Rightarrow> u64 \<Rightarrow> (('v, 'd) maker_state, unit) poll" where
  "cross_maker_tick P cfg now =
     (let D = sp_decimal P; primary = venue_proto (xv_primary (xm_venues cfg)); hedge = venue_proto (xv_hedge (xm_venues cfg));
          symbol = xv_symbol (xm_venues cfg)
      in poll_bind (poll_call (\<lambda>v. mds_fetch_ticker (sp_market P) v hedge symbol)) (\<lambda>t.
         poll_bind (\<lambda>s. (Some (optional_last D t), s)) (\<lambda>fair.
         if d_is_zero D fair then poll_done
         else poll_bind poll_own (\<lambda>inventory.
              poll_bind (poll_pure (skewed_sizes D inventory (xm_inventory_cap cfg) (xm_qty cfg))) (\<lambda>(bid_size, ask_size).
              poll_bind (poll_pure (below D fair (xm_spread cfg))) (\<lambda>bid.
              poll_bind (poll_pure (above D fair (xm_spread cfg))) (\<lambda>ask.
              place_quotes P primary symbol
                (filter (\<lambda>q. \<not> d_is_zero D (qu_qty q)) (two_sided ''xmk-'' bid ask bid_size ask_size)))))))))"

definition apply_fill :: "('v, 'm, 'd) strategy_ports \<Rightarrow> 'd \<Rightarrow> (('v, 'd) maker_state, unit) poll" where
  "apply_fill P signed_qty =
     poll_bind poll_own (\<lambda>inventory. poll_bind (poll_pure (d_add (sp_decimal P) inventory signed_qty)) poll_set)"

section \<open>Two venues, mid of the hedge book\<close>

record 'd cross_depth_config =
  xd_venues :: cross_venue_params
  xd_spread :: 'd
  xd_qty :: 'd

definition cross_depth_default :: "'d decimal_api \<Rightarrow> cross_venue_params \<Rightarrow> 'd cross_depth_config" where
  "cross_depth_default D v = \<lparr>xd_venues = v, xd_spread = d_new D 2 3, xd_qty = d_new D 1 3\<rparr>"

definition strict_best :: "'d decimal_api \<Rightarrow> price_level list \<Rightarrow> strategy_error + 'd option" where
  "strict_best D levels = (case Option.bind (first_of levels) pl_price of
       None \<Rightarrow> Inr None
     | Some w \<Rightarrow> map_err Conversion (map_sum id Some (common_to_decimal (d_parse D) w)))"

definition hedge_mid ::
  "('v, 'm, 'd) strategy_ports \<Rightarrow> 'd cross_depth_config \<Rightarrow> (('v, 'p) maker_state, 'd) poll" where
  "hedge_mid P cfg =
     (let D = sp_decimal P
      in poll_bind (read_book P (venue_proto (xv_hedge (xd_venues cfg))) (xv_symbol (xd_venues cfg)) 1) (\<lambda>book.
         poll_bind (\<lambda>s. (Some (strict_best D (ob_bids book)), s)) (\<lambda>bid.
         poll_bind (\<lambda>s. (Some (strict_best D (ob_asks book)), s)) (\<lambda>ask.
         case (bid, ask) of
           (Some b, Some a) \<Rightarrow>
             if d_gt D b (d_zero D) \<and> d_gt D a (d_zero D) then poll_pure (mid_price D b a)
             else poll_fail (Bail ''hedge book lacks both sides'')
         | _ \<Rightarrow> poll_fail (Bail ''hedge book lacks both sides'')))))"

definition cross_depth_tick ::
  "('v, 'm, 'd) strategy_ports \<Rightarrow> 'd cross_depth_config \<Rightarrow> u64 \<Rightarrow> (('v, unit) maker_state, unit) poll" where
  "cross_depth_tick P cfg now =
     (let D = sp_decimal P; primary = venue_proto (xv_primary (xd_venues cfg)); symbol = xv_symbol (xd_venues cfg)
      in poll_bind (hedge_mid P cfg) (\<lambda>fair.
         poll_bind (poll_pure (below D fair (xd_spread cfg))) (\<lambda>bid.
         poll_bind (poll_pure (above D fair (xd_spread cfg))) (\<lambda>ask.
         place_strictly P primary symbol (two_sided ''xdm-'' bid ask (xd_qty cfg) (xd_qty cfg))))))"

end
