(* ===== verification/Maker_Safety.thy ===== *)
theory Maker_Safety
  imports Cross_Makers Executor_Safety
begin

text \<open>
  What the quoting strategies leave on a venue: makers that replace their quotes never rest a bid
  above one of their own asks, whatever the rounding and whatever the venue refuses; makers that
  do not withdraw pile quotes up; and the places where a quote or a hedge goes the other way than
  its comment says.
\<close>

section \<open>Quotes that do not cross\<close>

definition uncrossed :: "'d decimal_api \<Rightarrow> 'd quote list \<Rightarrow> bool" where
  "uncrossed D qs \<longleftrightarrow> (\<forall>b \<in> set qs. \<forall>a \<in> set qs. qu_is_buy b \<and> \<not> qu_is_buy a \<longrightarrow> d_ge D (qu_price a) (qu_price b))"

type_synonym resting_quote = "order_side enum_value \<times> wire_decimal option"

definition on_wire :: "'d decimal_api \<Rightarrow> 'd quote \<Rightarrow> resting_quote" where
  "on_wire D q = (Known (if qu_is_buy q then Buy else Sell), Some (decimal_to_common (d_show D) (qu_price q)))"

definition quoted :: "'d decimal_api \<Rightarrow> 'd quote list \<Rightarrow> resting_quote set" where
  "quoted D qs = on_wire D ` set qs"

text \<open>Everything that rests was quoted by one list that does not cross.\<close>

definition tidy_book :: "'d decimal_api \<Rightarrow> resting_quote set \<Rightarrow> bool" where
  "tidy_book D book \<longleftrightarrow> (\<exists>qs. uncrossed D qs \<and> book \<subseteq> quoted D qs)"

lemma quoted_simps [simp]:
  "quoted D [] = {}" "quoted D (q # qs) = insert (on_wire D q) (quoted D qs)"
  "quoted D (qs @ rs) = quoted D qs \<union> quoted D rs"
  by (auto simp: quoted_def)

lemma tidy_empty [simp]: "tidy_book D {}"
  by (auto simp: tidy_book_def uncrossed_def intro: exI [of _ "[]"])

lemma tidy_subset: "tidy_book D book \<Longrightarrow> book' \<subseteq> book \<Longrightarrow> tidy_book D book'"
  by (auto simp: tidy_book_def)

text \<open>A reference price between the bids and the asks is enough.\<close>

lemma uncrossed_around:
  assumes "faithful D val"
    and "\<And>q. q \<in> set qs \<Longrightarrow> if qu_is_buy q then val (qu_price q) \<le> mid else mid \<le> val (qu_price q)"
  shows "uncrossed D qs"
proof -
  have "val (qu_price b) \<le> val (qu_price a)" if "b \<in> set qs" "a \<in> set qs" "qu_is_buy b" "\<not> qu_is_buy a" for a b
    using assms(2) [OF that(1)] assms(2) [OF that(2)] that(3,4) by simp
  then show ?thesis by (auto simp: uncrossed_def d_ge_def faithfulD(1) [OF assms(1)] not_less)
qed

lemma uncrossed_two_sided [simp]: "uncrossed D (two_sided tag bid ask bq aq) \<longleftrightarrow> d_ge D ask bid"
  by (auto simp: uncrossed_def two_sided_def)

section \<open>Plans of the makers\<close>

text \<open>What every step of a sequence of polls respects, the sequence respects.\<close>

lemma poll_bind_preserves:
  assumes "\<And>s. R s (snd (m s))" and "\<And>a s. R s (snd (f a s))" and "\<And>s t u. R s t \<Longrightarrow> R t u \<Longrightarrow> R s u"
  shows "R s (snd (poll_bind m f s))"
proof -
  obtain r s' where r: "m s = (r, s')" by fastforce
  then have "R s s'" using assms(1) [of s] by simp
  then show ?thesis using r assms(2) [of s'] assms(3) by (auto simp: poll_bind_def split: option.splits sum.splits)
qed

lemma mul_le_self:
  assumes f: "faithful D val" and m: "d_mul D p x = Some b" and "0 \<le> val p" and "val x \<le> 1"
  shows "val b \<le> val p"
  using roundsD(1) [OF faithfulD(10) [OF f] m, of p] mult_left_le [OF assms(4,3)] by simp

lemma mul_ge_self:
  assumes f: "faithful D val" and m: "d_mul D p x = Some b" and "0 \<le> val p" and "1 \<le> val x"
  shows "val p \<le> val b"
  using roundsD(2) [OF faithfulD(10) [OF f] m, of p] mult_left_mono [OF assms(4,3)] by simp

lemma below_le:
  assumes f: "faithful D val" and b: "below D p x = Some b" and "0 \<le> val p" and "0 \<le> val x"
  shows "val b \<le> val p"
proof -
  obtain y where y: "d_sub D (d_one D) x = Some y" "d_mul D p y = Some b" using b by (auto simp: below_def bind_eq_Some_conv)
  then show ?thesis using mul_le_self [OF f y(2) assms(3)] sub_le [OF f y(1) assms(4)] by (simp add: faithfulD(4) [OF f])
qed

lemma above_ge:
  assumes f: "faithful D val" and a: "above D p x = Some a" and "0 \<le> val p" and "0 \<le> val x"
  shows "val p \<le> val a"
proof -
  obtain y where y: "d_add D (d_one D) x = Some y" "d_mul D p y = Some a" using a by (auto simp: above_def bind_eq_Some_conv)
  then show ?thesis using mul_ge_self [OF f y(2) assms(3)] add_ge [OF f y(1) assms(4)] by (simp add: faithfulD(4) [OF f])
qed

lemma ge_val: "faithful D val \<Longrightarrow> d_ge D a b \<longleftrightarrow> val b \<le> val a"
  by (simp add: d_ge_def faithfulD(1) not_less)

lemma below_above:
  assumes f: "faithful D val" and "below D p x = Some b" and "above D p y = Some a"
    and "0 \<le> val p" and "0 \<le> val x" and "0 \<le> val y"
  shows "d_ge D a b"
  using below_le [OF f assms(2,4,5)] above_ge [OF f assms(3,4,6)] by (simp add: ge_val [OF f])

lemma u32_val: "faithful D val \<Longrightarrow> n \<le> u64_max \<Longrightarrow> val (d_u32 D n) = of_nat n"
  by (simp add: d_u32_def faithfulD(5))

lemma unit_mul:
  assumes f: "faithful D val" and c: "d_mul D a b = Some c" and "\<bar>val a\<bar> \<le> 1" and "\<bar>val b\<bar> \<le> 1"
  shows "\<bar>val c\<bar> \<le> 1"
proof -
  have "\<bar>val a * val b\<bar> \<le> 1" using mult_mono [OF assms(3,4)] by (simp add: abs_mult)
  then have "val a * val b \<le> 1" "- 1 \<le> val a * val b" by simp_all
  then show ?thesis
    using roundsD [OF faithfulD(10) [OF f] c, of "d_one D"] roundsD [OF faithfulD(10) [OF f] c, of "d_neg D (d_one D)"]
    by (simp add: faithfulD(4,6) [OF f])
qed

lemma unit_shift:
  assumes f: "faithful D val" and b: "d_mul D x mid = Some b" and "\<bar>val x\<bar> \<le> 1" and "0 \<le> val mid"
  shows "- val mid \<le> val b"
proof -
  have "- val mid \<le> val x * val mid" using mult_right_mono [of "- 1" "val x" "val mid"] assms(3,4) by simp
  then show ?thesis using roundsD(2) [OF faithfulD(10) [OF f] b, of "d_neg D mid"] by (simp add: faithfulD(6) [OF f])
qed

lemma try_sum_nonneg:
  assumes "faithful D val" and "try_sum D acc xs = Some t" and "0 \<le> val acc" and "\<forall>x \<in> set xs. 0 \<le> val x"
  shows "0 \<le> val t"
  using assms(2-4)
  by (induction xs arbitrary: acc) (auto simp: bind_eq_Some_conv intro: add_nonneg [OF assms(1)])

lemma balance_unit:
  assumes f: "faithful D val" and "0 \<le> val b" and "0 \<le> val a" and d: "d_sub D b a = Some d" and s: "d_add D b a = Some s"
    and q: "d_div D d s = Some q"
  shows "\<bar>val q\<bar> \<le> 1"
proof -
  have "val s \<noteq> 0" using q faithfulD(12) [OF f, of s d] by auto
  then have s0: "0 < val s" using add_nonneg [OF f s assms(2,3)] by simp
  have "val d \<le> val b" by (rule sub_le [OF f d assms(3)])
  moreover have "- val a \<le> val d"
    using roundsD(2) [OF faithfulD(9) [OF f] d, of "d_neg D a"] assms(2) by (simp add: faithfulD(6) [OF f])
  moreover have "val b \<le> val s" "val a \<le> val s" using add_ge [OF f s assms(3)] add_ge' [OF f s assms(2)] .
  ultimately have "val d / val s \<le> 1" "- 1 \<le> val d / val s" using s0 by (simp_all add: divide_le_eq le_divide_eq)
  then show ?thesis
    using roundsD [OF faithfulD(11) [OF f] q, of "d_one D"] roundsD [OF faithfulD(11) [OF f] q, of "d_neg D (d_one D)"]
    by (simp add: faithfulD(4,6) [OF f])
qed

text \<open>The imbalance of two books with positive sizes.\<close>

lemma obi_unit:
  assumes f: "faithful D val" and c: "compute_obi D bids asks depth = Some (Some q)"
    and "\<forall>x \<in> set bids. 0 \<le> val x" and "\<forall>x \<in> set asks. 0 \<le> val x"
  shows "\<bar>val q\<bar> \<le> 1"
proof -
  let ?n = "min (min depth (length bids)) (length asks)"
  obtain b a d s where b: "try_sum D (d_zero D) (take ?n bids) = Some b" and a: "try_sum D (d_zero D) (take ?n asks) = Some a"
    and s: "d_add D b a = Some s" and d: "d_sub D b a = Some d" and q: "d_div D d s = Some q"
    using c by (auto simp: compute_obi_def Let_def bind_eq_Some_conv split: if_splits)
  have "0 \<le> val b" "0 \<le> val a"
    using try_sum_nonneg [OF f b] try_sum_nonneg [OF f a] assms(3,4) by (auto simp: faithfulD(3) [OF f] dest: in_set_takeD)
  then show ?thesis by (rule balance_unit [OF f _ _ d s q])
qed

lemma extract_sizes_pos: "faithful D val \<Longrightarrow> \<forall>x \<in> set (extract_sizes D levels). 0 \<le> val x"
  by (auto simp: extract_sizes_def faithfulD(1,3))

lemma book_pressure_unit:
  assumes f: "faithful D val" and c: "book_pressure D b a = Some (Some q)"
  shows "\<bar>val q\<bar> \<le> 1"
proof -
  obtain d s where pos: "0 < val b" "0 < val a" and d: "d_sub D b a = Some d" and s: "d_add D b a = Some s" and q: "d_div D d s = Some q"
    using c by (auto simp: book_pressure_def bind_eq_Some_conv faithfulD(1,3) [OF f] split: if_splits)
  then show ?thesis using balance_unit [OF f _ _ d s q] by simp
qed

lemma plan_quotes_uncrossed:
  assumes f: "faithful D val" and "plan_quotes D mid bs as = Some (Some (bid, ask))"
  shows "d_ge D ask bid"
  using assms(2) below_above [OF f, of mid bs bid as ask]
  by (auto simp: plan_quotes_def bind_eq_Some_conv faithfulD(1,3) [OF f] split: if_splits)

lemma pmm_level_around:
  assumes f: "faithful D val" and l: "pmm_level_at D mid step sspread base skew inventory i = Some l"
    and "0 \<le> val mid" and "0 \<le> val step" and "0 \<le> val sspread" and i: "i < u64_max"
  shows "val (pl_bid_price l) \<le> val mid \<and> val mid \<le> val (pl_ask_price l)"
proof -
  obtain s where s: "pmm_spread D step sspread i = Some s"
    and b: "below D mid s = Some (pl_bid_price l)" and a: "above D mid s = Some (pl_ask_price l)"
    using l by (auto simp: pmm_level_at_def bind_eq_Some_conv)
  obtain x y z where x: "d_mul D step (d_u32 D (i + 1)) = Some x" and y: "d_mul D sspread (d_u32 D i) = Some y"
    and z: "d_add D (d_one D) y = Some z" and s': "d_mul D x z = Some s"
    using s by (auto simp: pmm_spread_def bind_eq_Some_conv)
  have "0 \<le> val x" using mul_nonneg [OF f x assms(4)] i by (simp add: u32_val [OF f])
  moreover have "0 \<le> val y" using mul_nonneg [OF f y assms(5)] i by (simp add: u32_val [OF f])
  then have "0 \<le> val z" using add_nonneg [OF f z] by (simp add: faithfulD(4) [OF f])
  ultimately have "0 \<le> val s" by (rule mul_nonneg [OF f s'])
  then show ?thesis using below_le [OF f b assms(3)] above_ge [OF f a assms(3)] by simp
qed

lemma collect_mapD: "collect_options (map g is) = Some ys \<Longrightarrow> y \<in> set ys \<Longrightarrow> \<exists>i \<in> set is. g i = Some y"
  by (induction "is" arbitrary: ys) (fastforce simp: bind_eq_Some_conv)+

lemma collect_uptD: "collect_options (map g [1..<Suc n]) = Some ys \<Longrightarrow> y \<in> set ys \<Longrightarrow> \<exists>i \<le> n. g i = Some y"
  using collect_mapD [of g "[1..<Suc n]" ys y] by (metis atLeastLessThan_iff less_Suc_eq_le set_upt)

lemma u32_level: "i < unat (n :: u32) \<Longrightarrow> Suc i < u64_max" "i \<le> unat (n :: u32) \<Longrightarrow> i \<le> u64_max"
  using unsigned_less [of n, where ?'a = nat] by (simp_all add: u64_max_def)

lemma plan_pmm_uncrossed:
  assumes f: "faithful D val" and p: "plan_pmm_levels D mid n step sspread base skew inventory = Some (Some levels)" and "0 \<le> val sspread"
  shows "uncrossed D (pmm_quotes levels)"
proof (rule uncrossed_around [OF f, of _ "val mid"])
  have pos: "0 \<le> val mid" "0 \<le> val step" and c: "collect_options (map (pmm_level_at D mid step sspread base skew inventory) [0..<unat n]) = Some levels"
    using p by (auto simp: plan_pmm_levels_def faithfulD(1,3) [OF f] split: if_splits)
  have "val (pl_bid_price l) \<le> val mid \<and> val mid \<le> val (pl_ask_price l)" if "l \<in> set levels" for l
    using collect_mapD [OF c that] pmm_level_around [OF f _ pos assms(3)] u32_level(1) [of _ n] by fastforce
  then show "if qu_is_buy q then val (qu_price q) \<le> val mid else val mid \<le> val (qu_price q)" if "q \<in> set (pmm_quotes levels)" for q
    using that by (auto simp: pmm_quotes_def two_sided_def)
qed

lemma plan_obi_uncrossed:
  assumes f: "faithful D val" and p: "plan_obi_quotes D mid obi h base w = Some (Some q)" and "\<bar>val obi\<bar> \<le> 1" and "\<bar>val w\<bar> \<le> 1"
  shows "d_ge D (oq_ask q) (oq_bid q)"
proof -
  have pos: "0 \<le> val mid" "0 \<le> val h" using p by (auto simp: plan_obi_quotes_def faithfulD(1,3) [OF f] split: if_splits)
  obtain fair where fair: "fair_price D mid obi w = Some fair" and b: "below D fair h = Some (oq_bid q)" and a: "above D fair h = Some (oq_ask q)"
    using p by (auto simp: plan_obi_quotes_def bind_eq_Some_conv split: if_splits)
  obtain x y where x: "d_mul D w obi = Some x" and y: "d_mul D x mid = Some y" and fr: "d_add D mid y = Some fair"
    using fair by (auto simp: fair_price_def bind_eq_Some_conv)
  have "- val mid \<le> val y" by (rule unit_shift [OF f y unit_mul [OF f x assms(4,3)] pos(1)])
  then have "0 \<le> val fair" using roundsD(2) [OF faithfulD(8) [OF f] fr, of "d_zero D"] by (simp add: faithfulD(3) [OF f])
  then show ?thesis using below_above [OF f b a _ pos(2) pos(2)] by simp
qed

lemma plan_queue_uncrossed:
  assumes f: "faithful D val" and p: "plan_queue_quotes D mid sig h w = Some (Some q)" and "\<bar>val sig\<bar> \<le> 1" and w: "0 \<le> val w"
  shows "d_ge D (qq_ask q) (qq_bid q)"
proof -
  obtain fair wb bh wa ah where pos: "0 < val mid" "0 \<le> val h" and fair: "above D mid sig = Some fair"
    and wb: "d_mul D w (d_max D sig (d_zero D)) = Some wb" and bh: "d_add D h wb = Some bh"
    and wa: "d_mul D w (d_max D (d_neg D sig) (d_zero D)) = Some wa" and ah: "d_add D h wa = Some ah"
    and b: "below D fair bh = Some (qq_bid q)" and a: "above D fair ah = Some (qq_ask q)"
    using p by (auto simp: plan_queue_quotes_def bind_eq_Some_conv faithfulD(1,3) [OF f] not_less split: if_splits)
  obtain y where y: "d_add D (d_one D) sig = Some y" "d_mul D mid y = Some fair" using fair by (auto simp: above_def bind_eq_Some_conv)
  have "0 \<le> val y" using roundsD(2) [OF faithfulD(8) [OF f] y(1), of "d_zero D"] assms(3) by (simp add: faithfulD(3,4) [OF f])
  then have "0 \<le> val fair" using mul_nonneg [OF f y(2)] pos(1) by simp
  moreover have "0 \<le> val bh" using add_nonneg [OF f bh pos(2) mul_nonneg [OF f wb w]] by (simp add: max_val [OF f] faithfulD(3) [OF f])
  moreover have "0 \<le> val ah" using add_nonneg [OF f ah pos(2) mul_nonneg [OF f wa w]] by (simp add: max_val [OF f] faithfulD(3) [OF f])
  ultimately show ?thesis by (rule below_above [OF f b a])
qed

lemma composite_unit:
  assumes f: "faithful D val" and c: "composite_signal D p None wp wi = Some c"
    and "pred_option (\<lambda>x. \<bar>val x\<bar> \<le> 1) p" and "\<bar>val wp\<bar> \<le> 1"
  shows "\<bar>val c\<bar> \<le> 1"
proof -
  obtain a b where a: "d_mul D wp (or_zero D p) = Some a" and b: "d_mul D wi (d_zero D) = Some b" and s: "d_add D a b = Some c"
    using c by (auto simp: composite_signal_def or_zero_def bind_eq_Some_conv)
  have "\<bar>val (or_zero D p)\<bar> \<le> 1" using assms(3) by (cases p) (simp_all add: or_zero_def faithfulD(3) [OF f])
  then have "\<bar>val a\<bar> \<le> 1" by (rule unit_mul [OF f a assms(4)])
  moreover have "val b = 0"
    using roundsD [OF faithfulD(10) [OF f] b, of "d_zero D"] by (simp add: faithfulD(3) [OF f])
  then have "val c = val a" using roundsD [OF faithfulD(8) [OF f] s, of a] by simp
  ultimately show ?thesis by simp
qed

lemma queue_signal_unit:
  assumes f: "faithful D val" and "book_pressure D b a = Some p" and "composite_signal D p None wp wi = Some c"
    and "d_mul D c alpha = Some sig" and "\<bar>val wp\<bar> \<le> 1" and "\<bar>val alpha\<bar> \<le> 1"
  shows "\<bar>val sig\<bar> \<le> 1"
proof -
  have "pred_option (\<lambda>x. \<bar>val x\<bar> \<le> 1) p" using book_pressure_unit [OF f, of b a] assms(2) by (cases p) auto
  then show ?thesis using unit_mul [OF f assms(4) composite_unit [OF f assms(3)]] assms(5,6) by simp
qed

lemma plan_sglft_uncrossed:
  assumes f: "faithful D val" and p: "plan_simplified_glft_quotes D mid inventory g sigma t v = Some (Some q)"
  shows "d_ge D (sq_ask q) (sq_bid q)"
proof -
  obtain h r where pos: "0 \<le> val sigma" "0 \<le> val v" and h: "d_mul D v sigma = Some h"
    and b: "d_sub D r h = Some (sq_bid q)" and a: "d_add D r h = Some (sq_ask q)"
    using p by (auto simp: plan_simplified_glft_quotes_def bind_eq_Some_conv faithfulD(1,3) [OF f] not_less split: if_splits)
  have "0 \<le> val h" by (rule mul_nonneg [OF f h pos(2,1)])
  then show ?thesis using sub_le [OF f b] add_ge [OF f a] by (simp add: ge_val [OF f])
qed

lemma clamp_unit_val: "faithful D val \<Longrightarrow> \<bar>val (clamp_unit D x)\<bar> \<le> 1"
  by (auto simp: clamp_unit_def faithfulD(1,4,6) not_less)

lemma plan_perp_uncrossed:
  assumes f: "faithful D val" and p: "plan_perp_quotes D mid h qty inventory limit rate threshold = Some (Some (q, skip))"
  shows "d_ge D (pq_ask q) (pq_bid q)"
proof -
  obtain x s bh ah where pos: "0 < val mid" "0 \<le> val h" and s: "d_mul D h (clamp_unit D x) = Some s"
    and bh: "d_add D h s = Some bh" and ah: "d_sub D h s = Some ah"
    and b: "below D mid bh = Some (pq_bid q)" and a: "above D mid ah = Some (pq_ask q)"
    using p by (auto simp: plan_perp_quotes_def bind_eq_Some_conv Let_def faithfulD(1,3) [OF f] not_less split: if_splits)
  have unit: "- 1 \<le> val (clamp_unit D x)" "val (clamp_unit D x) \<le> 1" using clamp_unit_val [OF f, of x] by (simp_all add: abs_le_iff)
  have "val s \<le> val h" by (rule mul_le_self [OF f s pos(2) unit(2)])
  then have "0 \<le> val ah" by (rule sub_nonneg [OF f ah])
  moreover have "- val h \<le> val h * val (clamp_unit D x)" using mult_left_mono [OF unit(1) pos(2)] by simp
  then have "- val h \<le> val s" using roundsD(2) [OF faithfulD(10) [OF f] s, of "d_neg D h"] by (simp add: faithfulD(6) [OF f])
  then have "0 \<le> val bh" using roundsD(2) [OF faithfulD(8) [OF f] bh, of "d_zero D"] by (simp add: faithfulD(3) [OF f])
  ultimately show ?thesis using below_above [OF f b a] pos(1) by simp
qed

lemma xemm_level_around:
  assumes f: "faithful D val" and l: "xemm_level D center mp step i = Some (bid, ask)"
    and pos: "0 \<le> val center" "0 \<le> val mp" "0 \<le> val step" and i: "i \<le> u64_max"
  shows "val bid \<le> val center \<and> val center \<le> val ask"
proof -
  obtain x m lo u hi where x: "d_mul D step (d_u32 D i) = Some x" and m: "d_sub D (d_one D) mp = Some m" and lo: "d_sub D m x = Some lo"
    and b: "d_mul D center (d_max D lo (d_zero D)) = Some bid" and u: "d_add D (d_one D) mp = Some u" and hi: "d_add D u x = Some hi"
    and a: "d_mul D center hi = Some ask"
    using l by (auto simp: xemm_level_def bind_eq_Some_conv)
  have x0: "0 \<le> val x" using mul_nonneg [OF f x pos(3)] by (simp add: u32_val [OF f i])
  have "val lo \<le> 1" using sub_le [OF f lo x0] sub_le [OF f m pos(2)] by (simp add: faithfulD(4) [OF f])
  moreover have "1 \<le> val hi" using add_ge [OF f hi x0] add_ge [OF f u pos(2)] by (simp add: faithfulD(4) [OF f])
  ultimately show ?thesis
    using mul_le_self [OF f b pos(1)] mul_ge_self [OF f a pos(1)] by (simp add: max_val [OF f] faithfulD(3) [OF f])
qed

lemma plan_xemm_uncrossed:
  assumes f: "faithful D val" and p: "plan_xemm_quotes D tb ta mp n step = Some (Some plan)" and "0 \<le> val step"
  shows "uncrossed D (xemm_side ''xemm-b-'' True qty (xp_bids plan) @ xemm_side ''xemm-a-'' False qty (xp_asks plan))"
proof (cases "xp_skip plan")
  case True
  then show ?thesis using p by (auto simp: plan_xemm_quotes_def bind_eq_Some_conv xemm_side_def uncrossed_def split: if_splits)
next
  case False
  then obtain center rungs where pos: "0 < val tb" "0 < val ta" "0 \<le> val mp" and c: "mid_price D tb ta = Some center"
    and r: "collect_options (map (xemm_level D center mp step) [1..<Suc (unat n)]) = Some rungs"
    and plan: "xp_bids plan = map fst rungs" "xp_asks plan = map snd rungs"
    using p by (auto simp: plan_xemm_quotes_def bind_eq_Some_conv faithfulD(1,3) [OF f] not_less split: if_splits)
  obtain s where s: "d_add D tb ta = Some s" "d_div D s (d_of_int D 2) = Some center" using c by (auto simp: mid_price_def bind_eq_Some_conv)
  have c0: "0 \<le> val center" using div_nonneg [OF f s(2) add_nonneg [OF f s(1)]] pos by (simp add: faithful_literal [OF f])
  have around: "val b \<le> val center \<and> val center \<le> val a" if ba: "(b, a) \<in> set rungs" for b a
  proof -
    obtain i where i: "i \<le> unat n" "xemm_level D center mp step i = Some (b, a)"
      using collect_uptD [OF r ba] by blast
    show ?thesis by (rule xemm_level_around [OF f i(2) c0 pos(3) assms(3) u32_level(2) [OF i(1)]])
  qed
  then have inside: "val (fst rung) \<le> val center" "val center \<le> val (snd rung)" if "rung \<in> set rungs" for rung
    using that by (cases rung; auto)+
  show ?thesis
    by (rule uncrossed_around [OF f, of _ "val center"])
       (auto simp: xemm_side_def plan in_set_enumerate_eq dest!: nth_mem intro: inside split: if_splits)
qed

lemma grid_strike_uncrossed: "faithful D val \<Longrightarrow> uncrossed D (grid_strike_quotes D mid qty prices)"
  by (rule uncrossed_around [of D val _ "val mid"]) (auto simp: grid_strike_quotes_def faithfulD(1))

lemma ladder_rung_around:
  assumes f: "faithful D val" and r: "ladder_rung D close bands step level = Some rung" and "(price, is_buy) \<in> set rung"
    and "0 \<le> val step" and i: "level \<le> u64_max"
  shows "if is_buy then val price \<le> val close else val close \<le> val price"
proof -
  obtain x b a where x: "d_mul D step (d_u32 D level) = Some x" and b: "d_sub D close x = Some b" and a: "d_add D close x = Some a"
    and p: "price = (if is_buy then b else a)"
    using r assms(3) by (auto simp: ladder_rung_def bind_eq_Some_conv split: if_splits)
  have "0 \<le> val x" using mul_nonneg [OF f x assms(4)] by (simp add: u32_val [OF f i])
  then show ?thesis using sub_le [OF f b] add_ge [OF f a] p by simp
qed

lemma plan_ladder_uncrossed:
  assumes f: "faithful D val" and p: "plan_ladder D close bands n = Some plan"
  shows "uncrossed D (ladder_quotes qty plan)"
proof (cases "plan = []")
  case False
  then obtain w step rungs where w: "0 < val w" and step: "d_div D w (d_u32 D (unat (saturating_succ n))) = Some step"
    and r: "collect_options (map (ladder_rung D close bands step) [1..<Suc (unat n)]) = Some rungs" and plan: "plan = concat rungs"
    using p by (auto simp: plan_ladder_def bind_eq_Some_conv faithfulD(1,3) [OF f] simp del: upt.simps split: if_splits)
  have "0 \<le> val (d_u32 D (unat (saturating_succ n)))"
    unfolding u32_val [OF f u32_level(2) [OF order_refl]] by (rule of_nat_0_le_iff)
  then have s0: "0 \<le> val step" using div_nonneg [OF f step] w by simp
  show ?thesis
  proof (rule uncrossed_around [OF f, of _ "val close"])
    fix q assume "q \<in> set (ladder_quotes qty plan)"
    then obtain rung where rung: "rung \<in> set rungs" "(qu_price q, qu_is_buy q) \<in> set rung" by (auto simp: ladder_quotes_def plan)
    obtain i where i: "i \<le> unat n" "ladder_rung D close bands step i = Some rung"
      using collect_uptD [OF r rung(1)] by blast
    show "if qu_is_buy q then val (qu_price q) \<le> val close else val close \<le> val (qu_price q)"
      by (rule ladder_rung_around [OF f i(2) rung(2) s0 u32_level(2) [OF i(1)]])
  qed
qed (simp add: ladder_quotes_def uncrossed_def)

section \<open>A venue that can be quoted on\<close>

text \<open>
  What a maker relies on: an accepted cancel of a symbol leaves nothing resting there, a refused
  one and a read bring nothing to life, and a create rests at most the order it was given.
\<close>

locale quoting_venue =
  fixes P :: "('v, 'm, 'd) strategy_ports" and ex :: exchange_id and symbol :: string and live :: "'v \<Rightarrow> resting_quote set"
  assumes cancel_sweeps: "strategy_cancel_all_orders (sp_gateway P) ex symbol v = (Inr ords, v') \<Longrightarrow> live v' = {}"
    and cancel_no_birth: "strategy_cancel_all_orders (sp_gateway P) ex symbol v = (Inl e, v') \<Longrightarrow> live v' \<subseteq> live v"
    and create_adds: "gw_create_order (sp_gateway P) v req = (r, v') \<Longrightarrow>
      live v' \<subseteq> live v \<union> {(or_side ord, or_price ord) |ord. cor_order req = Some ord \<and> or_symbol ord = symbol}"
    and ticker_read: "live (snd (mds_fetch_ticker (sp_market P) v x s)) \<subseteq> live v"
    and book_read: "live (snd (mds_fetch_order_book (sp_market P) v x s n)) \<subseteq> live v"
    and candles_read: "live (snd (mds_get_candles (sp_market P) v x s t n)) \<subseteq> live v"
begin

definition quiet :: "(('v, 'p) maker_state, 'a) poll \<Rightarrow> bool" where
  "quiet m \<longleftrightarrow> (\<forall>s. live (mk_venue (snd (m s))) \<subseteq> live (mk_venue s) \<and> mk_own (snd (m s)) = mk_own s)"

definition tidy :: "('p \<Rightarrow> bool) \<Rightarrow> (('v, 'p) maker_state, 'a) poll \<Rightarrow> bool" where
  "tidy K m \<longleftrightarrow> (\<forall>s. K (mk_own s) \<longrightarrow> tidy_book (sp_decimal P) (live (mk_venue s)) \<longrightarrow>
     K (mk_own (snd (m s))) \<and> tidy_book (sp_decimal P) (live (mk_venue (snd (m s)))))"

definition fills :: "(('v, 'p) maker_state, 'a) poll \<Rightarrow> bool" where
  "fills m \<longleftrightarrow> (\<forall>s. live (mk_venue s) = {} \<longrightarrow>
     mk_own (snd (m s)) = mk_own s \<and> tidy_book (sp_decimal P) (live (mk_venue (snd (m s)))))"

lemma quiet_reads:
  "quiet poll_own" "quiet poll_done" "quiet (poll_fail e)" "quiet (poll_pure x)" "quiet (\<lambda>s. (y, s))"
  "(\<And>v. live (snd (call v)) \<subseteq> live v) \<Longrightarrow> quiet (poll_call call)"
  "(\<And>v. live (snd (call v)) \<subseteq> live v) \<Longrightarrow> quiet (poll_try call)"
  by (simp_all add: quiet_def poll_own_def poll_done_def poll_fail_def poll_pure_def poll_call_def poll_try_def Let_def case_prod_beta)

lemma quiet_bind: "quiet m \<Longrightarrow> (\<And>a. quiet (f a)) \<Longrightarrow> quiet (poll_bind m f)"
  unfolding quiet_def
  by (intro allI poll_bind_preserves [where R = "\<lambda>s s'. live (mk_venue s') \<subseteq> live (mk_venue s) \<and> mk_own s' = mk_own s"])
     (blast, blast, auto)

lemma quiet_last [intro]: "quiet (read_last P e s message)"
  unfolding read_last_def by (intro quiet_bind quiet_reads ticker_read)

lemma quiet_book [intro]: "quiet (read_book P e s n)"
  unfolding read_book_def by (intro quiet_reads book_read)

lemma tidy_quiet: "quiet m \<Longrightarrow> tidy K m"
  unfolding quiet_def tidy_def by (auto intro: tidy_subset)

lemma tidy_done [intro, simp]: "tidy K poll_done" "tidy K (poll_fail e)"
  by (intro tidy_quiet quiet_reads)+

text \<open>A read in front of a poll; what it answered may be used for the rest.\<close>

lemma tidy_bind:
  assumes "quiet m" and "\<And>s a. fst (m s) = Some (Inr a) \<Longrightarrow> K (mk_own s) \<Longrightarrow> tidy K (f a)"
  shows "tidy K (poll_bind m f)"
  unfolding tidy_def
proof (intro allI impI)
  fix s :: "('v, 'a) maker_state"
  assume K: "K (mk_own s)" and t: "tidy_book (sp_decimal P) (live (mk_venue s))"
  obtain r s' where m: "m s = (r, s')" by fastforce
  have q: "live (mk_venue s') \<subseteq> live (mk_venue s)" "mk_own s' = mk_own s" using assms(1) m unfolding quiet_def by (metis snd_conv)+
  have t': "tidy_book (sp_decimal P) (live (mk_venue s'))" using t q(1) by (rule tidy_subset)
  show "K (mk_own (snd (poll_bind m f s))) \<and> tidy_book (sp_decimal P) (live (mk_venue (snd (poll_bind m f s))))"
  proof (cases "\<exists>a. r = Some (Inr a)")
    case True
    then obtain a where r: "r = Some (Inr a)" by blast
    have "tidy K (f a)" using assms(2) [of s a] K m r by simp
    then show ?thesis using K t' q(2) m r by (simp add: tidy_def poll_bind_def)
  next
    case False
    then show ?thesis using K t' q(2) m by (auto simp: poll_bind_def split: option.splits sum.splits)
  qed
qed

lemma tidy_last:
  assumes "\<And>p. d_gt (sp_decimal P) p (d_zero (sp_decimal P)) \<Longrightarrow> tidy K (f p)"
  shows "tidy K (poll_bind (read_last P e s message) f)"
proof (rule tidy_bind [OF quiet_last])
  show "fst (read_last P e s message st) = Some (Inr p) \<Longrightarrow> tidy K (f p)" for st :: "('v, 'a) maker_state" and p
    by (auto intro!: assms simp: read_last_def poll_bind_def poll_call_def positive_last_def
        split: prod.splits option.splits sum.splits if_splits)
qed

lemma tidy_own: "(\<And>p. K p \<Longrightarrow> tidy K (f p)) \<Longrightarrow> tidy K (poll_bind poll_own f)"
  by (rule tidy_bind [OF quiet_reads(1)]) (simp add: poll_own_def)

lemma tidy_pure: "(\<And>a. x = Some a \<Longrightarrow> tidy K (f a)) \<Longrightarrow> tidy K (poll_bind (poll_pure x) f)"
  by (rule tidy_bind [OF quiet_reads(4)]) (simp add: poll_pure_def)

lemma tidy_read: "quiet m \<Longrightarrow> (\<And>a. tidy K (f a)) \<Longrightarrow> tidy K (poll_bind m f)"
  by (rule tidy_bind)

lemma tidy_set: "K p \<Longrightarrow> tidy K (poll_set p)"
  by (simp add: tidy_def poll_set_def)

lemma tidy_seq:
  assumes "tidy K m" and "\<And>a. tidy K (f a)"
  shows "tidy K (poll_bind m f)"
  using assms by (auto simp: tidy_def poll_bind_def split: prod.splits option.splits sum.splits)

lemma placed_quote:
  "place_quote P ex symbol q s = (r, s') \<Longrightarrow>
     live (mk_venue s') \<subseteq> insert (on_wire (sp_decimal P) q) (live (mk_venue s)) \<and> mk_own s' = mk_own s"
  by (auto simp: place_quote_def quote_request_def limit_order_def strategy_order_request_def on_wire_def
      split: prod.splits dest!: create_adds)

lemma placed_quotes:
  "live (mk_venue (snd (place_quotes P ex symbol qs s))) \<subseteq> quoted (sp_decimal P) qs \<union> live (mk_venue s)
     \<and> mk_own (snd (place_quotes P ex symbol qs s)) = mk_own s"
proof (induction qs arbitrary: s)
  case (Cons q qs)
  obtain r s' where p: "place_quote P ex symbol q s = (r, s')" by fastforce
  show ?case using placed_quote [OF p] Cons [of s'] p
    by (auto simp: poll_bind_def split: option.splits sum.splits)
qed (simp add: poll_done_def)

lemma placed_strictly:
  "live (mk_venue (snd (place_strictly P ex symbol qs s))) \<subseteq> quoted (sp_decimal P) qs \<union> live (mk_venue s)
     \<and> mk_own (snd (place_strictly P ex symbol qs s)) = mk_own s"
proof (induction qs arbitrary: s)
  case (Cons q qs)
  obtain r s' where p: "place_quote P ex symbol q s = (r, s')" by fastforce
  show ?case using placed_quote [OF p] Cons [of s'] p
    by (auto simp: poll_bind_def poll_fail_def split: option.splits sum.splits)
qed (simp add: poll_done_def)

lemma fills_quotes: "uncrossed (sp_decimal P) qs \<Longrightarrow> fills (place_quotes P ex symbol qs)"
  using placed_quotes [of qs] unfolding fills_def tidy_book_def by (metis Un_empty_right)

lemma fills_strictly: "uncrossed (sp_decimal P) qs \<Longrightarrow> fills (place_strictly P ex symbol qs)"
  using placed_strictly [of qs] unfolding fills_def tidy_book_def by (metis Un_empty_right)

lemma fills_pure: "(\<And>a. x = Some a \<Longrightarrow> fills (f a)) \<Longrightarrow> fills (poll_bind (poll_pure x) f)"
  by (cases x) (auto simp: fills_def poll_bind_def poll_pure_def)

text \<open>Quotes are only placed where the cancel in front of them was accepted.\<close>

lemma tidy_sweep:
  assumes "\<And>a. fills (f a)"
  shows "tidy K (poll_bind (cancel_quotes P ex symbol) f)"
  unfolding tidy_def
proof (intro allI impI)
  fix s :: "('v, 'a) maker_state"
  assume K: "K (mk_own s)" and t: "tidy_book (sp_decimal P) (live (mk_venue s))"
  obtain r v where c: "strategy_cancel_all_orders (sp_gateway P) ex symbol (mk_venue s) = (r, v)" by fastforce
  show "K (mk_own (snd (poll_bind (cancel_quotes P ex symbol) f s)))
    \<and> tidy_book (sp_decimal P) (live (mk_venue (snd (poll_bind (cancel_quotes P ex symbol) f s))))"
  proof (cases r)
    case (Inl e)
    then show ?thesis using K t c cancel_no_birth [of "mk_venue s" e v] by (auto simp: poll_bind_def cancel_quotes_def poll_call_def intro: tidy_subset)
  next
    case (Inr ords)
    then show ?thesis using K c cancel_sweeps [of "mk_venue s" ords v] assms [of ords]
      by (auto simp: poll_bind_def cancel_quotes_def poll_call_def fills_def)
  qed
qed

lemma tidy_requote: "uncrossed (sp_decimal P) qs \<Longrightarrow> tidy K (requote P ex symbol qs)"
  unfolding requote_def by (intro tidy_sweep fills_quotes)

end

section \<open>Makers that replace their quotes\<close>

definition withdraws :: "('v \<Rightarrow> resting_quote set) \<Rightarrow> ('v, 'p) maker_state \<Rightarrow> ('v, 'p) maker_state \<Rightarrow> bool" where
  "withdraws live s s' \<longleftrightarrow> live (mk_venue s') \<subseteq> live (mk_venue s) \<and> mk_own s' = mk_own s \<and> mk_ulids s' = mk_ulids s"

text \<open>From an empty book, polls at any time and fills in between never leave crossed quotes.\<close>

definition never_crosses ::
  "('v, 'm, 'd) strategy_ports \<Rightarrow> ('v \<Rightarrow> resting_quote set) \<Rightarrow> (u64 \<Rightarrow> (('v, 'p) maker_state, unit) poll) \<Rightarrow> 'p \<Rightarrow> bool" where
  "never_crosses P live tick own \<longleftrightarrow> (\<forall>v n s. live v = {} \<longrightarrow>
     reach (\<lambda>s. s = maker_start own v n) (poll_move tick (withdraws live)) s \<longrightarrow> tidy_book (sp_decimal P) (live (mk_venue s)))"

context quoting_venue
begin

lemma tidy_maker:
  assumes "\<And>now. tidy K (tick now)" and "K own"
  shows "never_crosses P live tick own"
  unfolding never_crosses_def
proof (intro allI impI)
  fix v n s
  assume v: "live v = {}" and r: "reach (\<lambda>s. s = maker_start own v n) (poll_move tick (withdraws live)) s"
  from r have "K (mk_own s) \<and> tidy_book (sp_decimal P) (live (mk_venue s))"
  proof (induction rule: reach.induct)
    case (reach_init s)
    then show ?case using assms(2) v by (simp add: maker_start_def)
  next
    case (reach_step s t)
    from reach_step.hyps(2) show ?case
    proof (cases rule: poll_move.cases)
      case (Tick now r)
      then show ?thesis using assms(1) [of now] reach_step.IH by (metis snd_conv tidy_def)
    next
      case World
      then show ?thesis using reach_step.IH by (auto simp: withdraws_def intro: tidy_subset)
    qed
  qed
  then show "tidy_book (sp_decimal P) (live (mk_venue s))" by simp
qed

lemma fixed_maker_tidy:
  assumes "faithful (sp_decimal P) val" and "proto_exchange_id (fx_common cfg) = ex" "cp_symbol (fx_common cfg) = symbol"
  shows "tidy K (fixed_maker_tick P cfg now)"
  unfolding fixed_maker_tick_def Let_def assms(2,3)
  by (intro tidy_last tidy_pure) (auto split: option.split intro!: tidy_requote plan_quotes_uncrossed [OF assms(1)])

lemma pmm_tidy:
  assumes f: "faithful (sp_decimal P) val" and "0 \<le> val (pmm_order_size_spread cfg)"
    and "proto_exchange_id (pmm_common cfg) = ex" "cp_symbol (pmm_common cfg) = symbol"
  shows "tidy (\<lambda>_. True) (pmm_tick P cfg now)"
proof -
  have "tidy (\<lambda>_. True) (case plan of None \<Rightarrow> poll_done
      | Some levels \<Rightarrow> poll_bind (requote P ex symbol (pmm_quotes levels)) (\<lambda>_. poll_set own))"
    if "plan_pmm_levels (sp_decimal P) mid n step (pmm_order_size_spread cfg) base skew inventory = Some plan"
    for plan mid n step base skew inventory and own :: "'c pmm_state"
    using that plan_pmm_uncrossed [OF f _ assms(2)] by (auto split: option.split intro!: tidy_seq tidy_requote tidy_set)
  then show ?thesis unfolding pmm_tick_def Let_def assms(3,4)
    by (intro tidy_last tidy_own tidy_pure) (auto intro!: tidy_set tidy_pure)
qed

lemma obi_tidy:
  assumes f: "faithful (sp_decimal P) val" and "\<bar>val (obi_signal_weight cfg)\<bar> \<le> 1"
    and "proto_exchange_id (obi_common cfg) = ex" "cp_symbol (obi_common cfg) = symbol"
  shows "tidy K (obi_tick P cfg now)"
  unfolding obi_tick_def Let_def assms(3,4)
  by (intro tidy_last tidy_read [OF quiet_book] tidy_pure)
     (auto split: option.split intro!: tidy_pure tidy_requote plan_obi_uncrossed [OF f] obi_unit [OF f] assms(2) extract_sizes_pos [OF f])

lemma queue_tidy:
  assumes f: "faithful (sp_decimal P) val" and w: "\<bar>val (qm_w_pressure cfg)\<bar> \<le> 1" "\<bar>val (qm_alpha cfg)\<bar> \<le> 1" "0 \<le> val (qm_spread_widen cfg)"
    and "proto_exchange_id (qm_common cfg) = ex" "cp_symbol (qm_common cfg) = symbol"
  shows "tidy (\<lambda>i. ti_signed_volumes i = []) (queue_tick P cfg now)"
  unfolding queue_tick_def Let_def assms(5,6)
  by (intro tidy_last tidy_read [OF quiet_book] tidy_own tidy_pure)
     (auto simp: bind_eq_Some_conv impulse_normalised_def split: option.split
       intro!: tidy_requote plan_queue_uncrossed [OF f _ queue_signal_unit [OF f _ _ _ w(1,2)] w(3)])

lemma pmm_dynamic_tidy:
  assumes f: "faithful (sp_decimal P) val"
    and "proto_exchange_id (pd_common cfg) = ex" "cp_symbol (pd_common cfg) = symbol"
  shows "tidy (\<lambda>_. True) (pmm_dynamic_tick P cfg now)"
  unfolding pmm_dynamic_tick_def Let_def assms(2,3)
  by (intro tidy_last tidy_own tidy_pure tidy_seq [OF tidy_set])
     (auto split: option.split intro!: tidy_pure tidy_requote simp: ge_val [OF f])

lemma glft_tidy:
  assumes f: "faithful (sp_decimal P) val"
    and "proto_exchange_id (gl_common cfg) = ex" "cp_symbol (gl_common cfg) = symbol"
  shows "tidy (\<lambda>_. True) (glft_tick P logs cfg now)"
  unfolding glft_tick_def Let_def assms(2,3)
  by (intro tidy_last tidy_own tidy_pure tidy_seq [OF tidy_set])
     (auto split: option.splits if_splits intro!: tidy_requote simp: ge_val [OF f] plan_glft_quotes_def bind_eq_Some_conv)

lemma quiet_fair_mid [intro]: "quiet (fair_mid P cfg)"
  unfolding fair_mid_def Let_def by (intro quiet_bind quiet_reads ticker_read book_read)

lemma sglft_tidy:
  assumes f: "faithful (sp_decimal P) val"
    and "proto_exchange_id (sf_common cfg) = ex" "cp_symbol (sf_common cfg) = symbol"
  shows "tidy (\<lambda>_. True) (sglft_tick P cfg now)"
proof -
  have "tidy (\<lambda>_. True) (case plan of None \<Rightarrow> poll_done
      | Some q \<Rightarrow> requote P ex symbol (two_sided tag (sq_bid q) (sq_ask q) qty qty))"
    if "plan_simplified_glft_quotes (sp_decimal P) mid inventory g sigma t v = Some plan" for plan mid inventory g sigma t v tag qty
    using that by (auto split: option.split intro!: tidy_requote plan_sglft_uncrossed [OF f])
  then show ?thesis unfolding sglft_tick_def Let_def assms(2,3)
    by (intro tidy_read [OF quiet_fair_mid]) (auto intro!: tidy_own tidy_pure tidy_seq [OF tidy_set])
qed

lemma avellaneda_tidy:
  assumes f: "faithful (sp_decimal P) val"
    and "proto_exchange_id (av_common cfg) = ex" "cp_symbol (av_common cfg) = symbol"
  shows "tidy (\<lambda>_. True) (avellaneda_tick P logs cfg now)"
  unfolding avellaneda_tick_def Let_def assms(2,3)
  by (intro tidy_last tidy_own tidy_pure tidy_seq [OF tidy_set])
     (auto split: option.split intro!: tidy_pure tidy_requote simp: ge_val [OF f])

lemma perp_tidy:
  assumes f: "faithful (sp_decimal P) val" and fund: "\<And>v x s. live (snd (fs_fetch_funding_rate funding v x s)) \<subseteq> live v"
    and "proto_exchange_id (pp_common cfg) = ex" "pp_perp_symbol cfg = symbol"
  shows "tidy K (perp_tick P funding cfg now)"
proof -
  have "quiet (current_funding_rate P funding cfg)"
    unfolding current_funding_rate_def by (intro quiet_bind quiet_reads fund)
  then show ?thesis unfolding perp_tick_def Let_def assms(3,4)
    by (intro tidy_last tidy_read tidy_own tidy_pure)
       (auto split: option.split intro!: tidy_requote plan_perp_uncrossed [OF f])
qed

lemma xemm_tidy:
  assumes f: "faithful (sp_decimal P) val" and "0 \<le> val (xe_step_size cfg)"
    and "venue_proto (xv_primary (xe_venues cfg)) = ex" "xv_symbol (xe_venues cfg) = symbol"
  shows "tidy K (xemm_tick P cfg now)"
proof -
  have "quiet (fetch_taker_best P cfg)"
    unfolding fetch_taker_best_def Let_def by (intro quiet_bind quiet_book) (auto split: option.split intro: quiet_reads)
  then show ?thesis unfolding xemm_tick_def Let_def assms(3,4)
    by (intro tidy_read) (auto split: option.split intro!: tidy_pure tidy_requote plan_xemm_uncrossed [OF f _ assms(2)])
qed

lemma grid_strike_tidy:
  assumes f: "faithful (sp_decimal P) val"
    and "proto_exchange_id (gk_common cfg) = ex" "cp_symbol (gk_common cfg) = symbol"
  shows "tidy K (grid_strike_tick P cfg now)"
  unfolding grid_strike_tick_def Let_def assms(2,3)
  by (intro tidy_last tidy_pure) (auto split: option.split intro!: tidy_requote grid_strike_uncrossed [OF f])

lemma boll_grid_tidy:
  assumes f: "faithful (sp_decimal P) val"
    and "proto_exchange_id (bg_common cfg) = ex" "cp_symbol (bg_common cfg) = symbol"
  shows "tidy K (boll_grid_tick P cfg now)"
proof -
  have "quiet (poll_call (fetch_candles (sp_market P) e s tf n) :: (('v, 'p) maker_state, candle list) poll)" for e s tf n
    by (rule quiet_reads) (auto simp: fetch_candles_def split: sum.split dest: candles_read [THEN subsetD])
  then show ?thesis unfolding boll_grid_tick_def Let_def assms(2,3)
    by (intro tidy_read tidy_pure)
       (auto split: option.split intro!: tidy_sweep fills_pure fills_strictly plan_ladder_uncrossed [OF f])
qed

end

section \<open>The mock venue can be quoted on\<close>

text \<open>The market reads of the mock; a read whose task panics is the transport failure its caller sees.\<close>

definition mock_market :: "'d decimal_api \<Rightarrow> int \<Rightarrow> 'd mock_state market_data_source" where
  "mock_market D sys =
     \<lparr>mds_fetch_ticker = (\<lambda>v ex s. (Inr (mock_fetch_ticker D sys v s), v)),
      mds_fetch_order_book = (\<lambda>v ex s n. (case mock_fetch_order_book D sys v s (Some n) of
         None \<Rightarrow> Inl task_panicked | Some book \<Rightarrow> Inr book, v)),
      mds_get_candles = (\<lambda>v ex s t n. (Inr (mock_get_candles D sys v (Some n)), v))\<rparr>"

definition mock_ports :: "'d decimal_api \<Rightarrow> int \<Rightarrow> (nat \<Rightarrow> string) \<Rightarrow> ('d mock_state, mock_message, 'd) strategy_ports" where
  "mock_ports D sys ulid =
     \<lparr>sp_gateway = mock_gateway D sys, sp_market = mock_market D sys, sp_decimal = D, sp_ulid = ulid\<rparr>"

lemma mock_ports_simps [simp]:
  "sp_gateway (mock_ports D sys ulid) = mock_gateway D sys" "sp_market (mock_ports D sys ulid) = mock_market D sys"
  "sp_decimal (mock_ports D sys ulid) = D" "sp_ulid (mock_ports D sys ulid) = ulid"
  by (simp_all add: mock_ports_def)

definition mock_live :: "string \<Rightarrow> 'd mock_state \<Rightarrow> resting_quote set" where
  "mock_live symbol v = (\<lambda>ord. (o_side ord, o_price ord)) ` {ord \<in> set (ms_orders v). is_open ord \<and> o_symbol ord = symbol}"

lemma mock_create_live:
  assumes "mock_create_order D sys v req = (r, v')"
  shows "mock_live symbol v' \<subseteq> mock_live symbol v \<union> {(or_side ord, or_price ord) |ord. cor_order req = Some ord \<and> or_symbol ord = symbol}"
  using assms by (auto simp: mock_create_order_def mock_live_def Let_def mock_order_def split: if_splits option.splits)

interpretation mock_quoting: quoting_venue "mock_ports D sys ulid" ex symbol "mock_live symbol"
proof
  show "strategy_cancel_all_orders (sp_gateway (mock_ports D sys ulid)) ex symbol v = (Inr ords, v') \<Longrightarrow> mock_live symbol v' = {}" for v ords v'
    by (auto simp: strategy_cancel_all_orders_def mock_gateway_def mock_cancel_all_orders_def Let_def mock_live_def symbol_matches_def)
  show "strategy_cancel_all_orders (sp_gateway (mock_ports D sys ulid)) ex symbol v = (Inl e, v') \<Longrightarrow> mock_live symbol v' \<subseteq> mock_live symbol v" for v e v'
    by (auto simp: strategy_cancel_all_orders_def mock_gateway_def mock_cancel_all_orders_def Let_def)
  show "gw_create_order (sp_gateway (mock_ports D sys ulid)) v req = (r, v') \<Longrightarrow>
      mock_live symbol v' \<subseteq> mock_live symbol v \<union> {(or_side ord, or_price ord) |ord. cor_order req = Some ord \<and> or_symbol ord = symbol}"
    for v req r v' using mock_create_live by (simp add: mock_gateway_def)
qed (simp_all add: mock_market_def)

section \<open>No maker crosses itself\<close>


definition demo_venues :: cross_venue_params where
  "demo_venues = \<lparr>xv_primary = \<lparr>vr_exchange_id = ''mock'', vr_label = ''''\<rparr>, xv_hedge = \<lparr>vr_exchange_id = ''hedge'', vr_label = ''''\<rparr>,
     xv_symbol = ''MOCK-USDT'', xv_poll_secs = 30\<rparr>"


section \<open>Makers that never withdraw\<close>

definition keeps_resting :: "string \<Rightarrow> (('d mock_state, 'p) maker_state, 'a) poll \<Rightarrow> bool" where
  "keeps_resting symbol m \<longleftrightarrow> (\<forall>s. mock_live symbol (mk_venue s) \<subseteq> mock_live symbol (mk_venue (snd (m s))))"

lemma keeps_bind: "keeps_resting symbol m \<Longrightarrow> (\<And>a. keeps_resting symbol (f a)) \<Longrightarrow> keeps_resting symbol (poll_bind m f)"
  unfolding keeps_resting_def
  by (intro allI poll_bind_preserves [where R = "\<lambda>s s'. mock_live symbol (mk_venue s) \<subseteq> mock_live symbol (mk_venue s')"])
     (blast, blast, auto)

lemma keeps_reads:
  "keeps_resting symbol poll_own" "keeps_resting symbol poll_done" "keeps_resting symbol (poll_fail e)"
  "keeps_resting symbol (poll_pure x)" "keeps_resting symbol (\<lambda>s. (y, s))"
  "(\<And>v. snd (call v) = v) \<Longrightarrow> keeps_resting symbol (poll_call call)"
  by (simp_all add: keeps_resting_def poll_own_def poll_done_def poll_fail_def poll_pure_def poll_call_def Let_def case_prod_beta)

lemma mock_create_keeps: "mock_live symbol v \<subseteq> mock_live symbol (snd (mock_create_order D sys v req))"
  by (auto simp: mock_create_order_def mock_live_def Let_def split: option.split)

lemma keeps_quote: "keeps_resting symbol (place_quote (mock_ports D sys ulid) ex s q)"
  by (simp add: keeps_resting_def place_quote_def mock_gateway_def case_prod_beta Let_def mock_create_keeps)

lemma keeps_quotes: "keeps_resting symbol (place_quotes (mock_ports D sys ulid) ex s qs)"
  by (induction qs) (auto intro: keeps_bind keeps_quote keeps_reads)

lemma keeps_strictly: "keeps_resting symbol (place_strictly (mock_ports D sys ulid) ex s qs)"
  by (induction qs) (auto intro!: keeps_bind keeps_quote keeps_reads split: sum.split)

lemma keeps_hedge: "keeps_resting symbol (send_hedge (mock_ports D sys ulid) ex s tag is_buy qty)"
  by (simp add: keeps_resting_def send_hedge_def mock_gateway_def case_prod_beta Let_def mock_create_keeps)

lemma keeps_market:
  "keeps_resting symbol (read_last (mock_ports D sys ulid) ex s message)"
  "keeps_resting symbol (read_book (mock_ports D sys ulid) ex s n)"
  unfolding read_last_def read_book_def by (intro keeps_bind keeps_reads; simp add: mock_market_def)+

text \<open>
  The cross-venue makers (fixed, inventory skewed, depth) never withdraw a quote: whatever rested on
  the venue before a poll rests there after it, so each poll that finds a new price leaves the
  quotes for every earlier price standing, bids above the new asks included.
\<close>

theorem cross_makers_never_withdraw:
  "mock_live symbol (mk_venue s) \<subseteq> mock_live symbol (mk_venue (snd (cross_fixed_tick (mock_ports D sys ulid) xf now s)))
   \<and> mock_live symbol (mk_venue t) \<subseteq> mock_live symbol (mk_venue (snd (cross_maker_tick (mock_ports D sys ulid) xm now t)))
   \<and> mock_live symbol (mk_venue s) \<subseteq> mock_live symbol (mk_venue (snd (cross_depth_tick (mock_ports D sys ulid) xd now s)))"
proof (intro conjI)
  have "keeps_resting symbol (cross_fixed_tick (mock_ports D sys ulid) xf now)"
    unfolding cross_fixed_tick_def Let_def
    by (intro keeps_bind keeps_market keeps_reads keeps_quotes) (simp_all add: mock_gateway_def mock_fetch_open_orders_def keeps_hedge keeps_reads)
  then show "mock_live symbol (mk_venue s) \<subseteq> mock_live symbol (mk_venue (snd (cross_fixed_tick (mock_ports D sys ulid) xf now s)))"
    by (simp add: keeps_resting_def)
  have "keeps_resting symbol (cross_maker_tick (mock_ports D sys ulid) xm now)"
    unfolding cross_maker_tick_def Let_def
    by (intro keeps_bind keeps_reads) (auto simp: mock_market_def intro!: keeps_bind keeps_reads keeps_quotes)
  then show "mock_live symbol (mk_venue t) \<subseteq> mock_live symbol (mk_venue (snd (cross_maker_tick (mock_ports D sys ulid) xm now t)))"
    by (simp add: keeps_resting_def)
  have "keeps_resting symbol (cross_depth_tick (mock_ports D sys ulid) xd now)"
    unfolding cross_depth_tick_def hedge_mid_def Let_def
    by (intro keeps_bind keeps_market keeps_reads keeps_strictly) (auto intro: keeps_reads split: option.split)
  then show "mock_live symbol (mk_venue s) \<subseteq> mock_live symbol (mk_venue (snd (cross_depth_tick (mock_ports D sys ulid) xd now s)))"
    by (simp add: keeps_resting_def)
qed

section \<open>A hedge that adds to the exposure\<close>

text \<open>
  When more asks than bids of the cross fixed maker rest on the primary venue, that is when its
  bid was filled and it holds the bought amount, a poll that reads the market and plans its quotes ends with a market
  order on the hedge venue that buys the same amount again, where the comment in front of it says
  sell.
\<close>

theorem cross_fixed_hedge_adds_exposure:
  assumes "read_last (recording_ports P) (venue_proto (xv_hedge (xf_venues cfg))) (xv_symbol (xf_venues cfg)) ''no usable ticker price'' s
      = (Some (Inr fair), s1)"
    and "gw_fetch_open_orders (recording (sp_gateway P)) (mk_venue s1)
      \<lparr>foo_exchange_id = Some (venue_proto (xv_primary (xf_venues cfg))), foo_symbol = xv_symbol (xf_venues cfg)\<rparr> = (Inr open_orders, v2)"
    and "below (sp_decimal P) fair (xf_spread cfg) = Some bid" and "above (sp_decimal P) fair (xf_spread cfg) = Some ask"
    and "resting_on_side Sell open_orders > resting_on_side Buy open_orders"
  shows "\<exists>n. last (snd (mk_venue (snd (cross_fixed_tick (recording_ports P) cfg now s)))) =
      market_order (sp_decimal P) (venue_proto (xv_hedge (xf_venues cfg))) (xv_symbol (xf_venues cfg)) (''xfm-hedge-'' @ sp_ulid P n) True (xf_qty cfg)"
proof -
  have ok: "fst (place_quotes Q x y qs st) = Some (Inr ())" for Q x y qs and st :: "('z, unit) maker_state"
    by (induction qs arbitrary: st) (auto simp: poll_done_def poll_bind_def place_quote_def split: prod.splits)
  show ?thesis
    using assms ok [of "recording_ports P"]
    by (auto simp: cross_fixed_tick_def Let_def poll_bind_def poll_call_def poll_pure_def send_hedge_def hedge_buy_def case_prod_beta
        intro!: exI split: prod.splits option.splits sum.splits simp del: place_quotes.simps)
qed

definition demo_cross :: "rat cross_fixed_config" where
  "demo_cross = \<lparr>xf_venues = demo_venues, xf_spread = 1 / 500, xf_qty = 1\<rparr>"

text \<open>The primary venue after the bid was filled: only the ask rests.\<close>

definition demo_half_filled :: "rat mock_state" where
  "demo_half_filled = (mock_new demo_decimal 100)\<lparr>ms_orders := [mock_order demo_decimal 0 ''mock-1''
     \<lparr>or_client_order_id = ''xfm-1'', or_symbol = ''MOCK-USDT'', or_type = Known Limit, or_side = Known Sell,
      or_amount = Some ''1'', or_price = Some ''101'', or_time_in_force = Known Gtc, or_post_only = False, or_reduce_only = False\<rparr>]\<rparr>"

lemma demo_ticker_read:
  "read_last (recording_ports demo_ports) ex symbol message s = (Some (Inr 100), s)"
proof -
  have "positive_last demo_decimal message \<lparr>tk_header = None, tk_symbol = symbol, tk_timestamp = None, tk_bid = None,
        tk_ask = None, tk_last = Some ''100'', tk_close = None\<rparr> = Inr 100"
    using demo_reads by (simp add: positive_last_def demo_decimal_def rat_api_def)
  then show ?thesis
    by (cases "mk_venue s") (simp add: read_last_def poll_bind_def poll_call_def recording_market_def demo_ports_def demo_market_def)
qed

theorem cross_fixed_hedge_adds_exposure_witness:
  "\<exists>n. last (snd (mk_venue (snd (cross_fixed_tick (recording_ports demo_ports) demo_cross 0 (maker_start () (demo_half_filled, []) 0)))))
     = market_order demo_decimal (mk_exchange_id ''hedge'' '''') ''MOCK-USDT'' (''xfm-hedge-'' @ nat_to_string n) True 1"
  using cross_fixed_hedge_adds_exposure [of demo_ports demo_cross "maker_start () (demo_half_filled, []) 0" 100
      "maker_start () (demo_half_filled, []) 0" "ms_orders demo_half_filled" "(demo_half_filled, [])" "499 / 5" "501 / 5" 0]
  by (simp add: demo_ticker_read)
     (simp add: demo_ports_def recording_def maker_start_def mock_gateway_def mock_fetch_open_orders_def demo_half_filled_def
       mock_order_def symbol_matches_def is_open_def below_def above_def demo_decimal_def rat_api_def demo_cross_def demo_venues_def
       resting_on_side_def venue_proto_def)

section \<open>Funding skews the wrong side\<close>

text \<open>
  When funding is positive and reaches the threshold, so that longs pay, and the maker is not
  long, the perpetual maker bids at the mid itself and keeps its ask away from it: it quotes to
  buy, where the comment says wider bid and tighter ask.
\<close>

theorem perp_positive_funding_bids_at_mid:
  assumes "faithful D val" and "plan_perp_quotes D mid half_spread qty inventory position_limit rate threshold = Some (Some (q, skip))"
    and "\<not> d_is_sign_negative D rate" and "val threshold \<le> val rate" and "0 \<le> val rate" and "val inventory \<le> 0"
  shows "val (pq_skew q) = - 1 \<and> val (pq_bid q) = val mid \<and> val mid \<le> val (pq_ask q)"
proof -
  note f = assms(1)
  obtain i x s bh ah where pos: "0 < val mid" "0 \<le> val half_spread"
    and i: "(if d_gt D position_limit (d_zero D) then map_option (clamp_unit D) (d_div D inventory position_limit) else Some (d_zero D)) = Some i"
    and x: "d_add D i (funding_skew D rate threshold) = Some x" and s: "d_mul D half_spread (clamp_unit D x) = Some s"
    and bh: "d_add D half_spread s = Some bh" and ah: "d_sub D half_spread s = Some ah"
    and b: "below D mid bh = Some (pq_bid q)" and a: "above D mid ah = Some (pq_ask q)" and skew: "pq_skew q = clamp_unit D x"
    using assms(2) by (auto simp: plan_perp_quotes_def bind_eq_Some_conv Let_def faithfulD(1,3) [OF f] not_less split: if_splits)
  have skew_f: "val (funding_skew D rate threshold) = - 1"
    using assms(3-5) by (simp add: funding_skew_def ge_val [OF f] faithfulD(4,6,7) [OF f])
  have "val i \<le> 0"
  proof (cases "d_gt D position_limit (d_zero D)")
    case True
    then obtain r where r: "d_div D inventory position_limit = Some r" "i = clamp_unit D r" using i by auto
    have "val inventory / val position_limit \<le> 0" using True assms(6) by (simp add: faithfulD(1,3) [OF f] divide_nonpos_pos)
    then have "val r \<le> 0" using roundsD(1) [OF faithfulD(11) [OF f] r(1), of "d_zero D"] by (simp add: faithfulD(3) [OF f])
    then show ?thesis using r(2) by (simp add: clamp_unit_def faithfulD(1,4,6) [OF f])
  next
    case False
    then show ?thesis using i faithfulD(3) [OF f] by auto
  qed
  then have "val x \<le> - 1" using roundsD(1) [OF faithfulD(8) [OF f] x, of "d_neg D (d_one D)"] skew_f by (simp add: faithfulD(4,6) [OF f])
  then have c: "val (clamp_unit D x) = - 1" by (auto simp: clamp_unit_def faithfulD(1,4,6) [OF f])
  have sv: "val s = - val half_spread" using roundsD [OF faithfulD(10) [OF f] s, of "d_neg D half_spread"] c by (simp add: faithfulD(6) [OF f])
  have bv: "val bh = 0" using roundsD [OF faithfulD(8) [OF f] bh, of "d_zero D"] sv by (simp add: faithfulD(3) [OF f])
  obtain y where y: "d_sub D (d_one D) bh = Some y" "d_mul D mid y = Some (pq_bid q)" using b by (auto simp: below_def bind_eq_Some_conv)
  have "val y = 1" using roundsD [OF faithfulD(9) [OF f] y(1), of "d_one D"] bv by (simp add: faithfulD(4) [OF f])
  then have "val (pq_bid q) = val mid" using roundsD [OF faithfulD(10) [OF f] y(2), of mid] by simp
  moreover have "0 \<le> val ah" using sub_nonneg [OF f ah] sv pos(2) by simp
  then have "val mid \<le> val (pq_ask q)" using above_ge [OF f a] pos(1) by simp
  ultimately show ?thesis using skew c by simp
qed

theorem perp_positive_funding_bids_at_mid_witness:
  "\<exists>q. plan_perp_quotes demo_decimal 100 (1 / 100) 1 0 1 (1 / 1000) (1 / 10000) = Some (Some (q, False))
     \<and> pq_bid q = 100 \<and> pq_ask q = 102"
proof -
  obtain q where q: "plan_perp_quotes demo_decimal 100 (1 / 100) 1 0 1 (1 / 1000) (1 / 10000) = Some (Some (q, False))" "pq_ask q = 102"
    by (simp add: plan_perp_quotes_def funding_skew_def clamp_unit_def below_def above_def d_ge_def demo_decimal_def rat_api_def)
  then show ?thesis
    using perp_positive_funding_bids_at_mid [OF demo_faithful q(1)] by (simp add: demo_decimal_def rat_api_def)
qed

section \<open>A slow drift is never followed\<close>

fun within_steps :: "'d decimal_api \<Rightarrow> 'd \<Rightarrow> 'd \<Rightarrow> 'd list \<Rightarrow> bool" where
  "within_steps D band prev [] \<longleftrightarrow> True"
| "within_steps D band prev (p # ps) \<longleftrightarrow> within_price_band D p prev band = Some True \<and> within_steps D band p ps"

text \<open>
  The pure market maker measures the move of the price from the last poll, not from its last
  quotes: over polls whose prices each stay within the band of the price before, it sends nothing
  and cancels nothing, however far the price has moved in all.
\<close>

theorem pmm_drift_never_requotes:
  assumes "\<And>p v. p \<in> set prices \<Longrightarrow> mds_fetch_ticker (market p) v (proto_exchange_id (pmm_common cfg)) (cp_symbol (pmm_common cfg)) = (Inr (ticker p), v)"
    and "\<And>p. p \<in> set prices \<Longrightarrow> positive_last (sp_decimal P) ''no usable mid'' (ticker p) = Inr p"
    and "ps_last_mid (mk_own s) = Some prev" and "within_steps (sp_decimal P) (pmm_price_band cfg) prev prices"
  shows "foldl (\<lambda>s p. snd (pmm_tick (P\<lparr>sp_market := market p\<rparr>) cfg now s)) s prices
    = s\<lparr>mk_own := (mk_own s)\<lparr>ps_last_mid := Some (last (prev # prices))\<rparr>\<rparr>"
  using assms
proof (induction prices arbitrary: s prev)
  case (Cons p prices)
  have tick: "snd (pmm_tick (P\<lparr>sp_market := market p\<rparr>) cfg now s) = s\<lparr>mk_own := (mk_own s)\<lparr>ps_last_mid := Some p\<rparr>\<rparr>"
    using Cons.prems by (simp add: pmm_tick_def Let_def poll_bind_def read_last_def poll_call_def poll_own_def poll_pure_def poll_set_def)
  show ?case using Cons.IH [of "s\<lparr>mk_own := (mk_own s)\<lparr>ps_last_mid := Some p\<rparr>\<rparr>" p] Cons.prems by (simp add: tick)
qed simp

definition demo_ticker :: "string \<Rightarrow> ticker" where
  "demo_ticker w = \<lparr>tk_header = None, tk_symbol = ''MOCK-USDT'', tk_timestamp = None, tk_bid = None, tk_ask = None, tk_last = Some w, tk_close = None\<rparr>"

definition demo_price :: "rat \<Rightarrow> ticker" where
  "demo_price p = demo_ticker (if p = 109 then ''109'' else ''118'')"

text \<open>From 100 to 118 in two polls with a band of a tenth.\<close>

theorem pmm_drift_never_requotes_witness:
  "foldl (\<lambda>s p. snd (pmm_tick (demo_ports\<lparr>sp_market := demo_market\<lparr>mds_fetch_ticker := (\<lambda>v ex s. (Inr (demo_price p), v))\<rparr>\<rparr>)
       (pmm_default demo_decimal demo_common) 0 s))
     (maker_start \<lparr>ps_inventory = 0, ps_last_mid = Some 100\<rparr> (mock_new demo_decimal 100) 0) [109, 118]
   = maker_start \<lparr>ps_inventory = 0, ps_last_mid = Some 118\<rparr> (mock_new demo_decimal 100) 0"
proof -
  have read: "positive_last demo_decimal message (demo_price p) = Inr p" if "p \<in> set [109, 118]" for p :: rat and message
  proof -
    have "parse_unsigned 1000 ''109'' = Some 109" "parse_unsigned 1000 ''118'' = Some 118" "\<not> is_blank ''109''" "\<not> is_blank ''118''"
      "grammar_violation ''109'' = None" "grammar_violation ''118'' = None"
      by code_simp+
    then have "common_to_decimal (d_parse demo_decimal) ''109'' = Inr 109" "common_to_decimal (d_parse demo_decimal) ''118'' = Inr 118"
      by (simp_all add: common_to_decimal_def demo_decimal_def)
    then show ?thesis using that by (auto simp: positive_last_def demo_price_def demo_ticker_def demo_decimal_def rat_api_def)
  qed
  have band: "within_steps demo_decimal (1 / 10) 100 [109, 118]"
    by (simp add: within_price_band_def below_def above_def d_ge_def demo_decimal_def rat_api_def)
  have D: "sp_decimal demo_ports = demo_decimal" and b: "pmm_price_band (pmm_default demo_decimal demo_common) = 1 / 10"
    by (simp_all add: demo_ports_def pmm_default_def demo_decimal_def rat_api_def)
  show ?thesis
    using pmm_drift_never_requotes [of "[109, 118]" "\<lambda>p. demo_market\<lparr>mds_fetch_ticker := (\<lambda>v ex s. (Inr (demo_price p), v))\<rparr>"
        "pmm_default demo_decimal demo_common" demo_price demo_ports
        "maker_start \<lparr>ps_inventory = 0, ps_last_mid = Some 100\<rparr> (mock_new demo_decimal 100) 0" 100 0] read band
    by (simp add: D b maker_start_def)
qed

end
