(* ===== verification/Treasury.thy ===== *)
theory Treasury
  imports Cross_Makers Mock_Extended
begin

text \<open>
  The strategies that move, borrow, convert and value funds (\<open>strategies/deposit_transfer\<close>,
  \<open>balance_align\<close>, \<open>autoborrow\<close>, \<open>convert\<close>, \<open>rebalance\<close>, \<open>market_cap\<close>, \<open>nav_recorder\<close>).
\<close>

section \<open>Balances\<close>

text \<open>The fields of a balance message the strategies read.\<close>

record 'm balance_fields =
  bf_currency :: "'m \<Rightarrow> string"
  bf_free :: "'m \<Rightarrow> wire_decimal option"
  bf_total :: "'m \<Rightarrow> wire_decimal option"

definition balance_of ::
  "'d decimal_api \<Rightarrow> ('m \<Rightarrow> string) \<Rightarrow> ('m \<Rightarrow> wire_decimal option) \<Rightarrow> 'm list \<Rightarrow> string \<Rightarrow> 'd" where
  "balance_of D currency amount balances asset =
     (case Option.bind (find (\<lambda>b. currency b = asset) balances) (\<lambda>b. decoded D (amount b)) of
        None \<Rightarrow> d_zero D | Some x \<Rightarrow> x)"

definition free_balance_of :: "'d decimal_api \<Rightarrow> 'm balance_fields \<Rightarrow> 'm snapshot \<Rightarrow> string \<Rightarrow> 'd" where
  "free_balance_of D F snap asset = balance_of D (bf_currency F) (bf_free F) (sn_balances snap) asset"

section \<open>Sweeping deposits\<close>

record 'd deposit_transfer_config =
  dp_common :: common_params
  dp_dest_label :: string
  dp_ignore_below :: 'd

definition deposit_transfer_default :: "'d decimal_api \<Rightarrow> common_params \<Rightarrow> string \<Rightarrow> 'd deposit_transfer_config" where
  "deposit_transfer_default D c dest = \<lparr>dp_common = c, dp_dest_label = dest, dp_ignore_below = d_zero D\<rparr>"

definition sweep_key :: "'d ledger_entry \<Rightarrow> string" where
  "sweep_key entry = ''deposit-sweep:'' @ lg_id entry"

definition sweepable :: "'d decimal_api \<Rightarrow> 'd deposit_transfer_config \<Rightarrow> string set \<Rightarrow> 'd ledger_entry \<Rightarrow> bool" where
  "sweepable D cfg seen entry \<longleftrightarrow>
     lg_completed entry \<and> d_gt D (lg_amount entry) (d_zero D) \<and> \<not> d_gt D (dp_ignore_below cfg) (lg_amount entry)
     \<and> lg_id entry \<notin> seen"

fun sweep_loop ::
  "'d decimal_api \<Rightarrow> ('v, 'd) wallet_gateway \<Rightarrow> 'd deposit_transfer_config \<Rightarrow> 'd ledger_entry list \<Rightarrow> nat
   \<Rightarrow> (('v, string set) maker_state, nat) poll" where
  "sweep_loop D w cfg [] transferred = poll_pure (Some transferred)"
| "sweep_loop D w cfg (entry # entries) transferred =
     poll_bind poll_own (\<lambda>seen.
       if sweepable D cfg seen entry
       then poll_bind (poll_call (\<lambda>v. wg_transfer w v (proto_exchange_id (dp_common cfg)) (lg_currency entry) (lg_amount entry)
                (dp_dest_label cfg) (sweep_key entry))) (\<lambda>_.
            poll_bind (poll_set (insert (lg_id entry) seen)) (\<lambda>_. sweep_loop D w cfg entries (Suc transferred)))
       else sweep_loop D w cfg entries transferred)"

definition deposit_transfer_tick ::
  "'d decimal_api \<Rightarrow> ('v, 'd) wallet_gateway \<Rightarrow> 'd deposit_transfer_config \<Rightarrow> (('v, string set) maker_state, nat) poll" where
  "deposit_transfer_tick D w cfg =
     poll_bind (poll_call (\<lambda>v. fetch_deposits w v (proto_exchange_id (dp_common cfg)) 50)) (\<lambda>deposits.
     sweep_loop D w cfg deposits 0)"

section \<open>Aligning balances\<close>

record 'd balance_align_config =
  bl_venues :: cross_venue_params
  bl_asset :: string
  bl_primary_share :: 'd
  bl_threshold :: 'd

definition balance_align_default :: "'d decimal_api \<Rightarrow> cross_venue_params \<Rightarrow> string \<Rightarrow> 'd \<Rightarrow> 'd balance_align_config" where
  "balance_align_default D v asset threshold =
     \<lparr>bl_venues = v, bl_asset = asset, bl_primary_share = d_new D 5 1, bl_threshold = threshold\<rparr>"

record align_state =
  al_instance :: u64
  al_attempt :: u64

text \<open>The attempts are counted from the wall clock in milliseconds at construction.\<close>

definition balance_align_new :: "u64 \<Rightarrow> int \<Rightarrow> align_state" where
  "balance_align_new instance_seq clock_ms =
     \<lparr>al_instance = instance_seq, al_attempt = (if 0 \<le> clock_ms \<and> clock_ms \<le> int u64_max then of_int clock_ms else 0)\<rparr>"

definition attempt_key :: "string \<Rightarrow> string \<Rightarrow> string \<Rightarrow> align_state \<Rightarrow> string" where
  "attempt_key asset from to s =
     ''balance-align:'' @ asset @ '':'' @ from @ '':'' @ to @ '':'' @ nat_to_string (unat (al_instance s)) @ ''-''
     @ nat_to_string (unat (al_attempt s))"

definition next_attempt_key :: "string \<Rightarrow> string \<Rightarrow> string \<Rightarrow> (('v, align_state) maker_state, string) poll" where
  "next_attempt_key asset from to =
     poll_bind poll_own (\<lambda>s. poll_bind (poll_set (s\<lparr>al_attempt := al_attempt s + 1\<rparr>)) (\<lambda>_.
       poll_pure (Some (attempt_key asset from to s))))"

definition balance_align_tick ::
  "('v, 'm, 'd) strategy_ports \<Rightarrow> ('v, 'd) wallet_gateway \<Rightarrow> 'm balance_fields \<Rightarrow> 'd balance_align_config
   \<Rightarrow> (('v, align_state) maker_state, 'd) poll" where
  "balance_align_tick P w F cfg =
     (let D = sp_decimal P; primary = venue_proto (xv_primary (bl_venues cfg)); hedge = venue_proto (xv_hedge (bl_venues cfg))
      in poll_bind (poll_call (\<lambda>v. gw_sync_state (sp_gateway P) v primary)) (\<lambda>snap_a.
         poll_bind (poll_call (\<lambda>v. gw_sync_state (sp_gateway P) v hedge)) (\<lambda>snap_b.
         (let bal_a = free_balance_of D F snap_a (bl_asset cfg); bal_b = free_balance_of D F snap_b (bl_asset cfg)
          in poll_bind (poll_pure (d_add D bal_a bal_b)) (\<lambda>total.
             poll_bind (poll_pure (d_mul D total (bl_primary_share cfg))) (\<lambda>want_a.
             poll_bind (poll_pure (d_sub D bal_a want_a)) (\<lambda>drift.
             if d_gt D (bl_threshold cfg) (d_abs D drift) \<or> d_is_zero D total then poll_pure (Some (d_zero D))
             else (let amount = d_abs D drift;
                       (source, from, to) = (if d_gt D drift (d_zero D) then (primary, ''primary'', ''hedge'')
                                             else (hedge, ''hedge'', ''primary''))
                   in poll_bind (next_attempt_key (bl_asset cfg) from to) (\<lambda>key.
                      poll_bind (poll_call (\<lambda>v. wg_transfer w v source (bl_asset cfg) amount to key)) (\<lambda>_.
                      poll_pure (Some amount)))))))))))"

section \<open>Borrowing and repaying\<close>

record 'd autoborrow_config =
  ab_common :: common_params
  ab_asset :: string
  ab_min_balance :: 'd
  ab_repay_above :: 'd

text \<open>The text of a parse error is the library's, a parameter of \<open>d_parse\<close>.\<close>

definition autoborrow_free_balance ::
  "'d decimal_api \<Rightarrow> 'v venue_op_invoker \<Rightarrow> 'd autoborrow_config \<Rightarrow> (('v, unit) maker_state, 'd) poll" where
  "autoborrow_free_balance D ops cfg =
     poll_bind (poll_call (\<lambda>v. vo_invoke_venue_op ops v (proto_exchange_id (ab_common cfg)) ''account.balance'' [])) (\<lambda>response.
     case Option.bind (json_get ''free'' response) json_str of
       None \<Rightarrow> poll_fail (Bail (''balance response missing '' @ [CHR 0x27] @ ''free'' @ [CHR 0x27]))
     | Some free \<Rightarrow> (case d_parse D free of
         Inl err \<Rightarrow> poll_fail (Bail (''invalid balance '' @ [CHR 0x27] @ free @ [CHR 0x27] @ '': '' @ err))
       | Inr b \<Rightarrow> poll_pure (Some b)))"

definition margin_params :: "'d decimal_api \<Rightarrow> string \<Rightarrow> 'd \<Rightarrow> (string \<times> json) list" where
  "margin_params D asset amount = [(''asset'', JString asset), (''amount'', JString (d_show D amount))]"

definition autoborrow_tick ::
  "'d decimal_api \<Rightarrow> 'v venue_op_invoker \<Rightarrow> 'd autoborrow_config \<Rightarrow> (('v, unit) maker_state, unit) poll" where
  "autoborrow_tick D ops cfg =
     (let ex = proto_exchange_id (ab_common cfg)
      in poll_bind (autoborrow_free_balance D ops cfg) (\<lambda>balance.
         if d_gt D (ab_min_balance cfg) balance
         then poll_bind (poll_pure (d_sub D (ab_min_balance cfg) balance)) (\<lambda>amount.
              poll_bind (poll_call (\<lambda>v. vo_invoke_venue_op ops v ex ''margin.borrow'' (margin_params D (ab_asset cfg) amount))) (\<lambda>_.
              poll_done))
         else if d_gt D (ab_repay_above cfg) (d_zero D) \<and> d_gt D balance (ab_repay_above cfg)
         then poll_bind (poll_pure (d_sub D balance (ab_min_balance cfg))) (\<lambda>surplus.
              if \<not> d_gt D surplus (d_zero D) then poll_done
              else poll_bind (poll_call (\<lambda>v. vo_invoke_venue_op ops v ex ''margin.repay'' (margin_params D (ab_asset cfg) surplus))) (\<lambda>_.
                   poll_done))
         else poll_done))"

section \<open>Converting\<close>

record 'd convert_config =
  cn_common :: common_params
  cn_from_asset :: string
  cn_to_asset :: string
  cn_min_amount :: 'd
  cn_interval_secs :: u64

definition convert_tick ::
  "'d decimal_api \<Rightarrow> 'v venue_op_invoker \<Rightarrow> 'd convert_config \<Rightarrow> (('v, unit) maker_state, bool) poll" where
  "convert_tick D ops cfg =
     poll_bind (poll_call (\<lambda>v. vo_invoke_venue_op ops v (proto_exchange_id (cn_common cfg)) ''wallet.convert''
         [(''fromAsset'', JString (cn_from_asset cfg)), (''toAsset'', JString (cn_to_asset cfg)),
          (''amount'', JString (d_show D (cn_min_amount cfg)))])) (\<lambda>response.
     poll_pure (Some (Option.bind (json_get ''status'' response) json_str = Some ''ok'')))"

section \<open>Rebalancing a portfolio\<close>

text \<open>A \<open>BTreeMap\<close> is a list of distinct keys in their order.\<close>

record 'd rebalance_config =
  rb_common :: common_params
  rb_quote_asset :: string
  rb_targets :: "(string \<times> 'd) list"
  rb_band_pct :: 'd

definition rebalance_default :: "'d decimal_api \<Rightarrow> common_params \<Rightarrow> (string \<times> 'd) list \<Rightarrow> 'd rebalance_config" where
  "rebalance_default D c targets = \<lparr>rb_common = c, rb_quote_asset = ''USDT'', rb_targets = targets, rb_band_pct = d_new D 5 2\<rparr>"

definition weight_sum_tolerance :: "'d decimal_api \<Rightarrow> 'd" where
  "weight_sum_tolerance D = d_new D 1 6"

definition validate_targets :: "'d decimal_api \<Rightarrow> (string \<times> 'd) list \<Rightarrow> (strategy_error + unit) option" where
  "validate_targets D targets =
     (if targets = [] then Some (Inl (Bail ''targets must not be empty''))
      else case find (\<lambda>(_, weight). d_is_sign_negative D weight) targets of
          Some (asset, weight) \<Rightarrow>
            Some (Inl (Bail (''target weight for '' @ asset @ '' must not be negative, got '' @ d_show D weight)))
        | None \<Rightarrow> do {
            total \<leftarrow> try_sum D (d_zero D) (map snd targets);
            diff \<leftarrow> d_sub D total (d_one D);
            Some (if d_gt D (d_abs D diff) (weight_sum_tolerance D)
                  then Inl (Bail (''targets must sum to 1, got '' @ d_show D total)) else Inr ())
          })"

definition rebalance_from_params ::
  "'d decimal_api \<Rightarrow> strategy_error + 'd rebalance_config \<Rightarrow> (strategy_error + 'd rebalance_config) option" where
  "rebalance_from_params D parsed = (case parsed of
       Inl e \<Rightarrow> Some (Inl e)
     | Inr cfg \<Rightarrow> map_option (map_sum id (\<lambda>_. cfg)) (validate_targets D (rb_targets cfg)))"

definition value_of :: "'d decimal_api \<Rightarrow> (string \<times> 'd) list \<Rightarrow> string \<Rightarrow> 'd" where
  "value_of D values asset = (case map_of values asset of None \<Rightarrow> d_zero D | Some x \<Rightarrow> x)"

fun plan_deltas :: "'d decimal_api \<Rightarrow> 'd \<Rightarrow> (string \<times> 'd) list \<Rightarrow> (string \<times> 'd) list \<Rightarrow> (string \<times> 'd) list option" where
  "plan_deltas D total_value values [] = Some []"
| "plan_deltas D total_value values ((asset, target) # targets) = do {
     want \<leftarrow> d_mul D total_value target;
     delta \<leftarrow> d_sub D want (value_of D values asset);
     plan \<leftarrow> plan_deltas D total_value values targets;
     Some (if \<not> d_is_zero D delta then (asset, delta) # plan else plan)
   }"

definition plan_trades :: "'d decimal_api \<Rightarrow> (string \<times> 'd) list \<Rightarrow> (string \<times> 'd) list \<Rightarrow> (string \<times> 'd) list option" where
  "plan_trades D values targets = do {
     total \<leftarrow> try_sum D (d_zero D) (map snd values);
     if d_is_zero D total \<or> d_is_sign_negative D total then Some [] else plan_deltas D total values targets
   }"

definition rebalance_price :: "'d decimal_api \<Rightarrow> string \<Rightarrow> ticker \<Rightarrow> strategy_error + 'd" where
  "rebalance_price D asset t = (case tk_last t of
       None \<Rightarrow> Inl (Bail (''no price for '' @ asset))
     | Some w \<Rightarrow> (case common_to_decimal (d_parse D) w of
         Inl e \<Rightarrow> Inl (Conversion e)
       | Inr p \<Rightarrow> if \<not> d_gt D p (d_zero D) then Inl (Bail (''no usable price for '' @ asset @ '': '' @ d_show D p)) else Inr p))"

definition price_of ::
  "('v, 'm, 'd) strategy_ports \<Rightarrow> 'd rebalance_config \<Rightarrow> string \<Rightarrow> (('v, unit) maker_state, 'd) poll" where
  "price_of P cfg asset =
     poll_bind (poll_call (\<lambda>v. mds_fetch_ticker (sp_market P) v (proto_exchange_id (rb_common cfg)) (asset @ rb_quote_asset cfg))) (\<lambda>t s.
     (Some (rebalance_price (sp_decimal P) asset t), s))"

text \<open>The valuation of each target, with the price it used.\<close>

fun value_targets ::
  "('v, 'm, 'd) strategy_ports \<Rightarrow> 'm balance_fields \<Rightarrow> 'd rebalance_config \<Rightarrow> 'm list \<Rightarrow> string list
   \<Rightarrow> (('v, unit) maker_state, (string \<times> 'd \<times> 'd) list) poll" where
  "value_targets P F cfg balances [] = poll_pure (Some [])"
| "value_targets P F cfg balances (asset # assets) =
     poll_bind (if asset = rb_quote_asset cfg then poll_pure (Some (d_one (sp_decimal P))) else price_of P cfg asset) (\<lambda>price.
     poll_bind (poll_pure (d_mul (sp_decimal P) (balance_of (sp_decimal P) (bf_currency F) (bf_total F) balances asset) price)) (\<lambda>worth.
     poll_bind (value_targets P F cfg balances assets) (\<lambda>rest.
     poll_pure (Some ((asset, worth, price) # rest)))))"

fun rebalance_loop ::
  "('v, 'm, 'd) strategy_ports \<Rightarrow> 'd rebalance_config \<Rightarrow> (string \<times> 'd) list \<Rightarrow> (string \<times> 'd) list \<Rightarrow> 'd \<Rightarrow> (string \<times> 'd) list
   \<Rightarrow> (('v, unit) maker_state, unit) poll" where
  "rebalance_loop P cfg plan values total_value [] = poll_done"
| "rebalance_loop P cfg plan values total_value ((asset, price) # prices) =
     (let D = sp_decimal P; delta = value_of D plan asset
      in if d_is_zero D delta then rebalance_loop P cfg plan values total_value prices
         else poll_bind (poll_pure (d_div D (value_of D values asset) total_value)) (\<lambda>actual_weight.
              poll_bind (poll_pure (d_sub D actual_weight (value_of D (rb_targets cfg) asset))) (\<lambda>gap.
              if \<not> d_gt D (d_abs D gap) (rb_band_pct cfg) then rebalance_loop P cfg plan values total_value prices
              else poll_bind (poll_pure (d_div D delta price)) (\<lambda>qty.
                   poll_bind (send_hedge P (proto_exchange_id (rb_common cfg)) (asset @ rb_quote_asset cfg) ''rebal-''
                       (d_gt D delta (d_zero D)) (d_abs D qty)) (\<lambda>_.
                   rebalance_loop P cfg plan values total_value prices)))))"

definition rebalance_tick ::
  "('v, 'm, 'd) strategy_ports \<Rightarrow> 'm balance_fields \<Rightarrow> 'd rebalance_config \<Rightarrow> (('v, unit) maker_state, (string \<times> 'd) list) poll" where
  "rebalance_tick P F cfg =
     (let D = sp_decimal P
      in poll_bind (poll_call (\<lambda>v. gw_sync_state (sp_gateway P) v (proto_exchange_id (rb_common cfg)))) (\<lambda>snap.
         poll_bind (value_targets P F cfg (sn_balances snap) (map fst (rb_targets cfg))) (\<lambda>valued.
         (let values = map (\<lambda>(a, x, _). (a, x)) valued; prices = map (\<lambda>(a, _, p). (a, p)) valued
          in poll_bind (poll_pure (plan_trades D values (rb_targets cfg))) (\<lambda>plan.
             poll_bind (poll_pure (try_sum D (d_zero D) (map snd values))) (\<lambda>total_value.
             poll_bind (rebalance_loop P cfg plan values total_value prices) (\<lambda>_.
             poll_pure (Some plan))))))))"

section \<open>Market capitalisation\<close>

record 'd market_cap_config =
  mp_common :: common_params
  mp_quote_asset :: string
  mp_weights :: "(string \<times> 'd) list"

definition market_cap_rebalance :: "'d decimal_api \<Rightarrow> 'd market_cap_config \<Rightarrow> 'd rebalance_config" where
  "market_cap_rebalance D cfg =
     \<lparr>rb_common = mp_common cfg, rb_quote_asset = mp_quote_asset cfg, rb_targets = mp_weights cfg, rb_band_pct = d_new D 5 2\<rparr>"

definition market_cap_tick ::
  "('v, 'm, 'd) strategy_ports \<Rightarrow> 'm balance_fields \<Rightarrow> 'd market_cap_config \<Rightarrow> (('v, unit) maker_state, (string \<times> 'd) list) poll" where
  "market_cap_tick P F cfg = rebalance_tick P F (market_cap_rebalance (sp_decimal P) cfg)"

section \<open>Net asset value\<close>

record nav_config =
  nv_common :: common_params
  nv_quote_asset :: string

definition value_balance :: "'d decimal_api \<Rightarrow> string \<Rightarrow> 'd \<Rightarrow> 'd option \<Rightarrow> string \<Rightarrow> 'd option" where
  "value_balance D currency held price quote =
     (if currency = quote then Some held
      else case price of
          Some p \<Rightarrow> if d_gt D p (d_zero D) then d_mul D held p else Some (d_zero D)
        | None \<Rightarrow> Some (d_zero D))"

definition nav_price :: "('v, 'm, 'd) strategy_ports \<Rightarrow> nav_config \<Rightarrow> string \<Rightarrow> (('v, unit) maker_state, 'd option) poll" where
  "nav_price P cfg currency =
     poll_bind (poll_try (\<lambda>v. mds_fetch_ticker (sp_market P) v (proto_exchange_id (nv_common cfg)) (currency @ nv_quote_asset cfg))) (\<lambda>r.
     poll_pure (Some (case r of Inl _ \<Rightarrow> None | Inr t \<Rightarrow> decoded (sp_decimal P) (tk_last t))))"

fun nav_loop ::
  "('v, 'm, 'd) strategy_ports \<Rightarrow> 'm balance_fields \<Rightarrow> nav_config \<Rightarrow> 'm list \<Rightarrow> 'd \<Rightarrow> (('v, unit) maker_state, 'd) poll" where
  "nav_loop P F cfg [] nav = poll_pure (Some nav)"
| "nav_loop P F cfg (b # balances) nav =
     (let D = sp_decimal P; currency = bf_currency F b; total = or_zero D (decoded D (bf_total F b))
      in poll_bind (if currency = nv_quote_asset cfg then poll_pure (Some None) else nav_price P cfg currency) (\<lambda>price.
         poll_bind (poll_pure (value_balance D currency total price (nv_quote_asset cfg))) (\<lambda>worth.
         poll_bind (poll_pure (d_add D nav worth)) (\<lambda>nav. nav_loop P F cfg balances nav))))"

definition nav_tick ::
  "('v, 'm, 'd) strategy_ports \<Rightarrow> 'm balance_fields \<Rightarrow> nav_config \<Rightarrow> (('v, unit) maker_state, 'd) poll" where
  "nav_tick P F cfg =
     poll_bind (poll_call (\<lambda>v. gw_sync_state (sp_gateway P) v (proto_exchange_id (nv_common cfg)))) (\<lambda>snap.
     nav_loop P F cfg (sn_balances snap) (d_zero (sp_decimal P)))"

end
