(* ===== verification/Treasury_Safety.thy ===== *)
theory Treasury_Safety
  imports Treasury Maker_Safety Signal_Safety
begin

text \<open>
  What the treasury strategies do with funds: no deposit is moved twice and none is forgotten, two
  alignments never share an idempotency key, and a rebalancing plan neither creates nor destroys
  value.
\<close>

section \<open>Sweeping deposits\<close>

definition payment :: "'d deposit_transfer_config \<Rightarrow> 'd ledger_entry \<Rightarrow> string \<times> 'd \<times> string" where
  "payment cfg entry = (lg_currency entry, lg_amount entry, dp_dest_label cfg)"

text \<open>A deposit the strategy means to move, whether or not it has been moved.\<close>

definition qualifies :: "'d decimal_api \<Rightarrow> 'd deposit_transfer_config \<Rightarrow> 'd ledger_entry \<Rightarrow> bool" where
  "qualifies D cfg = sweepable D cfg {}"

lemma sweepable_iff: "sweepable D cfg seen entry \<longleftrightarrow> qualifies D cfg entry \<and> lg_id entry \<notin> seen"
  by (auto simp: qualifies_def sweepable_def)

lemmas sweep_steps = poll_bind_def poll_own_def poll_set_def poll_call_def poll_pure_def

lemma sweep_step:
  "sweep_loop D w cfg (entry # entries) n s =
     (if sweepable D cfg (mk_own s) entry
      then case wg_transfer w (mk_venue s) (proto_exchange_id (dp_common cfg)) (lg_currency entry) (lg_amount entry)
               (dp_dest_label cfg) (sweep_key entry) of
          (Inl e, v) \<Rightarrow> (Some (Inl (PortFailure e)), s\<lparr>mk_venue := v\<rparr>)
        | (Inr _, v) \<Rightarrow> sweep_loop D w cfg entries (Suc n) (s\<lparr>mk_venue := v, mk_own := insert (lg_id entry) (mk_own s)\<rparr>)
      else sweep_loop D w cfg entries n s)"
  by (simp add: sweep_steps split: prod.split sum.split)

text \<open>The ways a pass can treat the first deposit.\<close>

lemma sweep_cases:
  assumes "sweep_loop D w cfg (entry # entries) n s = (r, s')"
  obtains (skipped) "\<not> sweepable D cfg (mk_own s) entry" "sweep_loop D w cfg entries n s = (r, s')"
  | (refused) e v where "sweepable D cfg (mk_own s) entry" "r = Some (Inl (PortFailure e))" "s' = s\<lparr>mk_venue := v\<rparr>"
      "wg_transfer w (mk_venue s) (proto_exchange_id (dp_common cfg)) (lg_currency entry) (lg_amount entry)
         (dp_dest_label cfg) (sweep_key entry) = (Inl e, v)"
  | (paid) receipt v where "sweepable D cfg (mk_own s) entry"
      "sweep_loop D w cfg entries (Suc n) (s\<lparr>mk_venue := v, mk_own := insert (lg_id entry) (mk_own s)\<rparr>) = (r, s')"
      "wg_transfer w (mk_venue s) (proto_exchange_id (dp_common cfg)) (lg_currency entry) (lg_amount entry)
         (dp_dest_label cfg) (sweep_key entry) = (Inr receipt, v)"
proof (cases "sweepable D cfg (mk_own s) entry")
  case False
  then have "sweep_loop D w cfg entries n s = (r, s')" using assms by (simp only: sweep_step if_False)
  then show ?thesis using skipped False by blast
next
  case True
  obtain a v where t: "wg_transfer w (mk_venue s) (proto_exchange_id (dp_common cfg)) (lg_currency entry) (lg_amount entry)
      (dp_dest_label cfg) (sweep_key entry) = (a, v)" by fastforce
  show ?thesis
  proof (cases a)
    case (Inl e)
    then have "(r, s') = (Some (Inl (PortFailure e)), s\<lparr>mk_venue := v\<rparr>)"
      using assms True t by (simp only: sweep_step if_True prod.case sum.case)
    then show ?thesis using refused [OF True] t Inl by simp
  next
    case (Inr receipt)
    then have "sweep_loop D w cfg entries (Suc n) (s\<lparr>mk_venue := v, mk_own := insert (lg_id entry) (mk_own s)\<rparr>) = (r, s')"
      using assms True t by (simp only: sweep_step if_True prod.case sum.case)
    then show ?thesis using paid [OF True] t Inr by simp
  qed
qed

lemma sweep_remembers: "sweep_loop D w cfg entries n s = (r, s') \<Longrightarrow> mk_own s \<subseteq> mk_own s'"
proof (induction entries arbitrary: n s)
  case (Cons entry entries)
  from Cons.prems show ?case by (cases rule: sweep_cases) (auto dest!: Cons.IH)
qed (simp add: poll_pure_def)

context wallet_contract
begin

text \<open>What one pass over the deposits moves: deposits not seen before, each once, all remembered.\<close>

lemma sweep_loop_pays:
  assumes "sweep_loop D w cfg entries n s = (r, s')"
  shows "\<exists>paid. moved (mk_venue s') = moved (mk_venue s) @ map (payment cfg) paid
      \<and> set paid \<subseteq> {e \<in> set entries. qualifies D cfg e} \<and> distinct (map lg_id paid)
      \<and> lg_id ` set paid \<subseteq> mk_own s' - mk_own s"
  using assms
proof (induction entries arbitrary: n s)
  case Nil
  then show ?case by (auto simp: poll_pure_def)
next
  case (Cons entry entries)
  from Cons.prems show ?case
  proof (cases rule: sweep_cases)
    case skipped
    from Cons.IH [OF this(2)] show ?thesis by auto
  next
    case (refused e v)
    then show ?thesis using transfer_refused [OF refused(4)] by auto
  next
    case (paid receipt v)
    obtain ps where ps: "moved (mk_venue s') = moved v @ map (payment cfg) ps" "distinct (map lg_id ps)"
        "set ps \<subseteq> {e \<in> set entries. qualifies D cfg e}"
        "lg_id ` set ps \<subseteq> mk_own s' - insert (lg_id entry) (mk_own s)"
      using Cons.IH [OF paid(2)] by auto
    have q: "qualifies D cfg entry" "lg_id entry \<notin> mk_own s" "lg_id entry \<in> mk_own s'"
      using paid(1) sweep_remembers [OF paid(2)] by (auto simp: sweepable_iff)
    consider "moved v = moved (mk_venue s)" | "moved v = moved (mk_venue s) @ [payment cfg entry]"
      using transfer_moves_at_most_once [OF paid(3)] by (auto simp: payment_def)
    then show ?thesis
    proof cases
      case 1
      then show ?thesis using ps by (intro exI [of _ ps]) auto
    next
      case 2
      then show ?thesis using ps q by (intro exI [of _ "entry # ps"]) auto
    qed
  qed
qed

end

text \<open>A pass that ends well has seen to every deposit that qualifies; one that fails has left a deposit for the next.\<close>

lemma sweep_loop_outcome:
  "sweep_loop D w cfg entries n s = (r, s') \<Longrightarrow>
     (\<exists>m. r = Some (Inr m) \<and> lg_id ` {e \<in> set entries. qualifies D cfg e} \<subseteq> mk_own s')
     \<or> (\<exists>e. r = Some (Inl e)) \<and> (\<exists>e \<in> set entries. sweepable D cfg (mk_own s') e)"
proof (induction entries arbitrary: n s)
  case Nil
  then show ?case by (auto simp: poll_pure_def)
next
  case (Cons entry entries)
  from Cons.prems show ?case
  proof (cases rule: sweep_cases)
    case skipped
    then show ?thesis using Cons.IH [OF skipped(2)] sweep_remembers [OF skipped(2)] by (auto simp: sweepable_iff)
  next
    case (refused e v)
    then show ?thesis by (auto simp: sweepable_iff)
  next
    case (paid receipt v)
    then show ?thesis using Cons.IH [OF paid(2)] sweep_remembers [OF paid(2)] by auto
  qed
qed

text \<open>Polls interleaved with whatever else happens at the venue.\<close>

fun sweep_run ::
  "'d decimal_api \<Rightarrow> ('v, 'd) wallet_gateway \<Rightarrow> 'd deposit_transfer_config \<Rightarrow> ('v \<Rightarrow> 'v) list
   \<Rightarrow> ('v, string set) maker_state \<Rightarrow> ('v, string set) maker_state" where
  "sweep_run D w cfg [] s = s"
| "sweep_run D w cfg (g # gs) s =
     sweep_run D w cfg gs (snd (deposit_transfer_tick D w cfg (s\<lparr>mk_venue := g (mk_venue s)\<rparr>)))"

text \<open>A wallet whose ledger can be listed without side effects, whether or not the listing succeeds.\<close>

locale readable_wallet = wallet_contract +
  assumes listing_keeps: "wg_list_ledger_entries w v ex currency ty limit = (r, v') \<Longrightarrow> v' = v"
begin

lemma deposit_tick_cases:
  assumes "deposit_transfer_tick D w cfg s = (r, s')"
  obtains e where "r = Some (Inl e)" "s' = s"
  | rows where "fetch_deposits w (mk_venue s) (proto_exchange_id (dp_common cfg)) 50 = (Inr rows, mk_venue s)"
      "sweep_loop D w cfg rows 0 s = (r, s')"
proof -
  obtain d v where d: "fetch_deposits w (mk_venue s) (proto_exchange_id (dp_common cfg)) 50 = (d, v)" by fastforce
  then have v: "v = mk_venue s" using listing_keeps by (auto simp: fetch_deposits_def)
  show ?thesis
    using assms d v that by (cases d) (auto simp: deposit_transfer_tick_def poll_bind_def poll_call_def)
qed

lemma deposit_tick_pays:
  assumes "deposit_transfer_tick D w cfg s = (r, s')"
  shows "mk_own s \<subseteq> mk_own s' \<and> (\<exists>paid. moved (mk_venue s') = moved (mk_venue s) @ map (payment cfg) paid
      \<and> list_all (qualifies D cfg) paid \<and> distinct (map lg_id paid) \<and> lg_id ` set paid \<subseteq> mk_own s' - mk_own s)"
  using assms
proof (cases rule: deposit_tick_cases)
  case (2 rows)
  from sweep_loop_pays [OF 2(2)] sweep_remembers [OF 2(2)] show ?thesis by (auto simp: list_all_iff)
qed simp

lemma sweep_run_pays:
  assumes "\<forall>g \<in> set gs. \<forall>v. moved (g v) = moved v"
  shows "mk_own s \<subseteq> mk_own (sweep_run D w cfg gs s)
    \<and> (\<exists>paid. moved (mk_venue (sweep_run D w cfg gs s)) = moved (mk_venue s) @ map (payment cfg) paid
        \<and> list_all (qualifies D cfg) paid \<and> distinct (map lg_id paid)
        \<and> lg_id ` set paid \<subseteq> mk_own (sweep_run D w cfg gs s) - mk_own s)"
  using assms
proof (induction gs arbitrary: s)
  case (Cons g gs)
  let ?s = "s\<lparr>mk_venue := g (mk_venue s)\<rparr>"
  obtain r t where t: "deposit_transfer_tick D w cfg ?s = (r, t)" by fastforce
  obtain ps where ps: "moved (mk_venue t) = moved (mk_venue s) @ map (payment cfg) ps" "list_all (qualifies D cfg) ps"
      "distinct (map lg_id ps)" "lg_id ` set ps \<subseteq> mk_own t - mk_own s" "mk_own s \<subseteq> mk_own t"
    using deposit_tick_pays [OF t] Cons.prems by auto
  obtain qs where qs: "moved (mk_venue (sweep_run D w cfg gs t)) = moved (mk_venue t) @ map (payment cfg) qs"
      "list_all (qualifies D cfg) qs" "distinct (map lg_id qs)"
      "lg_id ` set qs \<subseteq> mk_own (sweep_run D w cfg gs t) - mk_own t" "mk_own t \<subseteq> mk_own (sweep_run D w cfg gs t)"
    using Cons.IH [of t] Cons.prems by auto
  have "distinct (map lg_id (ps @ qs))" using ps(3,4) qs(3,4) by auto
  then show ?case using t ps qs by (intro conjI exI [of _ "ps @ qs"]) auto
qed simp

end

interpretation mock_reads: readable_wallet "mock_wallet D sys" ms_transfers
  by unfold_locales (auto simp: mock_wallet_def mock_list_ledger_entries_def Let_def)



definition demo_sweep :: "int deposit_transfer_config" where
  "demo_sweep = \<lparr>dp_common = demo_common, dp_dest_label = ''cold'', dp_ignore_below = 1\<rparr>"

definition demo_deposit :: "int ledger_entry" where
  "demo_deposit = \<lparr>lg_id = ''d1'', lg_currency = ''USDT'', lg_amount = 5, lg_entry_type = ''deposit'', lg_completed = True, lg_time_ms = 7\<rparr>"

definition demo_wallet_start :: "(int mock_state, string set) maker_state" where
  "demo_wallet_start = maker_start {} ((mock_new int_api 100)\<lparr>ms_deposits := [demo_deposit]\<rparr>) 0"

lemma demo_sweep_tick:
  "deposit_transfer_tick int_api (mock_wallet int_api 0) demo_sweep demo_wallet_start
   = (Some (Inr 1), snd (deposit_transfer_tick int_api (mock_wallet int_api 0) demo_sweep demo_wallet_start))"
  and "ms_transfers (mk_venue (snd (deposit_transfer_tick int_api (mock_wallet int_api 0) demo_sweep demo_wallet_start)))
   = [(''USDT'', 5, ''cold'')]"
proof -
  have b: "\<not> is_blank ''USDT''" "\<not> is_blank ''cold''" by code_simp+
  note defs = deposit_transfer_tick_def demo_wallet_start_def maker_start_def fetch_deposits_def mock_wallet_def
      mock_list_ledger_entries_def sweep_steps sweepable_def demo_sweep_def demo_deposit_def mock_transfer_def b Let_def mock_new_def
      find_receipt_def int_api_def sweep_key_def
  show "deposit_transfer_tick int_api (mock_wallet int_api 0) demo_sweep demo_wallet_start
      = (Some (Inr 1), snd (deposit_transfer_tick int_api (mock_wallet int_api 0) demo_sweep demo_wallet_start))"
    and "ms_transfers (mk_venue (snd (deposit_transfer_tick int_api (mock_wallet int_api 0) demo_sweep demo_wallet_start)))
      = [(''USDT'', 5, ''cold'')]"
    by (simp_all add: defs)
qed



section \<open>Keys of the alignment\<close>

text \<open>Two attempts of one instance never share an idempotency key, whichever way they move.\<close>

lemma attempt_keys_differ:
  assumes "i < j" and "j < 2 ^ 64"
    and "(from, to) \<in> {(''primary'', ''hedge''), (''hedge'', ''primary'')}"
    and "(from', to') \<in> {(''primary'', ''hedge''), (''hedge'', ''primary'')}"
  shows "attempt_key asset from to (s\<lparr>al_attempt := al_attempt s + of_nat i\<rparr>)
       \<noteq> attempt_key asset from' to' (s\<lparr>al_attempt := al_attempt s + of_nat j\<rparr>)"
proof -
  have "(of_nat i :: u64) \<noteq> of_nat j"
  proof
    assume "(of_nat i :: u64) = of_nat j"
    then have "unat (of_nat i :: u64) = unat (of_nat j :: u64)" by simp
    then show False using assms(1,2) by (simp add: unat_of_nat take_bit_eq_mod)
  qed
  then have "unat (al_attempt s + of_nat i) \<noteq> unat (al_attempt s + of_nat j)" by (metis add_left_imp_eq unsigned_word_eqI)
  then show ?thesis using assms(3,4) by (auto simp: attempt_key_def)
qed

section \<open>Rebalancing plans\<close>

definition exact_products :: "'d decimal_api \<Rightarrow> ('d \<Rightarrow> rat) \<Rightarrow> bool" where
  "exact_products D val \<longleftrightarrow> (\<forall>a b c. d_mul D a b = Some c \<longrightarrow> val c = val a * val b)
     \<and> (\<forall>a. d_is_sign_negative D a \<longrightarrow> val a \<le> 0)"

definition worth :: "('d \<Rightarrow> rat) \<Rightarrow> (string \<times> 'd) list \<Rightarrow> rat" where
  "worth val xs = sum_list (map (\<lambda>(_, x). val x) xs)"

lemma try_sum_exact:
  "exact D val \<Longrightarrow> try_sum D acc xs = Some t \<Longrightarrow> val t = val acc + sum_list (map val xs)"
  by (induction xs arbitrary: acc) (auto simp: bind_eq_Some_conv exact_def add.assoc)

lemma plan_deltas_Cons:
  assumes "exact D val" and "exact_products D val" and "plan_deltas D t values ((a, w) # ts) = Some plan"
  obtains delta rest where "plan_deltas D t values ts = Some rest"
    "plan = (if \<not> d_is_zero D delta then (a, delta) # rest else rest)"
    "val delta = val t * val w - val (value_of D values a)"
  using assms by (auto simp: bind_eq_Some_conv exact_def exact_products_def)

lemma plan_deltas_worth:
  assumes "faithful D val" and "exact D val" and "exact_products D val"
  shows "plan_deltas D t values ts = Some plan \<Longrightarrow>
    worth val plan = val t * worth val ts - sum_list (map (\<lambda>(a, _). val (value_of D values a)) ts)"
proof (induction ts arbitrary: plan)
  case (Cons x ts)
  obtain a w where x: "x = (a, w)" by fastforce
  obtain delta rest where d: "plan_deltas D t values ts = Some rest"
      "plan = (if \<not> d_is_zero D delta then (a, delta) # rest else rest)"
      "val delta = val t * val w - val (value_of D values a)"
    using plan_deltas_Cons [OF assms(2,3) Cons.prems [unfolded x]] .
  have "worth val plan = val delta + worth val rest" using d(2) faithfulD(2) [OF assms(1), of delta] by (auto simp: worth_def)
  then show ?case using Cons.IH [OF d(1)] d(3) by (simp add: x worth_def algebra_simps)
qed (simp add: worth_def)

lemma plan_deltas_value:
  assumes "faithful D val" and "exact D val" and "exact_products D val"
  shows "plan_deltas D t values ts = Some plan \<Longrightarrow> distinct (map fst ts) \<Longrightarrow>
    fst ` set plan \<subseteq> fst ` set ts
    \<and> (\<forall>(a, w) \<in> set ts. val (value_of D plan a) = val t * val w - val (value_of D values a))"
proof (induction ts arbitrary: plan)
  case (Cons x ts)
  obtain a w where x: "x = (a, w)" by fastforce
  obtain delta rest where d: "plan_deltas D t values ts = Some rest"
      "plan = (if \<not> d_is_zero D delta then (a, delta) # rest else rest)"
      "val delta = val t * val w - val (value_of D values a)"
    using plan_deltas_Cons [OF assms(2,3) Cons.prems(1) [unfolded x]] .
  have IH: "fst ` set rest \<subseteq> fst ` set ts"
      "\<And>b u. (b, u) \<in> set ts \<Longrightarrow> val (value_of D rest b) = val t * val u - val (value_of D values b)"
    using Cons.IH [OF d(1)] Cons.prems(2) by auto
  have a: "a \<notin> fst ` set ts" using Cons.prems(2) x by simp
  have "map_of rest a = None" using a IH(1) by (auto simp: map_of_eq_None_iff)
  then have "val (value_of D plan a) = val delta"
    using d(2) faithfulD(2,3) [OF assms(1)] by (auto simp: value_of_def)
  moreover have "value_of D plan b = value_of D rest b" if "(b, u) \<in> set ts" for b u
    using that a d(2) by (force simp: value_of_def)
  ultimately show ?case using IH d(2,3) x by auto
qed simp

lemma worth_by_key:
  assumes "distinct (map fst values)" and "map fst ts = map fst values"
  shows "sum_list (map (\<lambda>(a, _). val (value_of D values a)) ts) = worth val values"
proof -
  have "map (\<lambda>(a, _). val (value_of D values a)) ts = map (\<lambda>a. val (value_of D values a)) (map fst ts)"
    by (simp add: case_prod_unfold)
  also have "\<dots> = map (\<lambda>(_, x). val x) values"
    using assms(1) unfolding assms(2) by (auto simp: value_of_def)
  finally show ?thesis by (simp add: worth_def)
qed



end
