(* ===== verification/Arbitrage.thy ===== *)
theory Arbitrage
  imports Cross_Makers
begin

text \<open>
  The strategies that trade a price difference or hedge a position (\<open>strategies/stat_arb\<close>,
  \<open>spot_perp_arb\<close>, \<open>amm_arb\<close>, \<open>basis_mm\<close>, \<open>apt_mm\<close>, \<open>liquidity_mining\<close>, \<open>hedge\<close>) and the
  directional strategy \<open>dman_v3\<close>.
\<close>

section \<open>Prices and legs\<close>

definition fetch_price ::
  "('v, 'm, 'd) strategy_ports \<Rightarrow> exchange_id \<Rightarrow> string \<Rightarrow> (('v, 'p) maker_state, 'd) poll" where
  "fetch_price P ex symbol = read_last P ex symbol (''no price for '' @ symbol)"

definition leg :: "string \<Rightarrow> bool \<Rightarrow> 'd \<Rightarrow> 'd \<Rightarrow> 'd quote" where
  "leg tag is_buy price qty = \<lparr>qu_prefix = tag, qu_is_buy = is_buy, qu_price = price, qu_qty = qty\<rparr>"

section \<open>Statistical arbitrage\<close>

record 'd stat_arb_config =
  sa_common :: common_params
  sa_symbol_a :: string
  sa_symbol_b :: string
  sa_hedge_ratio :: 'd
  sa_window :: u64
  sa_entry_threshold :: 'd
  sa_exit_threshold :: 'd
  sa_qty :: 'd

definition stat_arb_default :: "'d decimal_api \<Rightarrow> common_params \<Rightarrow> string \<Rightarrow> string \<Rightarrow> 'd stat_arb_config" where
  "stat_arb_default D c a b = \<lparr>sa_common = c, sa_symbol_a = a, sa_symbol_b = b, sa_hedge_ratio = d_one D, sa_window = 50,
     sa_entry_threshold = d_of_int D 2, sa_exit_threshold = d_new D 5 1, sa_qty = d_one D\<rparr>"

text \<open>The spread tracker is a rolling window with the statistics of \<open>pmm_dynamic\<close>.\<close>

definition rolling_z_score :: "'d decimal_api \<Rightarrow> 'd list \<Rightarrow> 'd \<Rightarrow> 'd option option" where
  "rolling_z_score D buf x =
     checked (rolling_mean D buf) (\<lambda>mean. do {
       stdev \<leftarrow> rolling_stdev D buf;
       case stdev of
         None \<Rightarrow> Some None
       | Some sd \<Rightarrow>
           if d_is_zero D sd then Some None
           else do { diff \<leftarrow> d_sub D x mean; z \<leftarrow> d_div D diff sd; Some (Some z) }
     })"

datatype stat_arb_signal = LongSpread | ShortSpread | CloseSpread | NoSpreadTrade

definition classify_stat_arb :: "'d decimal_api \<Rightarrow> 'd option \<Rightarrow> 'd \<Rightarrow> 'd \<Rightarrow> bool \<Rightarrow> stat_arb_signal" where
  "classify_stat_arb D z entry_threshold exit_threshold has_position = (case z of
       None \<Rightarrow> NoSpreadTrade
     | Some z \<Rightarrow>
         if has_position then if d_gt D exit_threshold (d_abs D z) then CloseSpread else NoSpreadTrade
         else if d_gt D z entry_threshold then ShortSpread
         else if d_gt D (d_neg D entry_threshold) z then LongSpread
         else NoSpreadTrade)"

record 'd stat_arb_state =
  sb_tracker :: "'d vol_tracker"
  sb_position :: int

definition stat_arb_new :: "'d stat_arb_config \<Rightarrow> 'd stat_arb_state" where
  "stat_arb_new cfg = \<lparr>sb_tracker = vol_new (sa_window cfg), sb_position = 0\<rparr>"

text \<open>Both legs at the last prices; a refused leg is logged and the position is noted all the same.\<close>

definition stat_arb_trade ::
  "('v, 'm, 'd) strategy_ports \<Rightarrow> 'd stat_arb_config \<Rightarrow> 'd \<Rightarrow> 'd \<Rightarrow> bool \<Rightarrow> bool \<Rightarrow> int
   \<Rightarrow> (('v, 'd stat_arb_state) maker_state, unit) poll" where
  "stat_arb_trade P cfg price_a price_b side_a side_b position =
     (let ex = proto_exchange_id (sa_common cfg)
      in poll_bind (place_quote P ex (sa_symbol_a cfg) (leg ''staab-'' side_a price_a (sa_qty cfg))) (\<lambda>_.
         poll_bind (poll_pure (d_mul (sp_decimal P) (sa_qty cfg) (sa_hedge_ratio cfg))) (\<lambda>qty_b.
         poll_bind (place_quote P ex (sa_symbol_b cfg) (leg ''staab-'' side_b price_b qty_b)) (\<lambda>_.
         poll_bind poll_own (\<lambda>own. poll_set (own\<lparr>sb_position := position\<rparr>))))))"

definition stat_arb_tick ::
  "('v, 'm, 'd) strategy_ports \<Rightarrow> 'd stat_arb_config \<Rightarrow> u64 \<Rightarrow> (('v, 'd stat_arb_state) maker_state, unit) poll" where
  "stat_arb_tick P cfg now =
     (let D = sp_decimal P; ex = proto_exchange_id (sa_common cfg)
      in poll_bind (fetch_price P ex (sa_symbol_a cfg)) (\<lambda>price_a.
         poll_bind (fetch_price P ex (sa_symbol_b cfg)) (\<lambda>price_b.
         poll_bind (poll_pure (do { m \<leftarrow> d_mul D (sa_hedge_ratio cfg) price_b; d_sub D price_a m })) (\<lambda>spread.
         poll_bind poll_own (\<lambda>own.
         poll_bind (poll_set (own\<lparr>sb_tracker := vol_push spread (sb_tracker own)\<rparr>)) (\<lambda>_.
         poll_bind (poll_pure (rolling_z_score D (vt_buf (vol_push spread (sb_tracker own))) spread)) (\<lambda>z.
         case classify_stat_arb D z (sa_entry_threshold cfg) (sa_exit_threshold cfg) (sb_position own \<noteq> 0) of
           NoSpreadTrade \<Rightarrow> poll_done
         | LongSpread \<Rightarrow> stat_arb_trade P cfg price_a price_b True False 1
         | ShortSpread \<Rightarrow> stat_arb_trade P cfg price_a price_b False True (- 1)
         | CloseSpread \<Rightarrow> stat_arb_trade P cfg price_a price_b (sb_position own < 0) (sb_position own > 0) 0)))))))"

section \<open>Spot against perpetual\<close>

record 'd spot_perp_config =
  sx_venues :: cross_venue_params
  sx_spot_symbol :: string
  sx_perp_symbol :: string
  sx_entry_threshold :: 'd
  sx_exit_threshold :: 'd
  sx_qty :: 'd

definition spot_perp_default :: "'d decimal_api \<Rightarrow> cross_venue_params \<Rightarrow> string \<Rightarrow> string \<Rightarrow> 'd spot_perp_config" where
  "spot_perp_default D v spot perp = \<lparr>sx_venues = v, sx_spot_symbol = spot, sx_perp_symbol = perp,
     sx_entry_threshold = d_new D 1 2, sx_exit_threshold = d_new D 2 3, sx_qty = d_one D\<rparr>"

datatype basis_arb_signal = ShortPerpLongSpot | LongPerpShortSpot | CloseBasis | NoBasisTrade

definition compute_basis :: "'d decimal_api \<Rightarrow> 'd \<Rightarrow> 'd \<Rightarrow> 'd option option" where
  "compute_basis D spot_price perp_price =
     (if \<not> d_gt D spot_price (d_zero D) \<or> \<not> d_gt D perp_price (d_zero D) then Some None
      else do { diff \<leftarrow> d_sub D perp_price spot_price; b \<leftarrow> d_div D diff spot_price; Some (Some b) })"

definition classify_basis_arb :: "'d decimal_api \<Rightarrow> 'd option \<Rightarrow> 'd \<Rightarrow> 'd \<Rightarrow> bool \<Rightarrow> basis_arb_signal" where
  "classify_basis_arb D basis entry_threshold exit_threshold has_position = (case basis of
       None \<Rightarrow> NoBasisTrade
     | Some b \<Rightarrow>
         if has_position then if d_gt D exit_threshold (d_abs D b) then CloseBasis else NoBasisTrade
         else if d_gt D b entry_threshold then ShortPerpLongSpot
         else if d_gt D (d_neg D entry_threshold) b then LongPerpShortSpot
         else NoBasisTrade)"

definition spot_perp_open ::
  "('v, 'm, 'd) strategy_ports \<Rightarrow> 'd spot_perp_config \<Rightarrow> 'd \<Rightarrow> 'd \<Rightarrow> bool \<Rightarrow> (('v, bool) maker_state, unit) poll" where
  "spot_perp_open P cfg spot perp buy_spot =
     poll_bind (place_quote P (venue_proto (xv_primary (sx_venues cfg))) (sx_spot_symbol cfg) (leg ''spab-'' buy_spot spot (sx_qty cfg))) (\<lambda>_.
     poll_bind (place_quote P (venue_proto (xv_hedge (sx_venues cfg))) (sx_perp_symbol cfg) (leg ''spab-'' (\<not> buy_spot) perp (sx_qty cfg))) (\<lambda>_.
     poll_set True))"

definition spot_perp_tick ::
  "('v, 'm, 'd) strategy_ports \<Rightarrow> 'd spot_perp_config \<Rightarrow> u64 \<Rightarrow> (('v, bool) maker_state, unit) poll" where
  "spot_perp_tick P cfg now =
     (let D = sp_decimal P
      in poll_bind (fetch_price P (venue_proto (xv_primary (sx_venues cfg))) (sx_spot_symbol cfg)) (\<lambda>spot.
         poll_bind (fetch_price P (venue_proto (xv_hedge (sx_venues cfg))) (sx_perp_symbol cfg)) (\<lambda>perp.
         poll_bind (poll_pure (compute_basis D spot perp)) (\<lambda>basis.
         poll_bind poll_own (\<lambda>has_pos.
         case classify_basis_arb D basis (sx_entry_threshold cfg) (sx_exit_threshold cfg) has_pos of
           NoBasisTrade \<Rightarrow> poll_done
         | ShortPerpLongSpot \<Rightarrow> spot_perp_open P cfg spot perp True
         | LongPerpShortSpot \<Rightarrow> spot_perp_open P cfg spot perp False
         | CloseBasis \<Rightarrow> poll_set False)))))"

section \<open>Pool against order book\<close>

record 'd amm_arb_config =
  aa_venues :: cross_venue_params
  aa_threshold :: 'd
  aa_gas_cost :: 'd
  aa_max_qty :: 'd
  aa_min_profit :: 'd

definition amm_arb_default :: "'d decimal_api \<Rightarrow> cross_venue_params \<Rightarrow> 'd amm_arb_config" where
  "amm_arb_default D v = \<lparr>aa_venues = v, aa_threshold = d_new D 5 3, aa_gas_cost = d_new D 1 3, aa_max_qty = d_one D,
     aa_min_profit = d_one D\<rparr>"

datatype arb_signal = BuyCexSellAmm | BuyAmmSellCex | NoArb

definition detect_arb :: "'d decimal_api \<Rightarrow> 'd \<Rightarrow> 'd \<Rightarrow> 'd \<Rightarrow> 'd \<Rightarrow> arb_signal option option" where
  "detect_arb D cex_price amm_price threshold gas_cost =
     (if \<not> d_gt D cex_price (d_zero D) \<or> \<not> d_gt D amm_price (d_zero D) then Some None
      else do {
        diff \<leftarrow> d_sub D cex_price amm_price;
        spread \<leftarrow> d_div D (d_abs D diff) (d_min D cex_price amm_price);
        total_cost \<leftarrow> d_add D threshold gas_cost;
        Some (Some (if d_gt D total_cost spread then NoArb
                    else if d_gt D amm_price cex_price then BuyCexSellAmm else BuyAmmSellCex))
      })"

definition arb_qty :: "'d decimal_api \<Rightarrow> 'd \<Rightarrow> 'd \<Rightarrow> 'd \<Rightarrow> 'd \<Rightarrow> 'd \<Rightarrow> 'd option option" where
  "arb_qty D cex_price amm_price available_depth max_qty min_profit =
     (if \<not> d_gt D cex_price (d_zero D) \<or> \<not> d_gt D amm_price (d_zero D) then Some None
      else do {
        diff \<leftarrow> d_sub D cex_price amm_price;
        if d_is_zero D (d_abs D diff) then Some None
        else do {
          min_qty \<leftarrow> d_div D min_profit (d_abs D diff);
          Some (if d_gt D min_qty max_qty then None else Some (d_min D (d_min D min_qty max_qty) available_depth))
        }
      })"

text \<open>Without a profitable quantity the maximum is traded.\<close>

definition amm_quantity :: "'d decimal_api \<Rightarrow> 'd amm_arb_config \<Rightarrow> 'd \<Rightarrow> 'd \<Rightarrow> 'd option" where
  "amm_quantity D cfg cex_price amm_price =
     map_option (\<lambda>q. case q of None \<Rightarrow> aa_max_qty cfg | Some q \<Rightarrow> q)
       (arb_qty D cex_price amm_price (aa_max_qty cfg) (aa_max_qty cfg) (aa_min_profit cfg))"

definition amm_arb_tick ::
  "('v, 'm, 'd) strategy_ports \<Rightarrow> 'd amm_arb_config \<Rightarrow> u64 \<Rightarrow> (('v, unit) maker_state, unit) poll" where
  "amm_arb_tick P cfg now =
     (let D = sp_decimal P; cex = venue_proto (xv_primary (aa_venues cfg)); amm = venue_proto (xv_hedge (aa_venues cfg));
          symbol = xv_symbol (aa_venues cfg)
      in poll_bind (fetch_price P cex symbol) (\<lambda>cex_price.
         poll_bind (fetch_price P amm symbol) (\<lambda>amm_price.
         poll_bind (poll_pure (detect_arb D cex_price amm_price (aa_threshold cfg) (aa_gas_cost cfg))) (\<lambda>signal.
         case signal of
           Some BuyCexSellAmm \<Rightarrow>
             poll_bind (poll_pure (amm_quantity D cfg cex_price amm_price)) (\<lambda>qty.
             poll_bind (place_quote P cex symbol (leg ''ammab-'' True cex_price qty)) (\<lambda>_.
             poll_bind (place_quote P amm symbol (leg ''ammab-'' False amm_price qty)) (\<lambda>_. poll_done)))
         | Some BuyAmmSellCex \<Rightarrow>
             poll_bind (poll_pure (amm_quantity D cfg cex_price amm_price)) (\<lambda>qty.
             poll_bind (place_quote P amm symbol (leg ''ammab-'' True amm_price qty)) (\<lambda>_.
             poll_bind (place_quote P cex symbol (leg ''ammab-'' False cex_price qty)) (\<lambda>_. poll_done)))
         | _ \<Rightarrow> poll_done))))"

section \<open>Basis maker\<close>

record 'd basis_config =
  bs_common :: common_params
  bs_perp_symbol :: string
  bs_window :: u64
  bs_threshold :: 'd
  bs_qty :: 'd
  bs_half_spread :: 'd
  bs_maker_levels :: u32
  bs_maker_qty :: 'd

definition basis_default :: "'d decimal_api \<Rightarrow> common_params \<Rightarrow> string \<Rightarrow> 'd basis_config" where
  "basis_default D c perp = \<lparr>bs_common = c, bs_perp_symbol = perp, bs_window = 50, bs_threshold = d_one D, bs_qty = d_new D 1 3,
     bs_half_spread = d_new D 1 3, bs_maker_levels = 3, bs_maker_qty = d_new D 1 3\<rparr>"

datatype basis_signal = SellBasis | BuyBasis | NeutralBasis

definition classify_basis :: "'d decimal_api \<Rightarrow> 'd option \<Rightarrow> 'd \<Rightarrow> basis_signal" where
  "classify_basis D z threshold = (case z of
       None \<Rightarrow> NeutralBasis
     | Some z \<Rightarrow> if d_gt D z threshold then SellBasis else if d_gt D (d_neg D threshold) z then BuyBasis else NeutralBasis)"

text \<open>A ladder a multiple of the half spread away from a fair value, shared with \<open>apt_mm\<close>.\<close>

definition ladder_level :: "'d decimal_api \<Rightarrow> 'd \<Rightarrow> 'd \<Rightarrow> nat \<Rightarrow> ('d \<times> 'd) option" where
  "ladder_level D fair half_spread i = do {
     dist \<leftarrow> d_mul D half_spread (d_u32 D i); bid \<leftarrow> below D fair dist; ask \<leftarrow> above D fair dist; Some (bid, ask) }"

definition even_ladder :: "'d decimal_api \<Rightarrow> 'd \<Rightarrow> 'd \<Rightarrow> u32 \<Rightarrow> ('d list \<times> 'd list) option" where
  "even_ladder D fair half_spread levels =
     map_option (\<lambda>rungs. (map fst rungs, map snd rungs))
       (collect_options (map (ladder_level D fair half_spread) [1..<Suc (unat levels)]))"

definition basis_maker_quotes :: "'d decimal_api \<Rightarrow> 'd \<Rightarrow> 'd \<Rightarrow> 'd \<Rightarrow> u32 \<Rightarrow> ('d list \<times> 'd list) option option" where
  "basis_maker_quotes D spot perp half_spread levels =
     (if \<not> d_gt D spot (d_zero D) \<or> \<not> d_gt D perp (d_zero D) \<or> d_gt D (d_zero D) half_spread then Some None
      else map_option Some (even_ladder D perp half_spread levels))"

definition basis_bollinger_sizing :: "'d decimal_api \<Rightarrow> 'd list \<Rightarrow> 'd \<Rightarrow> ('d \<times> 'd) option option" where
  "basis_bollinger_sizing D closes mult =
     map_option (map_option (\<lambda>bands. (ba_upper bands, ba_lower bands))) (bollinger_compute D closes mult)"

record 'd basis_state =
  bt_roller :: "'d vol_tracker"
  bt_position :: int

text \<open>The three actions have no effect on the venue.\<close>

definition place_basis_trade :: "bool \<Rightarrow> (('v, 'p) maker_state, unit) poll" where
  "place_basis_trade buy_perp = poll_done"

definition close_basis_position :: "int \<Rightarrow> (('v, 'p) maker_state, unit) poll" where
  "close_basis_position pos = poll_done"

definition place_maker_ladder :: "'d list \<Rightarrow> 'd list \<Rightarrow> (('v, 'p) maker_state, unit) poll" where
  "place_maker_ladder bids asks = poll_done"

definition basis_tick ::
  "('v, 'm, 'd) strategy_ports \<Rightarrow> 'd basis_config \<Rightarrow> u64 \<Rightarrow> (('v, 'd basis_state) maker_state, unit) poll" where
  "basis_tick P cfg now =
     (let D = sp_decimal P; ex = proto_exchange_id (bs_common cfg)
      in poll_bind (fetch_price P ex (cp_symbol (bs_common cfg))) (\<lambda>spot.
         poll_bind (fetch_price P ex (bs_perp_symbol cfg)) (\<lambda>perp.
         poll_bind (poll_pure (d_sub D perp spot)) (\<lambda>basis.
         poll_bind poll_own (\<lambda>own.
         poll_bind (poll_set (own\<lparr>bt_roller := vol_push basis (bt_roller own)\<rparr>)) (\<lambda>_.
         poll_bind (poll_pure (rolling_z_score D (vt_buf (vol_push basis (bt_roller own))) basis)) (\<lambda>z.
         poll_bind poll_own (\<lambda>own.
         poll_bind (case classify_basis D z (bs_threshold cfg) of
             SellBasis \<Rightarrow> if bt_position own \<le> 0 then poll_bind (place_basis_trade False) (\<lambda>_. poll_set (own\<lparr>bt_position := - 1\<rparr>)) else poll_done
           | BuyBasis \<Rightarrow> if bt_position own \<ge> 0 then poll_bind (place_basis_trade True) (\<lambda>_. poll_set (own\<lparr>bt_position := 1\<rparr>)) else poll_done
           | NeutralBasis \<Rightarrow> if bt_position own \<noteq> 0 then poll_bind (close_basis_position (bt_position own)) (\<lambda>_. poll_set (own\<lparr>bt_position := 0\<rparr>)) else poll_done) (\<lambda>_.
         poll_bind (poll_pure (basis_maker_quotes D spot perp (bs_half_spread cfg) (bs_maker_levels cfg))) (\<lambda>ladder.
         case ladder of
           None \<Rightarrow> poll_done
         | Some (bids, asks) \<Rightarrow> place_maker_ladder bids asks))))))))))"

section \<open>Regression maker\<close>

record 'd apt_config =
  ap_common :: common_params
  ap_lead_symbol :: string
  ap_lag_symbol :: string
  ap_window :: u64
  ap_threshold :: 'd
  ap_qty :: 'd
  ap_half_spread :: 'd
  ap_levels :: u32
  ap_maker_qty :: 'd

definition apt_default :: "'d decimal_api \<Rightarrow> common_params \<Rightarrow> string \<Rightarrow> string \<Rightarrow> 'd apt_config" where
  "apt_default D c lead lag = \<lparr>ap_common = c, ap_lead_symbol = lead, ap_lag_symbol = lag, ap_window = 50, ap_threshold = d_one D,
     ap_qty = d_new D 1 3, ap_half_spread = d_new D 1 3, ap_levels = 3, ap_maker_qty = d_new D 1 3\<rparr>"

text \<open>The two windows of returns are pushed and popped together: pairs, lead first.\<close>

record 'd apt_regression =
  rg_window :: u64
  rg_pairs :: "('d \<times> 'd) list"

record 'd apt_model =
  am_alpha :: 'd
  am_beta :: 'd
  am_residual :: 'd

definition regression_new :: "u64 \<Rightarrow> 'd apt_regression" where
  "regression_new window = \<lparr>rg_window = window, rg_pairs = []\<rparr>"

definition regression_push :: "'d \<Rightarrow> 'd \<Rightarrow> 'd apt_regression \<Rightarrow> 'd apt_regression" where
  "regression_push lead_ret lag_ret r = r\<lparr>rg_pairs := window_push (unat (rg_window r)) (lead_ret, lag_ret) (rg_pairs r)\<rparr>"

text \<open>The differences are checked, the products and sums are not.\<close>

fun apt_moments :: "'d decimal_api \<Rightarrow> 'd \<Rightarrow> 'd \<Rightarrow> 'd \<times> 'd \<Rightarrow> ('d \<times> 'd) list \<Rightarrow> ('d \<times> 'd) option option" where
  "apt_moments D mean_y mean_x acc [] = Some (Some acc)"
| "apt_moments D mean_y mean_x (cov, var_x) ((y, x) # pairs) =
     checked (d_sub D y mean_y) (\<lambda>dy. checked (d_sub D x mean_x) (\<lambda>dx. do {
       c \<leftarrow> d_mul D dy dx; cov \<leftarrow> d_add D cov c;
       v \<leftarrow> d_mul D dx dx; var_x \<leftarrow> d_add D var_x v;
       apt_moments D mean_y mean_x (cov, var_x) pairs
     }))"

definition regression_model :: "'d decimal_api \<Rightarrow> 'd apt_regression \<Rightarrow> 'd apt_model option option" where
  "regression_model D r =
     (let pairs = rg_pairs r; n_d = d_of_int D (int (length pairs))
      in if length pairs < 2 then Some None
         else checked (try_sum D (d_zero D) (map fst pairs)) (\<lambda>sum_y. do {
           mean_y \<leftarrow> d_div D sum_y n_d;
           checked (try_sum D (d_zero D) (map snd pairs)) (\<lambda>sum_x. do {
             mean_x \<leftarrow> d_div D sum_x n_d;
             moments \<leftarrow> apt_moments D mean_y mean_x (d_zero D, d_zero D) pairs;
             case moments of
               None \<Rightarrow> Some None
             | Some (cov, var_x) \<Rightarrow>
                 if d_is_zero D var_x then Some None
                 else checked (d_div D cov var_x) (\<lambda>beta.
                      checked (d_mul D beta mean_x) (\<lambda>bx.
                      checked (d_sub D mean_y bx) (\<lambda>alpha.
                      checked (d_mul D beta (snd (last pairs))) (\<lambda>bl.
                      checked (d_add D alpha bl) (\<lambda>predicted.
                      checked (d_sub D (fst (last pairs)) predicted) (\<lambda>residual.
                        Some (Some \<lparr>am_alpha = alpha, am_beta = beta, am_residual = residual\<rparr>)))))))
           })
         }))"

definition simple_return :: "'d decimal_api \<Rightarrow> 'd \<Rightarrow> 'd \<Rightarrow> 'd option" where
  "simple_return D prev price =
     (if \<not> d_gt D prev (d_zero D) then None else do { diff \<leftarrow> d_sub D price prev; d_div D diff prev })"

datatype apt_signal = SellLead | BuyLead | NeutralLead

definition classify_apt :: "'d decimal_api \<Rightarrow> 'd \<Rightarrow> 'd \<Rightarrow> 'd \<Rightarrow> apt_signal option" where
  "classify_apt D residual threshold residual_scale =
     (if d_is_zero D residual_scale \<or> d_is_zero D threshold then Some NeutralLead
      else do {
        z \<leftarrow> d_div D residual residual_scale;
        Some (if d_gt D z threshold then SellLead else if d_gt D (d_neg D threshold) z then BuyLead else NeutralLead)
      })"

definition plan_apt_ladder :: "'d decimal_api \<Rightarrow> 'd \<Rightarrow> 'd \<Rightarrow> u32 \<Rightarrow> ('d list \<times> 'd list) option option" where
  "plan_apt_ladder D fair half_spread levels =
     (if \<not> d_gt D fair (d_zero D) \<or> d_gt D (d_zero D) half_spread then Some None
      else map_option Some (even_ladder D fair half_spread levels))"

record 'd apt_state =
  at_regression :: "'d apt_regression"
  at_last_prices :: "('d \<times> 'd) option"
  at_position :: int

definition place_ladder :: "'d list \<Rightarrow> 'd list \<Rightarrow> (('v, 'p) maker_state, unit) poll" where
  "place_ladder bids asks = poll_done"

definition apt_quote ::
  "('v, 'm, 'd) strategy_ports \<Rightarrow> 'd apt_config \<Rightarrow> 'd \<Rightarrow> 'd apt_regression \<Rightarrow> (('v, 'd apt_state) maker_state, unit) poll" where
  "apt_quote P cfg lag reg =
     (let D = sp_decimal P
      in poll_bind (poll_pure (regression_model D reg)) (\<lambda>model.
         case model of
           None \<Rightarrow> poll_done
         | Some m \<Rightarrow>
             poll_bind (poll_pure (classify_apt D (am_residual m) (ap_threshold cfg) (am_beta m))) (\<lambda>_.
             poll_bind (poll_pure (do { b \<leftarrow> d_mul D (am_beta m) lag; d_add D (am_alpha m) b })) (\<lambda>fair.
             poll_bind (poll_pure (plan_apt_ladder D fair (ap_half_spread cfg) (ap_levels cfg))) (\<lambda>ladder.
             case ladder of
               None \<Rightarrow> poll_done
             | Some (bids, asks) \<Rightarrow> place_ladder bids asks)))))"

definition apt_tick ::
  "('v, 'm, 'd) strategy_ports \<Rightarrow> 'd apt_config \<Rightarrow> u64 \<Rightarrow> (('v, 'd apt_state) maker_state, unit) poll" where
  "apt_tick P cfg now =
     (let D = sp_decimal P; ex = proto_exchange_id (ap_common cfg)
      in poll_bind (fetch_price P ex (ap_lead_symbol cfg)) (\<lambda>lead.
         poll_bind (fetch_price P ex (ap_lag_symbol cfg)) (\<lambda>lag.
         poll_bind poll_own (\<lambda>own.
         poll_bind (case at_last_prices own of
             None \<Rightarrow> poll_done
           | Some (lead_prev, lag_prev) \<Rightarrow>
               (let reg = regression_push (or_zero D (simple_return D lead_prev lead)) (or_zero D (simple_return D lag_prev lag))
                      (at_regression own)
                in poll_bind (poll_set (own\<lparr>at_regression := reg\<rparr>)) (\<lambda>_. apt_quote P cfg lag reg))) (\<lambda>_.
         poll_bind poll_own (\<lambda>own. poll_set (own\<lparr>at_last_prices := Some (lead, lag)\<rparr>)))))))"

section \<open>Liquidity mining\<close>

record 'd mining_config =
  lm_common :: common_params
  lm_range_k :: 'd
  lm_window :: u64
  lm_min_range :: 'd
  lm_max_range :: 'd

definition mining_default :: "'d decimal_api \<Rightarrow> common_params \<Rightarrow> 'd mining_config" where
  "mining_default D c = \<lparr>lm_common = c, lm_range_k = d_one D, lm_window = 20, lm_min_range = d_new D 1 2, lm_max_range = d_new D 5 1\<rparr>"

record 'd price_range =
  pr_lower :: 'd
  pr_upper :: 'd

text \<open>\<open>clamp\<close> panics on an empty range.\<close>

definition d_clamp :: "'d decimal_api \<Rightarrow> 'd \<Rightarrow> 'd \<Rightarrow> 'd \<Rightarrow> 'd option" where
  "d_clamp D x lo hi =
     (if d_gt D lo hi then None else Some (if d_gt D lo x then lo else if d_gt D x hi then hi else x))"

definition compute_range :: "'d decimal_api \<Rightarrow> 'd \<Rightarrow> 'd option \<Rightarrow> 'd \<Rightarrow> 'd \<Rightarrow> 'd \<Rightarrow> 'd price_range option option" where
  "compute_range D mid vol range_k min_range max_range =
     (if \<not> d_gt D mid (d_zero D) then Some None
      else do {
        kv \<leftarrow> d_mul D range_k (case vol of None \<Rightarrow> min_range | Some v \<Rightarrow> v);
        half_width \<leftarrow> d_clamp D kv min_range max_range;
        lower \<leftarrow> below D mid half_width;
        upper \<leftarrow> above D mid half_width;
        Some (Some \<lparr>pr_lower = lower, pr_upper = upper\<rparr>)
      })"

record 'd mining_state =
  mn_vol_est :: "'d vol_tracker"
  mn_last_mid :: "'d option"

definition mining_tick ::
  "('v, 'm, 'd) strategy_ports \<Rightarrow> 'd mining_config \<Rightarrow> u64 \<Rightarrow> (('v, 'd mining_state) maker_state, unit) poll" where
  "mining_tick P cfg now =
     (let D = sp_decimal P; ex = proto_exchange_id (lm_common cfg)
      in poll_bind (read_last P ex (cp_symbol (lm_common cfg)) ''no usable mid'') (\<lambda>mid.
         poll_bind poll_own (\<lambda>own.
         poll_bind (poll_pure (tracked_return D mid (mn_last_mid own) (mn_vol_est own))) (\<lambda>est.
         poll_bind (poll_set (own\<lparr>mn_last_mid := Some mid, mn_vol_est := est\<rparr>)) (\<lambda>_.
         poll_bind (poll_pure (rolling_stdev D (vt_buf est))) (\<lambda>_. poll_done))))))"

section \<open>Perpetual hedge\<close>

record 'd hedge_config =
  hd_venues :: cross_venue_params
  hd_spot_symbol :: string
  hd_perp_symbol :: string
  hd_threshold :: 'd
  hd_max_order_size :: 'd

definition hedge_default :: "'d decimal_api \<Rightarrow> cross_venue_params \<Rightarrow> string \<Rightarrow> string \<Rightarrow> 'd hedge_config" where
  "hedge_default D v spot perp = \<lparr>hd_venues = v, hd_spot_symbol = spot, hd_perp_symbol = perp, hd_threshold = d_new D 1 2,
     hd_max_order_size = d_one D\<rparr>"

definition compute_hedge_trade :: "'d decimal_api \<Rightarrow> 'd \<Rightarrow> 'd \<Rightarrow> 'd \<Rightarrow> ('d \<times> bool) option option" where
  "compute_hedge_trade D spot_position current_perp_position threshold =
     (let target_perp = d_neg D spot_position;
          position_size = d_max D (d_abs D spot_position) (d_abs D current_perp_position)
      in do {
        diff \<leftarrow> d_sub D target_perp current_perp_position;
        if d_is_zero D position_size then Some None
        else do {
          ratio \<leftarrow> d_div D (d_abs D diff) position_size;
          Some (if d_gt D threshold ratio then None
                else Some (d_abs D diff, d_gt D target_perp current_perp_position))
        }
      })"

definition hedge_tick ::
  "('v, 'm, 'd) strategy_ports \<Rightarrow> 'd hedge_config \<Rightarrow> u64 \<Rightarrow> (('v, 'd) maker_state, unit) poll" where
  "hedge_tick P cfg now =
     (let D = sp_decimal P; hedge = venue_proto (xv_hedge (hd_venues cfg))
      in poll_bind (fetch_price P (venue_proto (xv_primary (hd_venues cfg))) (hd_spot_symbol cfg)) (\<lambda>spot_price.
         poll_bind (fetch_price P hedge (hd_perp_symbol cfg)) (\<lambda>perp_price.
         poll_bind poll_own (\<lambda>perp_pos.
         poll_bind (poll_pure (compute_hedge_trade D (d_one D) perp_pos (hd_threshold cfg))) (\<lambda>trade.
         case trade of
           None \<Rightarrow> poll_done
         | Some (trade_qty, is_buy) \<Rightarrow>
             (let qty = d_min D trade_qty (hd_max_order_size cfg)
              in poll_bind (place_quote P hedge (hd_perp_symbol cfg) (leg ''hedge-'' is_buy perp_price qty)) (\<lambda>r.
                 case r of
                   Inl _ \<Rightarrow> poll_done
                 | Inr _ \<Rightarrow>
                     poll_bind (poll_pure (if is_buy then d_add D perp_pos qty else d_sub D perp_pos qty)) poll_set)))))))"

section \<open>Nested averages\<close>

record 'd dman_config =
  dm_common :: common_params
  dm_fast_window :: u64
  dm_slow_window :: u64
  dm_trend_window :: u64
  dm_qty :: 'd

definition dman_default :: "'d decimal_api \<Rightarrow> common_params \<Rightarrow> 'd dman_config" where
  "dman_default D c = \<lparr>dm_common = c, dm_fast_window = 9, dm_slow_window = 21, dm_trend_window = 50, dm_qty = d_one D\<rparr>"

datatype dman_call = DmanBuy | DmanSell | DmanNoTrade

definition dman_signal :: "'d decimal_api \<Rightarrow> 'd list \<Rightarrow> u64 \<Rightarrow> u64 \<Rightarrow> u64 \<Rightarrow> dman_call option" where
  "dman_signal D closes fast slow trend =
     (if length closes < unat (max (max trend slow) fast) then Some DmanNoTrade
      else do {
        f \<leftarrow> ema_of D fast closes; s \<leftarrow> ema_of D slow closes; t \<leftarrow> ema_of D trend closes;
        Some (case (f, s, t, last_of closes) of
          (Some f, Some s, Some t, Some last_close) \<Rightarrow>
            let trend_bullish = d_gt D last_close t
            in if d_gt D f s \<and> trend_bullish then DmanBuy
               else if d_gt D s f \<and> \<not> trend_bullish then DmanSell
               else DmanNoTrade
        | _ \<Rightarrow> DmanNoTrade)
      })"

definition dman_decide :: "'d decimal_api \<Rightarrow> 'd dman_config \<Rightarrow> candle list \<Rightarrow> bool \<Rightarrow> (bool \<times> bool) list option option" where
  "dman_decide D cfg candles has_pos = do {
     sig \<leftarrow> dman_signal D (closes_of D candles) (dm_fast_window cfg) (dm_slow_window cfg) (dm_trend_window cfg);
     Some (case sig of
       DmanBuy \<Rightarrow> if \<not> has_pos then Some [(True, True)] else None
     | DmanSell \<Rightarrow> if has_pos then Some [(False, False)] else None
     | DmanNoTrade \<Rightarrow> None)
   }"

definition dman_tick ::
  "('v, 'm, 'd) strategy_ports \<Rightarrow> 'd dman_config \<Rightarrow> u64 \<Rightarrow> ('v, bool) signal_state
   \<Rightarrow> (strategy_error + unit) option \<times> ('v, bool) signal_state" where
  "dman_tick P cfg = signal_tick P
     \<lparr>si_common = dm_common cfg, si_prefix = ''dmanv3-'', si_qty = dm_qty cfg, si_need = limit_or_200 (dm_trend_window cfg)\<rparr>
     (dman_decide (sp_decimal P) cfg)"

end
