(* ===== verification/Monitors.thy ===== *)
theory Monitors
  imports Cross_Makers
begin

unbundle bit_operations_syntax

text \<open>
  The strategies driven by a clock, a file, a funding rate or the health of the link
  (\<open>strategies/random_entry\<close>, \<open>dca_scheduler\<close>, \<open>irr\<close>, \<open>xfunding_lite\<close>, \<open>sentinel\<close>,
  \<open>premium_monitor\<close>).
\<close>

section \<open>Random entries\<close>

record 'd random_entry_config =
  re_common :: common_params
  re_interval_secs :: u64
  re_entry_probability :: 'd
  re_qty :: 'd
  re_seed :: u64

definition random_entry_default :: "'d decimal_api \<Rightarrow> common_params \<Rightarrow> 'd random_entry_config" where
  "random_entry_default D c = \<lparr>re_common = c, re_interval_secs = 60, re_entry_probability = d_new D 5 2, re_qty = d_new D 1 4,
     re_seed = 0x9E3779B97F4A7C15\<rparr>"

definition next_u64 :: "u64 \<Rightarrow> u64 \<times> u64" where
  "next_u64 state =
     (let state = state + 0x9E3779B97F4A7C15;
          z = (state XOR drop_bit 30 state) * 0xBF58476D1CE4E5B9;
          z = (z XOR drop_bit 27 z) * 0x94D049BB133111EB
      in (z XOR drop_bit 31 z, state))"

text \<open>The product is taken in 128 bits, its upper half read as \<open>i64\<close>: the units of the eighteenth decimal.\<close>

definition scaled_fraction :: "u64 \<Rightarrow> int" where
  "scaled_fraction x = sint (ucast (drop_bit 64 (ucast x * 1000000000000000000 :: 128 word)) :: 64 word)"

definition next_fraction :: "'d decimal_api \<Rightarrow> u64 \<Rightarrow> 'd \<times> u64" where
  "next_fraction D state = (let (x, state) = next_u64 state in (d_new D (scaled_fraction x) 18, state))"

definition random_decide :: "'d decimal_api \<Rightarrow> 'd \<Rightarrow> u64 \<Rightarrow> bool option \<times> u64" where
  "random_decide D probability state =
     (let (f, state) = next_fraction D state
      in if d_ge D f probability then (None, state)
         else let (x, state) = next_u64 state in (Some (x AND 1 = 0), state))"

definition random_entry_tick ::
  "('v, 'm, 'd) strategy_ports \<Rightarrow> 'd random_entry_config \<Rightarrow> u64 \<Rightarrow> (('v, u64) maker_state, unit) poll" where
  "random_entry_tick P cfg now =
     poll_bind poll_own (\<lambda>rng.
       (let (decision, rng) = random_decide (sp_decimal P) (re_entry_probability cfg) rng
        in poll_bind (poll_set rng) (\<lambda>_.
           case decision of
             None \<Rightarrow> poll_done
           | Some is_buy \<Rightarrow>
               send_hedge P (proto_exchange_id (re_common cfg)) (cp_symbol (re_common cfg)) ''random-'' is_buy (re_qty cfg))))"

section \<open>Scheduled accumulation\<close>

record 'd dca_scheduler_config =
  dw_common :: common_params
  dw_interval_secs :: u64
  dw_is_buy :: bool
  dw_qty :: 'd

definition dca_scheduler_default :: "'d decimal_api \<Rightarrow> common_params \<Rightarrow> 'd dca_scheduler_config" where
  "dca_scheduler_default D c = \<lparr>dw_common = c, dw_interval_secs = 86400, dw_is_buy = True, dw_qty = d_new D 1 3\<rparr>"

definition dca_scheduler_tick ::
  "('v, 'm, 'd) strategy_ports \<Rightarrow> 'd dca_scheduler_config \<Rightarrow> u64 \<Rightarrow> (('v, unit) maker_state, unit) poll" where
  "dca_scheduler_tick P cfg now =
     send_hedge P (proto_exchange_id (dw_common cfg)) (cp_symbol (dw_common cfg)) ''dca-'' (dw_is_buy cfg) (dw_qty cfg)"

section \<open>Predicted returns from a file\<close>

record 'd irr_config =
  ir_common :: common_params
  ir_signal_file :: string
  ir_entry_threshold :: 'd
  ir_qty :: 'd

definition irr_default :: "'d decimal_api \<Rightarrow> common_params \<Rightarrow> string \<Rightarrow> 'd irr_config" where
  "irr_default D c signal_file = \<lparr>ir_common = c, ir_signal_file = signal_file, ir_entry_threshold = d_new D 1 2, ir_qty = d_new D 1 3\<rparr>"

fun split_lines :: "string \<Rightarrow> string \<Rightarrow> string list" where
  "split_lines line [] = (if line = [] then [] else [line])"
| "split_lines line (c # cs) = (if c = CHR 0x0A then line # split_lines [] cs else split_lines (line @ [c]) cs)"

fun find_map :: "('a \<Rightarrow> 'b option) \<Rightarrow> 'a list \<Rightarrow> 'b option" where
  "find_map f [] = None"
| "find_map f (x # xs) = (case f x of None \<Rightarrow> find_map f xs | Some y \<Rightarrow> Some y)"

text \<open>The argument is the content of the file, if it can be read.\<close>

definition read_signal :: "'d decimal_api \<Rightarrow> string option \<Rightarrow> 'd option" where
  "read_signal D content = Option.bind content (\<lambda>c.
     find_map (\<lambda>line. let trimmed = trim line
       in if trimmed = [] then None else case d_parse D trimmed of Inl _ \<Rightarrow> None | Inr x \<Rightarrow> Some x)
       (rev (split_lines [] c)))"

definition irr_decide :: "'d decimal_api \<Rightarrow> 'd irr_config \<Rightarrow> 'd \<Rightarrow> bool \<Rightarrow> bool option" where
  "irr_decide D cfg sig held =
     (if \<not> held \<and> d_gt D sig (ir_entry_threshold cfg) then Some True
      else if held \<and> d_gt D (d_neg D (ir_entry_threshold cfg)) sig then Some False
      else None)"

text \<open>The flag is written only after the order was accepted.\<close>

definition switch_after_order ::
  "('v, 'm, 'd) strategy_ports \<Rightarrow> common_params \<Rightarrow> string \<Rightarrow> bool \<Rightarrow> 'd \<Rightarrow> 'p \<Rightarrow> (('v, 'p) maker_state, unit) poll" where
  "switch_after_order P c tag is_buy qty next_own =
     poll_bind (send_hedge P (proto_exchange_id c) (cp_symbol c) tag is_buy qty) (\<lambda>_. poll_set next_own)"

definition irr_tick ::
  "('v, 'm, 'd) strategy_ports \<Rightarrow> string option \<Rightarrow> 'd irr_config \<Rightarrow> u64 \<Rightarrow> (('v, bool) maker_state, unit) poll" where
  "irr_tick P content cfg now =
     (case read_signal (sp_decimal P) content of
        None \<Rightarrow> poll_done
      | Some sig \<Rightarrow> poll_bind poll_own (\<lambda>held.
          case irr_decide (sp_decimal P) cfg sig held of
            None \<Rightarrow> poll_done
          | Some is_held \<Rightarrow> switch_after_order P (ir_common cfg) ''irr-'' is_held (ir_qty cfg) is_held))"

section \<open>Funding carry\<close>

record 'd xfunding_config =
  xl_common :: common_params
  xl_enter_threshold :: 'd
  xl_exit_threshold :: 'd
  xl_qty :: 'd

definition xfunding_default :: "'d decimal_api \<Rightarrow> common_params \<Rightarrow> 'd xfunding_config" where
  "xfunding_default D c = \<lparr>xl_common = c, xl_enter_threshold = d_new D 1 4, xl_exit_threshold = d_new D 1 5, xl_qty = d_new D 1 3\<rparr>"

datatype carry_phase = CarryFlat | CarryShort

fun carry_next :: "'d decimal_api \<Rightarrow> 'd xfunding_config \<Rightarrow> 'd \<Rightarrow> carry_phase \<Rightarrow> carry_phase option" where
  "carry_next D cfg rate CarryFlat = (if d_ge D rate (xl_enter_threshold cfg) then Some CarryShort else None)"
| "carry_next D cfg rate CarryShort = (if d_gt D (xl_exit_threshold cfg) (d_abs D rate) then Some CarryFlat else None)"

definition xfunding_tick ::
  "('v, 'm, 'd) strategy_ports \<Rightarrow> ('v, 'd) funding_rate_source \<Rightarrow> 'd xfunding_config \<Rightarrow> u64
   \<Rightarrow> (('v, carry_phase) maker_state, unit) poll" where
  "xfunding_tick P funding cfg now =
     poll_bind (poll_call (\<lambda>v. fs_fetch_funding_rate funding v (proto_exchange_id (xl_common cfg)) (cp_symbol (xl_common cfg)))) (\<lambda>snap.
     poll_bind poll_own (\<lambda>phase.
     case carry_next (sp_decimal P) cfg (frs_rate snap) phase of
       None \<Rightarrow> poll_done
     | Some next_phase \<Rightarrow> switch_after_order P (xl_common cfg) ''xfund-'' (next_phase = CarryFlat) (xl_qty cfg) next_phase))"

section \<open>Sentinel\<close>

record sentinel_config =
  se_common :: common_params
  se_max_consecutive_failures :: u32

definition sentinel_default :: "common_params \<Rightarrow> sentinel_config" where
  "sentinel_default c = \<lparr>se_common = c, se_max_consecutive_failures = 3\<rparr>"

definition sentinel_from_params :: "strategy_error + sentinel_config \<Rightarrow> strategy_error + sentinel_config" where
  "sentinel_from_params parsed = (case parsed of
       Inl e \<Rightarrow> Inl e
     | Inr cfg \<Rightarrow> if se_max_consecutive_failures cfg = 0 then Inl (Bail ''max_consecutive_failures must be at least 1'') else Inr cfg)"

record health =
  he_failures :: u32
  he_armed :: bool

definition healthy :: health where "healthy = \<lparr>he_failures = 0, he_armed = False\<rparr>"

text \<open>The account is asked for with the default request \<open>account\<close>, and only when the ticker answered.\<close>

definition sentinel_probe ::
  "('v, 'm, 'd) strategy_ports \<Rightarrow> 'm account_request \<Rightarrow> sentinel_config \<Rightarrow> 'v \<Rightarrow> (port_error + unit) \<times> 'v" where
  "sentinel_probe P account cfg v =
     (case mds_fetch_ticker (sp_market P) v (proto_exchange_id (se_common cfg)) (cp_symbol (se_common cfg)) of
        (Inl e, v) \<Rightarrow> (Inl e, v)
      | (Inr _, v) \<Rightarrow> (case gw_account_call (sp_gateway P) v GetAccount account of
          (Inl e, v) \<Rightarrow> (Inl e, v)
        | (Inr _, v) \<Rightarrow> (Inr (), v)))"

definition sentinel_tick ::
  "('v, 'm, 'd) strategy_ports \<Rightarrow> 'm account_request \<Rightarrow> sentinel_config \<Rightarrow> u64 \<Rightarrow> (('v, health) maker_state, bool) poll" where
  "sentinel_tick P account cfg now =
     poll_bind (poll_try (sentinel_probe P account cfg)) (\<lambda>probe.
     poll_bind poll_own (\<lambda>health.
     case probe of
       Inr _ \<Rightarrow> poll_bind (poll_set healthy) (\<lambda>_. poll_pure (Some True))
     | Inl err \<Rightarrow>
         (let n = he_failures health + 1;
              fire = (n \<ge> se_max_consecutive_failures cfg \<and> \<not> he_armed health);
              health = health\<lparr>he_failures := n, he_armed := he_armed health \<or> fire\<rparr>
          in poll_bind (poll_set health) (\<lambda>_.
             if \<not> fire then poll_pure (Some False)
             else poll_bind (poll_try (strategy_cancel_all_orders (sp_gateway P) (proto_exchange_id (se_common cfg)) '''')) (\<lambda>r.
                  case r of
                    Inl err \<Rightarrow> poll_bind (poll_set (health\<lparr>he_armed := False\<rparr>)) (\<lambda>_. poll_fail (PortFailure err))
                  | Inr _ \<Rightarrow> poll_pure (Some False))))))"

section \<open>Premium monitor\<close>

record 'd premium_config =
  pm_venues :: cross_venue_params
  pm_alert_threshold :: 'd

text \<open>Checked arithmetic: a quotient that does not fit is no premium.\<close>

definition premium :: "'d decimal_api \<Rightarrow> 'd \<Rightarrow> 'd \<Rightarrow> 'd option" where
  "premium D primary hedge =
     (if d_is_zero D hedge \<or> d_is_zero D primary then None
      else do { q \<leftarrow> d_div D primary hedge; d_sub D q (d_one D) })"

definition ticker_last :: "('v, 'm, 'd) strategy_ports \<Rightarrow> exchange_id \<Rightarrow> string \<Rightarrow> (('v, 'p) maker_state, 'd) poll" where
  "ticker_last P ex symbol =
     poll_bind (poll_call (\<lambda>v. mds_fetch_ticker (sp_market P) v ex symbol)) (\<lambda>t s.
       (Some (case tk_last t of
          None \<Rightarrow> Inl (Bail ''ticker missing last price'')
        | Some w \<Rightarrow> map_err Conversion (common_to_decimal (d_parse (sp_decimal P)) w)), s))"

definition premium_tick ::
  "('v, 'm, 'd) strategy_ports \<Rightarrow> 'd premium_config \<Rightarrow> u64 \<Rightarrow> (('v, 'd option) maker_state, 'd option) poll" where
  "premium_tick P cfg now =
     (let venues = pm_venues cfg
      in poll_bind (ticker_last P (venue_proto (xv_primary venues)) (xv_symbol venues)) (\<lambda>p.
         poll_bind (ticker_last P (venue_proto (xv_hedge venues)) (xv_symbol venues)) (\<lambda>h.
         poll_bind (poll_set (premium (sp_decimal P) p h)) (\<lambda>_.
         poll_pure (Some (premium (sp_decimal P) p h))))))"

end
