(* ===== verification/Hedge_Grid.thy ===== *)
theory Hedge_Grid
  imports Cross_Makers
begin

text \<open>
  The hedged grid (\<open>strategies/hedge_grid\<close>) and the inventory-skewed grid
  (\<open>strategies/skewed_grid\<close>): ladders that remember what they placed and reconcile it with the
  venue.
\<close>

section \<open>Maps keyed by price\<close>

text \<open>
  A \<open>HashMap\<close> with decimal keys is a list of entries with keys that differ in value.  The order
  in which it is walked is unspecified: \<open>iter\<close>, an argument of the poll.
\<close>

definition hm_get :: "'d decimal_api \<Rightarrow> ('d \<times> 'a) list \<Rightarrow> 'd \<Rightarrow> 'a option" where
  "hm_get D m k = map_option snd (find (\<lambda>(k', _). d_eq D k' k) m)"

definition hm_insert :: "'d decimal_api \<Rightarrow> 'd \<Rightarrow> 'a \<Rightarrow> ('d \<times> 'a) list \<Rightarrow> ('d \<times> 'a) list" where
  "hm_insert D k x m =
     (case hm_get D m k of None \<Rightarrow> m @ [(k, x)] | Some _ \<Rightarrow> map (\<lambda>(k', y). if d_eq D k' k then (k', x) else (k', y)) m)"

section \<open>Hedged grid\<close>

record 'd hedge_grid_config =
  hg_venues :: cross_venue_params
  hg_lower_price :: 'd
  hg_upper_price :: 'd
  hg_num_levels :: u32
  hg_qty_per_level :: 'd

definition live_levels :: "'d decimal_api \<Rightarrow> order list \<Rightarrow> ('d \<times> bool) list" where
  "live_levels D orders = fold (\<lambda>ord live. case decoded D (o_price ord) of
       None \<Rightarrow> live
     | Some price \<Rightarrow> hm_insert D price (o_side ord = Known Buy) live) orders []"

text \<open>A refused hedge ends the poll.\<close>

fun hedge_fills ::
  "('v, 'm, 'd) strategy_ports \<Rightarrow> 'd hedge_grid_config \<Rightarrow> ('d \<times> bool) list \<Rightarrow> (('v, ('d \<times> bool) list) maker_state, unit) poll" where
  "hedge_fills P cfg [] = poll_done"
| "hedge_fills P cfg ((price, was_buy) # filled) =
     poll_bind (send_hedge P (venue_proto (xv_hedge (hg_venues cfg))) (xv_symbol (hg_venues cfg)) ''hg-hedge-'' (\<not> was_buy)
         (hg_qty_per_level cfg)) (\<lambda>_.
     hedge_fills P cfg filled)"

text \<open>
  The walk up the band, bounded by fuel: it ends when the price has passed the upper end.  A step
  that is lost to rounding never passes it; such a walk has no answer (\<open>None\<close>, as for a panic).
\<close>

fun hedge_grid_seed ::
  "nat \<Rightarrow> ('v, 'm, 'd) strategy_ports \<Rightarrow> 'd hedge_grid_config \<Rightarrow> 'd \<Rightarrow> 'd \<Rightarrow> ('d \<times> bool) list \<Rightarrow> 'd \<Rightarrow> ('d \<times> bool) list
   \<Rightarrow> (('v, ('d \<times> bool) list) maker_state, ('d \<times> bool) list) poll" where
  "hedge_grid_seed 0 P cfg mid step live price believed = poll_pure None"
| "hedge_grid_seed (Suc fuel) P cfg mid step live price believed =
     (let D = sp_decimal P; primary = venue_proto (xv_primary (hg_venues cfg)); symbol = xv_symbol (hg_venues cfg)
      in if d_gt D price (hg_upper_price cfg) then poll_pure (Some believed)
         else poll_bind (case hm_get D live price of
             Some resting_is_buy \<Rightarrow> poll_pure (Some resting_is_buy)
           | None \<Rightarrow>
               (let is_buy = d_gt D mid price
                in poll_bind (place_quote P primary symbol
                     \<lparr>qu_prefix = ''hg-'', qu_is_buy = is_buy, qu_price = price, qu_qty = hg_qty_per_level cfg\<rparr>) (\<lambda>r.
                   case r of Inl e \<Rightarrow> poll_fail (PortFailure e) | Inr _ \<Rightarrow> poll_pure (Some is_buy)))) (\<lambda>is_buy.
              poll_bind (poll_pure (d_add D price step)) (\<lambda>price'.
              hedge_grid_seed fuel P cfg mid step live price' (hm_insert D price is_buy believed))))"

text \<open>
  The believed ladder is taken out before the hedges are sent and written back at the very end.
\<close>

definition hedge_grid_tick ::
  "('v, 'm, 'd) strategy_ports \<Rightarrow> (('d \<times> bool) list \<Rightarrow> ('d \<times> bool) list) \<Rightarrow> nat \<Rightarrow> 'd hedge_grid_config \<Rightarrow> u64
   \<Rightarrow> (('v, ('d \<times> bool) list) maker_state, unit) poll" where
  "hedge_grid_tick P iter fuel cfg now =
     (let D = sp_decimal P; primary = venue_proto (xv_primary (hg_venues cfg)); symbol = xv_symbol (hg_venues cfg)
      in poll_bind (poll_call (\<lambda>v. mds_fetch_ticker (sp_market P) v primary symbol)) (\<lambda>t.
         poll_bind (\<lambda>s. (Some (optional_last D t), s)) (\<lambda>mid.
         if d_is_sign_negative D mid \<or> d_is_zero D mid then poll_done
         else if hg_num_levels cfg = 0 then poll_done
         else poll_bind (poll_pure (do {
                width \<leftarrow> d_sub D (hg_upper_price cfg) (hg_lower_price cfg); d_div D width (d_u32 D (unat (hg_num_levels cfg))) })) (\<lambda>step.
              if \<not> d_gt D step (d_zero D) then poll_done
              else poll_bind (poll_call (\<lambda>v. gw_fetch_open_orders (sp_gateway P) v
                     \<lparr>foo_exchange_id = Some primary, foo_symbol = symbol\<rparr>)) (\<lambda>open_orders.
                   (let live = live_levels D open_orders
                    in poll_bind poll_own (\<lambda>previous.
                       poll_bind (poll_set []) (\<lambda>_.
                       poll_bind (hedge_fills P cfg (filter (\<lambda>(price, _). hm_get D live price = None) (iter previous))) (\<lambda>_.
                       poll_bind (hedge_grid_seed fuel P cfg mid step live (hg_lower_price cfg) []) (\<lambda>believed.
                       poll_set believed))))))))))"

section \<open>Skewed grid\<close>

record 'd skewed_grid_config =
  kg_common :: common_params
  kg_grid_tick :: 'd
  kg_num_levels :: u32
  kg_qty_per_level :: 'd
  kg_gamma :: 'd
  kg_sigma :: 'd
  kg_time_horizon :: 'd
  kg_vol_window :: u64

definition skewed_grid_default :: "'d decimal_api \<Rightarrow> common_params \<Rightarrow> 'd \<Rightarrow> 'd \<Rightarrow> 'd skewed_grid_config" where
  "skewed_grid_default D c tick qty = \<lparr>kg_common = c, kg_grid_tick = tick, kg_num_levels = 5, kg_qty_per_level = qty,
     kg_gamma = d_new D 1 1, kg_sigma = d_one D, kg_time_horizon = d_one D, kg_vol_window = 20\<rparr>"

record 'd skewed_level =
  gv_price :: 'd
  gv_is_buy :: bool
  gv_order_id :: string

definition reservation_price :: "'d decimal_api \<Rightarrow> 'd \<Rightarrow> 'd \<Rightarrow> 'd \<Rightarrow> 'd \<Rightarrow> 'd \<Rightarrow> 'd option option" where
  "reservation_price D mid inventory gamma sigma time_horizon =
     (if d_gt D (d_zero D) gamma \<or> d_gt D (d_zero D) sigma then Some None
      else do { skew \<leftarrow> simplified_skew D inventory gamma sigma time_horizon; r \<leftarrow> d_sub D mid skew; Some (Some r) })"

text \<open>The levels up to the first one on the wrong side of the mid.\<close>

fun skewed_levels :: "'d decimal_api \<Rightarrow> 'd \<Rightarrow> 'd \<Rightarrow> 'd \<Rightarrow> 'd \<Rightarrow> bool \<Rightarrow> nat list \<Rightarrow> 'd list option" where
  "skewed_levels D start mid direction tick is_buy [] = Some []"
| "skewed_levels D start mid direction tick is_buy (i # is) = do {
     a \<leftarrow> d_mul D direction tick; b \<leftarrow> d_mul D a (d_u32 D i); price \<leftarrow> d_add D start b;
     if is_buy \<and> d_ge D price mid then Some []
     else if \<not> is_buy \<and> d_ge D mid price then Some []
     else map_option ((#) price) (skewed_levels D start mid direction tick is_buy is)
   }"

definition plan_skewed_grid :: "'d decimal_api \<Rightarrow> 'd \<Rightarrow> 'd \<Rightarrow> 'd \<Rightarrow> u32 \<Rightarrow> bool \<Rightarrow> 'd list option" where
  "plan_skewed_grid D reservation mid grid_tick num_levels is_buy =
     (if \<not> d_gt D grid_tick (d_zero D) \<or> num_levels = 0 then Some []
      else let direction = (if is_buy then d_neg D (d_one D) else d_one D)
           in do {
             a \<leftarrow> d_mul D direction grid_tick;
             start \<leftarrow> d_add D reservation a;
             skewed_levels D start mid direction grid_tick is_buy [0..<unat num_levels]
           })"

record 'd skewed_state = "'d vol_state" +
  sk_levels :: "'d skewed_level list"

definition skewed_mid :: "'d decimal_api \<Rightarrow> string \<Rightarrow> ticker \<Rightarrow> (strategy_error + 'd) option" where
  "skewed_mid D symbol t = (case (usable_price D (tk_last t), usable_price D (tk_close t)) of
       (Some price, _) \<Rightarrow> Some (Inr price)
     | (None, Some price) \<Rightarrow> Some (Inr price)
     | (None, None) \<Rightarrow> (case (usable_price D (tk_bid t), usable_price D (tk_ask t)) of
         (Some bid, Some ask) \<Rightarrow> map_option Inr (mid_price D bid ask)
       | _ \<Rightarrow> Some (Inl (Bail (''no usable price for '' @ symbol)))))"

fun skewed_place ::
  "('v, 'm, 'd) strategy_ports \<Rightarrow> 'd skewed_grid_config \<Rightarrow> ('d \<times> bool) list \<Rightarrow> 'd skewed_level list \<Rightarrow> u32
   \<Rightarrow> (('v, 'd skewed_state) maker_state, 'd skewed_level list \<times> u32) poll" where
  "skewed_place P cfg [] levels errors = poll_pure (Some (levels, errors))"
| "skewed_place P cfg ((price, is_buy) # rest) levels errors =
     poll_bind (place_quote P (proto_exchange_id (kg_common cfg)) (cp_symbol (kg_common cfg))
         \<lparr>qu_prefix = ''skewgrid-'', qu_is_buy = is_buy, qu_price = price, qu_qty = kg_qty_per_level cfg\<rparr>) (\<lambda>r.
     case r of
       Inl _ \<Rightarrow> skewed_place P cfg rest levels (errors + 1)
     | Inr ord \<Rightarrow> skewed_place P cfg rest (levels @ [\<lparr>gv_price = price, gv_is_buy = is_buy, gv_order_id = o_id ord\<rparr>]) errors)"

fun skewed_cancel ::
  "('v, 'm, 'd) strategy_ports \<Rightarrow> 'd skewed_grid_config \<Rightarrow> string list \<Rightarrow> (('v, 'd skewed_state) maker_state, unit) poll" where
  "skewed_cancel P cfg [] = poll_done"
| "skewed_cancel P cfg (i # ids) =
     (if i = [] then skewed_cancel P cfg ids
      else poll_bind (poll_try (\<lambda>v. gw_cancel_order (sp_gateway P) v
             \<lparr>can_exchange_id = Some (proto_exchange_id (kg_common cfg)), can_order_id = i, can_symbol = cp_symbol (kg_common cfg)\<rparr>)) (\<lambda>_. skewed_cancel P cfg ids))"

definition contains_price :: "'d decimal_api \<Rightarrow> 'd \<Rightarrow> 'd list \<Rightarrow> bool" where
  "contains_price D p ps \<longleftrightarrow> list_ex (d_eq D p) ps"

text \<open>The two sides merged into a set: of prices of equal value the first is kept.\<close>

definition desired_prices :: "'d decimal_api \<Rightarrow> 'd list \<Rightarrow> 'd list" where
  "desired_prices D ps = fold (\<lambda>p kept. if contains_price D p kept then kept else kept @ [p]) ps []"

definition skewed_decay :: "'d decimal_api \<Rightarrow> 'd \<Rightarrow> 'd option" where
  "skewed_decay D inventory = d_mul D inventory (d_new D 95 2)"

text \<open>Past ten errors in one poll everything tracked is cancelled and forgotten.\<close>

definition skewed_finish ::
  "('v, 'm, 'd) strategy_ports \<Rightarrow> 'd skewed_grid_config \<Rightarrow> 'd skewed_level list \<Rightarrow> u32 \<Rightarrow> (('v, 'd skewed_state) maker_state, unit) poll" where
  "skewed_finish P cfg levels errors =
     poll_bind (if errors \<ge> 10 then skewed_cancel P cfg (map gv_order_id levels) else poll_done) (\<lambda>_.
     poll_bind poll_own (\<lambda>own. poll_set (own\<lparr>sk_levels := (if errors \<ge> 10 then [] else levels)\<rparr>)))"

text \<open>
  The desired prices are a set, walked in an unspecified order.  The cancels are sent together; they
  reach the venue in some order, here that of the levels.
\<close>

definition skewed_reconcile ::
  "('v, 'm, 'd) strategy_ports \<Rightarrow> ('d list \<Rightarrow> 'd list) \<Rightarrow> 'd skewed_grid_config \<Rightarrow> 'd \<Rightarrow> 'd list \<Rightarrow> 'd skewed_level list
   \<Rightarrow> (('v, 'd skewed_state) maker_state, unit) poll" where
  "skewed_reconcile P iter cfg mid prices snapshot =
     (let D = sp_decimal P;
          kept = filter (\<lambda>l. contains_price D (gv_price l) prices) snapshot;
          stale = filter (\<lambda>l. \<not> contains_price D (gv_price l) prices) snapshot;
          missing = filter (\<lambda>p. \<not> contains_price D p (map gv_price snapshot)) (iter prices)
      in poll_bind (skewed_cancel P cfg (map gv_order_id stale)) (\<lambda>_.
         poll_bind (skewed_place P cfg (map (\<lambda>p. (p, d_gt D mid p)) missing) kept 0) (\<lambda>(updated, errors).
         poll_bind poll_own (\<lambda>own.
         poll_bind (poll_pure (skewed_decay D (vl_inventory own))) (\<lambda>inventory.
         poll_bind (poll_set (own\<lparr>vl_inventory := inventory\<rparr>)) (\<lambda>_.
         skewed_finish P cfg updated errors))))))"

definition skewed_rebalance ::
  "('v, 'm, 'd) strategy_ports \<Rightarrow> ('d list \<Rightarrow> 'd list) \<Rightarrow> 'd skewed_grid_config \<Rightarrow> u64
   \<Rightarrow> (('v, 'd skewed_state) maker_state, unit) poll" where
  "skewed_rebalance P iter cfg now =
     (let D = sp_decimal P; ex = proto_exchange_id (kg_common cfg); symbol = cp_symbol (kg_common cfg)
      in poll_bind (poll_call (\<lambda>v. mds_fetch_ticker (sp_market P) v ex symbol)) (\<lambda>t.
         poll_bind (\<lambda>s. (skewed_mid D symbol t, s)) (\<lambda>mid.
         poll_bind poll_own (\<lambda>own.
         poll_bind (poll_pure (update_volatility D mid own)) (\<lambda>own.
         poll_bind (poll_set own) (\<lambda>_.
         poll_bind (poll_pure (reservation_price D mid (vl_inventory own) (kg_gamma cfg) (sigma_or (kg_sigma cfg) own) (kg_time_horizon cfg))) (\<lambda>r.
         (let reservation = (case r of None \<Rightarrow> mid | Some r \<Rightarrow> r)
          in poll_bind (poll_pure (plan_skewed_grid D reservation mid (kg_grid_tick cfg) (kg_num_levels cfg) True)) (\<lambda>buys.
             poll_bind (poll_pure (plan_skewed_grid D reservation mid (kg_grid_tick cfg) (kg_num_levels cfg) False)) (\<lambda>sells.
             if sk_levels own = []
             then poll_bind (skewed_place P cfg (map (\<lambda>p. (p, True)) buys @ map (\<lambda>p. (p, False)) sells) [] 0) (\<lambda>(fresh, errors).
                  skewed_finish P cfg fresh errors)
             else skewed_reconcile P iter cfg mid (desired_prices D (buys @ sells)) (sk_levels own)))))))))))"

definition record_fill ::
  "('v, 'm, 'd) strategy_ports \<Rightarrow> 'd \<Rightarrow> bool \<Rightarrow> (('v, 'd skewed_state) maker_state, unit) poll" where
  "record_fill P qty is_buy =
     poll_bind poll_own (\<lambda>own.
     poll_bind (poll_pure (if is_buy then d_add (sp_decimal P) (vl_inventory own) qty else d_sub (sp_decimal P) (vl_inventory own) qty)) (\<lambda>inventory.
     poll_set (own\<lparr>vl_inventory := inventory\<rparr>)))"

end
