(* ===== verification/Strategy_Safety.thy ===== *)
theory Strategy_Safety
  imports Arbitrage Monitors Hedge_Grid Maker_Safety
begin

text \<open>
  The sentinel trips its kill switch once per outage and keeps trying while the venue refuses; the
  fraction drawn by the random entries lies between nought and one; the arbitrage strategies keep
  their positions and windows well formed; and two ways in which a strategy loses sight of what it
  owes: a refused hedge of the hedged grid and the closing of a spot against perpetual position.
\<close>

section \<open>Sentinel\<close>

definition probed ::
  "('v, 'm, 'd) strategy_ports \<Rightarrow> 'm account_request \<Rightarrow> sentinel_config \<Rightarrow> 'v \<Rightarrow> 'v" where
  "probed P account cfg v = snd (sentinel_probe P account cfg v)"

definition swept :: "('v, 'm, 'd) strategy_ports \<Rightarrow> sentinel_config \<Rightarrow> 'v \<Rightarrow> 'v" where
  "swept P cfg v = snd (strategy_cancel_all_orders (sp_gateway P) (proto_exchange_id (se_common cfg)) '''' v)"

text \<open>Polls of a sentinel, and an outage: every probe fails.\<close>

definition sentinel_polls ::
  "('v, 'm, 'd) strategy_ports \<Rightarrow> 'm account_request \<Rightarrow> sentinel_config \<Rightarrow> nat \<Rightarrow> ('v, health) maker_state \<Rightarrow> ('v, health) maker_state" where
  "sentinel_polls P account cfg k = (\<lambda>s. snd (sentinel_tick P account cfg 0 s)) ^^ k"

definition outage :: "('v, 'm, 'd) strategy_ports \<Rightarrow> 'm account_request \<Rightarrow> sentinel_config \<Rightarrow> bool" where
  "outage P account cfg \<longleftrightarrow> (\<forall>v. isl (fst (sentinel_probe P account cfg v)))"

definition accepts_sweeps :: "('v, 'm, 'd) strategy_ports \<Rightarrow> sentinel_config \<Rightarrow> bool" where
  "accepts_sweeps P cfg \<longleftrightarrow>
     (\<forall>v. \<not> isl (fst (strategy_cancel_all_orders (sp_gateway P) (proto_exchange_id (se_common cfg)) '''' v)))"

definition refuses_sweeps :: "('v, 'm, 'd) strategy_ports \<Rightarrow> sentinel_config \<Rightarrow> bool" where
  "refuses_sweeps P cfg \<longleftrightarrow>
     (\<forall>v. isl (fst (strategy_cancel_all_orders (sp_gateway P) (proto_exchange_id (se_common cfg)) '''' v)))"

lemma sentinel_polls_Suc:
  "sentinel_polls P account cfg 0 s = s"
  "sentinel_polls P account cfg (Suc k) s = snd (sentinel_tick P account cfg 0 (sentinel_polls P account cfg k s))"
  by (simp_all add: sentinel_polls_def)

lemma sentinel_step:
  assumes "outage P account cfg"
  shows "snd (sentinel_tick P account cfg now s) =
     (let n = he_failures (mk_own s) + 1; fire = (n \<ge> se_max_consecutive_failures cfg \<and> \<not> he_armed (mk_own s));
          v = probed P account cfg (mk_venue s)
      in s\<lparr>mk_own := \<lparr>he_failures = n, he_armed = he_armed (mk_own s)
              \<or> fire \<and> \<not> isl (fst (strategy_cancel_all_orders (sp_gateway P) (proto_exchange_id (se_common cfg)) '''' v))\<rparr>,
           mk_venue := (if fire then swept P cfg v else v)\<rparr>)"
proof -
  obtain e v where v: "sentinel_probe P account cfg (mk_venue s) = (Inl e, v)"
    using assms by (metis isl_def outage_def prod.collapse)
  obtain r w where w: "strategy_cancel_all_orders (sp_gateway P) (proto_exchange_id (se_common cfg)) '''' v = (r, w)" by fastforce
  show ?thesis using v w
    by (cases s; cases "mk_own s"; cases r)
       (auto simp: sentinel_tick_def poll_bind_def poll_try_def poll_own_def poll_set_def poll_pure_def poll_fail_def
          probed_def swept_def Let_def)
qed

lemma outage_step:
  assumes o: "outage P account cfg" and "Suc k < 2 ^ 32"
    and s: "sentinel_polls P account cfg k s = maker_start \<lparr>he_failures = of_nat k, he_armed = b\<rparr> v n"
  shows "sentinel_polls P account cfg (Suc k) s =
    (let fire = (unat (se_max_consecutive_failures cfg) \<le> Suc k \<and> \<not> b); v = probed P account cfg v
     in maker_start \<lparr>he_failures = of_nat (Suc k), he_armed = b
          \<or> fire \<and> \<not> isl (fst (strategy_cancel_all_orders (sp_gateway P) (proto_exchange_id (se_common cfg)) '''' v))\<rparr>
          (if fire then swept P cfg v else v) n)"
proof -
  have "of_nat (Suc k) \<ge> se_max_consecutive_failures cfg \<longleftrightarrow> unat (se_max_consecutive_failures cfg) \<le> Suc k"
    using assms(2) by (simp add: word_le_nat_alt unat_of_nat take_bit_eq_mod del: of_nat_Suc)
  then show ?thesis using s by (simp add: sentinel_polls_Suc sentinel_step [OF o] Let_def maker_start_def add.commute)
qed


text \<open>
  C36: while the venue refuses the cancel, the sentinel keeps trying: from the failure that reaches
  the threshold on, every failed probe is followed by another cancel of everything, and the switch
  never counts as tripped.
\<close>

theorem refused_kill_switch_is_retried:
  assumes o: "outage P account cfg" and r: "refuses_sweeps P cfg"
    and t: "0 < se_max_consecutive_failures cfg" and k: "k < 2 ^ 32"
  shows "sentinel_polls P account cfg k (maker_start healthy v n) =
    (let t = unat (se_max_consecutive_failures cfg)
     in maker_start \<lparr>he_failures = of_nat k, he_armed = False\<rparr>
          (((\<lambda>v. swept P cfg (probed P account cfg v)) ^^ (k - (t - 1))) ((probed P account cfg ^^ min k (t - 1)) v)) n)"
proof -
  define t where "t = unat (se_max_consecutive_failures cfg)"
  let ?s = "maker_start healthy v n" and ?probes = "\<lambda>j. probed P account cfg ^^ j"
    and ?tries = "\<lambda>j. (\<lambda>v. swept P cfg (probed P account cfg v)) ^^ j"
  have "sentinel_polls P account cfg k ?s = maker_start \<lparr>he_failures = of_nat k, he_armed = False\<rparr>
      (?tries (k - (t - 1)) (?probes (min k (t - 1)) v)) n"
    using k
  proof (induction k)
    case 0
    then show ?case by (simp add: sentinel_polls_Suc maker_start_def healthy_def)
  next
    case (Suc k)
    have IH: "sentinel_polls P account cfg k ?s = maker_start \<lparr>he_failures = of_nat k, he_armed = False\<rparr>
        (?tries (k - (t - 1)) (?probes (min k (t - 1)) v)) n" by (rule Suc.IH) (use Suc.prems in simp)
    have "0 < t" using t by (simp add: t_def unat_gt_0)
    then obtain u where u: "t = Suc u" by (cases t) auto
    show ?case using r u
      by (cases "u \<le> k") (simp_all add: outage_step [OF o Suc.prems IH] t_def [symmetric] Let_def refuses_sweeps_def Suc_diff_le)
  qed
  then show ?thesis by (simp add: t_def Let_def)
qed

text \<open>A link that is down, with a venue that accepts or refuses every cancel.\<close>

definition dead_ports :: "port_error + order list \<Rightarrow> (rat mock_state, mock_message, rat) strategy_ports" where
  "dead_ports answer = demo_ports\<lparr>
     sp_market := demo_market\<lparr>mds_fetch_ticker := (\<lambda>v ex s. (Inl (Transport ''down''), v))\<rparr>,
     sp_gateway := (mock_gateway demo_decimal 0)\<lparr>gw_cancel_all_orders := (\<lambda>v req. (answer, v\<lparr>ms_ids := ms_ids v + 1\<rparr>))\<rparr>\<rparr>"

lemma dead_link:
  "outage (dead_ports answer) account (sentinel_default c)"
  "strategy_cancel_all_orders (sp_gateway (dead_ports answer)) ex symbol v = (answer, v\<lparr>ms_ids := ms_ids v + 1\<rparr>)"
  by (simp_all add: outage_def sentinel_probe_def dead_ports_def strategy_cancel_all_orders_def)

definition demo_account :: "mock_message account_request" where
  "demo_account = \<lparr>ar_exchange_id = None, ar_position_id = [], ar_fields = DefaultMsg GetAccount\<rparr>"


theorem refused_kill_switch_is_retried_witness:
  "let P = dead_ports (Inl (Transport ''down'')); cfg = sentinel_default demo_common; v = mock_new demo_decimal 100
   in sentinel_polls P demo_account cfg 5 (maker_start healthy v 0)
      = maker_start \<lparr>he_failures = 5, he_armed = False\<rparr>
          (((\<lambda>v. swept P cfg (probed P demo_account cfg v)) ^^ 3) ((probed P demo_account cfg ^^ 2) v)) 0"
proof -
  have "refuses_sweeps (dead_ports (Inl (Transport ''down''))) (sentinel_default demo_common)"
    by (simp add: refuses_sweeps_def dead_link)
  from refused_kill_switch_is_retried [OF dead_link(1) this, of 5 demo_account "mock_new demo_decimal 100" 0] show ?thesis
    by (simp add: sentinel_default_def)
qed

section \<open>Random entries\<close>

lemma scaled_fraction_value: "scaled_fraction x = uint x * 10 ^ 18 div 2 ^ 64"
proof -
  have x: "0 \<le> uint x" "uint x < 2 ^ 64" using uint_bounded [of x] by simp_all
  have "uint (ucast x * 1000000000000000000 :: 128 word) = uint x * 10 ^ 18"
    using x by (simp add: uint_word_ariths unsigned_ucast_eq take_bit_eq_mod)
  then have "uint (drop_bit 64 (ucast x * 1000000000000000000 :: 128 word)) = uint x * 10 ^ 18 div 2 ^ 64"
    by (simp add: drop_bit_eq_div uint_div_distrib)
  moreover have "0 \<le> uint x * 10 ^ 18 div 2 ^ 64" using x(1) pos_imp_zdiv_nonneg_iff [of "2 ^ 64" "uint x * 10 ^ 18"] by simp
  moreover have "uint x * 10 ^ 18 div 2 ^ 64 < 2 ^ 63" using x(2) by simp
  ultimately show ?thesis
    by (simp add: scaled_fraction_def sint_uint unsigned_ucast_eq take_bit_eq_mod signed_take_bit_int_eq_self)
qed

lemma scaled_fraction_bounds: "0 \<le> scaled_fraction x" "scaled_fraction x < 10 ^ 18"
  using uint_bounded [of x] by (simp_all add: scaled_fraction_value div_int_pos_iff)

text \<open>
  The random draw is a fraction of the unit interval: not negative, less than one and growing
  with the word it is made of.  So an entry probability of nought or less never enters, one of one
  or more enters on every poll, and between them exactly the draws below the probability enter.
\<close>

theorem random_draw_is_a_fraction:
  assumes f: "faithful D val" and n: "\<forall>m. val (d_new D m 18) = of_int m / 10 ^ 18"
  shows "0 \<le> val (fst (next_fraction D g)) \<and> val (fst (next_fraction D g)) < 1
    \<and> (x \<le> y \<longrightarrow> scaled_fraction x \<le> scaled_fraction y)
    \<and> (fst (random_decide D p g) \<noteq> None \<longleftrightarrow> val (fst (next_fraction D g)) < val p)
    \<and> (val p \<le> 0 \<longrightarrow> fst (random_decide D p g) = None) \<and> (1 \<le> val p \<longrightarrow> fst (random_decide D p g) \<noteq> None)"
proof -
  obtain w g' where w: "next_u64 g = (w, g')" by fastforce
  define q where "q = (of_int (scaled_fraction w) / 10 ^ 18 :: rat)"
  have "of_int (scaled_fraction w) < (of_int (10 ^ 18) :: rat)" using scaled_fraction_bounds(2) [of w] by (simp only: of_int_less_iff)
  then have unit: "0 \<le> q" "q < 1" using scaled_fraction_bounds(1) [of w] by (simp_all add: q_def)
  have q: "val (d_new D (scaled_fraction w) 18) = q" using n by (simp only: q_def)
  have draw: "val (fst (next_fraction D g)) = q" by (simp add: next_fraction_def w q)
  have fires: "fst (random_decide D p g) \<noteq> None \<longleftrightarrow> q < val p"
    by (simp add: q random_decide_def next_fraction_def w ge_val [OF f] Let_def not_le split: prod.split)
  have "x \<le> y \<longrightarrow> scaled_fraction x \<le> scaled_fraction y"
    by (simp add: scaled_fraction_value word_le_def zdiv_mono1)
  then show ?thesis using unit draw fires by force
qed

theorem random_draw_is_a_fraction_witness:
  "fst (random_decide rat_api 0 7) = None \<and> fst (random_decide rat_api 1 7) \<noteq> None"
  using random_draw_is_a_fraction [OF rat_faithful, of 7 0 0 0] random_draw_is_a_fraction [OF rat_faithful, of 7 0 0 1]
  by (simp add: rat_api_def)

section \<open>Invariants of a strategy's own state\<close>

definition keeps_own :: "('p \<Rightarrow> bool) \<Rightarrow> (('v, 'p) maker_state, 'a) poll \<Rightarrow> bool" where
  "keeps_own I m \<longleftrightarrow> (\<forall>s. I (mk_own s) \<longrightarrow> I (mk_own (snd (m s))))"

lemma own_bind: "keeps_own I m \<Longrightarrow> (\<And>a. keeps_own I (f a)) \<Longrightarrow> keeps_own I (poll_bind m f)"
  unfolding keeps_own_def poll_bind_def by (auto split: prod.splits option.splits sum.splits)

lemma own_read: "(\<And>p. I p \<Longrightarrow> keeps_own I (f p)) \<Longrightarrow> keeps_own I (poll_bind poll_own f)"
  by (simp add: keeps_own_def poll_bind_def poll_own_def)

lemma own_write: "I p \<Longrightarrow> keeps_own I (poll_set p)"
  by (simp add: keeps_own_def poll_set_def)

lemma own_steps [intro!]:
  "keeps_own I poll_done" "keeps_own I (poll_fail e)" "keeps_own I (poll_pure x)" "keeps_own I (poll_call c)"
  "keeps_own I (poll_try c)" "keeps_own I (place_quote P ex symbol q)" "keeps_own I (\<lambda>s. (r, s))"
  by (simp_all add: keeps_own_def poll_done_def poll_fail_def poll_pure_def poll_call_def poll_try_def place_quote_def
      split: prod.split)

lemma own_price [intro!]: "keeps_own I (read_last P ex symbol message)" "keeps_own I (fetch_price P ex symbol)"
  by (auto simp: fetch_price_def read_last_def intro!: own_bind)

text \<open>A rolling window never outgrows its length; a position is long, flat or short.\<close>

definition vol_ok :: "'d vol_tracker \<Rightarrow> bool" where
  "vol_ok t \<longleftrightarrow> length (vt_buf t) \<le> unat (vt_window t)"

lemma window_push_bound: "length buf \<le> n \<Longrightarrow> length (window_push n x buf) \<le> n"
  by (simp add: window_push_def Let_def)

lemma vol_push_ok: "vol_ok t \<Longrightarrow> vol_ok (vol_push x t)"
  by (simp add: vol_ok_def vol_push_def window_push_bound)

definition stat_arb_ok :: "'d stat_arb_state \<Rightarrow> bool" where
  "stat_arb_ok s \<longleftrightarrow> vol_ok (sb_tracker s) \<and> sb_position s \<in> {- 1, 0, 1}"

definition basis_ok :: "'d basis_state \<Rightarrow> bool" where
  "basis_ok s \<longleftrightarrow> vol_ok (bt_roller s) \<and> bt_position s \<in> {- 1, 0, 1}"

definition apt_ok :: "'d apt_state \<Rightarrow> bool" where
  "apt_ok s \<longleftrightarrow> length (rg_pairs (at_regression s)) \<le> unat (rg_window (at_regression s))"

definition mining_ok :: "'d mining_state \<Rightarrow> bool" where
  "mining_ok s \<longleftrightarrow> vol_ok (mn_vol_est s)"

lemma stat_arb_keeps: "keeps_own stat_arb_ok (stat_arb_tick P cfg now)"
  by (auto simp: stat_arb_tick_def stat_arb_trade_def Let_def stat_arb_ok_def vol_push_ok split: stat_arb_signal.split
      intro!: own_bind own_read own_write)

lemma basis_keeps: "keeps_own basis_ok (basis_tick P cfg now)"
  by (auto simp: basis_tick_def place_basis_trade_def close_basis_position_def place_maker_ladder_def Let_def basis_ok_def
      vol_push_ok split: basis_signal.split option.split intro!: own_bind own_read own_write)

lemma apt_keeps: "keeps_own apt_ok (apt_tick P cfg now)"
  by (auto simp: apt_tick_def apt_quote_def place_ladder_def Let_def apt_ok_def regression_push_def
      window_push_bound split: option.split intro!: own_bind own_read own_write)

lemma mining_keeps: "keeps_own mining_ok (mining_tick P cfg now)"
proof -
  have "vol_ok est" if "vol_ok t" "tracked_return D mid prev t = Some est" for D mid prev t est
    using that by (auto simp: tracked_return_def bind_eq_Some_conv vol_push_ok split: option.splits)
  then show ?thesis
    by (auto simp: keeps_own_def mining_tick_def mining_ok_def Let_def poll_bind_def poll_own_def poll_pure_def poll_set_def
        poll_done_def read_last_def poll_call_def split: prod.split option.split sum.split)
qed

lemma own_invariant:
  assumes "\<And>P. keeps_own I (tick P)" and "I (mk_own s)"
  shows "I (mk_own (foldl (\<lambda>s (P, g). snd (tick P (s\<lparr>mk_venue := g (mk_venue s)\<rparr>))) s runs))"
  using assms(2)
proof (induction runs arbitrary: s)
  case (Cons x runs)
  obtain P g where x: "x = (P, g)" by fastforce
  have "I (mk_own (snd (tick P (s\<lparr>mk_venue := g (mk_venue s)\<rparr>))))" using assms(1) [of P] Cons.prems by (simp add: keeps_own_def)
  from Cons.IH [OF this] show ?case by (simp add: x)
qed simp


section \<open>Fills the hedged grid forgets\<close>

lemma hedge_fills_own: "mk_own (snd (hedge_fills P cfg filled s)) = mk_own s"
proof (induction filled arbitrary: s)
  case (Cons x filled)
  obtain price was_buy where x: "x = (price, was_buy)" by fastforce
  show ?case using Cons.IH
    by (auto simp: x poll_bind_def send_hedge_def Let_def split: prod.splits option.splits sum.splits)
qed (simp add: poll_done_def)

lemma hedge_grid_seed_own: "mk_own (snd (hedge_grid_seed fuel P cfg mid step live price believed s)) = mk_own s"
proof (induction fuel arbitrary: price believed s)
  case (Suc fuel)
  show ?case using Suc.IH
    by (auto simp: Let_def poll_bind_def poll_pure_def poll_fail_def place_quote_def split: prod.splits option.splits sum.splits)
qed (simp add: poll_pure_def)

definition forgets :: "(('v, 'x list) maker_state, 'a) poll \<Rightarrow> bool" where
  "forgets m \<longleftrightarrow> (\<forall>s e s'. m s = (Some (Inl e), s') \<longrightarrow> mk_ulids s' \<noteq> mk_ulids s \<longrightarrow> mk_own s' = [])"

lemma forgets_bind:
  assumes "\<And>s. mk_ulids (snd (m s)) = mk_ulids s" and "\<And>a. forgets (f a)"
  shows "forgets (poll_bind m f)"
proof -
  have "mk_own s' = []" if fail: "poll_bind m f s = (Some (Inl e), s')" and sent: "mk_ulids s' \<noteq> mk_ulids s" for s e s'
  proof -
    obtain r t where t: "m s = (r, t)" by fastforce
    then have u: "mk_ulids t = mk_ulids s" using assms(1) [of s] by simp
    obtain a where "r = Some (Inr a)" "f a t = (Some (Inl e), s')"
      using fail sent t u by (auto simp: poll_bind_def split: option.splits sum.splits)
    then show ?thesis using assms(2) [of a] sent u by (simp add: forgets_def)
  qed
  then show ?thesis by (simp add: forgets_def)
qed

lemma forgets_taken:
  assumes "\<And>s e s'. m s = (Some (Inl e), s') \<Longrightarrow> mk_own s' = mk_own s"
  shows "forgets (poll_bind (poll_set []) (\<lambda>_. m))"
  using assms by (fastforce simp: forgets_def poll_bind_def poll_set_def)

lemma hedge_and_seed_own:
  assumes "poll_bind (hedge_fills P cfg filled) (\<lambda>_.
      poll_bind (hedge_grid_seed fuel P cfg mid step live price []) poll_set) s = (Some (Inl e), s')"
  shows "mk_own s' = mk_own s"
proof -
  obtain r t where t: "hedge_fills P cfg filled s = (r, t)" by fastforce
  obtain q u where u: "hedge_grid_seed fuel P cfg mid step live price [] t = (q, u)" by fastforce
  have "mk_own t = mk_own s" "mk_own u = mk_own t"
    using hedge_fills_own [of P cfg filled s] hedge_grid_seed_own [of fuel P cfg mid step live price "[]" t] t u by simp_all
  then show ?thesis using assms t u by (auto simp: poll_bind_def poll_set_def split: option.splits sum.splits)
qed

lemma forgets_done: "forgets poll_done"
  by (simp add: forgets_def poll_done_def)

lemma forgets_if: "forgets a \<Longrightarrow> forgets b \<Longrightarrow> forgets (if c then a else b)"
  by simp

lemma reads_send_nothing:
  "mk_ulids (snd (poll_call c s)) = mk_ulids s" "mk_ulids (snd (poll_own s)) = mk_ulids s" "mk_ulids (snd (poll_pure x s)) = mk_ulids s"
  by (simp_all add: poll_call_def poll_own_def poll_pure_def split: prod.split)

lemma hedge_grid_forgets: "forgets (hedge_grid_tick P iter fuel cfg now)"
  unfolding hedge_grid_tick_def Let_def
  by (intro forgets_if forgets_done forgets_taken forgets_bind)
     (simp_all only: reads_send_nothing snd_conv, (erule hedge_and_seed_own)+)

text \<open>
  C38: when a poll of the hedged grid fails after it began to send orders, because a hedge or a rung
  was refused, the ladder it believed in is gone: whatever levels had filled and were not hedged
  yet, the next poll finds nothing to hedge.
\<close>

theorem hedge_grid_failure_forgets_fills:
  assumes "hedge_grid_tick P iter fuel cfg now s = (Some (Inl e), s')" and "mk_ulids s' \<noteq> mk_ulids s" and "iter [] = []"
  shows "mk_own s' = [] \<and> hedge_fills P cfg (filter (\<lambda>(price, _). hm_get (sp_decimal P) live price = None) (iter (mk_own s'))) = poll_done"
  using hedge_grid_forgets [of P iter fuel cfg now] assms by (simp add: forgets_def)

text \<open>A bid at 90 has left the book and the hedge venue is down.\<close>

definition demo_hedge_grid :: "rat hedge_grid_config" where
  "demo_hedge_grid = \<lparr>hg_venues = demo_venues, hg_lower_price = 90, hg_upper_price = 110, hg_num_levels = 2, hg_qty_per_level = 1\<rparr>"

definition no_orders_ports :: "(rat mock_state, mock_message, rat) strategy_ports" where
  "no_orders_ports = demo_ports\<lparr>sp_gateway := (mock_gateway demo_decimal 0)\<lparr>gw_create_order := (\<lambda>v req. (Inl (Transport ''down''), v))\<rparr>\<rparr>"

lemma demo_hedge_refused:
  "hedge_grid_tick no_orders_ports id 9 demo_hedge_grid 0 (maker_start [(90, True)] (mock_new demo_decimal 100) 0)
   = (Some (Inl (PortFailure (Transport ''down''))), maker_start [] (mock_new demo_decimal 100) 1)"
proof -
  have last: "optional_last demo_decimal \<lparr>tk_header = None, tk_symbol = symbol, tk_timestamp = None, tk_bid = None,
        tk_ask = None, tk_last = Some ''100'', tk_close = None\<rparr> = Inr 100" for symbol
    using demo_reads by (simp add: optional_last_def)
  have D: "sp_decimal no_orders_ports = demo_decimal" "sp_market no_orders_ports = demo_market"
    by (simp_all add: no_orders_ports_def demo_ports_def)
  have gw: "gw_fetch_open_orders (sp_gateway no_orders_ports) (mock_new demo_decimal 100) req = (Inr [], mock_new demo_decimal 100)" for req
    by (simp add: no_orders_ports_def mock_gateway_def mock_fetch_open_orders_def mock_new_def)
  have calc: "\<not> d_is_sign_negative demo_decimal 100" "\<not> d_is_zero demo_decimal 100" "d_sub demo_decimal 110 90 = Some 20"
      "d_div demo_decimal 20 (d_u32 demo_decimal 2) = Some 10" "d_gt demo_decimal 10 (d_zero demo_decimal)"
    by (simp_all add: demo_decimal_def rat_api_def d_u32_def)
  show ?thesis
    by (simp add: hedge_grid_tick_def Let_def D gw maker_start_def poll_bind_def poll_call_def poll_own_def poll_set_def poll_pure_def
        demo_market_def last live_levels_def hm_get_def demo_hedge_grid_def calc send_hedge_def)
       (simp add: no_orders_ports_def)
qed

theorem hedge_grid_failure_forgets_fills_witness:
  "let s = maker_start [(90, True)] (mock_new demo_decimal 100) 0; s' = maker_start [] (mock_new demo_decimal 100) 1
   in hedge_grid_tick no_orders_ports id 9 demo_hedge_grid 0 s = (Some (Inl (PortFailure (Transport ''down''))), s')
    \<and> mk_own s' = []
    \<and> hedge_fills no_orders_ports demo_hedge_grid (filter (\<lambda>(price, _). hm_get demo_decimal [] price = (None :: bool option)) (mk_own s')) = poll_done"
  using hedge_grid_failure_forgets_fills [OF demo_hedge_refused] demo_hedge_refused
  by (simp add: maker_start_def)

section \<open>Positions closed on paper\<close>

text \<open>
  A poll of the spot against perpetual arbitrage that holds a position never sends an order: it
  leaves the state as it is, or forgets the position while both legs stay open at the venues.
\<close>

theorem spot_perp_closes_on_paper_only:
  assumes "\<forall>v ex symbol. snd (mds_fetch_ticker (sp_market P) v ex symbol) = v" and "mk_own s"
  shows "snd (spot_perp_tick P cfg now s) \<in> {s, s\<lparr>mk_own := False\<rparr>}"
proof -
  have read: "\<exists>r. fetch_price P ex symbol s = (Some r, s)" for ex symbol
  proof -
    obtain r where "mds_fetch_ticker (sp_market P) (mk_venue s) ex symbol = (r, mk_venue s)"
      using assms(1) by (metis prod.collapse)
    then show ?thesis by (cases r) (simp_all add: fetch_price_def read_last_def poll_bind_def poll_call_def)
  qed
  have signal: "classify_basis_arb D b x y True \<in> {CloseBasis, NoBasisTrade}" for D b x y
    by (simp add: classify_basis_arb_def split: option.split)
  obtain r1 where r1: "fetch_price P (venue_proto (xv_primary (sx_venues cfg))) (sx_spot_symbol cfg) s = (Some r1, s)" using read by blast
  obtain r2 where r2: "fetch_price P (venue_proto (xv_hedge (sx_venues cfg))) (sx_perp_symbol cfg) s = (Some r2, s)" using read by blast
  show ?thesis
  proof (cases "\<exists>spot perp basis. r1 = Inr spot \<and> r2 = Inr perp \<and> compute_basis (sp_decimal P) spot perp = Some basis")
    case True
    then obtain spot perp basis where b: "r1 = Inr spot" "r2 = Inr perp" "compute_basis (sp_decimal P) spot perp = Some basis" by blast
    from signal [of "sp_decimal P" basis "sx_entry_threshold cfg" "sx_exit_threshold cfg"] show ?thesis
      using r1 r2 b assms(2)
      by (elim insertE emptyE)
         (simp_all add: spot_perp_tick_def Let_def poll_bind_def poll_pure_def poll_own_def poll_done_def poll_set_def)
  next
    case False
    then show ?thesis using r1 r2
      by (cases r1; cases r2) (auto simp: spot_perp_tick_def Let_def poll_bind_def poll_pure_def)
  qed
qed

theorem spot_perp_closes_on_paper_only_witness:
  "let s = maker_start True (mock_new demo_decimal 100) 0
   in snd (spot_perp_tick demo_ports (spot_perp_default demo_decimal demo_venues ''MOCK-USDT'' ''MOCK-PERP'') 0 s)
      \<in> {s, s\<lparr>mk_own := False\<rparr>}"
  using spot_perp_closes_on_paper_only [of demo_ports "maker_start True (mock_new demo_decimal 100) 0"
      "spot_perp_default demo_decimal demo_venues ''MOCK-USDT'' ''MOCK-PERP''" 0]
  by (simp add: demo_ports_def demo_market_def maker_start_def)

end
