(* ===== verification/Command_Line.thy ===== *)
theory Command_Line
  imports Strategy_Params Worker Mock_Venue Complex_Main
begin

text \<open>
  The command line client (\<open>bin/longtrader-cli\<close>): how an operator's words become the one call a
  command makes.  The printing of answers is left out, but for the cells of a table and the
  timestamp of a book.  Last, the catalog of strategies (\<open>crates/longtrader-catalog\<close>).
\<close>

section \<open>Money literals\<close>

datatype cli_error =
    OutsideGrammar string string string
  | BadDecimal string string string
  | NotPositive string string
  | UnsupportedTimeframe string
  | UnknownTopics "string list"

definition cli_grammar_violation :: "string \<Rightarrow> string option" where
  "cli_grammar_violation s =
     (if CHR ''_'' \<in> set s then Some ''digit separators are not accepted''
      else if CHR ''e'' \<in> set s \<or> CHR ''E'' \<in> set s then Some ''exponents are not accepted''
      else if starts_with (CHR ''+'') s then Some ''a leading `+` is not accepted''
      else let body = strip_minus s;
               (whole, fraction) = (case split_once (CHR ''.'') body of None \<Rightarrow> (body, []) | Some p \<Rightarrow> p)
           in if \<not> is_digits whole then Some ''expected one or more digits before the decimal point''
              else if CHR ''.'' \<in> set body \<and> \<not> is_digits fraction
              then Some ''expected one or more digits after the decimal point''
              else if length fraction > 28 then Some ''too many fractional digits''
              else None)"

definition parse_dec :: "'d decimal_api \<Rightarrow> string \<Rightarrow> string \<Rightarrow> cli_error + 'd" where
  "parse_dec D s field = (case cli_grammar_violation s of
       Some reason \<Rightarrow> Inl (OutsideGrammar field s reason)
     | None \<Rightarrow> map_err (BadDecimal field s) (d_parse D s))"

definition parse_positive_dec :: "'d decimal_api \<Rightarrow> string \<Rightarrow> string \<Rightarrow> cli_error + 'd" where
  "parse_positive_dec D s field = (case parse_dec D s field of
       Inl e \<Rightarrow> Inl e
     | Inr x \<Rightarrow> if \<not> d_gt D x (d_zero D) then Inl (NotPositive field s) else Inr x)"

definition optional_dec :: "(string \<Rightarrow> string \<Rightarrow> cli_error + 'd) \<Rightarrow> ('d \<Rightarrow> string) \<Rightarrow> string option \<Rightarrow> string
   \<Rightarrow> cli_error + wire_decimal option" where
  "optional_dec parse show_dec given field = (case given of
       None \<Rightarrow> Inr None
     | Some s \<Rightarrow> map_sum id (\<lambda>d. Some (decimal_to_common show_dec d)) (parse s field))"

section \<open>Orders\<close>

record cli_order = order_request +
  co_take_profit :: "wire_decimal option"
  co_stop_loss :: "wire_decimal option"

definition client_order_id :: "string \<Rightarrow> string" where
  "client_order_id ulid = ''cli-'' @ ulid"

text \<open>
  The order of a \<open>buy\<close> or \<open>sell\<close>: quantity and price have to be positive, the brackets keep their sign.
\<close>

definition cli_place_order ::
  "'d decimal_api \<Rightarrow> string \<Rightarrow> string \<Rightarrow> order_side \<Rightarrow> string \<Rightarrow> string option \<Rightarrow> string option \<Rightarrow> string option
   \<Rightarrow> cli_error + cli_order" where
  "cli_place_order D ulid symbol side quantity price take_profit stop_loss =
     (let order_type = (if price \<noteq> None then Limit else Market)
      in case parse_positive_dec D quantity ''quantity'' of
           Inl e \<Rightarrow> Inl e
         | Inr amount \<Rightarrow> (case optional_dec (parse_positive_dec D) (d_show D) price ''price'' of
             Inl e \<Rightarrow> Inl e
           | Inr limit_price \<Rightarrow> (case optional_dec (parse_dec D) (d_show D) take_profit ''take_profit'' of
               Inl e \<Rightarrow> Inl e
             | Inr tp \<Rightarrow> (case optional_dec (parse_dec D) (d_show D) stop_loss ''stop_loss'' of
                 Inl e \<Rightarrow> Inl e
               | Inr sl \<Rightarrow> Inr \<lparr>or_client_order_id = client_order_id ulid, or_symbol = symbol, or_type = Known order_type,
                   or_side = Known side, or_amount = Some (decimal_to_common (d_show D) amount), or_price = limit_price,
                   or_time_in_force = Known TifUnspecified, or_post_only = False, or_reduce_only = False,
                   co_take_profit = tp, co_stop_loss = sl\<rparr>))))"

section \<open>Words in capitals\<close>

text \<open>
  \<open>str::to_uppercase\<close> on UTF-8 bytes.  Beside the ASCII letters, the characters with an ASCII upper
  case are the dotless i, the long s, the sharp s and the Latin ligatures.  Every other character is
  kept: its upper case is not ASCII either, which no comparison below can tell apart.
\<close>

definition ascii_upper :: "char \<Rightarrow> char" where
  "ascii_upper c = (let n = of_char c :: nat in if 97 \<le> n \<and> n \<le> 122 then char_of (n - 32) else c)"

definition ligature :: "char \<Rightarrow> string option" where
  "ligature c = map_of (zip (map char_of [0x80 ..< 0x87 :: nat]) [''FF'', ''FI'', ''FL'', ''FFI'', ''FFL'', ''ST'', ''ST'']) c"

fun to_uppercase :: "string \<Rightarrow> string" where
  "to_uppercase [] = []"
| "to_uppercase (a # b # c # s) =
     (if a = CHR 0xEF \<and> b = CHR 0xAC \<and> ligature c \<noteq> None then the (ligature c) @ to_uppercase s
      else if a = CHR 0xC4 \<and> b = CHR 0xB1 then CHR ''I'' # to_uppercase (c # s)
      else if a = CHR 0xC5 \<and> b = CHR 0xBF then CHR ''S'' # to_uppercase (c # s)
      else if a = CHR 0xC3 \<and> b = CHR 0x9F then ''SS'' @ to_uppercase (c # s)
      else ascii_upper a # to_uppercase (b # c # s))"
| "to_uppercase [a, b] =
     (if a = CHR 0xC4 \<and> b = CHR 0xB1 then ''I'' else if a = CHR 0xC5 \<and> b = CHR 0xBF then ''S''
      else if a = CHR 0xC3 \<and> b = CHR 0x9F then ''SS'' else [ascii_upper a, ascii_upper b])"
| "to_uppercase [a] = [ascii_upper a]"

definition cli_timeframes :: "(string \<times> timeframe) list" where
  "cli_timeframes = [(''S100'', S100), (''S1'', S1), (''M1'', M1), (''M5'', M5), (''M15'', M15), (''M30'', M30),
     (''H1'', H1), (''H4'', H4), (''D1'', D1), (''W1'', W1)]"

definition parse_timeframe :: "string \<Rightarrow> cli_error + timeframe" where
  "parse_timeframe text = (case map_of cli_timeframes (to_uppercase text) of
       None \<Rightarrow> Inl (UnsupportedTimeframe text) | Some tf \<Rightarrow> Inr tf)"

datatype topic_class =
    TopicUnspecified | MarketLite | MarketHeavy | TradingTopic | RuntimeTopic | FundingTopic | DerivativesTopic

definition cli_topics :: "(string \<times> topic_class) list" where
  "cli_topics = [(''MARKET_LITE'', MarketLite), (''MARKET_HEAVY'', MarketHeavy), (''TRADING'', TradingTopic),
     (''RUNTIME'', RuntimeTopic), (''FUNDING'', FundingTopic), (''DERIVATIVES'', DerivativesTopic)]"

definition parse_topics :: "string list \<Rightarrow> cli_error + topic_class list" where
  "parse_topics topics =
     (if topics = [] then Inr [MarketLite, MarketHeavy, TradingTopic]
      else let find_topic = (\<lambda>t. map_of cli_topics (to_uppercase t)); unknown = filter (\<lambda>t. find_topic t = None) topics
           in if unknown \<noteq> [] then Inl (UnknownTopics unknown) else Inr (map (the \<circ> find_topic) topics))"

fun topic_name :: "topic_class enum_value \<Rightarrow> string" where
  "topic_name (Known MarketLite) = ''MARKET_LITE''"
| "topic_name (Known MarketHeavy) = ''MARKET_HEAVY''"
| "topic_name (Known TradingTopic) = ''TRADING''"
| "topic_name (Known RuntimeTopic) = ''RUNTIME''"
| "topic_name (Known FundingTopic) = ''FUNDING''"
| "topic_name (Known DerivativesTopic) = ''DERIVATIVES''"
| "topic_name _ = ''UNKNOWN''"

section \<open>Commands\<close>

datatype command =
    Health
  | Venues
  | Symbols string
  | Candles string string u32
  | Book string u32
  | Search string u32
  | Account
  | Positions
  | Orders "string option"
  | History u32
  | BuyCommand string string "string option" "string option" "string option"
  | SellCommand string string "string option" "string option" "string option"
  | Cancel string
  | Close string
  | StreamCommand "string list"
  | Strategies
  | StrategyStart string "string option"
  | StrategyStop string bool

text \<open>The call of the terminal client a command makes.\<close>

datatype cli_call =
    CallHealth
  | CallListVenues
  | CallListSymbols string
  | CallGetCandles exchange_id string timeframe u32
  | CallFetchOrderBook exchange_id string u32
  | CallSearchSymbols exchange_id string u32
  | CallGetAccount exchange_id
  | CallGetPositions exchange_id
  | CallFetchOpenOrders exchange_id string u32
  | CallGetOrderHistory exchange_id u32
  | CallCreateOrder exchange_id cli_order
  | CallCancelOrder cancel_order_request
  | CallClosePosition exchange_id string
  | CallStreamUpdates exchange_id "string list" "topic_class list"
  | CallListStrategies
  | CallStartStrategy string string string
  | CallStopStrategy string bool

definition cli_exchange_id :: "string \<Rightarrow> exchange_id" where
  "cli_exchange_id ven = mk_exchange_id ven ''''"

fun dispatch :: "'d decimal_api \<Rightarrow> string \<Rightarrow> string \<Rightarrow> command \<Rightarrow> cli_error + cli_call" where
  "dispatch D ulid ven Health = Inr CallHealth"
| "dispatch D ulid ven Venues = Inr CallListVenues"
| "dispatch D ulid ven (Symbols v) = Inr (CallListSymbols v)"
| "dispatch D ulid ven (Candles symbol timeframe limit) =
     map_sum id (\<lambda>tf. CallGetCandles (cli_exchange_id ven) symbol tf limit) (parse_timeframe timeframe)"
| "dispatch D ulid ven (Book symbol depth) = Inr (CallFetchOrderBook (cli_exchange_id ven) symbol depth)"
| "dispatch D ulid ven (Search query limit) = Inr (CallSearchSymbols (cli_exchange_id ven) query limit)"
| "dispatch D ulid ven Account = Inr (CallGetAccount (cli_exchange_id ven))"
| "dispatch D ulid ven Positions = Inr (CallGetPositions (cli_exchange_id ven))"
| "dispatch D ulid ven (Orders symbol) =
     Inr (CallFetchOpenOrders (cli_exchange_id ven) (case symbol of None \<Rightarrow> [] | Some s \<Rightarrow> s) 100)"
| "dispatch D ulid ven (History limit) = Inr (CallGetOrderHistory (cli_exchange_id ven) limit)"
| "dispatch D ulid ven (BuyCommand symbol quantity price take_profit stop_loss) =
     map_sum id (CallCreateOrder (cli_exchange_id ven)) (cli_place_order D ulid symbol Buy quantity price take_profit stop_loss)"
| "dispatch D ulid ven (SellCommand symbol quantity price take_profit stop_loss) =
     map_sum id (CallCreateOrder (cli_exchange_id ven)) (cli_place_order D ulid symbol Sell quantity price take_profit stop_loss)"
| "dispatch D ulid ven (Cancel order_id) =
     Inr (CallCancelOrder \<lparr>can_exchange_id = Some (cli_exchange_id ven), can_order_id = order_id, can_symbol = []\<rparr>)"
| "dispatch D ulid ven (Close position_id) = Inr (CallClosePosition (cli_exchange_id ven) position_id)"
| "dispatch D ulid ven (StreamCommand topics) =
     map_sum id (CallStreamUpdates (cli_exchange_id ven) []) (parse_topics topics)"
| "dispatch D ulid ven Strategies = Inr CallListStrategies"
| "dispatch D ulid ven (StrategyStart strategy_id name) =
     Inr (CallStartStrategy strategy_id (case name of None \<Rightarrow> strategy_id | Some n \<Rightarrow> n) ''{}'')"
| "dispatch D ulid ven (StrategyStop strategy_id cancel_all) = Inr (CallStopStrategy strategy_id cancel_all)"

section \<open>Cells\<close>

definition fmt_dec :: "'d decimal_api \<Rightarrow> wire_decimal \<Rightarrow> string" where
  "fmt_dec D w = (case common_to_decimal (d_parse D) w of
       Inr x \<Rightarrow> d_show D x
     | Inl err \<Rightarrow> ''<undecodable: '' @ decimal_error_to_string err @ ''>'')"

text \<open>A cell counts characters; here a text is the list of its code points.\<close>

definition trunc :: "nat list \<Rightarrow> nat \<Rightarrow> nat list" where
  "trunc s width = (if length s \<le> width then s @ replicate (width - length s) 32 else take (width - 1) s @ [0x2026])"

definition nine_digits :: "nat \<Rightarrow> string" where
  "nine_digits n = (let t = nat_to_string n in replicate (9 - length t) (CHR ''0'') @ t)"

definition timestamp_text :: "int \<Rightarrow> int \<Rightarrow> string" where
  "timestamp_text seconds nanos =
     (let t = seconds * 1000000000 + nanos
      in int_to_string (t div 1000000000) @ ''.'' @ nine_digits (nat (t mod 1000000000)))"

section \<open>The catalog of strategies\<close>

text \<open>The bounds of a slot are floating-point literals, here the rationals they are written as.\<close>

record param_slot =
  sl_label :: string
  sl_dimension :: string
  sl_min :: "rat option"
  sl_max :: "rat option"
  sl_step :: "rat option"
  sl_default :: "rat option"

record strategy_descriptor =
  ds_id :: string
  ds_name :: string
  ds_builtin :: bool
  ds_kind :: string
  ds_params :: "param_slot list"

definition slot :: "string \<Rightarrow> string \<Rightarrow> rat option \<Rightarrow> rat option \<Rightarrow> rat option \<Rightarrow> rat option \<Rightarrow> param_slot" where
  "slot label dimension lo hi step dflt = \<lparr>sl_label = label, sl_dimension = dimension, sl_min = lo, sl_max = hi,
     sl_step = step, sl_default = dflt\<rparr>"

definition worker_strategy_ids :: "string list" where
  "worker_strategy_ids = [''adx_trend'', ''amm_arb'', ''apt_mm'', ''autoborrow'', ''avellaneda_mm_v2'', ''balance_align'',
     ''basis_mm'', ''bb_keltner_squeeze'', ''boll_grid'', ''bollinger_v2'', ''convert'', ''cross_depth_maker'',
     ''cross_exchange_mm'', ''cross_fixed_maker'', ''cross_maker'', ''cvd_divergence'', ''darvas_box'', ''dca'',
     ''dca_executor'', ''dca_scheduler'', ''deposit_transfer'', ''dman_v3'', ''dual_thrust'', ''ema_cross'', ''fixed_maker'',
     ''glft_mm'', ''grid_strike'', ''hedge'', ''hedge_grid'', ''ichimoku'', ''irr'', ''liquidity_mining'', ''macd_bb'',
     ''market_cap'', ''mean_reversion'', ''momentum_factor'', ''nav_recorder'', ''obi_mm'', ''perpetual_mm'', ''pmm_dynamic'',
     ''premium_monitor'', ''pure_market_making'', ''queue_mm'', ''random_entry'', ''rebalance'', ''sentinel'', ''simple_grid'',
     ''simplified_glft_mm'', ''skewed_grid'', ''spot_perp_arb'', ''stat_arb'', ''supertrend'', ''twap_executor'',
     ''vwap_executor'', ''xfunding_lite'']"

fun title_words :: "bool \<Rightarrow> string \<Rightarrow> string" where
  "title_words start [] = []"
| "title_words start (c # cs) =
     (if c = CHR ''_'' then CHR '' '' # title_words True cs
      else (if start then ascii_upper c else c) # title_words False cs)"

definition worker_stub :: "string \<Rightarrow> strategy_descriptor" where
  "worker_stub i = \<lparr>ds_id = i, ds_name = title_words True i, ds_builtin = True,
     ds_kind = (if i \<in> set [''amm_arb'', ''spot_perp_arb'', ''stat_arb''] then ''arb''
                else if i \<in> set [''hedge'', ''hedge_grid''] then ''hedge'' else ''maker''),
     ds_params = []\<rparr>"

definition grid_maker :: strategy_descriptor where
  "grid_maker = \<lparr>ds_id = ''grid_maker'', ds_name = ''Grid Maker'', ds_builtin = True, ds_kind = ''maker'',
     ds_params = [slot ''lower_bound'' ''usd'' (Some 0) None (Some 1) (Some 90000),
       slot ''upper_bound'' ''usd'' (Some 0) None (Some 1) (Some 110000),
       slot ''levels'' ''decimal'' (Some 1) None (Some 1) (Some 20),
       slot ''qty_per_level'' ''decimal'' (Some 0) None (Some (1 / 10000)) (Some (1 / 100)),
       slot ''order_offset'' ''percent'' (Some 0) None (Some (1 / 10000)) (Some (1 / 1000)),
       slot ''max_notional'' ''usd'' (Some 0) None (Some 50) (Some 1000)]\<rparr>"

definition cmdnc_arb :: strategy_descriptor where
  "cmdnc_arb = \<lparr>ds_id = ''cmdnc_arb'', ds_name = ''Cross-Venue Convergence Arbitrage'', ds_builtin = True, ds_kind = ''arb'',
     ds_params = [slot ''open_basis'' ''percent'' (Some 0) None (Some (1 / 10000)) (Some (5 / 1000)),
       slot ''close_basis'' ''percent'' (Some 0) None (Some (1 / 10000)) (Some (2 / 1000)),
       slot ''notional_per_round'' ''usd'' (Some 0) None (Some 10) (Some 100),
       slot ''max_notional'' ''usd'' (Some 0) None (Some 50) (Some 1000)]\<rparr>"

definition builtin_descriptors :: "strategy_descriptor list" where
  "builtin_descriptors = [grid_maker, cmdnc_arb] @ map worker_stub worker_strategy_ids"

definition descriptor :: "string \<Rightarrow> strategy_descriptor option" where
  "descriptor i = find (\<lambda>d. ds_id d = i) builtin_descriptors"

section \<open>Properties\<close>

lemma digits_nonempty: "is_digits w \<Longrightarrow> w \<noteq> []"
  by (simp add: is_digits_def)

text \<open>The client and the worker agree on which literals are decimals.\<close>

lemma cli_grammar_agrees: "cli_grammar_violation s = None \<longleftrightarrow> grammar_violation s = None"
proof (cases "split_once (CHR ''.'') (strip_minus s)")
  case None
  then have "CHR ''.'' \<notin> set (strip_minus s)" by (simp add: split_once_None)
  with None show ?thesis by (auto simp: cli_grammar_violation_def grammar_violation_def Let_def dest: digits_nonempty split: if_splits)
next
  case (Some p)
  obtain w f where p: "p = (w, f)" by fastforce
  then have "CHR ''.'' \<in> set (strip_minus s)" using Some split_once_Some [of "CHR ''.''" "strip_minus s" w f] by auto
  with Some p show ?thesis
    by (auto simp: cli_grammar_violation_def grammar_violation_def Let_def max_scale_def dest: digits_nonempty split: if_splits)
qed

definition prints_decimals :: "'d decimal_api \<Rightarrow> bool" where
  "prints_decimals D \<longleftrightarrow> (\<forall>x. base10 (d_show D x) \<and> d_parse D (d_show D x) = Inr x)"

lemma printed_decodes: "prints_decimals D \<Longrightarrow> common_to_decimal (d_parse D) (decimal_to_common (d_show D) x) = Inr x"
  by (simp add: prints_decimals_def common_to_decimal_def decimal_to_common_def base10_not_blank base10_grammar_violation_None)

lemma parse_dec_Inr: "parse_dec D s field = Inr x \<longleftrightarrow> base10 s \<and> d_parse D s = Inr x"
  using cli_grammar_agrees [of s] grammar_violation_None_base10 [of s] base10_grammar_violation_None [of s]
  by (cases "d_parse D s") (auto simp: parse_dec_def split: option.split)

lemma parse_positive_Inr:
  "parse_positive_dec D s field = Inr x \<longleftrightarrow> base10 s \<and> d_parse D s = Inr x \<and> d_gt D x (d_zero D)"
proof (cases "parse_dec D s field")
  case (Inl e)
  then show ?thesis using parse_dec_Inr [of D s field x] by (auto simp: parse_positive_dec_def)
next
  case (Inr y)
  then show ?thesis using parse_dec_Inr [of D s field y] by (auto simp: parse_positive_dec_def)
qed

lemma optional_dec_Inr:
  "optional_dec parse show_dec given field = Inr r \<longleftrightarrow>
     (case given of None \<Rightarrow> r = None | Some s \<Rightarrow> \<exists>d. parse s field = Inr d \<and> r = Some (decimal_to_common show_dec d))"
  by (cases given; cases "parse (the given) field") (auto simp: optional_dec_def)


text \<open>The whole numbers are such decimals.\<close>

definition whole_decimals :: "int decimal_api" where
  "whole_decimals = int_api\<lparr>d_parse := (\<lambda>s. Inr (if starts_with (CHR ''-'') s then - int (digits_val (strip_minus s))
     else int (digits_val s)))\<rparr>"

lemma whole_decimals_print: "prints_decimals whole_decimals"
proof -
  have d: "is_digits (nat_to_string n)" for n using nat_to_string_digits by (simp add: is_digits_def)
  have s: "\<not> starts_with (CHR ''-'') (nat_to_string n)" "strip_minus (nat_to_string n) = nat_to_string n" for n
    using nat_to_string_digits [of n]
    by (cases "nat_to_string n"; auto simp: starts_with_def strip_minus_def is_ascii_digit_def)+
  have "base10 (int_to_string i)" for i
    unfolding base10_def
    by (rule exI [of _ "nat_to_string (nat \<bar>i\<bar>)"]) (simp add: d, simp add: int_to_string_def s, simp add: strip_minus_def)
  moreover have "d_parse whole_decimals (int_to_string i) = Inr i" for i
    by (simp add: whole_decimals_def int_to_string_def s digits_val_nat_to_string)
       (simp add: starts_with_def strip_minus_def digits_val_nat_to_string)
  ultimately show ?thesis by (simp add: prints_decimals_def whole_decimals_def int_api_def)
qed


section \<open>Timestamps\<close>

lemma nine_digits_value: "digits_val (nine_digits n) = n"
proof -
  have "digits_val (replicate k (CHR ''0'') @ t) = digits_val t" for k t
    by (induction k) (simp_all add: digits_val_def digit_val_def)
  then show ?thesis by (simp add: nine_digits_def Let_def digits_val_nat_to_string)
qed

text \<open>Two timestamps are printed alike exactly when they are the same instant.\<close>

lemma int_to_string_no_dot: "CHR ''.'' \<notin> set (int_to_string i)"
  using nat_to_string_digits [of "nat (- i)"] nat_to_string_digits [of "nat i"]
  by (auto simp: int_to_string_def list_all_iff)

lemma int_to_string_inject: "int_to_string i = int_to_string j \<longleftrightarrow> i = j"
proof -
  have "CHR ''-'' # x \<noteq> nat_to_string n" for x n
    using nat_to_string_digits [of n] by (metis list.pred_inject(2) non_digits(6))
  then show ?thesis by (auto simp: int_to_string_def dest: sym)
qed

theorem timestamp_text_injective:
  "timestamp_text s n = timestamp_text s' n' \<longleftrightarrow> s * 1000000000 + n = s' * 1000000000 + n'"
proof
  let ?t = "s * 1000000000 + n" and ?t' = "s' * 1000000000 + n'"
  assume "timestamp_text s n = timestamp_text s' n'"
  then have "split_once (CHR ''.'') (timestamp_text s n) = split_once (CHR ''.'') (timestamp_text s' n')" by simp
  then have "int_to_string (?t div 1000000000) = int_to_string (?t' div 1000000000)"
      and "nine_digits (nat (?t mod 1000000000)) = nine_digits (nat (?t' mod 1000000000))"
    using split_once_append [OF int_to_string_no_dot] by (simp_all add: timestamp_text_def Let_def)
  then have "?t div 1000000000 = ?t' div 1000000000" "nat (?t mod 1000000000) = nat (?t' mod 1000000000)"
    using nine_digits_value by (metis int_to_string_inject, metis)
  then have "?t div 1000000000 = ?t' div 1000000000" "?t mod 1000000000 = ?t' mod 1000000000" by simp_all
  then show "?t = ?t'" by (metis div_mult_mod_eq)
qed (simp add: timestamp_text_def)

section \<open>Catalog\<close>

text \<open>
  The catalog and the worker's registry list the same strategies: what the worker can build has
  exactly one descriptor, and every descriptor but the two templates is a strategy it can build.
\<close>

theorem catalog_covers_registry:
  "set worker_strategy_ids = fst ` set registry \<and> distinct (map ds_id builtin_descriptors)
   \<and> (\<forall>name \<in> fst ` set registry. map_option ds_id (descriptor name) = Some name)"
proof -
  have s: "list_all (\<lambda>i. i \<in> fst ` set registry) worker_strategy_ids" "list_all (\<lambda>(i, _). i \<in> set worker_strategy_ids) registry"
    by code_simp+
  have d: "distinct (map ds_id builtin_descriptors)" by code_simp
  have e: "set worker_strategy_ids = fst ` set registry" using s by (force simp: list_all_iff)
  have "map_option ds_id (descriptor i) = Some i" if "i \<in> fst ` set registry" for i
  proof -
    have "worker_stub i \<in> set builtin_descriptors" "ds_id (worker_stub i) = i"
      using that e by (auto simp: builtin_descriptors_def worker_stub_def)
    then have "descriptor i \<noteq> None" unfolding descriptor_def find_None_iff by blast
    then obtain x where x: "descriptor i = Some x" by blast
    then have "ds_id x = i" unfolding descriptor_def find_Some_iff by auto
    then show ?thesis by (simp add: x)
  qed
  then show ?thesis using e d by blast
qed

end
