(* ===== verification/Terminal_Client.thy ===== *)
theory Terminal_Client
  imports Command_Line Remote
begin

text \<open>
  The native client of the contract (\<open>longtrader-proto/src/client.rs\<close>): every unary call over the
  transport, the opening of the update stream, and what a command of the command line client sends.
  Generated message types are not modelled: a request is the list of the fields a call sets, and a
  reply is read by the name of a field.
\<close>

section \<open>The client\<close>

datatype field_value =
    FExchange exchange_id
  | FText string
  | FTexts "string list"
  | FPage u32
  | FCount u32
  | FTimeframe timeframe
  | FMillis "int option"
  | FDecimal "wire_decimal option"
  | FFlag bool
  | FTopics "topic_class list"
  | FStruct bytes
  | FMessage "(string \<times> field_value) list"

text \<open>Opening a stream has no deadline; the text of a refusal may fail to be read.\<close>

datatype stream_outcome = OpenFailed string | Opened nat "string + string"

record ('v, 'r, 'x) terminal_client =
  tc_base_url :: string
  tc_auth_token :: "string option"
  tc_post :: "'v \<Rightarrow> http_request \<Rightarrow> http_outcome \<times> 'v"
  tc_open :: "'v \<Rightarrow> http_request \<Rightarrow> stream_outcome \<times> 'v"
  tc_lossy :: "bytes \<Rightarrow> string"
  tc_enc :: "string \<Rightarrow> (string \<times> field_value) list \<Rightarrow> bytes"
  tc_dec :: "string \<Rightarrow> bytes \<Rightarrow> string + 'r"
  tc_many :: "'r \<Rightarrow> string \<Rightarrow> 'x list"
  tc_one :: "'r \<Rightarrow> string \<Rightarrow> 'x option"
  tc_to_struct :: "json \<Rightarrow> string + bytes"
  tc_from_struct :: "'x \<Rightarrow> string + json"

fun terminal_error :: "transport_error \<Rightarrow> client_error" where
  "terminal_error (HttpError m) = Http m"
| "terminal_error (RpcStatus code message) = RpcError (unat code) message"
| "terminal_error (DecodeFailed m) = DecodeError m"

definition client_unary ::
  "('v, 'r, 'x) terminal_client \<Rightarrow> string \<Rightarrow> string \<Rightarrow> (string \<times> field_value) list \<Rightarrow> 'v \<Rightarrow> (client_error + 'r) \<times> 'v" where
  "client_unary C service meth sets v =
     (let (r, v) = transport_unary (tc_post C) (tc_lossy C) (tc_enc C meth) (tc_dec C meth) (tc_base_url C) service meth
            (tc_auth_token C) sets v
      in (map_err terminal_error r, v))"

definition client_request ::
  "('v, 'r, 'x) terminal_client \<Rightarrow> string \<Rightarrow> bytes \<Rightarrow> string \<Rightarrow> http_request" where
  "client_request C url body content_type = \<lparr>hr_url = url, hr_content_type = content_type,
     hr_authorization = (case tc_auth_token C of Some t \<Rightarrow> if t = [] then None else Some (''Bearer '' @ t) | None \<Rightarrow> None),
     hr_body = body\<rparr>"

text \<open>What a call makes of the reply: a repeated field, a required or an optional message, or all of it.\<close>

definition answer_many ::
  "('v, 'r, 'x) terminal_client \<Rightarrow> string \<Rightarrow> (client_error + 'r) \<times> 'v \<Rightarrow> (client_error + 'x list) \<times> 'v" where
  "answer_many C field p = (map_sum id (\<lambda>r. tc_many C r field) (fst p), snd p)"

definition answer_one ::
  "('v, 'r, 'x) terminal_client \<Rightarrow> string \<Rightarrow> (client_error + 'r) \<times> 'v \<Rightarrow> (client_error + 'x) \<times> 'v" where
  "answer_one C field p = ((case fst p of
       Inl e \<Rightarrow> Inl e
     | Inr r \<Rightarrow> (case tc_one C r field of None \<Rightarrow> Inl (MissingReply field) | Some x \<Rightarrow> Inr x)), snd p)"

definition answer_optional ::
  "('v, 'r, 'x) terminal_client \<Rightarrow> string \<Rightarrow> (client_error + 'r) \<times> 'v \<Rightarrow> (client_error + 'x option) \<times> 'v" where
  "answer_optional C field p = (map_sum id (\<lambda>r. tc_one C r field) (fst p), snd p)"

definition answer_whole :: "(client_error + 'r) \<times> 'v \<Rightarrow> (client_error + 'r) \<times> 'v" where
  "answer_whole p = p"

definition answer_nothing :: "(client_error + 'r) \<times> 'v \<Rightarrow> (client_error + unit) \<times> 'v" where
  "answer_nothing p = (map_sum id (\<lambda>_. ()) (fst p), snd p)"

definition SERVICE_RUNTIME :: string where "SERVICE_RUNTIME = ''longtrader.terminal.v1.RuntimeService''"
definition SERVICE_STRATEGY :: string where "SERVICE_STRATEGY = ''longtrader.terminal.v1.StrategyService''"
definition SERVICE_VENUE_OPS :: string where "SERVICE_VENUE_OPS = ''longtrader.ops.v1.VenueOpService''"

section \<open>Calls\<close>

definition client_list_symbols ::
  "('v, 'r, 'x) terminal_client \<Rightarrow> exchange_id \<Rightarrow> 'v
   \<Rightarrow> (client_error + 'x list) \<times> 'v" where
  "client_list_symbols C ex v = answer_many C ''symbols'' (client_unary C SERVICE_MARKET ''ListSymbols''
     [(''exchange_id'', FExchange ex)] v)"

definition client_search_symbols ::
  "('v, 'r, 'x) terminal_client \<Rightarrow> exchange_id \<Rightarrow> string \<Rightarrow> u32 \<Rightarrow> 'v
   \<Rightarrow> (client_error + 'x list) \<times> 'v" where
  "client_search_symbols C ex query limit v = answer_many C ''symbols'' (client_unary C SERVICE_MARKET ''SearchSymbols''
     [(''exchange_id'', FExchange ex), (''query'', FText query), (''pagination'', FPage limit)] v)"

definition client_get_candles_window ::
  "('v, 'r, 'x) terminal_client \<Rightarrow> exchange_id \<Rightarrow> string \<Rightarrow> timeframe \<Rightarrow> (int option) \<Rightarrow> (int option) \<Rightarrow> u32 \<Rightarrow> 'v
   \<Rightarrow> (client_error + 'x list) \<times> 'v" where
  "client_get_candles_window C ex symbol tf start_ms end_ms limit v = answer_many C ''candles'' (client_unary C SERVICE_MARKET ''GetCandles''
     [(''exchange_id'', FExchange ex), (''symbol'', FText symbol), (''timeframe'', FTimeframe tf), (''pagination'', FPage limit), (''start_ms'', FMillis start_ms), (''end_ms'', FMillis end_ms)] v)"

definition client_fetch_order_book ::
  "('v, 'r, 'x) terminal_client \<Rightarrow> exchange_id \<Rightarrow> string \<Rightarrow> u32 \<Rightarrow> 'v
   \<Rightarrow> (client_error + 'x) \<times> 'v" where
  "client_fetch_order_book C ex symbol limit v = answer_one C ''orderbook'' (client_unary C SERVICE_MARKET ''FetchOrderBook''
     [(''exchange_id'', FExchange ex), (''symbol'', FText symbol), (''pagination'', FPage limit)] v)"

definition client_fetch_ticker ::
  "('v, 'r, 'x) terminal_client \<Rightarrow> exchange_id \<Rightarrow> string \<Rightarrow> 'v
   \<Rightarrow> (client_error + 'x) \<times> 'v" where
  "client_fetch_ticker C ex symbol v = answer_one C ''ticker'' (client_unary C SERVICE_MARKET ''FetchTicker''
     [(''exchange_id'', FExchange ex), (''symbol'', FText symbol)] v)"

definition client_list_tickers ::
  "('v, 'r, 'x) terminal_client \<Rightarrow> exchange_id \<Rightarrow> (string list) \<Rightarrow> 'v
   \<Rightarrow> (client_error + 'x list) \<times> 'v" where
  "client_list_tickers C ex symbols v = answer_many C ''tickers'' (client_unary C SERVICE_MARKET ''ListTickers''
     [(''exchange_id'', FExchange ex), (''symbols'', FTexts symbols)] v)"

definition client_fetch_funding_rate ::
  "('v, 'r, 'x) terminal_client \<Rightarrow> exchange_id \<Rightarrow> string \<Rightarrow> 'v
   \<Rightarrow> (client_error + 'x option) \<times> 'v" where
  "client_fetch_funding_rate C ex symbol v = answer_optional C ''funding_rate'' (client_unary C SERVICE_MARKET ''FetchFundingRate''
     [(''exchange_id'', FExchange ex), (''symbol'', FText symbol)] v)"

definition client_list_funding_rates ::
  "('v, 'r, 'x) terminal_client \<Rightarrow> exchange_id \<Rightarrow> (string list) \<Rightarrow> 'v
   \<Rightarrow> (client_error + 'x list) \<times> 'v" where
  "client_list_funding_rates C ex symbols v = answer_many C ''funding_rates'' (client_unary C SERVICE_MARKET ''ListFundingRates''
     [(''exchange_id'', FExchange ex), (''symbols'', FTexts symbols)] v)"

definition client_fetch_funding_rate_history ::
  "('v, 'r, 'x) terminal_client \<Rightarrow> exchange_id \<Rightarrow> string \<Rightarrow> u32 \<Rightarrow> 'v
   \<Rightarrow> (client_error + 'x list) \<times> 'v" where
  "client_fetch_funding_rate_history C ex symbol limit v = answer_many C ''points'' (client_unary C SERVICE_MARKET ''FetchFundingRateHistory''
     [(''exchange_id'', FExchange ex), (''symbol'', FText symbol), (''limit'', FCount limit)] v)"

definition client_create_order ::
  "('v, 'r, 'x) terminal_client \<Rightarrow> ((string \<times> field_value) list) \<Rightarrow> 'v
   \<Rightarrow> (client_error + 'x) \<times> 'v" where
  "client_create_order C req v = answer_one C ''order'' (client_unary C SERVICE_TRADING ''CreateOrder''
     req v)"

definition client_create_orders ::
  "('v, 'r, 'x) terminal_client \<Rightarrow> ((string \<times> field_value) list) \<Rightarrow> 'v
   \<Rightarrow> (client_error + 'x list) \<times> 'v" where
  "client_create_orders C req v = answer_many C ''orders'' (client_unary C SERVICE_TRADING ''CreateOrders''
     req v)"

definition client_cancel_order ::
  "('v, 'r, 'x) terminal_client \<Rightarrow> ((string \<times> field_value) list) \<Rightarrow> 'v
   \<Rightarrow> (client_error + 'x) \<times> 'v" where
  "client_cancel_order C req v = answer_one C ''order'' (client_unary C SERVICE_TRADING ''CancelOrder''
     req v)"

definition client_cancel_all_orders ::
  "('v, 'r, 'x) terminal_client \<Rightarrow> ((string \<times> field_value) list) \<Rightarrow> 'v
   \<Rightarrow> (client_error + 'x list) \<times> 'v" where
  "client_cancel_all_orders C req v = answer_many C ''orders'' (client_unary C SERVICE_TRADING ''CancelAllOrders''
     req v)"

definition client_fetch_open_orders ::
  "('v, 'r, 'x) terminal_client \<Rightarrow> exchange_id \<Rightarrow> string \<Rightarrow> u32 \<Rightarrow> 'v
   \<Rightarrow> (client_error + 'x list) \<times> 'v" where
  "client_fetch_open_orders C ex symbol limit v = answer_many C ''orders'' (client_unary C SERVICE_TRADING ''FetchOpenOrders''
     [(''exchange_id'', FExchange ex), (''symbol'', FText symbol), (''pagination'', FPage limit)] v)"

definition client_get_account ::
  "('v, 'r, 'x) terminal_client \<Rightarrow> exchange_id \<Rightarrow> 'v
   \<Rightarrow> (client_error + 'x) \<times> 'v" where
  "client_get_account C ex v = answer_one C ''account'' (client_unary C SERVICE_TRADING ''GetAccount''
     [(''exchange_id'', FExchange ex)] v)"

definition client_get_positions ::
  "('v, 'r, 'x) terminal_client \<Rightarrow> exchange_id \<Rightarrow> (string list) \<Rightarrow> 'v
   \<Rightarrow> (client_error + 'x list) \<times> 'v" where
  "client_get_positions C ex symbols v = answer_many C ''positions'' (client_unary C SERVICE_TRADING ''GetPositions''
     [(''exchange_id'', FExchange ex), (''symbols'', FTexts symbols)] v)"

definition client_get_order_history ::
  "('v, 'r, 'x) terminal_client \<Rightarrow> exchange_id \<Rightarrow> u32 \<Rightarrow> 'v
   \<Rightarrow> (client_error + 'x list) \<times> 'v" where
  "client_get_order_history C ex limit v = answer_many C ''orders'' (client_unary C SERVICE_TRADING ''GetOrderHistory''
     [(''exchange_id'', FExchange ex), (''pagination'', FPage limit)] v)"

definition client_get_closed_positions ::
  "('v, 'r, 'x) terminal_client \<Rightarrow> exchange_id \<Rightarrow> u32 \<Rightarrow> 'v
   \<Rightarrow> (client_error + 'x list) \<times> 'v" where
  "client_get_closed_positions C ex limit v = answer_many C ''positions'' (client_unary C SERVICE_TRADING ''GetClosedPositions''
     [(''exchange_id'', FExchange ex), (''pagination'', FPage limit)] v)"

definition client_close_position ::
  "('v, 'r, 'x) terminal_client \<Rightarrow> exchange_id \<Rightarrow> string \<Rightarrow> 'v
   \<Rightarrow> (client_error + 'x) \<times> 'v" where
  "client_close_position C ex position_id v = answer_one C ''position'' (client_unary C SERVICE_TRADING ''ClosePosition''
     [(''exchange_id'', FExchange ex), (''position_id'', FText position_id)] v)"

definition client_close_all_positions ::
  "('v, 'r, 'x) terminal_client \<Rightarrow> exchange_id \<Rightarrow> 'v
   \<Rightarrow> (client_error + unit) \<times> 'v" where
  "client_close_all_positions C ex v = answer_nothing (client_unary C SERVICE_TRADING ''CloseAllPositions''
     [(''exchange_id'', FExchange ex)] v)"

definition client_modify_position ::
  "('v, 'r, 'x) terminal_client \<Rightarrow> exchange_id \<Rightarrow> string \<Rightarrow> (wire_decimal option) \<Rightarrow> (wire_decimal option) \<Rightarrow> 'v
   \<Rightarrow> (client_error + 'x) \<times> 'v" where
  "client_modify_position C ex position_id take_profit stop_loss v = answer_one C ''position'' (client_unary C SERVICE_TRADING ''ModifyPosition''
     [(''exchange_id'', FExchange ex), (''position_id'', FText position_id), (''take_profit'', FDecimal take_profit), (''stop_loss'', FDecimal stop_loss)] v)"

definition client_create_trigger_order ::
  "('v, 'r, 'x) terminal_client \<Rightarrow> exchange_id \<Rightarrow> ((string \<times> field_value) list) \<Rightarrow> 'v
   \<Rightarrow> (client_error + 'x) \<times> 'v" where
  "client_create_trigger_order C ex ord v = answer_one C ''order'' (client_unary C SERVICE_TRADING ''CreateTriggerOrder''
     [(''exchange_id'', FExchange ex), (''order'', FMessage ord)] v)"

definition client_cancel_trigger_order ::
  "('v, 'r, 'x) terminal_client \<Rightarrow> exchange_id \<Rightarrow> string \<Rightarrow> string \<Rightarrow> 'v
   \<Rightarrow> (client_error + 'x) \<times> 'v" where
  "client_cancel_trigger_order C ex order_id symbol v = answer_one C ''order'' (client_unary C SERVICE_TRADING ''CancelTriggerOrder''
     [(''exchange_id'', FExchange ex), (''order_id'', FText order_id), (''symbol'', FText symbol)] v)"

definition client_list_trigger_orders ::
  "('v, 'r, 'x) terminal_client \<Rightarrow> exchange_id \<Rightarrow> (string list) \<Rightarrow> 'v
   \<Rightarrow> (client_error + 'x list) \<times> 'v" where
  "client_list_trigger_orders C ex symbols v = answer_many C ''orders'' (client_unary C SERVICE_TRADING ''ListTriggerOrders''
     [(''exchange_id'', FExchange ex), (''symbols'', FTexts symbols)] v)"

definition client_fetch_ledger_entries ::
  "('v, 'r, 'x) terminal_client \<Rightarrow> exchange_id \<Rightarrow> string \<Rightarrow> string \<Rightarrow> u32 \<Rightarrow> 'v
   \<Rightarrow> (client_error + 'x list) \<times> 'v" where
  "client_fetch_ledger_entries C ex currency entry_type limit v = answer_many C ''entries'' (client_unary C SERVICE_TRADING ''FetchLedgerEntries''
     [(''exchange_id'', FExchange ex), (''currency'', FText currency), (''type'', FText entry_type), (''pagination'', FPage limit)] v)"

definition client_transfer ::
  "('v, 'r, 'x) terminal_client \<Rightarrow> exchange_id \<Rightarrow> string \<Rightarrow> wire_decimal \<Rightarrow> string \<Rightarrow> string \<Rightarrow> 'v
   \<Rightarrow> (client_error + 'r) \<times> 'v" where
  "client_transfer C ex asset amount dest_label client_transfer_id v = answer_whole (client_unary C SERVICE_TRADING ''Transfer''
     [(''exchange_id'', FExchange ex), (''asset'', FText asset), (''amount'', FDecimal (Some amount)), (''dest_label'', FText dest_label), (''client_transfer_id'', FText client_transfer_id)] v)"

definition client_list_strategies ::
  "('v, 'r, 'x) terminal_client \<Rightarrow> 'v
   \<Rightarrow> (client_error + 'x list) \<times> 'v" where
  "client_list_strategies C v = answer_many C ''strategies'' (client_unary C SERVICE_STRATEGY ''ListStrategies''
     [] v)"

definition client_start_strategy ::
  "('v, 'r, 'x) terminal_client \<Rightarrow> string \<Rightarrow> string \<Rightarrow> string \<Rightarrow> 'v
   \<Rightarrow> (client_error + 'r) \<times> 'v" where
  "client_start_strategy C strategy_id name params_json v = answer_whole (client_unary C SERVICE_STRATEGY ''StartStrategy''
     [(''strategy_id'', FText strategy_id), (''name'', FText name), (''params_json'', FText params_json)] v)"

definition client_pause_strategy ::
  "('v, 'r, 'x) terminal_client \<Rightarrow> string \<Rightarrow> 'v
   \<Rightarrow> (client_error + 'r) \<times> 'v" where
  "client_pause_strategy C strategy_id v = answer_whole (client_unary C SERVICE_STRATEGY ''PauseStrategy''
     [(''strategy_id'', FText strategy_id)] v)"

definition client_resume_strategy ::
  "('v, 'r, 'x) terminal_client \<Rightarrow> string \<Rightarrow> 'v
   \<Rightarrow> (client_error + 'r) \<times> 'v" where
  "client_resume_strategy C strategy_id v = answer_whole (client_unary C SERVICE_STRATEGY ''ResumeStrategy''
     [(''strategy_id'', FText strategy_id)] v)"

definition client_stop_strategy ::
  "('v, 'r, 'x) terminal_client \<Rightarrow> string \<Rightarrow> bool \<Rightarrow> 'v
   \<Rightarrow> (client_error + 'r) \<times> 'v" where
  "client_stop_strategy C strategy_id cancel_all_orders v = answer_whole (client_unary C SERVICE_STRATEGY ''StopStrategy''
     [(''strategy_id'', FText strategy_id), (''cancel_all_orders'', FFlag cancel_all_orders)] v)"

definition client_get_strategy_status ::
  "('v, 'r, 'x) terminal_client \<Rightarrow> string \<Rightarrow> 'v
   \<Rightarrow> (client_error + 'r) \<times> 'v" where
  "client_get_strategy_status C strategy_id v = answer_whole (client_unary C SERVICE_STRATEGY ''GetStrategyStatus''
     [(''strategy_id'', FText strategy_id)] v)"

definition client_submit_action ::
  "('v, 'r, 'x) terminal_client \<Rightarrow> string \<Rightarrow> ((string \<times> field_value) list) \<Rightarrow> 'v
   \<Rightarrow> (client_error + 'r) \<times> 'v" where
  "client_submit_action C strategy_id action v = answer_whole (client_unary C SERVICE_STRATEGY ''SubmitAction''
     [(''strategy_id'', FText strategy_id), (''action'', FMessage action)] v)"

definition client_health ::
  "('v, 'r, 'x) terminal_client \<Rightarrow> 'v
   \<Rightarrow> (client_error + 'r) \<times> 'v" where
  "client_health C v = answer_whole (client_unary C SERVICE_RUNTIME ''Health''
     [] v)"

definition client_list_venues ::
  "('v, 'r, 'x) terminal_client \<Rightarrow> 'v
   \<Rightarrow> (client_error + 'x list) \<times> 'v" where
  "client_list_venues C v = answer_many C ''venues'' (client_unary C SERVICE_RUNTIME ''ListVenues''
     [] v)"

definition client_list_venue_ops ::
  "('v, 'r, 'x) terminal_client \<Rightarrow> exchange_id \<Rightarrow> 'v
   \<Rightarrow> (client_error + 'x list) \<times> 'v" where
  "client_list_venue_ops C ex v = answer_many C ''ops'' (client_unary C SERVICE_VENUE_OPS ''ListVenueOps''
     [(''exchange_id'', FText (ex_id ex))] v)"

definition client_describe_venue_op ::
  "('v, 'r, 'x) terminal_client \<Rightarrow> exchange_id \<Rightarrow> string \<Rightarrow> 'v
   \<Rightarrow> (client_error + 'x) \<times> 'v" where
  "client_describe_venue_op C ex op v = answer_one C ''op'' (client_unary C SERVICE_VENUE_OPS ''DescribeVenueOp''
     [(''exchange_id'', FText (ex_id ex)), (''op'', FText op)] v)"

definition client_get_candles ::
  "('v, 'r, 'x) terminal_client \<Rightarrow> exchange_id \<Rightarrow> string \<Rightarrow> timeframe \<Rightarrow> u32 \<Rightarrow> 'v \<Rightarrow> (client_error + 'x list) \<times> 'v" where
  "client_get_candles C ex symbol tf limit v = client_get_candles_window C ex symbol tf None None limit v"

definition client_invoke_venue_op ::
  "('v, 'r, 'x) terminal_client \<Rightarrow> exchange_id \<Rightarrow> string \<Rightarrow> json \<Rightarrow> 'v \<Rightarrow> (client_error + json) \<times> 'v" where
  "client_invoke_venue_op C ex op params v = (case tc_to_struct C params of
       Inl e \<Rightarrow> (Inl (DecodeError (''params not a Struct: '' @ e)), v)
     | Inr s \<Rightarrow> (case answer_one C ''result'' (client_unary C SERVICE_VENUE_OPS ''InvokeVenueOp''
            [(''exchange_id'', FText (ex_id ex)), (''op'', FText op), (''params'', FStruct s)] v) of
          (Inl e, v) \<Rightarrow> (Inl e, v)
        | (Inr x, v) \<Rightarrow> (map_err (\<lambda>e. DecodeError (''result not convertible to JSON: '' @ e)) (tc_from_struct C x), v)))"

definition CONNECT_PROTO_STREAM :: string where "CONNECT_PROTO_STREAM = ''application/connect+proto''"

text \<open>
  Opening the stream; what follows is the reader \<open>read_all\<close>.  A request that does not fit a frame panics
  (\<open>None\<close>).
\<close>

definition client_stream_updates ::
  "('v, 'r, 'x) terminal_client \<Rightarrow> exchange_id \<Rightarrow> string list \<Rightarrow> topic_class list \<Rightarrow> 'v \<Rightarrow> (client_error + unit) option \<times> 'v" where
  "client_stream_updates C ex symbols topics v =
     (let payload = tc_enc C ''StreamUpdates''
            [(''exchange_id'', FExchange ex), (''symbols'', FTexts symbols), (''topics'', FTopics topics)]
      in case encode_envelope FLAG_MESSAGE payload of
           None \<Rightarrow> (None, v)
         | Some body \<Rightarrow>
             (case tc_open C v (client_request C (service_url (tc_base_url C) SERVICE_RUNTIME ''StreamUpdates'') body CONNECT_PROTO_STREAM) of
                (OpenFailed e, v) \<Rightarrow> (Some (Inl (Http e)), v)
              | (Opened status body, v) \<Rightarrow>
                  (Some (if is_success status then Inr ()
                     else case body of Inl e \<Rightarrow> Inl (Http (''read error: '' @ e)) | Inr message \<Rightarrow> Inl (RpcError status message)), v)))"

section \<open>Running a command\<close>

definition order_fields :: "cli_order \<Rightarrow> (string \<times> field_value) list" where
  "order_fields ord = [(''client_order_id'', FText (or_client_order_id ord)), (''symbol'', FText (or_symbol ord)),
     (''type'', FText (if or_type ord = Known Limit then ''LIMIT'' else ''MARKET'')),
     (''side'', FText (if or_side ord = Known Buy then ''BUY'' else ''SELL'')),
     (''amount'', FDecimal (or_amount ord)), (''price'', FDecimal (or_price ord)),
     (''take_profit'', FDecimal (co_take_profit ord)), (''stop_loss'', FDecimal (co_stop_loss ord))]"

definition printed :: "(client_error + 'a) \<times> 'v \<Rightarrow> (client_error + unit) option \<times> 'v" where
  "printed p = (Some (map_sum id (\<lambda>_. ()) (fst p)), snd p)"

fun run_call :: "('v, 'r, 'x) terminal_client \<Rightarrow> cli_call \<Rightarrow> 'v \<Rightarrow> (client_error + unit) option \<times> 'v" where
  "run_call C CallHealth v = printed (client_health C v)"
| "run_call C CallListVenues v = printed (client_list_venues C v)"
| "run_call C (CallListSymbols ven) v = printed (client_list_symbols C (cli_exchange_id ven) v)"
| "run_call C (CallGetCandles ex symbol tf limit) v = printed (client_get_candles C ex symbol tf limit v)"
| "run_call C (CallFetchOrderBook ex symbol depth) v = printed (client_fetch_order_book C ex symbol depth v)"
| "run_call C (CallSearchSymbols ex query limit) v = printed (client_search_symbols C ex query limit v)"
| "run_call C (CallGetAccount ex) v = printed (client_get_account C ex v)"
| "run_call C (CallGetPositions ex) v = printed (client_get_positions C ex [] v)"
| "run_call C (CallFetchOpenOrders ex symbol limit) v = printed (client_fetch_open_orders C ex symbol limit v)"
| "run_call C (CallGetOrderHistory ex limit) v = printed (client_get_order_history C ex limit v)"
| "run_call C (CallCreateOrder ex ord) v =
     printed (client_create_order C [(''exchange_id'', FExchange ex), (''order'', FMessage (order_fields ord))] v)"
| "run_call C (CallCancelOrder req) v =
     printed (client_cancel_order C ((case can_exchange_id req of None \<Rightarrow> [] | Some ex \<Rightarrow> [(''exchange_id'', FExchange ex)])
       @ [(''order_id'', FText (can_order_id req)), (''symbol'', FText (can_symbol req))]) v)"
| "run_call C (CallClosePosition ex position_id) v = printed (client_close_position C ex position_id v)"
| "run_call C (CallStreamUpdates ex symbols topics) v = client_stream_updates C ex symbols topics v"
| "run_call C CallListStrategies v = printed (client_list_strategies C v)"
| "run_call C (CallStartStrategy strategy_id name params) v = printed (client_start_strategy C strategy_id name params v)"
| "run_call C (CallStopStrategy strategy_id cancel_all) v = printed (client_stop_strategy C strategy_id cancel_all v)"

datatype command_error = UsageError cli_error | ClientError client_error

text \<open>The token of the command line, or else of the environment.\<close>

definition cli_main ::
  "'d decimal_api \<Rightarrow> ('v, 'r, 'x) terminal_client \<Rightarrow> string option \<Rightarrow> string option \<Rightarrow> string \<Rightarrow> string \<Rightarrow> command \<Rightarrow> 'v
   \<Rightarrow> (command_error + unit) option \<times> 'v" where
  "cli_main D C token env_token ulid ven cmd v =
     (let C = C\<lparr>tc_auth_token := (case token of Some t \<Rightarrow> Some t | None \<Rightarrow> env_token)\<rparr>
      in case dispatch D ulid ven cmd of
           Inl e \<Rightarrow> (Some (Inl (UsageError e)), v)
         | Inr call \<Rightarrow> (let (r, v) = run_call C call v in (map_option (map_err ClientError) r, v)))"

section \<open>Properties\<close>

text \<open>A client that keeps a log of the requests it sent.\<close>

definition logging :: "('v \<Rightarrow> http_request \<Rightarrow> 'o \<times> 'v) \<Rightarrow> 'v \<times> http_request list \<Rightarrow> http_request \<Rightarrow> 'o \<times> 'v \<times> http_request list" where
  "logging send p req = (let (out, v) = send (fst p) req in (out, v, snd p @ [req]))"

definition carries :: "string \<Rightarrow> string option \<Rightarrow> http_request \<Rightarrow> bool" where
  "carries base token req \<longleftrightarrow> (\<exists>service meth. hr_url req = service_url base service meth)
     \<and> hr_authorization req = (case token of Some t \<Rightarrow> if t = [] then None else Some (''Bearer '' @ t) | None \<Rightarrow> None)"

definition sends_one :: "string \<Rightarrow> string option \<Rightarrow> ('v \<times> http_request list \<Rightarrow> 'a \<times> 'v \<times> http_request list) \<Rightarrow> bool" where
  "sends_one base token m \<longleftrightarrow> (\<forall>p. \<exists>req. snd (snd (m p)) = snd p @ [req] \<and> carries base token req)"

definition logs :: "('v \<times> http_request list, 'r, 'x) terminal_client \<Rightarrow> bool" where
  "logs C \<longleftrightarrow> (\<exists>send open. tc_post C = logging send \<and> tc_open C = logging open)"

lemma unary_sends_one: "logs C \<Longrightarrow> sends_one (tc_base_url C) (tc_auth_token C) (client_unary C service meth sets)"
  by (fastforce simp: logs_def sends_one_def carries_def client_unary_def transport_unary_def logging_def Let_def
      split: prod.splits http_outcome.splits)

text \<open>A stream request that does not fit a frame is not sent.\<close>

lemma stream_sends_one:
  assumes "logs C"
  shows "fst (client_stream_updates C ex symbols topics p) = None \<and> snd (client_stream_updates C ex symbols topics p) = p
    \<or> (\<exists>req. snd (snd (client_stream_updates C ex symbols topics p)) = snd p @ [req] \<and> carries (tc_base_url C) (tc_auth_token C) req)"
  using assms
  by (fastforce simp: logs_def carries_def client_stream_updates_def client_request_def logging_def Let_def
      split: prod.splits stream_outcome.splits option.splits)

lemma answers_send_nothing:
  "snd (answer_many C f p) = snd p" "snd (answer_one C f p) = snd p" "snd (answer_optional C f p) = snd p"
  "snd (answer_whole p) = snd p" "snd (answer_nothing p) = snd p" "snd (printed p) = snd p"
  by (simp_all add: answer_many_def answer_one_def answer_optional_def answer_whole_def answer_nothing_def printed_def)

lemma run_call_sends_one:
  assumes "logs C"
  shows "fst (run_call C call p) = None \<and> snd (run_call C call p) = p
    \<or> (\<exists>req. snd (snd (run_call C call p)) = snd p @ [req] \<and> carries (tc_base_url C) (tc_auth_token C) req)"
proof -
  have one: "\<exists>req. snd (snd (client_unary C service meth sets p)) = snd p @ [req] \<and> carries (tc_base_url C) (tc_auth_token C) req"
    for service meth sets using unary_sends_one [OF assms] unfolding sends_one_def by blast
  show ?thesis
    by (cases call)
       (simp_all only: run_call.simps answers_send_nothing client_health_def client_list_venues_def
         client_list_symbols_def client_get_candles_def client_get_candles_window_def client_fetch_order_book_def
         client_search_symbols_def client_get_account_def client_get_positions_def client_fetch_open_orders_def
         client_get_order_history_def client_create_order_def client_cancel_order_def client_close_position_def
         client_list_strategies_def client_start_strategy_def client_stop_strategy_def one
         stream_sends_one [OF assms] simp_thms)
qed

text \<open>
  C40: a command of the command line client sends at most one request.  Words that do not parse send
  nothing and are reported as a usage error; every other command sends exactly one, to a method of
  the configured server, with the bearer token of the command line, or else of the environment, when
  it is not empty.  So an order is never sent twice by one command.  (Only a stream request too long for
  a frame panics, before anything is sent.)
\<close>

theorem command_sends_at_most_one_request:
  assumes "logs C" and "cli_main D C token env_token ulid ven cmd p = (r, p')"
  shows "case dispatch D ulid ven cmd of
      Inl e \<Rightarrow> r = Some (Inl (UsageError e)) \<and> p' = p
    | Inr _ \<Rightarrow> r = None \<and> p' = p
        \<or> (\<exists>req. snd p' = snd p @ [req]
            \<and> carries (tc_base_url C) (case token of Some t \<Rightarrow> Some t | None \<Rightarrow> env_token) req)"
proof (cases "dispatch D ulid ven cmd")
  case (Inl e)
  then show ?thesis using assms(2) by (simp add: cli_main_def)
next
  case (Inr call)
  let ?C = "C\<lparr>tc_auth_token := (case token of Some t \<Rightarrow> Some t | None \<Rightarrow> env_token)\<rparr>"
  have "logs ?C" using assms(1) by (simp add: logs_def)
  moreover have "p' = snd (run_call ?C call p)" "r = map_option (map_err ClientError) (fst (run_call ?C call p))"
    using assms(2) Inr by (auto simp: cli_main_def Let_def split: prod.splits)
  ultimately show ?thesis using run_call_sends_one [of ?C call p] Inr by auto
qed

text \<open>A server that is down.\<close>

definition demo_client :: "(unit \<times> http_request list, bytes, bytes) terminal_client" where
  "demo_client = \<lparr>tc_base_url = ''http://127.0.0.1:8810'', tc_auth_token = None,
     tc_post = logging (\<lambda>v req. (SendFailed ''refused'', v)), tc_open = logging (\<lambda>v req. (OpenFailed ''refused'', v)),
     tc_lossy = (\<lambda>_. ''''), tc_enc = (\<lambda>_ _. []), tc_dec = (\<lambda>_ bs. Inr bs), tc_many = (\<lambda>_ _. []), tc_one = (\<lambda>_ _. None),
     tc_to_struct = (\<lambda>_. Inr []), tc_from_struct = (\<lambda>_. Inr JNull)\<rparr>"

theorem command_sends_at_most_one_request_witness:
  "\<exists>req. snd (snd (cli_main whole_decimals demo_client None (Some ''t'') ''X'' ''mock'' Account ((), []))) = [req]
     \<and> hr_authorization req = Some ''Bearer t''"
proof -
  have "logs demo_client" by (auto simp: logs_def demo_client_def)
  moreover obtain r p' where m: "cli_main whole_decimals demo_client None (Some ''t'') ''X'' ''mock'' Account ((), []) = (r, p')"
    by (rule prod.exhaust)
  moreover have "r \<noteq> None" using m by (auto simp: cli_main_def Let_def printed_def split: prod.splits)
  ultimately show ?thesis using command_sends_at_most_one_request [OF _ m] by (auto simp: m carries_def)
qed

end
