(* ===== verification/Spec2Isabelle.thy ===== *)
theory Spec2Isabelle
  imports Session_Wire Risk_Safety Envelope Stream_Client Proxy Grid_Safety Indicator_Bounds Executor_Safety Remote_Link Worker Signal_Safety Maker_Safety Treasury_Safety Strategy_Safety Terminal_Client
begin

text \<open>
  A verification library for the longtrader worker.

  The worker (\<open>bin/longtrader-worker\<close>) runs trading strategies against a venue and exposes the
  venue to external strategies over Connect RPC.  A client attaches a session, keeps its lease
  alive, reconciles, and then submits orders through the proxies; a watchdog trips a kill switch
  when the lease runs out or the venue stops answering; the kill switch and a stop cancel what
  the session left on the venue.  In front of the venue sits a risk gate.  Market data reaches
  strategies through a channel with an overflow policy, and the contract crates
  (\<open>crates/longtrader-contract\<close>, \<open>crates/longtrader-proto\<close>) define the decimal codec, the stream
  envelope and the client.

  \<^bold>\<open>Modelling.\<close>  Rust structures are records, enums are datatypes, \<open>u8\<close>, \<open>u32\<close> and \<open>u64\<close> are
  words, \<open>i64\<close> is an \<open>int\<close> with its bounds written out, instants and durations are nanoseconds in
  \<open>nat\<close>.  A \<open>Result\<close> is a sum with the error on the left.  A panic is the value \<open>None\<close> of an
  \<open>option\<close> (the decimal operations of \<open>rust_decimal\<close> panic on overflow).  Objects behind a lock
  are state that operations take and return.  A trait object is a record of functions over the
  state of the venue.  Code of other crates is a parameter: \<open>rust_decimal\<close> is the record
  \<open>decimal_api\<close>, the constant-time comparison, the ULID generator and the JSON text codec are
  functions, and the laws a theorem needs of them are hypotheses of that theorem.

  \<^bold>\<open>The theories.\<close>
  \<^item> \<open>Prelude\<close>: machine types, results, decimal printing and parsing of unsigned integers, and
    the locale \<open>invariant_system\<close> (an invariant holds in every reachable state).  \<open>Json\<close>: values of
    \<open>serde_json\<close>.
  \<^item> \<open>Decimal_Codec\<close> (\<open>longtrader-contract/src/ext.rs\<close>): the grammar of wire decimals, encoder and
    decoder; the hand-written check accepts exactly the documented language.
  \<^item> \<open>Ports\<close>, \<open>Venue_Ports\<close> (\<open>ports.rs\<close>): the trading gateway with the locale \<open>venue_contract\<close>,
    errors, sequence gaps, page limits; funding, conditional orders, venue operations and the
    wallet with the locale \<open>wallet_contract\<close>.
  \<^item> \<open>Lease_Time\<close> (\<open>session/lease.rs\<close>, \<open>session/time.rs\<close>): lease bounds and timestamps.
  \<^item> \<open>Session_Handle\<close>, \<open>Session_Manager\<close>, \<open>Session_Service\<close> (\<open>session/state.rs\<close>, \<open>mod.rs\<close>,
    \<open>lifecycle.rs\<close>, \<open>gate.rs\<close>, \<open>health.rs\<close>, \<open>events.rs\<close>, \<open>service.rs\<close>): one session with its
    compare-and-swap transitions and replay ring, the registry with every operation on it, and the
    RPC handlers.
  \<^item> \<open>Event_Log\<close>: the replay ring refines an unbounded log (locale \<open>event_log\<close>, interpreted on the
    ring).  \<open>Session_Invariant\<close>: every operation keeps the shape of a session and moves it along
    lifecycle edges only; the registry is a transition system over all operations and an
    interpretation of \<open>invariant_system\<close>.  \<open>Session_Safety\<close>: terminal states are final, only a
    reconciled session is authorized, leases and gateway health are enforced.  \<open>Session_Wire\<close>: what
    a client sees of attach, policy updates and resume tokens.
  \<^item> \<open>Mock_Venue\<close>, \<open>Mock_Extended\<close> (\<open>adapters/mock.rs\<close>): the in-process venue; it satisfies
    \<open>venue_contract\<close> and \<open>wallet_contract\<close>.  \<open>Session_Unwind\<close>: what a stop and a trip achieve on a
    venue with the contract.
  \<^item> \<open>Risk_Gate\<close>, \<open>Risk_Safety\<close> (\<open>risk.rs\<close>): limits, token bucket and the decorated gateway; admitted
    batches are within the limits, the rate is bounded over any run, and the decorated gateway again
    satisfies \<open>venue_contract\<close>.
  \<^item> \<open>Overflow\<close> (\<open>overflow.rs\<close>): the channel as a step relation over sender, forwarding task,
    notification permits and receiver; bounded memory, order, no lost wake-up.  \<open>Market_Data\<close>
    (\<open>adapters/mod.rs\<close>): the events, their coalescing key and the poll-based subscription on top of
    that channel.
  \<^item> \<open>Envelope\<close> (\<open>longtrader-contract/src/envelope.rs\<close>), \<open>Stream_Client\<close> (\<open>longtrader-proto/src/client_core.rs\<close>,
    \<open>client.rs\<close>): framing, and the reading loop of a stream.
  \<^item> \<open>Proxy\<close> (\<open>session/proxy.rs\<close>): the trading, market-data and venue-operation services over all
    the components above; an accepted order is tracked, unwound, or its cancel was refused.
  \<^item> \<open>Remote\<close>, \<open>Remote_Link\<close> (\<open>adapters/remote.rs\<close>, \<open>longtrader-proto/src/transport.rs\<close>): every port over
    the calls of another worker, and a link that may lose requests and replies; the remote gateway
    satisfies \<open>venue_contract\<close> whenever the far venue does.
  \<^item> \<open>Worker\<close> (\<open>config.rs\<close>, \<open>strategies/registry.rs\<close>, \<open>session/server.rs\<close>, \<open>main.rs\<close>): configuration,
    choice of the backend, the strategy table, and start-up to the plan of what runs.
  \<^item> \<open>State_Store\<close> (\<open>state_store.rs\<close>), \<open>Simple_Grid\<close>, \<open>Grid_Safety\<close> (\<open>strategies/simple_grid\<close>,
    \<open>strategies/mod.rs\<close>): atomic state files and the grid strategy (locale \<open>quoting_guard\<close>,
    interpreted on a gateway that records the requests it receives).
  \<^item> \<open>Indicators\<close>, \<open>Indicator_Bounds\<close> (\<open>indicators/\<close>): the eleven indicators; oscillators stay in
    range and bands are ordered however decimals are rounded, the square root converges.  The
    predicate \<open>faithful\<close> states what is used of \<open>rust_decimal\<close>: exact order and signs, results
    rounded to a representable neighbour.
  \<^item> \<open>Strategy_Params\<close>, \<open>Executors\<close>, \<open>Executor_Safety\<close> (\<open>strategies/params.rs\<close>, \<open>twap_executor\<close>,
    \<open>vwap_executor\<close>, \<open>dca_executor\<close>): the ports of a strategy, market reads, and the executors with
    the locale \<open>polled_strategy\<close> for runs of polls and venue changes.
  \<^item> \<open>Signal_Strategies\<close>, \<open>Signal_Safety\<close>: the twelve candle strategies (\<open>ema_cross\<close>, \<open>supertrend\<close>,
    \<open>adx_trend\<close>, \<open>mean_reversion\<close>, \<open>momentum_factor\<close>, \<open>dual_thrust\<close>, \<open>darvas_box\<close>,
    \<open>bb_keltner_squeeze\<close>, \<open>cvd_divergence\<close>, \<open>ichimoku\<close>, \<open>macd_bb\<close>, \<open>bollinger_v2\<close>); the locales
    \<open>leg_trader\<close>, \<open>exposed_trader\<close> and \<open>phase_decision\<close> carry the proof that what they believe to hold
    is what the venue accepted.
  \<^item> \<open>Makers\<close>, \<open>Cross_Makers\<close>, \<open>Maker_Safety\<close>: the fifteen quoting strategies over one or two venues;
    polls are written with the combinators \<open>poll_bind\<close>, \<open>poll_call\<close>, \<open>poll_try\<close>.  The locale
    \<open>quoting_venue\<close>, interpreted on the mock venue, shows that makers that replace their quotes never
    cross themselves.
  \<^item> \<open>Arbitrage\<close>, \<open>Monitors\<close>, \<open>Hedge_Grid\<close>, \<open>Strategy_Safety\<close>: arbitrage and hedging strategies,
    scheduled and monitoring ones, the hedged and the skewed grid; the sentinel trips once per outage
    and retries a refused cancel, windows and positions stay well formed, draws are fractions.
  \<^item> \<open>Treasury\<close>, \<open>Treasury_Safety\<close>: the strategies that move, borrow, convert and value funds; the
    locale \<open>readable_wallet\<close> extends \<open>wallet_contract\<close>, and over the mock wallet no deposit moves
    twice.
  \<^item> \<open>Command_Line\<close>, \<open>Terminal_Client\<close> (\<open>bin/longtrader-cli\<close>, \<open>crates/longtrader-catalog\<close>,
    \<open>longtrader-proto/src/client.rs\<close>): from the words of a command to the call it makes, the catalog of
    strategies, and the calls of the native client; an order that leaves the command line is what was
    typed, a command sends at most one request, and the catalog lists what the worker's registry can
    build.

  \<^bold>\<open>Concurrency.\<close>  An operation that holds a lock throughout is one step.  Where a handler of the
  proxies awaits, other tasks may run: the handler takes functions that stand for whatever they
  did at that point, and the theorems quantify over all such functions that keep the registry
  invariant.  The channel is a step relation at the granularity of its lock regions.  The watchdog
  checks sessions concurrently in the code; since each check touches one session only, they are
  folded in the order of the registry.

  \<^bold>\<open>Bounds and termination.\<close>  Loops are structural or have a measure: decoding consumes its input,
  a ladder has at most \<open>num_levels + 1\<close> rungs, draining a pipe decreases a lexicographic measure,
  the Newton loop has its 64 rounds.  One loop has fuel: the walk of the hedged grid up its band
  (\<open>hedge_grid_seed\<close>), whose decimal step may be lost to rounding, so that the walk need not end;
  without fuel the answer is \<open>None\<close>, and the theorems about it hold for every amount of fuel.  The endless
  loops (watchdog, poll loops, the run loops of the strategies) are steps of transition relations or
  sequences of polls.  The replay ring wraps at its capacity and sequence numbers are 64-bit words;
  statements that need no wrap-around say so.

  \<^bold>\<open>Not modelled.\<close>  Binding the listener and serving connections, argument parsing, logging,
  metrics and signals (\<open>session/server.rs\<close>, \<open>main.rs\<close>), the generated protobuf code, the browser
  client (\<open>longtrader-proto/src/client_wasm.rs\<close>), the printed tables of the command line client and the SDKs in other languages: input and output, generated code and
  formatting.  Reading a TOML table into a parameter record is derived code; the records
  and the checks made after it are modelled.  The order in which a hash map or set is walked is a
  parameter.  Loss of power between a write and its sync is outside the disk model, and the memory
  ordering of atomics is sequentially consistent here.
\<close>

end
